(* ===== verification/Prelude.thy ===== *)
theory Prelude
  imports Main "HOL-Library.Sublist" "HOL-Library.Multiset" "HOL-Library.Char_ord" "HOL-Library.List_Lexorder"
    "HOL-Library.AList"
begin

text \<open>
  Shared vocabulary of the development: the result type of fallible Go functions, decimal printing
  of integers (the verb \<^verbatim>\<open>%d\<close> of \<^verbatim>\<open>fmt.Sprintf\<close>), the functions of package
  \<^verbatim>\<open>strings\<close> the sources call, and generic facts on lists and maps.
  The collections \<open>go_defs\<close> and \<open>go_inv\<close> gather the facts that carry the component proofs.
\<close>

named_theorems go_defs \<open>definitions that component proofs unfold together\<close>
named_theorems go_inv \<open>preservation facts for the invariants of the components\<close>

section \<open>Results\<close>

text \<open>A Go function returning \<open>(T, error)\<close> is a sum: \<open>Inl\<close> the error, \<open>Inr\<close> the value.\<close>

type_synonym ('e, 'a) result = "'e + 'a"

fun is_err :: "('e, 'a) result \<Rightarrow> bool" where
  "is_err (Inl e) = True"
| "is_err (Inr a) = False"

lemma case_result_Inr_iff: "(case x of Inl e \<Rightarrow> Inl e | Inr a \<Rightarrow> f a) = Inr y \<longleftrightarrow> (\<exists>a. x = Inr a \<and> f a = Inr y)"
  by (cases x) auto

section \<open>Decimal printing\<close>

definition digit_char :: "nat \<Rightarrow> char" where
  "digit_char d = char_of (48 + d)"

fun show_nat :: "nat \<Rightarrow> string" where
  "show_nat n = (if n < 10 then [digit_char n] else show_nat (n div 10) @ [digit_char (n mod 10)])"

declare show_nat.simps [simp del]

definition show_int :: "int \<Rightarrow> string" where
  "show_int i = (if i < 0 then CHR ''-'' # show_nat (nat (- i)) else show_nat (nat i))"

definition is_digit_char :: "char \<Rightarrow> bool" where
  "is_digit_char c \<longleftrightarrow> 48 \<le> (of_char c :: nat) \<and> (of_char c :: nat) \<le> 57"

definition read_nat :: "string \<Rightarrow> nat" where
  "read_nat s = foldl (\<lambda>a c. 10 * a + (of_char c - 48)) 0 s"

lemma of_digit_char [simp]: "d < 10 \<Longrightarrow> (of_char (digit_char d) :: nat) = 48 + d"
  by (simp add: digit_char_def)

lemma is_digit_digit_char [simp]: "d < 10 \<Longrightarrow> is_digit_char (digit_char d)"
  by (simp add: is_digit_char_def)

lemma read_nat_append: "read_nat (s @ [c]) = 10 * read_nat s + (of_char c - 48)"
  by (simp add: read_nat_def)

lemma read_show_nat [simp]: "read_nat (show_nat n) = n"
proof (induction n rule: show_nat.induct)
  case (1 n)
  show ?case
  proof (cases "n < 10")
    case True
    then show ?thesis by (simp add: show_nat.simps read_nat_def)
  next
    case False
    with 1 have "read_nat (show_nat (n div 10)) = n div 10" by simp
    with False show ?thesis by (subst show_nat.simps) (simp add: read_nat_append)
  qed
qed

lemma show_nat_inj [simp]: "show_nat m = show_nat n \<longleftrightarrow> m = n"
  by (metis read_show_nat)

lemma show_nat_digits: "c \<in> set (show_nat n) \<Longrightarrow> is_digit_char c"
proof (induction n arbitrary: c rule: show_nat.induct)
  case (1 n)
  then show ?case
    by (cases "n < 10") (subst (asm) show_nat.simps, auto)+
qed

lemma show_nat_not_Nil [simp]: "show_nat n \<noteq> []"
  by (subst show_nat.simps) simp

lemma digit_not_minus: "is_digit_char c \<Longrightarrow> c \<noteq> CHR ''-''"
  by (auto simp: is_digit_char_def)

lemma digit_not_colon: "is_digit_char c \<Longrightarrow> c \<noteq> CHR '':''"
  by (auto simp: is_digit_char_def)

lemma show_nat_no_minus: "CHR ''-'' \<notin> set (show_nat n)"
  using digit_not_minus show_nat_digits by blast

lemma show_int_inj [simp]: "show_int i = show_int j \<longleftrightarrow> i = j"
proof
  assume eq: "show_int i = show_int j"
  have neq: "CHR ''-'' # show_nat a \<noteq> show_nat b" "show_nat b \<noteq> CHR ''-'' # show_nat a" for a b
    using show_nat_no_minus [of b] by (metis list.set_intros(1))+
  show "i = j"
    using eq by (auto simp: show_int_def neq split: if_splits)
qed simp

lemma show_int_no_colon: "CHR '':'' \<notin> set (show_int i)"
  using digit_not_colon show_nat_digits by (auto simp: show_int_def)

text \<open>\<^verbatim>\<open>appendInt(b, x, width)\<close> of package time: the sign, then the digits padded with zeros.\<close>

definition pad_nat :: "nat \<Rightarrow> nat \<Rightarrow> string" where
  "pad_nat w n = replicate (w - length (show_nat n)) (CHR ''0'') @ show_nat n"

definition pad_int :: "nat \<Rightarrow> int \<Rightarrow> string" where
  "pad_int w i = (if i < 0 then CHR ''-'' # pad_nat w (nat (- i)) else pad_nat w (nat i))"

lemma read_nat_zeros: "read_nat (replicate k (CHR ''0'') @ s) = read_nat s"
  by (induction k) (auto simp: read_nat_def)

lemma read_pad_nat [simp]: "read_nat (pad_nat w n) = n"
  by (simp add: pad_nat_def read_nat_zeros)

lemma pad_nat_inj [simp]: "pad_nat w m = pad_nat w n \<longleftrightarrow> m = n"
  by (metis read_pad_nat)

lemma pad_nat_no_minus: "CHR ''-'' \<notin> set (pad_nat w n)"
  using show_nat_no_minus by (auto simp: pad_nat_def)

lemma pad_nat_not_minus_Cons [simp]:
  "CHR ''-'' # a \<noteq> pad_nat w b" "pad_nat w b \<noteq> CHR ''-'' # a"
  using pad_nat_no_minus [of w b] by (metis list.set_intros(1))+

lemma pad_int_inj [simp]: "pad_int w i = pad_int w j \<longleftrightarrow> i = j"
  by (auto simp: pad_int_def split: if_splits)

text \<open>Splitting a concatenation at the first occurrence of a separator is unambiguous.\<close>

lemma sep_append_inj:
  assumes "c \<notin> set xs" "c \<notin> set ys" "xs @ c # us = ys @ c # vs"
  shows "xs = ys \<and> us = vs"
  using assms
proof (induction xs arbitrary: ys)
  case Nil
  then show ?case by (cases ys) auto
next
  case (Cons x xs)
  then show ?case by (cases ys) auto
qed

lemma append_sep_inj:
  assumes "c \<notin> set us" "c \<notin> set vs" "xs @ c # us = ys @ c # vs"
  shows "xs = ys \<and> us = vs"
  using sep_append_inj [of c "rev us" "rev vs" "rev xs" "rev ys"] assms
  by (metis append.assoc append_Cons append_Nil rev.simps(2) rev_append rev_rev_ident set_rev)

section \<open>Package strings\<close>

fun split_on :: "char \<Rightarrow> string \<Rightarrow> string list" where
  "split_on c [] = [[]]"
| "split_on c (x # xs) =
     (if x = c then [] # split_on c xs
      else (case split_on c xs of [] \<Rightarrow> [[x]] | w # ws \<Rightarrow> (x # w) # ws))"

definition go_contains :: "string \<Rightarrow> string \<Rightarrow> bool" where
  "go_contains s sub \<longleftrightarrow> sublist sub s"

lemma split_on_not_Nil [simp]: "split_on c s \<noteq> []"
  by (induction s) (auto split: list.splits)

lemma split_on_no_sep: "c \<notin> set s \<Longrightarrow> split_on c s = [s]"
  by (induction s) auto

lemma split_on_append: "c \<notin> set a \<Longrightarrow> split_on c (a @ c # b) = a # split_on c b"
  by (induction a) auto

section \<open>Lists and maps\<close>

lemma sorted_map_filter: "sorted (map f xs) \<Longrightarrow> sorted (map f (filter P xs))"
  by (induction xs) auto

lemma sorted_map_hd: "sorted (map f xs) \<Longrightarrow> x \<in> set xs \<Longrightarrow> f (hd xs) \<le> (f x :: 'b::linorder)"
  by (cases xs) auto

lemma sorted_map_last: "sorted (map f xs) \<Longrightarrow> x \<in> set xs \<Longrightarrow> (f x :: 'b::linorder) \<le> f (last xs)"
  by (induction xs) auto

lemma in_set_map_filter: "y \<in> set (List.map_filter f xs) \<longleftrightarrow> (\<exists>x\<in>set xs. f x = Some y)"
  by (induction xs) (auto simp: map_filter_simps split: option.splits)

lemma case_option_Some_iff: "(case x of None \<Rightarrow> None | Some a \<Rightarrow> f a) = Some y \<longleftrightarrow> (\<exists>a. x = Some a \<and> f a = Some y)"
  by (cases x) auto

lemma if_None_Some_iff: "(if b then None else z) = Some y \<longleftrightarrow> \<not> b \<and> z = Some y"
  by simp

text \<open>
  A Go map is an association list with distinct keys, in the order of first insertion. Reading a
  missing key gives the zero value of the element type. The order in which \<^verbatim>\<open>range\<close> visits
  the keys is unspecified in Go: a loop whose outcome may depend on it takes the visiting order as an
  argument, a function that permutes the list of keys.
\<close>

type_synonym ('k, 'v) gomap = "('k \<times> 'v) list"

definition gm_keys :: "('k, 'v) gomap \<Rightarrow> 'k list" where
  "gm_keys m = map fst m"

definition gm_get :: "('k, 'v) gomap \<Rightarrow> 'v \<Rightarrow> 'k \<Rightarrow> 'v" where
  "gm_get m z k = (case map_of m k of None \<Rightarrow> z | Some v \<Rightarrow> v)"

abbreviation gm_put :: "'k \<Rightarrow> 'v \<Rightarrow> ('k, 'v) gomap \<Rightarrow> ('k, 'v) gomap" where
  "gm_put \<equiv> AList.update"

definition permutes_keys :: "('k list \<Rightarrow> 'k list) \<Rightarrow> bool" where
  "permutes_keys rng \<longleftrightarrow> (\<forall>ks. mset (rng ks) = mset ks)"

lemma gm_get_put: "gm_get (gm_put k v m) z k' = (if k = k' then v else gm_get m z k')"
  by (simp add: gm_get_def update_conv')

lemma gm_get_Nil [simp]: "gm_get [] z k = z"
  by (simp add: gm_get_def)

lemma gm_keys_put: "gm_keys (gm_put k v m) = (if k \<in> set (gm_keys m) then gm_keys m else gm_keys m @ [k])"
  by (simp add: gm_keys_def update_keys)

lemma set_gm_keys_put [simp]: "set (gm_keys (gm_put k v m)) = insert k (set (gm_keys m))"
  by (auto simp: gm_keys_put)

lemma distinct_gm_keys_put: "distinct (gm_keys m) \<Longrightarrow> distinct (gm_keys (gm_put k v m))"
  by (simp add: gm_keys_put)

lemma set_gm_put: "distinct (map fst m) \<Longrightarrow> set (gm_put k v m) = insert (k, v) {p \<in> set m. fst p \<noteq> k}"
  by (induction m) (auto, metis fst_conv image_eqI)

lemma gm_get_notin: "k \<notin> set (gm_keys m) \<Longrightarrow> gm_get m z k = z"
  by (simp add: gm_get_def gm_keys_def map_of_eq_None_iff [THEN iffD2])

lemma permutes_keys_id: "permutes_keys (\<lambda>ks. ks)"
  by (simp add: permutes_keys_def)

lemma permutes_keys_set: "permutes_keys rng \<Longrightarrow> set (rng ks) = set ks"
  unfolding permutes_keys_def by (metis set_mset_mset)

lemma permutes_keys_distinct: "permutes_keys rng \<Longrightarrow> distinct (rng ks) = distinct ks"
  unfolding permutes_keys_def by (metis mset_eq_imp_distinct_iff)

text \<open>
  \<^verbatim>\<open>sort.Slice\<close> orders a slice by a key but does not keep the order of equal elements: a caller
  takes the sorting function as an argument, any function that returns an ordered permutation.
\<close>

definition slice_sort :: "('a \<Rightarrow> 'k::linorder) \<Rightarrow> ('a list \<Rightarrow> 'a list) \<Rightarrow> bool" where
  "slice_sort key srt \<longleftrightarrow> (\<forall>xs. mset (srt xs) = mset xs \<and> sorted (map key (srt xs)))"

lemma slice_sort_sort_key: "slice_sort key (sort_key key)"
  by (simp add: slice_sort_def)

lemma slice_sort_set: "slice_sort key srt \<Longrightarrow> set (srt xs) = set xs"
  unfolding slice_sort_def by (metis set_mset_mset)

lemma slice_sort_length: "slice_sort key srt \<Longrightarrow> length (srt xs) = length xs"
  unfolding slice_sort_def by (metis size_mset)

lemma slice_sort_Nil: "slice_sort key srt \<Longrightarrow> srt xs = [] \<longleftrightarrow> xs = []"
  unfolding slice_sort_def by (metis mset_zero_iff)

end
