(* ===== verification/Go_Time.thy ===== *)
theory Go_Time
  imports Prelude
begin

text \<open>
  The part of package \<^verbatim>\<open>time\<close> the sources use. An instant is the number of nanoseconds since
  the zero \<^verbatim>\<open>time.Time\<close> (January 1, year 1, UTC): \<^verbatim>\<open>IsZero\<close> is \<open>t = 0\<close> and
  \<^verbatim>\<open>Truncate\<close>, which Go measures from the zero time, is a remainder. Every call site applies
  \<^verbatim>\<open>UTC()\<close>, which does not change the instant. Durations are nanoseconds. The planner's
  instants stay within centuries of the present, far inside the range of Go's 64-bit seconds, so both
  are \<open>int\<close>.
\<close>

type_synonym gotime = int
type_synonym duration = int

abbreviation (input) is_zero_time :: "gotime \<Rightarrow> bool" where "is_zero_time t \<equiv> t = 0"

definition Second :: duration where "Second = 1000000000"
definition Minute :: duration where "Minute = 60 * Second"
definition Hour :: duration where "Hour = 60 * Minute"
definition Day :: duration where "Day = 24 * Hour"

text \<open>Seconds from the zero time to the Unix epoch.\<close>

definition unix_offset :: int where "unix_offset = 62135596800"

definition unix :: "gotime \<Rightarrow> int" where
  "unix t = t div Second - unix_offset"

definition from_unix :: "int \<Rightarrow> gotime" where
  "from_unix s = (s + unix_offset) * Second"

definition trunc_time :: "gotime \<Rightarrow> duration \<Rightarrow> gotime" where
  "trunc_time t d = (if d \<le> 0 then t else t - t mod d)"

lemmas time_units [simp] = Second_def Minute_def Hour_def Day_def

lemma unix_from_unix [simp]: "unix (from_unix s) = s"
  by (simp add: unix_def from_unix_def)

lemma trunc_time_le: "trunc_time t d \<le> t"
  by (simp add: trunc_time_def)

lemma trunc_time_gt: "0 < d \<Longrightarrow> t < trunc_time t d + d"
  by (simp add: trunc_time_def)

lemma trunc_time_dvd: "0 < d \<Longrightarrow> d dvd trunc_time t d"
  by (simp add: trunc_time_def dvd_minus_mod)

lemma trunc_time_id: "d dvd t \<Longrightarrow> trunc_time t d = t"
  by (simp add: trunc_time_def)

lemma trunc_time_mono: "s \<le> t \<Longrightarrow> trunc_time s d \<le> trunc_time t d"
  by (auto simp: trunc_time_def minus_mod_eq_mult_div zdiv_mono1)

text \<open>Truncating whole seconds to hours or days agrees with the arithmetic on Unix seconds.\<close>

definition hour_of_unix :: "int \<Rightarrow> int" where
  "hour_of_unix s = unix (trunc_time (from_unix s) Hour)"

definition day_of_unix :: "int \<Rightarrow> int" where
  "day_of_unix s = unix (trunc_time (from_unix s) Day)"

lemma unix_trunc_seconds:
  assumes "0 < k" "k dvd unix_offset"
  shows "unix (trunc_time (from_unix s) (k * Second)) = s - s mod k"
proof -
  have "(s + unix_offset) mod k = s mod k"
    using assms(2) by (metis add.right_neutral dvd_imp_mod_0 mod_add_right_eq)
  moreover have "from_unix s mod (k * Second) = ((s + unix_offset) mod k) * Second"
    by (simp add: from_unix_def mod_mult_mult2 del: time_units)
  ultimately have "trunc_time (from_unix s) (k * Second) = (s + unix_offset - s mod k) * Second"
    using assms(1) by (simp add: trunc_time_def from_unix_def algebra_simps)
  then show ?thesis by (simp add: unix_def)
qed

lemma hour_of_unix_eq: "hour_of_unix s = s - s mod 3600"
  using unix_trunc_seconds [of 3600 s] by (simp add: hour_of_unix_def unix_offset_def)

lemma day_of_unix_eq: "day_of_unix s = s - s mod 86400"
  using unix_trunc_seconds [of 86400 s] by (simp add: day_of_unix_def unix_offset_def)

section \<open>Calendar dates\<close>

text \<open>
  The civil date of a day number (days since January 1, year 1): cut off the cycles of 400, 100, 4
  and 1 years, then read month and day off the day of the year.
\<close>

record civil =
  cyear :: int
  cmonth :: int
  cday :: int

definition year_yday :: "int \<Rightarrow> int \<times> int" where
  "year_yday n =
     (let a = n div 146097; d1 = n mod 146097;
          b0 = d1 div 36524; b = b0 - b0 div 4; d2 = d1 - 36524 * b;
          c = d2 div 1461; d3 = d2 - 1461 * c;
          e0 = d3 div 365; e = e0 - e0 div 4; d4 = d3 - 365 * e
      in (400 * a + 100 * b + 4 * c + e + 1, d4))"

definition is_leap :: "int \<Rightarrow> bool" where
  "is_leap y \<longleftrightarrow> y mod 4 = 0 \<and> (y mod 100 \<noteq> 0 \<or> y mod 400 = 0)"

definition days_before :: "int \<Rightarrow> int" where
  "days_before m =
     (if m \<le> 0 then 0 else if m = 1 then 31 else if m = 2 then 59 else if m = 3 then 90
      else if m = 4 then 120 else if m = 5 then 151 else if m = 6 then 181 else if m = 7 then 212
      else if m = 8 then 243 else if m = 9 then 273 else if m = 10 then 304 else if m = 11 then 334
      else 365)"

definition month_day :: "bool \<Rightarrow> int \<Rightarrow> int \<times> int" where
  "month_day leap yday =
     (if leap \<and> yday = 59 then (2, 29)
      else let d = (if leap \<and> yday > 59 then yday - 1 else yday);
               m = d div 31
           in if d \<ge> days_before (m + 1) then (m + 2, d - days_before (m + 1) + 1)
              else (m + 1, d - days_before m + 1))"

definition civil_of_day :: "int \<Rightarrow> civil" where
  "civil_of_day n =
     (let (y, yd) = year_yday n; (m, d) = month_day (is_leap y) yd
      in \<lparr>cyear = y, cmonth = m, cday = d\<rparr>)"

definition civil :: "gotime \<Rightarrow> civil" where
  "civil t = civil_of_day (t div Day)"

text \<open>\<^verbatim>\<open>Format("2006-01-02")\<close>, the key of the coverage maps.\<close>

definition fmt_civil_day :: "civil \<Rightarrow> string" where
  "fmt_civil_day c = pad_int 4 (cyear c) @ ''-'' @ pad_int 2 (cmonth c) @ ''-'' @ pad_int 2 (cday c)"

definition fmt_day :: "gotime \<Rightarrow> string" where
  "fmt_day t = fmt_civil_day (civil t)"

definition month_abbrev :: "int \<Rightarrow> string" where
  "month_abbrev m =
     (if m = 1 then ''Jan'' else if m = 2 then ''Feb'' else if m = 3 then ''Mar''
      else if m = 4 then ''Apr'' else if m = 5 then ''May'' else if m = 6 then ''Jun''
      else if m = 7 then ''Jul'' else if m = 8 then ''Aug'' else if m = 9 then ''Sep''
      else if m = 10 then ''Oct'' else if m = 11 then ''Nov'' else ''Dec'')"

text \<open>\<^verbatim>\<open>Format("Jan 2 2006 15:04")\<close>.\<close>

definition fmt_minute :: "gotime \<Rightarrow> string" where
  "fmt_minute t =
     (let c = civil t in
      month_abbrev (cmonth c) @ '' '' @ show_int (cday c) @ '' '' @ pad_int 4 (cyear c) @ '' '' @
      pad_int 2 (t mod Day div Hour) @ '':'' @ pad_int 2 (t mod Hour div Minute))"

text \<open>Dropping the fifth quotient of a cycle (\<open>n - n div 4\<close>) leaves the last, longer, year whole.\<close>

lemma cut_cycle:
  fixes d w :: int
  assumes "0 < w" "0 \<le> d" "d < 5 * w"
  shows "d div w - d div w div 4 = (if d < 4 * w then d div w else 3)"
    and "0 \<le> d div w" and "d < 4 * w \<Longrightarrow> d div w \<le> 3"
proof -
  have r: "w * (d div w) \<le> d" "d < w * (d div w) + w"
    using assms(1) pos_mod_sign [of w d] pos_mod_bound [of w d] mult_div_mod_eq [of w d] by linarith+
  have less: "d < k * w \<longleftrightarrow> d div w < k" for k
  proof
    assume "d < k * w"
    then have "w * (d div w) < w * k" using r(1) by (simp add: mult.commute)
    then show "d div w < k" using assms(1) by simp
  next
    assume "d div w < k"
    then have "w * (d div w + 1) \<le> w * k" using assms(1) by simp
    then show "d < k * w" using r(2) by (simp add: algebra_simps)
  qed
  have q: "0 \<le> d div w" using assms by (simp add: pos_imp_zdiv_nonneg_iff)
  then show "0 \<le> d div w" .
  have "d div w < 5" using assms less by simp
  then show "d div w - d div w div 4 = (if d < 4 * w then d div w else 3)"
    using q by (auto simp: less)
  show "d < 4 * w \<Longrightarrow> d div w \<le> 3" by (simp add: less)
qed

lemma year_yday_parts:
  obtains a b c e where
    "n = 146097 * a + 36524 * b + 1461 * c + 365 * e + snd (year_yday n)"
    "fst (year_yday n) = 400 * a + 100 * b + 4 * c + e + 1"
    "0 \<le> b" "b \<le> 3" "0 \<le> c" "c \<le> 24" "0 \<le> e" "e \<le> 3"
    "0 \<le> snd (year_yday n)" "snd (year_yday n) \<le> 365"
proof -
  define a d1 b d2 c d3 e where
    "a = n div 146097" "d1 = n mod 146097" "b = d1 div 36524 - d1 div 36524 div 4"
    "d2 = d1 - 36524 * b" "c = d2 div 1461" "d3 = d2 - 1461 * c" "e = d3 div 365 - d3 div 365 div 4"
  note defs = this
  have d1: "0 \<le> d1" "d1 < 146097" by (simp_all add: defs)
  have md: "d1 = 36524 * (d1 div 36524) + d1 mod 36524" "0 \<le> d1 mod 36524" "d1 mod 36524 < 36524"
    by simp_all
  have b: "0 \<le> b" "b \<le> 3" "0 \<le> d2" "d2 \<le> 36524"
    using cut_cycle [of 36524 d1] d1 md unfolding defs(3,4) by (auto split: if_splits)
  have cd: "d2 = 1461 * c + d3" "0 \<le> d3" "d3 < 1461"
    by (simp_all add: defs(5,6) minus_mult_div_eq_mod)
  have c: "0 \<le> c" "c \<le> 24" using cd b by linarith+
  have me: "d3 = 365 * (d3 div 365) + d3 mod 365" "0 \<le> d3 mod 365" "d3 mod 365 < 365"
    by simp_all
  have e: "0 \<le> e" "e \<le> 3" "0 \<le> d3 - 365 * e" "d3 - 365 * e \<le> 365"
    using cut_cycle [of 365 d3] cd me unfolding defs(7) by (auto split: if_splits)
  have yy: "year_yday n = (400 * a + 100 * b + 4 * c + e + 1, d3 - 365 * e)"
    by (simp only: year_yday_def Let_def defs)
  have n: "n = 146097 * a + d1" by (simp add: defs(1,2))
  show ?thesis
    by (rule that [of a b c e]) (unfold yy fst_conv snd_conv, (use b c e cd n defs(4) in linarith)+)
qed

lemma quot_rem_unique:
  fixes w :: int
  assumes "w * x + r = w * x' + r'" "0 \<le> r" "r < w" "0 \<le> r'" "r' < w"
  shows "x = x' \<and> r = r'"
proof -
  have "x = (w * x + r) div w" "x' = (w * x' + r') div w" using assms(2-5) by simp_all
  with assms(1) show ?thesis by simp
qed

lemma year_yday_inj:
  assumes "year_yday n = year_yday n'"
  shows "n = n'"
proof -
  obtain a b c e where p: "n = 146097 * a + 36524 * b + 1461 * c + 365 * e + snd (year_yday n)"
      "fst (year_yday n) = 400 * a + 100 * b + 4 * c + e + 1"
      "0 \<le> b" "b \<le> 3" "0 \<le> c" "c \<le> 24" "0 \<le> e" "e \<le> 3"
    by (rule year_yday_parts)
  obtain a' b' c' e' where q: "n' = 146097 * a' + 36524 * b' + 1461 * c' + 365 * e' + snd (year_yday n')"
      "fst (year_yday n') = 400 * a' + 100 * b' + 4 * c' + e' + 1"
      "0 \<le> b'" "b' \<le> 3" "0 \<le> c'" "c' \<le> 24" "0 \<le> e'" "e' \<le> 3"
    by (rule year_yday_parts)
  define k k' where "k = 25 * b + c" and "k' = 25 * b' + c'"
  have "4 * (100 * a + k) + e = 4 * (100 * a' + k') + e'"
    using assms p(2) q(2) by (simp add: k_def k'_def)
  then have e: "100 * a + k = 100 * a' + k' \<and> e = e'" using p(7,8) q(7,8) by (intro quot_rem_unique [of 4]) simp_all
  have k: "a = a' \<and> k = k'"
    using e p(3-6) q(3-6) by (intro quot_rem_unique [of 100]) (simp_all add: k_def k'_def)
  then have "b = b' \<and> c = c'"
    using p(5,6) q(5,6) by (intro quot_rem_unique [of 25]) (simp_all add: k_def k'_def)
  with e k p(1) q(1) assms show ?thesis by simp
qed

definition yday_of :: "bool \<Rightarrow> int \<Rightarrow> int \<Rightarrow> int" where
  "yday_of leap m d = days_before (m - 1) + d - 1 + (if leap \<and> m > 2 then 1 else 0)"

lemma month_day_split:
  assumes "0 \<le> d" "d \<le> 365"
  shows "\<exists>m. 0 \<le> m \<and> m \<le> 12 \<and> days_before m \<le> d \<and> (d \<ge> 59 \<longleftrightarrow> m \<ge> 2) \<and>
    (if d \<ge> days_before (d div 31 + 1) then (d div 31 + 2, d - days_before (d div 31 + 1) + 1)
     else (d div 31 + 1, d - days_before (d div 31) + 1)) = (m + 1, d - days_before m + 1)"
proof -
  define q where "q = d div 31"
  have q: "31 * q \<le> d" "d < 31 * q + 31" "0 \<le> q" "q \<le> 11"
    using assms unfolding q_def by linarith+
  from q(3,4) have "q = 0 \<or> q = 1 \<or> q = 2 \<or> q = 3 \<or> q = 4 \<or> q = 5 \<or> q = 6 \<or> q = 7
    \<or> q = 8 \<or> q = 9 \<or> q = 10 \<or> q = 11" by presburger
  then have "0 \<le> q \<and> days_before q \<le> d \<and> (d < days_before (q + 1) \<longrightarrow> (d \<ge> 59 \<longleftrightarrow> q \<ge> 2)) \<and>
      (d \<ge> days_before (q + 1) \<longrightarrow> (d \<ge> 59 \<longleftrightarrow> q \<ge> 1))"
    by (elim disjE) (use q in \<open>auto simp: days_before_def\<close>)
  note f = this
  show ?thesis
  proof (cases "d \<ge> days_before (q + 1)")
    case True
    then show ?thesis using f q by (intro exI [of _ "q + 1"]) (simp add: q_def [symmetric])
  next
    case False
    then show ?thesis using f q by (intro exI [of _ q]) (simp add: q_def [symmetric])
  qed
qed

lemma yday_of_month_day:
  assumes "0 \<le> yd" "yd \<le> 365"
  shows "yday_of l (fst (month_day l yd)) (snd (month_day l yd)) = yd"
    and "1 \<le> fst (month_day l yd)" and "1 \<le> snd (month_day l yd)"
proof -
  define d where "d = (if l \<and> yd > 59 then yd - 1 else yd)"
  show "yday_of l (fst (month_day l yd)) (snd (month_day l yd)) = yd"
    "1 \<le> fst (month_day l yd)" "1 \<le> snd (month_day l yd)"
  proof (atomize(full), cases "l \<and> yd = 59")
    case True
    then show "yday_of l (fst (month_day l yd)) (snd (month_day l yd)) = yd \<and>
        1 \<le> fst (month_day l yd) \<and> 1 \<le> snd (month_day l yd)"
      by (simp add: month_day_def yday_of_def days_before_def)
  next
    case False
    then have md: "month_day l yd =
        (if d \<ge> days_before (d div 31 + 1) then (d div 31 + 2, d - days_before (d div 31 + 1) + 1)
         else (d div 31 + 1, d - days_before (d div 31) + 1))"
      by (simp only: month_day_def Let_def d_def if_False)
    have "0 \<le> d" "d \<le> 365" using assms by (auto simp: d_def)
    then obtain m where m: "0 \<le> m" "days_before m \<le> d" "d \<ge> 59 \<longleftrightarrow> m \<ge> 2"
        "month_day l yd = (m + 1, d - days_before m + 1)"
      using month_day_split [of d] md by metis
    then show "yday_of l (fst (month_day l yd)) (snd (month_day l yd)) = yd \<and>
        1 \<le> fst (month_day l yd) \<and> 1 \<le> snd (month_day l yd)"
      using False by (auto simp: yday_of_def d_def split: if_splits)
  qed
qed

lemma civil_of_day_inj: "civil_of_day n = civil_of_day n' \<Longrightarrow> n = n'"
proof -
  assume eq: "civil_of_day n = civil_of_day n'"
  obtain y yd y' yd' where yy: "year_yday n = (y, yd)" "year_yday n' = (y', yd')"
    by fastforce
  have b: "0 \<le> yd" "yd \<le> 365" "0 \<le> yd'" "yd' \<le> 365"
    using year_yday_parts [of n] year_yday_parts [of n'] yy by (metis snd_conv)+
  from eq have "y = y'" and "month_day (is_leap y) yd = month_day (is_leap y') yd'"
    by (auto simp: civil_of_day_def yy split: prod.splits)
  then have "yd = yd'" using yday_of_month_day(1) [of yd] yday_of_month_day(1) [of yd'] b by metis
  with \<open>y = y'\<close> yy show "n = n'" using year_yday_inj by simp
qed

lemma civil_of_day_pos: "1 \<le> cmonth (civil_of_day n) \<and> 1 \<le> cday (civil_of_day n)"
proof -
  obtain y yd where yy: "year_yday n = (y, yd)" by fastforce
  have "0 \<le> yd" "yd \<le> 365" using year_yday_parts [of n] yy by (metis snd_conv)+
  then show ?thesis
    using yday_of_month_day(2,3) [of yd "is_leap y"] by (auto simp: civil_of_day_def yy split: prod.splits)
qed

text \<open>Distinct days have distinct keys, so a coverage map keyed by the printed date is keyed by the day.\<close>

lemma pad_int_nonneg_no_minus: "0 \<le> i \<Longrightarrow> CHR ''-'' \<notin> set (pad_int w i)"
  using pad_nat_no_minus by (simp add: pad_int_def)

lemma fmt_civil_day_inj:
  assumes "fmt_civil_day c = fmt_civil_day c'"
    and "1 \<le> cmonth c" "1 \<le> cmonth c'"
  shows "c = c'"
proof -
  have key: "pad_nat 4 a @ ''-'' @ u = pad_nat 4 a' @ ''-'' @ u' \<Longrightarrow> a = a' \<and> u = u'" for a a' u u'
    using sep_append_inj [of "CHR ''-''" "pad_nat 4 a" "pad_nat 4 a'" u u'] pad_nat_no_minus by simp
  have "cyear c = cyear c' \<and> pad_int 2 (cmonth c) @ ''-'' @ pad_int 2 (cday c) =
      pad_int 2 (cmonth c') @ ''-'' @ pad_int 2 (cday c')"
  proof (cases "(cyear c < 0) = (cyear c' < 0)")
    case True
    then show ?thesis
      using assms(1) unfolding fmt_civil_day_def pad_int_def [of 4]
      by (cases "cyear c < 0") (auto simp del: append_Cons append_Nil dest!: key simp: append_Cons [of "CHR ''-''" "pad_nat _ _"])
  next
    case False
    have neq: "CHR ''-'' # s \<noteq> pad_nat 4 k @ t" "pad_nat 4 k @ t \<noteq> CHR ''-'' # s" for s k t
      using pad_nat_no_minus [of 4 k] by (cases "pad_nat 4 k"; auto simp: pad_nat_def)+
    show ?thesis using False assms(1) by (auto simp: fmt_civil_day_def pad_int_def neq)
  qed
  moreover have "cmonth c = cmonth c' \<and> cday c = cday c'"
    using calculation sep_append_inj [of "CHR ''-''" "pad_int 2 (cmonth c)" "pad_int 2 (cmonth c')"
        "pad_int 2 (cday c)" "pad_int 2 (cday c')"]
      pad_int_nonneg_no_minus [of "cmonth c"] pad_int_nonneg_no_minus [of "cmonth c'"] assms(2,3) by simp
  ultimately show ?thesis by (cases c; cases c') simp
qed

lemma fmt_day_inj: "fmt_day s = fmt_day t \<longleftrightarrow> s div Day = t div Day"
proof
  assume "fmt_day s = fmt_day t"
  then have "civil_of_day (s div Day) = civil_of_day (t div Day)"
    unfolding fmt_day_def civil_def using fmt_civil_day_inj civil_of_day_pos by blast
  then show "s div Day = t div Day" by (rule civil_of_day_inj)
qed (simp add: fmt_day_def civil_def)

section \<open>Printing durations\<close>

text \<open>\<^verbatim>\<open>time.Duration.String\<close>: hours, minutes and seconds, or a smaller unit below one second.\<close>

fun strip_zeros :: "string \<Rightarrow> string" where
  "strip_zeros [] = []"
| "strip_zeros (c # cs) = (if c = CHR ''0'' then strip_zeros cs else c # cs)"

definition fmt_frac :: "nat \<Rightarrow> nat \<Rightarrow> string" where
  "fmt_frac digits v =
     (let frac = rev (strip_zeros (rev (pad_nat digits v))) in if frac = [] then [] else CHR ''.'' # frac)"

definition show_scaled :: "nat \<Rightarrow> nat \<Rightarrow> string" where
  "show_scaled digits v = show_nat (v div 10 ^ digits) @ fmt_frac digits (v mod 10 ^ digits)"

definition micro_sign :: string where "micro_sign = [CHR 0xC2, CHR 0xB5]"

definition show_duration_abs :: "nat \<Rightarrow> string" where
  "show_duration_abs u =
     (if u = 0 then ''0s''
      else if u < 1000 then show_nat u @ ''ns''
      else if u < 1000000 then show_scaled 3 u @ micro_sign @ ''s''
      else if u < 1000000000 then show_scaled 6 u @ ''ms''
      else
        let secs = u div 1000000000;
            s = show_nat (secs mod 60) @ fmt_frac 9 (u mod 1000000000) @ ''s'';
            m = secs div 60
        in if m = 0 then s
           else let ms = show_nat (m mod 60) @ ''m'' @ s; h = m div 60
                in if h = 0 then ms else show_nat h @ ''h'' @ ms)"

definition show_duration :: "duration \<Rightarrow> string" where
  "show_duration d = (if d < 0 then CHR ''-'' # show_duration_abs (nat (- d)) else show_duration_abs (nat d))"

end
