(* ===== verification/Go_Float.thy ===== *)
theory Go_Float
  imports Prelude Complex_Main
begin

text \<open>
  Go's \<^verbatim>\<open>float64\<close>: an IEEE 754 binary64 value is not-a-number, an infinity or a finite
  rational. Each arithmetic operation is computed exactly on the rationals and rounded once to the
  nearest value with a 53 bit significand and an exponent of at least \<open>-1074\<close>, ties to even;
  magnitudes of \<open>2 ^ 1024\<close> and more become an infinity. Comparisons with not-a-number are false.
  The two zeros are one value here: the modelled code compares with zero and guards its divisions by
  values that may be zero, so it never observes the sign of a zero.
\<close>

datatype float64 = NaN | PInf | NInf | Fin rat

section \<open>Integers\<close>

text \<open>
  Integer division and remainder cut towards zero, and so does the conversion of a float to \<^verbatim>\<open>int64\<close>; of a value that
  does not fit, amd64 makes the least \<^verbatim>\<open>int64\<close>.
\<close>

fun float_to_int :: "float64 \<Rightarrow> int" where
  "float_to_int (Fin q) =
     (let v = (if 0 \<le> q then \<lfloor>q\<rfloor> else - \<lfloor>- q\<rfloor>) in if - (2 ^ 63) \<le> v \<and> v < 2 ^ 63 then v else - (2 ^ 63))"
| "float_to_int _ = - (2 ^ 63)"

definition go_div :: "int \<Rightarrow> int \<Rightarrow> int" where
  "go_div a b = sgn a * (\<bar>a\<bar> div b)"

definition go_rem :: "int \<Rightarrow> int \<Rightarrow> int" where
  "go_rem a b = sgn a * (\<bar>a\<bar> mod b)"

section \<open>Rounding\<close>

definition pow2 :: "int \<Rightarrow> rat" where
  "pow2 e = (if 0 \<le> e then 2 ^ nat e else 1 / 2 ^ nat (- e))"

fun bits :: "int \<Rightarrow> int" where
  "bits n = (if n \<le> 0 then 0 else bits (n div 2) + 1)"

declare bits.simps [simp del]

text \<open>The exponent of a positive rational: \<open>pow2 k \<le> q < pow2 (k + 1)\<close>.\<close>

definition ilog2 :: "rat \<Rightarrow> int" where
  "ilog2 q =
     (let (a, b) = quotient_of q; k = bits a - bits b
      in if pow2 k \<le> q then k else k - 1)"

definition round_half_even :: "rat \<Rightarrow> int" where
  "round_half_even x =
     (let f = \<lfloor>x\<rfloor>; d = x - of_int f
      in if d < 1 / 2 then f else if 1 / 2 < d then f + 1 else if even f then f else f + 1)"

definition ulp_exp :: "rat \<Rightarrow> int" where
  "ulp_exp q = max (- 1074) (ilog2 q - 52)"

definition round_pos :: "rat \<Rightarrow> rat" where
  "round_pos q = of_int (round_half_even (q / pow2 (ulp_exp q))) * pow2 (ulp_exp q)"

definition round_rat :: "rat \<Rightarrow> rat" where
  "round_rat q = (if q = 0 then 0 else if 0 < q then round_pos q else - round_pos (- q))"

definition round64 :: "rat \<Rightarrow> float64" where
  "round64 q =
     (let r = round_rat q
      in if pow2 1024 \<le> r then PInf else if r \<le> - pow2 1024 then NInf else Fin r)"

section \<open>Arithmetic and comparison\<close>

fun fneg :: "float64 \<Rightarrow> float64" where
  "fneg NaN = NaN"
| "fneg PInf = NInf"
| "fneg NInf = PInf"
| "fneg (Fin a) = Fin (- a)"

fun fadd :: "float64 \<Rightarrow> float64 \<Rightarrow> float64" where
  "fadd (Fin a) (Fin b) = round64 (a + b)"
| "fadd NaN y = NaN"
| "fadd x NaN = NaN"
| "fadd PInf NInf = NaN"
| "fadd NInf PInf = NaN"
| "fadd PInf y = PInf"
| "fadd NInf y = NInf"
| "fadd x y = y"

definition fsub :: "float64 \<Rightarrow> float64 \<Rightarrow> float64" where
  "fsub x y = fadd x (fneg y)"

definition inf_of_sign :: "rat \<Rightarrow> float64" where
  "inf_of_sign s = (if 0 < s then PInf else if s < 0 then NInf else NaN)"

fun sign_of :: "float64 \<Rightarrow> rat" where
  "sign_of NaN = 0"
| "sign_of PInf = 1"
| "sign_of NInf = - 1"
| "sign_of (Fin a) = sgn a"

fun fmul :: "float64 \<Rightarrow> float64 \<Rightarrow> float64" where
  "fmul (Fin a) (Fin b) = round64 (a * b)"
| "fmul x y = inf_of_sign (sign_of x * sign_of y)"

fun fdiv :: "float64 \<Rightarrow> float64 \<Rightarrow> float64" where
  "fdiv (Fin a) (Fin b) = (if b = 0 then inf_of_sign a else round64 (a / b))"
| "fdiv NaN y = NaN"
| "fdiv x NaN = NaN"
| "fdiv (Fin a) y = Fin 0"
| "fdiv x (Fin b) = inf_of_sign (sign_of x * (if b < 0 then - 1 else 1))"
| "fdiv x y = NaN"

fun flt :: "float64 \<Rightarrow> float64 \<Rightarrow> bool" where
  "flt (Fin a) (Fin b) = (a < b)"
| "flt NaN y = False"
| "flt x NaN = False"
| "flt PInf y = False"
| "flt x NInf = False"
| "flt NInf y = True"
| "flt x PInf = True"

fun feq :: "float64 \<Rightarrow> float64 \<Rightarrow> bool" where
  "feq NaN y = False"
| "feq x y = (x = y)"

definition fle :: "float64 \<Rightarrow> float64 \<Rightarrow> bool" where
  "fle x y \<longleftrightarrow> flt x y \<or> feq x y"

definition float_of_int :: "int \<Rightarrow> float64" where
  "float_of_int n = round64 (of_int n)"

abbreviation (input) f0 :: float64 where "f0 \<equiv> Fin 0"

section \<open>Facts on rounding\<close>

lemma pow2_pos [simp]: "0 < pow2 e"
  by (simp add: pow2_def)

lemma pow2_nz [simp]: "pow2 e \<noteq> 0"
  using pow2_pos [of e] by linarith

lemma pow2_power_int: "pow2 e = power_int 2 e"
  by (simp add: pow2_def power_int_def power_one_over inverse_eq_divide)

lemma pow2_add: "pow2 (a + b) = pow2 a * pow2 b"
  by (simp add: pow2_power_int power_int_add)

lemma pow2_1 [simp]: "pow2 1 = 2" "pow2 0 = 1"
  by (simp_all add: pow2_def)

lemma pow2_mono: "a \<le> b \<Longrightarrow> pow2 a \<le> pow2 b"
proof -
  assume "a \<le> b"
  then have "pow2 b = pow2 a * pow2 (b - a)" and "1 \<le> pow2 (b - a)"
    using pow2_add [of a "b - a"] by (simp_all add: pow2_def)
  then show ?thesis by simp
qed

lemma pow2_strict_mono: "a < b \<Longrightarrow> pow2 a < pow2 b"
  using pow2_mono [of "a + 1" b] pow2_add [of a 1] pow2_pos [of a] by (simp del: pow2_pos)

lemma bits_bounds:
  assumes "0 < n"
  shows "pow2 (bits n - 1) \<le> of_int n \<and> of_int n < pow2 (bits n)"
  using assms
proof (induction n rule: bits.induct)
  case (1 n)
  show ?case
  proof (cases "n = 1")
    case True
    then show ?thesis by (simp add: bits.simps)
  next
    case False
    with 1 have IH: "pow2 (bits (n div 2) - 1) \<le> of_int (n div 2)" "of_int (n div 2) < pow2 (bits (n div 2))"
      and pos: "0 < n div 2"
      by auto
    have b: "bits n = bits (n div 2) + 1" using 1 by (subst bits.simps) simp
    have "0 \<le> bits m" for m by (induction m rule: bits.induct) (subst bits.simps, simp)
    then have p: "pow2 (bits (n div 2)) = of_int (2 ^ nat (bits (n div 2)))" by (simp add: pow2_def)
    have "n div 2 + 1 \<le> 2 ^ nat (bits (n div 2))" using IH(2) unfolding p of_int_less_iff by linarith
    then have "n < 2 * 2 ^ nat (bits (n div 2))" by linarith
    then have "of_int n < (of_int (2 * 2 ^ nat (bits (n div 2))) :: rat)" by (simp only: of_int_less_iff)
    moreover have "2 * pow2 (bits (n div 2) - 1) \<le> of_int n"
    proof -
      have "of_int (2 * (n div 2)) \<le> (of_int n :: rat)" unfolding of_int_le_iff by simp
      then have "2 * of_int (n div 2) \<le> (of_int n :: rat)" by simp
      then show ?thesis using IH(1) by linarith
    qed
    ultimately show ?thesis using pow2_add [of 1 "bits (n div 2) - 1"] pow2_add [of "bits (n div 2)" 1]
      by (simp add: b p)
  qed
qed

lemma ilog2_bounds:
  assumes "0 < q"
  shows "pow2 (ilog2 q) \<le> q \<and> q < pow2 (ilog2 q + 1)"
proof -
  obtain a b where ab: "quotient_of q = (a, b)" by fastforce
  have b: "0 < b" using quotient_of_denom_pos [OF ab] .
  have q: "q = of_int a / of_int b" using quotient_of_div [OF ab] .
  have a: "0 < a" using assms b by (simp add: q zero_less_divide_iff)
  define A B where "A = bits a" and "B = bits b"
  have A1: "pow2 (A - 1) \<le> of_int a" "of_int a < pow2 A"
    using bits_bounds [OF a] by (auto simp: A_def)
  have B1: "pow2 (B - 1) \<le> of_int b" "of_int b < pow2 B"
    using bits_bounds [OF b] by (auto simp: B_def)
  have eqs: "pow2 (A - 1) = pow2 (A - B - 1) * pow2 (B)"
    "pow2 (A) = pow2 (A - B + 1) * pow2 (B - 1)"
    by (simp_all add: pow2_add [symmetric])
  have bpos: "(0::rat) < of_int b" using b by simp
  have lo: "pow2 (A - B - 1) \<le> q"
  proof -
    have "pow2 (A - B - 1) * of_int b \<le> pow2 (A - B - 1) * pow2 (B)"
      using B1(2) by simp
    also have "\<dots> \<le> of_int a" using A1(1) eqs(1) by simp
    finally show ?thesis using bpos by (simp add: q pos_le_divide_eq)
  qed
  have hi: "q < pow2 (A - B + 1)"
  proof -
    have "of_int a < pow2 (A - B + 1) * pow2 (B - 1)" using A1(2) eqs(2) by simp
    also have "\<dots> \<le> pow2 (A - B + 1) * of_int b" using B1(1) by simp
    finally show ?thesis using bpos by (simp add: q pos_divide_less_eq)
  qed
  have il: "ilog2 q = (if pow2 (A - B) \<le> q then A - B else A - B - 1)"
    by (simp add: ilog2_def ab A_def B_def Let_def)
  show ?thesis using lo hi by (auto simp: il)
qed

lemma ilog2_eqI:
  assumes "pow2 k \<le> q" "q < pow2 (k + 1)"
  shows "ilog2 q = k"
proof (rule ccontr)
  have "0 < q" using assms(1) pow2_pos [of k] by linarith
  note b = ilog2_bounds [OF this]
  assume "ilog2 q \<noteq> k"
  then consider "ilog2 q + 1 \<le> k" | "k + 1 \<le> ilog2 q" by linarith
  then show False using b assms pow2_mono by cases (meson leD le_less_trans order_trans)+
qed

lemma ilog2_mono:
  assumes "0 < p" "p \<le> q"
  shows "ilog2 p \<le> ilog2 q"
proof (rule ccontr)
  assume "\<not> ilog2 p \<le> ilog2 q"
  then have "pow2 (ilog2 q + 1) \<le> pow2 (ilog2 p)" by (intro pow2_mono) simp
  then show False using ilog2_bounds [of p] ilog2_bounds [of q] assms by linarith
qed

lemma round_half_even_mono: "x \<le> y \<Longrightarrow> round_half_even x \<le> round_half_even y"
proof -
  assume xy: "x \<le> y"
  have fl: "\<lfloor>x\<rfloor> \<le> \<lfloor>y\<rfloor>" using xy by (rule floor_mono)
  have range: "\<lfloor>z\<rfloor> \<le> round_half_even z \<and> round_half_even z \<le> \<lfloor>z\<rfloor> + 1" for z
    by (simp add: round_half_even_def Let_def)
  show ?thesis
  proof (cases "\<lfloor>x\<rfloor> = \<lfloor>y\<rfloor>")
    case True
    then show ?thesis using xy by (auto simp: round_half_even_def Let_def)
  next
    case False
    then show ?thesis using fl range [of x] range [of y] by linarith
  qed
qed

lemma round_half_even_of_int [simp]: "round_half_even (of_int n) = n"
  by (simp add: round_half_even_def)

lemma round_half_even_0 [simp]: "round_half_even 0 = 0"
  using round_half_even_of_int [of 0] by simp

lemma round_half_even_nonneg: "0 \<le> x \<Longrightarrow> 0 \<le> round_half_even x"
  using round_half_even_mono [of 0 x] by simp

lemma round_pos_nonneg: "0 < q \<Longrightarrow> 0 \<le> round_pos q"
  by (simp add: round_pos_def round_half_even_nonneg less_imp_le)

lemma round_pos_mono:
  assumes "0 < p" "p \<le> q"
  shows "round_pos p \<le> round_pos q"
proof (cases "ulp_exp p = ulp_exp q")
  case True
  then show ?thesis
    using assms by (simp add: round_pos_def round_half_even_mono divide_right_mono less_imp_le)
next
  case False
  have "ulp_exp p \<le> ulp_exp q" using ilog2_mono [OF assms] by (simp add: ulp_exp_def)
  with False have kq: "ulp_exp q = ilog2 q - 52" and lt: "ulp_exp p < ulp_exp q"
    by (auto simp: ulp_exp_def max_def split: if_splits)
  have pb: "p < pow2 (ulp_exp p + 53)"
  proof -
    have "ilog2 p + 1 \<le> ulp_exp p + 53" by (simp add: ulp_exp_def)
    then have "pow2 (ilog2 p + 1) \<le> pow2 (ulp_exp p + 53)" by (rule pow2_mono)
    then show ?thesis using ilog2_bounds [OF assms(1)] by linarith
  qed
  have i53: "pow2 53 = of_int (2 ^ 53)" "pow2 52 = of_int (2 ^ 52)" by (simp_all add: pow2_def)
  have "p / pow2 (ulp_exp p) \<le> of_int (2 ^ 53)"
    using pb by (simp add: pow2_add pos_divide_le_eq mult.commute i53 less_imp_le)
  from round_half_even_mono [OF this] have "round_half_even (p / pow2 (ulp_exp p)) \<le> 2 ^ 53"
    by (simp only: round_half_even_of_int)
  then have "round_pos p \<le> of_int (2 ^ 53) * pow2 (ulp_exp p)"
    unfolding round_pos_def by (intro mult_right_mono) (simp_all only: of_int_le_iff less_imp_le pow2_pos)
  then have "round_pos p \<le> pow2 (ulp_exp p + 53)" using pow2_add [of "ulp_exp p" 53] i53 by (simp add: mult.commute)
  also have "\<dots> \<le> pow2 (ulp_exp q + 52)" using lt by (intro pow2_mono) simp
  also have "\<dots> \<le> round_pos q"
  proof -
    have "pow2 (ulp_exp q + 52) \<le> q" using ilog2_bounds [of q] assms kq by simp
    then have "of_int (2 ^ 52) \<le> q / pow2 (ulp_exp q)"
      using pow2_add [of "ulp_exp q" 52] i53 by (simp add: pos_le_divide_eq mult.commute)
    from round_half_even_mono [OF this] have "2 ^ 52 \<le> round_half_even (q / pow2 (ulp_exp q))"
      by (simp only: round_half_even_of_int)
    then have "of_int (2 ^ 52) * pow2 (ulp_exp q) \<le> round_pos q"
      unfolding round_pos_def by (intro mult_right_mono) (simp_all only: of_int_le_iff less_imp_le pow2_pos)
    then show ?thesis using pow2_add [of "ulp_exp q" 52] i53 by (simp add: mult.commute)
  qed
  finally show ?thesis .
qed

lemma round_rat_mono: "p \<le> q \<Longrightarrow> round_rat p \<le> round_rat q"
  using round_pos_mono [of p q] round_pos_mono [of "- q" "- p"] round_pos_nonneg [of q] round_pos_nonneg [of "- p"]
  by (auto simp: round_rat_def not_less)

lemma round_rat_0 [simp]: "round_rat 0 = 0"
  by (simp add: round_rat_def)

lemma round_rat_nonneg: "0 \<le> q \<Longrightarrow> 0 \<le> round_rat q"
  using round_rat_mono [of 0 q] by simp

lemma round64_0 [simp]: "round64 0 = Fin 0"
  using pow2_pos [of 1024] by (simp add: round64_def Let_def del: pow2_pos)

text \<open>A value with at most 53 significant bits and a representable exponent is not changed.\<close>

definition dyadic53 :: "rat \<Rightarrow> bool" where
  "dyadic53 q \<longleftrightarrow> (\<exists>m e. q = of_int m * pow2 e \<and> \<bar>m\<bar> < 2 ^ 53 \<and> - 1074 \<le> e)"

lemma round_pos_dyadic:
  assumes "0 < q" "q = of_int m * pow2 e" "m < 2 ^ 53" "- 1074 \<le> e"
  shows "round_pos q = q"
proof -
  have "of_int m < (of_int (2 ^ 53) :: rat)" using assms(3) by (simp only: of_int_less_iff)
  then have "q < of_int (2 ^ 53) * pow2 e"
    unfolding assms(2) by (rule mult_strict_right_mono) simp
  also have "\<dots> = pow2 (53 + e)" by (simp add: pow2_add) (simp add: pow2_def)
  finally have "pow2 (ilog2 q) < pow2 (53 + e)" using ilog2_bounds [OF assms(1)] by linarith
  then have "ilog2 q < 53 + e" using pow2_mono [of "53 + e" "ilog2 q"] by (cases "ilog2 q < 53 + e") auto
  then have u: "ulp_exp q \<le> e" using assms(4) by (simp add: ulp_exp_def)
  define d where "d = nat (e - ulp_exp q)"
  have "pow2 e = pow2 (ulp_exp q) * of_int (2 ^ d)"
    using u pow2_add [of "ulp_exp q" "e - ulp_exp q"] by (simp add: d_def pow2_def [of "e - ulp_exp q"])
  then have "q = of_int (m * 2 ^ d) * pow2 (ulp_exp q)" using assms(2) by (simp add: mult.commute)
  then have "q / pow2 (ulp_exp q) = of_int (m * 2 ^ d)" by (metis nonzero_mult_div_cancel_right pow2_nz)
  then have "round_pos q = of_int (m * 2 ^ d) * pow2 (ulp_exp q)"
    unfolding round_pos_def by (simp only: round_half_even_of_int)
  also have "\<dots> = q" using \<open>q / pow2 (ulp_exp q) = of_int (m * 2 ^ d)\<close> by (simp add: divide_eq_eq)
  finally show ?thesis .
qed

lemma round_rat_dyadic: "dyadic53 q \<Longrightarrow> round_rat q = q"
  using round_pos_dyadic [of q] round_pos_dyadic [of "- q" "- m" for m]
  by (auto simp: dyadic53_def round_rat_def abs_less_iff)

lemma dyadic53_int: "\<bar>n\<bar> < 2 ^ 53 \<Longrightarrow> dyadic53 (of_int n)"
  unfolding dyadic53_def by (intro exI [of _ n] exI [of _ 0]) simp

lemma round_pos_dyadic53:
  assumes "0 < q"
  shows "dyadic53 (round_pos q)"
proof -
  define e m where "e = ulp_exp q" and "m = round_half_even (q / pow2 e)"
  have r: "round_pos q = of_int m * pow2 e" by (simp add: round_pos_def e_def m_def)
  have e: "- 1074 \<le> e" by (simp add: e_def ulp_exp_def)
  have "ilog2 q + 1 \<le> e + 53" by (simp add: e_def ulp_exp_def)
  then have "q < pow2 (e + 53)"
    using ilog2_bounds [OF assms] pow2_mono [of "ilog2 q + 1" "e + 53"] by linarith
  then have "q / pow2 e \<le> of_int (2 ^ 53)"
    by (simp add: pow2_add pos_divide_le_eq mult.commute less_imp_le) (simp add: pow2_def)
  from round_half_even_mono [OF this] have "m \<le> 2 ^ 53" unfolding m_def by (simp only: round_half_even_of_int)
  moreover have "0 \<le> m" using assms by (simp add: m_def round_half_even_nonneg less_imp_le)
  ultimately consider "m = 2 ^ 53" | "\<bar>m\<bar> < 2 ^ 53" by linarith
  then show ?thesis
  proof cases
    case 1
    then have "round_pos q = of_int 1 * pow2 (e + 53)" by (simp add: r pow2_add) (simp add: pow2_def)
    then show ?thesis unfolding dyadic53_def using e
      by (intro exI [of _ 1] exI [of _ "e + 53"]) simp
  next
    case 2
    then show ?thesis unfolding dyadic53_def using e r by blast
  qed
qed

lemma dyadic53_neg: "dyadic53 (- q) \<longleftrightarrow> dyadic53 q"
proof -
  have "dyadic53 q \<Longrightarrow> dyadic53 (- q)" for q
    unfolding dyadic53_def by (metis abs_minus_cancel mult_minus_left of_int_minus)
  from this [of q] this [of "- q"] show ?thesis by auto
qed

lemma dyadic53_round_rat: "dyadic53 (round_rat q)"
  using round_pos_dyadic53 [of q] round_pos_dyadic53 [of "- q"] dyadic53_int [of 0]
  by (auto simp: round_rat_def dyadic53_neg)

lemma round64_dyadic: "dyadic53 q \<Longrightarrow> \<bar>q\<bar> < pow2 1024 \<Longrightarrow> round64 q = Fin q"
  by (auto simp: round64_def round_rat_dyadic Let_def)

lemma int_below_max:
  assumes "\<bar>n\<bar> < 2 ^ 53"
  shows "\<bar>of_int n :: rat\<bar> < pow2 1024"
proof -
  have "\<bar>of_int n :: rat\<bar> < of_int (2 ^ 53)" using assms by (simp only: of_int_abs [symmetric] of_int_less_iff)
  also have "\<dots> = pow2 53" by (simp add: pow2_def)
  also have "\<dots> \<le> pow2 1024" by (rule pow2_mono) simp
  finally show ?thesis .
qed

lemma round64_int: "\<bar>n\<bar> < 2 ^ 53 \<Longrightarrow> round64 (of_int n) = Fin (of_int n)"
  by (simp add: round64_dyadic dyadic53_int int_below_max)

lemma round64_numeral [simp]:
  "(numeral k :: int) < 2 ^ 53 \<Longrightarrow> round64 (numeral k) = Fin (numeral k)"
  "(numeral k :: int) < 2 ^ 53 \<Longrightarrow> round64 (- numeral k) = Fin (- numeral k)"
  "round64 1 = Fin 1" "round64 (- 1) = Fin (- 1)"
  using round64_int [of "numeral k"] round64_int [of "- numeral k"] round64_int [of 1] round64_int [of "- 1"]
  by simp_all

text \<open>The values a \<^verbatim>\<open>float64\<close> variable can hold: a finite one is its own rounding.\<close>

fun is_f64 :: "float64 \<Rightarrow> bool" where
  "is_f64 (Fin q) = (round64 q = Fin q)"
| "is_f64 _ = True"

lemma is_f64_round64 [simp]: "is_f64 (round64 q)"
proof (cases "round64 q")
  case (Fin r)
  then have "r = round_rat q" "\<bar>r\<bar> < pow2 1024" by (auto simp: round64_def Let_def split: if_splits)
  then show ?thesis using Fin round64_dyadic [of r] dyadic53_round_rat [of q] by simp
qed auto

section \<open>Facts on the order and the operations\<close>

lemma feq_refl_iff: "feq x x \<longleftrightarrow> x \<noteq> NaN"
  by (cases x) auto

lemma fle_refl_iff: "fle x x \<longleftrightarrow> x \<noteq> NaN"
  by (cases x) (auto simp: fle_def)

lemma fle_Fin [simp]: "fle (Fin a) (Fin b) \<longleftrightarrow> a \<le> b"
  by (auto simp: fle_def)

lemma fle_trans: "fle x y \<Longrightarrow> fle y z \<Longrightarrow> fle x z"
  by (cases x; cases y; cases z) (auto simp: fle_def)

lemma fle_simps [simp]:
  "fle x PInf \<longleftrightarrow> x \<noteq> NaN" "fle NInf x \<longleftrightarrow> x \<noteq> NaN" "\<not> fle NaN x" "\<not> fle x NaN"
  "\<not> fle PInf (Fin a)" "\<not> fle (Fin a) NInf" "\<not> fle PInf NInf"
  by (cases x; simp add: fle_def)+

lemma not_flt_fle: "x \<noteq> NaN \<Longrightarrow> y \<noteq> NaN \<Longrightarrow> \<not> flt x y \<longleftrightarrow> fle y x"
  by (cases x; cases y) (auto simp: fle_def)

lemma flt_imp_fle: "flt x y \<Longrightarrow> fle x y"
  by (simp add: fle_def)

lemma flt_irrefl [simp]: "\<not> flt x x"
  by (cases x) auto

lemma round64_mono: "p \<le> q \<Longrightarrow> fle (round64 p) (round64 q)"
  using round_rat_mono [of p q] pow2_pos [of 1024]
  by (auto simp: round64_def Let_def simp del: pow2_pos)

lemma round64_not_NaN [simp]: "round64 q \<noteq> NaN"
  by (simp add: round64_def Let_def)

lemma fle_0_round64: "0 \<le> q \<Longrightarrow> fle (Fin 0) (round64 q)"
  using round64_mono [of 0 q] by simp

lemma fsub_self [simp]: "fsub (Fin a) (Fin a) = Fin 0"
  by (simp add: fsub_def)

text \<open>Subtraction of the two values of a comparison has the sign the comparison says.\<close>

lemma fsub_nonneg: "a \<le> b \<Longrightarrow> fle (Fin 0) (fsub (Fin b) (Fin a))"
  by (simp add: fsub_def fle_0_round64)

lemma fadd_nonneg: "fle f0 x \<Longrightarrow> fle f0 y \<Longrightarrow> fle f0 (fadd x y)"
  by (cases x; cases y) (auto simp: fle_0_round64)

lemma fmul_nonneg: "fle f0 (Fin a) \<Longrightarrow> fle f0 (Fin b) \<Longrightarrow> fle f0 (fmul (Fin a) (Fin b))"
  by (simp add: fle_0_round64)

end
