(* ===== verification/Portfolio_Types.thy ===== *)
theory Portfolio_Types
  imports Go_Time Go_Float
begin

text \<open>
  The records of \<^verbatim>\<open>domain/portfolio/transaction.go\<close>. A UUID is the canonical text that
  \<^verbatim>\<open>uuid.String\<close> prints. A pointer to a value is an \<open>option\<close>.
\<close>

type_synonym uuid_text = string

record Transaction =
  tx_ID :: uuid_text
  tx_UserID :: uuid_text
  tx_AssetSymbol :: string
  tx_Quantity :: float64
  tx_Type :: string
  tx_Timestamp :: gotime
  tx_Source :: string
  tx_SourceRef :: string
  tx_ReferenceValue :: "float64 option"
  tx_ReferenceCurrency :: string
  tx_Resolution :: string
  tx_Fee :: "float64 option"
  tx_FeeCurrency :: string
  tx_ManuallyEdited :: bool
  tx_Notes :: string
  tx_CreatedAt :: gotime
  tx_UpdatedAt :: gotime

record AssetPnL =
  ap_AssetSymbol :: string
  ap_RealizedPnL :: float64
  ap_UnrealizedPnL :: float64
  ap_TotalPnL :: float64
  ap_TransactionCount :: int

record PnLSnapshot =
  ps_ID :: uuid_text
  ps_UserID :: uuid_text
  ps_ReferenceCurrency :: string
  ps_TotalRealized :: float64
  ps_TotalUnrealized :: float64
  ps_TotalPnL :: float64
  ps_HasApproximate :: bool
  ps_ExcludedCount :: int
  ps_Assets :: "AssetPnL list"
  ps_ComputedAt :: gotime

record LedgerEntry =
  le_Asset :: string
  le_Quantity :: float64
  le_Type :: string
  le_Timestamp :: gotime
  le_SourceID :: string
  le_Fee :: "float64 option"
  le_FeeCurrency :: string

record ListOptions =
  lo_Asset :: string
  lo_Type :: string
  lo_StartDate :: "gotime option"
  lo_EndDate :: "gotime option"
  lo_Page :: int
  lo_PageSize :: int

end
