(* ===== verification/PnL_Engine.thy ===== *)
theory PnL_Engine
  imports Portfolio_Types
begin

text \<open>
  \<^verbatim>\<open>portfolio/pnl_engine.go\<close>: FIFO profit and loss. \<open>sell_loop\<close> is the inner loop that
  consumes cost lots, \<open>fifo_step\<close> the body of the loop over transactions, \<open>compute_snapshot\<close> the
  rest of \<^verbatim>\<open>ComputeAndStore\<close>, and \<open>load_pages\<close> the paging loop of
  \<^verbatim>\<open>loadAllTransactions\<close>. The order of map iteration and of equal keys in
  \<^verbatim>\<open>sort.Slice\<close> are arguments.
\<close>

section \<open>Cost lots and the sell loop\<close>

record costLot =
  lot_quantity :: float64
  lot_unitCost :: float64

definition unit_price :: "Transaction \<Rightarrow> float64" where
  "unit_price tx =
     (case tx_ReferenceValue tx of
        None \<Rightarrow> f0
      | Some v \<Rightarrow> if feq (tx_Quantity tx) f0 then f0 else fdiv v (tx_Quantity tx))"

definition matched_qty :: "float64 \<Rightarrow> costLot \<Rightarrow> float64" where
  "matched_qty remaining lot =
     (if flt remaining (lot_quantity lot) then remaining else lot_quantity lot)"

definition realized_add :: "float64 option \<Rightarrow> float64 \<Rightarrow> float64 option" where
  "realized_add acc x = Some (fadd (case acc of None \<Rightarrow> f0 | Some a \<Rightarrow> a) x)"

text \<open>
  The loop terminates for every input: a finite lot that is matched in full leaves exactly zero and is
  dropped; a finite remainder matched in full leaves zero; and with an infinity or not-a-number
  involved the guard fails after at most one more round.
\<close>

definition sell_measure :: "float64 \<Rightarrow> costLot list \<Rightarrow> nat" where
  "sell_measure remaining queue =
     (if flt f0 remaining then
        2 * length queue + (case queue of [] \<Rightarrow> 0 | lot # _ \<Rightarrow> if lot_quantity lot = NInf then 1 else 0)
      else 0)"

function sell_loop :: "float64 \<Rightarrow> float64 \<Rightarrow> float64 option \<Rightarrow> costLot list \<Rightarrow> costLot list \<times> float64 option" where
  "sell_loop price remaining acc queue =
     (case queue of
        [] \<Rightarrow> ([], acc)
      | lot # rest \<Rightarrow>
          if flt f0 remaining then
            let matched = matched_qty remaining lot;
                acc' = realized_add acc (fmul (fsub price (lot_unitCost lot)) matched);
                lot' = lot\<lparr>lot_quantity := fsub (lot_quantity lot) matched\<rparr>;
                remaining' = fsub remaining matched
            in if fle (lot_quantity lot') f0 then sell_loop price remaining' acc' rest
               else sell_loop price remaining' acc' (lot' # rest)
          else (queue, acc))"
  by pat_completeness auto

lemma sell_measure_pop:
  assumes "flt f0 remaining" "fle (fsub (lot_quantity lot) (matched_qty remaining lot)) f0"
  shows "sell_measure (fsub remaining (matched_qty remaining lot)) rest < sell_measure remaining (lot # rest)"
  using assms by (auto simp: sell_measure_def split: list.splits)

lemma sell_measure_keep:
  assumes "flt f0 remaining" "\<not> fle (fsub (lot_quantity lot) (matched_qty remaining lot)) f0"
  shows "sell_measure (fsub remaining (matched_qty remaining lot))
      (lot\<lparr>lot_quantity := fsub (lot_quantity lot) (matched_qty remaining lot)\<rparr> # rest)
    < sell_measure remaining (lot # rest)"
  using assms
  by (cases remaining; cases "lot_quantity lot")
    (auto simp: sell_measure_def matched_qty_def fsub_def split: if_splits)

termination sell_loop
  by (relation "measure (\<lambda>(price, remaining, acc, queue). sell_measure remaining queue)")
    (auto simp: sell_measure_pop sell_measure_keep)

declare sell_loop.simps [simp del]

lemma sell_loop_Nil [simp]: "sell_loop price remaining acc [] = ([], acc)"
  by (simp add: sell_loop.simps)

lemma sell_loop_done [simp]: "\<not> flt f0 remaining \<Longrightarrow> sell_loop price remaining acc queue = (queue, acc)"
  by (cases queue) (auto simp: sell_loop.simps)

section \<open>The loop over transactions\<close>

record fifo_state =
  fifoQueues :: "(string, costLot list) gomap"
  realizedByAsset :: "(string, float64) gomap"
  txCountByAsset :: "(string, int) gomap"

definition fifo_init :: fifo_state where
  "fifo_init = \<lparr>fifoQueues = [], realizedByAsset = [], txCountByAsset = []\<rparr>"

definition put_realized :: "string \<Rightarrow> float64 option \<Rightarrow> (string, float64) gomap \<Rightarrow> (string, float64) gomap" where
  "put_realized asset r m = (case r of None \<Rightarrow> m | Some v \<Rightarrow> gm_put asset v m)"

definition fifo_step :: "fifo_state \<Rightarrow> Transaction \<Rightarrow> fifo_state" where
  "fifo_step st tx =
     (let asset = tx_AssetSymbol tx;
          st1 = st\<lparr>txCountByAsset := gm_put asset (gm_get (txCountByAsset st) 0 asset + 1) (txCountByAsset st)\<rparr>
      in if tx_Type tx = ''buy'' then
           st1\<lparr>fifoQueues := gm_put asset
             (gm_get (fifoQueues st) [] asset @ [\<lparr>lot_quantity = tx_Quantity tx, lot_unitCost = unit_price tx\<rparr>])
             (fifoQueues st)\<rparr>
         else if tx_Type tx = ''sell'' then
           (case sell_loop (unit_price tx) (tx_Quantity tx) (map_of (realizedByAsset st) asset)
                   (gm_get (fifoQueues st) [] asset) of
              (queue, r) \<Rightarrow>
                st1\<lparr>realizedByAsset := put_realized asset r (realizedByAsset st),
                    fifoQueues := gm_put asset queue (fifoQueues st)\<rparr>)
         else st1)"

definition is_unresolvable :: "Transaction \<Rightarrow> bool" where
  "is_unresolvable tx \<longleftrightarrow> tx_Resolution tx = ''unresolvable''"

definition is_approximate :: "Transaction \<Rightarrow> bool" where
  "is_approximate tx \<longleftrightarrow> tx_Resolution tx = ''hourly'' \<or> tx_Resolution tx = ''daily''"

record partition_state =
  pt_resolved :: "Transaction list"
  pt_excluded :: int
  pt_approximate :: bool

fun partition_txs :: "Transaction list \<Rightarrow> partition_state \<Rightarrow> partition_state" where
  "partition_txs [] p = p"
| "partition_txs (tx # txs) p =
     (if is_unresolvable tx then partition_txs txs (p\<lparr>pt_excluded := pt_excluded p + 1\<rparr>)
      else partition_txs txs
        (p\<lparr>pt_approximate := (if is_approximate tx then True else pt_approximate p),
           pt_resolved := pt_resolved p @ [tx]\<rparr>))"

section \<open>Unrealized profit and the snapshot\<close>

definition unrealized_lot :: "float64 \<Rightarrow> float64 option \<Rightarrow> costLot \<Rightarrow> float64 option" where
  "unrealized_lot price acc lot = realized_add acc (fmul (fsub price (lot_unitCost lot)) (lot_quantity lot))"

definition unrealized_of :: "(string \<Rightarrow> string \<Rightarrow> ('e, float64) result) \<Rightarrow> string \<Rightarrow> string \<Rightarrow> costLot list \<Rightarrow> float64 option" where
  "unrealized_of getPrice quote asset queue =
     (if queue = [] then None
      else (case getPrice asset quote of
              Inl _ \<Rightarrow> None
            | Inr price \<Rightarrow> foldl (unrealized_lot price) None queue))"

definition unrealized_map :: "(string \<Rightarrow> string \<Rightarrow> ('e, float64) result) \<Rightarrow> string \<Rightarrow> string list \<Rightarrow> (string, costLot list) gomap \<Rightarrow> (string, float64) gomap" where
  "unrealized_map getPrice quote ks queues =
     foldl (\<lambda>m asset. put_realized asset (unrealized_of getPrice quote asset (gm_get queues [] asset)) m) [] ks"

definition asset_set :: "(string, float64) gomap \<Rightarrow> (string, float64) gomap \<Rightarrow> (string, int) gomap \<Rightarrow> string list" where
  "asset_set realized unrealized counts = remdups (gm_keys realized @ gm_keys unrealized @ gm_keys counts)"

definition asset_pnl :: "(string, float64) gomap \<Rightarrow> (string, float64) gomap \<Rightarrow> (string, int) gomap \<Rightarrow> string \<Rightarrow> AssetPnL" where
  "asset_pnl realized unrealized counts asset =
     \<lparr>ap_AssetSymbol = asset,
      ap_RealizedPnL = gm_get realized f0 asset,
      ap_UnrealizedPnL = gm_get unrealized f0 asset,
      ap_TotalPnL = fadd (gm_get realized f0 asset) (gm_get unrealized f0 asset),
      ap_TransactionCount = gm_get counts 0 asset\<rparr>"

definition sum_in_order :: "(string, float64) gomap \<Rightarrow> string list \<Rightarrow> float64" where
  "sum_in_order m ks = foldl (\<lambda>s asset. fadd s (gm_get m f0 asset)) f0 ks"

definition compute_snapshot ::
  "(string list \<Rightarrow> string list) \<Rightarrow> (string list \<Rightarrow> string list) \<Rightarrow>
   (string \<Rightarrow> string \<Rightarrow> ('e, float64) result) \<Rightarrow> uuid_text \<Rightarrow> gotime \<Rightarrow> uuid_text \<Rightarrow> string \<Rightarrow> Transaction list \<Rightarrow> PnLSnapshot" where
  "compute_snapshot rngQ rngA getPrice newID now userID quote allTxs =
     (let p = partition_txs allTxs \<lparr>pt_resolved = [], pt_excluded = 0, pt_approximate = False\<rparr>;
          st = foldl fifo_step fifo_init (pt_resolved p);
          unrealized = unrealized_map getPrice quote (rngQ (gm_keys (fifoQueues st))) (fifoQueues st);
          ks = rngA (asset_set (realizedByAsset st) unrealized (txCountByAsset st));
          assets = sort_key ap_AssetSymbol (map (asset_pnl (realizedByAsset st) unrealized (txCountByAsset st)) ks);
          totalRealized = sum_in_order (realizedByAsset st) ks;
          totalUnrealized = sum_in_order unrealized ks
      in \<lparr>ps_ID = newID, ps_UserID = userID, ps_ReferenceCurrency = quote,
          ps_TotalRealized = totalRealized, ps_TotalUnrealized = totalUnrealized,
          ps_TotalPnL = fadd totalRealized totalUnrealized,
          ps_HasApproximate = pt_approximate p, ps_ExcludedCount = pt_excluded p,
          ps_Assets = assets, ps_ComputedAt = now\<rparr>)"

section \<open>Loading and storing\<close>

definition batchSize :: int where "batchSize = 500"

definition page_opts :: "int \<Rightarrow> ListOptions" where
  "page_opts page =
     \<lparr>lo_Asset = '''', lo_Type = '''', lo_StartDate = None, lo_EndDate = None, lo_Page = page, lo_PageSize = batchSize\<rparr>"

text \<open>The loop has no bound of its own: \<open>None\<close> is a repository that never stops delivering pages.\<close>

partial_function (option) load_pages ::
  "(ListOptions \<Rightarrow> ('e, Transaction list \<times> int) result) \<Rightarrow> int \<Rightarrow> Transaction list \<Rightarrow> ('e, Transaction list) result option" where
  "load_pages listByUser page all =
     (case listByUser (page_opts page) of
        Inl e \<Rightarrow> Some (Inl e)
      | Inr (batch, tot) \<Rightarrow>
          if int (length (all @ batch)) \<ge> tot \<or> batch = [] then Some (Inr (all @ batch))
          else load_pages listByUser (page + 1) (all @ batch))"

definition loadAllTransactions ::
  "(Transaction list \<Rightarrow> Transaction list) \<Rightarrow> (ListOptions \<Rightarrow> ('e, Transaction list \<times> int) result) \<Rightarrow> ('e, Transaction list) result option" where
  "loadAllTransactions srt listByUser = map_option (map_sum id srt) (load_pages listByUser 1 [])"

text \<open>\<open>wrap m e\<close> is \<^verbatim>\<open>fmt.Errorf("m: %w", e)\<close>.\<close>

definition ComputeAndStore ::
  "(string \<Rightarrow> 'e \<Rightarrow> 'e) \<Rightarrow> (Transaction list \<Rightarrow> Transaction list) \<Rightarrow> (string list \<Rightarrow> string list) \<Rightarrow> (string list \<Rightarrow> string list) \<Rightarrow>
   (ListOptions \<Rightarrow> ('e, Transaction list \<times> int) result) \<Rightarrow> (string \<Rightarrow> string \<Rightarrow> ('e, float64) result) \<Rightarrow>
   (PnLSnapshot \<Rightarrow> 's \<Rightarrow> ('e, uuid_text \<times> 's) result) \<Rightarrow> uuid_text \<Rightarrow> gotime \<Rightarrow> uuid_text \<Rightarrow> string \<Rightarrow> 's \<Rightarrow>
   ('e, PnLSnapshot \<times> 's) result option" where
  "ComputeAndStore wrap srt rngQ rngA listByUser getPrice upsert newID now userID quote store =
     map_option
       (\<lambda>r. case r of
          Inl e \<Rightarrow> Inl (wrap ''loading transactions'' e)
        | Inr allTxs \<Rightarrow>
            let snapshot = compute_snapshot rngQ rngA getPrice newID now userID quote allTxs
            in (case upsert snapshot store of
                  Inl e \<Rightarrow> Inl (wrap ''persisting snapshot'' e)
                | Inr (i, store') \<Rightarrow> Inr (snapshot\<lparr>ps_ID := i\<rparr>, store')))
       (loadAllTransactions srt listByUser)"

section \<open>The sell loop on float64 lots\<close>

lemma sell_loop_step:
  assumes "flt f0 remaining"
  shows "sell_loop price remaining acc (lot # rest) =
    (let matched = matched_qty remaining lot;
         acc' = realized_add acc (fmul (fsub price (lot_unitCost lot)) matched);
         qty' = fsub (lot_quantity lot) matched
     in sell_loop price (fsub remaining matched) acc'
          (if fle qty' f0 then rest else lot\<lparr>lot_quantity := qty'\<rparr> # rest))"
  by (subst sell_loop.simps) (simp add: assms Let_def)

text \<open>Lots as buys of a positive finite quantity create them.\<close>

definition lot_ok :: "costLot \<Rightarrow> bool" where
  "lot_ok lot \<longleftrightarrow> flt f0 (lot_quantity lot) \<and> lot_quantity lot \<noteq> PInf \<and> is_f64 (lot_quantity lot)"

lemma lot_ok_Fin: "lot_ok lot \<longleftrightarrow> (\<exists>a. lot_quantity lot = Fin a \<and> 0 < a \<and> round64 a = Fin a)"
  by (cases "lot_quantity lot") (auto simp: lot_ok_def)

text \<open>A difference of ordered float64 values lies between zero and the larger one.\<close>

lemma round64_diff_bounds:
  assumes "0 \<le> b" "b \<le> a" "round64 a = Fin a"
  obtains c where "round64 (a - b) = Fin c" "0 \<le> c" "c \<le> a"
proof -
  have "fle (round64 (a - b)) (Fin a)" using round64_mono [of "a - b" a] assms by simp
  moreover have "fle f0 (round64 (a - b))" using assms by (simp add: fle_0_round64)
  ultimately show ?thesis using that by (cases "round64 (a - b)") auto
qed

text \<open>What is left of a queue: a suffix of it, or a suffix whose first lot is smaller than before.\<close>

definition consumed_prefix :: "costLot list \<Rightarrow> costLot list \<Rightarrow> bool" where
  "consumed_prefix q q' \<longleftrightarrow>
     (\<exists>k \<le> length q. q' = drop k q \<or>
        (k < length q \<and> (\<exists>x. q' = (q ! k)\<lparr>lot_quantity := x\<rparr> # drop (Suc k) q \<and> fle x (lot_quantity (q ! k)))))"

lemma consumed_prefix_refl: "consumed_prefix q q"
  unfolding consumed_prefix_def by (intro exI [of _ 0]) simp

lemma consumed_prefix_Cons: "consumed_prefix q q' \<Longrightarrow> consumed_prefix (lot # q) q'"
proof -
  assume "consumed_prefix q q'"
  then obtain k where "k \<le> length q" "q' = drop k q \<or>
      (k < length q \<and> (\<exists>x. q' = (q ! k)\<lparr>lot_quantity := x\<rparr> # drop (Suc k) q \<and> fle x (lot_quantity (q ! k))))"
    unfolding consumed_prefix_def by blast
  then show ?thesis unfolding consumed_prefix_def by (intro exI [of _ "Suc k"]) auto
qed

lemma consumed_prefix_tl: "consumed_prefix (lot # q) q"
  by (rule consumed_prefix_Cons) (rule consumed_prefix_refl)

lemma consumed_prefix_hd: "fle x (lot_quantity lot) \<Longrightarrow> consumed_prefix (lot # q) (lot\<lparr>lot_quantity := x\<rparr> # q)"
  unfolding consumed_prefix_def by (intro exI [of _ 0]) auto

lemma sell_loop_shape:
  assumes "\<forall>lot \<in> set q. lot_ok lot" "round64 r = Fin r"
  shows "consumed_prefix q (fst (sell_loop price (Fin r) acc q)) \<and>
    (\<forall>lot \<in> set (fst (sell_loop price (Fin r) acc q)). lot_ok lot)"
  using assms
proof (induction q arbitrary: r acc)
  case Nil
  then show ?case by (simp add: consumed_prefix_refl)
next
  case (Cons lot q)
  obtain a where a: "lot_quantity lot = Fin a" "0 < a" "round64 a = Fin a"
    using Cons.prems(1) by (auto simp: lot_ok_Fin)
  consider "r \<le> 0" | "0 < r" "a \<le> r" | "0 < r" "r < a" by linarith
  then show ?case
  proof cases
    case 1
    then show ?thesis using Cons.prems by (simp add: consumed_prefix_refl)
  next
    case 2
    obtain c where "round64 (r - a) = Fin c" "0 \<le> c" "c \<le> r"
      using round64_diff_bounds [of a r] a 2 Cons.prems(2) by auto
    moreover from this have "round64 c = Fin c" using is_f64_round64 [of "r - a"] by simp
    ultimately show ?thesis
      using 2 a Cons.prems(1) Cons.IH [of c] consumed_prefix_Cons
      by (simp add: sell_loop_step matched_qty_def fsub_def Let_def)
  next
    case 3
    obtain c where c: "round64 (a - r) = Fin c" "0 \<le> c" "c \<le> a"
      using round64_diff_bounds [of r a] a 3 by auto
    moreover from this have "round64 c = Fin c" using is_f64_round64 [of "a - r"] by simp
    ultimately show ?thesis
      using 3 a Cons.prems(1) consumed_prefix_tl [of lot q] consumed_prefix_hd [of "Fin c" lot q]
      by (auto simp: sell_loop_step matched_qty_def fsub_def Let_def lot_ok_Fin)
  qed
qed

section \<open>Refinement of exact FIFO accounting\<close>

text \<open>
  The specification on whole numbers: lots are pairs of quantity and unit cost, oldest first. A sell
  takes from the oldest lots and realizes the price difference on what it takes.
\<close>

fun fifo_sell :: "int \<Rightarrow> int \<Rightarrow> int \<Rightarrow> (int \<times> int) list \<Rightarrow> (int \<times> int) list \<times> int" where
  "fifo_sell p r a [] = ([], a)"
| "fifo_sell p r a ((n, c) # q) =
     (if r \<le> 0 then ((n, c) # q, a)
      else if r < n then ((n - r, c) # q, a + (p - c) * r)
      else fifo_sell p (r - n) (a + (p - c) * n) q)"

definition lots_of :: "(int \<times> int) list \<Rightarrow> costLot list" where
  "lots_of q = map (\<lambda>(n, c). \<lparr>lot_quantity = Fin (of_int n), lot_unitCost = Fin (of_int c)\<rparr>) q"

definition quantity_sum :: "(int \<times> int) list \<Rightarrow> int" where
  "quantity_sum q = sum_list (map fst q)"

lemma quantity_sum_simps [simp]:
  "quantity_sum [] = 0" "quantity_sum ((n, c) # q) = n + quantity_sum q"
  by (simp_all add: quantity_sum_def)

lemma lots_of_simps [simp]:
  "lots_of [] = []"
  "lots_of ((n, c) # q) = \<lparr>lot_quantity = Fin (of_int n), lot_unitCost = Fin (of_int c)\<rparr> # lots_of q"
  by (simp_all add: lots_of_def)

lemma quantity_sum_nonneg: "\<forall>(n, c) \<in> set q. 0 < n \<Longrightarrow> 0 \<le> quantity_sum q"
  by (induction q) auto

lemma fifo_sell_conserves:
  "\<forall>(n, c) \<in> set q. 0 < n \<Longrightarrow> 0 \<le> r \<Longrightarrow>
   quantity_sum (fst (fifo_sell p r a q)) = max 0 (quantity_sum q - r)"
proof (induction p r a q rule: fifo_sell.induct)
  case (2 p r a n c q)
  then have "0 \<le> quantity_sum q" by (auto intro: quantity_sum_nonneg)
  with 2 show ?case by auto
qed simp

text \<open>Operations on whole numbers below \<open>2 ^ 53\<close> are exact.\<close>

lemma exact_ops:
  "\<bar>x + y\<bar> < 2 ^ 53 \<Longrightarrow> fadd (Fin (of_int x)) (Fin (of_int y)) = Fin (of_int (x + y))"
  "\<bar>x - y\<bar> < 2 ^ 53 \<Longrightarrow> fsub (Fin (of_int x)) (Fin (of_int y)) = Fin (of_int (x - y))"
  "\<bar>x * y\<bar> < 2 ^ 53 \<Longrightarrow> fmul (Fin (of_int x)) (Fin (of_int y)) = Fin (of_int (x * y))"
  using round64_int [of "x + y"] round64_int [of "x - y"] round64_int [of "x * y"]
  by (simp_all add: fsub_def)

lemma gain_bound:
  fixes p c m P :: int
  assumes "\<bar>p\<bar> \<le> P" "\<bar>c\<bar> \<le> P" "0 \<le> m"
  shows "\<bar>(p - c) * m\<bar> \<le> 2 * P * m"
proof -
  have "\<bar>p - c\<bar> \<le> 2 * P" using assms by linarith
  then show ?thesis using assms(3) by (simp add: abs_mult mult_right_mono)
qed

lemma sell_loop_exact:
  assumes "\<forall>(n, c) \<in> set q. 0 < n \<and> \<bar>c\<bar> \<le> P" "\<bar>p\<bar> \<le> P" "0 \<le> r"
    and "\<bar>a\<bar> + 2 * P * quantity_sum q < 2 ^ 53" "quantity_sum q < 2 ^ 53" "r < 2 ^ 53"
  shows "sell_loop (Fin (of_int p)) (Fin (of_int r)) (Some (Fin (of_int a))) (lots_of q) =
    (case fifo_sell p r a q of (q', a') \<Rightarrow> (lots_of q', Some (Fin (of_int a'))))"
  using assms
proof (induction p r a q rule: fifo_sell.induct)
  case (1 p r a)
  then show ?case by simp
next
  case (2 p r a n c q)
  have hyps: "0 < n" "\<bar>c\<bar> \<le> P" "0 \<le> quantity_sum q" "0 \<le> P"
    using "2.prems" quantity_sum_nonneg [of q] by auto
  have total: "2 * P * quantity_sum ((n, c) # q) = 2 * P * n + 2 * P * quantity_sum q"
    by (simp add: algebra_simps)
  have Pn: "2 * P * m \<le> 2 * P * n" if "0 \<le> m" "m \<le> n" for m
    using that hyps by (simp add: mult_left_mono)
  have Pq: "0 \<le> 2 * P * quantity_sum q" using hyps by simp
  have gain: "\<bar>(p - c) * m\<bar> < 2 ^ 53" "\<bar>a + (p - c) * m\<bar> < 2 ^ 53"
      "\<bar>a + (p - c) * m\<bar> \<le> \<bar>a\<bar> + 2 * P * m" if "0 \<le> m" "m \<le> n" for m
    using gain_bound [of p P c m] "2.prems"(2,4) hyps that Pn [of m] Pq total by linarith+
  have diff: "\<bar>p - c\<bar> < 2 ^ 53"
  proof -
    have "2 * P * 1 \<le> 2 * P * n" using hyps by (intro mult_left_mono) auto
    then show ?thesis using "2.prems"(2,4) hyps Pq total by linarith
  qed
  have g: "realized_add (Some (Fin (of_int a))) (fmul (fsub (Fin (of_int p)) (Fin (of_int c))) (Fin (of_int m))) =
      Some (Fin (of_int (a + (p - c) * m)))" if "0 \<le> m" "m \<le> n" for m
    using exact_ops(1) [of a "(p - c) * m"] exact_ops(2) [of p c] exact_ops(3) [of "p - c" m] gain [of m] diff that
    by (simp only: realized_add_def option.case)
  consider "r \<le> 0" | "0 < r" "r < n" | "0 < r" "n \<le> r" by linarith
  then show ?case
  proof cases
    case 2
    then show ?thesis
      using hyps g [of r] "2.prems"(5) exact_ops(2) [of n r]
      by (simp add: sell_loop_step matched_qty_def Let_def)
  next
    case 3
    have "sell_loop (Fin (of_int p)) (Fin (of_int (r - n))) (Some (Fin (of_int (a + (p - c) * n)))) (lots_of q) =
      (case fifo_sell p (r - n) (a + (p - c) * n) q of (q', a') \<Rightarrow> (lots_of q', Some (Fin (of_int a'))))"
      using 3 "2.prems" hyps gain [of n] total by (intro "2.IH") auto
    then show ?thesis
      using 3 hyps g [of n] "2.prems"(6) exact_ops(2) [of r n]
      by (simp add: sell_loop_step matched_qty_def Let_def)
  qed (use "2.prems" in simp)
qed

section \<open>The fold over transactions\<close>

definition tx_ok :: "Transaction \<Rightarrow> bool" where
  "tx_ok tx \<longleftrightarrow> flt f0 (tx_Quantity tx) \<and> tx_Quantity tx \<noteq> PInf \<and> is_f64 (tx_Quantity tx)"

definition queues_ok :: "fifo_state \<Rightarrow> bool" where
  "queues_ok st \<longleftrightarrow> (\<forall>k. \<forall>lot \<in> set (gm_get (fifoQueues st) [] k). lot_ok lot)"

lemma queues_ok_put:
  assumes "queues_ok st" "\<forall>lot \<in> set q. lot_ok lot" "fifoQueues st' = gm_put k q (fifoQueues st)"
  shows "queues_ok st'"
  using assms by (simp add: queues_ok_def gm_get_put)

lemma fifo_step_queues_ok [go_inv]:
  assumes "queues_ok st" "tx_ok tx"
  shows "queues_ok (fifo_step st tx)"
proof -
  let ?q = "gm_get (fifoQueues st) [] (tx_AssetSymbol tx)"
  have q: "\<forall>lot \<in> set ?q. lot_ok lot" using assms(1) by (simp add: queues_ok_def)
  obtain r where r: "tx_Quantity tx = Fin r" "round64 r = Fin r"
    using assms(2) by (cases "tx_Quantity tx") (auto simp: tx_ok_def)
  have lot: "lot_ok \<lparr>lot_quantity = tx_Quantity tx, lot_unitCost = unit_price tx\<rparr>"
    using assms(2) by (simp add: tx_ok_def lot_ok_def)
  consider "tx_Type tx = ''buy''" | "tx_Type tx = ''sell''" | "tx_Type tx \<noteq> ''buy''" "tx_Type tx \<noteq> ''sell''" by blast
  then show ?thesis
  proof cases
    case 1
    then show ?thesis
      by (intro queues_ok_put [OF assms(1), of "?q @ [_]" _ "tx_AssetSymbol tx"])
        (use q lot in \<open>auto simp: fifo_step_def Let_def\<close>)
  next
    case 2
    then show ?thesis
      by (intro queues_ok_put [OF assms(1), of "fst (sell_loop (unit_price tx) (tx_Quantity tx) (map_of (realizedByAsset st) (tx_AssetSymbol tx)) ?q)" _ "tx_AssetSymbol tx"])
        (use sell_loop_shape [OF q r(2)] r(1) in \<open>auto simp: fifo_step_def Let_def split: prod.splits\<close>)
  next
    case 3
    then show ?thesis using assms(1) by (simp add: fifo_step_def queues_ok_def Let_def)
  qed
qed

lemma foldl_fifo_queues_ok:
  "queues_ok st \<Longrightarrow> \<forall>tx \<in> set txs. tx_ok tx \<Longrightarrow> queues_ok (foldl fifo_step st txs)"
  by (induction txs arbitrary: st) (auto intro: fifo_step_queues_ok)

text \<open>The keys of the three maps and the transaction counts.\<close>

definition maps_inv :: "fifo_state \<Rightarrow> Transaction list \<Rightarrow> bool" where
  "maps_inv st txs \<longleftrightarrow>
     set (gm_keys (txCountByAsset st)) = tx_AssetSymbol ` set txs \<and>
     set (gm_keys (fifoQueues st)) \<subseteq> tx_AssetSymbol ` set txs \<and>
     set (gm_keys (realizedByAsset st)) \<subseteq> tx_AssetSymbol ` set txs \<and>
     (\<forall>k. gm_get (txCountByAsset st) 0 k = int (length (filter (\<lambda>tx. tx_AssetSymbol tx = k) txs)))"

lemma maps_inv_init: "maps_inv fifo_init []"
  by (simp add: maps_inv_def fifo_init_def gm_keys_def)

lemma keys_put_realized: "set (gm_keys (put_realized k r m)) \<subseteq> insert k (set (gm_keys m))"
  by (auto simp: put_realized_def split: option.splits)

lemma fifo_step_maps:
  "txCountByAsset (fifo_step st tx) =
     gm_put (tx_AssetSymbol tx) (gm_get (txCountByAsset st) 0 (tx_AssetSymbol tx) + 1) (txCountByAsset st)"
  "set (gm_keys (fifoQueues (fifo_step st tx))) \<subseteq> insert (tx_AssetSymbol tx) (set (gm_keys (fifoQueues st)))"
  "set (gm_keys (realizedByAsset (fifo_step st tx))) \<subseteq> insert (tx_AssetSymbol tx) (set (gm_keys (realizedByAsset st)))"
  using keys_put_realized [of "tx_AssetSymbol tx" _ "realizedByAsset st"]
  by (simp_all add: fifo_step_def Let_def subset_insertI split: prod.splits)

lemma maps_inv_step [go_inv]: "maps_inv st txs \<Longrightarrow> maps_inv (fifo_step st tx) (txs @ [tx])"
proof -
  assume inv: "maps_inv st txs"
  then have "set (gm_keys (fifoQueues (fifo_step st tx))) \<subseteq> tx_AssetSymbol ` set (txs @ [tx])"
    "set (gm_keys (realizedByAsset (fifo_step st tx))) \<subseteq> tx_AssetSymbol ` set (txs @ [tx])"
    using fifo_step_maps(2,3) [of st tx] by (auto simp: maps_inv_def)
  then show ?thesis using inv by (simp add: maps_inv_def fifo_step_maps(1) gm_get_put)
qed

lemma maps_inv_foldl: "maps_inv (foldl fifo_step fifo_init txs) txs"
proof (induction txs rule: rev_induct)
  case Nil
  then show ?case by (simp add: maps_inv_init)
next
  case (snoc tx txs)
  then show ?case by (simp add: maps_inv_step)
qed

lemma partition_txs_eq:
  "partition_txs txs p =
     p\<lparr>pt_resolved := pt_resolved p @ filter (\<lambda>tx. \<not> is_unresolvable tx) txs,
       pt_excluded := pt_excluded p + int (length (filter is_unresolvable txs)),
       pt_approximate := (pt_approximate p \<or> (\<exists>tx \<in> set txs. is_approximate tx))\<rparr>"
proof (induction txs arbitrary: p)
  case (Cons tx txs)
  have "is_unresolvable tx \<Longrightarrow> \<not> is_approximate tx" by (auto simp: is_unresolvable_def is_approximate_def)
  then show ?case by (auto simp: Cons.IH)
qed simp

lemma keys_unrealized_map:
  "set (gm_keys (unrealized_map getPrice quote ks queues)) \<subseteq> set ks"
proof -
  have "set (gm_keys (foldl (\<lambda>m asset. put_realized asset (f asset) m) m0 ks)) \<subseteq> set (gm_keys m0) \<union> set ks"
    for f m0
  proof (induction ks arbitrary: m0)
    case (Cons k ks)
    then show ?case using keys_put_realized [of k "f k" m0] by fastforce
  qed simp
  from this [of _ "[]"] show ?thesis by (auto simp: unrealized_map_def gm_keys_def)
qed

abbreviation resolved_of :: "Transaction list \<Rightarrow> Transaction list" where
  "resolved_of txs \<equiv> filter (\<lambda>tx. \<not> is_unresolvable tx) txs"

lemma asset_set_eq:
  assumes "permutes_keys rngQ"
  shows "set (asset_set (realizedByAsset (foldl fifo_step fifo_init txs))
      (unrealized_map getPrice quote (rngQ (gm_keys (fifoQueues (foldl fifo_step fifo_init txs)))) queues)
      (txCountByAsset (foldl fifo_step fifo_init txs))) = tx_AssetSymbol ` set txs"
  using maps_inv_foldl [of txs] permutes_keys_set [OF assms, of "gm_keys (fifoQueues (foldl fifo_step fifo_init txs))"]
    keys_unrealized_map [of getPrice quote "rngQ (gm_keys (fifoQueues (foldl fifo_step fifo_init txs)))" queues]
  unfolding asset_set_def maps_inv_def by auto

lemma sorted_assets:
  assumes "permutes_keys rngA" "distinct ks" "set ks = A"
  shows "map ap_AssetSymbol (sort_key ap_AssetSymbol (map (asset_pnl r u c) (rngA ks))) = sorted_list_of_set A"
proof -
  let ?as = "sort_key ap_AssetSymbol (map (asset_pnl r u c) (rngA ks))"
  have id: "map ap_AssetSymbol (map (asset_pnl r u c) ks') = ks'" for ks'
    by (simp add: asset_pnl_def comp_def)
  have m: "mset (map ap_AssetSymbol ?as) = mset (rngA ks)"
    by (metis id mset_map mset_sort)
  then have "set (map ap_AssetSymbol ?as) = A"
    using assms permutes_keys_set by (metis set_mset_mset)
  moreover have "distinct (map ap_AssetSymbol ?as)"
    using m assms permutes_keys_distinct by (metis mset_eq_imp_distinct_iff)
  moreover have "sorted (map ap_AssetSymbol ?as)" by simp
  ultimately show ?thesis
    by (metis sorted_list_of_set.idem_if_sorted_distinct sorted_list_of_set_sort_remdups remdups_id_iff_distinct sort_key_id_if_sorted map_ident id)
qed

section \<open>Properties\<close>

text \<open>
  A sell takes from the oldest lots first: what the loop leaves of a queue of positive finite lots
  is a suffix of it, possibly with its first lot reduced, unit costs and order kept, and every lot that
  is left is again positive and finite.
\<close>

lemma sell_takes_oldest_first:
  assumes "\<forall>lot \<in> set q. lot_ok lot" "is_f64 (Fin r)"
  shows "consumed_prefix q (fst (sell_loop price (Fin r) acc q)) \<and>
    (\<forall>lot \<in> set (fst (sell_loop price (Fin r) acc q)). lot_ok lot)"
  using sell_loop_shape [of q r price acc] assms by simp

text \<open>
  \<^bold>\<open>C7\<close>. On whole-number quantities and prices whose totals stay below \<open>2 ^ 53\<close> the floating point loop
  computes exactly the FIFO accounting on integers: the same lots are left and the realized profit is
  the exact one.
\<close>

theorem sell_loop_refines_fifo:
  assumes "\<forall>(n, c) \<in> set q. 0 < n \<and> \<bar>c\<bar> \<le> P" "\<bar>p\<bar> \<le> P" "0 \<le> r"
    and "\<bar>a\<bar> + 2 * P * quantity_sum q < 2 ^ 53" "quantity_sum q < 2 ^ 53" "r < 2 ^ 53"
  shows "sell_loop (Fin (of_int p)) (Fin (of_int r)) (Some (Fin (of_int a))) (lots_of q) =
    (case fifo_sell p r a q of (q', a') \<Rightarrow> (lots_of q', Some (Fin (of_int a'))))"
  using sell_loop_exact [OF assms] .

theorem sell_loop_refines_fifo_witness:
  "sell_loop (Fin 30) (Fin 4) (Some (Fin 7)) (lots_of [(2, 10), (5, 20)]) =
    (lots_of [(3, 20)], Some (Fin 67))"
  using sell_loop_refines_fifo [of "[(2, 10), (5, 20)]" 30 30 4 7] by simp

text \<open>
  Under the same bounds no quantity is lost or created: the loop leaves the bought quantity less the
  sold one, and nothing when more is sold than was bought.
\<close>

lemma sell_loop_conserves_quantity:
  assumes "\<forall>(n, c) \<in> set q. 0 < n \<and> \<bar>c\<bar> \<le> P" "\<bar>p\<bar> \<le> P" "0 \<le> r"
    and "\<bar>a\<bar> + 2 * P * quantity_sum q < 2 ^ 53" "quantity_sum q < 2 ^ 53" "r < 2 ^ 53"
  shows "\<exists>q'. fst (sell_loop (Fin (of_int p)) (Fin (of_int r)) (Some (Fin (of_int a))) (lots_of q)) = lots_of q' \<and>
    quantity_sum q' = max 0 (quantity_sum q - r)"
proof -
  have "quantity_sum (fst (fifo_sell p r a q)) = max 0 (quantity_sum q - r)"
    using assms(1,3) by (intro fifo_sell_conserves) auto
  then show ?thesis using sell_loop_exact [OF assms] by (auto split: prod.splits)
qed

text \<open>
  If every transaction has a positive finite quantity, every lot the engine holds after processing
  any list of transactions is positive and finite: selling more than was bought never produces a
  negative lot.
\<close>

lemma fifo_lots_stay_positive:
  assumes "\<forall>tx \<in> set txs. tx_ok tx"
  shows "\<forall>asset. \<forall>lot \<in> set (gm_get (fifoQueues (foldl fifo_step fifo_init txs)) [] asset). lot_ok lot"
  using foldl_fifo_queues_ok [of fifo_init txs] assms by (simp add: queues_ok_def fifo_init_def)

definition sample_tx :: "string \<Rightarrow> string \<Rightarrow> rat \<Rightarrow> rat \<Rightarrow> Transaction" where
  "sample_tx asset kind qty val =
     \<lparr>tx_ID = [], tx_UserID = [], tx_AssetSymbol = asset, tx_Quantity = Fin qty, tx_Type = kind, tx_Timestamp = 0,
      tx_Source = [], tx_SourceRef = [], tx_ReferenceValue = Some (Fin val), tx_ReferenceCurrency = ''USD'',
      tx_Resolution = ''hourly'', tx_Fee = None, tx_FeeCurrency = [], tx_ManuallyEdited = False, tx_Notes = [],
      tx_CreatedAt = 0, tx_UpdatedAt = 0\<rparr>"

text \<open>
  The per-asset breakdown lists exactly the assets of the resolvable transactions, in alphabetical
  order and without repetition, whatever order Go visits its maps in; the excluded count is the number
  of unresolvable transactions, the approximate flag says whether a candle price was used, and an asset's
  transaction count is the number of its resolvable transactions.
\<close>

lemma snapshot_breakdown:
  fixes rngQ rngA getPrice newID now userID quote txs
  defines "snap \<equiv> compute_snapshot rngQ rngA getPrice newID now userID quote txs"
  assumes "permutes_keys rngQ" "permutes_keys rngA"
  shows "map ap_AssetSymbol (ps_Assets snap) = sorted_list_of_set (tx_AssetSymbol ` set (resolved_of txs)) \<and>
    ps_ExcludedCount snap = int (length (filter is_unresolvable txs)) \<and>
    ps_HasApproximate snap = (\<exists>tx \<in> set txs. is_approximate tx) \<and>
    (\<forall>ap \<in> set (ps_Assets snap). ap_TransactionCount ap =
       int (length (filter (\<lambda>tx. tx_AssetSymbol tx = ap_AssetSymbol ap) (resolved_of txs))))"
proof -
  let ?st = "foldl fifo_step fifo_init (resolved_of txs)"
  let ?u = "unrealized_map getPrice quote (rngQ (gm_keys (fifoQueues ?st))) (fifoQueues ?st)"
  let ?ks = "asset_set (realizedByAsset ?st) ?u (txCountByAsset ?st)"
  have assets: "ps_Assets snap = sort_key ap_AssetSymbol
      (map (asset_pnl (realizedByAsset ?st) ?u (txCountByAsset ?st)) (rngA ?ks))"
    by (simp add: snap_def compute_snapshot_def partition_txs_eq Let_def)
  have "set ?ks = tx_AssetSymbol ` set (resolved_of txs)" by (rule asset_set_eq [OF assms(2)])
  moreover have "distinct ?ks" by (simp add: asset_set_def)
  ultimately have syms: "map ap_AssetSymbol (ps_Assets snap) = sorted_list_of_set (tx_AssetSymbol ` set (resolved_of txs))"
    unfolding assets by (intro sorted_assets [OF assms(3)])
  have counts: "gm_get (txCountByAsset ?st) 0 k = int (length (filter (\<lambda>tx. tx_AssetSymbol tx = k) (resolved_of txs)))" for k
    using maps_inv_foldl [of "resolved_of txs"] by (simp add: maps_inv_def)
  have "ap_TransactionCount ap = int (length (filter (\<lambda>tx. tx_AssetSymbol tx = ap_AssetSymbol ap) (resolved_of txs)))"
    if "ap \<in> set (ps_Assets snap)" for ap
    using that counts unfolding assets by (auto simp: asset_pnl_def)
  with syms show ?thesis by (simp add: snap_def compute_snapshot_def partition_txs_eq Let_def)
qed

text \<open>
  The engine never looks at the currency a transaction's reference value is denominated in: with the
  currencies replaced by any other, the snapshot for a quote currency is the same. A snapshot labelled
  with one currency is therefore computed from values in whatever currency they were last resolved in.
\<close>

lemma snapshot_ignores_reference_currency:
  "compute_snapshot rngQ rngA getPrice newID now userID quote (map (\<lambda>tx. tx\<lparr>tx_ReferenceCurrency := cur tx\<rparr>) txs) =
   compute_snapshot rngQ rngA getPrice newID now userID quote txs"
proof -
  let ?f = "\<lambda>tx. tx\<lparr>tx_ReferenceCurrency := cur tx\<rparr>"
  have "unit_price (?f tx) = unit_price tx" for tx
    by (simp add: unit_price_def split: option.splits)
  then have step: "fifo_step st (?f tx) = fifo_step st tx" for st tx
    by (simp add: fifo_step_def Let_def)
  have "foldl fifo_step st (map ?f ts) = foldl fifo_step st ts" for st ts
    by (induction ts arbitrary: st) (simp_all add: step)
  moreover have "resolved_of (map ?f txs) = map ?f (resolved_of txs)"
    by (simp add: filter_map comp_def is_unresolvable_def)
  moreover have "filter is_unresolvable (map ?f txs) = map ?f (filter is_unresolvable txs)"
    by (simp add: filter_map comp_def is_unresolvable_def [abs_def])
  moreover have "is_approximate (?f tx) = is_approximate tx" for tx by (simp add: is_approximate_def)
  ultimately show ?thesis by (simp add: compute_snapshot_def partition_txs_eq Let_def)
qed

lemma round64_2_53:
  "round64 9007199254740992 = Fin 9007199254740992"
  "round64 9007199254740993 = Fin 9007199254740992"
  "round64 (- 9007199254740992) = Fin (- 9007199254740992)"
proof -
  have p: "pow2 53 = 9007199254740992" "pow2 54 = 18014398509481984" "pow2 1 = 2" by (simp_all add: pow2_def)
  have big: "9007199254740992 < pow2 1024" using pow2_strict_mono [of 53 1024] by (simp add: p)
  have "dyadic53 9007199254740992"
    unfolding dyadic53_def by (intro exI [of _ 1] exI [of _ 53]) (simp add: p)
  then show "round64 9007199254740992 = Fin 9007199254740992"
    "round64 (- 9007199254740992) = Fin (- 9007199254740992)"
    using big by (simp_all add: round64_dyadic dyadic53_neg)
  have "ilog2 9007199254740993 = 53" by (rule ilog2_eqI) (simp_all add: p)
  moreover have "\<lfloor>9007199254740993 / 2 :: rat\<rfloor> = 4503599627370496" by (rule floor_unique) simp_all
  ultimately have "round_rat 9007199254740993 = 9007199254740992"
    by (simp add: round_rat_def round_pos_def ulp_exp_def round_half_even_def Let_def)
  then show "round64 9007199254740993 = Fin 9007199254740992"
    using big by (auto simp: round64_def Let_def)
qed

definition order_txs :: "Transaction list" where
  "order_txs =
     [sample_tx ''A'' ''buy'' 1 0, sample_tx ''A'' ''sell'' 1 9007199254740992,
      sample_tx ''B'' ''buy'' 1 0, sample_tx ''B'' ''sell'' 1 1,
      sample_tx ''C'' ''buy'' 1 9007199254740992, sample_tx ''C'' ''sell'' 1 0]"

lemma sell_loop_one:
  "sell_loop (Fin p) (Fin 1) None [\<lparr>lot_quantity = Fin 1, lot_unitCost = Fin c\<rparr>] =
     ([], realized_add None (fmul (fsub (Fin p) (Fin c)) (Fin 1)))"
  by (simp add: sell_loop_step matched_qty_def Let_def)

lemma order_txs_fold:
  "realizedByAsset (foldl fifo_step fifo_init order_txs) =
     [(''A'', Fin 9007199254740992), (''B'', Fin 1), (''C'', Fin (- 9007199254740992))]"
  "fifoQueues (foldl fifo_step fifo_init order_txs) = [(''A'', []), (''B'', []), (''C'', [])]"
  "gm_keys (txCountByAsset (foldl fifo_step fifo_init order_txs)) = [''A'', ''B'', ''C'']"
  by (simp_all add: order_txs_def fifo_step_def fifo_init_def sample_tx_def unit_price_def gm_get_def Let_def
      sell_loop_one realized_add_def put_realized_def fsub_def round64_2_53 gm_keys_def)

text \<open>
  The totals of a snapshot depend on the order in which Go happens to visit a map: there are
  transactions and two visiting orders for which the total realized profit differs, although the
  per-asset breakdown is the same.
\<close>

lemma snapshot_total_depends_on_map_order:
  "\<exists>txs rngA rngA'. permutes_keys rngA \<and> permutes_keys rngA' \<and>
     ps_TotalRealized (compute_snapshot (\<lambda>ks. ks) rngA (\<lambda>a q. Inl ()) newID now userID quote txs) \<noteq>
     ps_TotalRealized (compute_snapshot (\<lambda>ks. ks) rngA' (\<lambda>a q. Inl ()) newID now userID quote txs)"
proof (intro exI conjI)
  show "permutes_keys (\<lambda>ks. ks)" and "permutes_keys (rev :: string list \<Rightarrow> string list)"
    by (auto simp: permutes_keys_def)
  have res: "resolved_of order_txs = order_txs"
    by (simp add: order_txs_def is_unresolvable_def sample_tx_def)
  have u: "unrealized_map (\<lambda>a q. Inl ()) quote [''A'', ''B'', ''C''] [(''A'', []), (''B'', []), (''C'', [])] = []"
    by (simp add: unrealized_map_def unrealized_of_def put_realized_def)
  have "ps_TotalRealized (compute_snapshot (\<lambda>ks. ks) rngA (\<lambda>a q. Inl ()) newID now userID quote order_txs) =
      sum_in_order [(''A'', Fin 9007199254740992), (''B'', Fin 1), (''C'', Fin (- 9007199254740992))] (rngA [''A'', ''B'', ''C''])" for rngA
    using u by (simp add: compute_snapshot_def partition_txs_eq res Let_def order_txs_fold asset_set_def gm_keys_def [of "_ # _"] gm_keys_def [of "[]"])
  then show "ps_TotalRealized (compute_snapshot (\<lambda>ks. ks) (\<lambda>ks. ks) (\<lambda>a q. Inl ()) newID now userID quote order_txs) \<noteq>
      ps_TotalRealized (compute_snapshot (\<lambda>ks. ks) rev (\<lambda>a q. Inl ()) newID now userID quote order_txs)"
    by (simp add: sum_in_order_def gm_get_def round64_2_53)
qed

end
