(* ===== verification/Task_Domain.thy ===== *)
theory Task_Domain
  imports Go_Time
begin

text \<open>
  \<^verbatim>\<open>domain/task/task.go\<close> and the small domain records the planner and the workers share: tasks with
  their types, descriptions and cadences, trading pairs and leases.
\<close>

definition TypeBackfill :: string where "TypeBackfill = ''historical_backfill''"
definition TypeConsolidate :: string where "TypeConsolidate = ''consolidation''"
definition TypeRealtime :: string where "TypeRealtime = ''live_ticker''"
definition TypeDataSanity :: string where "TypeDataSanity = ''integrity_check''"
definition TypeCleanup :: string where "TypeCleanup = ''task_cleanup''"
definition TypeNewsFetch :: string where "TypeNewsFetch = ''news_fetch''"
definition TypeGapValidation :: string where "TypeGapValidation = ''gap_validation''"
definition TypePortfolioRecompute :: string where "TypePortfolioRecompute = ''portfolio_recompute''"
definition TypePnLRefresh :: string where "TypePnLRefresh = ''pnl_refresh''"

lemmas task_types = TypeBackfill_def TypeConsolidate_def TypeRealtime_def TypeDataSanity_def TypeCleanup_def
  TypeNewsFetch_def TypeGapValidation_def TypePortfolioRecompute_def TypePnLRefresh_def

record Task =
  t_ID :: string
  t_Type :: string
  t_Pair :: string
  t_Interval :: string
  t_Cadence :: string
  t_WindowStart :: gotime
  t_WindowEnd :: gotime
  t_Status :: string
  t_Description :: string
  t_LastError :: string
  t_CompletedAt :: "gotime option"
  t_RetryCount :: int
  t_RetryAt :: "gotime option"

text \<open>A composite literal leaves the fields it does not name at their zero values.\<close>

definition new_task :: "string \<Rightarrow> string \<Rightarrow> string \<Rightarrow> string \<Rightarrow> gotime \<Rightarrow> gotime \<Rightarrow> Task" where
  "new_task i ty pr iv ws we =
     \<lparr>t_ID = i, t_Type = ty, t_Pair = pr, t_Interval = iv, t_Cadence = [], t_WindowStart = ws, t_WindowEnd = we,
      t_Status = [], t_Description = [], t_LastError = [], t_CompletedAt = None, t_RetryCount = 0, t_RetryAt = None\<rparr>"

text \<open>The arrow of the description is U+2192 in UTF-8.\<close>

definition arrow :: string where "arrow = [CHR '' '', CHR 0xE2, CHR 0x86, CHR 0x92, CHR '' '']"

definition BuildDescription :: "Task \<Rightarrow> string" where
  "BuildDescription t =
     (let ty = t_Type t in
      if ty = TypeBackfill then
        t_Interval t @ '' candles '' @ fmt_minute (t_WindowStart t) @ arrow @ fmt_minute (t_WindowEnd t)
      else if ty = TypeConsolidate then ''Rebuild daily candle for '' @ fmt_minute (t_WindowStart t)
      else if ty = TypeDataSanity then
        ''Verify '' @ t_Interval t @ '' candle integrity from '' @ fmt_minute (t_WindowStart t) @ '' to '' @ fmt_minute (t_WindowEnd t)
      else if ty = TypeGapValidation then
        ''Verify '' @ t_Interval t @ '' candle completeness from '' @ fmt_minute (t_WindowStart t) @ '' to '' @ fmt_minute (t_WindowEnd t)
      else if ty = TypeCleanup then ''Prune completed/failed task log''
      else if ty = TypeNewsFetch then
        (if t_Pair t \<noteq> [] \<and> t_Pair t \<noteq> ''*'' then ''Fetch news from '' @ t_Pair t else ''Fetch latest crypto news'')
      else if ty = TypePortfolioRecompute then ''Full transaction + P&L recompute''
      else if ty = TypePnLRefresh then ''Unrealized P&L refresh with current prices''
      else [])"

definition SchedulingCadence :: "Task \<Rightarrow> string" where
  "SchedulingCadence t =
     (let ty = t_Type t in
      if ty = TypeRealtime then t_Interval t
      else if ty = TypeBackfill then ''once''
      else if ty = TypeConsolidate then ''once''
      else if ty = TypeDataSanity then ''24h''
      else if ty = TypeGapValidation then ''24h''
      else if ty = TypeCleanup then ''1d''
      else if ty = TypeNewsFetch then t_Interval t
      else if ty = TypePortfolioRecompute then ''once''
      else if ty = TypePnLRefresh then ''1h''
      else t_Interval t)"

definition Enrich :: "Task \<Rightarrow> Task" where
  "Enrich t = (let t1 = t\<lparr>t_Description := BuildDescription t\<rparr> in t1\<lparr>t_Cadence := SchedulingCadence t1\<rparr>)"

definition described :: "Task \<Rightarrow> Task" where
  "described t = t\<lparr>t_Description := BuildDescription t\<rparr>"

lemma new_task_simps [simp]:
  "t_ID (new_task i ty pr iv ws we) = i" "t_Type (new_task i ty pr iv ws we) = ty"
  "t_Pair (new_task i ty pr iv ws we) = pr" "t_Interval (new_task i ty pr iv ws we) = iv"
  "t_WindowStart (new_task i ty pr iv ws we) = ws" "t_WindowEnd (new_task i ty pr iv ws we) = we"
  by (simp_all add: new_task_def)

lemma described_simps [simp]:
  "t_ID (described t) = t_ID t" "t_Type (described t) = t_Type t" "t_Pair (described t) = t_Pair t"
  "t_Interval (described t) = t_Interval t" "t_WindowStart (described t) = t_WindowStart t"
  "t_WindowEnd (described t) = t_WindowEnd t"
  by (simp_all add: described_def)

record Pair =
  p_Base :: string
  p_Quote :: string
  p_Symbol :: string

record Lease =
  l_Name :: string
  l_HolderID :: string
  l_ExpiresAt :: gotime
  l_LastBeatAt :: gotime

end
