(* ===== verification/Scheduler.thy ===== *)
theory Scheduler
  imports Task_Domain
begin

text \<open>
  \<^verbatim>\<open>planner/scheduler.go\<close>: the pure functions that turn per-pair sync state into tasks. A
  \<^verbatim>\<open>map[string]SyncState\<close> is a map; \<^verbatim>\<open>map[string]map[string]bool\<close> is, per pair, the list
  of day keys mapped to true. The round-robin loop of \<^verbatim>\<open>BuildInitialBackfillTasksLimited\<close> has no
  bound of its own and is a partial function, \<open>None\<close> being a call that never returns.
\<close>

record SyncState =
  HourlyLastSynced :: gotime
  HourlyRealtimeStartedAt :: gotime
  DailyLastSynced :: gotime
  HourlyBackfillCompleted :: bool
  DailyBackfillCompleted :: bool

definition zero_SyncState :: SyncState where
  "zero_SyncState = \<lparr>HourlyLastSynced = 0, HourlyRealtimeStartedAt = 0, DailyLastSynced = 0,
     HourlyBackfillCompleted = False, DailyBackfillCompleted = False\<rparr>"

record Scheduler =
  backfillWindow1H :: duration
  backfillWindow1D :: duration
  realtimePollInterval :: duration
  newsFetchInterval :: duration
  integrityCheckInterval :: duration
  gapValidationInterval :: duration
  pnlRefreshInterval :: duration

definition or_default :: "duration \<Rightarrow> duration \<Rightarrow> duration" where
  "or_default d dflt = (if d \<le> 0 then dflt else d)"

definition NewScheduler :: "duration \<Rightarrow> duration \<Rightarrow> duration \<Rightarrow> duration \<Rightarrow> duration \<Rightarrow> Scheduler" where
  "NewScheduler poll news integrity gap pnl =
     \<lparr>backfillWindow1H = 1 * Hour, backfillWindow1D = 24 * Hour,
      realtimePollInterval = or_default poll (5 * Second),
      newsFetchInterval = or_default news (15 * Minute),
      integrityCheckInterval = or_default integrity (24 * Hour),
      gapValidationInterval = or_default gap (24 * Hour),
      pnlRefreshInterval = or_default pnl (1 * Hour)\<rparr>"

definition taskID :: "string \<Rightarrow> string \<Rightarrow> string \<Rightarrow> gotime \<Rightarrow> gotime \<Rightarrow> string" where
  "taskID taskType pairSymbol interval start stop =
     taskType @ '':'' @ pairSymbol @ '':'' @ interval @ '':'' @ show_int (unix start) @ '':'' @ show_int (unix stop)"

type_synonym state_map = "string \<Rightarrow> SyncState option"
type_synonym coverage_map = "string \<Rightarrow> string list"

definition state_of :: "state_map \<Rightarrow> string \<Rightarrow> SyncState" where
  "state_of state symb = (case state symb of None \<Rightarrow> zero_SyncState | Some s \<Rightarrow> s)"

section \<open>Backfill\<close>

record backfillCursor =
  bc_pair :: Pair
  bc_cursor :: gotime
  bc_interval :: string
  bc_window :: duration
  bc_coverage :: "string list"
  bc_done :: bool

definition yesterday_of :: "gotime \<Rightarrow> gotime" where
  "yesterday_of now = trunc_time (trunc_time now Hour) (24 * Hour) + - 24 * Hour"

definition hourly_ceiling :: "SyncState \<Rightarrow> gotime \<Rightarrow> gotime" where
  "hourly_ceiling ps yesterday =
     (if \<not> is_zero_time (HourlyRealtimeStartedAt ps) \<and> HourlyRealtimeStartedAt ps < yesterday
      then trunc_time (HourlyRealtimeStartedAt ps) Hour else yesterday)"

definition clamp_cursor :: "gotime \<Rightarrow> gotime \<Rightarrow> gotime" where
  "clamp_cursor cursor ceiling = (if is_zero_time cursor \<or> cursor > ceiling then ceiling else cursor)"

definition pair_cursor :: "Scheduler \<Rightarrow> SyncState \<Rightarrow> string list \<Rightarrow> gotime \<Rightarrow> Pair \<Rightarrow> backfillCursor option" where
  "pair_cursor s ps cov yesterday p =
     (if \<not> HourlyBackfillCompleted ps then
        Some \<lparr>bc_pair = p, bc_cursor = clamp_cursor (HourlyLastSynced ps) (hourly_ceiling ps yesterday),
              bc_interval = ''1h'', bc_window = backfillWindow1H s, bc_coverage = cov, bc_done = False\<rparr>
      else if \<not> DailyBackfillCompleted ps then
        Some \<lparr>bc_pair = p, bc_cursor = clamp_cursor (DailyLastSynced ps) yesterday,
              bc_interval = ''1d'', bc_window = backfillWindow1D s, bc_coverage = cov, bc_done = False\<rparr>
      else None)"

definition backfill_cursors ::
  "Scheduler \<Rightarrow> Pair list \<Rightarrow> state_map \<Rightarrow> coverage_map \<Rightarrow> (string \<Rightarrow> bool) \<Rightarrow> gotime \<Rightarrow> backfillCursor list" where
  "backfill_cursors s pairs state coverage activePairs now =
     List.map_filter
       (\<lambda>p. if activePairs (p_Symbol p) then None
            else pair_cursor s (state_of state (p_Symbol p)) (coverage (p_Symbol p)) (yesterday_of now) p)
       pairs"

definition backfill_task :: "backfillCursor \<Rightarrow> gotime \<Rightarrow> gotime \<Rightarrow> Task" where
  "backfill_task c windowStart prev =
     described (new_task (taskID TypeBackfill (p_Symbol (bc_pair c)) (bc_interval c) windowStart prev)
       TypeBackfill (p_Symbol (bc_pair c)) (bc_interval c) windowStart prev)"

text \<open>The inner loop: walk the cursor back until a window on a day that is not covered is found.\<close>

partial_function (option) emit_loop :: "backfillCursor \<Rightarrow> (backfillCursor \<times> Task option) option" where
  "emit_loop c =
     (let windowStart = bc_cursor c + - bc_window c
      in if \<not> bc_cursor c > windowStart then Some (c\<lparr>bc_done := True\<rparr>, None)
         else if fmt_day windowStart \<in> set (bc_coverage c) then emit_loop (c\<lparr>bc_cursor := windowStart\<rparr>)
         else Some (c\<lparr>bc_cursor := windowStart\<rparr>, Some (backfill_task c windowStart (bc_cursor c))))"

text \<open>One round over the cursors: \<open>Inl\<close> returns the tasks from inside the round, the limit being reached.\<close>

fun backfill_round :: "int \<Rightarrow> backfillCursor list \<Rightarrow> Task list \<Rightarrow> (Task list + backfillCursor list \<times> Task list) option" where
  "backfill_round limit [] tasks = Some (Inr ([], tasks))"
| "backfill_round limit (c # cs) tasks =
     (if bc_done c then
        map_option (map_sum id (\<lambda>(cs', ts). (c # cs', ts))) (backfill_round limit cs tasks)
      else
        (case emit_loop c of
           None \<Rightarrow> None
         | Some (c', None) \<Rightarrow>
             map_option (map_sum id (\<lambda>(cs', ts). (c' # cs', ts))) (backfill_round limit cs tasks)
         | Some (c', Some t) \<Rightarrow>
             if limit > 0 \<and> int (length (tasks @ [t])) \<ge> limit then Some (Inl (tasks @ [t]))
             else map_option (map_sum id (\<lambda>(cs', ts). (c' # cs', ts))) (backfill_round limit cs (tasks @ [t]))))"

definition active_count :: "backfillCursor list \<Rightarrow> nat" where
  "active_count cs = length (filter (\<lambda>c. \<not> bc_done c) cs)"

partial_function (option) backfill_rounds :: "int \<Rightarrow> backfillCursor list \<Rightarrow> Task list \<Rightarrow> Task list option" where
  "backfill_rounds limit cs tasks =
     (if active_count cs > 0 then
        (case backfill_round limit cs tasks of
           None \<Rightarrow> None
         | Some (Inl ts) \<Rightarrow> Some ts
         | Some (Inr (cs', ts)) \<Rightarrow> backfill_rounds limit cs' ts)
      else Some tasks)"

definition BuildInitialBackfillTasksLimited ::
  "Scheduler \<Rightarrow> Pair list \<Rightarrow> state_map \<Rightarrow> coverage_map \<Rightarrow> (string \<Rightarrow> bool) \<Rightarrow> gotime \<Rightarrow> int \<Rightarrow> Task list option" where
  "BuildInitialBackfillTasksLimited s pairs state coverage activePairs now limit =
     backfill_rounds limit (backfill_cursors s pairs state coverage activePairs now) []"

section \<open>Sweeps and periodic tasks\<close>

text \<open>The loop \<^verbatim>\<open>for cursor := start; !cursor.After(last); cursor += 24h\<close> looking for a missing day.\<close>

function has_gap :: "string list \<Rightarrow> gotime \<Rightarrow> gotime \<Rightarrow> bool" where
  "has_gap covered cursor final =
     (if cursor > final then False
      else if fmt_day cursor \<notin> set covered then True
      else has_gap covered (cursor + 24 * Hour) final)"
  by pat_completeness auto
termination
  by (relation "measure (\<lambda>(covered, cursor, final). nat (final + 1 - cursor))") auto

declare has_gap.simps [simp del]

definition sweep_task :: "string \<Rightarrow> string \<Rightarrow> string \<Rightarrow> int \<Rightarrow> gotime \<Rightarrow> gotime \<Rightarrow> Task" where
  "sweep_task ty symb interval windowKey start stop =
     described (new_task (ty @ '':'' @ symb @ '':sweep:'' @ show_int windowKey) ty symb interval start stop)"

definition BuildGapValidationTasks :: "Scheduler \<Rightarrow> Pair list \<Rightarrow> state_map \<Rightarrow> coverage_map \<Rightarrow> gotime \<Rightarrow> Task list" where
  "BuildGapValidationTasks s pairs state coverage now =
     (let yesterday = trunc_time now (24 * Hour) + - 24 * Hour;
          windowKey = unix (trunc_time now (gapValidationInterval s))
      in List.map_filter
           (\<lambda>p. case state (p_Symbol p) of
              None \<Rightarrow> None
            | Some ps \<Rightarrow>
                let start = trunc_time (HourlyLastSynced ps) (24 * Hour)
                in if is_zero_time start then None
                   else if \<not> has_gap (coverage (p_Symbol p)) start yesterday then None
                   else Some (sweep_task TypeGapValidation (p_Symbol p) ''1d'' windowKey start (yesterday + 24 * Hour)))
           pairs)"

definition BuildIntegrityCheckTasks :: "Scheduler \<Rightarrow> Pair list \<Rightarrow> state_map \<Rightarrow> coverage_map \<Rightarrow> gotime \<Rightarrow> Task list" where
  "BuildIntegrityCheckTasks s pairs state integrityCoverage now =
     (let yesterday = trunc_time now (24 * Hour) + - 24 * Hour;
          windowKey = unix (trunc_time now (integrityCheckInterval s))
      in List.map_filter
           (\<lambda>p. case state (p_Symbol p) of
              None \<Rightarrow> None
            | Some ps \<Rightarrow>
                if \<not> HourlyBackfillCompleted ps \<and> is_zero_time (HourlyRealtimeStartedAt ps) then None
                else let start = trunc_time (HourlyLastSynced ps) (24 * Hour)
                     in if is_zero_time start then None
                        else if \<not> has_gap (integrityCoverage (p_Symbol p)) start yesterday then None
                        else Some (sweep_task TypeDataSanity (p_Symbol p) ''1h'' windowKey start (yesterday + 24 * Hour)))
           pairs)"

definition BuildCleanupTask :: "gotime \<Rightarrow> Task" where
  "BuildCleanupTask now =
     (let dayStart = trunc_time now (24 * Hour)
      in described (new_task (TypeCleanup @ '':daily'') TypeCleanup ''*'' ''1d'' dayStart (dayStart + 24 * Hour)))"

definition NewsSources :: "string list" where
  "NewsSources = [''coindesk'', ''cointelegraph'', ''theblock'']"

definition BuildNewsFetchTasks :: "Scheduler \<Rightarrow> gotime \<Rightarrow> Task list" where
  "BuildNewsFetchTasks s now =
     (let windowStart = trunc_time now (newsFetchInterval s); windowEnd = windowStart + newsFetchInterval s
      in map (\<lambda>source. described (new_task (TypeNewsFetch @ '':'' @ source @ '':periodic'') TypeNewsFetch source
               (show_duration (newsFetchInterval s)) windowStart windowEnd)) NewsSources)"

definition BuildConsolidationTasks :: "Pair list \<Rightarrow> state_map \<Rightarrow> gotime \<Rightarrow> Task list" where
  "BuildConsolidationTasks pairs state now =
     (let currentDay = trunc_time now (24 * Hour); prevDay = currentDay + - 24 * Hour
      in List.map_filter
           (\<lambda>p. case state (p_Symbol p) of
              None \<Rightarrow> None
            | Some ps \<Rightarrow>
                if \<not> HourlyBackfillCompleted ps \<or> \<not> DailyBackfillCompleted ps then None
                else Some (described (new_task (taskID TypeConsolidate (p_Symbol p) ''1d'' prevDay currentDay)
                       TypeConsolidate (p_Symbol p) ''1d'' prevDay currentDay)))
           pairs)"

definition BuildRealtimeTasks :: "Pair list \<Rightarrow> state_map \<Rightarrow> gotime \<Rightarrow> Task list" where
  "BuildRealtimeTasks pairs state now =
     (let currentHour = trunc_time now Hour; nextHour = currentHour + Hour
      in List.map_filter
           (\<lambda>p. case state (p_Symbol p) of
              None \<Rightarrow> None
            | Some _ \<Rightarrow>
                Some (new_task (TypeRealtime @ '':'' @ p_Symbol p @ '':realtime'') TypeRealtime (p_Symbol p)
                  ''realtime'' currentHour nextHour))
           pairs)"

definition BuildBackfillProbeTasks :: "Scheduler \<Rightarrow> Pair list \<Rightarrow> state_map \<Rightarrow> gotime \<Rightarrow> Task list" where
  "BuildBackfillProbeTasks s pairs state now =
     (let dayStart = trunc_time now (24 * Hour)
      in List.map_filter
           (\<lambda>p. let cursor = HourlyLastSynced (state_of state (p_Symbol p))
                in if is_zero_time cursor then None
                   else let probeStart = cursor + - backfillWindow1H s
                        in Some ((new_task (TypeBackfill @ '':'' @ p_Symbol p @ '':probe:'' @ show_int (unix dayStart))
                             TypeBackfill (p_Symbol p) ''1h'' probeStart cursor)
                             \<lparr>t_Description := ''1h probe candle '' @ fmt_minute probeStart @ arrow @ fmt_minute cursor\<rparr>))
           pairs)"

definition BuildPnLRefreshTasks :: "Scheduler \<Rightarrow> string list \<Rightarrow> gotime \<Rightarrow> Task list" where
  "BuildPnLRefreshTasks s userIDs now =
     (let windowStart = trunc_time now (pnlRefreshInterval s); windowEnd = windowStart + pnlRefreshInterval s
      in map (\<lambda>uid. described (new_task (TypePnLRefresh @ '':'' @ uid @ '':periodic'') TypePnLRefresh uid
               (show_duration (pnlRefreshInterval s)) windowStart windowEnd)) userIDs)"

definition ComputeBackfillTaskCap :: "int \<Rightarrow> int \<Rightarrow> int" where
  "ComputeBackfillTaskCap workerBatchSize percent0 =
     (if workerBatchSize \<le> 0 \<or> percent0 \<le> 0 then 0
      else let percent = (if percent0 > 100 then 100 else percent0);
               cap = (workerBatchSize * percent + 99) div 100
           in if cap > workerBatchSize then workerBatchSize
              else if cap < 1 then 1
              else cap)"

section \<open>The inner loop returns the next uncovered window\<close>

definition live_cursor :: "backfillCursor \<Rightarrow> bool" where
  "live_cursor c \<longleftrightarrow> 0 < bc_window c \<and> \<not> bc_done c"

text \<open>The reference: going back window by window, the first one that starts on an uncovered day.\<close>

definition next_uncovered :: "backfillCursor \<Rightarrow> gotime \<Rightarrow> bool" where
  "next_uncovered c stop \<longleftrightarrow>
     (\<exists>k. stop = bc_cursor c - int k * bc_window c \<and> fmt_day (stop - bc_window c) \<notin> set (bc_coverage c) \<and>
       (\<forall>j<k. fmt_day (bc_cursor c - int (Suc j) * bc_window c) \<in> set (bc_coverage c)))"

definition emit_next :: "backfillCursor \<Rightarrow> backfillCursor" where
  "emit_next c = fst (the (emit_loop c))"

definition emit_task :: "backfillCursor \<Rightarrow> Task" where
  "emit_task c = the (snd (the (emit_loop c)))"

lemma uncovered_day_exists:
  assumes "0 < w"
  shows "\<exists>k. fmt_day (t - int (Suc k) * w) \<notin> set cov"
proof (rule ccontr)
  assume "\<not> ?thesis"
  then have all: "fmt_day (t - int (Suc k) * w) \<in> set cov" for k by blast
  define g where "g k = fmt_day (t - int (Suc k) * Day * w)" for k
  have "g k \<in> set cov" for k
    using all [of "nat (int (Suc k) * Day) - 1"] by (simp add: g_def)
  moreover have "inj g"
  proof (rule injI)
    fix x y assume "g x = g y"
    moreover have "(t - int (Suc k) * Day * w) div Day = t div Day - int (Suc k) * w" for k
      using div_mult_self2 [of Day t "- (int (Suc k) * w)"] by (simp add: algebra_simps)
    ultimately show "x = y" using assms by (simp add: g_def fmt_day_inj del: time_units)
  qed
  ultimately show False
    using finite_subset [of "range g" "set cov"] finite_imageD [of g UNIV] by auto
qed

lemma emit_loop_first:
  assumes "0 < bc_window c" "fmt_day (bc_cursor c - int (Suc k) * bc_window c) \<notin> set (bc_coverage c)"
    and "\<forall>j<k. fmt_day (bc_cursor c - int (Suc j) * bc_window c) \<in> set (bc_coverage c)"
  shows "emit_loop c = (let stop = bc_cursor c - int k * bc_window c in
     Some (c\<lparr>bc_cursor := stop - bc_window c\<rparr>, Some (backfill_task c (stop - bc_window c) stop)))"
  using assms
proof (induction k arbitrary: c)
  case 0
  then show ?case by (subst emit_loop.simps) (simp add: Let_def)
next
  case (Suc k)
  let ?c = "c\<lparr>bc_cursor := bc_cursor c - bc_window c\<rparr>"
  have cov: "fmt_day (bc_cursor c - bc_window c) \<in> set (bc_coverage c)"
    using Suc.prems(3) [rule_format, of 0] by simp
  have shift: "bc_cursor ?c - int j * bc_window ?c = bc_cursor c - int (Suc j) * bc_window c" for j
    by (simp add: algebra_simps)
  have "emit_loop c = emit_loop ?c"
    using cov Suc.prems(1) by (subst emit_loop.simps) (simp add: Let_def)
  also have "\<dots> = (let stop = bc_cursor ?c - int k * bc_window ?c in
     Some (?c\<lparr>bc_cursor := stop - bc_window ?c\<rparr>, Some (backfill_task ?c (stop - bc_window ?c) stop)))"
    using Suc.prems by (intro Suc.IH) (auto simp: algebra_simps)
  finally show ?case unfolding shift by (simp add: Let_def backfill_task_def)
qed

lemma emit_loop_spec:
  assumes "0 < bc_window c"
  obtains stop where "next_uncovered c stop" "stop \<le> bc_cursor c"
    "emit_loop c = Some (c\<lparr>bc_cursor := stop - bc_window c\<rparr>, Some (backfill_task c (stop - bc_window c) stop))"
proof -
  let ?P = "\<lambda>k. fmt_day (bc_cursor c - int (Suc k) * bc_window c) \<notin> set (bc_coverage c)"
  define k where "k = (LEAST k. ?P k)"
  define stop where "stop = bc_cursor c - int k * bc_window c"
  have k: "?P k" unfolding k_def by (rule LeastI_ex [OF uncovered_day_exists [OF assms]])
  have least: "\<forall>j<k. fmt_day (bc_cursor c - int (Suc j) * bc_window c) \<in> set (bc_coverage c)"
    using not_less_Least [of _ ?P] unfolding k_def by blast
  have *: "stop - bc_window c = bc_cursor c - int (Suc k) * bc_window c"
    by (simp add: stop_def algebra_simps)
  show thesis
  proof
    show "next_uncovered c stop"
      unfolding next_uncovered_def * using k least by (intro exI [of _ k]) (simp only: stop_def simp_thms)
    show "stop \<le> bc_cursor c" using assms by (simp add: stop_def)
    show "emit_loop c = Some (c\<lparr>bc_cursor := stop - bc_window c\<rparr>, Some (backfill_task c (stop - bc_window c) stop))"
      using emit_loop_first [OF assms k least] by (simp add: stop_def Let_def)
  qed
qed

lemma emit_loop_live:
  assumes "live_cursor c"
  shows "emit_loop c = Some (emit_next c, Some (emit_task c))"
    and "live_cursor (emit_next c)"
    and "\<exists>stop. next_uncovered c stop \<and> stop \<le> bc_cursor c \<and> emit_next c = c\<lparr>bc_cursor := stop - bc_window c\<rparr> \<and>
      emit_task c = backfill_task c (stop - bc_window c) stop"
proof -
  obtain stop where st: "next_uncovered c stop" "stop \<le> bc_cursor c"
    "emit_loop c = Some (c\<lparr>bc_cursor := stop - bc_window c\<rparr>, Some (backfill_task c (stop - bc_window c) stop))"
    using emit_loop_spec [of c] assms unfolding live_cursor_def by blast
  then have eq: "emit_next c = c\<lparr>bc_cursor := stop - bc_window c\<rparr>" "emit_task c = backfill_task c (stop - bc_window c) stop"
    by (simp_all add: emit_next_def emit_task_def)
  show "emit_loop c = Some (emit_next c, Some (emit_task c))" using st(3) eq by simp
  show "live_cursor (emit_next c)" using assms eq by (simp add: live_cursor_def)
  show "\<exists>stop. next_uncovered c stop \<and> stop \<le> bc_cursor c \<and> emit_next c = c\<lparr>bc_cursor := stop - bc_window c\<rparr> \<and>
      emit_task c = backfill_task c (stop - bc_window c) stop"
    using st eq by blast
qed

section \<open>The rounds\<close>

text \<open>Emission number \<open>k\<close> of one cursor, when it is asked once per round.\<close>

primrec emit_nth :: "backfillCursor \<Rightarrow> nat \<Rightarrow> Task" where
  "emit_nth c 0 = emit_task c"
| "emit_nth c (Suc k) = emit_nth (emit_next c) k"

lemma backfill_round_live:
  assumes "\<forall>c\<in>set cs. live_cursor c" "limit > 0 \<longrightarrow> int (length tasks) < limit"
  shows "backfill_round limit cs tasks =
    (if limit > 0 \<and> int (length tasks + length cs) \<ge> limit
     then Some (Inl (tasks @ take (nat limit - length tasks) (map emit_task cs)))
     else Some (Inr (map emit_next cs, tasks @ map emit_task cs)))"
  using assms
proof (induction cs arbitrary: tasks)
  case Nil
  then show ?case by auto
next
  case (Cons c cs)
  have live: "live_cursor c" "\<not> bc_done c" "\<forall>c\<in>set cs. live_cursor c"
    using Cons.prems by (auto simp: live_cursor_def)
  show ?case
  proof (cases "limit > 0 \<and> int (length (tasks @ [emit_task c])) \<ge> limit")
    case True
    then have "nat limit - length tasks = 1" using Cons.prems(2) by auto
    then show ?thesis using True live emit_loop_live(1) [OF live(1)] by simp
  next
    case False
    then have "backfill_round limit cs (tasks @ [emit_task c]) =
      (if limit > 0 \<and> int (length (tasks @ [emit_task c]) + length cs) \<ge> limit
       then Some (Inl ((tasks @ [emit_task c]) @ take (nat limit - length (tasks @ [emit_task c])) (map emit_task cs)))
       else Some (Inr (map emit_next cs, (tasks @ [emit_task c]) @ map emit_task cs)))"
      using Cons.prems live by (intro Cons.IH) auto
    moreover have "limit > 0 \<Longrightarrow> nat limit - length tasks = Suc (nat limit - length (tasks @ [emit_task c]))"
      using False by auto
    ultimately show ?thesis
      using False live emit_loop_live(1) [OF live(1)] by (auto simp: algebra_simps)
  qed
qed

lemma active_count_live: "\<forall>c\<in>set cs. live_cursor c \<Longrightarrow> active_count cs = length cs"
  unfolding active_count_def live_cursor_def by (metis (mono_tags, lifting) filter_True)

lemma backfill_rounds_Nil: "backfill_rounds limit [] tasks = Some tasks"
  by (subst backfill_rounds.simps) (simp add: active_count_def)

lemma backfill_rounds_live:
  assumes "\<forall>c\<in>set cs. live_cursor c" "cs \<noteq> []" "int (length tasks) < limit"
  shows "\<exists>us. backfill_rounds limit cs tasks = Some (tasks @ us) \<and> length us = nat limit - length tasks \<and>
    (\<forall>i<length us. us ! i = emit_nth (cs ! (i mod length cs)) (i div length cs))"
  using assms
proof (induction "nat limit - length tasks" arbitrary: cs tasks rule: less_induct)
  case less
  let ?n = "length cs"
  have n: "0 < ?n" "active_count cs > 0" using less.prems active_count_live by auto
  have lim: "limit > 0" using less.prems(3) by linarith
  have round: "backfill_round limit cs tasks =
    (if limit > 0 \<and> int (length tasks + length cs) \<ge> limit
     then Some (Inl (tasks @ take (nat limit - length tasks) (map emit_task cs)))
     else Some (Inr (map emit_next cs, tasks @ map emit_task cs)))"
    using less.prems by (intro backfill_round_live) auto
  show ?case
  proof (cases "int (length tasks + ?n) \<ge> limit")
    case True
    let ?us = "take (nat limit - length tasks) (map emit_task cs)"
    have "backfill_rounds limit cs tasks = Some (tasks @ ?us)"
      using n round True lim by (subst backfill_rounds.simps) simp
    moreover have "length ?us = nat limit - length tasks" using True by simp
    ultimately show ?thesis using True by (intro exI [of _ ?us]) auto
  next
    case False
    let ?cs = "map emit_next cs" and ?ts = "tasks @ map emit_task cs"
    have "backfill_rounds limit cs tasks = backfill_rounds limit ?cs ?ts"
      using n round False lim by (subst backfill_rounds.simps) simp
    moreover obtain us where us: "backfill_rounds limit ?cs ?ts = Some (?ts @ us)" "length us = nat limit - length ?ts"
      "\<forall>i<length us. us ! i = emit_nth (?cs ! (i mod ?n)) (i div ?n)"
    proof -
      have "length tasks + ?n < nat limit" using False by linarith
      with n(1) have "nat limit - length ?ts < nat limit - length tasks" by (simp only: length_append length_map)
      moreover have "\<forall>c\<in>set ?cs. live_cursor c" using less.prems(1) emit_loop_live(2) by simp
      moreover have "?cs \<noteq> []" "int (length ?ts) < limit" using less.prems False by simp_all
      ultimately show thesis using less.hyps [of ?ts ?cs] that by (metis length_map)
    qed
    moreover have "(map emit_task cs @ us) ! i = emit_nth (cs ! (i mod ?n)) (i div ?n)"
      if i: "i < length (map emit_task cs @ us)" for i
    proof (cases "i < ?n")
      case True
      then show ?thesis by (simp add: nth_append)
    next
      case False
      then have "(i - ?n) mod ?n = i mod ?n" "i div ?n = Suc ((i - ?n) div ?n)" "i - ?n < length us"
        using n i by (simp_all add: le_mod_geq [symmetric] le_div_geq)
      with us(3) False n show ?thesis by (simp add: nth_append)
    qed
    ultimately show ?thesis using False
      by (intro exI [of _ "map emit_task cs @ us"]) auto
  qed
qed

lemma backfill_rounds_diverges:
  assumes "\<forall>c\<in>set cs. live_cursor c" "cs \<noteq> []" "limit \<le> 0"
  shows "backfill_rounds limit cs tasks = None"
proof -
  have "False" if "backfill_rounds limit cs tasks = Some y" for y
  proof -
    have "(\<forall>c\<in>set cs. live_cursor c) \<and> cs \<noteq> [] \<and> limit \<le> 0 \<longrightarrow> False"
    proof (rule backfill_rounds.raw_induct [OF _ that])
      fix f limit cs tasks y
      assume IH: "\<And>limit cs tasks y. f limit cs tasks = Some y \<Longrightarrow>
          (\<forall>c\<in>set cs. live_cursor c) \<and> cs \<noteq> [] \<and> limit \<le> 0 \<longrightarrow> False"
        and eq: "(if active_count cs > 0 then case backfill_round limit cs tasks of None \<Rightarrow> None
            | Some (Inl ts) \<Rightarrow> Some ts | Some (Inr (cs', ts)) \<Rightarrow> f limit cs' ts else Some tasks) = Some y"
      show "(\<forall>c\<in>set cs. live_cursor c) \<and> cs \<noteq> [] \<and> limit \<le> 0 \<longrightarrow> False"
      proof (intro impI, elim conjE)
        assume a: "\<forall>c\<in>set cs. live_cursor c" "cs \<noteq> []" "limit \<le> 0"
        then have "f limit (map emit_next cs) (tasks @ map emit_task cs) = Some y"
          using eq backfill_round_live [of cs limit tasks] active_count_live [OF a(1)] by simp
        from IH [OF this] a emit_loop_live(2) show False by auto
      qed
    qed
    with assms show False by blast
  qed
  then show ?thesis by fastforce
qed

section \<open>What the emitted tasks are\<close>

lemma emit_nth_facts:
  fixes k :: nat
  assumes "live_cursor c"
  defines "t \<equiv> emit_nth c k"
  shows "t = backfill_task c (t_WindowStart t) (t_WindowEnd t)" "t_WindowEnd t \<le> bc_cursor c"
    and "t_WindowStart t = t_WindowEnd t - bc_window c" "fmt_day (t_WindowStart t) \<notin> set (bc_coverage c)"
proof -
  have "t = backfill_task c (t_WindowStart t) (t_WindowEnd t) \<and> t_WindowEnd t \<le> bc_cursor c \<and>
    t_WindowStart t = t_WindowEnd t - bc_window c \<and> fmt_day (t_WindowStart t) \<notin> set (bc_coverage c)"
    using assms(1) unfolding t_def
  proof (induction k arbitrary: c)
    case 0
    then show ?case using emit_loop_live(3) [of c] by (auto simp: backfill_task_def next_uncovered_def)
  next
    case (Suc k)
    obtain stop where st: "stop \<le> bc_cursor c" "emit_next c = c\<lparr>bc_cursor := stop - bc_window c\<rparr>"
      using emit_loop_live(3) [OF Suc.prems] by blast
    have "0 < bc_window c" using Suc.prems by (simp add: live_cursor_def)
    with Suc.IH [OF emit_loop_live(2) [OF Suc.prems]] st show ?case by (auto simp: backfill_task_def)
  qed
  then show "t = backfill_task c (t_WindowStart t) (t_WindowEnd t)" "t_WindowEnd t \<le> bc_cursor c"
    "t_WindowStart t = t_WindowEnd t - bc_window c" "fmt_day (t_WindowStart t) \<notin> set (bc_coverage c)" by blast+
qed

lemma emit_nth_backwards:
  assumes "live_cursor c" "j < k"
  shows "t_WindowEnd (emit_nth c k) \<le> t_WindowStart (emit_nth c j)"
  using assms
proof (induction j arbitrary: c k)
  case 0
  then obtain k' where k: "k = Suc k'" by (cases k) auto
  obtain stop where "emit_next c = c\<lparr>bc_cursor := stop - bc_window c\<rparr>" "emit_task c = backfill_task c (stop - bc_window c) stop"
    using emit_loop_live(3) [OF 0(1)] by blast
  with emit_nth_facts(2) [OF emit_loop_live(2) [OF 0(1)], of k'] show ?case by (simp add: k backfill_task_def)
next
  case (Suc j)
  then show ?case by (cases k) (auto intro: emit_loop_live(2))
qed

lemma taskID_inj:
  assumes "taskID ty p iv s e = taskID ty p' iv' s' e'" "CHR '':'' \<notin> set iv" "CHR '':'' \<notin> set iv'"
  shows "p = p' \<and> iv = iv' \<and> unix s = unix s' \<and> unix e = unix e'"
proof -
  have e: "unix e = unix e' \<and> ty @ '':'' @ p @ '':'' @ iv @ '':'' @ show_int (unix s) =
      ty @ '':'' @ p' @ '':'' @ iv' @ '':'' @ show_int (unix s')"
    using append_sep_inj [OF show_int_no_colon show_int_no_colon,
        of "ty @ '':'' @ p @ '':'' @ iv @ '':'' @ show_int (unix s)" "unix e"
           "ty @ '':'' @ p' @ '':'' @ iv' @ '':'' @ show_int (unix s')" "unix e'"] assms(1)
    by (simp add: taskID_def)
  then have s: "unix s = unix s' \<and> p @ '':'' @ iv = p' @ '':'' @ iv'"
    using append_sep_inj [OF show_int_no_colon show_int_no_colon, of "p @ '':'' @ iv" "unix s" "p' @ '':'' @ iv'" "unix s'"]
    by simp
  then show ?thesis using e append_sep_inj [OF assms(2,3), of p p'] by simp
qed

lemma NewScheduler_windows [simp]:
  "backfillWindow1H (NewScheduler poll news integrity gap pnl) = Hour"
  "backfillWindow1D (NewScheduler poll news integrity gap pnl) = 24 * Hour"
  by (simp_all add: NewScheduler_def)

lemma yesterday_before: "yesterday_of now < now"
  using trunc_time_le [of "trunc_time now Hour" "24 * Hour"] trunc_time_le [of now Hour]
  by (simp add: yesterday_of_def)

lemma hourly_ceiling_le: "hourly_ceiling ps y \<le> y"
  using trunc_time_le [of "HourlyRealtimeStartedAt ps" Hour] by (auto simp: hourly_ceiling_def)

lemma clamp_cursor_le: "clamp_cursor t u \<le> u"
  by (simp add: clamp_cursor_def)

definition needs_backfill :: "SyncState \<Rightarrow> bool" where
  "needs_backfill ps \<longleftrightarrow> \<not> (HourlyBackfillCompleted ps \<and> DailyBackfillCompleted ps)"

definition backfill_interval :: "SyncState \<Rightarrow> string" where
  "backfill_interval ps = (if HourlyBackfillCompleted ps then ''1d'' else ''1h'')"

lemma pair_cursor_SomeD:
  assumes "pair_cursor (NewScheduler poll news integrity gap pnl) ps cov y p = Some c"
  shows "needs_backfill ps \<and> bc_pair c = p \<and> bc_interval c = backfill_interval ps \<and> bc_coverage c = cov \<and>
    bc_window c = (if HourlyBackfillCompleted ps then 24 * Hour else Hour) \<and> bc_cursor c \<le> y \<and> live_cursor c"
  using assms hourly_ceiling_le [of ps y] clamp_cursor_le order_trans
  by (fastforce simp: pair_cursor_def needs_backfill_def backfill_interval_def live_cursor_def split: if_splits)

lemma pair_cursor_None: "pair_cursor s ps cov y p = None \<longleftrightarrow> \<not> needs_backfill ps"
  by (auto simp: pair_cursor_def needs_backfill_def)

lemma pair_cursor_Some: "needs_backfill ps \<longleftrightarrow> pair_cursor s ps cov y p = Some (the (pair_cursor s ps cov y p))"
  using pair_cursor_None [of s ps cov y p] by (cases "pair_cursor s ps cov y p") auto

lemma backfill_cursors_eq:
  "backfill_cursors s pairs state coverage act now =
     map (\<lambda>p. the (pair_cursor s (state_of state (p_Symbol p)) (coverage (p_Symbol p)) (yesterday_of now) p))
       (filter (\<lambda>p. \<not> act (p_Symbol p) \<and> needs_backfill (state_of state (p_Symbol p))) pairs)"
proof (induction pairs)
  case (Cons p ps)
  then show ?case
    using pair_cursor_None [of s "state_of state (p_Symbol p)" "coverage (p_Symbol p)" "yesterday_of now" p]
    by (cases "needs_backfill (state_of state (p_Symbol p))") (auto simp: backfill_cursors_def map_filter_simps)
qed (simp add: backfill_cursors_def map_filter_simps)

definition due_pairs :: "Pair list \<Rightarrow> state_map \<Rightarrow> (string \<Rightarrow> bool) \<Rightarrow> Pair list" where
  "due_pairs pairs state act =
     filter (\<lambda>p. \<not> act (p_Symbol p) \<and> needs_backfill (state_of state (p_Symbol p))) pairs"

lemma backfill_cursors_due:
  "list_all2 (\<lambda>c p. pair_cursor (NewScheduler poll news integrity gap pnl) (state_of state (p_Symbol p))
      (coverage (p_Symbol p)) (yesterday_of now) p = Some c)
     (backfill_cursors (NewScheduler poll news integrity gap pnl) pairs state coverage act now)
     (due_pairs pairs state act)"
  unfolding backfill_cursors_eq due_pairs_def
  by (induction pairs) (simp_all add: pair_cursor_Some [symmetric])

lemma backfill_cursors_live:
  "\<forall>c\<in>set (backfill_cursors (NewScheduler poll news integrity gap pnl) pairs state coverage act now). live_cursor c"
proof
  fix c assume "c \<in> set (backfill_cursors (NewScheduler poll news integrity gap pnl) pairs state coverage act now)"
  then obtain p where "pair_cursor (NewScheduler poll news integrity gap pnl) (state_of state (p_Symbol p))
      (coverage (p_Symbol p)) (yesterday_of now) p = Some c"
    using list_all2_nthD [OF backfill_cursors_due] unfolding in_set_conv_nth by metis
  then show "live_cursor c" using pair_cursor_SomeD by blast
qed

text \<open>The backfill plan, task by task, in terms of the pairs that are due.\<close>

lemma backfill_plan:
  assumes "0 < limit" "due_pairs pairs state act \<noteq> []"
  shows "\<exists>ts. BuildInitialBackfillTasksLimited (NewScheduler poll news integrity gap pnl) pairs state coverage act now limit = Some ts \<and>
    length ts = nat limit \<and>
    (\<forall>i<length ts. \<exists>c. pair_cursor (NewScheduler poll news integrity gap pnl)
        (state_of state (p_Symbol (due_pairs pairs state act ! (i mod length (due_pairs pairs state act)))))
        (coverage (p_Symbol (due_pairs pairs state act ! (i mod length (due_pairs pairs state act))))) (yesterday_of now)
        (due_pairs pairs state act ! (i mod length (due_pairs pairs state act))) = Some c \<and>
      ts ! i = emit_nth c (i div length (due_pairs pairs state act)))"
proof -
  let ?s = "NewScheduler poll news integrity gap pnl" and ?ps = "due_pairs pairs state act"
  let ?cs = "backfill_cursors ?s pairs state coverage act now"
  note due = backfill_cursors_due [of poll news integrity gap pnl state coverage now pairs act]
  have len: "length ?cs = length ?ps" using due by (rule list_all2_lengthD)
  obtain ts where ts: "backfill_rounds limit ?cs [] = Some ts" "length ts = nat limit"
    "\<forall>i<length ts. ts ! i = emit_nth (?cs ! (i mod length ?cs)) (i div length ?cs)"
    using backfill_rounds_live [OF backfill_cursors_live, of poll news integrity gap pnl pairs state coverage act now "[]" limit]
      assms len by fastforce
  have "i mod length ?ps < length ?ps" for i using assms(2) by simp
  then show ?thesis
    using ts len list_all2_nthD2 [OF due] unfolding BuildInitialBackfillTasksLimited_def by (metis (no_types, lifting))
qed

section \<open>Properties of the backfill plan\<close>

text \<open>
  \<^bold>\<open>C12\<close>. With a positive budget the planner's backfill loop terminates. It returns no task when no
  inactive pair still needs backfill, and otherwise exactly as many tasks as the budget, dealt to the
  pairs that are due in turn: task \<open>i\<close> belongs to the pair number \<open>i\<close> modulo the number of
  due pairs, so no pair takes more than its share.
\<close>

theorem backfill_round_robin:
  assumes "0 < limit"
  shows "\<exists>ts. BuildInitialBackfillTasksLimited (NewScheduler poll news integrity gap pnl) pairs state coverage act now limit = Some ts \<and>
    length ts = (if due_pairs pairs state act = [] then 0 else nat limit) \<and>
    (\<forall>i<length ts. t_Pair (ts ! i) =
       p_Symbol (due_pairs pairs state act ! (i mod length (due_pairs pairs state act))))"
proof (cases "due_pairs pairs state act = []")
  case True
  then have "backfill_cursors (NewScheduler poll news integrity gap pnl) pairs state coverage act now = []"
    using backfill_cursors_due [of poll news integrity gap pnl state coverage now pairs act] by simp
  with True show ?thesis by (simp add: BuildInitialBackfillTasksLimited_def backfill_rounds_Nil)
next
  case False
  have sym: "t_Pair (emit_nth c k) = p_Symbol p"
    if "pair_cursor (NewScheduler poll news integrity gap pnl) ps cov y p = Some c" for c k ps cov y p
    using emit_nth_facts(1) [of c k] pair_cursor_SomeD [OF that] by (metis backfill_task_def described_simps(3) new_task_simps(3))
  show ?thesis
    using backfill_plan [OF assms False, of poll news integrity gap pnl coverage now] False sym by metis
qed

definition btc_eur :: Pair where "btc_eur = \<lparr>p_Base = ''BTC'', p_Quote = ''EUR'', p_Symbol = ''BTCEUR''\<rparr>"
definition eth_eur :: Pair where "eth_eur = \<lparr>p_Base = ''ETH'', p_Quote = ''EUR'', p_Symbol = ''ETHEUR''\<rparr>"

theorem backfill_round_robin_witness:
  "\<exists>ts. BuildInitialBackfillTasksLimited (NewScheduler 0 0 0 0 0) [btc_eur, eth_eur] (\<lambda>_. None) (\<lambda>_. []) (\<lambda>_. False)
      (from_unix 1700000000) 3 = Some ts \<and> length ts = 3 \<and> t_Pair (ts ! 2) = ''BTCEUR''"
proof -
  have "due_pairs [btc_eur, eth_eur] (\<lambda>_. None) (\<lambda>_. False) = [btc_eur, eth_eur]"
    by (simp add: due_pairs_def needs_backfill_def state_of_def zero_SyncState_def)
  then show ?thesis
    using backfill_round_robin [of 3 0 0 0 0 0 "[btc_eur, eth_eur]" "\<lambda>_. None" "\<lambda>_. []" "\<lambda>_. False" "from_unix 1700000000"]
    by (auto simp: btc_eur_def numeral_2_eq_2)
qed

lemma backfill_task_facts:
  assumes "0 < limit"
    and "BuildInitialBackfillTasksLimited (NewScheduler poll news integrity gap pnl) pairs state coverage act now limit = Some ts"
    and "t \<in> set ts"
  shows "\<exists>p\<in>set pairs. t_Type t = TypeBackfill \<and> t_Pair t = p_Symbol p \<and> \<not> act (p_Symbol p) \<and>
    needs_backfill (state_of state (p_Symbol p)) \<and> t_Interval t = backfill_interval (state_of state (p_Symbol p)) \<and>
    t_WindowEnd t - t_WindowStart t = (if t_Interval t = ''1h'' then Hour else 24 * Hour) \<and>
    t_WindowEnd t \<le> yesterday_of now \<and> fmt_day (t_WindowStart t) \<notin> set (coverage (p_Symbol p))"
proof (cases "due_pairs pairs state act = []")
  case True
  then have "backfill_cursors (NewScheduler poll news integrity gap pnl) pairs state coverage act now = []"
    using backfill_cursors_due [of poll news integrity gap pnl state coverage now pairs act] by simp
  with assms(2,3) show ?thesis by (simp add: BuildInitialBackfillTasksLimited_def backfill_rounds_Nil)
next
  case False
  let ?d = "due_pairs pairs state act"
  obtain i where i: "i < length ts" "t = ts ! i" using assms(3) by (metis in_set_conv_nth)
  let ?p = "?d ! (i mod length ?d)"
  obtain c where c: "pair_cursor (NewScheduler poll news integrity gap pnl) (state_of state (p_Symbol ?p))
      (coverage (p_Symbol ?p)) (yesterday_of now) ?p = Some c" "t = emit_nth c (i div length ?d)"
    using backfill_plan [OF assms(1) False, of poll news integrity gap pnl coverage now] assms(2) i by auto
  note f = pair_cursor_SomeD [OF c(1)]
  note g = emit_nth_facts [of c "i div length ?d", folded c(2)]
  have "t = backfill_task c (t_WindowStart t) (t_WindowEnd t)" using g(1) f by blast
  then have "t_Type t = TypeBackfill" "t_Pair t = p_Symbol ?p" "t_Interval t = backfill_interval (state_of state (p_Symbol ?p))"
    using f by (metis backfill_task_def described_simps new_task_simps)+
  moreover have "?p \<in> set ?d" using False by (simp add: nth_mem)
  then have "?p \<in> set pairs \<and> \<not> act (p_Symbol ?p)" by (simp add: due_pairs_def)
  ultimately show ?thesis
    using f g(2-4) by (intro bexI [of _ ?p]) (auto simp: backfill_interval_def)
qed



lemma unix_less: "s + Second \<le> t \<Longrightarrow> unix s < unix t"
proof -
  assume "s + Second \<le> t"
  then have "(s + Second) div Second \<le> t div Second" by (intro zdiv_mono1) simp_all
  then show ?thesis by (simp add: unix_def)
qed

lemma backfill_task_fields [simp]:
  "t_ID (backfill_task c a b) = taskID TypeBackfill (p_Symbol (bc_pair c)) (bc_interval c) a b"
  "t_WindowStart (backfill_task c a b) = a" "t_WindowEnd (backfill_task c a b) = b"
  by (simp_all add: backfill_task_def)

text \<open>
  Within one planning round the backfill task IDs are pairwise distinct when the tracked pairs
  have distinct symbols: the idempotent enqueue never merges two windows of the same plan.
\<close>

lemma backfill_ids_distinct:
  assumes "0 < limit" "distinct (map p_Symbol pairs)"
    and "BuildInitialBackfillTasksLimited (NewScheduler poll news integrity gap pnl) pairs state coverage act now limit = Some ts"
  shows "distinct (map t_ID ts)"
proof (cases "due_pairs pairs state act = []")
  case True
  then have "backfill_cursors (NewScheduler poll news integrity gap pnl) pairs state coverage act now = []"
    using backfill_cursors_due [of poll news integrity gap pnl state coverage now pairs act] by simp
  with assms(3) show ?thesis by (simp add: BuildInitialBackfillTasksLimited_def backfill_rounds_Nil)
next
  case False
  let ?d = "due_pairs pairs state act" and ?s = "NewScheduler poll news integrity gap pnl"
  let ?n = "length ?d"
  have dist: "distinct (map p_Symbol ?d)" using assms(2) by (simp add: due_pairs_def distinct_map_filter)
  have plan: "\<exists>c. pair_cursor ?s (state_of state (p_Symbol (?d ! (i mod ?n)))) (coverage (p_Symbol (?d ! (i mod ?n))))
      (yesterday_of now) (?d ! (i mod ?n)) = Some c \<and> ts ! i = emit_nth c (i div ?n)" if "i < length ts" for i
    using backfill_plan [OF assms(1) False, of poll news integrity gap pnl coverage now] assms(3) that by auto
  have ne: "t_ID (ts ! i) \<noteq> t_ID (ts ! j)" if ij: "i < j" "j < length ts" for i j
  proof
    assume eq: "t_ID (ts ! i) = t_ID (ts ! j)"
    obtain c where c: "pair_cursor ?s (state_of state (p_Symbol (?d ! (i mod ?n)))) (coverage (p_Symbol (?d ! (i mod ?n))))
      (yesterday_of now) (?d ! (i mod ?n)) = Some c" "ts ! i = emit_nth c (i div ?n)" using plan [of i] ij by auto
    obtain c' where c': "pair_cursor ?s (state_of state (p_Symbol (?d ! (j mod ?n)))) (coverage (p_Symbol (?d ! (j mod ?n))))
      (yesterday_of now) (?d ! (j mod ?n)) = Some c'" "ts ! j = emit_nth c' (j div ?n)" using plan [of j] ij by auto
    note f = pair_cursor_SomeD [OF c(1)] and f' = pair_cursor_SomeD [OF c'(1)]
    note g = emit_nth_facts [of c "i div ?n", folded c(2)] and g' = emit_nth_facts [of c' "j div ?n", folded c'(2)]
    have nocol: "CHR '':'' \<notin> set (bc_interval c)" "CHR '':'' \<notin> set (bc_interval c')"
      using f f' by (auto simp: backfill_interval_def)
    have "taskID TypeBackfill (p_Symbol (bc_pair c)) (bc_interval c) (t_WindowStart (ts ! i)) (t_WindowEnd (ts ! i)) =
        taskID TypeBackfill (p_Symbol (bc_pair c')) (bc_interval c') (t_WindowStart (ts ! j)) (t_WindowEnd (ts ! j))"
      using eq g(1) g'(1) f f' by (metis backfill_task_fields(1))
    from taskID_inj [OF this nocol] f f'
    have same: "p_Symbol (?d ! (i mod ?n)) = p_Symbol (?d ! (j mod ?n))" "unix (t_WindowEnd (ts ! i)) = unix (t_WindowEnd (ts ! j))"
      by auto
    have "i mod ?n = j mod ?n"
      using same(1) False nth_eq_iff_index_eq [OF dist, of "i mod ?n" "j mod ?n"] by simp
    moreover from this have "i div ?n < j div ?n"
      using ij(1) by (metis div_mult_mod_eq nat_neq_iff div_le_mono less_imp_le_nat leD)
    ultimately have "t_WindowEnd (ts ! j) \<le> t_WindowStart (ts ! i)"
      using emit_nth_backwards [of c "i div ?n" "j div ?n"] c c' f by auto
    then have "unix (t_WindowEnd (ts ! j)) < unix (t_WindowEnd (ts ! i))"
      using g(3) f by (intro unix_less) (auto split: if_splits)
    with same(2) show False by simp
  qed
  show ?thesis unfolding distinct_conv_nth using ne by (metis (no_types, lifting) length_map nat_neq_iff nth_map)
qed

text \<open>
  With a budget that is not positive the loop never returns as soon as one pair is due: there is
  no end of the past to reach, so \<open>unlimited\<close> means no answer at all.
\<close>

lemma backfill_unlimited_never_returns:
  assumes "limit \<le> 0" "p \<in> set pairs" "\<not> act (p_Symbol p)" "needs_backfill (state_of state (p_Symbol p))"
  shows "BuildInitialBackfillTasksLimited (NewScheduler poll news integrity gap pnl) pairs state coverage act now limit = None"
proof -
  have "due_pairs pairs state act \<noteq> []" using assms(2-4) by (auto simp: due_pairs_def filter_empty_conv)
  then have "backfill_cursors (NewScheduler poll news integrity gap pnl) pairs state coverage act now \<noteq> []"
    using list_all2_lengthD [OF backfill_cursors_due [of poll news integrity gap pnl state coverage now pairs act]] by auto
  then show ?thesis
    unfolding BuildInitialBackfillTasksLimited_def using backfill_rounds_diverges [OF backfill_cursors_live] assms(1) by blast
qed

text \<open>
  The planner's backfill cap is zero when the batch size or the percentage is not positive, and
  otherwise the given percentage of the batch (at most the whole of it) rounded up: between one task and the batch size.
\<close>

lemma backfill_cap_bounds:
  "(workerBatchSize \<le> 0 \<or> percent \<le> 0 \<longrightarrow> ComputeBackfillTaskCap workerBatchSize percent = 0) \<and>
   (0 < workerBatchSize \<and> 0 < percent \<longrightarrow>
      1 \<le> ComputeBackfillTaskCap workerBatchSize percent \<and>
      ComputeBackfillTaskCap workerBatchSize percent \<le> workerBatchSize \<and>
      workerBatchSize * min percent 100 \<le> 100 * ComputeBackfillTaskCap workerBatchSize percent \<and>
      100 * ComputeBackfillTaskCap workerBatchSize percent < workerBatchSize * min percent 100 + 100)"
proof -
  have key: "1 \<le> (b * q + 99) div 100 \<and> (b * q + 99) div 100 \<le> b \<and> b * q \<le> 100 * ((b * q + 99) div 100) \<and>
      100 * ((b * q + 99) div 100) < b * q + 100" if "0 < b" "0 < q" "q \<le> 100" for b q :: int
  proof -
    have "b * q \<le> b * 100" using that by (intro mult_left_mono) auto
    moreover have "1 \<le> b * q" using mult_mono [of 1 b 1 q] that by simp
    ultimately show ?thesis by linarith
  qed
  show ?thesis
    using key [of workerBatchSize "min percent 100"] by (auto simp: ComputeBackfillTaskCap_def Let_def min_def)
qed

section \<open>Sweeps\<close>

lemma has_gap_iff:
  "has_gap covered start final \<longleftrightarrow>
     (\<exists>k::nat. start + int k * (24 * Hour) \<le> final \<and> fmt_day (start + int k * (24 * Hour)) \<notin> set covered)"
proof (induction covered start final rule: has_gap.induct)
  case (1 covered cursor final)
  let ?at = "\<lambda>k::nat. cursor + int k * (24 * Hour) \<le> final \<and> fmt_day (cursor + int k * (24 * Hour)) \<notin> set covered"
  have shift: "(\<exists>k. ?at k) \<longleftrightarrow> ?at 0 \<or> (\<exists>k. cursor + 24 * Hour + int k * (24 * Hour) \<le> final \<and>
      fmt_day (cursor + 24 * Hour + int k * (24 * Hour)) \<notin> set covered)"
  proof -
    have "(\<exists>k. ?at k) \<longleftrightarrow> ?at 0 \<or> (\<exists>k. ?at (Suc k))" by (metis not0_implies_Suc)
    then show ?thesis by (simp add: algebra_simps)
  qed
  show ?case
  proof (cases "cursor > final")
    case True
    moreover have "\<not> ?at k" for k using True by (simp add: not_le)
    ultimately show ?thesis by (subst has_gap.simps) simp
  next
    case False
    then show ?thesis using 1 shift by (subst has_gap.simps) auto
  qed
qed

text \<open>
  A gap-validation sweep is emitted for a pair exactly when the pair has sync state, a non-zero
  oldest synced day, and some day from that day to yesterday that is not marked complete; the sweep covers
  that whole range, and its ID only depends on the pair and on the validation interval \<open>now\<close> falls into.
\<close>

lemma gap_sweep_iff_gap:
  "t \<in> set (BuildGapValidationTasks s pairs state coverage now) \<longleftrightarrow>
     (\<exists>p ps. p \<in> set pairs \<and> state (p_Symbol p) = Some ps \<and>
        trunc_time (HourlyLastSynced ps) Day \<noteq> 0 \<and>
        (\<exists>k::nat. trunc_time (HourlyLastSynced ps) Day + int k * Day \<le> trunc_time now Day - Day \<and>
           fmt_day (trunc_time (HourlyLastSynced ps) Day + int k * Day) \<notin> set (coverage (p_Symbol p))) \<and>
        t = described (new_task
              (TypeGapValidation @ '':'' @ p_Symbol p @ '':sweep:'' @ show_int (unix (trunc_time now (gapValidationInterval s))))
              TypeGapValidation (p_Symbol p) ''1d'' (trunc_time (HourlyLastSynced ps) Day) (trunc_time now Day)))"
  unfolding BuildGapValidationTasks_def Let_def in_set_map_filter has_gap_iff sweep_task_def case_option_Some_iff if_None_Some_iff
  by (auto simp: Bex_def)

end
