(* ===== verification/Sql.thy ===== *)
theory Sql
  imports Go_Time "HOL-Library.Product_Lexorder"
begin

text \<open>
  The SQL the repositories send to PostgreSQL, as functions on the list of rows of a table:
  \<^verbatim>\<open>UPDATE\<close>, \<^verbatim>\<open>INSERT ... ON CONFLICT\<close>, \<^verbatim>\<open>SELECT\<close> by key, ordering, paging and
  \<^verbatim>\<open>LEAST\<close>. A nullable column is an option. The outcome of the database calls of a method is an
  argument: \<open>db k\<close> is the error of call number \<open>k\<close>, \<open>None\<close> when the call succeeds; a negative
  \<^verbatim>\<open>LIMIT\<close> or \<^verbatim>\<open>OFFSET\<close> is one such error.
\<close>

text \<open>A \<^verbatim>\<open>uuid.UUID\<close> is its 128-bit value.\<close>

type_synonym uuid = nat

type_synonym db_outcome = "nat \<Rightarrow> string option"

definition no_errors :: db_outcome where "no_errors = (\<lambda>_. None)"

text \<open>\<^verbatim>\<open>UPDATE ... SET f WHERE P\<close>, and the number of rows it affects.\<close>

definition sql_update :: "('r \<Rightarrow> bool) \<Rightarrow> ('r \<Rightarrow> 'r) \<Rightarrow> 'r list \<Rightarrow> 'r list" where
  "sql_update P f rs = map (\<lambda>r. if P r then f r else r) rs"

definition rows_affected :: "('r \<Rightarrow> bool) \<Rightarrow> 'r list \<Rightarrow> nat" where
  "rows_affected P rs = length (filter P rs)"

text \<open>\<^verbatim>\<open>INSERT ... ON CONFLICT (key) DO UPDATE SET f\<close> and the row with a given key.\<close>

definition sql_upsert :: "('r \<Rightarrow> 'k) \<Rightarrow> 'r \<Rightarrow> ('r \<Rightarrow> 'r) \<Rightarrow> 'r list \<Rightarrow> 'r list" where
  "sql_upsert key new f rs =
     (if key new \<in> key ` set rs then sql_update (\<lambda>r. key r = key new) f rs else rs @ [new])"

definition sql_row :: "('r \<Rightarrow> 'k) \<Rightarrow> 'k \<Rightarrow> 'r list \<Rightarrow> 'r option" where
  "sql_row key k rs = find (\<lambda>r. key r = k) rs"

text \<open>\<^verbatim>\<open>=\<close> of SQL is not true when a side is \<^verbatim>\<open>NULL\<close>.\<close>

definition sql_eq :: "'a option \<Rightarrow> 'a option \<Rightarrow> bool" where
  "sql_eq a b = (case a of None \<Rightarrow> False | Some x \<Rightarrow> b = Some x)"

text \<open>\<^verbatim>\<open>DELETE FROM ... WHERE P\<close>.\<close>

definition sql_delete :: "('r \<Rightarrow> bool) \<Rightarrow> 'r list \<Rightarrow> 'r list" where
  "sql_delete P rs = filter (\<lambda>r. \<not> P r) rs"

text \<open>\<^verbatim>\<open>LEAST\<close> of PostgreSQL ignores \<^verbatim>\<open>NULL\<close>.\<close>

definition sql_least :: "int option \<Rightarrow> int option \<Rightarrow> int option" where
  "sql_least a b = (case a of None \<Rightarrow> b | Some x \<Rightarrow> (case b of None \<Rightarrow> a | Some y \<Rightarrow> Some (min x y)))"

definition coalesce :: "'a option \<Rightarrow> 'a option \<Rightarrow> 'a option" where
  "coalesce a b = (case a of None \<Rightarrow> b | Some x \<Rightarrow> Some x)"

text \<open>\<^verbatim>\<open>ORDER BY\<close> over up to four columns, then \<^verbatim>\<open>LIMIT\<close> and \<^verbatim>\<open>OFFSET\<close>.\<close>

type_synonym order_key = "int \<times> int \<times> int \<times> int"
type_synonym 'r sorting = "('r \<Rightarrow> order_key) \<Rightarrow> 'r list \<Rightarrow> 'r list"

definition sql_order :: "'r sorting \<Rightarrow> bool" where
  "sql_order srt \<longleftrightarrow> (\<forall>key. slice_sort key (srt key))"

definition sql_page :: "int \<Rightarrow> int \<Rightarrow> 'r list \<Rightarrow> 'r list" where
  "sql_page limit offset rs = take (nat limit) (drop (nat offset) rs)"

section \<open>Facts\<close>

lemma map_sql_update: "(\<And>r. P r \<Longrightarrow> key (f r) = key r) \<Longrightarrow> map key (sql_update P f rs) = map key rs"
  by (auto simp: sql_update_def)

lemma set_sql_update: "set (sql_update P f rs) = (\<lambda>r. if P r then f r else r) ` set rs"
  by (simp add: sql_update_def)

lemma rows_affected_pos: "rows_affected P rs > 0 \<longleftrightarrow> (\<exists>r\<in>set rs. P r)"
  by (auto simp: rows_affected_def filter_empty_conv)

lemma sql_update_none: "(\<And>r. r \<in> set rs \<Longrightarrow> \<not> P r) \<Longrightarrow> sql_update P f rs = rs"
  unfolding sql_update_def by (intro map_idI) simp

lemma updated_row:
  assumes "x \<in> set rs" "P x"
  shows "f x \<in> set (sql_update P f rs)"
  using assms unfolding set_sql_update by (intro image_eqI [of _ _ x]) simp_all

lemma key_unique: "distinct (map key rs) \<Longrightarrow> r \<in> set rs \<Longrightarrow> r' \<in> set rs \<Longrightarrow> key r = key r' \<Longrightarrow> r = r'"
  by (meson distinct_map inj_onD)

lemma sql_orderD:
  assumes "sql_order srt"
  shows "set (srt key xs) = set xs" "length (srt key xs) = length xs" "sorted (map key (srt key xs))"
    "distinct (srt key xs) = distinct xs" "mset (srt key xs) = mset xs"
  using assms unfolding sql_order_def slice_sort_def
  by (metis set_mset_mset, metis size_mset, blast, metis mset_eq_imp_distinct_iff, blast)

lemma sql_order_sort_key: "sql_order (\<lambda>key. sort_key key)"
  by (simp add: sql_order_def slice_sort_sort_key)

lemma sql_eq_None [simp]: "\<not> sql_eq a None"
  by (simp add: sql_eq_def split: option.split)

lemma sql_eq_Some [simp]: "sql_eq (Some x) (Some y) \<longleftrightarrow> x = y" "\<not> sql_eq None b"
  by (auto simp: sql_eq_def)

lemma set_sql_delete: "set (sql_delete P rs) = {r \<in> set rs. \<not> P r}"
  by (auto simp: sql_delete_def)

lemma distinct_sql_delete: "distinct (map key rs) \<Longrightarrow> distinct (map key (sql_delete P rs))"
  by (simp add: sql_delete_def distinct_map_filter)

lemma sql_row_iff:
  assumes "distinct (map key rs)"
  shows "sql_row key k rs = Some r \<longleftrightarrow> r \<in> set rs \<and> key r = k"
  unfolding sql_row_def find_Some_iff
  using assms by (auto simp: in_set_conv_nth distinct_conv_nth)

lemma sql_row_SomeD: "sql_row key k rs = Some r \<Longrightarrow> r \<in> set rs \<and> key r = k"
  by (auto simp: sql_row_def find_Some_iff)

lemma sql_row_None: "sql_row key k rs = None \<longleftrightarrow> k \<notin> key ` set rs"
  unfolding sql_row_def find_None_iff by auto

lemma sql_row_delete_None: "(\<And>r. r \<in> set rs \<Longrightarrow> key r = k \<Longrightarrow> P r) \<Longrightarrow> sql_row key k (sql_delete P rs) = None"
  by (auto simp: sql_row_None set_sql_delete)

lemma distinct_upsert:
  assumes "distinct (map key rs)" "\<And>r. key (f r) = key r"
  shows "distinct (map key (sql_upsert key new f rs))"
  using assms map_sql_update [of "\<lambda>r. key r = key new" key f rs] by (auto simp: sql_upsert_def)

lemma find_map_key:
  "(\<And>r. key (g r) = key r) \<Longrightarrow> find (\<lambda>r. key r = k) (map g rs) = map_option g (find (\<lambda>r. key r = k) rs)"
  by (induction rs) auto

lemma find_append: "find P (xs @ ys) = (case find P xs of None \<Rightarrow> find P ys | Some x \<Rightarrow> Some x)"
  by (induction xs) auto

lemma find_holds: "find P xs = Some x \<Longrightarrow> P x"
  by (auto simp: find_Some_iff)

text \<open>What a \<^verbatim>\<open>SELECT\<close> by key returns after an upsert.\<close>

lemma sql_row_upsert:
  assumes "\<And>r. key (f r) = key r"
  shows "sql_row key k (sql_upsert key new f rs) =
    (if k = key new then Some (case sql_row key k rs of None \<Rightarrow> new | Some r \<Rightarrow> f r) else sql_row key k rs)"
proof (cases "key new \<in> key ` set rs")
  case True
  let ?g = "\<lambda>r. if key r = key new then f r else r"
  have row: "sql_row key k (sql_upsert key new f rs) = map_option ?g (sql_row key k rs)"
    using True find_map_key [of key ?g k rs] assms by (simp add: sql_upsert_def sql_update_def sql_row_def)
  show ?thesis
  proof (cases "sql_row key k rs")
    case None
    then have "k \<noteq> key new" using True sql_row_None [of key k rs] by auto
    with None row show ?thesis by simp
  next
    case (Some r)
    then have "key r = k" by (auto simp: sql_row_def dest: find_holds)
    with Some row show ?thesis by (cases "k = key new") simp_all
  qed
next
  case False
  then have "sql_row key (key new) rs = None" by (simp add: sql_row_None)
  then show ?thesis using False by (auto simp: sql_upsert_def sql_row_def find_append split: option.split)
qed

lemma sql_least_None [simp]: "sql_least None b = b" "sql_least a None = a"
  by (simp_all add: sql_least_def split: option.split)

lemma sql_least_Some [simp]: "sql_least (Some x) (Some y) = Some (min x y)"
  by (simp add: sql_least_def)

lemma coalesce_simps [simp]: "coalesce (Some x) b = Some x" "coalesce None b = b"
  by (simp_all add: coalesce_def)

lemma coalesce_least [simp]: "coalesce (sql_least a (Some b)) c = sql_least a (Some b)"
  by (cases a) simp_all

end
