(* ===== verification/Sync_Repo.thy ===== *)
theory Sync_Repo
  imports Scheduler Sql
begin

text \<open>
  The progress tables of the planner: \<^verbatim>\<open>sync_status\<close>
  (\<^verbatim>\<open>storage/postgres/sync_repository.go\<close>), \<^verbatim>\<open>data_coverage\<close>
  (\<^verbatim>\<open>coverage_repository.go\<close>) and \<^verbatim>\<open>integrity_coverage\<close>
  (\<^verbatim>\<open>integrity_repository.go\<close>). Each table is the list of its rows.
\<close>

section \<open>Sync status\<close>

record sync_row =
  s_pair :: string
  s_last_synced_at :: "gotime option"
  s_backfill_completed :: bool
  s_updated_at :: gotime
  s_hourly_last_synced_at :: "gotime option"
  s_daily_last_synced_at :: "gotime option"
  s_hourly_backfill_completed :: bool
  s_daily_backfill_completed :: bool
  s_hourly_realtime_started_at :: "gotime option"

definition new_sync_row :: "string \<Rightarrow> gotime \<Rightarrow> sync_row" where
  "new_sync_row p now =
     \<lparr>s_pair = p, s_last_synced_at = None, s_backfill_completed = False, s_updated_at = now,
      s_hourly_last_synced_at = None, s_daily_last_synced_at = None, s_hourly_backfill_completed = False,
      s_daily_backfill_completed = False, s_hourly_realtime_started_at = None\<rparr>"

definition zero_or :: "gotime option \<Rightarrow> gotime" where
  "zero_or t = (case t of None \<Rightarrow> 0 | Some x \<Rightarrow> x)"

definition state_of_row :: "sync_row \<Rightarrow> SyncState" where
  "state_of_row r =
     \<lparr>HourlyLastSynced = zero_or (s_hourly_last_synced_at r),
      HourlyRealtimeStartedAt = zero_or (s_hourly_realtime_started_at r),
      DailyLastSynced = (if \<not> s_hourly_backfill_completed r then 0 else zero_or (s_daily_last_synced_at r)),
      HourlyBackfillCompleted = s_hourly_backfill_completed r,
      DailyBackfillCompleted = (if \<not> s_hourly_backfill_completed r then False else s_daily_backfill_completed r)\<rparr>"

definition States :: "string option \<Rightarrow> sync_row list \<Rightarrow> (string, state_map) result" where
  "States err rs = (case err of Some e \<Rightarrow> Inl e | None \<Rightarrow> Inr (\<lambda>p. map_option state_of_row (sql_row s_pair p rs)))"

definition daily_progress :: "string \<Rightarrow> gotime \<Rightarrow> gotime \<Rightarrow> bool \<Rightarrow> sync_row list \<Rightarrow> sync_row list" where
  "daily_progress p lastSynced now completed rs =
     sql_upsert s_pair
       ((new_sync_row p now)\<lparr>s_daily_last_synced_at := Some lastSynced, s_daily_backfill_completed := completed,
          s_last_synced_at := Some lastSynced\<rparr>)
       (\<lambda>r. r\<lparr>s_daily_last_synced_at := coalesce (sql_least (s_daily_last_synced_at r) (Some lastSynced)) (Some lastSynced),
              s_daily_backfill_completed := completed,
              s_backfill_completed := s_hourly_backfill_completed r \<and> completed,
              s_updated_at := now\<rparr>) rs"

definition hourly_done :: "gotime \<Rightarrow> bool \<Rightarrow> sync_row \<Rightarrow> bool" where
  "hourly_done lastSynced completed r =
     (if completed then True
      else if (case s_hourly_realtime_started_at r of None \<Rightarrow> False | Some t \<Rightarrow> lastSynced \<ge> t) then True
      else s_hourly_backfill_completed r)"

definition hourly_progress :: "string \<Rightarrow> gotime \<Rightarrow> gotime \<Rightarrow> bool \<Rightarrow> sync_row list \<Rightarrow> sync_row list" where
  "hourly_progress p lastSynced now completed rs =
     sql_upsert s_pair
       ((new_sync_row p now)\<lparr>s_hourly_last_synced_at := Some lastSynced, s_hourly_backfill_completed := completed,
          s_last_synced_at := Some lastSynced\<rparr>)
       (\<lambda>r. r\<lparr>s_hourly_last_synced_at := coalesce (sql_least (s_hourly_last_synced_at r) (Some lastSynced)) (Some lastSynced),
              s_hourly_backfill_completed := hourly_done lastSynced completed r,
              s_last_synced_at := coalesce (sql_least (s_last_synced_at r) (Some lastSynced)) (Some lastSynced),
              s_backfill_completed := hourly_done lastSynced completed r \<and> s_daily_backfill_completed r,
              s_updated_at := now\<rparr>) rs"

definition UpsertProgress ::
  "string option \<Rightarrow> gotime \<Rightarrow> string \<Rightarrow> string \<Rightarrow> gotime \<Rightarrow> bool \<Rightarrow> sync_row list \<Rightarrow> (string, unit) result \<times> sync_row list" where
  "UpsertProgress err now pairSymbol interval lastSynced backfillCompleted rs =
     (case err of
        Some e \<Rightarrow> (Inl e, rs)
      | None \<Rightarrow> (Inr (), if interval = ''1d'' then daily_progress pairSymbol lastSynced now backfillCompleted rs
                        else hourly_progress pairSymbol lastSynced now backfillCompleted rs))"

definition MarkRealtimeStarted ::
  "string option \<Rightarrow> gotime \<Rightarrow> string \<Rightarrow> gotime \<Rightarrow> sync_row list \<Rightarrow> (string, unit) result \<times> sync_row list" where
  "MarkRealtimeStarted err now pairSymbol startedAt rs =
     (case err of
        Some e \<Rightarrow> (Inl e, rs)
      | None \<Rightarrow> (Inr (), sql_upsert s_pair
          ((new_sync_row pairSymbol now)\<lparr>s_hourly_realtime_started_at := Some startedAt\<rparr>)
          (\<lambda>r. r\<lparr>s_hourly_realtime_started_at :=
                   coalesce (sql_least (s_hourly_realtime_started_at r) (Some startedAt))
                     (coalesce (s_hourly_realtime_started_at r) (Some startedAt)),
                 s_updated_at := now\<rparr>) rs))"

definition null_time :: "gotime \<Rightarrow> gotime option" where
  "null_time t = (if is_zero_time t then None else Some t)"

definition MarkBackfillSeeded ::
  "string option \<Rightarrow> gotime \<Rightarrow> string \<Rightarrow> gotime \<Rightarrow> sync_row list \<Rightarrow> (string, unit) result \<times> sync_row list" where
  "MarkBackfillSeeded err now pairSymbol lastSynced rs =
     (case err of
        Some e \<Rightarrow> (Inl e, rs)
      | None \<Rightarrow> (Inr (), sql_upsert s_pair
          ((new_sync_row pairSymbol now)\<lparr>s_last_synced_at := null_time lastSynced, s_hourly_last_synced_at := null_time lastSynced\<rparr>)
          (\<lambda>r. r) rs))"

text \<open>\<^verbatim>\<open>TaskRepository\<close> has a method of the same name for the same table, which leaves the hourly cursor null.\<close>

definition task_repo_MarkBackfillSeeded ::
  "string option \<Rightarrow> gotime \<Rightarrow> string \<Rightarrow> gotime \<Rightarrow> sync_row list \<Rightarrow> (string, unit) result \<times> sync_row list" where
  "task_repo_MarkBackfillSeeded err now pairSymbol lastSynced rs =
     (case err of
        Some e \<Rightarrow> (Inl e, rs)
      | None \<Rightarrow> (Inr (), sql_upsert s_pair ((new_sync_row pairSymbol now)\<lparr>s_last_synced_at := null_time lastSynced\<rparr>) (\<lambda>r. r) rs))"

record SyncRow =
  sr_Pair :: string
  sr_BackfillCompleted :: bool
  sr_LastSyncedUnix :: int
  sr_NextTargetUnix :: int
  sr_HourlyBackfillCompleted :: bool
  sr_DailyBackfillCompleted :: bool
  sr_HourlySyncedUnix :: int
  sr_HourlyRealtimeStartedUnix :: int
  sr_DailySyncedUnix :: int
  sr_NextHourlyTargetUnix :: int
  sr_NextDailyTargetUnix :: int
  sr_UpdatedAt :: gotime

text \<open>
  \<^verbatim>\<open>EXTRACT(EPOCH ...)::BIGINT\<close> rounds to the nearest second; the columns hold whole hours or
  whole seconds, and for \<^verbatim>\<open>NOW()\<close> the rounding is written out.
\<close>

definition epoch :: "gotime \<Rightarrow> int" where
  "epoch t = (t + Second div 2) div Second - unix_offset"

definition epoch_or_0 :: "gotime option \<Rightarrow> int" where
  "epoch_or_0 t = (case t of None \<Rightarrow> 0 | Some x \<Rightarrow> epoch x)"

definition snapshot_row :: "gotime \<Rightarrow> sync_row list \<Rightarrow> string \<Rightarrow> SyncRow" where
  "snapshot_row now rs p =
     (let r = (case sql_row s_pair p rs of None \<Rightarrow> new_sync_row p now | Some r \<Rightarrow> r);
          hourly = s_hourly_backfill_completed r;
          daily = (if \<not> hourly then False else s_daily_backfill_completed r)
      in \<lparr>sr_Pair = p, sr_BackfillCompleted = (hourly \<and> daily),
          sr_LastSyncedUnix = epoch_or_0 (s_hourly_last_synced_at r), sr_NextTargetUnix = epoch (now + Hour),
          sr_HourlyBackfillCompleted = hourly, sr_DailyBackfillCompleted = daily,
          sr_HourlySyncedUnix = epoch_or_0 (s_hourly_last_synced_at r),
          sr_HourlyRealtimeStartedUnix = epoch_or_0 (s_hourly_realtime_started_at r),
          sr_DailySyncedUnix = (if \<not> hourly then 0 else epoch_or_0 (s_daily_last_synced_at r)),
          sr_NextHourlyTargetUnix = epoch (now + Hour),
          sr_NextDailyTargetUnix = epoch (trunc_time now Day + Day),
          sr_UpdatedAt = s_updated_at r\<rparr>)"

definition SnapshotRows :: "string option \<Rightarrow> gotime \<Rightarrow> string list \<Rightarrow> sync_row list \<Rightarrow> (string, SyncRow list) result" where
  "SnapshotRows err now pairs rs =
     (case err of Some e \<Rightarrow> Inl e | None \<Rightarrow> Inr (map (snapshot_row now rs) (sort pairs)))"

section \<open>Coverage\<close>

record coverage_row =
  c_pair :: string
  c_day :: gotime
  c_is_complete :: bool
  c_updated_at :: gotime

definition c_key :: "coverage_row \<Rightarrow> string \<times> gotime" where
  "c_key r = (c_pair r, c_day r)"

definition MarkDayComplete ::
  "string option \<Rightarrow> gotime \<Rightarrow> string \<Rightarrow> gotime \<Rightarrow> coverage_row list \<Rightarrow> (string, unit) result \<times> coverage_row list" where
  "MarkDayComplete err now pairSymbol day rs =
     (case err of
        Some e \<Rightarrow> (Inl e, rs)
      | None \<Rightarrow> (Inr (), sql_upsert c_key
          \<lparr>c_pair = pairSymbol, c_day = trunc_time day (24 * Hour), c_is_complete = True, c_updated_at = now\<rparr>
          (\<lambda>r. r\<lparr>c_is_complete := True, c_updated_at := now\<rparr>) rs))"

definition GetCompletedDays ::
  "string option \<Rightarrow> string \<Rightarrow> gotime \<Rightarrow> gotime \<Rightarrow> coverage_row list \<Rightarrow> (string, string list) result" where
  "GetCompletedDays err pairSymbol start stop rs =
     (case err of
        Some e \<Rightarrow> Inl e
      | None \<Rightarrow> Inr (map (\<lambda>r. fmt_day (c_day r)) (filter
          (\<lambda>r. c_pair r = pairSymbol \<and> c_day r \<ge> trunc_time start (24 * Hour) \<and>
               c_day r \<le> trunc_time stop (24 * Hour) \<and> c_is_complete r) rs)))"

definition GetAllCompletedDays :: "string option \<Rightarrow> coverage_row list \<Rightarrow> (string, coverage_map) result" where
  "GetAllCompletedDays err rs =
     (case err of
        Some e \<Rightarrow> Inl e
      | None \<Rightarrow> Inr (\<lambda>p. map (\<lambda>r. fmt_day (c_day r)) (filter (\<lambda>r. c_pair r = p \<and> c_is_complete r) rs)))"

section \<open>Integrity results\<close>

record IntegrityResult =
  ir_PairSymbol :: string
  ir_Day :: gotime
  ir_Verified :: bool
  ir_GapCount :: int
  ir_DivergenceCount :: int
  ir_SourcesChecked :: int
  ir_ErrorMessage :: string

text \<open>A row has the columns of the result, with the day cut to midnight.\<close>

type_synonym integrity_row = IntegrityResult

definition ir_key :: "IntegrityResult \<Rightarrow> string \<times> gotime" where
  "ir_key r = (ir_PairSymbol r, ir_Day r)"

definition RecordResult :: "string option \<Rightarrow> IntegrityResult \<Rightarrow> integrity_row list \<Rightarrow> (string, unit) result \<times> integrity_row list" where
  "RecordResult err res rs =
     (case err of
        Some e \<Rightarrow> (Inl e, rs)
      | None \<Rightarrow>
          let row = res\<lparr>ir_Day := trunc_time (ir_Day res) (24 * Hour)\<rparr>
          in (Inr (), sql_upsert ir_key row (\<lambda>_. row) rs))"

definition verified_result :: "string \<Rightarrow> gotime \<Rightarrow> int \<Rightarrow> IntegrityResult" where
  "verified_result p day sources =
     \<lparr>ir_PairSymbol = p, ir_Day = day, ir_Verified = True, ir_GapCount = 0, ir_DivergenceCount = 0,
      ir_SourcesChecked = sources, ir_ErrorMessage = []\<rparr>"

definition MarkDayVerified :: "string option \<Rightarrow> string \<Rightarrow> gotime \<Rightarrow> integrity_row list \<Rightarrow> (string, unit) result \<times> integrity_row list" where
  "MarkDayVerified err p day rs = RecordResult err (verified_result p day 0) rs"

definition GetAllVerifiedDays :: "string option \<Rightarrow> integrity_row list \<Rightarrow> (string, coverage_map) result" where
  "GetAllVerifiedDays err rs =
     (case err of
        Some e \<Rightarrow> Inl e
      | None \<Rightarrow> Inr (\<lambda>p. map (\<lambda>r. fmt_day (ir_Day r)) (filter (\<lambda>r. ir_PairSymbol r = p \<and> ir_Verified r) rs)))"

definition GetFailedDays :: "string option \<Rightarrow> string \<Rightarrow> integrity_row list \<Rightarrow> (string, IntegrityResult list) result" where
  "GetFailedDays err p rs =
     (case err of
        Some e \<Rightarrow> Inl e
      | None \<Rightarrow> Inr (sort_key ir_Day (filter (\<lambda>r. ir_PairSymbol r = p \<and> \<not> ir_Verified r) rs)))"

section \<open>The table invariant\<close>

definition sync_ok :: "sync_row list \<Rightarrow> bool" where
  "sync_ok rs \<longleftrightarrow> distinct (map s_pair rs) \<and>
     (\<forall>r\<in>set rs. s_backfill_completed r = (s_hourly_backfill_completed r \<and> s_daily_backfill_completed r))"

datatype sync_op =
    OpProgress string string gotime bool
  | OpRealtimeStarted string gotime
  | OpSeeded string gotime
  | OpTaskRepoSeeded string gotime

fun exec_sync :: "string option \<Rightarrow> gotime \<Rightarrow> sync_op \<Rightarrow> sync_row list \<Rightarrow> sync_row list" where
  "exec_sync err now (OpProgress p iv t c) rs = snd (UpsertProgress err now p iv t c rs)"
| "exec_sync err now (OpRealtimeStarted p t) rs = snd (MarkRealtimeStarted err now p t rs)"
| "exec_sync err now (OpSeeded p t) rs = snd (MarkBackfillSeeded err now p t rs)"
| "exec_sync err now (OpTaskRepoSeeded p t) rs = snd (task_repo_MarkBackfillSeeded err now p t rs)"

lemma sync_ok_upsert:
  assumes "sync_ok rs" "s_backfill_completed new = (s_hourly_backfill_completed new \<and> s_daily_backfill_completed new)"
    and "\<And>r. s_pair (f r) = s_pair r"
    and "\<And>r. s_backfill_completed r = (s_hourly_backfill_completed r \<and> s_daily_backfill_completed r) \<Longrightarrow>
      s_backfill_completed (f r) = (s_hourly_backfill_completed (f r) \<and> s_daily_backfill_completed (f r))"
  shows "sync_ok (sql_upsert s_pair new f rs)"
  using assms distinct_upsert [of s_pair rs f new]
  by (auto simp: sync_ok_def sql_upsert_def set_sql_update)

lemma exec_sync_ok [go_inv]: "sync_ok rs \<Longrightarrow> sync_ok (exec_sync err now opn rs)"
  by (cases opn; cases err)
    (auto simp: UpsertProgress_def daily_progress_def hourly_progress_def MarkRealtimeStarted_def MarkBackfillSeeded_def
      task_repo_MarkBackfillSeeded_def new_sync_row_def intro!: sync_ok_upsert)

lemma fold_sync_ok: "sync_ok rs \<Longrightarrow> sync_ok (fold (\<lambda>(err, now, opn). exec_sync err now opn) ops rs)"
  by (induction ops arbitrary: rs) (auto intro: exec_sync_ok)

text \<open>
  However progress reports, realtime cutovers and seedings follow one another, failed statements
  included, the table has one row per pair, the combined completion flag is the conjunction of the hourly
  and the daily one, and a pair whose row has it set needs no further backfill according to the planner's view.
\<close>

lemma sync_status_consistent:
  "sync_ok (fold (\<lambda>(err, now, opn). exec_sync err now opn) ops []) \<and>
   (\<forall>r\<in>set (fold (\<lambda>(err, now, opn). exec_sync err now opn) ops []).
      s_backfill_completed r = (\<not> needs_backfill (state_of_row r)))"
proof -
  have ok: "sync_ok (fold (\<lambda>(err, now, opn). exec_sync err now opn) ops [])"
    by (rule fold_sync_ok) (simp add: sync_ok_def)
  then show ?thesis by (auto simp: sync_ok_def needs_backfill_def state_of_row_def)
qed

section \<open>Cursors\<close>

lemma row_hourly_progress:
  "sql_row s_pair q (hourly_progress p t now c rs) =
     (if q = p then Some (case sql_row s_pair q rs of
          None \<Rightarrow> (new_sync_row p now)\<lparr>s_hourly_last_synced_at := Some t, s_hourly_backfill_completed := c, s_last_synced_at := Some t\<rparr>
        | Some r \<Rightarrow> r\<lparr>s_hourly_last_synced_at := coalesce (sql_least (s_hourly_last_synced_at r) (Some t)) (Some t),
              s_hourly_backfill_completed := hourly_done t c r,
              s_last_synced_at := coalesce (sql_least (s_last_synced_at r) (Some t)) (Some t),
              s_backfill_completed := hourly_done t c r \<and> s_daily_backfill_completed r,
              s_updated_at := now\<rparr>)
      else sql_row s_pair q rs)"
  unfolding hourly_progress_def by (subst sql_row_upsert) (simp_all add: new_sync_row_def)

definition hourly_cursor :: "string \<Rightarrow> sync_row list \<Rightarrow> gotime option" where
  "hourly_cursor p rs = (case sql_row s_pair p rs of None \<Rightarrow> None | Some r \<Rightarrow> s_hourly_last_synced_at r)"

lemma hourly_cursor_progress:
  "hourly_cursor q (snd (UpsertProgress None now p ''1h'' t c rs)) =
     (if q = p then sql_least (hourly_cursor q rs) (Some t) else hourly_cursor q rs)"
  unfolding UpsertProgress_def hourly_cursor_def
  by (simp add: row_hourly_progress new_sync_row_def split: option.split)

lemma sql_least_assoc: "sql_least (sql_least a b) c = sql_least a (sql_least b c)"
  by (cases a; cases b; cases c) (simp_all add: min.assoc)

text \<open>
  The hourly cursor only moves back in time, and does not depend on the order in which workers
  report: after any number of successful hourly progress reports for a pair, in whatever order, it is the
  smallest reported time (or the earlier cursor, if that is smaller still).
\<close>

lemma hourly_cursor_is_minimum:
  "hourly_cursor p (fold (\<lambda>t rs. snd (UpsertProgress None now p ''1h'' t c rs)) (t # ts) rs) =
     sql_least (hourly_cursor p rs) (Some (Min (set (t # ts))))"
proof (induction ts arbitrary: t rs)
  case Nil
  then show ?case by (simp add: hourly_cursor_progress)
next
  case (Cons u ts)
  have "hourly_cursor p (fold (\<lambda>t rs. snd (UpsertProgress None now p ''1h'' t c rs)) (u # ts)
      (snd (UpsertProgress None now p ''1h'' t c rs))) =
    sql_least (hourly_cursor p (snd (UpsertProgress None now p ''1h'' t c rs))) (Some (Min (set (u # ts))))"
    by (rule Cons.IH)
  also have "\<dots> = sql_least (hourly_cursor p rs) (Some (min t (Min (set (u # ts)))))"
    by (simp add: hourly_cursor_progress sql_least_assoc)
  finally show ?case by (simp add: Min_insert)
qed

text \<open>
  Although executors always report an hourly window as not completing the backfill, the progress
  statement completes it when the window ends at or after the realtime cutover. The planner starts the walk
  back exactly there: for a pair whose cutover hour lies before yesterday and that has no hourly cursor, the
  first window it emits ends at the cutover, and reporting that single window marks the whole hourly
  backfill as completed.
\<close>

lemma first_window_completes_backfill:
  assumes "sql_row s_pair (p_Symbol p) rs = Some r" "s_hourly_realtime_started_at r = Some started"
    and "started \<noteq> 0" "Hour dvd started" "started < yesterday_of now" "s_hourly_last_synced_at r = None"
    and "pair_cursor s (state_of_row r) cov (yesterday_of now) p = Some c" "bc_interval c = ''1h''"
  shows "bc_cursor c = started \<and>
    (\<exists>r'. sql_row s_pair (p_Symbol p) (snd (UpsertProgress None t (p_Symbol p) ''1h'' (bc_cursor c) False rs)) = Some r' \<and>
       HourlyBackfillCompleted (state_of_row r'))"
proof -
  have h: "\<not> s_hourly_backfill_completed r"
    using assms(7,8) by (auto simp: pair_cursor_def state_of_row_def split: if_splits)
  have "hourly_ceiling (state_of_row r) (yesterday_of now) = started"
    using assms(2-5) by (simp add: hourly_ceiling_def state_of_row_def zero_or_def trunc_time_id del: time_units)
  then have c: "bc_cursor c = started"
    using assms(6,7) h by (auto simp: pair_cursor_def state_of_row_def zero_or_def clamp_cursor_def)
  then show ?thesis
    using assms(1,2) by (simp add: UpsertProgress_def row_hourly_progress hourly_done_def state_of_row_def)
qed

section \<open>Progress of the backfill\<close>

definition states_of :: "sync_row list \<Rightarrow> state_map" where
  "states_of rs = (\<lambda>q. map_option state_of_row (sql_row s_pair q rs))"

lemma States_ok: "States None rs = Inr (states_of rs)"
  by (simp add: States_def states_of_def)

lemma states_of_reported:
  assumes "sql_row s_pair p rs = Some r" "s_hourly_last_synced_at r = Some t"
    and "case s_hourly_realtime_started_at r of None \<Rightarrow> True | Some u \<Rightarrow> t < u"
  shows "states_of (snd (UpsertProgress None now' p ''1h'' t False rs)) = states_of rs"
proof
  fix q
  have "hourly_done t False r = s_hourly_backfill_completed r"
    using assms(3) by (auto simp: hourly_done_def split: option.splits)
  then show "states_of (snd (UpsertProgress None now' p ''1h'' t False rs)) q = states_of rs q"
    using assms(1,2) by (auto simp: states_of_def UpsertProgress_def row_hourly_progress state_of_row_def)
qed

text \<open>
  An executor reports a window by its end, not by its start. So with a budget of one window for the
  pair per tick the hourly backfill does not advance: the planner emits the hour before the cursor, executing
  and reporting it leaves the planner's state of every pair as it was, and the next tick emits the same task again.
\<close>

lemma single_window_backfill_repeats:
  assumes "sql_row s_pair (p_Symbol p) rs = Some r" "s_hourly_last_synced_at r = Some t" "\<not> s_hourly_backfill_completed r"
    and "case s_hourly_realtime_started_at r of None \<Rightarrow> True | Some u \<Rightarrow> t < u"
    and "t \<noteq> 0" "t \<le> hourly_ceiling (state_of_row r) (yesterday_of now)" "fmt_day (t - Hour) \<notin> set (cov (p_Symbol p))"
  shows "\<exists>task. BuildInitialBackfillTasksLimited (NewScheduler poll news integrity gap pnl) [p] (states_of rs) cov (\<lambda>_. False) now 1 = Some [task] \<and>
    t_WindowStart task = t - Hour \<and> t_WindowEnd task = t \<and>
    BuildInitialBackfillTasksLimited (NewScheduler poll news integrity gap pnl) [p]
      (states_of (snd (UpsertProgress None now' (t_Pair task) (t_Interval task) (t_WindowEnd task) False rs))) cov (\<lambda>_. False) now 1 = Some [task]"
proof -
  let ?s = "NewScheduler poll news integrity gap pnl"
  have st: "state_of (states_of rs) (p_Symbol p) = state_of_row r" using assms(1) by (simp add: state_of_def states_of_def)
  have nb: "needs_backfill (state_of_row r)" using assms(3) by (simp add: needs_backfill_def state_of_row_def)
  then have due: "due_pairs [p] (states_of rs) (\<lambda>_. False) = [p]" by (simp add: due_pairs_def st)
  obtain ts c where ts: "BuildInitialBackfillTasksLimited ?s [p] (states_of rs) cov (\<lambda>_. False) now 1 = Some ts" "length ts = 1"
    and c: "pair_cursor ?s (state_of_row r) (cov (p_Symbol p)) (yesterday_of now) p = Some c" "ts ! 0 = emit_nth c 0"
    using backfill_plan [of 1 "[p]" "states_of rs" "\<lambda>_. False" poll news integrity gap pnl cov now] st due by fastforce
  have cur: "bc_cursor c = t" "bc_interval c = ''1h''" "bc_window c = Hour"
    using c(1) assms(2,3,5,6) by (auto simp: pair_cursor_def state_of_row_def zero_or_def clamp_cursor_def)
  note live = pair_cursor_SomeD [OF c(1)]
  have "emit_loop c = Some (c\<lparr>bc_cursor := t - Hour\<rparr>, Some (backfill_task c (t - Hour) t))"
    using assms(7) live cur by (subst emit_loop.simps) (simp add: Let_def)
  then have task: "ts ! 0 = backfill_task c (t - Hour) t" using c(2) by (simp add: emit_task_def)
  have "t_Pair (ts ! 0) = p_Symbol p" "t_Interval (ts ! 0) = ''1h''" "t_WindowEnd (ts ! 0) = t" "t_WindowStart (ts ! 0) = t - Hour"
    using live cur unfolding task by (simp_all add: backfill_task_def)
  moreover have "ts = [ts ! 0]" using ts(2) by (cases ts) auto
  ultimately show ?thesis
    using ts(1) states_of_reported [OF assms(1,2,4), of now'] by (metis (no_types, lifting))
qed

section \<open>Coverage\<close>

lemma c_key_simps [simp]: "c_key (r\<lparr>c_is_complete := b, c_updated_at := t\<rparr>) = c_key r"
  by (simp add: c_key_def)

lemma completed_days_mark:
  "\<exists>f. GetAllCompletedDays None (snd (MarkDayComplete None now p day rs)) = Inr f \<and>
    set (f q) = set (map (\<lambda>r. fmt_day (c_day r)) (filter (\<lambda>r. c_pair r = q \<and> c_is_complete r) rs)) \<union>
      (if q = p then {fmt_day (trunc_time day (24 * Hour))} else {})"
proof -
  let ?new = "\<lparr>c_pair = p, c_day = trunc_time day (24 * Hour), c_is_complete = True, c_updated_at = now\<rparr>"
  have "set (map (\<lambda>r. fmt_day (c_day r)) (filter (\<lambda>r. c_pair r = q \<and> c_is_complete r)
      (sql_upsert c_key ?new (\<lambda>r. r\<lparr>c_is_complete := True, c_updated_at := now\<rparr>) rs))) =
    set (map (\<lambda>r. fmt_day (c_day r)) (filter (\<lambda>r. c_pair r = q \<and> c_is_complete r) rs)) \<union>
      (if q = p then {fmt_day (trunc_time day (24 * Hour))} else {})"
  proof (cases "c_key ?new \<in> c_key ` set rs")
    case True
    define g where "g r = (if c_key r = c_key ?new then r\<lparr>c_is_complete := True, c_updated_at := now\<rparr> else r)" for r
    have g: "c_pair (g r) = c_pair r" "c_day (g r) = c_day r" "c_is_complete (g r) \<longleftrightarrow> c_is_complete r \<or> c_key r = c_key ?new" for r
      by (simp_all add: g_def)
    have "set (sql_upsert c_key ?new (\<lambda>r. r\<lparr>c_is_complete := True, c_updated_at := now\<rparr>) rs) = g ` set rs"
      using True by (simp add: sql_upsert_def set_sql_update g_def [abs_def])
    moreover have "(\<lambda>r. fmt_day (c_day r)) ` {r \<in> g ` set rs. c_pair r = q \<and> c_is_complete r} =
      (\<lambda>r. fmt_day (c_day (g r))) ` {r \<in> set rs. c_pair (g r) = q \<and> c_is_complete (g r)}" by blast
    ultimately have "set (map (\<lambda>r. fmt_day (c_day r)) (filter (\<lambda>r. c_pair r = q \<and> c_is_complete r)
        (sql_upsert c_key ?new (\<lambda>r. r\<lparr>c_is_complete := True, c_updated_at := now\<rparr>) rs))) =
      (\<lambda>r. fmt_day (c_day r)) ` {r \<in> set rs. c_pair r = q \<and> (c_is_complete r \<or> c_key r = c_key ?new)}"
      by (simp only: list.set_map set_filter g)
    then show ?thesis using True by (auto simp: c_key_def image_iff)
  next
    case False
    then show ?thesis by (auto simp: sql_upsert_def)
  qed
  then show ?thesis by (simp add: MarkDayComplete_def GetAllCompletedDays_def)
qed

text \<open>
  Marking a day complete is exactly what the planner reads back: afterwards the set of complete days
  of that pair has gained that day and nothing else, no other pair has changed, and for any time of that same
  day the planner's lookup by formatted date succeeds.
\<close>

lemma mark_day_roundtrip:
  assumes "GetAllCompletedDays None rs = Inr before"
    and "GetAllCompletedDays None (snd (MarkDayComplete None now p day rs)) = Inr after"
    and "t div Day = day div Day"
  shows "fmt_day t \<in> set (after p) \<and> set (after p) = insert (fmt_day t) (set (before p)) \<and>
    (q \<noteq> p \<longrightarrow> set (after q) = set (before q))"
proof -
  have "trunc_time day (24 * Hour) div Day = t div Day"
    using assms(3) by (simp add: trunc_time_def minus_mod_eq_mult_div)
  then have k: "fmt_day (trunc_time day (24 * Hour)) = fmt_day t" unfolding fmt_day_inj .
  show ?thesis
    using completed_days_mark [of now p day rs p] completed_days_mark [of now p day rs q] assms(1,2)
    unfolding k by (auto simp: GetAllCompletedDays_def)
qed

end
