(* ===== verification/Lease_Repo.thy ===== *)
theory Lease_Repo
  imports Task_Domain Sql
begin

text \<open>
  Leader election: \<^verbatim>\<open>storage/postgres/lease_repository.go\<close> over the table
  \<^verbatim>\<open>service_leases\<close>, and \<^verbatim>\<open>coordinator/lease_manager.go\<close>. The contract of a lease is the
  locale \<open>lease_service\<close>; that two holders never overlap is proved there once and carried over to the
  repository by interpretation.
\<close>

section \<open>The repository\<close>

definition lease_free :: "gotime \<Rightarrow> string \<Rightarrow> Lease \<Rightarrow> bool" where
  "lease_free now holder r \<longleftrightarrow> l_ExpiresAt r < now \<or> l_HolderID r = holder"

definition lease_row :: "string \<Rightarrow> string \<Rightarrow> gotime \<Rightarrow> duration \<Rightarrow> Lease" where
  "lease_row name holder now ttl = \<lparr>l_Name = name, l_HolderID = holder, l_ExpiresAt = now + ttl, l_LastBeatAt = now\<rparr>"

text \<open>The conditional upsert: the table afterwards, and the row \<^verbatim>\<open>RETURNING\<close> gives, if any.\<close>

definition lease_upsert :: "gotime \<Rightarrow> string \<Rightarrow> string \<Rightarrow> duration \<Rightarrow> Lease list \<Rightarrow> Lease list \<times> Lease option" where
  "lease_upsert now name holder ttl rs =
     (let new = lease_row name holder now ttl
      in case sql_row l_Name name rs of
           None \<Rightarrow> (rs @ [new], Some new)
         | Some r \<Rightarrow> if lease_free now holder r then (sql_update (\<lambda>x. l_Name x = name) (\<lambda>_. new) rs, Some new) else (rs, None))"

definition ErrNoRows :: string where "ErrNoRows = ''sql: no rows in result set''"

definition Current :: "string option \<Rightarrow> string \<Rightarrow> Lease list \<Rightarrow> (string, Lease) result" where
  "Current err name rs =
     (case err of
        Some e \<Rightarrow> Inl e
      | None \<Rightarrow> (case sql_row l_Name name rs of None \<Rightarrow> Inl ErrNoRows | Some r \<Rightarrow> Inr r))"

text \<open>The second statement runs on the table \<open>seen\<close>, which other instances may have changed in between.\<close>

definition AcquireOrRenew ::
  "db_outcome \<Rightarrow> gotime \<Rightarrow> string \<Rightarrow> string \<Rightarrow> duration \<Rightarrow> (Lease list \<Rightarrow> Lease list) \<Rightarrow> Lease list \<Rightarrow>
     (string, Lease \<times> bool) result \<times> Lease list" where
  "AcquireOrRenew db now name holder ttl seen rs =
     (case db 0 of
        Some e \<Rightarrow> (Inl e, rs)
      | None \<Rightarrow>
          (case lease_upsert now name holder ttl rs of
             (rs', Some current) \<Rightarrow> (Inr (current, l_HolderID current = holder), rs')
           | (rs', None) \<Rightarrow>
               (case Current (db 1) name (seen rs') of
                  Inl e \<Rightarrow> (Inl e, rs')
                | Inr current \<Rightarrow> (Inr (current, l_HolderID current = holder), rs'))))"

section \<open>The manager\<close>

record LeaseManager =
  lm_instanceID :: string
  lm_name :: string
  lm_ttl :: duration

definition CurrentLease :: "LeaseManager \<Rightarrow> gotime \<Rightarrow> Lease" where
  "CurrentLease m now = \<lparr>l_Name = lm_name m, l_HolderID = lm_instanceID m, l_ExpiresAt = now + lm_ttl m, l_LastBeatAt = now\<rparr>"

definition Heartbeat :: "LeaseManager \<Rightarrow> gotime \<Rightarrow> Lease" where
  "Heartbeat m now = CurrentLease m now"

section \<open>The contract\<close>

text \<open>
  A request is a time, a holder and a duration. A lease is granted when it is free, expired or the
  requester's own, and a grant sets holder and expiry; a refusal changes neither.
\<close>

locale lease_service =
  fixes acquire :: "int \<Rightarrow> 'h \<Rightarrow> int \<Rightarrow> 's \<Rightarrow> bool \<times> 's"
    and holder_of :: "'s \<Rightarrow> 'h option"
    and expiry :: "'s \<Rightarrow> int"
  assumes granted: "acquire t h d s = (True, s') \<Longrightarrow> holder_of s' = Some h \<and> expiry s' = t + d"
    and refused: "acquire t h d s = (False, s') \<Longrightarrow> holder_of s' = holder_of s \<and> expiry s' = expiry s"
    and grant_iff: "fst (acquire t h d s) \<longleftrightarrow> holder_of s = None \<or> holder_of s = Some h \<or> expiry s < t"
begin

text \<open>The outcomes of a sequence of requests with one duration.\<close>

fun grants :: "int \<Rightarrow> (int \<times> 'h) list \<Rightarrow> 's \<Rightarrow> bool list" where
  "grants d [] s = []"
| "grants d ((t, h) # rs) s = fst (acquire t h d s) # grants d rs (snd (acquire t h d s))"

lemma grants_length [simp]: "length (grants d rs s) = length rs"
  by (induction d rs s rule: grants.induct) auto

text \<open>While \<open>h\<close> holds the lease until \<open>e\<close> no other holder is granted before \<open>e\<close>.\<close>

lemma held_until:
  assumes "sorted (map fst rs)" "holder_of s = Some h" "e \<le> expiry s" "\<forall>(t, h') \<in> set rs. e \<le> t + d"
    and "j < length rs" "grants d rs s ! j" "snd (rs ! j) \<noteq> h"
  shows "e < fst (rs ! j)"
  using assms
proof (induction rs arbitrary: s j)
  case (Cons req rs)
  obtain t h' where req: "req = (t, h')" by fastforce
  let ?a = "acquire t h' d s"
  show ?case
  proof (cases "fst ?a \<and> h' \<noteq> h")
    case True
    then have "expiry s < t" using grant_iff [of t h' d s] Cons.prems(2) by auto
    moreover have "t \<le> fst ((req # rs) ! j)" using Cons.prems(1,5) req by (cases j) (auto simp: nth_mem)
    ultimately show ?thesis using Cons.prems(3) by simp
  next
    case False
    then have j: "j \<noteq> 0" using Cons.prems(6,7) req by (cases j) auto
    have st: "holder_of (snd ?a) = Some h \<and> e \<le> expiry (snd ?a)"
    proof (cases "fst ?a")
      case True
      then have "holder_of (snd ?a) = Some h' \<and> expiry (snd ?a) = t + d" using granted [of t h' d s "snd ?a"] by (metis prod.collapse)
      with True False Cons.prems(4) req show ?thesis by auto
    next
      case False
      then have "holder_of (snd ?a) = holder_of s \<and> expiry (snd ?a) = expiry s"
        using refused [of t h' d s "snd ?a"] by (metis prod.collapse)
      then show ?thesis using Cons.prems(2,3) by simp
    qed
    have "e < fst (rs ! (j - 1))"
      using Cons.prems j req st by (intro Cons.IH [of "snd ?a" "j - 1"]) (auto simp: nth_Cons' split: if_splits)
    then show ?thesis using j by (simp add: nth_Cons')
  qed
qed simp

lemma no_overlap:
  assumes "sorted (map fst rs)" "i < j" "j < length rs" "grants d rs s ! i" "grants d rs s ! j" "snd (rs ! i) \<noteq> snd (rs ! j)"
  shows "fst (rs ! i) + d < fst (rs ! j)"
  using assms
proof (induction rs arbitrary: s i j)
  case (Cons req rs)
  obtain t h where req: "req = (t, h)" by fastforce
  let ?a = "acquire t h d s"
  obtain j' where j: "j = Suc j'" using Cons.prems(2) by (cases j) auto
  show ?case
  proof (cases i)
    case 0
    then have "fst ?a" using Cons.prems(4) req by simp
    then have "holder_of (snd ?a) = Some h \<and> expiry (snd ?a) = t + d" using granted [of t h d s "snd ?a"] by (metis prod.collapse)
    moreover have "\<forall>(t', h') \<in> set rs. t + d \<le> t' + d" using Cons.prems(1) req by auto
    ultimately have "t + d < fst (rs ! j')"
      using Cons.prems req j 0 by (intro held_until [of rs "snd ?a" h]) auto
    then show ?thesis using 0 j req by simp
  next
    case (Suc i')
    then show ?thesis using Cons.prems req j Cons.IH [of i' j' "snd ?a"] by simp
  qed
qed simp

end

section \<open>The repository meets the contract\<close>

definition try_acquire :: "string \<Rightarrow> gotime \<Rightarrow> string \<Rightarrow> duration \<Rightarrow> Lease list \<Rightarrow> bool \<times> Lease list" where
  "try_acquire name now holder ttl rs =
     (case AcquireOrRenew no_errors now name holder ttl id rs of
        (Inl e, rs') \<Rightarrow> (False, rs')
      | (Inr (l, ok), rs') \<Rightarrow> (ok, rs'))"

definition lease_holder :: "string \<Rightarrow> Lease list \<Rightarrow> string option" where
  "lease_holder name rs = map_option l_HolderID (sql_row l_Name name rs)"

definition lease_expiry :: "string \<Rightarrow> Lease list \<Rightarrow> gotime" where
  "lease_expiry name rs = (case sql_row l_Name name rs of None \<Rightarrow> 0 | Some r \<Rightarrow> l_ExpiresAt r)"

lemma sql_row_update_const:
  "sql_row l_Name name rs = Some r \<Longrightarrow> l_Name new = name \<Longrightarrow>
     sql_row l_Name name (sql_update (\<lambda>x. l_Name x = name) (\<lambda>_. new) rs) = Some new"
  by (induction rs) (auto simp: sql_row_def sql_update_def split: if_splits)

lemma lease_row_fields [simp]:
  "l_Name (lease_row n h t d) = n" "l_HolderID (lease_row n h t d) = h" "l_ExpiresAt (lease_row n h t d) = t + d"
  by (simp_all add: lease_row_def)

lemma try_acquire_cases:
  "try_acquire name now h d rs =
     (case sql_row l_Name name rs of
        None \<Rightarrow> (True, rs @ [lease_row name h now d])
      | Some r \<Rightarrow> if lease_free now h r then (True, sql_update (\<lambda>x. l_Name x = name) (\<lambda>_. lease_row name h now d) rs) else (False, rs))"
  by (auto simp: try_acquire_def AcquireOrRenew_def no_errors_def lease_upsert_def Let_def Current_def lease_free_def
      split: option.split)

lemma sql_row_insert: "sql_row l_Name name rs = None \<Longrightarrow> l_Name new = name \<Longrightarrow> sql_row l_Name name (rs @ [new]) = Some new"
  by (simp add: sql_row_def find_append)

interpretation repo: lease_service "try_acquire name" "lease_holder name" "lease_expiry name"
proof
  fix t h d s s'
  show "try_acquire name t h d s = (True, s') \<Longrightarrow> lease_holder name s' = Some h \<and> lease_expiry name s' = t + d"
    by (auto simp: try_acquire_cases lease_holder_def lease_expiry_def sql_row_insert sql_row_update_const split: option.splits if_splits)
  show "try_acquire name t h d s = (False, s') \<Longrightarrow> lease_holder name s' = lease_holder name s \<and> lease_expiry name s' = lease_expiry name s"
    by (auto simp: try_acquire_cases split: option.splits if_splits)
  show "fst (try_acquire name t h d s) \<longleftrightarrow> lease_holder name s = None \<or> lease_holder name s = Some h \<or> lease_expiry name s < t"
    by (auto simp: try_acquire_cases lease_holder_def lease_expiry_def lease_free_def split: option.split)
qed

text \<open>The answers a sequence of planner ticks gets from the repository.\<close>

fun lease_grants :: "string \<Rightarrow> duration \<Rightarrow> (gotime \<times> string) list \<Rightarrow> Lease list \<Rightarrow> bool list" where
  "lease_grants name ttl [] rs = []"
| "lease_grants name ttl ((t, h) # reqs) rs =
     fst (try_acquire name t h ttl rs) # lease_grants name ttl reqs (snd (try_acquire name t h ttl rs))"

lemma lease_grants_repo: "lease_grants name ttl reqs rs = repo.grants name ttl reqs rs"
  by (induction name ttl reqs rs rule: lease_grants.induct) auto

text \<open>
  \<^bold>\<open>C2\<close>. At most one planner leads at a time: in any sequence of lease requests on one lease name, made at
  non-decreasing times with one duration, whenever two different instances are both granted the lease, the
  first one's lease has run out before the second is granted.
\<close>

theorem leaders_never_overlap:
  assumes "sorted (map fst reqs)" "i < j" "j < length reqs"
    and "lease_grants name ttl reqs table ! i" "lease_grants name ttl reqs table ! j" "snd (reqs ! i) \<noteq> snd (reqs ! j)"
  shows "fst (reqs ! i) + ttl < fst (reqs ! j)"
  using assms unfolding lease_grants_repo by (rule repo.no_overlap)

theorem leaders_never_overlap_witness:
  "lease_grants ''planner'' 15 [(0, ''a''), (10, ''b''), (12, ''a''), (40, ''b'')] [] = [True, False, True, True] \<and> (12::int) + 15 < 40"
proof -
  have g: "lease_grants ''planner'' 15 [(0, ''a''), (10, ''b''), (12, ''a''), (40, ''b'')] [] = [True, False, True, True]"
    by (simp add: try_acquire_cases sql_row_def lease_free_def sql_update_def)
  with leaders_never_overlap [of "[(0, ''a''), (10, ''b''), (12, ''a''), (40, ''b'')]" 2 3 "''planner''" 15 "[]"] show ?thesis by simp
qed

end
