(* ===== verification/Task_Repo.thy ===== *)
theory Task_Repo
  imports Task_Domain Sql
begin

text \<open>
  \<^verbatim>\<open>storage/postgres/task_repository.go\<close>: the table \<^verbatim>\<open>tasks\<close>, the single source of
  truth of the task engine. The table is the list of its rows; a method is a function of the rows, of
  the time its statements see as \<^verbatim>\<open>NOW()\<close> and of the outcomes of its database calls: \<open>db k\<close>
  is the error of call number \<open>k\<close> of the method, \<open>None\<close> when the call succeeds. A transaction
  that is not committed leaves the table as it was. \<^verbatim>\<open>ORDER BY\<close> leaves the order of rows with
  equal keys open: \<open>srt\<close> is the sorting the database uses.
\<close>

section \<open>Rows and statements\<close>

record task_row =
  r_id :: string
  r_type :: string
  r_pair :: string
  r_interval :: string
  r_window_start :: gotime
  r_window_end :: gotime
  r_description :: string
  r_status :: string
  r_retry_count :: int
  r_retry_at :: "gotime option"
  r_last_error :: "string option"
  r_claimed_by :: "string option"
  r_claimed_at :: "gotime option"
  r_completed_at :: "gotime option"
  r_created_at :: gotime
  r_updated_at :: gotime

text \<open>The repository's own fields, and the state it works on: the table and the notifications sent.\<close>

record TaskRepository =
  workerID :: string
  has_notifier :: bool

record task_store =
  rows :: "task_row list"
  notified :: nat

definition notify :: "TaskRepository \<Rightarrow> task_store \<Rightarrow> task_store" where
  "notify r st = (if has_notifier r then st\<lparr>notified := notified st + 1\<rparr> else st)"

section \<open>Enqueue\<close>

definition fresh_row :: "Task \<Rightarrow> gotime \<Rightarrow> task_row" where
  "fresh_row item now =
     \<lparr>r_id = t_ID item, r_type = t_Type item, r_pair = t_Pair item, r_interval = t_Interval item,
      r_window_start = t_WindowStart item, r_window_end = t_WindowEnd item, r_description = t_Description item,
      r_status = ''pending'', r_retry_count = 0, r_retry_at = None, r_last_error = None, r_claimed_by = None,
      r_claimed_at = None, r_completed_at = None, r_created_at = now, r_updated_at = now\<rparr>"

definition reset_row :: "Task \<Rightarrow> gotime \<Rightarrow> task_row \<Rightarrow> task_row" where
  "reset_row item now r =
     r\<lparr>r_status := ''pending'', r_window_start := t_WindowStart item, r_window_end := t_WindowEnd item,
       r_description := t_Description item, r_retry_count := 0, r_retry_at := None, r_last_error := None,
       r_claimed_by := None, r_claimed_at := None, r_completed_at := None, r_updated_at := now\<rparr>"

text \<open>The \<^verbatim>\<open>WHERE\<close> clause of the conflict action; a comparison with \<^verbatim>\<open>NULL\<close> is not true.\<close>

definition revivable :: "gotime \<Rightarrow> task_row \<Rightarrow> bool" where
  "revivable now r \<longleftrightarrow>
     r_status r = ''completed'' \<or> r_status r = ''failed'' \<or>
     (r_status r = ''running'' \<and> r_type r = ''live_ticker'' \<and>
        (case r_claimed_at r of None \<Rightarrow> False | Some c \<Rightarrow> c < now - 30 * Second)) \<or>
     (r_status r = ''pending'' \<and> (case r_retry_at r of None \<Rightarrow> False | Some t \<Rightarrow> t > now))"

definition upsert_task :: "gotime \<Rightarrow> Task \<Rightarrow> task_row list \<Rightarrow> task_row list \<times> nat" where
  "upsert_task now item rs =
     (if t_ID item \<in> r_id ` set rs then
        (let hit = (\<lambda>r. r_id r = t_ID item \<and> revivable now r)
         in (sql_update hit (reset_row item now) rs, rows_affected hit rs))
      else (rs @ [fresh_row item now], 1))"

fun enqueue_loop ::
  "db_outcome \<Rightarrow> nat \<Rightarrow> gotime \<Rightarrow> Task list \<Rightarrow> task_row list \<Rightarrow> Task list \<Rightarrow> (string, task_row list \<times> Task list) result" where
  "enqueue_loop db k now [] rs acc = Inr (rs, acc)"
| "enqueue_loop db k now (item # items) rs acc =
     (case db k of
        Some e \<Rightarrow> Inl e
      | None \<Rightarrow> (let (rs', n) = upsert_task now item rs
                 in enqueue_loop db (Suc k) now items rs' (if n > 0 then acc @ [item] else acc)))"

definition Enqueue :: "TaskRepository \<Rightarrow> db_outcome \<Rightarrow> gotime \<Rightarrow> Task list \<Rightarrow> task_store \<Rightarrow> (string, Task list) result \<times> task_store" where
  "Enqueue r db now items st =
     (case db 0 of
        Some e \<Rightarrow> (Inl e, st)
      | None \<Rightarrow>
          (case enqueue_loop db (Suc 0) now items (rows st) [] of
             Inl e \<Rightarrow> (Inl e, st)
           | Inr (rs, enqueued) \<Rightarrow>
               (case db (Suc (length items)) of
                  Some e \<Rightarrow> (Inl e, st)
                | None \<Rightarrow>
                    let st' = st\<lparr>rows := rs\<rparr>
                    in (Inr enqueued, if enqueued \<noteq> [] then notify r st' else st'))))"

section \<open>Claim, Complete, Fail\<close>

definition claimable :: "string \<Rightarrow> task_row \<Rightarrow> bool" where
  "claimable i r \<longleftrightarrow> r_id r = i \<and> (r_status r = ''pending'' \<or> r_status r = ''failed'')"

definition claim_row :: "string \<Rightarrow> gotime \<Rightarrow> task_row \<Rightarrow> task_row" where
  "claim_row w now x =
     x\<lparr>r_status := ''running'', r_claimed_by := Some w, r_claimed_at := Some now, r_updated_at := now\<rparr>"

definition Claim :: "TaskRepository \<Rightarrow> db_outcome \<Rightarrow> gotime \<Rightarrow> string \<Rightarrow> task_store \<Rightarrow> (string, bool) result \<times> task_store" where
  "Claim r db now i st =
     (case db 0 of
        Some e \<Rightarrow> (Inl e, st)
      | None \<Rightarrow>
          let st' = st\<lparr>rows := sql_update (claimable i) (claim_row (workerID r) now) (rows st)\<rparr>
          in if rows_affected (claimable i) (rows st) > 0 then (Inr True, notify r st') else (Inr False, st'))"

definition complete_row :: "gotime \<Rightarrow> task_row \<Rightarrow> task_row" where
  "complete_row now x = x\<lparr>r_status := ''completed'', r_completed_at := Some now, r_updated_at := now\<rparr>"

definition Complete :: "TaskRepository \<Rightarrow> db_outcome \<Rightarrow> gotime \<Rightarrow> string \<Rightarrow> task_store \<Rightarrow> (string, unit) result \<times> task_store" where
  "Complete r db now i st =
     (case db 0 of
        Some e \<Rightarrow> (Inl e, st)
      | None \<Rightarrow>
          (Inr (), notify r (st\<lparr>rows := sql_update (\<lambda>x. r_id x = i) (complete_row now) (rows st)\<rparr>)))"

definition retries_left :: "task_row \<Rightarrow> bool" where
  "retries_left x \<longleftrightarrow> (r_interval x = ''1h'' \<and> r_retry_count x < 24) \<or> (r_interval x = ''1d'' \<and> r_retry_count x < 7)"

text \<open>\<open>clock\<close> is the worker's \<^verbatim>\<open>time.Now()\<close> and \<open>n\<close> the result of \<^verbatim>\<open>rand.Intn(601)\<close>.\<close>

definition next_retry_at :: "gotime \<Rightarrow> int \<Rightarrow> gotime" where
  "next_retry_at clock n = clock + (Hour + (n - 300) * Second)"

definition fail_row :: "gotime \<Rightarrow> gotime \<Rightarrow> string \<Rightarrow> task_row \<Rightarrow> task_row" where
  "fail_row now nextRetryAt errStr x =
     x\<lparr>r_status := (if retries_left x then ''pending'' else ''failed''),
       r_retry_at := (if retries_left x then Some nextRetryAt else r_retry_at x),
       r_retry_count := r_retry_count x + 1, r_last_error := Some errStr, r_updated_at := now\<rparr>"

definition Fail ::
  "TaskRepository \<Rightarrow> db_outcome \<Rightarrow> gotime \<Rightarrow> gotime \<Rightarrow> int \<Rightarrow> string \<Rightarrow> string \<Rightarrow> task_store \<Rightarrow> (string, unit) result \<times> task_store" where
  "Fail r db now clock n i errStr st =
     (case db 0 of
        Some e \<Rightarrow> (Inl e, st)
      | None \<Rightarrow>
          (Inr (), notify r (st\<lparr>rows := sql_update (\<lambda>x. r_id x = i) (fail_row now (next_retry_at clock n) errStr) (rows st)\<rparr>)))"

section \<open>Queries\<close>

definition due :: "gotime \<Rightarrow> task_row \<Rightarrow> bool" where
  "due now r \<longleftrightarrow> (case r_retry_at r of None \<Rightarrow> True | Some t \<Rightarrow> t \<le> now)"

definition ActiveBackfillPairs :: "db_outcome \<Rightarrow> gotime \<Rightarrow> task_store \<Rightarrow> (string, string list) result" where
  "ActiveBackfillPairs db now st =
     (case db 0 of
        Some e \<Rightarrow> Inl e
      | None \<Rightarrow> Inr (remdups (map r_pair (filter
          (\<lambda>r. r_type r = TypeBackfill \<and> (r_status r = ''running'' \<or> (r_status r = ''pending'' \<and> due now r))) (rows st)))))"

definition task_of_row :: "task_row \<Rightarrow> Task" where
  "task_of_row r =
     (new_task (r_id r) (r_type r) (r_pair r) (r_interval r) (r_window_start r) (r_window_end r))
       \<lparr>t_Description := r_description r\<rparr>"

definition pendingByTaskType :: "task_row sorting \<Rightarrow> gotime \<Rightarrow> task_row list \<Rightarrow> int \<Rightarrow> string \<Rightarrow> string option \<Rightarrow> (string, Task list) result" where
  "pendingByTaskType srt now rs limit taskType err =
     (if limit \<le> 0 then Inr []
      else case err of
        Some e \<Rightarrow> Inl e
      | None \<Rightarrow> Inr (map task_of_row (take (nat limit) (srt (\<lambda>r. (r_created_at r, 0, 0, 0))
          (filter (\<lambda>r. r_status r = ''pending'' \<and> due now r \<and> r_type r = taskType) rs)))))"

definition pendingNonBackfillNonRealtime :: "task_row sorting \<Rightarrow> gotime \<Rightarrow> task_row list \<Rightarrow> int \<Rightarrow> string option \<Rightarrow> (string, Task list) result" where
  "pendingNonBackfillNonRealtime srt now rs limit err =
     (if limit \<le> 0 then Inr []
      else case err of
        Some e \<Rightarrow> Inl e
      | None \<Rightarrow> Inr (map task_of_row (take (nat limit) (srt
          (\<lambda>r. (if r_type r = ''integrity_check'' then 0 else if r_type r = ''consolidation'' then 1 else 2,
                r_window_start r, r_created_at r, 0))
          (filter (\<lambda>r. r_status r = ''pending'' \<and> due now r \<and> r_type r \<noteq> TypeBackfill \<and> r_type r \<noteq> TypeRealtime) rs)))))"

definition type_rank :: "task_row \<Rightarrow> int" where
  "type_rank r =
     (if r_type r = ''live_ticker'' then 0 else if r_type r = ''integrity_check'' then 1
      else if r_type r = ''consolidation'' then 2 else 3)"

definition pendingByType :: "task_row sorting \<Rightarrow> gotime \<Rightarrow> task_row list \<Rightarrow> int \<Rightarrow> bool \<Rightarrow> string option \<Rightarrow> (string, Task list) result" where
  "pendingByType srt now rs limit backfillOnly err =
     (if limit \<le> 0 then Inr []
      else case err of
        Some e \<Rightarrow> Inl e
      | None \<Rightarrow> Inr (map task_of_row (take (nat limit) (srt
          (\<lambda>r. (type_rank r, r_window_start r, r_created_at r, 0))
          (filter (\<lambda>r. r_status r = ''pending'' \<and> due now r \<and>
             (if backfillOnly then r_type r = TypeBackfill else r_type r \<noteq> TypeBackfill)) rs)))))"

definition clamp_backfill :: "int \<Rightarrow> int \<Rightarrow> int" where
  "clamp_backfill limit b0 = (let b = (if b0 < 0 then 0 else b0) in if b > limit then limit else b)"

text \<open>The three queries of one call run one after the other, at times and on tables of their own.\<close>

definition Pending ::
  "task_row sorting \<Rightarrow> db_outcome \<Rightarrow> (nat \<Rightarrow> gotime) \<Rightarrow> (nat \<Rightarrow> task_row list) \<Rightarrow> int \<Rightarrow> int \<Rightarrow> (string, Task list) result" where
  "Pending srt db now rs limit backfillLimit0 =
     (if limit \<le> 0 then Inr []
      else
        let backfillLimit = clamp_backfill limit backfillLimit0
        in case pendingByTaskType srt (now 0) (rs 0) limit TypeRealtime (db 0) of
             Inl e \<Rightarrow> Inl e
           | Inr realtimeItems \<Rightarrow>
               let remaining = limit - int (length realtimeItems)
               in if remaining \<le> 0 then Inr realtimeItems
                  else case pendingNonBackfillNonRealtime srt (now 1) (rs 1) remaining (db 1) of
                         Inl e \<Rightarrow> Inl e
                       | Inr otherItems \<Rightarrow>
                           let items = realtimeItems @ otherItems; remaining = limit - int (length items)
                           in if remaining \<le> 0 \<or> backfillLimit = 0 then Inr items
                              else case pendingByType srt (now 2) (rs 2)
                                          (if backfillLimit > remaining then remaining else backfillLimit) True (db 2) of
                                     Inl e \<Rightarrow> Inl e
                                   | Inr backfillItems \<Rightarrow> Inr (items @ backfillItems))"

definition UpcomingTasks :: "task_row sorting \<Rightarrow> db_outcome \<Rightarrow> task_store \<Rightarrow> int \<Rightarrow> int \<Rightarrow> (string, Task list \<times> nat) result" where
  "UpcomingTasks srt db st limit offset =
     (let live = filter (\<lambda>r. r_status r = ''pending'' \<or> r_status r = ''running'') (rows st)
      in case db 0 of
           Some e \<Rightarrow> Inl e
         | None \<Rightarrow>
             (case db 1 of
                Some e \<Rightarrow> Inl e
              | None \<Rightarrow>
                  Inr (map (\<lambda>r. Enrich ((task_of_row r)\<lparr>t_Status := r_status r\<rparr>))
                        (sql_page limit offset (srt
                          (\<lambda>r. (if r_status r = ''running'' then 0 else 1, type_rank r, r_window_start r, r_created_at r)) live)),
                      length live)))"

definition RecentTasks ::
  "task_row sorting \<Rightarrow> db_outcome \<Rightarrow> task_store \<Rightarrow> int \<Rightarrow> int \<Rightarrow> string list \<Rightarrow> string list \<Rightarrow> (string, Task list \<times> nat) result" where
  "RecentTasks srt db st limit offset types statuses =
     (let hits = filter (\<lambda>r. (r_status r = ''completed'' \<or> r_status r = ''failed'') \<and>
                    (types = [] \<or> r_type r \<in> set types) \<and> (statuses = [] \<or> r_status r \<in> set statuses)) (rows st)
      in case db 0 of
           Some e \<Rightarrow> Inl e
         | None \<Rightarrow>
             (case db 1 of
                Some e \<Rightarrow> Inl e
              | None \<Rightarrow>
                  Inr (map (\<lambda>r. Enrich ((new_task (r_id r) (r_type r) (r_pair r) (r_interval r) (r_window_start r) (r_window_end r))
                              \<lparr>t_Status := r_status r,
                               t_LastError := (case r_last_error r of None \<Rightarrow> [] | Some e \<Rightarrow> e),
                               t_CompletedAt := (if is_zero_time (r_updated_at r) then None else Some (r_updated_at r))\<rparr>))
                        (sql_page limit offset (srt (\<lambda>r. (- r_updated_at r, 0, 0, 0)) hits)),
                      length hits)))"

section \<open>Pruning\<close>

definition finished :: "task_row \<Rightarrow> bool" where
  "finished r \<longleftrightarrow> r_status r = ''completed'' \<or> r_status r = ''failed''"

definition prune_by_age :: "gotime \<Rightarrow> task_row list \<Rightarrow> task_row list" where
  "prune_by_age cutoff rs = filter (\<lambda>r. \<not> (finished r \<and> r_updated_at r < cutoff)) rs"

definition prune_by_count :: "task_row sorting \<Rightarrow> int \<Rightarrow> task_row list \<Rightarrow> task_row list" where
  "prune_by_count srt keepMax rs =
     (let victims = map r_id (drop (nat keepMax) (srt (\<lambda>r. (- r_updated_at r, 0, 0, 0)) (filter finished rs)))
      in filter (\<lambda>r. r_id r \<notin> set victims) rs)"

text \<open>The result is the count and the error, both returned; call \<open>3\<close> is the commit.\<close>

definition PruneOldTasks ::
  "task_row sorting \<Rightarrow> db_outcome \<Rightarrow> gotime \<Rightarrow> duration \<Rightarrow> int \<Rightarrow> task_store \<Rightarrow> (nat \<times> string option) \<times> task_store" where
  "PruneOldTasks srt db clock olderThan keepMax st =
     (case db 0 of
        Some e \<Rightarrow> ((0, Some e), st)
      | None \<Rightarrow>
          (case db 1 of
             Some e \<Rightarrow> ((0, Some e), st)
           | None \<Rightarrow>
               let rs1 = prune_by_age (clock + - olderThan) (rows st);
                   deleted1 = length (rows st) - length rs1
               in if keepMax > 0 \<and> db 2 \<noteq> None then ((deleted1, db 2), st)
                  else
                    let rs2 = (if keepMax > 0 then prune_by_count srt keepMax rs1 else rs1);
                        deleted2 = length rs1 - length rs2
                    in case db 3 of
                         Some e \<Rightarrow> ((0, Some e), st)
                       | None \<Rightarrow> ((deleted1 + deleted2, None), st\<lparr>rows := rs2\<rparr>)))"

section \<open>Facts on the statements\<close>

lemma notify_rows [simp]: "rows (notify r st) = rows st"
  by (simp add: notify_def)

text \<open>Result and table of each method, on success and on failure.\<close>

lemma fst_Claim:
  "fst (Claim r db now i st) = (case db 0 of Some e \<Rightarrow> Inl e | None \<Rightarrow> Inr (rows_affected (claimable i) (rows st) > 0))"
  by (simp add: Claim_def Let_def split: option.split)

lemma rows_Claim:
  "rows (snd (Claim r db now i st)) =
     (case db 0 of Some e \<Rightarrow> rows st | None \<Rightarrow> sql_update (claimable i) (claim_row (workerID r) now) (rows st))"
  by (simp add: Claim_def Let_def split: option.split)

lemma rows_Complete:
  "rows (snd (Complete r db now i st)) =
     (case db 0 of Some e \<Rightarrow> rows st | None \<Rightarrow> sql_update (\<lambda>x. r_id x = i) (complete_row now) (rows st))"
  by (simp add: Complete_def split: option.split)

lemma rows_Fail:
  "rows (snd (Fail r db now clock n i e st)) =
     (case db 0 of Some e \<Rightarrow> rows st
      | None \<Rightarrow> sql_update (\<lambda>x. r_id x = i) (fail_row now (next_retry_at clock n) e) (rows st))"
  by (simp add: Fail_def split: option.split)

lemma Enqueue_cases:
  obtains (err) e where "Enqueue r db now items st = (Inl e, st)"
  | (ok) rs enq where "enqueue_loop db (Suc 0) now items (rows st) [] = Inr (rs, enq)" "db 0 = None" "db (Suc (length items)) = None"
      "fst (Enqueue r db now items st) = Inr enq" "rows (snd (Enqueue r db now items st)) = rs"
proof (cases "db 0 \<noteq> None \<or> db (Suc (length items)) \<noteq> None \<or> (\<exists>e. enqueue_loop db (Suc 0) now items (rows st) [] = Inl e)")
  case True
  then have "\<exists>e. Enqueue r db now items st = (Inl e, st)"
    by (auto simp: Enqueue_def split: option.split sum.split)
  then show thesis using err by blast
next
  case False
  then obtain rs enq where *: "enqueue_loop db (Suc 0) now items (rows st) [] = Inr (rs, enq)" "db 0 = None" "db (Suc (length items)) = None"
    by (metis Inl_Inr_False obj_sumE not_None_eq surj_pair)
  show thesis by (rule ok [OF *]) (simp_all add: Enqueue_def * Let_def)
qed

lemma row_simps [simp]:
  "r_id (claim_row w now x) = r_id x" "r_id (complete_row now x) = r_id x" "r_id (fail_row now t e x) = r_id x"
  "r_id (reset_row item now x) = r_id x" "r_id (fresh_row item now) = t_ID item"
  by (simp_all add: claim_row_def complete_row_def fail_row_def reset_row_def fresh_row_def)

section \<open>The table invariant\<close>

definition max_retries :: "string \<Rightarrow> int" where
  "max_retries interval = (if interval = ''1h'' then 24 else if interval = ''1d'' then 7 else 0)"

definition row_ok :: "task_row \<Rightarrow> bool" where
  "row_ok r \<longleftrightarrow>
     r_status r \<in> {''pending'', ''running'', ''completed'', ''failed''} \<and> 0 \<le> r_retry_count r \<and>
     (r_status r = ''pending'' \<longrightarrow> r_retry_count r \<le> max_retries (r_interval r)) \<and>
     (r_status r = ''failed'' \<longrightarrow> r_retry_count r > max_retries (r_interval r)) \<and>
     (r_status r = ''running'' \<longrightarrow> r_claimed_by r \<noteq> None \<and> r_claimed_at r \<noteq> None)"

definition table_ok :: "task_row list \<Rightarrow> bool" where
  "table_ok rs \<longleftrightarrow> distinct (map r_id rs) \<and> (\<forall>r\<in>set rs. row_ok r)"

lemma retries_left_iff: "0 \<le> r_retry_count x \<Longrightarrow> retries_left x \<longleftrightarrow> r_retry_count x < max_retries (r_interval x)"
  by (auto simp: retries_left_def max_retries_def)

lemma max_retries_nonneg [simp]: "0 \<le> max_retries i"
  by (simp add: max_retries_def)

lemma table_ok_update:
  assumes "table_ok rs" "\<And>r. P r \<Longrightarrow> r_id (f r) = r_id r" "\<And>r. P r \<Longrightarrow> row_ok r \<Longrightarrow> row_ok (f r)"
  shows "table_ok (sql_update P f rs)"
  using assms map_sql_update [of P r_id f rs] by (auto simp: table_ok_def set_sql_update)

lemma table_ok_filter: "table_ok rs \<Longrightarrow> table_ok (filter P rs)"
  by (auto simp: table_ok_def distinct_map_filter)

lemma table_ok_upsert: "table_ok rs \<Longrightarrow> table_ok (fst (upsert_task now item rs))"
proof (cases "t_ID item \<in> r_id ` set rs")
  case True
  assume "table_ok rs"
  with True show ?thesis
    unfolding upsert_task_def by (simp add: Let_def, intro table_ok_update) (auto simp: reset_row_def row_ok_def)
next
  case False
  assume "table_ok rs"
  with False show ?thesis by (auto simp: upsert_task_def table_ok_def fresh_row_def row_ok_def)
qed

lemma table_ok_enqueue_loop:
  "table_ok rs \<Longrightarrow> enqueue_loop db k now items rs acc = Inr (rs', acc') \<Longrightarrow> table_ok rs'"
proof (induction items arbitrary: k rs acc)
  case (Cons item items)
  then show ?case using table_ok_upsert [of rs now item]
    by (auto split: option.splits prod.splits)
qed simp

lemma table_ok_Enqueue: "table_ok (rows st) \<Longrightarrow> table_ok (rows (snd (Enqueue r db now items st)))"
  by (cases rule: Enqueue_cases [of r db now items st]) (auto dest: table_ok_enqueue_loop)

lemma row_ok_rows:
  "row_ok x \<Longrightarrow> row_ok (claim_row w now x)" "row_ok x \<Longrightarrow> row_ok (complete_row now x)"
  "row_ok x \<Longrightarrow> row_ok (fail_row now t e x)"
  by (auto simp: row_ok_def claim_row_def complete_row_def fail_row_def retries_left_iff)

lemma table_ok_Claim: "table_ok (rows st) \<Longrightarrow> table_ok (rows (snd (Claim r db now i st)))"
  unfolding rows_Claim by (auto intro!: table_ok_update row_ok_rows split: option.split)

lemma table_ok_Complete: "table_ok (rows st) \<Longrightarrow> table_ok (rows (snd (Complete r db now i st)))"
  unfolding rows_Complete by (auto intro!: table_ok_update row_ok_rows split: option.split)

lemma table_ok_Fail: "table_ok (rows st) \<Longrightarrow> table_ok (rows (snd (Fail r db now clock n i e st)))"
  unfolding rows_Fail by (auto intro!: table_ok_update row_ok_rows split: option.split)

lemma table_ok_Prune: "table_ok (rows st) \<Longrightarrow> table_ok (rows (snd (PruneOldTasks srt db clock old keep st)))"
  unfolding PruneOldTasks_def prune_by_age_def prune_by_count_def
  by (auto simp: Let_def intro: table_ok_filter split: option.splits)

lemmas table_ok_ops [go_inv] = table_ok_Enqueue table_ok_Claim table_ok_Complete table_ok_Fail table_ok_Prune

section \<open>Interleavings\<close>

text \<open>
  Every method is one transaction or one statement, so processes that share the table interleave whole
  methods: a step is any method, called by any worker, with any outcome of the database.
\<close>

datatype task_op =
    OpEnqueue TaskRepository db_outcome gotime "Task list"
  | OpClaim TaskRepository db_outcome gotime string
  | OpComplete TaskRepository db_outcome gotime string
  | OpFail TaskRepository db_outcome gotime gotime int string string
  | OpPrune db_outcome gotime duration int

fun exec_op :: "task_row sorting \<Rightarrow> task_op \<Rightarrow> task_store \<Rightarrow> task_store" where
  "exec_op srt (OpEnqueue r db now items) st = snd (Enqueue r db now items st)"
| "exec_op srt (OpClaim r db now i) st = snd (Claim r db now i st)"
| "exec_op srt (OpComplete r db now i) st = snd (Complete r db now i st)"
| "exec_op srt (OpFail r db now clock n i e) st = snd (Fail r db now clock n i e st)"
| "exec_op srt (OpPrune db clock old keep) st = snd (PruneOldTasks srt db clock old keep st)"

inductive task_reachable :: "task_row sorting \<Rightarrow> task_store \<Rightarrow> bool" for srt where
  start: "rows st = [] \<Longrightarrow> task_reachable srt st"
| step: "task_reachable srt st \<Longrightarrow> task_reachable srt (exec_op srt opn st)"

lemma exec_op_table_ok [go_inv]: "table_ok (rows st) \<Longrightarrow> table_ok (rows (exec_op srt opn st))"
  by (cases opn) (auto intro: table_ok_ops)

text \<open>
  \<^bold>\<open>C8\<close>. Whatever the interleaving of planners, workers and cleanups over the task table, from the empty
  table on: there is at most one row per task ID, every status is one of the four, a running task has a
  claimer and a claim time, a pending task has used at most 24 (hourly) or 7 (daily) retries and no retry
  at all for any other interval, and a failed task has used them up.
\<close>

theorem task_table_invariant:
  assumes "task_reachable srt st"
  shows "table_ok (rows st)"
  using assms
proof induction
  case (start st)
  then show ?case by (simp add: table_ok_def)
qed (rule exec_op_table_ok)

definition worker_a :: TaskRepository where "worker_a = \<lparr>workerID = ''a'', has_notifier = True\<rparr>"
definition worker_b :: TaskRepository where "worker_b = \<lparr>workerID = ''b'', has_notifier = False\<rparr>"

definition sample_task :: Task where
  "sample_task = new_task ''live_ticker:BTCEUR:realtime'' TypeRealtime ''BTCEUR'' ''realtime'' 0 Hour"

definition sample_store :: task_store where
  "sample_store = snd (Enqueue worker_a no_errors 5 [sample_task] \<lparr>rows = [], notified = 0\<rparr>)"

lemmas sample_defs = sample_store_def sample_task_def worker_a_def worker_b_def no_errors_def task_types

lemma sample_rows: "rows sample_store = [fresh_row sample_task 5]"
  by (simp add: sample_store_def Enqueue_def no_errors_def upsert_task_def Let_def)

theorem task_table_invariant_witness:
  "table_ok (rows (exec_op (\<lambda>key. sort_key key) (OpClaim worker_a no_errors 7 (t_ID sample_task)) sample_store)) \<and>
   rows sample_store \<noteq> []"
proof -
  have "task_reachable (\<lambda>key. sort_key key)
      (exec_op (\<lambda>key. sort_key key) (OpEnqueue worker_a no_errors 5 [sample_task]) \<lparr>rows = [], notified = 0\<rparr>)"
    by (intro task_reachable.intros) simp
  then have "task_reachable (\<lambda>key. sort_key key) sample_store" by (simp add: sample_store_def)
  from task_table_invariant [OF task_reachable.step [OF this], of "OpClaim worker_a no_errors 7 (t_ID sample_task)"]
  show ?thesis by (simp add: sample_rows)
qed

section \<open>Claims are exclusive\<close>

definition held :: "string \<Rightarrow> string \<Rightarrow> gotime \<Rightarrow> string \<Rightarrow> string \<Rightarrow> task_row list \<Rightarrow> bool" where
  "held i w c ty p rs \<longleftrightarrow>
     (\<exists>r\<in>set rs. r_id r = i \<and> r_status r = ''running'' \<and> r_claimed_by r = Some w \<and> r_claimed_at r = Some c \<and> r_type r = ty \<and>
        r_pair r = p)"

text \<open>
  The steps that may happen while a claim made at time \<open>c\<close> is held: everything except finishing that very
  task, and except the planner taking a live ticker over more than 30 seconds after its claim.
\<close>

fun respects_claim :: "string \<Rightarrow> gotime \<Rightarrow> string \<Rightarrow> task_op \<Rightarrow> bool" where
  "respects_claim i c ty (OpEnqueue r db now items) \<longleftrightarrow> ty \<noteq> ''live_ticker'' \<or> now \<le> c + 30 * Second \<or> i \<notin> t_ID ` set items"
| "respects_claim i c ty (OpComplete r db now j) \<longleftrightarrow> j \<noteq> i"
| "respects_claim i c ty (OpFail r db now clock n j e) \<longleftrightarrow> j \<noteq> i"
| "respects_claim i c ty _ \<longleftrightarrow> True"

lemma held_update:
  assumes "held i w c ty p rs" "\<And>r. r_id r = i \<Longrightarrow> r_status r = ''running'' \<Longrightarrow> r_claimed_at r = Some c \<Longrightarrow> r_type r = ty \<Longrightarrow> \<not> P r"
  shows "held i w c ty p (sql_update P f rs)"
  using assms unfolding held_def set_sql_update by fastforce

lemma held_upsert:
  assumes "held i w c ty p rs" "ty \<noteq> ''live_ticker'' \<or> now \<le> c + 30 * Second \<or> t_ID item \<noteq> i"
  shows "held i w c ty p (fst (upsert_task now item rs))"
proof (cases "t_ID item \<in> r_id ` set rs")
  case True
  then show ?thesis
    using assms unfolding upsert_task_def by (auto simp: Let_def revivable_def intro!: held_update)
next
  case False
  then show ?thesis using assms(1) by (auto simp: upsert_task_def held_def)
qed

lemma held_enqueue_loop:
  "held i w c ty p rs \<Longrightarrow> ty \<noteq> ''live_ticker'' \<or> now \<le> c + 30 * Second \<or> i \<notin> t_ID ` set items \<Longrightarrow>
   enqueue_loop db k now items rs acc = Inr (rs', acc') \<Longrightarrow> held i w c ty p rs'"
proof (induction items arbitrary: k rs acc)
  case (Cons item items)
  have "held i w c ty p (fst (upsert_task now item rs))" using Cons.prems(1,2) by (intro held_upsert) auto
  with Cons show ?case by (auto split: option.splits prod.splits)
qed simp

lemma held_filter:
  assumes "held i w c ty p rs" "\<And>r. r \<in> set rs \<Longrightarrow> r_id r = i \<Longrightarrow> r_status r = ''running'' \<Longrightarrow> P r"
  shows "held i w c ty p (filter P rs)"
  using assms unfolding held_def by auto

lemma running_not_finished: "r_status r = ''running'' \<Longrightarrow> \<not> finished r"
  by (simp add: finished_def)

lemmas id_unique = key_unique [of r_id]

lemma prune_by_count_keeps:
  assumes "sql_order srt" "distinct (map r_id rs)" "r \<in> set rs" "\<not> finished r"
  shows "r \<in> set (prune_by_count srt keepMax rs)"
proof -
  have "r_id r \<notin> r_id ` set (drop (nat keepMax) (srt (\<lambda>r. (- r_updated_at r, 0, 0, 0)) (filter finished rs)))"
  proof
    assume "r_id r \<in> r_id ` set (drop (nat keepMax) (srt (\<lambda>r. (- r_updated_at r, 0, 0, 0)) (filter finished rs)))"
    then obtain v where v: "v \<in> set (srt (\<lambda>r. (- r_updated_at r, 0, 0, 0)) (filter finished rs))" "r_id v = r_id r"
      using in_set_dropD by fastforce
    then show False using id_unique [OF assms(2), of v r] assms sql_orderD(1) [OF assms(1)] by auto
  qed
  then show ?thesis using assms(3) by (simp add: prune_by_count_def Let_def)
qed

lemma held_prune:
  assumes "sql_order srt" "table_ok (rows st)" "held i w c ty p (rows st)"
  shows "held i w c ty p (rows (snd (PruneOldTasks srt db clock old keep st)))"
proof -
  have age: "held i w c ty p (prune_by_age cut (rows st))" for cut
    unfolding prune_by_age_def using assms(3) by (rule held_filter) (simp add: running_not_finished)
  have "held i w c ty p (prune_by_count srt k (prune_by_age cut (rows st)))" for k cut
  proof -
    have "distinct (map r_id (prune_by_age cut (rows st)))"
      using assms(2) by (simp add: table_ok_def prune_by_age_def distinct_map_filter)
    then show ?thesis
      using age [of cut] prune_by_count_keeps [OF assms(1)] running_not_finished unfolding held_def by blast
  qed
  then show ?thesis
    using assms(3) age unfolding PruneOldTasks_def by (auto simp: Let_def split: option.splits)
qed

lemma held_exec_op:
  assumes "sql_order srt" "table_ok (rows st)" "held i w c ty p (rows st)" "respects_claim i c ty opn"
  shows "held i w c ty p (rows (exec_op srt opn st))"
proof (cases opn)
  case (OpEnqueue r db now items)
  then show ?thesis using assms(3,4)
    by (cases rule: Enqueue_cases [of r db now items st]) (auto dest: held_enqueue_loop)
next
  case (OpClaim r db now j)
  have "held i w c ty p (sql_update (claimable j) (claim_row (workerID r) now) (rows st))"
    using assms(3) by (rule held_update) (simp add: claimable_def)
  with OpClaim assms(3) show ?thesis by (simp add: rows_Claim split: option.split)
next
  case (OpComplete r db now j)
  have "held i w c ty p (sql_update (\<lambda>x. r_id x = j) (complete_row now) (rows st))"
    using assms(3) by (rule held_update) (use OpComplete assms(4) in simp)
  with OpComplete assms(3) show ?thesis by (simp add: rows_Complete split: option.split)
next
  case (OpFail r db now clock n j e)
  have "held i w c ty p (sql_update (\<lambda>x. r_id x = j) (fail_row now (next_retry_at clock n) e) (rows st))"
    using assms(3) by (rule held_update) (use OpFail assms(4) in simp)
  with OpFail assms(3) show ?thesis by (simp add: rows_Fail split: option.split)
next
  case (OpPrune db clock old keep)
  then show ?thesis using held_prune [OF assms(1-3)] by simp
qed

lemma held_fold:
  assumes "sql_order srt" "table_ok (rows st)" "held i w c ty p (rows st)" "\<forall>opn\<in>set ops. respects_claim i c ty opn"
  shows "table_ok (rows (fold (exec_op srt) ops st)) \<and> held i w c ty p (rows (fold (exec_op srt) ops st))"
  using assms(2-4) by (induction ops arbitrary: st) (auto intro: held_exec_op [OF assms(1)] exec_op_table_ok)

lemma held_unclaimable:
  assumes "table_ok rs" "held i w c ty p rs"
  shows "rows_affected (claimable i) rs = 0"
proof -
  obtain x where x: "x \<in> set rs" "r_id x = i" "r_status x = ''running''" using assms(2) by (auto simp: held_def)
  have "r = x" if "r \<in> set rs" "r_id r = i" for r
    using id_unique [of rs r x] assms(1) that x by (simp add: table_ok_def)
  then have "\<not> claimable i r" if "r \<in> set rs" for r using that x(3) by (auto simp: claimable_def)
  then show ?thesis using rows_affected_pos [of "claimable i" rs] by blast
qed

lemma Claim_True_held:
  assumes "Claim r db now i st = (Inr True, st')"
  obtains ty p where "held i (workerID r) now ty p (rows st')" "\<exists>x\<in>set (rows st). r_id x = i \<and> r_type x = ty \<and> r_pair x = p"
proof -
  have f: "fst (Claim r db now i st) = Inr True" and s: "rows st' = rows (snd (Claim r db now i st))"
    using assms by simp_all
  from f have db: "db 0 = None" and aff: "rows_affected (claimable i) (rows st) > 0"
    unfolding fst_Claim by (simp_all split: option.splits)
  then obtain x where x: "x \<in> set (rows st)" "claimable i x" using rows_affected_pos [of "claimable i" "rows st"] by blast
  have "claim_row (workerID r) now x \<in> set (rows st')"
    unfolding s rows_Claim db option.case set_sql_update using x by (intro image_eqI [of _ _ x]) simp_all
  then have "held i (workerID r) now (r_type x) (r_pair x) (rows st')"
    using x(2) unfolding held_def
    by (intro bexI [of _ "claim_row (workerID r) now x"]) (simp_all add: claimable_def claim_row_def)
  then show thesis using that x by (auto simp: claimable_def)
qed

text \<open>
  \<^bold>\<open>C1\<close>. A successful claim is exclusive: until the claimed task is completed or failed, or, for a live
  ticker, until the planner re-enqueues it more than 30 seconds after the claim, no interleaving of
  enqueues, claims, completions, failures and prunes over the table lets any worker claim it again,
  and the row keeps naming the first claimer.
\<close>

theorem claim_exclusive:
  assumes "sql_order srt" "table_ok (rows st)"
    and "Claim r db now i st = (Inr True, st')"
    and "\<And>ty. (\<exists>x\<in>set (rows st). r_id x = i \<and> r_type x = ty) \<Longrightarrow> \<forall>opn\<in>set ops. respects_claim i now ty opn"
  shows "fst (Claim r' db' now' i (fold (exec_op srt) ops st')) \<noteq> Inr True \<and>
    (\<exists>x\<in>set (rows (fold (exec_op srt) ops st')). r_id x = i \<and> r_status x = ''running'' \<and> r_claimed_by x = Some (workerID r))"
proof -
  obtain ty p where ty: "held i (workerID r) now ty p (rows st')" "\<exists>x\<in>set (rows st). r_id x = i \<and> r_type x = ty"
    using Claim_True_held [OF assms(3)] by blast
  have "table_ok (rows st')" using table_ok_Claim [OF assms(2), of r db now i] assms(3) by simp
  then have *: "table_ok (rows (fold (exec_op srt) ops st'))" "held i (workerID r) now ty p (rows (fold (exec_op srt) ops st'))"
    using held_fold [OF assms(1) _ ty(1), of ops] assms(4) [OF ty(2)] by auto
  then show ?thesis
    using held_unclaimable [OF *] unfolding fst_Claim held_def by (auto split: option.split)
qed

theorem claim_exclusive_witness:
  "fst (Claim worker_a no_errors 7 (t_ID sample_task) sample_store) = Inr True \<and>
   fst (Claim worker_b no_errors 9 (t_ID sample_task)
     (fold (exec_op (\<lambda>key. sort_key key)) [OpEnqueue worker_b no_errors 8 [sample_task]]
       (snd (Claim worker_a no_errors 7 (t_ID sample_task) sample_store)))) \<noteq> Inr True"
proof -
  have ok: "table_ok (rows sample_store)"
    by (simp add: sample_rows table_ok_def row_ok_def fresh_row_def)
  have "fst (Claim worker_a no_errors 7 (t_ID sample_task) sample_store) = Inr True"
    by (simp add: fst_Claim no_errors_def sample_rows rows_affected_def claimable_def fresh_row_def)
  then obtain st' where st': "Claim worker_a no_errors 7 (t_ID sample_task) sample_store = (Inr True, st')"
    by (metis prod.collapse)
  then show ?thesis
    using claim_exclusive [OF sql_order_sort_key ok st', of "[OpEnqueue worker_b no_errors 8 [sample_task]]" worker_b no_errors 9]
    by simp
qed

section \<open>Enqueueing\<close>

definition settled :: "gotime \<Rightarrow> string \<Rightarrow> task_row list \<Rightarrow> bool" where
  "settled now i rs \<longleftrightarrow> i \<in> r_id ` set rs \<and> (\<forall>r\<in>set rs. r_id r = i \<longrightarrow> \<not> revivable now r)"

lemma reset_not_revivable [simp]: "\<not> revivable now' (reset_row item now r)" "\<not> revivable now' (fresh_row item now)"
  by (simp_all add: revivable_def reset_row_def fresh_row_def)

lemma upsert_settled: "settled now (t_ID item) rs \<Longrightarrow> upsert_task now item rs = (rs, 0)"
  unfolding upsert_task_def settled_def rows_affected_def
  by (auto simp: Let_def filter_empty_conv intro!: sql_update_none)

lemma upsert_ids: "r_id ` set (fst (upsert_task now item rs)) = insert (t_ID item) (r_id ` set rs)"
proof (cases "t_ID item \<in> r_id ` set rs")
  case True
  have "r_id ` set (sql_update P (reset_row item now) rs) = r_id ` set rs" for P
    using map_sql_update [of P r_id "reset_row item now" rs] by (metis list.set_map row_simps(4))
  with True show ?thesis by (auto simp: upsert_task_def Let_def)
qed (auto simp: upsert_task_def)

lemma upsert_rows:
  "x \<in> set (fst (upsert_task now item rs)) \<Longrightarrow>
     x = fresh_row item now \<or> (\<exists>y. x = reset_row item now y) \<or> (x \<in> set rs \<and> (r_id x = t_ID item \<longrightarrow> \<not> revivable now x))"
  by (cases "t_ID item \<in> r_id ` set rs") (auto simp: upsert_task_def Let_def set_sql_update image_iff split: if_splits)

lemma upsert_settles: "settled now (t_ID item) (fst (upsert_task now item rs))"
  using upsert_rows [of _ now item rs] by (fastforce simp: settled_def upsert_ids)

lemma upsert_keeps_settled: "settled now i rs \<Longrightarrow> settled now i (fst (upsert_task now item rs))"
  using upsert_rows [of _ now item rs] by (fastforce simp: settled_def upsert_ids)

lemma enqueue_loop_settles:
  assumes "enqueue_loop db k now items rs acc = Inr (rs', acc')"
  shows "(\<forall>item\<in>set items. settled now (t_ID item) rs') \<and> (\<forall>i. settled now i rs \<longrightarrow> settled now i rs')"
  using assms
proof (induction items arbitrary: k rs acc)
  case (Cons item items)
  obtain rs1 n where u: "upsert_task now item rs = (rs1, n)" by fastforce
  have "enqueue_loop db k now (item # items) rs acc = (case db k of Some e \<Rightarrow> Inl e
      | None \<Rightarrow> enqueue_loop db (Suc k) now items rs1 (if n > 0 then acc @ [item] else acc))"
    by (simp only: enqueue_loop.simps u Let_def prod.case)
  with Cons.prems have "enqueue_loop db (Suc k) now items rs1 (if n > 0 then acc @ [item] else acc) = Inr (rs', acc')"
    by (cases "db k") simp_all
  note IH = Cons.IH [OF this]
  show ?case using IH upsert_settles [of now item rs] upsert_keeps_settled [of now _ rs item] u by auto
qed simp

lemma enqueue_loop_settled:
  "\<forall>item\<in>set items. settled now (t_ID item) rs \<Longrightarrow> \<forall>j. db j = None \<Longrightarrow> enqueue_loop db k now items rs acc = Inr (rs, acc)"
  by (induction items arbitrary: k) (simp_all add: upsert_settled)

text \<open>
  Enqueueing is idempotent: once a batch has been enqueued, enqueueing the same batch again at the
  same time, by the same or another planner, adds and changes nothing, returns no task to publish and
  sends no notification.
\<close>

lemma enqueue_idempotent:
  assumes "Enqueue r db now items st = (Inr enqueued, st')" "\<forall>j. db' j = None"
  shows "Enqueue r' db' now items st' = (Inr [], st')"
proof (cases rule: Enqueue_cases [of r db now items st])
  case (err e)
  then show ?thesis using assms(1) by simp
next
  case (ok rs enq)
  have "\<forall>item\<in>set items. settled now (t_ID item) (rows st')"
    using enqueue_loop_settles [OF ok(1)] ok(5) assms(1) by simp
  from enqueue_loop_settled [OF this assms(2), of "Suc 0" "[]"] show ?thesis
    using assms(2) [rule_format, of 0] assms(2) [rule_format, of "Suc (length items)"] by (simp only: Enqueue_def) simp
qed

section \<open>Failing and retrying\<close>

text \<open>
  When a worker reports a failure, the task goes back to pending exactly while fewer than 24 (hourly)
  or 7 (daily) retries have been used, with a retry time between 55 and 65 minutes ahead of the worker's
  clock; otherwise it is failed. In both cases the retry count grows by one and the error is recorded;
  other rows do not change.
\<close>

lemma fail_retry_policy:
  assumes "x \<in> set (rows st)" "row_ok x" "0 \<le> n" "n \<le> 600" "db 0 = None"
    and "snd (Fail r db now clock n (r_id x) e st) = st'"
  shows "(\<exists>y\<in>set (rows st'). r_id y = r_id x \<and> r_retry_count y = r_retry_count x + 1 \<and> r_last_error y = Some e \<and>
      (if r_retry_count x < max_retries (r_interval x)
       then r_status y = ''pending'' \<and>
         (\<exists>t. r_retry_at y = Some t \<and> clock + 55 * Minute \<le> t \<and> t \<le> clock + 65 * Minute \<and> (\<forall>u<t. \<not> due u y))
       else r_status y = ''failed'')) \<and>
    (\<forall>z\<in>set (rows st). r_id z \<noteq> r_id x \<longrightarrow> z \<in> set (rows st'))"
proof (rule conjI)
  let ?t = "next_retry_at clock n" and ?y = "fail_row now (next_retry_at clock n) e x"
  have rows': "rows st' = sql_update (\<lambda>z. r_id z = r_id x) (fail_row now ?t e) (rows st)"
    using assms(5,6) rows_Fail [of r db now clock n "r_id x" e st] by simp
  have left: "retries_left x \<longleftrightarrow> r_retry_count x < max_retries (r_interval x)"
    using assms(2) by (intro retries_left_iff) (simp add: row_ok_def)
  have mem: "?y \<in> set (rows st')" unfolding rows' using assms(1) by (rule updated_row) simp
  have t: "clock + 55 * Minute \<le> ?t" "?t \<le> clock + 65 * Minute" using assms(3,4) by (simp_all add: next_retry_at_def)
  show "\<exists>y\<in>set (rows st'). r_id y = r_id x \<and> r_retry_count y = r_retry_count x + 1 \<and> r_last_error y = Some e \<and>
      (if r_retry_count x < max_retries (r_interval x)
       then r_status y = ''pending'' \<and>
         (\<exists>t. r_retry_at y = Some t \<and> clock + 55 * Minute \<le> t \<and> t \<le> clock + 65 * Minute \<and> (\<forall>u<t. \<not> due u y))
       else r_status y = ''failed'')"
    by (rule bexI [OF _ mem]) (use t left in \<open>auto simp: fail_row_def due_def\<close>)
  show "\<forall>z\<in>set (rows st). r_id z \<noteq> r_id x \<longrightarrow> z \<in> set (rows st')"
    unfolding rows' set_sql_update by (auto intro!: rev_image_eqI)
qed

text \<open>
  The retry delay and the retry bound only hold until the planner emits the same task again: enqueueing
  a failed-and-cooling task before its retry time makes it due at once with its retry count back at zero,
  so a task the planner keeps emitting can fail any number of times without ever being marked failed.
\<close>

lemma enqueue_cancels_cooldown:
  assumes "x \<in> set (rows st)" "r_status x = ''pending''" "r_retry_at x = Some t" "now < t" "t_ID item = r_id x" "\<forall>j. db j = None"
    and "Enqueue r db now [item] st = (res, st')"
  shows "res = Inr [item] \<and>
    (\<exists>y\<in>set (rows st'). r_id y = r_id x \<and> r_status y = ''pending'' \<and> r_retry_count y = 0 \<and> (\<forall>u. due u y))"
proof -
  let ?hit = "\<lambda>z. r_id z = t_ID item \<and> revivable now z"
  have hit: "?hit x" using assms(2-5) by (simp add: revivable_def)
  have "t_ID item \<in> r_id ` set (rows st)" using assms(1,5) by simp
  then have u: "upsert_task now item (rows st) = (sql_update ?hit (reset_row item now) (rows st), rows_affected ?hit (rows st))"
    by (simp add: upsert_task_def Let_def)
  have n: "rows_affected ?hit (rows st) > 0" using assms(1) hit rows_affected_pos [of ?hit "rows st"] by blast
  have "res = Inr [item]" "rows st' = sql_update ?hit (reset_row item now) (rows st)"
    using assms(6,7) u n by (auto simp: Enqueue_def Let_def split: if_splits)
  moreover have "reset_row item now x \<in> set (sql_update ?hit (reset_row item now) (rows st))"
    using assms(1) by (rule updated_row) (use hit in simp)
  ultimately show ?thesis by (intro conjI bexI [of _ "reset_row item now x"]) (simp_all add: reset_row_def due_def)
qed

section \<open>Fetching a batch\<close>

definition ready :: "gotime \<Rightarrow> task_row \<Rightarrow> bool" where
  "ready now r \<longleftrightarrow> r_status r = ''pending'' \<and> due now r"

definition kind_of :: "string \<Rightarrow> nat" where
  "kind_of ty = (if ty = TypeRealtime then 0 else if ty = TypeBackfill then 2 else 1)"

text \<open>
  What one of the three queries returns: rows of its kind, ready at its time, none of them twice, up to its limit, and
  nothing left out while there is room.
\<close>

definition fetched :: "nat \<Rightarrow> gotime \<Rightarrow> task_row list \<Rightarrow> nat \<Rightarrow> Task list \<Rightarrow> bool" where
  "fetched k now rs limit ts \<longleftrightarrow>
     (\<exists>xs. ts = map task_of_row xs \<and> length xs \<le> limit \<and> mset xs \<subseteq># mset rs \<and>
        set xs \<subseteq> {r \<in> set rs. ready now r \<and> kind_of (r_type r) = k} \<and>
        (length xs < limit \<longrightarrow> {r \<in> set rs. ready now r \<and> kind_of (r_type r) = k} \<subseteq> set xs))"

lemma take_srt_fetched:
  assumes "sql_order srt" "\<And>r. P r \<longleftrightarrow> ready now r \<and> kind_of (r_type r) = k"
  shows "fetched k now rs n (map task_of_row (take n (srt key (filter P rs))))"
proof -
  let ?xs = "take n (srt key (filter P rs))"
  have all: "set (srt key (filter P rs)) = {r \<in> set rs. ready now r \<and> kind_of (r_type r) = k}"
    using sql_orderD(1) [OF assms(1)] assms(2) by auto
  have "set ?xs \<subseteq> {r \<in> set rs. ready now r \<and> kind_of (r_type r) = k}" using all set_take_subset [of n "srt key (filter P rs)"] by simp
  moreover have "mset ?xs \<subseteq># mset rs"
  proof -
    have "mset ?xs \<subseteq># mset ?xs + mset (drop n (srt key (filter P rs)))" by simp
    also have "\<dots> = mset (srt key (filter P rs))" by (metis append_take_drop_id mset_append)
    also have "\<dots> = filter_mset P (mset rs)" using sql_orderD(5) [OF assms(1)] by simp
    finally show ?thesis using multiset_filter_subset subset_mset.order_trans by blast
  qed
  moreover have "?xs = srt key (filter P rs)" if "length ?xs < n" using that by auto
  ultimately show ?thesis unfolding fetched_def using all by (intro exI [of _ ?xs]) auto
qed

lemma fetched_zero: "n = 0 \<Longrightarrow> fetched k now rs n []"
  by (simp add: fetched_def)

lemma pendingByTaskType_fetched:
  assumes "sql_order srt" "pendingByTaskType srt now rs limit TypeRealtime err = Inr ts"
  shows "fetched 0 now rs (nat limit) ts"
proof (cases "limit \<le> 0")
  case True
  with assms(2) show ?thesis by (auto simp: pendingByTaskType_def intro: fetched_zero)
next
  case False
  with assms(2) have "ts = map task_of_row (take (nat limit) (srt (\<lambda>r. (r_created_at r, 0, 0, 0))
      (filter (\<lambda>r. r_status r = ''pending'' \<and> due now r \<and> r_type r = TypeRealtime) rs)))"
    by (cases err) (simp_all add: pendingByTaskType_def)
  then show ?thesis by (simp only:) (rule take_srt_fetched [OF assms(1)], auto simp: ready_def kind_of_def)
qed

lemma pendingOther_fetched:
  assumes "sql_order srt" "pendingNonBackfillNonRealtime srt now rs limit err = Inr ts"
  shows "fetched 1 now rs (nat limit) ts"
proof (cases "limit \<le> 0")
  case True
  with assms(2) show ?thesis by (auto simp: pendingNonBackfillNonRealtime_def intro: fetched_zero)
next
  case False
  let ?key = "\<lambda>r. (if r_type r = ''integrity_check'' then 0 else if r_type r = ''consolidation'' then 1 else 2,
      r_window_start r, r_created_at r, 0)"
  from False assms(2) have "ts = map task_of_row (take (nat limit) (srt ?key
      (filter (\<lambda>r. r_status r = ''pending'' \<and> due now r \<and> r_type r \<noteq> TypeBackfill \<and> r_type r \<noteq> TypeRealtime) rs)))"
    by (cases err) (simp_all add: pendingNonBackfillNonRealtime_def)
  then show ?thesis by (simp only:) (rule take_srt_fetched [OF assms(1)], auto simp: ready_def kind_of_def)
qed

lemma pendingByType_fetched:
  assumes "sql_order srt" "pendingByType srt now rs limit True err = Inr ts"
  shows "fetched 2 now rs (nat limit) ts"
proof (cases "limit \<le> 0")
  case True
  with assms(2) show ?thesis by (auto simp: pendingByType_def intro: fetched_zero)
next
  case False
  with assms(2) have "ts = map task_of_row (take (nat limit) (srt (\<lambda>r. (type_rank r, r_window_start r, r_created_at r, 0))
      (filter (\<lambda>r. r_status r = ''pending'' \<and> due now r \<and> r_type r = TypeBackfill) rs)))"
    by (cases err) (simp_all add: pendingByType_def)
  then show ?thesis by (simp only:) (rule take_srt_fetched [OF assms(1)], auto simp: ready_def kind_of_def task_types)
qed

lemma fetched_length: "fetched k now rs n ts \<Longrightarrow> length ts \<le> n"
  by (auto simp: fetched_def)

text \<open>
  A batch is fetched in three phases that never exceed the batch size together: live tickers first,
  then every other kind but backfill, then backfill up to its own cap. Each phase returns only pending
  tasks that are not cooling down, of its kind, and leaves none of them out while it has room, so a live
  ticker is only left out of a batch made of live tickers.
\<close>

lemma pending_batch:
  assumes "sql_order srt" "Pending srt db now rs limit backfillLimit = Inr ts"
  shows "\<exists>live other backfill. ts = live @ other @ backfill \<and> length ts \<le> nat limit \<and>
    fetched 0 (now 0) (rs 0) (nat limit) live \<and>
    fetched 1 (now 1) (rs 1) (nat limit - length live) other \<and>
    fetched 2 (now 2) (rs 2) (min (nat backfillLimit) (nat limit - length live - length other)) backfill"
proof (cases "limit \<le> 0")
  case True
  with assms(2) show ?thesis by (auto simp: Pending_def intro!: exI [of _ "[]"] fetched_zero)
next
  case False
  let ?bl = "clamp_backfill limit backfillLimit"
  obtain live where live: "pendingByTaskType srt (now 0) (rs 0) limit TypeRealtime (db 0) = Inr live"
    and rest: "(if limit - int (length live) \<le> 0 then Inr live else
      case pendingNonBackfillNonRealtime srt (now 1) (rs 1) (limit - int (length live)) (db 1) of Inl e \<Rightarrow> Inl e
      | Inr other \<Rightarrow> if limit - int (length (live @ other)) \<le> 0 \<or> ?bl = 0 then Inr (live @ other)
         else case pendingByType srt (now 2) (rs 2) (if ?bl > limit - int (length (live @ other))
                then limit - int (length (live @ other)) else ?bl) True (db 2) of
           Inl e \<Rightarrow> Inl e | Inr bf \<Rightarrow> Inr ((live @ other) @ bf)) = Inr ts"
    using assms(2) False unfolding Pending_def Let_def by (auto simp only: case_result_Inr_iff if_False)
  note fl = pendingByTaskType_fetched [OF assms(1) live]
  show ?thesis
  proof (cases "limit - int (length live) \<le> 0")
    case True
    then have "ts = live" "nat limit - length live = 0" using rest by auto
    then show ?thesis using fl fetched_length [OF fl]
      by (intro exI [of _ live] exI [of _ "[]"]) (simp add: fetched_zero)
  next
    case more: False
    obtain other where other: "pendingNonBackfillNonRealtime srt (now 1) (rs 1) (limit - int (length live)) (db 1) = Inr other"
      and rest2: "(if limit - int (length (live @ other)) \<le> 0 \<or> ?bl = 0 then Inr (live @ other)
         else case pendingByType srt (now 2) (rs 2) (if ?bl > limit - int (length (live @ other))
                then limit - int (length (live @ other)) else ?bl) True (db 2) of
           Inl e \<Rightarrow> Inl e | Inr bf \<Rightarrow> Inr ((live @ other) @ bf)) = Inr ts"
      using rest unfolding if_not_P [OF more] case_result_Inr_iff by blast
    note fo = pendingOther_fetched [OF assms(1) other]
    have n1 [simp]: "nat (limit - int (length live)) = nat limit - length live" by simp
    have len: "length live + length other \<le> nat limit" using fetched_length [OF fo] more by linarith
    show ?thesis
    proof (cases "limit - int (length (live @ other)) \<le> 0 \<or> ?bl = 0")
      case True
      then have ts: "ts = live @ other" using rest2 by simp
      have "min (nat backfillLimit) (nat limit - length live - length other) = 0"
        using True False by (auto simp: clamp_backfill_def min_def split: if_splits)
      with ts show ?thesis using fl fo len n1
        by (intro exI [of _ live] exI [of _ other] exI [of _ "[]"]) (simp add: fetched_zero)
    next
      case room: False
      let ?m = "if ?bl > limit - int (length (live @ other)) then limit - int (length (live @ other)) else ?bl"
      obtain bf where bf: "pendingByType srt (now 2) (rs 2) ?m True (db 2) = Inr bf" "ts = live @ other @ bf"
        using rest2 unfolding if_not_P [OF room] case_result_Inr_iff by auto
      have n2: "nat ?m = min (nat backfillLimit) (nat limit - length live - length other)"
        using False by (auto simp: clamp_backfill_def min_def)
      note fb = pendingByType_fetched [OF assms(1) bf(1), unfolded n2]
      have "length ts \<le> nat limit" using fetched_length [OF fb] len unfolding bf(2) length_append by linarith
      with bf(2) fl fo [unfolded n1] fb show ?thesis by blast
    qed
  qed
qed

section \<open>Pruning the log\<close>

lemma prune_by_count_mem:
  assumes "sql_order srt" "distinct (map r_id rs)"
  shows "set (prune_by_count srt k rs) =
    {r \<in> set rs. \<not> finished r} \<union> set (take (nat k) (srt (\<lambda>r. (- r_updated_at r, 0, 0, 0)) (filter finished rs)))"
proof -
  define xs where "xs = srt (\<lambda>r. (- r_updated_at r, 0, 0, 0)) (filter finished rs)"
  have sx: "set xs = {r \<in> set rs. finished r}" unfolding xs_def using sql_orderD(1) [OF assms(1)] by simp
  have "distinct rs" using assms(2) by (simp add: distinct_map)
  then have dx: "distinct xs" unfolding xs_def using sql_orderD(4) [OF assms(1)] by simp
  then have disj: "set (take (nat k) xs) \<inter> set (drop (nat k) xs) = {}" by (simp add: set_take_disj_set_drop_if_distinct)
  have split: "set xs = set (take (nat k) xs) \<union> set (drop (nat k) xs)" by (metis append_take_drop_id set_append)
  have inj: "r_id r \<in> r_id ` set (drop (nat k) xs) \<longleftrightarrow> r \<in> set (drop (nat k) xs)" if "r \<in> set rs" for r
    using id_unique [OF assms(2) that] sx split by auto
  have "set (prune_by_count srt k rs) = {r \<in> set rs. r \<notin> set (drop (nat k) xs)}"
    unfolding prune_by_count_def xs_def [symmetric] using inj by (auto simp: Let_def)
  also have "\<dots> = {r \<in> set rs. \<not> finished r} \<union> set (take (nat k) xs)" using sx split disj by auto
  finally show ?thesis by (simp add: xs_def)
qed

lemma take_newest:
  assumes "sql_order srt" "x \<in> set (take n (srt (\<lambda>r. (- r_updated_at r, 0, 0, 0)) xs))" "y \<in> set xs"
    and "y \<notin> set (take n (srt (\<lambda>r. (- r_updated_at r, 0, 0, 0)) xs))"
  shows "r_updated_at y \<le> r_updated_at x"
proof -
  let ?key = "\<lambda>r. (- r_updated_at r, 0, 0, 0) :: order_key"
  let ?zs = "srt ?key xs"
  have "y \<in> set (drop n ?zs)"
    using assms(3,4) sql_orderD(1) [OF assms(1), of ?key xs] by (metis Un_iff append_take_drop_id set_append)
  moreover have "sorted (map ?key (take n ?zs) @ map ?key (drop n ?zs))"
    using sql_orderD(3) [OF assms(1), of ?key xs] by (metis append_take_drop_id map_append)
  ultimately have "?key x \<le> ?key y" using assms(2) by (auto simp: sorted_append)
  then show ?thesis by auto
qed

text \<open>
  Cleanup never deletes a pending or running task. With a positive cap, at most that many finished
  tasks remain, none of them older than the retention period, and they are the most recent ones: every
  finished task of the retention period that was dropped is no newer than any that was kept. The number
  it reports is the number of rows it deleted.
\<close>

lemma prune_keeps_newest:
  assumes "sql_order srt" "table_ok (rows st)" "0 < keepMax"
    and "PruneOldTasks srt db clock olderThan keepMax st = ((n, None), st')"
  shows "set (rows st') \<subseteq> set (rows st) \<and> (\<forall>r\<in>set (rows st). \<not> finished r \<longrightarrow> r \<in> set (rows st')) \<and>
    length (filter finished (rows st')) \<le> nat keepMax \<and>
    (\<forall>r\<in>set (rows st'). finished r \<longrightarrow> clock - olderThan \<le> r_updated_at r) \<and>
    (\<forall>k\<in>set (rows st'). \<forall>d\<in>set (rows st) - set (rows st').
       finished k \<longrightarrow> clock - olderThan \<le> r_updated_at d \<longrightarrow> r_updated_at d \<le> r_updated_at k) \<and>
    length (rows st) = length (rows st') + n"
proof -
  define rs1 where "rs1 = prune_by_age (clock + - olderThan) (rows st)"
  define rs2 where "rs2 = prune_by_count srt keepMax rs1"
  let ?top = "take (nat keepMax) (srt (\<lambda>r. (- r_updated_at r, 0, 0, 0)) (filter finished rs1))"
  have st': "rows st' = rs2" "n = length (rows st) - length rs1 + (length rs1 - length rs2)"
    using assms(3,4) unfolding rs1_def rs2_def PruneOldTasks_def by (auto simp: Let_def split: option.splits if_splits)
  have ids: "distinct (map r_id (rows st))" using assms(2) by (simp add: table_ok_def)
  then have ids1: "distinct (map r_id rs1)" by (simp add: rs1_def prune_by_age_def distinct_map_filter)
  have s1: "set rs1 = {r \<in> set (rows st). finished r \<longrightarrow> clock - olderThan \<le> r_updated_at r}"
    by (auto simp: rs1_def prune_by_age_def)
  have s2: "set rs2 = {r \<in> set rs1. \<not> finished r} \<union> set ?top"
    unfolding rs2_def by (rule prune_by_count_mem [OF assms(1) ids1])
  have top: "set ?top \<subseteq> {r \<in> set rs1. finished r}"
    using set_take_subset [of "nat keepMax"] sql_orderD(1) [OF assms(1), of _ "filter finished rs1"] by fastforce
  have "distinct rs2" using ids1 by (simp add: rs2_def prune_by_count_def Let_def distinct_map)
  then have "length (filter finished rs2) = card {r \<in> set rs2. finished r}"
    by (metis distinct_card distinct_filter set_filter)
  also have "{r \<in> set rs2. finished r} = set ?top" using s2 top by auto
  also have "card (set ?top) \<le> nat keepMax" using card_length [of ?top] by simp
  finally have len: "length (filter finished rs2) \<le> nat keepMax" .
  have newest: "r_updated_at d \<le> r_updated_at k"
    if "k \<in> set rs2" "finished k" "d \<in> set (rows st)" "d \<notin> set rs2" "clock - olderThan \<le> r_updated_at d" for k d
  proof (rule take_newest [OF assms(1)])
    show "k \<in> set ?top" using that s2 by auto
    show "d \<in> set (filter finished rs1)" using that s1 s2 by auto
    show "d \<notin> set ?top" using that s2 by auto
  qed
  have le: "length rs1 \<le> length (rows st)" unfolding rs1_def prune_by_age_def by (rule length_filter_le)
  have le2: "length rs2 \<le> length rs1" unfolding rs2_def prune_by_count_def Let_def by (rule length_filter_le)
  have sub: "set rs2 \<subseteq> set (rows st)" using s1 s2 top by blast
  have keep: "\<forall>r\<in>set (rows st). \<not> finished r \<longrightarrow> r \<in> set rs2" using s1 s2 by blast
  have age: "\<forall>r\<in>set rs2. finished r \<longrightarrow> clock - olderThan \<le> r_updated_at r" using s1 s2 top by blast
  have num: "length (rows st) = length rs2 + (length (rows st) - length rs1 + (length rs1 - length rs2))"
    using le le2 by linarith
  show ?thesis unfolding st' using sub keep len age newest num by blast
qed

end
