(* ===== verification/Planner_Runtime.thy ===== *)
theory Planner_Runtime
  imports Sync_Repo Lease_Repo Task_Repo
begin

text \<open>
  \<^verbatim>\<open>planner/runtime.go\<close>: one planner tick over the shared tables. A tick may not return, because
  the backfill loop may not: \<open>None\<close> is that outcome. What the tick reads from outside, the outcomes of
  its database calls and the two clocks are the fields of \<open>tick_env\<close>.
\<close>

section \<open>State and environment\<close>

record planner_world =
  w_leases :: "Lease list"
  w_sync :: "sync_row list"
  w_coverage :: "coverage_row list"
  w_integrity :: "integrity_row list"
  w_tasks :: task_store
  w_published :: "Task list"

record Runner =
  instanceID :: string
  leaseName :: string
  leaseTTL :: duration
  scheduler :: Scheduler
  maxBackfillTasksPerTick :: int
  taskRepo :: TaskRepository
  has_publisher :: bool
  isLeader :: bool

record tick_env =
  e_lease :: db_outcome
  e_dbnow :: gotime
  e_clock :: gotime
  e_pairs :: "(string, Pair list) result"
  e_states :: "string option"
  e_seed :: "string \<Rightarrow> string option"
  e_coverage :: "string option"
  e_integrity :: "string option"
  e_active :: db_outcome
  e_enqueue_realtime :: db_outcome
  e_enqueue_followup :: db_outcome
  e_publish_ok :: bool
  e_users :: "(string, string list) result option"

section \<open>Enqueue and publish\<close>

text \<open>A failed publish is logged and otherwise ignored.\<close>

definition enqueueBatch ::
  "Runner \<Rightarrow> tick_env \<Rightarrow> db_outcome \<Rightarrow> Task list \<Rightarrow> planner_world \<Rightarrow> (string, unit) result \<times> planner_world" where
  "enqueueBatch r env db tasks w =
     (if tasks = [] then (Inr (), w)
      else case Enqueue (taskRepo r) db (e_dbnow env) tasks (w_tasks w) of
             (Inl e, st) \<Rightarrow> (Inl e, w\<lparr>w_tasks := st\<rparr>)
           | (Inr enqueued, st) \<Rightarrow>
               if enqueued = [] then (Inr (), w\<lparr>w_tasks := st\<rparr>)
               else (Inr (), w\<lparr>w_tasks := st,
                      w_published := (if has_publisher r \<and> e_publish_ok env then w_published w @ enqueued else w_published w)\<rparr>))"

text \<open>The pairs without sync state are seeded one by one; the first failure ends the tick.\<close>

fun seed_pairs ::
  "tick_env \<Rightarrow> state_map \<Rightarrow> Pair list \<Rightarrow> state_map \<Rightarrow> sync_row list \<Rightarrow> (string, state_map) result \<times> sync_row list" where
  "seed_pairs env states [] adapted rs = (Inr adapted, rs)"
| "seed_pairs env states (p # ps) adapted rs =
     (if states (p_Symbol p) = None then
        (case MarkBackfillSeeded (e_seed env (p_Symbol p)) (e_dbnow env) (p_Symbol p) 0 rs of
           (Inl e, rs') \<Rightarrow> (Inl e, rs')
         | (Inr _, rs') \<Rightarrow> seed_pairs env states ps (adapted(p_Symbol p \<mapsto> zero_SyncState)) rs')
      else seed_pairs env states ps adapted rs)"

definition pnl_tasks :: "Runner \<Rightarrow> tick_env \<Rightarrow> Task list" where
  "pnl_tasks r env =
     (case e_users env of
        None \<Rightarrow> []
      | Some (Inl e) \<Rightarrow> []
      | Some (Inr userIDs) \<Rightarrow> if userIDs \<noteq> [] then BuildPnLRefreshTasks (scheduler r) userIDs (e_clock env) else [])"

section \<open>The tick\<close>

definition plan_tick ::
  "Runner \<Rightarrow> tick_env \<Rightarrow> planner_world \<Rightarrow> Pair list \<Rightarrow> state_map \<Rightarrow> coverage_map \<Rightarrow> coverage_map \<Rightarrow> string list \<Rightarrow>
     ((string, unit) result \<times> planner_world) option" where
  "plan_tick r env w pairs adapted coverage integrityCov activePairs =
     (let now = e_clock env; s = scheduler r;
          realtimeTasks = BuildRealtimeTasks pairs adapted now
      in case enqueueBatch r env (e_enqueue_realtime env) realtimeTasks w of
           (Inl e, w1) \<Rightarrow> Some (Inl e, w1)
         | (Inr _, w1) \<Rightarrow>
             (case BuildInitialBackfillTasksLimited s pairs adapted coverage (\<lambda>p. p \<in> set activePairs) now (maxBackfillTasksPerTick r) of
                None \<Rightarrow> None
              | Some backfillTasks \<Rightarrow>
                  let followUpTasks = backfillTasks @ BuildBackfillProbeTasks s pairs adapted now @
                        BuildGapValidationTasks s pairs adapted coverage now @
                        BuildIntegrityCheckTasks s pairs adapted integrityCov now @
                        BuildConsolidationTasks pairs adapted now @ [BuildCleanupTask now] @
                        BuildNewsFetchTasks s now @ pnl_tasks r env
                  in if realtimeTasks = [] \<and> followUpTasks = [] then Some (Inr (), w1)
                     else Some (enqueueBatch r env (e_enqueue_followup env) followUpTasks w1)))"

definition runTick :: "Runner \<Rightarrow> tick_env \<Rightarrow> planner_world \<Rightarrow> ((string, unit) result \<times> Runner \<times> planner_world) option" where
  "runTick r env w =
     (case AcquireOrRenew (e_lease env) (e_dbnow env) (leaseName r) (instanceID r) (leaseTTL r) id (w_leases w) of
        (Inl e, ls) \<Rightarrow> Some (Inl e, r, w\<lparr>w_leases := ls\<rparr>)
      | (Inr (_, acquired), ls) \<Rightarrow>
          let w0 = w\<lparr>w_leases := ls\<rparr>; r1 = r\<lparr>isLeader := acquired\<rparr>
          in if \<not> acquired then Some (Inr (), r1, w0)
             else case e_pairs env of
               Inl e \<Rightarrow> Some (Inl e, r1, w0)
             | Inr pairs \<Rightarrow>
               (case States (e_states env) (w_sync w0) of
                  Inl e \<Rightarrow> Some (Inl e, r1, w0)
                | Inr states \<Rightarrow>
                    (case seed_pairs env states pairs states (w_sync w0) of
                       (Inl e, rs) \<Rightarrow> Some (Inl e, r1, w0\<lparr>w_sync := rs\<rparr>)
                     | (Inr adapted, rs) \<Rightarrow>
                         let w1 = w0\<lparr>w_sync := rs\<rparr>
                         in case GetAllCompletedDays (e_coverage env) (w_coverage w1) of
                              Inl e \<Rightarrow> Some (Inl e, r1, w1)
                            | Inr coverage \<Rightarrow>
                                (case GetAllVerifiedDays (e_integrity env) (w_integrity w1) of
                                   Inl e \<Rightarrow> Some (Inl e, r1, w1)
                                 | Inr integrityCov \<Rightarrow>
                                     (case ActiveBackfillPairs (e_active env) (e_dbnow env) (w_tasks w1) of
                                        Inl e \<Rightarrow> Some (Inl e, r1, w1)
                                      | Inr activePairs \<Rightarrow>
                                          map_option (\<lambda>(res, w2). (res, r1, w2))
                                            (plan_tick r1 env w1 pairs adapted coverage integrityCov activePairs))))))"

section \<open>Only the leader plans\<close>

text \<open>
  A planner instance whose lease request meets an unexpired lease of another instance does nothing in
  that tick: no table changes, nothing is published, and it stops considering itself the leader.
\<close>

lemma follower_changes_nothing:
  assumes "sql_row l_Name (leaseName r) (w_leases w) = Some l" "l_HolderID l \<noteq> instanceID r" "e_dbnow env \<le> l_ExpiresAt l"
    and "e_lease env = no_errors"
  shows "runTick r env w = Some (Inr (), r\<lparr>isLeader := False\<rparr>, w)"
proof -
  have "AcquireOrRenew (e_lease env) (e_dbnow env) (leaseName r) (instanceID r) (leaseTTL r) id (w_leases w) = (Inr (l, False), w_leases w)"
    using assms by (simp add: AcquireOrRenew_def no_errors_def lease_upsert_def lease_free_def Current_def Let_def)
  then show ?thesis by (simp add: runTick_def)
qed

definition idle_world :: planner_world where
  "idle_world = \<lparr>w_leases = [\<lparr>l_Name = ''planner'', l_HolderID = ''a'', l_ExpiresAt = 100, l_LastBeatAt = 0\<rparr>], w_sync = [],
     w_coverage = [], w_integrity = [], w_tasks = \<lparr>rows = [], notified = 0\<rparr>, w_published = []\<rparr>"

definition idle_runner :: "string \<Rightarrow> Runner" where
  "idle_runner i = \<lparr>instanceID = i, leaseName = ''planner'', leaseTTL = 15 * Second, scheduler = NewScheduler 0 0 0 0 0,
     maxBackfillTasksPerTick = 5, taskRepo = worker_a, has_publisher = True, isLeader = True\<rparr>"

definition idle_env :: "gotime \<Rightarrow> tick_env" where
  "idle_env t = \<lparr>e_lease = no_errors, e_dbnow = t, e_clock = t, e_pairs = Inr [btc_eur], e_states = None, e_seed = (\<lambda>_. None),
     e_coverage = None, e_integrity = None, e_active = no_errors, e_enqueue_realtime = no_errors, e_enqueue_followup = no_errors,
     e_publish_ok = True, e_users = None\<rparr>"

lemmas sample_planner_defs = idle_world_def idle_runner_def idle_env_def

section \<open>A tick returns\<close>

lemma plan_tick_returns:
  assumes "0 < maxBackfillTasksPerTick r" "scheduler r = NewScheduler poll news integrity gap pnl"
  shows "plan_tick r env w pairs adapted cov icov act \<noteq> None"
proof -
  have "BuildInitialBackfillTasksLimited (scheduler r) pairs adapted cov (\<lambda>p. p \<in> set act) (e_clock env) (maxBackfillTasksPerTick r) \<noteq> None"
  proof (cases "due_pairs pairs adapted (\<lambda>p. p \<in> set act) = []")
    case True
    then have "backfill_cursors (scheduler r) pairs adapted cov (\<lambda>p. p \<in> set act) (e_clock env) = []"
      using backfill_cursors_due [of poll news integrity gap pnl adapted cov "e_clock env" pairs "\<lambda>p. p \<in> set act"] assms(2) by simp
    then show ?thesis by (simp add: BuildInitialBackfillTasksLimited_def backfill_rounds_Nil)
  next
    case False
    then show ?thesis
      using backfill_plan [OF assms(1) False, of poll news integrity gap pnl cov "e_clock env"] assms(2) by auto
  qed
  then show ?thesis by (auto simp: plan_tick_def Let_def split: sum.splits prod.splits)
qed

lemma runTick_None:
  assumes "runTick r env w = None"
  obtains w1 pairs adapted cov icov act where
    "plan_tick (r\<lparr>isLeader := True\<rparr>) env w1 pairs adapted cov icov act = None"
  using assms unfolding runTick_def Let_def by (auto split: sum.splits prod.splits if_splits)

lemma runTick_total:
  assumes "0 < maxBackfillTasksPerTick r" "scheduler r = NewScheduler poll news integrity gap pnl"
  shows "runTick r env w \<noteq> None"
proof
  assume "runTick r env w = None"
  then obtain w1 pairs adapted cov icov act where "plan_tick (r\<lparr>isLeader := True\<rparr>) env w1 pairs adapted cov icov act = None"
    by (rule runTick_None)
  then show False using plan_tick_returns [of "r\<lparr>isLeader := True\<rparr>" poll news integrity gap pnl] assms by simp
qed



section \<open>What a successful tick leaves behind\<close>

lemma table_ok_enqueueBatch:
  "table_ok (rows (w_tasks w)) \<Longrightarrow> table_ok (rows (w_tasks (snd (enqueueBatch r env db tasks w))))"
  using table_ok_Enqueue [of "w_tasks w" "taskRepo r" db "e_dbnow env" tasks]
  by (auto simp: enqueueBatch_def split: sum.splits prod.splits)

lemma table_ok_plan_tick:
  "plan_tick r env w pairs adapted cov icov act = Some (res, w') \<Longrightarrow> table_ok (rows (w_tasks w)) \<Longrightarrow> table_ok (rows (w_tasks w'))"
  using table_ok_enqueueBatch [of w r env "e_enqueue_realtime env" "BuildRealtimeTasks pairs adapted (e_clock env)"] table_ok_enqueueBatch
  unfolding plan_tick_def Let_def
  by (auto split: sum.splits prod.splits option.splits if_splits) (metis snd_conv)+

lemma sync_ok_seed_pairs: "sync_ok rs \<Longrightarrow> seed_pairs env states ps adapted rs = (res, rs') \<Longrightarrow> sync_ok rs'"
proof (induction env states ps adapted rs rule: seed_pairs.induct)
  case (2 env states p ps adapted rs)
  have ok: "sync_ok (snd (MarkBackfillSeeded (e_seed env (p_Symbol p)) (e_dbnow env) (p_Symbol p) 0 rs))"
    using exec_sync_ok [OF "2.prems"(1), of "e_seed env (p_Symbol p)" "e_dbnow env" "OpSeeded (p_Symbol p) 0"] by simp
  show ?case using 2 ok by (auto simp: fun_upd_def split: if_splits prod.splits sum.splits)
qed simp

lemma seed_pairs_dom:
  assumes "seed_pairs env states ps adapted rs = (Inr adapted', rs')" "\<And>q. states q \<noteq> None \<Longrightarrow> adapted q \<noteq> None"
  shows "(\<forall>q. adapted q \<noteq> None \<longrightarrow> adapted' q \<noteq> None) \<and> (\<forall>p\<in>set ps. adapted' (p_Symbol p) \<noteq> None)"
  using assms
proof (induction ps arbitrary: adapted rs)
  case (Cons p ps)
  show ?case
  proof (cases "states (p_Symbol p) = None")
    case True
    then obtain rs1 where *: "seed_pairs env states ps (adapted(p_Symbol p \<mapsto> zero_SyncState)) rs1 = (Inr adapted', rs')"
      using Cons.prems(1) by (auto split: prod.splits sum.splits)
    have "(\<forall>q. (adapted(p_Symbol p \<mapsto> zero_SyncState)) q \<noteq> None \<longrightarrow> adapted' q \<noteq> None) \<and> (\<forall>p\<in>set ps. adapted' (p_Symbol p) \<noteq> None)"
      using Cons.prems(2) by (intro Cons.IH [OF *]) auto
    then show ?thesis by (auto split: if_splits)
  next
    case False
    then show ?thesis using Cons.prems Cons.IH [of adapted rs] by auto
  qed
qed auto

lemma enqueueBatch_settles:
  assumes "enqueueBatch r env db tasks w = (Inr u, w')"
  shows "(\<forall>t\<in>set tasks. settled (e_dbnow env) (t_ID t) (rows (w_tasks w'))) \<and>
    (\<forall>i. settled (e_dbnow env) i (rows (w_tasks w)) \<longrightarrow> settled (e_dbnow env) i (rows (w_tasks w')))"
proof (cases "tasks = []")
  case True
  then show ?thesis using assms by (simp add: enqueueBatch_def)
next
  case False
  obtain res st where e: "Enqueue (taskRepo r) db (e_dbnow env) tasks (w_tasks w) = (res, st)" by fastforce
  with assms False have w': "w_tasks w' = st" "\<exists>x. res = Inr x" by (auto simp: enqueueBatch_def split: sum.splits if_splits)
  show ?thesis
  proof (cases rule: Enqueue_cases [of "taskRepo r" db "e_dbnow env" tasks "w_tasks w"])
    case (err x)
    then show ?thesis using e w' by simp
  next
    case (ok rs enq)
    then show ?thesis using enqueue_loop_settles [OF ok(1)] e w' by simp
  qed
qed

lemma plan_tick_settles:
  assumes "plan_tick r env w pairs adapted cov icov act = Some (Inr u, w')" "t \<in> set (BuildRealtimeTasks pairs adapted (e_clock env))"
  shows "settled (e_dbnow env) (t_ID t) (rows (w_tasks w'))"
proof -
  obtain u1 w1 where 1: "enqueueBatch r env (e_enqueue_realtime env) (BuildRealtimeTasks pairs adapted (e_clock env)) w = (Inr u1, w1)"
    using assms(1) by (auto simp: plan_tick_def Let_def split: sum.splits prod.splits)
  have "w' = w1 \<or> (\<exists>ts. enqueueBatch r env (e_enqueue_followup env) ts w1 = (Inr u, w'))"
    using assms(1) 1 by (auto simp: plan_tick_def Let_def split: option.splits if_splits)
  then show ?thesis
    using enqueueBatch_settles [OF 1] assms(2) enqueueBatch_settles [of r env "e_enqueue_followup env" _ w1 u w'] by blast
qed

lemma enqueueBatch_sync [simp]: "w_sync (snd (enqueueBatch r env db ts w)) = w_sync w"
  by (auto simp: enqueueBatch_def split: sum.split prod.split)

lemma plan_tick_sync:
  assumes "plan_tick r env w pairs adapted cov icov act = Some (res, w')"
  shows "w_sync w' = w_sync w"
proof -
  obtain x w1 where 1: "enqueueBatch r env (e_enqueue_realtime env) (BuildRealtimeTasks pairs adapted (e_clock env)) w = (x, w1)" by fastforce
  have "w' = w1 \<or> (\<exists>ts. w' = snd (enqueueBatch r env (e_enqueue_followup env) ts w1))"
    using assms 1 by (auto simp: plan_tick_def Let_def split: sum.splits option.splits if_splits) (metis snd_conv)
  then show ?thesis using 1 enqueueBatch_sync by (metis snd_conv)
qed

lemma settled_live:
  assumes "table_ok rs" "settled now i rs"
  shows "\<exists>x\<in>set rs. r_id x = i \<and> (r_status x = ''pending'' \<or> r_status x = ''running'')"
  using assms unfolding settled_def table_ok_def row_ok_def revivable_def by fastforce

lemma runTick_leader_cases:
  assumes "runTick r env w = Some (Inr u, r', w')" "isLeader r'" "e_pairs env = Inr pairs"
  obtains adapted rs w1 cov icov act where
    "seed_pairs env (states_of (w_sync w)) pairs (states_of (w_sync w)) (w_sync w) = (Inr adapted, rs)"
    "plan_tick (r\<lparr>isLeader := True\<rparr>) env w1 pairs adapted cov icov act = Some (Inr u, w')" "w_tasks w1 = w_tasks w" "w_sync w1 = rs"
proof -
  obtain l ls where a: "AcquireOrRenew (e_lease env) (e_dbnow env) (leaseName r) (instanceID r) (leaseTTL r) id (w_leases w) = (Inr (l, True), ls)"
    using assms(1,2) unfolding runTick_def Let_def by (auto split: sum.splits prod.splits if_splits)
  let ?w0 = "w\<lparr>w_leases := ls\<rparr>" and ?r = "r\<lparr>isLeader := True\<rparr>"
  obtain states adapted rs cov icov act where b: "States (e_states env) (w_sync w) = Inr states"
    "seed_pairs env states pairs states (w_sync w) = (Inr adapted, rs)"
    "map_option (\<lambda>(res, w2). (res, ?r, w2)) (plan_tick ?r env (?w0\<lparr>w_sync := rs\<rparr>) pairs adapted cov icov act) = Some (Inr u, r', w')"
    using assms(1,3) a unfolding runTick_def Let_def by (auto split: sum.splits prod.splits if_splits)
  have "states = states_of (w_sync w)" using b(1) by (auto simp: States_def states_of_def split: option.splits)
  with b show thesis by (intro that [of adapted rs "?w0\<lparr>w_sync := rs\<rparr>" cov icov act]) auto
qed

text \<open>
  After a tick that a leader completes without error, every tracked pair has a live-ticker task that is
  waiting or being worked on, and the task and sync tables still satisfy their invariants.
\<close>

lemma tick_schedules_every_pair:
  assumes "table_ok (rows (w_tasks w))" "sync_ok (w_sync w)"
    and "runTick r env w = Some (Inr (), r', w')" "isLeader r'" "e_pairs env = Inr pairs" "p \<in> set pairs"
  shows "(\<exists>x\<in>set (rows (w_tasks w')). r_id x = TypeRealtime @ '':'' @ p_Symbol p @ '':realtime'' \<and>
      (r_status x = ''pending'' \<or> r_status x = ''running'')) \<and>
    table_ok (rows (w_tasks w')) \<and> sync_ok (w_sync w')"
proof -
  obtain adapted rs w1 cov icov act where c:
    "seed_pairs env (states_of (w_sync w)) pairs (states_of (w_sync w)) (w_sync w) = (Inr adapted, rs)"
    "plan_tick (r\<lparr>isLeader := True\<rparr>) env w1 pairs adapted cov icov act = Some (Inr (), w')" "w_tasks w1 = w_tasks w" "w_sync w1 = rs"
    by (rule runTick_leader_cases [OF assms(3-5)])
  have ok: "table_ok (rows (w_tasks w'))" using table_ok_plan_tick [OF c(2)] c(3) assms(1) by simp
  have "adapted (p_Symbol p) \<noteq> None" using seed_pairs_dom [OF c(1)] assms(6) by auto
  then have "\<exists>t\<in>set (BuildRealtimeTasks pairs adapted (e_clock env)). t_ID t = TypeRealtime @ '':'' @ p_Symbol p @ '':realtime''"
    using assms(6) unfolding BuildRealtimeTasks_def Let_def Bex_def in_set_map_filter by fastforce
  then have "settled (e_dbnow env) (TypeRealtime @ '':'' @ p_Symbol p @ '':realtime'') (rows (w_tasks w'))"
    using plan_tick_settles [OF c(2)] by metis
  moreover have "sync_ok (w_sync w')" using sync_ok_seed_pairs [OF assms(2) c(1)] plan_tick_sync [OF c(2)] c(4) by simp
  ultimately show ?thesis using ok settled_live by blast
qed

lemma enqueue_loop_no_errors: "\<exists>rs' acc'. enqueue_loop no_errors k now items rs acc = Inr (rs', acc')"
  by (induction items arbitrary: k rs acc) (auto simp: no_errors_def split: prod.split)

lemma enqueueBatch_no_errors: "fst (enqueueBatch r env no_errors tasks w) = Inr ()"
  using enqueue_loop_no_errors [of "Suc 0" "e_dbnow env" tasks "rows (w_tasks w)" "[]"]
  by (auto simp: enqueueBatch_def Enqueue_def no_errors_def Let_def split: sum.splits prod.splits)

end
