(* ===== verification/Go_Strings.thy ===== *)
theory Go_Strings
  imports Prelude
begin

text \<open>
  Functions of the Go packages \<^verbatim>\<open>strings\<close>, \<^verbatim>\<open>encoding/base64\<close> and \<^verbatim>\<open>encoding/hex\<close>
  that the authentication code calls. A string is its list of bytes.
\<close>

text \<open>\<^verbatim>\<open>strings.TrimSpace\<close> removes the UTF-8 encodings of white space at both ends.\<close>

definition space_seqs :: "string list" where
  "space_seqs = [[CHR 0x20], [CHR 0x09], [CHR 0x0A], [CHR 0x0B], [CHR 0x0C], [CHR 0x0D], [CHR 0xC2, CHR 0x85], [CHR 0xC2, CHR 0xA0],
     [CHR 0xE1, CHR 0x9A, CHR 0x80], [CHR 0xE2, CHR 0x80, CHR 0xA8], [CHR 0xE2, CHR 0x80, CHR 0xA9], [CHR 0xE2, CHR 0x80, CHR 0xAF],
     [CHR 0xE2, CHR 0x81, CHR 0x9F], [CHR 0xE3, CHR 0x80, CHR 0x80]] @
     map (\<lambda>d. [CHR 0xE2, CHR 0x80, char_of d]) [0x80 ..< 0x8B :: nat]"

definition strip_one :: "string list \<Rightarrow> string \<Rightarrow> string" where
  "strip_one seqs s = (case find (\<lambda>p. prefix p s) seqs of None \<Rightarrow> s | Some p \<Rightarrow> drop (length p) s)"

lemma strip_one_cases:
  obtains "strip_one seqs s = s" | n where "strip_one seqs s = drop n s"
  by (cases "find (\<lambda>p. prefix p s) seqs") (auto simp: strip_one_def)

function trim_front :: "string list \<Rightarrow> string \<Rightarrow> string" where
  "trim_front seqs s = (let s' = strip_one seqs s in if length s' < length s then trim_front seqs s' else s)"
  by auto
termination by (relation "measure (\<lambda>(seqs, s). length s)") auto

declare trim_front.simps [simp del]

definition TrimSpace :: "string \<Rightarrow> string" where
  "TrimSpace s = rev (trim_front (map rev space_seqs) (rev (trim_front space_seqs s)))"

lemma trim_front_suffix: "\<exists>p. s = p @ trim_front seqs s"
proof (induction seqs s rule: trim_front.induct)
  case (1 seqs s)
  have p: "\<exists>p. s = p @ strip_one seqs s"
    by (rule strip_one_cases [of seqs s]) (simp, metis append_take_drop_id)
  show ?case
  proof (cases "length (strip_one seqs s) < length s")
    case True
    from p obtain p1 where p1: "s = p1 @ strip_one seqs s" ..
    from "1.IH" [OF refl True] obtain p2 where p2: "strip_one seqs s = p2 @ trim_front seqs (strip_one seqs s)" ..
    have "trim_front seqs s = trim_front seqs (strip_one seqs s)"
      using True by (simp add: trim_front.simps [of seqs s] Let_def)
    with p1 p2 have "s = (p1 @ p2) @ trim_front seqs s" by simp
    then show ?thesis ..
  next
    case False
    then show ?thesis by (simp add: trim_front.simps [of seqs s] Let_def)
  qed
qed

lemma trim_front_fixed: "strip_one seqs (trim_front seqs s) = trim_front seqs s"
proof (induction seqs s rule: trim_front.induct)
  case (1 seqs s)
  show ?case
  proof (cases "length (strip_one seqs s) < length s")
    case True
    with 1 show ?thesis by (simp add: trim_front.simps [of seqs s] Let_def)
  next
    case False
    then have "strip_one seqs s = s"
      by (cases rule: strip_one_cases [of seqs s]) (simp, metis diff_less drop0 drop_Nil length_drop length_greater_0_conv neq0_conv)
    with False show ?thesis by (simp add: trim_front.simps [of seqs s] Let_def)
  qed
qed

text \<open>\<^verbatim>\<open>strings.SplitN(s, c, 2)\<close> for a one-byte separator: the parts before and after its first occurrence.\<close>

definition split2 :: "char \<Rightarrow> string \<Rightarrow> string list" where
  "split2 c s = (if c \<in> set s then [takeWhile (\<lambda>x. x \<noteq> c) s, tl (dropWhile (\<lambda>x. x \<noteq> c) s)] else [s])"

text \<open>\<^verbatim>\<open>strings.EqualFold\<close> on ASCII text.\<close>

definition ascii_lower :: "char \<Rightarrow> char" where
  "ascii_lower c = (let n = of_char c :: nat in if 65 \<le> n \<and> n \<le> 90 then char_of (n + 32) else c)"

definition equal_fold :: "string \<Rightarrow> string \<Rightarrow> bool" where
  "equal_fold s t \<longleftrightarrow> map ascii_lower s = map ascii_lower t"

text \<open>Bytes as numbers below 256: \<^verbatim>\<open>hex.EncodeToString\<close> and \<^verbatim>\<open>base64.URLEncoding\<close>.\<close>

definition hex_digit :: "nat \<Rightarrow> char" where
  "hex_digit d = ''0123456789abcdef'' ! (d mod 16)"

definition hex_encode :: "nat list \<Rightarrow> string" where
  "hex_encode bs = concat (map (\<lambda>b. [hex_digit (b div 16), hex_digit b]) bs)"

definition b64_char :: "nat \<Rightarrow> char" where
  "b64_char n = ''ABCDEFGHIJKLMNOPQRSTUVWXYZabcdefghijklmnopqrstuvwxyz0123456789-_'' ! (n mod 64)"

fun base64url :: "nat list \<Rightarrow> string" where
  "base64url [] = []"
| "base64url [a] = [b64_char (a div 4), b64_char (a * 16), CHR ''='', CHR ''='']"
| "base64url [a, b] = [b64_char (a div 4), b64_char (a * 16 + b div 16), b64_char (b * 4), CHR ''='']"
| "base64url (a # b # c # rest) =
     [b64_char (a div 4), b64_char (a * 16 + b div 16), b64_char (b * 4 + c div 64), b64_char c] @ base64url rest"

text \<open>
  The verb \<^verbatim>\<open>%q\<close> on a string: quotes, backslashes and control characters are escaped. Bytes of
  multi-byte characters are kept, as \<^verbatim>\<open>strconv.Quote\<close> does for printable characters.
\<close>

definition quote_char :: "char \<Rightarrow> string" where
  "quote_char c =
     (let n = of_char c :: nat
      in if c = CHR 0x22 \<or> c = CHR 0x5C then [CHR 0x5C, c]
         else if 32 \<le> n \<and> n \<noteq> 127 then [c]
         else if 7 \<le> n \<and> n \<le> 13 then [CHR 0x5C, ''abtnvfr'' ! (n - 7)]
         else [CHR 0x5C, CHR ''x'', hex_digit (n div 16), hex_digit n])"

definition go_quote :: "string \<Rightarrow> string" where
  "go_quote s = [CHR 0x22] @ concat (map quote_char s) @ [CHR 0x22]"

text \<open>\<^verbatim>\<open>strings.ToUpper\<close> and \<^verbatim>\<open>strings.ToLower\<close> on ASCII text, and \<^verbatim>\<open>strings.Contains\<close>.\<close>

definition ascii_upper :: "char \<Rightarrow> char" where
  "ascii_upper c = (let n = of_char c :: nat in if 97 \<le> n \<and> n \<le> 122 then char_of (n - 32) else c)"

definition contains_str :: "string \<Rightarrow> string \<Rightarrow> bool" where
  "contains_str s t \<longleftrightarrow> list_ex (\<lambda>i. prefix t (drop i s)) [0..<Suc (length s)]"

text \<open>\<^verbatim>\<open>strconv.Atoi\<close>.\<close>

definition atoi :: "string \<Rightarrow> int option" where
  "atoi s =
     (let (neg, ds) = (case s of [] \<Rightarrow> (False, []) | c # rest \<Rightarrow>
            if c = CHR ''-'' then (True, rest) else if c = CHR ''+'' then (False, rest) else (False, s))
      in if ds = [] \<or> \<not> list_all is_digit_char ds then None
         else let v = (if neg then - int (read_nat ds) else int (read_nat ds)) in if - (2 ^ 63) \<le> v \<and> v < 2 ^ 63 then Some v else None)"

text \<open>\<^verbatim>\<open>strings.Join\<close>.\<close>

fun join_with :: "string list \<Rightarrow> string \<Rightarrow> string" where
  "join_with [] sep = []"
| "join_with [x] sep = x"
| "join_with (x # y # xs) sep = x @ sep @ join_with (y # xs) sep"

text \<open>\<^verbatim>\<open>hex.DecodeString\<close>: \<open>None\<close> for a character that is no digit and for an odd length.\<close>

definition hex_value :: "char \<Rightarrow> nat option" where
  "hex_value c =
     (let n = of_char c :: nat
      in if 48 \<le> n \<and> n \<le> 57 then Some (n - 48)
         else if 97 \<le> n \<and> n \<le> 102 then Some (n - 87)
         else if 65 \<le> n \<and> n \<le> 70 then Some (n - 55)
         else None)"

fun hex_decode :: "string \<Rightarrow> string option" where
  "hex_decode [] = Some []"
| "hex_decode [c] = None"
| "hex_decode (c # d # cs) =
     (case (hex_value c, hex_value d, hex_decode cs) of
        (Some a, Some b, Some rest) \<Rightarrow> Some (char_of (16 * a + b) # rest)
      | _ \<Rightarrow> None)"

end
