(* ===== verification/Consolidate.thy ===== *)
theory Consolidate
  imports Go_Float Go_Time Go_Strings
begin

text \<open>
  \<^verbatim>\<open>consolidate/consolidate.go\<close> over \<^verbatim>\<open>domain/candle/candle.go\<close>: raw samples of several
  sources are rolled into hourly candles and hourly candles into daily ones, with IEEE arithmetic.
  Timestamps are Unix seconds. Ranging over a Go map and then sorting by timestamp with
  \<^verbatim>\<open>sort.Slice\<close> fixes the order only up to equal timestamps: the argument \<open>arrange\<close> is any
  function that returns such an order.
\<close>

record Candle =
  k_Pair :: string
  k_Interval :: string
  k_Timestamp :: int
  k_Open :: float64
  k_High :: float64
  k_Low :: float64
  k_Close :: float64
  k_Volume :: float64
  k_Volume24H :: float64
  k_Source :: string
  k_Finalized :: bool

section \<open>Grouping\<close>

definition group_candles :: "(Candle \<Rightarrow> int) \<Rightarrow> Candle list \<Rightarrow> (int, Candle list) gomap" where
  "group_candles key items = foldl (\<lambda>m it. gm_put (key it) (gm_get m [] (key it) @ [it]) m) [] items"

definition unique_key :: "Candle \<Rightarrow> string" where
  "unique_key it = show_int (k_Timestamp it) @ '':'' @ k_Source it"

definition unique_subintervals :: "Candle list \<Rightarrow> (string, Candle) gomap" where
  "unique_subintervals grp = foldl (\<lambda>m it. gm_put (unique_key it) it m) [] grp"

section \<open>FromRaw\<close>

record agg =
  a_openSum :: float64
  a_openCount :: int
  a_closeSum :: float64
  a_closeCount :: int
  a_high :: float64
  a_low :: float64
  a_volume :: float64

definition raise_high :: "float64 \<Rightarrow> float64 \<Rightarrow> float64" where
  "raise_high high h = (if flt high h then h else high)"

definition lower_low :: "float64 \<Rightarrow> float64 \<Rightarrow> float64" where
  "lower_low low l = (if flt l low then l else low)"

definition agg_step :: "int \<Rightarrow> int \<Rightarrow> agg \<Rightarrow> Candle \<Rightarrow> agg" where
  "agg_step earliestTs latestTs a it =
     \<lparr>a_openSum = (if k_Timestamp it = earliestTs then fadd (a_openSum a) (k_Open it) else a_openSum a),
      a_openCount = (if k_Timestamp it = earliestTs then a_openCount a + 1 else a_openCount a),
      a_closeSum = (if k_Timestamp it = latestTs then fadd (a_closeSum a) (k_Close it) else a_closeSum a),
      a_closeCount = (if k_Timestamp it = latestTs then a_closeCount a + 1 else a_closeCount a),
      a_high = raise_high (a_high a) (k_High it),
      a_low = lower_low (a_low a) (k_Low it),
      a_volume = fadd (a_volume a) (k_Volume it)\<rparr>"

definition agg_init :: "Candle list \<Rightarrow> agg" where
  "agg_init us = \<lparr>a_openSum = f0, a_openCount = 0, a_closeSum = f0, a_closeCount = 0,
     a_high = k_High (hd us), a_low = k_Low (hd us), a_volume = f0\<rparr>"

definition aggregate :: "Candle list \<Rightarrow> agg" where
  "aggregate us = foldl (agg_step (k_Timestamp (hd us)) (k_Timestamp (last us))) (agg_init us) us"

definition consolidate_group :: "(Candle list \<Rightarrow> Candle list) \<Rightarrow> string \<Rightarrow> int \<Rightarrow> Candle list \<Rightarrow> Candle" where
  "consolidate_group arrange interval key grp =
     (let uniqueList = arrange (map snd (unique_subintervals grp)); a = aggregate uniqueList
      in \<lparr>k_Pair = k_Pair (hd uniqueList), k_Interval = interval, k_Timestamp = key,
          k_Open = fdiv (a_openSum a) (float_of_int (a_openCount a)), k_High = a_high a, k_Low = a_low a,
          k_Close = fdiv (a_closeSum a) (float_of_int (a_closeCount a)), k_Volume = a_volume a, k_Volume24H = f0,
          k_Source = ''consolidated'', k_Finalized = k_Finalized (last uniqueList)\<rparr>)"

definition raw_group_key :: "string \<Rightarrow> Candle \<Rightarrow> int" where
  "raw_group_key interval it =
     (if interval = ''1h'' \<or> interval = ''realtime'' then hour_of_unix (k_Timestamp it) else k_Timestamp it)"

definition FromRaw :: "(Candle list \<Rightarrow> Candle list) \<Rightarrow> string \<Rightarrow> Candle list \<Rightarrow> (string, Candle list) result" where
  "FromRaw arrange interval items =
     (if interval \<noteq> ''1h'' \<and> interval \<noteq> ''1d'' \<and> interval \<noteq> ''realtime''
      then Inl (''unsupported raw consolidation interval '' @ go_quote interval)
      else if items = [] then Inr []
      else let grouped = group_candles (raw_group_key interval) items
           in Inr (map (\<lambda>key. consolidate_group arrange interval key (gm_get grouped [] key)) (sort (gm_keys grouped))))"

section \<open>DailyFromHourly\<close>

definition daily_group :: "int \<Rightarrow> Candle list \<Rightarrow> Candle" where
  "daily_group key grp =
     (let hl = foldl (\<lambda>(high, low, volume) it. (raise_high high (k_High it), lower_low low (k_Low it), fadd volume (k_Volume it)))
                 (k_High (hd grp), k_Low (hd grp), f0) grp
      in \<lparr>k_Pair = k_Pair (hd grp), k_Interval = ''1d'', k_Timestamp = key, k_Open = k_Open (hd grp),
          k_High = fst hl, k_Low = fst (snd hl), k_Close = k_Close (last grp), k_Volume = snd (snd hl),
          k_Volume24H = f0, k_Source = ''consolidated'', k_Finalized = True\<rparr>)"

definition DailyFromHourly :: "(Candle list \<Rightarrow> Candle list) \<Rightarrow> Candle list \<Rightarrow> (string, Candle list) result" where
  "DailyFromHourly arrange items =
     (if items = [] then Inr []
      else let grouped = group_candles (\<lambda>it. day_of_unix (k_Timestamp it)) (arrange items)
           in Inr (map (\<lambda>key. daily_group key (gm_get grouped [] key)) (sort (gm_keys grouped))))"

section \<open>Facts on grouping\<close>

lemma group_candles_snoc:
  "group_candles key (items @ [it]) = gm_put (key it) (gm_get (group_candles key items) [] (key it) @ [it]) (group_candles key items)"
  by (simp add: group_candles_def)

lemma group_candles_get: "gm_get (group_candles key items) [] k = filter (\<lambda>it. key it = k) items"
proof (induction items rule: rev_induct)
  case Nil
  then show ?case by (simp add: group_candles_def)
next
  case (snoc it items)
  then show ?case by (auto simp: group_candles_snoc gm_get_put)
qed

lemma group_candles_keys: "set (gm_keys (group_candles key items)) = key ` set items \<and> distinct (gm_keys (group_candles key items))"
proof (induction items rule: rev_induct)
  case Nil
  then show ?case by (simp add: group_candles_def gm_keys_def)
next
  case (snoc it items)
  then show ?case by (simp add: group_candles_snoc distinct_gm_keys_put)
qed

lemma sort_keys_set: "distinct ks \<Longrightarrow> sort ks = sorted_list_of_set (set ks)"
  by (simp add: sorted_list_of_set_sort_remdups distinct_remdups_id)

lemma sort_group_keys: "sort (gm_keys (group_candles key items)) = sorted_list_of_set (key ` set items)"
  using group_candles_keys [of key items] by (simp add: sort_keys_set)

lemma unique_subintervals_snoc:
  "unique_subintervals (grp @ [it]) = gm_put (unique_key it) it (unique_subintervals grp)"
  by (simp add: unique_subintervals_def)

lemma unique_key_inj: "unique_key a = unique_key b \<longleftrightarrow> k_Timestamp a = k_Timestamp b \<and> k_Source a = k_Source b"
proof
  assume "unique_key a = unique_key b"
  then show "k_Timestamp a = k_Timestamp b \<and> k_Source a = k_Source b"
    using sep_append_inj [of "CHR '':''" "show_int (k_Timestamp a)" "show_int (k_Timestamp b)" "k_Source a" "k_Source b"]
      show_int_no_colon by (simp add: unique_key_def)
qed (simp add: unique_key_def)

text \<open>A sample survives deduplication when no later sample has its timestamp and source.\<close>

fun last_snapshots :: "Candle list \<Rightarrow> Candle list" where
  "last_snapshots [] = []"
| "last_snapshots (it # items) =
     (if \<exists>x\<in>set items. k_Timestamp x = k_Timestamp it \<and> k_Source x = k_Source it then last_snapshots items
      else it # last_snapshots items)"

lemma set_last_snapshots_snoc:
  "set (last_snapshots (items @ [it])) =
     insert it {x \<in> set (last_snapshots items). \<not> (k_Timestamp x = k_Timestamp it \<and> k_Source x = k_Source it)}"
  by (induction items) auto

lemma unique_subintervals_spec:
  "distinct (map fst (unique_subintervals grp)) \<and>
   (\<forall>(k, it) \<in> set (unique_subintervals grp). k = unique_key it) \<and>
   snd ` set (unique_subintervals grp) = set (last_snapshots grp)"
proof (induction grp rule: rev_induct)
  case Nil
  then show ?case by (simp add: unique_subintervals_def)
next
  case (snoc it grp)
  let ?m = "unique_subintervals grp"
  have d: "distinct (map fst ?m)" and k: "\<And>k x. (k, x) \<in> set ?m \<Longrightarrow> k = unique_key x" and s: "snd ` set ?m = set (last_snapshots grp)"
    using snoc by auto
  have put: "set (gm_put (unique_key it) it ?m) = insert (unique_key it, it) {p \<in> set ?m. fst p \<noteq> unique_key it}"
    using d by (rule set_gm_put)
  have "snd ` {p \<in> set ?m. fst p \<noteq> unique_key it} = {x \<in> snd ` set ?m. unique_key x \<noteq> unique_key it}"
    using k by force
  then have "snd ` set (gm_put (unique_key it) it ?m) = insert it {x \<in> set (last_snapshots grp). unique_key x \<noteq> unique_key it}"
    unfolding put by (simp add: s)
  then have "snd ` set (unique_subintervals (grp @ [it])) = set (last_snapshots (grp @ [it]))"
    unfolding unique_subintervals_snoc set_last_snapshots_snoc unique_key_inj by simp
  moreover have "\<forall>(k, x) \<in> set (unique_subintervals (grp @ [it])). k = unique_key x"
    unfolding unique_subintervals_snoc put using k by auto
  ultimately show ?case using d by (simp add: unique_subintervals_snoc distinct_update)
qed

lemma unique_values:
  "set (map snd (unique_subintervals grp)) = set (last_snapshots grp)" "distinct (map snd (unique_subintervals grp))"
proof -
  note u = unique_subintervals_spec [of grp]
  show "set (map snd (unique_subintervals grp)) = set (last_snapshots grp)" using u by simp
  have "map fst (unique_subintervals grp) = map unique_key (map snd (unique_subintervals grp))" using u by auto
  then show "distinct (map snd (unique_subintervals grp))" using u by (metis distinct_map)
qed

lemma last_snapshots_Nil: "last_snapshots xs = [] \<longleftrightarrow> xs = []"
  by (induction xs) auto

section \<open>Highs and lows\<close>

lemma raise_high_spec:
  assumes "h \<noteq> NaN" "\<forall>it\<in>set us. k_High it \<noteq> NaN"
  defines "m \<equiv> foldl (\<lambda>h it. raise_high h (k_High it)) h us"
  shows "m \<noteq> NaN \<and> fle h m \<and> (\<forall>it\<in>set us. fle (k_High it) m) \<and> m \<in> insert h (k_High ` set us)"
  using assms(1,2) unfolding m_def
proof (induction us arbitrary: h)
  case Nil
  then show ?case by (simp add: fle_refl_iff)
next
  case (Cons it us)
  let ?h = "raise_high h (k_High it)"
  have h: "?h \<noteq> NaN" "fle h ?h" "fle (k_High it) ?h" "?h = h \<or> ?h = k_High it"
    using Cons.prems not_flt_fle [of h "k_High it"] by (auto simp: raise_high_def flt_imp_fle fle_refl_iff)
  have "foldl (\<lambda>h it. raise_high h (k_High it)) ?h us \<noteq> NaN \<and> fle ?h (foldl (\<lambda>h it. raise_high h (k_High it)) ?h us) \<and>
    (\<forall>it\<in>set us. fle (k_High it) (foldl (\<lambda>h it. raise_high h (k_High it)) ?h us)) \<and>
    foldl (\<lambda>h it. raise_high h (k_High it)) ?h us \<in> insert ?h (k_High ` set us)"
    using Cons.prems h by (intro Cons.IH) auto
  note IH = this
  let ?M = "foldl (\<lambda>h it. raise_high h (k_High it)) ?h us"
  have "fle h ?M" "fle (k_High it) ?M" using IH h fle_trans by blast+
  then show ?case using IH h(4) by auto
qed

lemma lower_low_spec:
  assumes "l \<noteq> NaN" "\<forall>it\<in>set us. k_Low it \<noteq> NaN"
  defines "m \<equiv> foldl (\<lambda>l it. lower_low l (k_Low it)) l us"
  shows "m \<noteq> NaN \<and> fle m l \<and> (\<forall>it\<in>set us. fle m (k_Low it)) \<and> m \<in> insert l (k_Low ` set us)"
  using assms(1,2) unfolding m_def
proof (induction us arbitrary: l)
  case Nil
  then show ?case by (simp add: fle_refl_iff)
next
  case (Cons it us)
  let ?l = "lower_low l (k_Low it)"
  have l: "?l \<noteq> NaN" "fle ?l l" "fle ?l (k_Low it)" "?l = l \<or> ?l = k_Low it"
    using Cons.prems not_flt_fle [of "k_Low it" l] by (auto simp: lower_low_def flt_imp_fle fle_refl_iff)
  have "foldl (\<lambda>l it. lower_low l (k_Low it)) ?l us \<noteq> NaN \<and> fle (foldl (\<lambda>l it. lower_low l (k_Low it)) ?l us) ?l \<and>
    (\<forall>it\<in>set us. fle (foldl (\<lambda>l it. lower_low l (k_Low it)) ?l us) (k_Low it)) \<and>
    foldl (\<lambda>l it. lower_low l (k_Low it)) ?l us \<in> insert ?l (k_Low ` set us)"
    using Cons.prems l by (intro Cons.IH) auto
  note IH = this
  let ?M = "foldl (\<lambda>l it. lower_low l (k_Low it)) ?l us"
  have "fle ?M l" "fle ?M (k_Low it)" using IH l fle_trans by blast+
  then show ?case using IH l(4) by auto
qed

lemma agg_high_low:
  "a_high (foldl (agg_step e t) a us) = foldl (\<lambda>h it. raise_high h (k_High it)) (a_high a) us"
  "a_low (foldl (agg_step e t) a us) = foldl (\<lambda>l it. lower_low l (k_Low it)) (a_low a) us"
  by (induction us arbitrary: a) (simp_all add: agg_step_def)

lemma daily_fold:
  "foldl (\<lambda>(high, low, volume) it. (raise_high high (k_High it), lower_low low (k_Low it), fadd volume (k_Volume it))) (h, l, v) us =
     (foldl (\<lambda>h it. raise_high h (k_High it)) h us, foldl (\<lambda>l it. lower_low l (k_Low it)) l us, foldl (\<lambda>v it. fadd v (k_Volume it)) v us)"
  by (induction us arbitrary: h l v) simp_all

text \<open>The open sum over the samples at the earliest timestamp, when there is one such sample.\<close>

lemma agg_open_single:
  "a_openSum (foldl (agg_step e t) a us) = foldl (\<lambda>s it. fadd s (k_Open it)) (a_openSum a) (filter (\<lambda>it. k_Timestamp it = e) us)"
  "a_openCount (foldl (agg_step e t) a us) = a_openCount a + int (length (filter (\<lambda>it. k_Timestamp it = e) us))"
  "a_closeSum (foldl (agg_step e t) a us) = foldl (\<lambda>s it. fadd s (k_Close it)) (a_closeSum a) (filter (\<lambda>it. k_Timestamp it = t) us)"
  "a_closeCount (foldl (agg_step e t) a us) = a_closeCount a + int (length (filter (\<lambda>it. k_Timestamp it = t) us))"
  by (induction us arbitrary: a) (simp_all add: agg_step_def)

section \<open>Properties\<close>

text \<open>The samples a candle of the result is made of.\<close>

definition samples_of :: "string \<Rightarrow> Candle list \<Rightarrow> int \<Rightarrow> Candle list" where
  "samples_of interval items key = last_snapshots (filter (\<lambda>it. raw_group_key interval it = key) items)"

lemma arrange_samples:
  assumes "slice_sort k_Timestamp arrange" "grp \<noteq> []"
  defines "us \<equiv> arrange (map snd (unique_subintervals grp))"
  shows "set us = set (last_snapshots grp)" "us \<noteq> []" "sorted (map k_Timestamp us)"
proof -
  show s: "set us = set (last_snapshots grp)" unfolding us_def slice_sort_set [OF assms(1)] by (rule unique_values(1))
  then show "us \<noteq> []" using assms(2) last_snapshots_Nil [of grp] by force
  show "sorted (map k_Timestamp us)" using assms(1) by (simp add: us_def slice_sort_def)
qed

lemma aggregate_bounds:
  assumes "us \<noteq> []" "\<forall>it\<in>set us. k_High it \<noteq> NaN \<and> k_Low it \<noteq> NaN"
  shows "(\<forall>it\<in>set us. fle (k_High it) (a_high (aggregate us)) \<and> fle (a_low (aggregate us)) (k_Low it)) \<and>
    a_high (aggregate us) \<in> k_High ` set us \<and> a_low (aggregate us) \<in> k_Low ` set us"
proof -
  have hd: "hd us \<in> set us" using assms(1) by simp
  have "k_High (hd us) \<noteq> NaN" "k_Low (hd us) \<noteq> NaN" using assms(2) hd by auto
  then show ?thesis
    using raise_high_spec [of "k_High (hd us)" us] lower_low_spec [of "k_Low (hd us)" us] assms(2) hd
    unfolding aggregate_def agg_high_low agg_init_def by auto
qed

lemma fadd_zero: "is_f64 x \<Longrightarrow> fadd f0 x = x"
  by (cases x) simp_all

lemma fdiv_one: "is_f64 x \<Longrightarrow> fdiv x (float_of_int 1) = x"
  by (cases x) (simp_all add: float_of_int_def inf_of_sign_def)

lemma filter_distinct_key: "distinct (map f xs) \<Longrightarrow> x \<in> set xs \<Longrightarrow> filter (\<lambda>y. f y = f x) xs = [x]"
  by (induction xs) (auto simp: filter_empty_conv rev_image_eqI)

lemma aggregate_open_close:
  assumes "us \<noteq> []" "distinct (map k_Timestamp us)" "\<forall>it\<in>set us. is_f64 (k_Open it) \<and> is_f64 (k_Close it)"
  shows "fdiv (a_openSum (aggregate us)) (float_of_int (a_openCount (aggregate us))) = k_Open (hd us)"
    and "fdiv (a_closeSum (aggregate us)) (float_of_int (a_closeCount (aggregate us))) = k_Close (last us)"
proof -
  have "hd us \<in> set us" "last us \<in> set us" using assms(1) by simp_all
  then show "fdiv (a_openSum (aggregate us)) (float_of_int (a_openCount (aggregate us))) = k_Open (hd us)"
    "fdiv (a_closeSum (aggregate us)) (float_of_int (a_closeCount (aggregate us))) = k_Close (last us)"
    using filter_distinct_key [OF assms(2)] assms(3)
    unfolding aggregate_def agg_open_single agg_init_def by (simp_all add: fadd_zero fdiv_one)
qed

text \<open>A candle opens with the earliest and closes with the latest of some samples.\<close>

definition opens_closes :: "Candle \<Rightarrow> Candle set \<Rightarrow> bool" where
  "opens_closes c S \<longleftrightarrow> (\<exists>x\<in>S. \<exists>y\<in>S. (\<forall>it\<in>S. k_Timestamp x \<le> k_Timestamp it \<and> k_Timestamp it \<le> k_Timestamp y) \<and>
     k_Open c = k_Open x \<and> k_Close c = k_Close y)"

lemma FromRaw_Inr:
  assumes "FromRaw arrange interval items = Inr out"
  shows "out = map (\<lambda>key. consolidate_group arrange interval key (filter (\<lambda>it. raw_group_key interval it = key) items))
      (sorted_list_of_set (raw_group_key interval ` set items))"
  using assms unfolding FromRaw_def
  by (auto simp: Let_def group_candles_get sort_group_keys split: if_splits)


definition sample_candle :: "int \<Rightarrow> string \<Rightarrow> rat \<Rightarrow> bool \<Rightarrow> Candle" where
  "sample_candle ts src price fin =
     \<lparr>k_Pair = ''BTCEUR'', k_Interval = ''1h'', k_Timestamp = ts, k_Open = Fin price, k_High = Fin price, k_Low = Fin price,
      k_Close = Fin price, k_Volume = Fin 1, k_Volume24H = Fin 0, k_Source = src, k_Finalized = fin\<rparr>"


text \<open>
  The consolidation is not a function of the samples: when two sources report the same latest timestamp,
  whether the candle counts as finalized depends on the order in which Go happens to visit its map. Two
  orders that both respect the timestamps give different candles.
\<close>

lemma finalized_depends_on_map_order:
  "\<exists>arrange arrange'. slice_sort k_Timestamp arrange \<and> slice_sort k_Timestamp arrange' \<and>
     FromRaw arrange ''1h'' [sample_candle 3600 ''kraken'' 5 True, sample_candle 3600 ''binance'' 5 False] \<noteq>
     FromRaw arrange' ''1h'' [sample_candle 3600 ''kraken'' 5 True, sample_candle 3600 ''binance'' 5 False]"
proof -
  let ?items = "[sample_candle 3600 ''kraken'' 5 True, sample_candle 3600 ''binance'' 5 False]"
  let ?arr = "\<lambda>xs. sort_key k_Timestamp (rev xs)"
  have u: "map snd (unique_subintervals ?items) = ?items"
    by (simp add: unique_subintervals_def unique_key_inj sample_candle_def)
  have keys: "sorted_list_of_set (raw_group_key ''1h'' ` set ?items) = [3600]"
    by (simp add: raw_group_key_def sample_candle_def hour_of_unix_eq)
  have fin: "map k_Finalized (map (\<lambda>key. consolidate_group arr ''1h'' key (filter (\<lambda>it. raw_group_key ''1h'' it = key) ?items)) [3600]) =
      [k_Finalized (last (arr ?items))]" for arr
    using u by (simp add: consolidate_group_def Let_def raw_group_key_def sample_candle_def hour_of_unix_eq)
  have "slice_sort k_Timestamp ?arr" by (simp add: slice_sort_def)
  moreover have "FromRaw (sort_key k_Timestamp) ''1h'' ?items \<noteq> FromRaw ?arr ''1h'' ?items"
  proof
    assume eq: "FromRaw (sort_key k_Timestamp) ''1h'' ?items = FromRaw ?arr ''1h'' ?items"
    obtain out where out: "FromRaw (sort_key k_Timestamp) ''1h'' ?items = Inr out" by (simp add: FromRaw_def Let_def)
    have "map k_Finalized out = [False]" "map k_Finalized out = [True]"
      using FromRaw_Inr [OF out] FromRaw_Inr [of ?arr, OF eq [symmetric, unfolded out]] fin [of "sort_key k_Timestamp"] fin [of ?arr]
      unfolding keys by (simp_all add: sample_candle_def)
    then show False by simp
  qed
  ultimately show ?thesis using slice_sort_sort_key by blast
qed

section \<open>Daily candles\<close>

lemma DailyFromHourly_Inr:
  assumes "DailyFromHourly arrange items = Inr out" "slice_sort k_Timestamp arrange"
  shows "out = map (\<lambda>key. daily_group key (filter (\<lambda>it. day_of_unix (k_Timestamp it) = key) (arrange items)))
      (sorted_list_of_set ((\<lambda>it. day_of_unix (k_Timestamp it)) ` set items))"
  using assms unfolding DailyFromHourly_def
  by (auto simp: Let_def group_candles_get sort_group_keys slice_sort_set [OF assms(2)] split: if_splits)

lemma slice_sort_unique:
  assumes "slice_sort key arrange" "distinct (map key xs)"
  shows "arrange xs = sort_key key xs"
proof (rule map_sorted_distinct_set_unique)
  have m: "mset (arrange xs) = mset xs" "sorted (map key (arrange xs))" using assms(1) by (simp_all add: slice_sort_def)
  then have set: "set (arrange xs) = set xs" by (metis set_mset_mset)
  show "distinct (map key (arrange xs))" using assms(2) m(1) by (metis mset_eq_imp_distinct_iff mset_map)
  show "distinct (map key (sort_key key xs))" using assms(2) by (simp add: distinct_map)
  show "inj_on key (set (arrange xs) \<union> set (sort_key key xs))" using assms(2) set by (simp add: distinct_map)
qed (use assms in \<open>auto simp: slice_sort_def slice_sort_set [OF assms(1)]\<close>)

text \<open>
  Rolling hourly candles with distinct timestamps up into days is deterministic, whatever the unstable
  sort does, and yields one finalized candle per day with data, in order: it opens with the day's earliest
  hour, closes with its latest, and its high and low are the extremes of the day's hours.
\<close>

lemma daily_rollup:
  assumes "slice_sort k_Timestamp arrange" "distinct (map k_Timestamp items)" "DailyFromHourly arrange items = Inr out"
    and "\<forall>it\<in>set items. k_High it \<noteq> NaN \<and> k_Low it \<noteq> NaN"
  shows "DailyFromHourly (sort_key k_Timestamp) items = Inr out \<and>
    map k_Timestamp out = sorted_list_of_set ((\<lambda>it. day_of_unix (k_Timestamp it)) ` set items) \<and>
    (\<forall>c\<in>set out. k_Finalized c \<and> opens_closes c {it \<in> set items. day_of_unix (k_Timestamp it) = k_Timestamp c} \<and>
      (\<forall>it\<in>set items. day_of_unix (k_Timestamp it) = k_Timestamp c \<longrightarrow> fle (k_High it) (k_High c) \<and> fle (k_Low c) (k_Low it)) \<and>
      k_High c \<in> k_High ` {it \<in> set items. day_of_unix (k_Timestamp it) = k_Timestamp c} \<and>
      k_Low c \<in> k_Low ` {it \<in> set items. day_of_unix (k_Timestamp it) = k_Timestamp c})"
proof -
  note out = DailyFromHourly_Inr [OF assms(3,1)]
  have det: "DailyFromHourly (sort_key k_Timestamp) items = Inr out"
    using assms(3) unfolding DailyFromHourly_def slice_sort_unique [OF assms(1,2)] .
  have ts: "k_Timestamp (daily_group key g) = key" for key g by (simp add: daily_group_def Let_def)
  have day: "k_Finalized c \<and> opens_closes c {it \<in> set items. day_of_unix (k_Timestamp it) = k_Timestamp c} \<and>
      (\<forall>it\<in>set items. day_of_unix (k_Timestamp it) = k_Timestamp c \<longrightarrow> fle (k_High it) (k_High c) \<and> fle (k_Low c) (k_Low it)) \<and>
      k_High c \<in> k_High ` {it \<in> set items. day_of_unix (k_Timestamp it) = k_Timestamp c} \<and>
      k_Low c \<in> k_Low ` {it \<in> set items. day_of_unix (k_Timestamp it) = k_Timestamp c}" if c: "c \<in> set out" for c
  proof -
    obtain key where key: "key \<in> (\<lambda>it. day_of_unix (k_Timestamp it)) ` set items"
      "c = daily_group key (filter (\<lambda>it. day_of_unix (k_Timestamp it) = key) (arrange items))"
      using c unfolding out by auto
    let ?g = "filter (\<lambda>it. day_of_unix (k_Timestamp it) = key) (arrange items)"
    have sg: "set ?g = {it \<in> set items. day_of_unix (k_Timestamp it) = key}" using slice_sort_set [OF assms(1), of items] by auto
    then have ne: "?g \<noteq> []" using key(1) by force
    have hd: "hd ?g \<in> set ?g" "last ?g \<in> set ?g" using ne by (rule hd_in_set, rule last_in_set)
    have srt: "sorted (map k_Timestamp ?g)" using assms(1) by (intro sorted_map_filter) (simp add: slice_sort_def)
    have oc: "opens_closes c (set ?g)" unfolding opens_closes_def
    proof (rule bexI [OF _ hd(1)], rule bexI [OF _ hd(2)], intro conjI ballI)
      show "k_Open c = k_Open (hd ?g)" "k_Close c = k_Close (last ?g)" by (simp_all add: key(2) daily_group_def Let_def)
    qed (use srt in \<open>auto intro: sorted_map_hd sorted_map_last simp del: set_filter\<close>)
    have "k_High (hd ?g) \<noteq> NaN" "k_Low (hd ?g) \<noteq> NaN" "\<forall>it\<in>set ?g. k_High it \<noteq> NaN" "\<forall>it\<in>set ?g. k_Low it \<noteq> NaN"
      using assms(4) hd(1) sg by auto
    then have hl: "(\<forall>it\<in>set ?g. fle (k_High it) (k_High c) \<and> fle (k_Low c) (k_Low it)) \<and> k_High c \<in> k_High ` set ?g \<and> k_Low c \<in> k_Low ` set ?g"
      using raise_high_spec [of "k_High (hd ?g)" ?g] lower_low_spec [of "k_Low (hd ?g)" ?g] imageI [OF hd(1), of k_High] imageI [OF hd(1), of k_Low]
      unfolding key(2) daily_group_def daily_fold Let_def by (auto simp del: set_filter)
    show ?thesis using oc hl unfolding sg key(2) ts by (auto simp: daily_group_def Let_def)
  qed
  moreover have "map k_Timestamp out = sorted_list_of_set ((\<lambda>it. day_of_unix (k_Timestamp it)) ` set items)"
    unfolding out by (simp add: ts comp_def)
  ultimately show ?thesis using det by blast
qed

end
