(* ===== verification/Market_Repo.thy ===== *)
theory Market_Repo
  imports Consolidate Sql Go_Strings
begin

text \<open>
  The candle tables and the statements of \<^verbatim>\<open>storage/postgres/market_repository.go\<close> that the workers and the portfolio use. Prices are
  stored in unbounded \<^verbatim>\<open>NUMERIC\<close> columns and read back as doubles, which returns the stored double.
  Every method is one transaction or one query: with an error it leaves the tables as they were.
\<close>

record market_db =
  candles_1h :: "Candle list"
  candles_1d :: "Candle list"
  raw_candles :: "Candle list"

definition candle_key :: "Candle \<Rightarrow> string \<times> int" where
  "candle_key c = (k_Pair c, k_Timestamp c)"

definition raw_key :: "Candle \<Rightarrow> string \<times> string \<times> int \<times> string" where
  "raw_key c = (k_Pair c, k_Interval c, k_Timestamp c, k_Source c)"

datatype candle_table = Candles1h | Candles1d

definition candleTable :: "string \<Rightarrow> (string, candle_table) result" where
  "candleTable interval =
     (if interval = ''1h'' then Inr Candles1h
      else if interval = ''1d'' then Inr Candles1d
      else Inl (''unsupported interval '' @ go_quote interval))"

text \<open>The consolidated tables have no column for the interval or the 24-hour volume.\<close>

definition stored_candle :: "string \<Rightarrow> Candle \<Rightarrow> Candle" where
  "stored_candle interval c = c\<lparr>k_Interval := interval, k_Volume24H := f0\<rparr>"

definition put_candles :: "string \<Rightarrow> Candle list \<Rightarrow> Candle list \<Rightarrow> Candle list" where
  "put_candles interval cs rs =
     fold (\<lambda>c. sql_upsert candle_key (stored_candle interval c) (\<lambda>_. stored_candle interval c)) cs rs"

definition UpsertCandles :: "string option \<Rightarrow> string \<Rightarrow> Candle list \<Rightarrow> market_db \<Rightarrow> (string, unit) result \<times> market_db" where
  "UpsertCandles err interval cs db =
     (case candleTable interval of
        Inl e \<Rightarrow> (Inl e, db)
      | Inr tbl \<Rightarrow>
          (case err of
             Some e \<Rightarrow> (Inl e, db)
           | None \<Rightarrow>
               (Inr (), case tbl of
                  Candles1h \<Rightarrow> db\<lparr>candles_1h := put_candles interval cs (candles_1h db)\<rparr>
                | Candles1d \<Rightarrow> db\<lparr>candles_1d := put_candles interval cs (candles_1d db)\<rparr>)))"

definition UpsertRawCandles :: "string option \<Rightarrow> string \<Rightarrow> Candle list \<Rightarrow> market_db \<Rightarrow> (string, unit) result \<times> market_db" where
  "UpsertRawCandles err interval cs db =
     (case err of
        Some e \<Rightarrow> (Inl e, db)
      | None \<Rightarrow>
          (Inr (), db\<lparr>raw_candles :=
             fold (\<lambda>c. sql_upsert raw_key (c\<lparr>k_Interval := interval\<rparr>) (\<lambda>_. c\<lparr>k_Interval := interval\<rparr>)) cs (raw_candles db)\<rparr>))"

definition in_window :: "gotime \<Rightarrow> gotime \<Rightarrow> Candle \<Rightarrow> bool" where
  "in_window start stop c \<longleftrightarrow> start \<le> from_unix (k_Timestamp c) \<and> from_unix (k_Timestamp c) < stop"

text \<open>\<open>by_source\<close> is the ordering by time and then by source, in the collation of the database.\<close>

definition RawCandles ::
    "(Candle list \<Rightarrow> Candle list) \<Rightarrow> string option \<Rightarrow> string \<Rightarrow> string \<Rightarrow> gotime \<Rightarrow> gotime \<Rightarrow> market_db \<Rightarrow> (string, Candle list) result" where
  "RawCandles by_source err pairSymbol interval start stop db =
     (case err of
        Some e \<Rightarrow> Inl e
      | None \<Rightarrow> Inr (by_source (filter (\<lambda>c. k_Pair c = pairSymbol \<and> k_Interval c = interval \<and> in_window start stop c) (raw_candles db))))"

definition HourlyCandles :: "string option \<Rightarrow> string \<Rightarrow> gotime \<Rightarrow> gotime \<Rightarrow> market_db \<Rightarrow> (string, Candle list) result" where
  "HourlyCandles err pairSymbol start stop db =
     (case err of
        Some e \<Rightarrow> Inl e
      | None \<Rightarrow> Inr (sort_key k_Timestamp (filter (\<lambda>c. k_Pair c = pairSymbol \<and> in_window start stop c) (candles_1h db))))"

text \<open>
  Reading candles for charts and prices: both bounds of the window are inclusive, and a zero start is none. For hours without a
  consolidated candle the raw sample written last stands in; \<open>latest\<close> orders raw rows by the time of their last write, newest first.
\<close>

definition in_range :: "gotime \<Rightarrow> gotime \<Rightarrow> Candle \<Rightarrow> bool" where
  "in_range start stop c \<longleftrightarrow> (start = 0 \<or> start \<le> from_unix (k_Timestamp c)) \<and> from_unix (k_Timestamp c) \<le> stop"

fun first_per_hour :: "Candle list \<Rightarrow> Candle list" where
  "first_per_hour [] = []"
| "first_per_hour (c # cs) =
     c\<lparr>k_Timestamp := hour_of_unix (k_Timestamp c), k_Volume24H := f0\<rparr> #
     first_per_hour (filter (\<lambda>d. hour_of_unix (k_Timestamp d) \<noteq> hour_of_unix (k_Timestamp c)) cs)"

definition historicalHourlyMerged ::
    "(Candle list \<Rightarrow> Candle list) \<Rightarrow> string option \<Rightarrow> string \<Rightarrow> gotime \<Rightarrow> gotime \<Rightarrow> market_db \<Rightarrow> (string, Candle list) result" where
  "historicalHourlyMerged latest err pairSymbol start stop db =
     (case err of
        Some e \<Rightarrow> Inl e
      | None \<Rightarrow>
          let consolidated = filter (\<lambda>c. k_Pair c = pairSymbol \<and> in_range start stop c) (candles_1h db);
              raw_hourly = first_per_hour (latest
                (filter (\<lambda>c. k_Pair c = pairSymbol \<and> k_Interval c = ''1h'' \<and> in_range start stop c) (raw_candles db)))
          in Inr (sort_key k_Timestamp
               (consolidated @ filter (\<lambda>r. k_Timestamp r \<notin> k_Timestamp ` set consolidated) raw_hourly)))"

definition Historical ::
    "(Candle list \<Rightarrow> Candle list) \<Rightarrow> string option \<Rightarrow> gotime \<Rightarrow> string \<Rightarrow> string \<Rightarrow> gotime \<Rightarrow> gotime \<Rightarrow> market_db \<Rightarrow> (string, Candle list) result" where
  "Historical latest err now pairSymbol interval start stop db =
     (case candleTable interval of
        Inl e \<Rightarrow> Inl e
      | Inr tbl \<Rightarrow>
          let stop' = (if stop = 0 then now else stop)
          in if interval = ''1h'' then historicalHourlyMerged latest err pairSymbol start stop' db
             else case err of
               Some e \<Rightarrow> Inl e
             | None \<Rightarrow>
                 Inr (sort_key k_Timestamp (filter (\<lambda>c. k_Pair c = pairSymbol \<and> in_range start stop' c)
                   (case tbl of Candles1h \<Rightarrow> candles_1h db | Candles1d \<Rightarrow> candles_1d db))))"

definition market_ok :: "market_db \<Rightarrow> bool" where
  "market_ok db \<longleftrightarrow> distinct (map candle_key (candles_1h db)) \<and> distinct (map candle_key (candles_1d db)) \<and> distinct (map raw_key (raw_candles db))"

text \<open>An upsert replaces a row by one with the same key.\<close>

lemma distinct_replace:
  assumes "distinct (map key rs)"
  shows "distinct (map key (sql_upsert key new (\<lambda>_. new) rs))"
  using assms map_sql_update [of "\<lambda>r. key r = key new" key "\<lambda>_. new" rs] by (auto simp: sql_upsert_def)

lemma set_replace: "set (sql_upsert key new (\<lambda>_. new) rs) = insert new {r \<in> set rs. key r \<noteq> key new}"
  unfolding sql_upsert_def sql_update_def by (auto simp: image_iff)

lemma distinct_fold_replace:
  "distinct (map key rs) \<Longrightarrow> distinct (map key (fold (\<lambda>c. sql_upsert key (g c) (\<lambda>_. g c)) cs rs))"
  by (induction cs arbitrary: rs) (simp_all add: distinct_replace)

lemma set_fold_replace:
  "r \<in> set (fold (\<lambda>c. sql_upsert key (g c) (\<lambda>_. g c)) cs rs) \<Longrightarrow> r \<in> set rs \<or> r \<in> g ` set cs"
proof (induction cs arbitrary: rs)
  case (Cons a cs)
  from Cons.IH [of "sql_upsert key (g a) (\<lambda>_. g a) rs"] Cons.prems show ?case by (auto simp: set_replace)
qed simp

lemma market_ok_upserts [go_inv]:
  "market_ok db \<Longrightarrow> market_ok (snd (UpsertCandles err interval cs db))"
  "market_ok db \<Longrightarrow> market_ok (snd (UpsertRawCandles err interval cs db))"
  by (auto simp: market_ok_def UpsertCandles_def UpsertRawCandles_def put_candles_def distinct_fold_replace
      split: sum.split option.split candle_table.split)

text \<open>The last candle written for a bucket is the one read back.\<close>

lemma hourly_roundtrip:
  assumes "market_ok db" "distinct (map candle_key cs)" "c \<in> set cs" "k_Pair c = p" "in_window start stop c"
  shows "\<exists>items. HourlyCandles None p start stop (snd (UpsertCandles None ''1h'' cs db)) = Inr items \<and> stored_candle ''1h'' c \<in> set items"
proof -
  have key: "candle_key (stored_candle i c) = candle_key c" for i c by (simp add: candle_key_def stored_candle_def)
  have "stored_candle ''1h'' c \<in> set (put_candles ''1h'' cs rs)" for rs
    unfolding put_candles_def using assms(2,3)
  proof (induction cs arbitrary: rs rule: rev_induct)
    case (snoc x xs)
    then show ?case by (auto simp: set_replace key image_iff)
  qed simp
  then show ?thesis using assms(4,5)
    by (auto simp: HourlyCandles_def UpsertCandles_def candleTable_def in_window_def stored_candle_def)
qed

end
