(* ===== verification/Executors.thy ===== *)
theory Executors
  imports Market_Repo Sync_Repo Go_Strings "HOL-Library.Word"
begin

text \<open>
  The executors of the worker that move market data: \<^verbatim>\<open>worker/backfill_executor.go\<close>,
  \<^verbatim>\<open>worker/realtime_executor.go\<close>, \<^verbatim>\<open>worker/gap_validator_executor.go\<close>,
  \<^verbatim>\<open>worker/validator_executor.go\<close> and \<^verbatim>\<open>ingest/realtime/service.go\<close>, with the registry of
  sources in \<^verbatim>\<open>ingest/provider/provider.go\<close>. The exchange clients behind a source are arguments. An
  error is the text that \<^verbatim>\<open>err.Error()\<close> returns, which is what the task table records.
\<close>

unbundle bit_operations_syntax

section \<open>Sources\<close>

record Request =
  q_TaskID :: string
  q_Pair :: string
  q_Base :: string
  q_Quote :: string
  q_Interval :: string
  q_StartTime :: gotime
  q_EndTime :: gotime

type_synonym Capability = "64 word"

definition CapHistorical :: Capability where "CapHistorical = 1"
definition CapRealtime :: Capability where "CapRealtime = 2"

record Source =
  src_Name :: string
  src_Capabilities :: Capability
  src_Supports :: "Request \<Rightarrow> bool"
  src_FetchCandles :: "Request \<Rightarrow> (string, Candle list) result"

record Registry =
  reg_sources :: "Source list"
  requireCap :: Capability

text \<open>A nil adapter is \<open>None\<close>.\<close>

definition NewRegistry :: "Source option list \<Rightarrow> Registry" where
  "NewRegistry sources = \<lparr>reg_sources = List.map_filter (\<lambda>s. s) sources, requireCap = 0\<rparr>"

definition WithCapability :: "Registry \<Rightarrow> Capability \<Rightarrow> Registry" where
  "WithCapability r cap = r\<lparr>requireCap := cap\<rparr>"

definition ErrNoSource :: string where "ErrNoSource = ''no supported market source''"
definition ErrNoData :: string where "ErrNoData = ''market source returned no candles''"

definition compatible :: "Registry \<Rightarrow> Request \<Rightarrow> Source \<Rightarrow> bool" where
  "compatible r req s \<longleftrightarrow>
     \<not> (requireCap r \<noteq> 0 \<and> (src_Capabilities s AND requireCap r) \<noteq> requireCap r) \<and> src_Supports s req"

text \<open>The loop over the sources: the errors so far, whether a source was tried, whether one returned nothing.\<close>

fun fetch_loop :: "Registry \<Rightarrow> Request \<Rightarrow> Source list \<Rightarrow> string list \<Rightarrow> bool \<Rightarrow> bool \<Rightarrow> (string list \<times> bool \<times> bool) + Candle list" where
  "fetch_loop r req [] errs attempted nodata = Inl (errs, attempted, nodata)"
| "fetch_loop r req (s # ss) errs attempted nodata =
     (if \<not> compatible r req s then fetch_loop r req ss errs attempted nodata
      else case src_FetchCandles s req of
        Inr items \<Rightarrow> if items \<noteq> [] then Inr items else fetch_loop r req ss errs True True
      | Inl e \<Rightarrow> fetch_loop r req ss (errs @ [src_Name s @ '': '' @ e]) True nodata)"

fun join_lines :: "string list \<Rightarrow> string" where
  "join_lines [] = []"
| "join_lines [x] = x"
| "join_lines (x # xs) = x @ [CHR 0x0A] @ join_lines xs"

definition FetchCandles :: "Registry \<Rightarrow> Request \<Rightarrow> (string, Candle list) result" where
  "FetchCandles r req =
     (case fetch_loop r req (reg_sources r) [] False False of
        Inr items \<Rightarrow> Inr items
      | Inl (errs, attempted, nodata) \<Rightarrow>
          if \<not> attempted then Inl ErrNoSource
          else Inl (join_lines (errs @ (if nodata then [ErrNoData] else []))))"

definition trim_suffix :: "string \<Rightarrow> string \<Rightarrow> string" where
  "trim_suffix s suf = (if suffix suf s then take (length s - length suf) s else s)"

fun pair_quotes :: "string \<Rightarrow> string list \<Rightarrow> (string, string \<times> string) result" where
  "pair_quotes symbol [] = Inl (''unsupported pair symbol '' @ go_quote symbol)"
| "pair_quotes symbol (candidate # rest) =
     (if suffix candidate symbol then
        (let base = trim_suffix symbol candidate
         in if base = [] then Inl (''unsupported pair symbol '' @ go_quote symbol) else Inr (base, candidate))
      else pair_quotes symbol rest)"

definition ParsePairSymbol :: "string \<Rightarrow> (string, string \<times> string) result" where
  "ParsePairSymbol s = pair_quotes (map ascii_upper (TrimSpace s)) [''USDT'', ''USD'', ''EUR'']"

section \<open>State and environment\<close>

record exec_world =
  market :: market_db
  sync :: "sync_row list"
  coverage :: "coverage_row list"
  integrity :: "integrity_row list"
  notified_pairs :: "string list"
  published :: "Candle list"

text \<open>
  \<open>x_db\<close> numbers the database calls of a method, \<open>x_loop day\<close> those of the loop body for one day;
  \<open>x_publish\<close> is the outcome of publishing to Kafka.
\<close>

record exec_env =
  x_now :: gotime
  x_db :: db_outcome
  x_loop :: "gotime \<Rightarrow> db_outcome"
  x_by_source :: "Candle list \<Rightarrow> Candle list"
  x_arrange :: "Candle list \<Rightarrow> Candle list"
  x_publish :: "string option"

text \<open>The result of an executor and the world it leaves behind.\<close>

type_synonym exec_outcome = "(string, unit) result \<times> exec_world"

definition ErrHourlyDataUnavailable :: string where
  "ErrHourlyDataUnavailable = ''hourly data unavailable for daily consolidation''"

definition ErrMarketSourceUnavailable :: string where
  "ErrMarketSourceUnavailable = ''market source unavailable''"

text \<open>The two executors fetch in the same way, one with the task's interval, the other with \<^verbatim>\<open>ticker\<close>.\<close>

definition fetchSourceCandles :: "Registry option \<Rightarrow> string \<Rightarrow> Task \<Rightarrow> (string, Candle list) result" where
  "fetchSourceCandles sources interval item =
     (case ParsePairSymbol (t_Pair item) of
        Inl e \<Rightarrow> Inl (ErrMarketSourceUnavailable @ '': '' @ e)
      | Inr (base, quote) \<Rightarrow>
          (case sources of
             None \<Rightarrow> Inl (ErrMarketSourceUnavailable @ '': no source registry configured'')
           | Some r \<Rightarrow>
               (case FetchCandles r \<lparr>q_TaskID = t_ID item, q_Pair = t_Pair item, q_Base = base, q_Quote = quote, q_Interval = interval,
                       q_StartTime = t_WindowStart item, q_EndTime = t_WindowEnd item\<rparr> of
                  Inr items \<Rightarrow> Inr items
                | Inl e \<Rightarrow> Inl (ErrMarketSourceUnavailable @ '': '' @ e))))"

section \<open>Backfill and daily consolidation\<close>

record BackfillExecutor =
  be_sources :: "Registry option"
  be_notifier :: bool

definition backfillComplete :: "Task \<Rightarrow> bool" where
  "backfillComplete item = False"

definition updateSyncProgress :: "exec_env \<Rightarrow> Task \<Rightarrow> exec_world \<Rightarrow> exec_outcome" where
  "updateSyncProgress env item w =
     (case UpsertProgress (x_db env 3) (x_now env) (t_Pair item) (t_Interval item) (t_WindowEnd item) (backfillComplete item) (sync w) of
        (r, rs) \<Rightarrow> (r, w\<lparr>sync := rs\<rparr>))"

definition materializeHourly :: "exec_env \<Rightarrow> BackfillExecutor \<Rightarrow> Task \<Rightarrow> exec_world \<Rightarrow> (string, Candle list) result \<times> exec_world" where
  "materializeHourly env e item w =
     (case fetchSourceCandles (be_sources e) (t_Interval item) item of
        Inl err \<Rightarrow> (Inl err, w)
      | Inr sourceCandles \<Rightarrow>
          if sourceCandles = [] then (Inr [], w)
          else case UpsertRawCandles (x_db env 0) (t_Interval item) sourceCandles (market w) of
            (Inl err, db) \<Rightarrow> (Inl err, w\<lparr>market := db\<rparr>)
          | (Inr _, db) \<Rightarrow>
              (case RawCandles (x_by_source env) (x_db env 1) (t_Pair item) (t_Interval item) (t_WindowStart item) (t_WindowEnd item) db of
                 Inl err \<Rightarrow> (Inl err, w\<lparr>market := db\<rparr>)
               | Inr rawCandles \<Rightarrow> (FromRaw (x_arrange env) (t_Interval item) rawCandles, w\<lparr>market := db\<rparr>)))"

definition materializeDaily :: "exec_env \<Rightarrow> Task \<Rightarrow> exec_world \<Rightarrow> (string, Candle list) result \<times> exec_world" where
  "materializeDaily env item w =
     (case HourlyCandles (x_db env 0) (t_Pair item) (t_WindowStart item) (t_WindowEnd item) (market w) of
        Inl err \<Rightarrow> (Inl err, w)
      | Inr hourlyCandles \<Rightarrow>
          if hourlyCandles = [] then (Inl ErrHourlyDataUnavailable, w)
          else (DailyFromHourly (x_arrange env) hourlyCandles, w))"

definition materializeCandles :: "exec_env \<Rightarrow> BackfillExecutor \<Rightarrow> Task \<Rightarrow> exec_world \<Rightarrow> (string, Candle list) result \<times> exec_world" where
  "materializeCandles env e item w =
     (if t_Interval item = ''1d'' then materializeDaily env item w else materializeHourly env e item w)"

definition backfill_Execute :: "exec_env \<Rightarrow> BackfillExecutor \<Rightarrow> Task \<Rightarrow> exec_world \<Rightarrow> exec_outcome" where
  "backfill_Execute env e item w =
     (if t_Type item \<noteq> TypeBackfill \<and> t_Type item \<noteq> TypeConsolidate then (Inl (''unsupported task type '' @ go_quote (t_Type item)), w)
      else case materializeCandles env e item w of
        (Inl err, w1) \<Rightarrow> (Inl err, w1)
      | (Inr candles, w1) \<Rightarrow>
          if candles = [] then updateSyncProgress env item w1
          else case UpsertCandles (x_db env 2) (t_Interval item) candles (market w1) of
            (Inl err, db) \<Rightarrow> (Inl err, w1\<lparr>market := db\<rparr>)
          | (Inr _, db) \<Rightarrow>
              (case updateSyncProgress env item (w1\<lparr>market := db\<rparr>) of
                 (Inl err, w2) \<Rightarrow> (Inl err, w2)
               | (Inr _, w2) \<Rightarrow>
                   (Inr (), if be_notifier e then w2\<lparr>notified_pairs := notified_pairs w2 @ [t_Pair item]\<rparr> else w2)))"

section \<open>Live tickers\<close>

record RealtimeExecutor =
  re_sources :: "Registry option"
  re_events :: bool
  re_notifier :: bool

definition publishRealtime :: "exec_env \<Rightarrow> RealtimeExecutor \<Rightarrow> Task \<Rightarrow> exec_world \<Rightarrow> (string, Candle list) result \<times> exec_world" where
  "publishRealtime env e item w =
     (case fetchSourceCandles (re_sources e) ''ticker'' item of
        Inl err \<Rightarrow> (Inl err, w)
      | Inr sourceCandles \<Rightarrow>
          if re_events e then
            (case x_publish env of
               Some err \<Rightarrow> (Inl err, w)
             | None \<Rightarrow> (Inr [], w\<lparr>published := published w @ sourceCandles\<rparr>))
          else case UpsertRawCandles (x_db env 0) ''1h'' sourceCandles (market w) of
            (Inl err, db) \<Rightarrow> (Inl err, w\<lparr>market := db\<rparr>)
          | (Inr _, db) \<Rightarrow>
              (case RawCandles (x_by_source env) (x_db env 1) (t_Pair item) ''1h'' (t_WindowStart item) (t_WindowEnd item) db of
                 Inl err \<Rightarrow> (Inl err, w\<lparr>market := db\<rparr>)
               | Inr rawCandles \<Rightarrow> (FromRaw (x_arrange env) ''1h'' rawCandles, w\<lparr>market := db\<rparr>)))"

definition mark_realtime :: "exec_env \<Rightarrow> Task \<Rightarrow> exec_world \<Rightarrow> exec_outcome" where
  "mark_realtime env item w =
     (case MarkRealtimeStarted (x_db env 3) (x_now env) (t_Pair item) (t_WindowStart item) (sync w) of (r, rs) \<Rightarrow> (r, w\<lparr>sync := rs\<rparr>))"

definition realtime_Execute :: "exec_env \<Rightarrow> RealtimeExecutor \<Rightarrow> Task \<Rightarrow> exec_world \<Rightarrow> exec_outcome" where
  "realtime_Execute env e item w =
     (if t_Type item \<noteq> TypeRealtime then (Inl (''realtime executor received non-realtime task '' @ go_quote (t_Type item)), w)
      else case publishRealtime env e item w of
        (Inl err, w1) \<Rightarrow> (Inl err, w1)
      | (Inr candles, w1) \<Rightarrow>
          if candles = [] then mark_realtime env item w1
          else case UpsertCandles (x_db env 2) ''1h'' candles (market w1) of
            (Inl err, db) \<Rightarrow> (Inl err, w1\<lparr>market := db\<rparr>)
          | (Inr _, db) \<Rightarrow>
              mark_realtime env item
                (w1\<lparr>market := db, notified_pairs := (if re_notifier e then notified_pairs w1 @ [t_Pair item] else notified_pairs w1)\<rparr>))"

text \<open>\<^verbatim>\<open>IngestRealtimeCandles\<close>: the consumer of the published events.\<close>

definition IngestRealtimeCandles :: "exec_env \<Rightarrow> bool \<Rightarrow> Candle list \<Rightarrow> exec_world \<Rightarrow> exec_outcome" where
  "IngestRealtimeCandles env has_notifier candles w =
     (case candles of
        [] \<Rightarrow> (Inr (), w)
      | first # _ \<Rightarrow>
          (case UpsertRawCandles (x_db env 0) ''1h'' candles (market w) of
             (Inl err, db) \<Rightarrow> (Inl err, w\<lparr>market := db\<rparr>)
           | (Inr _, db) \<Rightarrow>
               let windowStart = trunc_time (from_unix (k_Timestamp first)) Hour; windowEnd = windowStart + Hour
               in case RawCandles (x_by_source env) (x_db env 1) (k_Pair first) ''1h'' windowStart windowEnd db of
                    Inl err \<Rightarrow> (Inl err, w\<lparr>market := db\<rparr>)
                  | Inr rawCandles \<Rightarrow>
                      (case FromRaw (x_arrange env) ''1h'' rawCandles of
                         Inl err \<Rightarrow> (Inl err, w\<lparr>market := db\<rparr>)
                       | Inr consolidated \<Rightarrow>
                           if consolidated = [] then (Inr (), w\<lparr>market := db\<rparr>)
                           else case UpsertCandles (x_db env 2) ''1h'' consolidated db of
                             (Inl err, db') \<Rightarrow> (Inl err, w\<lparr>market := db'\<rparr>)
                           | (Inr _, db') \<Rightarrow>
                               (Inr (), w\<lparr>market := db',
                                  notified_pairs := (if has_notifier then notified_pairs w @ [k_Pair first] else notified_pairs w)\<rparr>))))"

section \<open>Gap validation\<close>

text \<open>The days a sweep visits: from the start of the window, one day apart, before its end.\<close>

definition sweep_days :: "Task \<Rightarrow> gotime list" where
  "sweep_days item =
     (let start = trunc_time (t_WindowStart item) (24 * Hour); stop = trunc_time (t_WindowEnd item) (24 * Hour)
      in map (\<lambda>i. start + int i * (24 * Hour)) [0 ..< nat ((stop - start) div (24 * Hour))])"

definition validateDay :: "exec_env \<Rightarrow> string \<Rightarrow> gotime \<Rightarrow> exec_world \<Rightarrow> (string, unit) result" where
  "validateDay env pairSymbol day w =
     (let nextDay = day + 24 * Hour
      in case RawCandles (x_by_source env) (x_loop env day 0) pairSymbol ''1d'' day nextDay (market w) of
           Inl e \<Rightarrow> Inl (''check daily candle: '' @ e)
         | Inr daily \<Rightarrow>
             if daily = [] then Inl (''daily candle missing for '' @ fmt_day day)
             else case HourlyCandles (x_loop env day 1) pairSymbol day nextDay (market w) of
               Inl e \<Rightarrow> Inl (''check hourly candles: '' @ e)
             | Inr hourly \<Rightarrow>
                 let hours = remdups (map (\<lambda>c. hour_of_unix (k_Timestamp c)) hourly)
                 in if length hours < 24
                    then Inl (''incomplete hourly coverage: '' @ show_nat (length hours) @ ''/24 for '' @ fmt_day day)
                    else Inr ())"

definition gap_maxDaysPerRun :: nat where "gap_maxDaysPerRun = 30"

fun gap_loop ::
    "exec_env \<Rightarrow> string \<Rightarrow> string list \<Rightarrow> gotime list \<Rightarrow> nat \<Rightarrow> nat \<Rightarrow> string option \<Rightarrow> exec_world \<Rightarrow>
       (string, nat \<times> string option) result \<times> exec_world" where
  "gap_loop env p covered [] checked verified lastErr w = (Inr (verified, lastErr), w)"
| "gap_loop env p covered (day # days) checked verified lastErr w =
     (if \<not> checked < gap_maxDaysPerRun then (Inr (verified, lastErr), w)
      else if fmt_day day \<in> set covered then gap_loop env p covered days checked verified lastErr w
      else case validateDay env p day w of
        Inl e \<Rightarrow> gap_loop env p covered days (checked + 1) verified (Some e) w
      | Inr _ \<Rightarrow>
          (case MarkDayComplete (x_loop env day 2) (x_now env) p day (coverage w) of
             (Inl e, cs) \<Rightarrow> (Inl (''mark day complete: '' @ e), w\<lparr>coverage := cs\<rparr>)
           | (Inr _, cs) \<Rightarrow> gap_loop env p covered days (checked + 1) (verified + 1) lastErr (w\<lparr>coverage := cs\<rparr>)))"

definition gap_Execute :: "exec_env \<Rightarrow> Task \<Rightarrow> exec_world \<Rightarrow> exec_outcome" where
  "gap_Execute env item w =
     (if t_Type item \<noteq> TypeGapValidation then (Inl (''gap validator received non-validation task '' @ go_quote (t_Type item)), w)
      else case GetAllCompletedDays (x_db env 0) (coverage w) of
        Inl e \<Rightarrow> (Inl (''load coverage: '' @ e), w)
      | Inr allCoverage \<Rightarrow>
          (case gap_loop env (t_Pair item) (allCoverage (t_Pair item)) (sweep_days item) 0 0 None w of
             (Inl e, w') \<Rightarrow> (Inl e, w')
           | (Inr (verified, lastErr), w') \<Rightarrow>
               (case lastErr of
                  Some e \<Rightarrow>
                    if verified = 0 then (Inl (''gap validation sweep found no complete days for '' @ t_Pair item @ '': '' @ e), w')
                    else (Inr (), w')
                | None \<Rightarrow> (Inr (), w'))))"

section \<open>Integrity checks\<close>

record ValidatorExecutor =
  v_sources :: "Source list"
  v_resultWriter :: bool
  minSources :: int
  maxDivergencePct :: float64
  v_maxDaysPerRun :: int

definition NewValidatorExecutor :: "Source option list \<Rightarrow> int \<Rightarrow> float64 \<Rightarrow> int \<Rightarrow> ValidatorExecutor" where
  "NewValidatorExecutor sources min_src divergence days =
     \<lparr>v_sources = List.map_filter (\<lambda>s. s) sources, v_resultWriter = False,
      minSources = (if min_src < 2 then 2 else min_src),
      maxDivergencePct = (if fle divergence f0 then Fin 2 else divergence),
      v_maxDaysPerRun = (if days \<le> 0 then 7 else days)\<rparr>"

definition SetResultWriter :: "ValidatorExecutor \<Rightarrow> ValidatorExecutor" where
  "SetResultWriter v = v\<lparr>v_resultWriter := True\<rparr>"

record dayCheckResult =
  gapCount :: int
  divergenceCount :: int
  sourcesChecked :: int
  day_err :: "string option"

text \<open>The candles per source name, and the largest number of candles any source returned.\<close>

fun collect_sources :: "Request \<Rightarrow> Source list \<Rightarrow> (string, Candle list) gomap \<Rightarrow> nat \<Rightarrow> (string, Candle list) gomap \<times> nat" where
  "collect_sources req [] results expected = (results, expected)"
| "collect_sources req (s # ss) results expected =
     (if \<not> src_Supports s req then collect_sources req ss results expected
      else case src_FetchCandles s req of
        Inl e \<Rightarrow> collect_sources req ss results expected
      | Inr candles \<Rightarrow> collect_sources req ss (gm_put (src_Name s) candles results) (max expected (length candles)))"

definition by_time :: "(string, Candle list) gomap \<Rightarrow> (int, (string, float64) gomap) gomap" where
  "by_time results =
     foldl (\<lambda>m (name, cs). foldl (\<lambda>m c. gm_put (k_Timestamp c) (gm_put name (k_Close c) (gm_get m [] (k_Timestamp c))) m) m cs) [] results"

definition MaxFloat64 :: float64 where
  "MaxFloat64 = Fin (of_int ((2 ^ 53 - 1) * 2 ^ 971))"

text \<open>The extremes do not depend on the order in which the prices are visited.\<close>

definition divergent :: "float64 \<Rightarrow> (string, float64) gomap \<Rightarrow> bool" where
  "divergent maxPct sourceMap =
     (if length sourceMap < 2 then False
      else
        let prices = map snd sourceMap;
            maxPrice = foldl (\<lambda>m p. if flt m p then p else m) f0 prices;
            minPrice = foldl (\<lambda>m p. if flt p m then p else m) MaxFloat64 prices
        in if feq minPrice f0 then False
           else flt maxPct (fmul (fdiv (fsub maxPrice minPrice) minPrice) (Fin 100)))"

definition verifyDay :: "ValidatorExecutor \<Rightarrow> string \<Rightarrow> gotime \<Rightarrow> dayCheckResult" where
  "verifyDay v pairSymbol day =
     (case ParsePairSymbol pairSymbol of
        Inl e \<Rightarrow> \<lparr>gapCount = 0, divergenceCount = 0, sourcesChecked = 0, day_err = Some e\<rparr>
      | Inr (base, quote) \<Rightarrow>
          (case collect_sources \<lparr>q_TaskID = [], q_Pair = pairSymbol, q_Base = base, q_Quote = quote, q_Interval = ''1h'',
                  q_StartTime = day, q_EndTime = day + 24 * Hour\<rparr> (v_sources v) [] 0 of
             (results, expected) \<Rightarrow>
               let n = int (length results)
               in if n < minSources v then \<lparr>gapCount = 0, divergenceCount = 0, sourcesChecked = n, day_err = None\<rparr>
                  else
                    let gaps = int (length (filter (\<lambda>(name, cs). length cs < expected) results));
                        divs = int (length (filter (\<lambda>(ts, m). divergent (maxDivergencePct v) m) (by_time results)))
                    in if gaps > 0 \<or> divs > 0 then
                         \<lparr>gapCount = gaps, divergenceCount = divs, sourcesChecked = n,
                          day_err = Some (''integrity check failed for '' @ pairSymbol @ '' on '' @ fmt_day day @ '': '' @ show_int gaps @
                            '' source gaps, '' @ show_int divs @ '' price divergences'')\<rparr>
                       else \<lparr>gapCount = 0, divergenceCount = 0, sourcesChecked = n, day_err = None\<rparr>))"

fun validator_loop ::
    "exec_env \<Rightarrow> ValidatorExecutor \<Rightarrow> string \<Rightarrow> string list \<Rightarrow> gotime list \<Rightarrow> int \<Rightarrow> string option \<Rightarrow> exec_world \<Rightarrow>
       (string, string option) result \<times> exec_world" where
  "validator_loop env v p verified [] checked lastErr w = (Inr lastErr, w)"
| "validator_loop env v p verified (day # days) checked lastErr w =
     (if \<not> checked < v_maxDaysPerRun v then (Inr lastErr, w)
      else if fmt_day day \<in> set verified then validator_loop env v p verified days checked lastErr w
      else
        let result = verifyDay v p day
        in case day_err result of
             Some e \<Rightarrow>
               if v_resultWriter v then
                 (case RecordResult (x_loop env day 0)
                         \<lparr>ir_PairSymbol = p, ir_Day = day, ir_Verified = False, ir_GapCount = gapCount result,
                          ir_DivergenceCount = divergenceCount result, ir_SourcesChecked = sourcesChecked result, ir_ErrorMessage = e\<rparr>
                         (integrity w) of
                    (Inl we, rs) \<Rightarrow> (Inl (''record failed result: '' @ we), w\<lparr>integrity := rs\<rparr>)
                  | (Inr _, rs) \<Rightarrow> validator_loop env v p verified days (checked + 1) (Some e) (w\<lparr>integrity := rs\<rparr>))
               else validator_loop env v p verified days (checked + 1) (Some e) w
           | None \<Rightarrow>
               (case MarkDayVerified (x_loop env day 1) p day (integrity w) of
                  (Inl e, rs) \<Rightarrow> (Inl (''mark day verified: '' @ e), w\<lparr>integrity := rs\<rparr>)
                | (Inr _, rs) \<Rightarrow>
                    if v_resultWriter v then
                      (case RecordResult (x_loop env day 2) (verified_result p day (sourcesChecked result)) rs of
                         (Inl we, rs') \<Rightarrow> (Inl (''record verified result: '' @ we), w\<lparr>integrity := rs'\<rparr>)
                       | (Inr _, rs') \<Rightarrow> validator_loop env v p verified days (checked + 1) lastErr (w\<lparr>integrity := rs'\<rparr>))
                    else validator_loop env v p verified days (checked + 1) lastErr (w\<lparr>integrity := rs\<rparr>)))"

definition validator_Execute :: "exec_env \<Rightarrow> ValidatorExecutor \<Rightarrow> Task \<Rightarrow> exec_world \<Rightarrow> exec_outcome" where
  "validator_Execute env v item w =
     (if t_Type item \<noteq> TypeDataSanity then (Inl (''validator received non-sanity task '' @ go_quote (t_Type item)), w)
      else case GetAllVerifiedDays (x_db env 0) (integrity w) of
        Inl e \<Rightarrow> (Inl (''load integrity coverage: '' @ e), w)
      | Inr allVerified \<Rightarrow>
          (case validator_loop env v (t_Pair item) (allVerified (t_Pair item)) (sweep_days item) 0 None w of
             (Inl e, w') \<Rightarrow> (Inl e, w')
           | (Inr (Some e), w') \<Rightarrow> (Inl (''integrity sweep had failures for '' @ t_Pair item @ '': '' @ e), w')
           | (Inr None, w') \<Rightarrow> (Inr (), w')))"

end
