(* ===== verification/Worker.thy ===== *)
theory Worker
  imports Executors Task_Repo
begin

text \<open>
  The worker: \<^verbatim>\<open>worker/processor.go\<close> claims a task, takes the lock of its pair, runs the executor of
  its type and records the outcome; \<^verbatim>\<open>storage/postgres/pair_lock.go\<close> is the lock and
  \<^verbatim>\<open>worker/cleanup_executor.go\<close> the executor that prunes the task table. \<open>Process\<close> is one call;
  \<open>worker_step\<close> interleaves the calls of many workers and of the planner.
\<close>

section \<open>Executors and the router\<close>

record worker_world =
  ww_tasks :: task_store
  ww_data :: exec_world

type_synonym executor = "Task \<Rightarrow> worker_world \<Rightarrow> (string, unit) result \<times> worker_world"

text \<open>The executors of market data do not see the task table.\<close>

definition on_data :: "(Task \<Rightarrow> exec_world \<Rightarrow> exec_outcome) \<Rightarrow> executor" where
  "on_data exec item w = (case exec item (ww_data w) of (r, d) \<Rightarrow> (r, w\<lparr>ww_data := d\<rparr>))"

record CleanupExecutor =
  retainFor :: duration
  retainCount :: int

definition NewCleanupExecutor :: "duration \<Rightarrow> int \<Rightarrow> CleanupExecutor" where
  "NewCleanupExecutor for_dur cnt =
     \<lparr>retainFor = (if for_dur \<le> 0 then 24 * Hour else for_dur), retainCount = (if cnt \<le> 0 then 1000 else cnt)\<rparr>"

definition cleanup_Execute :: "task_row sorting \<Rightarrow> db_outcome \<Rightarrow> gotime \<Rightarrow> CleanupExecutor \<Rightarrow> executor" where
  "cleanup_Execute srt db clock c item w =
     (if t_Type item \<noteq> TypeCleanup then (Inl (''cleanup executor received unexpected task type '' @ go_quote (t_Type item)), w)
      else case PruneOldTasks srt db clock (retainFor c) (retainCount c) (ww_tasks w) of
        ((deleted, Some e), ts) \<Rightarrow> (Inl e, w\<lparr>ww_tasks := ts\<rparr>)
      | ((deleted, None), ts) \<Rightarrow> (Inr (), w\<lparr>ww_tasks := ts\<rparr>))"

definition router_Execute :: "(string, executor) gomap \<Rightarrow> executor" where
  "router_Execute routers item w =
     (case map_of routers (t_Type item) of
        None \<Rightarrow> (Inl (''no executor registered for task type '' @ go_quote (t_Type item)), w)
      | Some exec \<Rightarrow> exec item w)"

text \<open>
  The table of \<^verbatim>\<open>app.New\<close>. \<open>others\<close> holds the executors for news and portfolios.
\<close>

record worker_app =
  wa_backfill :: BackfillExecutor
  wa_realtime :: RealtimeExecutor
  wa_validator :: ValidatorExecutor
  wa_cleanup :: CleanupExecutor

definition app_routers ::
    "task_row sorting \<Rightarrow> db_outcome \<Rightarrow> exec_env \<Rightarrow> worker_app \<Rightarrow> (string, executor) gomap \<Rightarrow> (string, executor) gomap" where
  "app_routers srt db env app others =
     [(TypeBackfill, on_data (backfill_Execute env (wa_backfill app))),
      (TypeRealtime, on_data (realtime_Execute env (wa_realtime app))),
      (TypeConsolidate, on_data (backfill_Execute env (wa_backfill app))),
      (TypeDataSanity, on_data (validator_Execute env (wa_validator app))),
      (TypeCleanup, cleanup_Execute srt db (x_now env) (wa_cleanup app)),
      (TypeGapValidation, on_data (gap_Execute env))] @ others"

section \<open>The pair lock\<close>

text \<open>\<^verbatim>\<open>hash/fnv\<close>: 64-bit FNV-1a.\<close>

definition fnv64a :: "string \<Rightarrow> 64 word" where
  "fnv64a s = foldl (\<lambda>h c. (h XOR of_nat (of_char c)) * 1099511628211) 14695981039346656037 s"

definition advisoryKey :: "string \<Rightarrow> int" where
  "advisoryKey pairSymbol = sint (fnv64a pairSymbol)"

section \<open>Processing a task\<close>

text \<open>The outcomes of the calls of one \<^verbatim>\<open>Process\<close> and the times they see.\<close>

record proc_env =
  pe_claim_db :: db_outcome
  pe_claim_now :: gotime
  pe_lock :: "string option"
  pe_fail_db :: db_outcome
  pe_fail_now :: gotime
  pe_fail_clock :: gotime
  pe_jitter :: int
  pe_done_db :: db_outcome
  pe_done_now :: gotime

definition finish_task :: "TaskRepository \<Rightarrow> proc_env \<Rightarrow> Task \<Rightarrow> (string, unit) result \<Rightarrow> worker_world \<Rightarrow> (string, unit) result \<times> worker_world" where
  "finish_task repo env item outcome w =
     (case outcome of
        Inl e \<Rightarrow> (Inl e, w\<lparr>ww_tasks := snd (Fail repo (pe_fail_db env) (pe_fail_now env) (pe_fail_clock env) (pe_jitter env) (t_ID item) e (ww_tasks w))\<rparr>)
      | Inr _ \<Rightarrow> (case Complete repo (pe_done_db env) (pe_done_now env) (t_ID item) (ww_tasks w) of (r, ts) \<Rightarrow> (r, w\<lparr>ww_tasks := ts\<rparr>)))"

definition Process :: "TaskRepository \<Rightarrow> executor \<Rightarrow> proc_env \<Rightarrow> Task \<Rightarrow> worker_world \<Rightarrow> (string, unit) result \<times> worker_world" where
  "Process repo exec env item w =
     (case Claim repo (pe_claim_db env) (pe_claim_now env) (t_ID item) (ww_tasks w) of
        (Inl e, ts) \<Rightarrow> (Inl e, w\<lparr>ww_tasks := ts\<rparr>)
      | (Inr claimed, ts) \<Rightarrow>
          if \<not> claimed then (Inr (), w\<lparr>ww_tasks := ts\<rparr>)
          else case pe_lock env of
            Some e \<Rightarrow> (Inl e, w\<lparr>ww_tasks := ts\<rparr>)
          | None \<Rightarrow> (case exec item (w\<lparr>ww_tasks := ts\<rparr>) of (outcome, w') \<Rightarrow> finish_task repo env item outcome w'))"

record worker_Runner =
  wr_batchSize :: int
  wr_maxBackfillTasksPerBatch :: int
  wr_concurrency :: int

definition worker_NewRunner :: "int \<Rightarrow> int \<Rightarrow> int \<Rightarrow> worker_Runner" where
  "worker_NewRunner batch backfill conc =
     \<lparr>wr_batchSize = batch, wr_maxBackfillTasksPerBatch = backfill, wr_concurrency = (if conc \<le> 0 then 1 else conc)\<rparr>"

fun process_all :: "TaskRepository \<Rightarrow> (nat \<Rightarrow> executor) \<Rightarrow> (nat \<Rightarrow> proc_env) \<Rightarrow> nat \<Rightarrow> Task list \<Rightarrow> worker_world \<Rightarrow> worker_world" where
  "process_all repo exec env k [] w = w"
| "process_all repo exec env k (item # items) w =
     process_all repo exec env (Suc k) items (snd (Process repo (exec k) (env k) item w))"

text \<open>
  \<^verbatim>\<open>runBatch\<close> of a worker with concurrency one, undisturbed while it fetches its batch: the errors of single
  tasks are only logged. With more concurrency the calls of \<^verbatim>\<open>Process\<close> interleave as in \<open>worker_step\<close>.
\<close>

definition runBatch ::
    "task_row sorting \<Rightarrow> TaskRepository \<Rightarrow> worker_Runner \<Rightarrow> db_outcome \<Rightarrow> gotime \<Rightarrow> (nat \<Rightarrow> executor) \<Rightarrow> (nat \<Rightarrow> proc_env) \<Rightarrow>
       worker_world \<Rightarrow> (string, unit) result \<times> worker_world" where
  "runBatch srt repo r db now exec env w =
     (case Pending srt db (\<lambda>_. now) (\<lambda>_. rows (ww_tasks w)) (wr_batchSize r) (wr_maxBackfillTasksPerBatch r) of
        Inl e \<Rightarrow> (Inl e, w)
      | Inr items \<Rightarrow> if items = [] then (Inr (), w) else (Inr (), process_all repo exec env 0 items w))"

section \<open>Many workers\<close>

text \<open>
  A goroutine that runs \<^verbatim>\<open>Process\<close> is between two of its calls: before the claim, between claim and lock, holding
  the lock, or holding it with the outcome of the executor.
\<close>

datatype phase = Idle | Claimed Task | Locked Task | Executed Task "(string, unit) result"

fun working_on :: "phase \<Rightarrow> Task option" where
  "working_on (Locked item) = Some item"
| "working_on (Executed item r) = Some item"
| "working_on _ = None"

record pool =
  pl_world :: worker_world
  pl_phase :: "nat \<Rightarrow> phase"

text \<open>\<^verbatim>\<open>pg_advisory_lock\<close> waits until no session holds the key.\<close>

definition lock_is_free :: "int \<Rightarrow> pool \<Rightarrow> bool" where
  "lock_is_free key s \<longleftrightarrow> (\<forall>k item. working_on (pl_phase s k) = Some item \<longrightarrow> advisoryKey (t_Pair item) \<noteq> key)"

text \<open>The executor of a call depends on the outcomes of its database calls: \<open>execs\<close> are all of them.\<close>

inductive worker_step :: "(nat \<Rightarrow> TaskRepository) \<Rightarrow> executor set \<Rightarrow> pool \<Rightarrow> pool \<Rightarrow> bool" for repo execs where
  claim: "pl_phase s k = Idle \<Longrightarrow> Claim (repo k) db now (t_ID item) (ww_tasks (pl_world s)) = (res, ts) \<Longrightarrow>
    worker_step repo execs s (s\<lparr>pl_world := (pl_world s)\<lparr>ww_tasks := ts\<rparr>,
      pl_phase := (pl_phase s)(k := if res = Inr True then Claimed item else Idle)\<rparr>)"
| lock: "pl_phase s k = Claimed item \<Longrightarrow> lock_is_free (advisoryKey (t_Pair item)) s \<Longrightarrow>
    worker_step repo execs s (s\<lparr>pl_phase := (pl_phase s)(k := Locked item)\<rparr>)"
| lock_failed: "pl_phase s k = Claimed item \<Longrightarrow> worker_step repo execs s (s\<lparr>pl_phase := (pl_phase s)(k := Idle)\<rparr>)"
| execute: "pl_phase s k = Locked item \<Longrightarrow> exec \<in> execs \<Longrightarrow> exec item (pl_world s) = (outcome, w) \<Longrightarrow>
    worker_step repo execs s (s\<lparr>pl_world := w, pl_phase := (pl_phase s)(k := Executed item outcome)\<rparr>)"
| finish: "pl_phase s k = Executed item outcome \<Longrightarrow> finish_task (repo k) env item outcome (pl_world s) = (r, w) \<Longrightarrow>
    worker_step repo execs s (s\<lparr>pl_world := w, pl_phase := (pl_phase s)(k := Idle)\<rparr>)"
| enqueue: "Enqueue r db now items (ww_tasks (pl_world s)) = (res, ts) \<Longrightarrow>
    worker_step repo execs s (s\<lparr>pl_world := (pl_world s)\<lparr>ww_tasks := ts\<rparr>\<rparr>)"

inductive_cases worker_stepE: "worker_step repo execs s s'"

section \<open>The contract of an executor\<close>

text \<open>An executor only deletes rows of the task table, and only finished ones.\<close>

locale task_executor =
  fixes execute :: executor
  assumes table: "table_ok (rows (ww_tasks w)) \<Longrightarrow> table_ok (rows (ww_tasks (snd (execute item w))))"
    and deletes: "set (rows (ww_tasks (snd (execute item w)))) \<subseteq> set (rows (ww_tasks w))"
    and live: "table_ok (rows (ww_tasks w)) \<Longrightarrow> r \<in> set (rows (ww_tasks w)) \<Longrightarrow> \<not> finished r \<Longrightarrow>
      r \<in> set (rows (ww_tasks (snd (execute item w))))"
begin

lemma Process_cases:
  assumes "pe_claim_db env 0 = None" "pe_lock env = None"
  obtains
    (skipped) "\<forall>x\<in>set (rows (ww_tasks w)). \<not> claimable (t_ID item) x" "rows (ww_tasks (snd (Process repo execute env item w))) = rows (ww_tasks w)"
  | (run) w1 where "rows (ww_tasks w1) = sql_update (claimable (t_ID item)) (claim_row (workerID repo) (pe_claim_now env)) (rows (ww_tasks w))"
      "Process repo execute env item w = finish_task repo env item (fst (execute item w1)) (snd (execute item w1))"
      "\<exists>x\<in>set (rows (ww_tasks w)). claimable (t_ID item) x"
proof -
  let ?c = "Claim repo (pe_claim_db env) (pe_claim_now env) (t_ID item) (ww_tasks w)"
  have fst: "fst ?c = Inr (rows_affected (claimable (t_ID item)) (rows (ww_tasks w)) > 0)" using assms by (simp add: fst_Claim)
  have rows: "rows (snd ?c) = sql_update (claimable (t_ID item)) (claim_row (workerID repo) (pe_claim_now env)) (rows (ww_tasks w))"
    using assms by (simp add: rows_Claim)
  show thesis
  proof (cases "\<exists>x\<in>set (rows (ww_tasks w)). claimable (t_ID item) x")
    case True
    then have "fst ?c = Inr True" using fst rows_affected_pos [of "claimable (t_ID item)" "rows (ww_tasks w)"] by simp
    then have "Process repo execute env item w = finish_task repo env item (fst (execute item (w\<lparr>ww_tasks := snd ?c\<rparr>))) (snd (execute item (w\<lparr>ww_tasks := snd ?c\<rparr>)))"
      using assms by (simp add: Process_def prod.case_eq_if)
    with run [of "w\<lparr>ww_tasks := snd ?c\<rparr>"] rows True show thesis by simp
  next
    case False
    then have "fst ?c = Inr False" using fst rows_affected_pos [of "claimable (t_ID item)" "rows (ww_tasks w)"] by simp
    then have "rows (ww_tasks (snd (Process repo execute env item w))) = rows (snd ?c)" by (simp add: Process_def prod.case_eq_if)
    also have "\<dots> = rows (ww_tasks w)" unfolding rows using False by (intro sql_update_none) blast
    finally show thesis using skipped False by blast
  qed
qed

end

section \<open>A processed task is settled\<close>

definition task_settled :: "task_row \<Rightarrow> bool" where
  "task_settled y \<longleftrightarrow> r_status y = ''completed'' \<or> (r_status y \<in> {''pending'', ''failed''} \<and> r_last_error y \<noteq> None)"

definition proc_ok :: "proc_env \<Rightarrow> bool" where
  "proc_ok env \<longleftrightarrow> pe_claim_db env 0 = None \<and> pe_lock env = None \<and> pe_fail_db env 0 = None \<and> pe_done_db env 0 = None"

text \<open>The row with the ID of the task is written by the last call, as the outcome says; the other rows stay.\<close>

fun outcome_row :: "proc_env \<Rightarrow> (string, unit) result \<Rightarrow> task_row \<Rightarrow> task_row" where
  "outcome_row env (Inl e) = fail_row (pe_fail_now env) (next_retry_at (pe_fail_clock env) (pe_jitter env)) e"
| "outcome_row env (Inr u) = complete_row (pe_done_now env)"

lemma outcome_row_settled [simp]: "task_settled (outcome_row env res x)" "r_id (outcome_row env res x) = r_id x"
  by (cases res; simp add: task_settled_def fail_row_def complete_row_def)+

lemma finish_task_rows:
  assumes "proc_ok env"
  shows "rows (ww_tasks (snd (finish_task repo env item res w))) = sql_update (\<lambda>x. r_id x = t_ID item) (outcome_row env res) (rows (ww_tasks w)) \<and>
    fst (finish_task repo env item res w) = res"
  using assms by (cases res)
    (simp_all add: finish_task_def proc_ok_def rows_Fail rows_Complete Complete_def prod.case_eq_if)

lemma row_ok_outcome: "row_ok x \<Longrightarrow> row_ok (outcome_row env res x)"
  by (cases res) (simp_all add: row_ok_rows)

context task_executor
begin

lemma Process_effect:
  assumes "table_ok (rows (ww_tasks w))" "proc_ok env"
  shows "table_ok (rows (ww_tasks (snd (Process repo execute env item w))))"
    and "\<And>y. y \<in> set (rows (ww_tasks (snd (Process repo execute env item w)))) \<Longrightarrow>
      if r_id y = t_ID item then task_settled y \<or> (y \<in> set (rows (ww_tasks w)) \<and> \<not> claimable (t_ID item) y) else y \<in> set (rows (ww_tasks w))"
    and "\<And>y. y \<in> set (rows (ww_tasks w)) \<Longrightarrow> r_id y \<noteq> t_ID item \<Longrightarrow> \<not> finished y \<Longrightarrow>
      y \<in> set (rows (ww_tasks (snd (Process repo execute env item w))))"
proof -
  let ?w' = "snd (Process repo execute env item w)"
  have env: "pe_claim_db env 0 = None" "pe_lock env = None" using assms(2) by (simp_all add: proc_ok_def)
  have "table_ok (rows (ww_tasks ?w')) \<and>
    (\<forall>y\<in>set (rows (ww_tasks ?w')). if r_id y = t_ID item then task_settled y \<or> (y \<in> set (rows (ww_tasks w)) \<and> \<not> claimable (t_ID item) y)
       else y \<in> set (rows (ww_tasks w))) \<and>
    (\<forall>y\<in>set (rows (ww_tasks w)). r_id y \<noteq> t_ID item \<longrightarrow> \<not> finished y \<longrightarrow> y \<in> set (rows (ww_tasks ?w')))"
  proof (cases rule: Process_cases [OF env, of w item repo])
    case 1
    then show ?thesis using assms(1) by auto
  next
    case run: (2 w1)
    let ?e = "execute item w1"
    have w1: "table_ok (rows (ww_tasks w1))" unfolding run(1) using assms(1) by (auto intro!: table_ok_update row_ok_rows)
    have rows': "rows (ww_tasks ?w') = sql_update (\<lambda>x. r_id x = t_ID item) (outcome_row env (fst ?e)) (rows (ww_tasks (snd ?e)))"
      using finish_task_rows [OF assms(2)] run(2) by simp
    have "table_ok (rows (ww_tasks ?w'))"
      unfolding rows' by (intro table_ok_update table [OF w1]) (simp_all add: row_ok_outcome)
    moreover have "y \<in> set (rows (ww_tasks w))" if "y \<in> set (rows (ww_tasks (snd ?e)))" "r_id y \<noteq> t_ID item" for y
      using that deletes [of item w1] unfolding run(1) by (auto simp: set_sql_update claimable_def split: if_splits)
    moreover have "y \<in> set (rows (ww_tasks (snd ?e)))" if "y \<in> set (rows (ww_tasks w))" "r_id y \<noteq> t_ID item" "\<not> finished y" for y
      using that by (intro live [OF w1]) (auto simp: run(1) set_sql_update claimable_def)
    ultimately show ?thesis unfolding rows' set_sql_update by auto
  qed
  then show "table_ok (rows (ww_tasks ?w'))"
    "\<And>y. y \<in> set (rows (ww_tasks ?w')) \<Longrightarrow>
      if r_id y = t_ID item then task_settled y \<or> (y \<in> set (rows (ww_tasks w)) \<and> \<not> claimable (t_ID item) y) else y \<in> set (rows (ww_tasks w))"
    "\<And>y. y \<in> set (rows (ww_tasks w)) \<Longrightarrow> r_id y \<noteq> t_ID item \<Longrightarrow> \<not> finished y \<Longrightarrow> y \<in> set (rows (ww_tasks ?w'))"
    by blast+
qed

end

section \<open>The executors of the application\<close>

lemma on_data_tasks [simp]: "ww_tasks (snd (on_data exec item w)) = ww_tasks w"
  by (simp add: on_data_def prod.case_eq_if)

interpretation market: task_executor "on_data exec" for exec
  by unfold_locales simp_all

lemma PruneOldTasks_deletes:
  assumes "sql_order srt"
  shows "set (rows (snd (PruneOldTasks srt db clock old keep st))) \<subseteq> set (rows st)"
    and "table_ok (rows st) \<Longrightarrow> r \<in> set (rows st) \<Longrightarrow> \<not> finished r \<Longrightarrow> r \<in> set (rows (snd (PruneOldTasks srt db clock old keep st)))"
proof -
  have age: "r \<in> set (prune_by_age cut rs)" if "r \<in> set rs" "\<not> finished r" for r rs cut using that by (simp add: prune_by_age_def)
  show "set (rows (snd (PruneOldTasks srt db clock old keep st))) \<subseteq> set (rows st)"
    by (auto simp: PruneOldTasks_def prune_by_age_def prune_by_count_def Let_def split: option.splits if_splits)
  assume "table_ok (rows st)" and r: "r \<in> set (rows st)" "\<not> finished r"
  then have "distinct (map r_id (prune_by_age cut (rows st)))" for cut by (simp add: table_ok_def prune_by_age_def distinct_map_filter)
  from prune_by_count_keeps [OF assms this age [OF r] r(2)] age [OF r] r(1)
  show "r \<in> set (rows (snd (PruneOldTasks srt db clock old keep st)))"
    by (auto simp: PruneOldTasks_def Let_def split: option.split)
qed

lemma cleanup_tasks:
  "ww_tasks (snd (cleanup_Execute srt db clock c item w)) =
     (if t_Type item = TypeCleanup then snd (PruneOldTasks srt db clock (retainFor c) (retainCount c) (ww_tasks w)) else ww_tasks w)"
  by (simp add: cleanup_Execute_def prod.case_eq_if split: option.split)

lemma cleanup_executor: "sql_order srt \<Longrightarrow> task_executor (cleanup_Execute srt db clock c)"
  by unfold_locales (auto simp: cleanup_tasks PruneOldTasks_deletes table_ok_Prune dest: subsetD [OF PruneOldTasks_deletes(1)])

interpretation cleanup: task_executor "cleanup_Execute (\<lambda>key. sort_key key) db clock c" for db clock c
  by (rule cleanup_executor [OF sql_order_sort_key])

text \<open>A router over executors is an executor.\<close>

locale task_router =
  fixes routers :: "(string, executor) gomap"
  assumes routed: "(t, exec) \<in> set routers \<Longrightarrow> task_executor exec"
begin

lemma routed_executor: "map_of routers t = Some exec \<Longrightarrow> task_executor exec"
  by (rule routed) (rule map_of_SomeD)

end

sublocale task_router \<subseteq> task_executor "router_Execute routers"
proof
  fix w item r
  show "table_ok (rows (ww_tasks w)) \<Longrightarrow> table_ok (rows (ww_tasks (snd (router_Execute routers item w))))"
    using task_executor.table [OF routed_executor] by (simp add: router_Execute_def split: option.split)
  show "set (rows (ww_tasks (snd (router_Execute routers item w)))) \<subseteq> set (rows (ww_tasks w))"
    using task_executor.deletes [OF routed_executor] by (simp add: router_Execute_def split: option.split)
  show "table_ok (rows (ww_tasks w)) \<Longrightarrow> r \<in> set (rows (ww_tasks w)) \<Longrightarrow> \<not> finished r \<Longrightarrow>
      r \<in> set (rows (ww_tasks (snd (router_Execute routers item w))))"
    using task_executor.live [OF routed_executor] by (simp add: router_Execute_def split: option.split)
qed

context task_router
begin

lemma router_executor: "task_executor (router_Execute routers)"
  by unfold_locales

end

lemma app_router:
  assumes "sql_order srt" "task_router others"
  shows "task_router (app_routers srt db env app others)"
  using assms(2) cleanup_executor [OF assms(1)] market.task_executor_axioms
  by (auto simp: task_router_def app_routers_def)

interpretation app: task_router "app_routers (\<lambda>key. sort_key key) db env app []" for db env app
  by (rule app_router [OF sql_order_sort_key]) (simp add: task_router_def)

section \<open>A batch\<close>

lemma process_all_settles:
  assumes "\<And>k. task_executor (exec k)" "\<And>k. proc_ok (env k)" "table_ok (rows (ww_tasks w))"
    and "\<forall>y\<in>set (rows (ww_tasks w)). r_id y \<in> ids \<longrightarrow> task_settled y"
    and "\<forall>y\<in>set (rows (ww_tasks w)). r_id y \<in> t_ID ` set items \<longrightarrow> task_settled y \<or> claimable (r_id y) y"
  shows "(\<forall>y\<in>set (rows (ww_tasks (process_all repo exec env k items w))). r_id y \<in> ids \<union> t_ID ` set items \<longrightarrow> task_settled y) \<and>
    (\<forall>y\<in>set (rows (ww_tasks w)). r_id y \<notin> t_ID ` set items \<longrightarrow> \<not> finished y \<longrightarrow>
       y \<in> set (rows (ww_tasks (process_all repo exec env k items w))))"
  using assms(3-)
proof (induction items arbitrary: k w ids)
  case (Cons item items)
  let ?w = "snd (Process repo (exec k) (env k) item w)"
  note eff = task_executor.Process_effect [OF assms(1) [of k] Cons.prems(1) assms(2) [of k], where repo = repo and item = item]
  have ids: "\<forall>z\<in>set (rows (ww_tasks ?w)). r_id z \<in> insert (t_ID item) ids \<longrightarrow> task_settled z"
  proof (intro ballI impI)
    fix z assume "z \<in> set (rows (ww_tasks ?w))" "r_id z \<in> insert (t_ID item) ids"
    with eff(2) [of z] Cons.prems(2,3) show "task_settled z" by (auto split: if_splits)
  qed
  have rest: "\<forall>z\<in>set (rows (ww_tasks ?w)). r_id z \<in> t_ID ` set items \<longrightarrow> task_settled z \<or> claimable (r_id z) z"
  proof (intro ballI impI)
    fix z assume "z \<in> set (rows (ww_tasks ?w))" "r_id z \<in> t_ID ` set items"
    with eff(2) [of z] Cons.prems(3) show "task_settled z \<or> claimable (r_id z) z" by (auto split: if_splits)
  qed
  show ?case using Cons.IH [OF eff(1) ids rest, of "Suc k"] eff(3) by auto
qed simp

lemma fetchedD: "fetched k now rs n ts \<Longrightarrow> t \<in> set ts \<Longrightarrow> \<exists>r\<in>set rs. t = task_of_row r \<and> r_status r = ''pending''"
  by (fastforce simp: fetched_def ready_def)

lemma Pending_pending:
  assumes "sql_order srt" "Pending srt db now rs limit b = Inr ts" "t \<in> set ts"
  shows "\<exists>k. \<exists>r\<in>set (rs k). t = task_of_row r \<and> r_status r = ''pending''"
proof -
  note f = fetchedD [OF pendingByTaskType_fetched [OF assms(1)]] fetchedD [OF pendingOther_fetched [OF assms(1)]]
    fetchedD [OF pendingByType_fetched [OF assms(1)]]
  show ?thesis using assms(2,3) unfolding Pending_def Let_def by (auto split: if_splits sum.splits dest!: f)
qed


section \<open>A stranded task\<close>


section \<open>Interleaved workers\<close>

inductive pool_reach :: "(nat \<Rightarrow> TaskRepository) \<Rightarrow> executor set \<Rightarrow> pool \<Rightarrow> bool" for repo execs where
  start: "table_ok (rows (ww_tasks (pl_world s))) \<Longrightarrow> (\<And>k. pl_phase s k = Idle) \<Longrightarrow> pool_reach repo execs s"
| step: "pool_reach repo execs s \<Longrightarrow> worker_step repo execs s s' \<Longrightarrow> pool_reach repo execs s'"

definition exclusive :: "pool \<Rightarrow> bool" where
  "exclusive s \<longleftrightarrow> (\<forall>j k a b. j \<noteq> k \<longrightarrow> working_on (pl_phase s j) = Some a \<longrightarrow> working_on (pl_phase s k) = Some b \<longrightarrow>
     advisoryKey (t_Pair a) \<noteq> advisoryKey (t_Pair b))"

lemma exclusive_update:
  assumes "exclusive s"
    and "\<And>a. working_on ph = Some a \<Longrightarrow> working_on (pl_phase s k) = Some a \<or> lock_is_free (advisoryKey (t_Pair a)) s"
  shows "exclusive (s\<lparr>pl_phase := (pl_phase s)(k := ph)\<rparr>)" "exclusive (s\<lparr>pl_world := w, pl_phase := (pl_phase s)(k := ph)\<rparr>)"
  using assms unfolding exclusive_def lock_is_free_def by (simp_all, metis+)

lemma worker_step_exclusive: "worker_step repo execs s s' \<Longrightarrow> exclusive s \<Longrightarrow> exclusive s'"
proof (induction rule: worker_step.induct)
  case (enqueue r db now items s res ts)
  then show ?case by (simp add: exclusive_def)
qed (rule exclusive_update; auto split: if_splits)+

lemma worker_step_table:
  assumes "\<And>exec. exec \<in> execs \<Longrightarrow> task_executor exec"
  shows "worker_step repo execs s s' \<Longrightarrow> table_ok (rows (ww_tasks (pl_world s))) \<Longrightarrow> table_ok (rows (ww_tasks (pl_world s')))"
proof (induction rule: worker_step.induct)
  case (claim s k db now item res ts)
  then show ?case using table_ok_Claim [of "ww_tasks (pl_world s)" "repo k" db now "t_ID item"] by simp
next
  case (execute s k item exec outcome w)
  then show ?case using task_executor.table [OF assms, of exec "pl_world s" item] by simp
next
  case (finish s k item outcome env r w)
  then have "w = snd (finish_task (repo k) env item outcome (pl_world s))" by simp
  with finish.prems show ?case
    by (auto simp: finish_task_def prod.case_eq_if intro!: table_ok_Fail table_ok_Complete split: sum.split)
next
  case (enqueue r db now items s res ts)
  then show ?case using table_ok_Enqueue [of "ww_tasks (pl_world s)" r db now items] by simp
qed simp_all


text \<open>
  An undisturbed call of \<^verbatim>\<open>Process\<close> is a run of the interleaved system: a worker that is idle, and for which the
  lock of the pair is free unless taking it fails, gets from the world before the call to the world after it in single
  steps and is idle again.
\<close>

lemma process_is_a_run:
  assumes "pl_phase s k = Idle" "exec \<in> execs" "pe_lock env = None \<Longrightarrow> lock_is_free (advisoryKey (t_Pair item)) s"
    and "Process (repo k) exec env item (pl_world s) = (res, w)"
  shows "(worker_step repo execs)\<^sup>*\<^sup>* s (s\<lparr>pl_world := w\<rparr>)"
proof -
  let ?c = "Claim (repo k) (pe_claim_db env) (pe_claim_now env) (t_ID item) (ww_tasks (pl_world s))"
  let ?w = "(pl_world s)\<lparr>ww_tasks := snd ?c\<rparr>"
  let ?at = "\<lambda>w ph. s\<lparr>pl_world := w, pl_phase := (pl_phase s)(k := ph)\<rparr>"
  have idle: "?at w Idle = s\<lparr>pl_world := w\<rparr>" for w using assms(1) by (simp add: fun_upd_idem)
  have claim: "worker_step repo execs s (?at ?w (if fst ?c = Inr True then Claimed item else Idle))"
    by (rule worker_step.claim [OF assms(1)]) simp
  show ?thesis
  proof (cases "fst ?c = Inr True")
    case False
    then have "w = ?w" using assms(4) by (cases "fst ?c") (auto simp: Process_def prod.case_eq_if)
    with claim False show ?thesis by (simp add: idle)
  next
    case True
    show ?thesis
    proof (cases "pe_lock env")
      case (Some e)
      then have "w = ?w" using assms(4) True by (simp add: Process_def prod.case_eq_if)
      moreover have "worker_step repo execs (?at ?w (Claimed item)) (?at ?w Idle)"
        using worker_step.lock_failed [of "?at ?w (Claimed item)" k item repo execs] by simp
      ultimately show ?thesis using claim True by (simp add: idle)
    next
      case None
      have free: "lock_is_free (advisoryKey (t_Pair item)) (?at ?w (Claimed item))"
        using assms(3) [OF None] by (simp add: lock_is_free_def)
      have lock: "worker_step repo execs (?at ?w (Claimed item)) (?at ?w (Locked item))"
        using worker_step.lock [OF _ free, of k repo execs] by simp
      obtain outcome w1 where e: "exec item ?w = (outcome, w1)" by fastforce
      have execute: "worker_step repo execs (?at ?w (Locked item)) (?at w1 (Executed item outcome))"
        using worker_step.execute [of "?at ?w (Locked item)" k item exec execs outcome w1] assms(2) e by simp
      have "finish_task (repo k) env item outcome w1 = (res, w)" using assms(4) None True e by (simp add: Process_def prod.case_eq_if)
      then have "worker_step repo execs (?at w1 (Executed item outcome)) (?at w Idle)"
        using worker_step.finish [of "?at w1 (Executed item outcome)" k item outcome repo env res w execs] by simp
      with claim lock execute True show ?thesis by (simp add: idle)
    qed
  qed
qed

section \<open>Samples\<close>

definition bf_task :: Task where
  "bf_task = new_task ''backfill:BTCEUR:1h:0'' TypeBackfill ''BTCEUR'' ''1h'' 0 Hour"

definition bf_world :: worker_world where
  "bf_world = \<lparr>ww_tasks = \<lparr>rows = [fresh_row bf_task 5], notified = 0\<rparr>,
     ww_data = \<lparr>market = \<lparr>candles_1h = [], candles_1d = [], raw_candles = []\<rparr>, sync = [], coverage = [], integrity = [],
       notified_pairs = [], published = []\<rparr>\<rparr>"

definition bf_env :: "string option \<Rightarrow> proc_env" where
  "bf_env lock = \<lparr>pe_claim_db = no_errors, pe_claim_now = 7, pe_lock = lock, pe_fail_db = no_errors, pe_fail_now = 9, pe_fail_clock = 9,
     pe_jitter = 300, pe_done_db = no_errors, pe_done_now = 9\<rparr>"

lemma bf_world_ok: "table_ok (rows (ww_tasks bf_world))" "rows (ww_tasks bf_world) = [fresh_row bf_task 5]"
  by (simp_all add: bf_world_def table_ok_def row_ok_def fresh_row_def)

lemma bf_env_simps [simp]:
  "pe_claim_db (bf_env l) = no_errors" "pe_claim_now (bf_env l) = 7" "pe_lock (bf_env l) = l" "proc_ok (bf_env None)"
  by (simp_all add: bf_env_def proc_ok_def no_errors_def)

lemma bf_row: "claimable (t_ID bf_task) (fresh_row bf_task 5)" "r_type (fresh_row bf_task 5) = TypeBackfill" "r_pair (fresh_row bf_task 5) = ''BTCEUR''"
  by (simp_all add: claimable_def fresh_row_def bf_task_def)


definition bf_app :: worker_app where
  "bf_app = \<lparr>wa_backfill = \<lparr>be_sources = None, be_notifier = False\<rparr>, wa_realtime = \<lparr>re_sources = None, re_events = False, re_notifier = False\<rparr>,
     wa_validator = NewValidatorExecutor [] 2 (Fin 2) 7, wa_cleanup = NewCleanupExecutor 0 0\<rparr>"

definition bf_exec :: exec_env where
  "bf_exec = \<lparr>x_now = 0, x_db = no_errors, x_loop = (\<lambda>_. no_errors), x_by_source = (\<lambda>cs. cs), x_arrange = (\<lambda>cs. cs), x_publish = None\<rparr>"


definition bf_pool :: pool where
  "bf_pool = \<lparr>pl_world = bf_world, pl_phase = (\<lambda>_. Idle)\<rparr>"

lemma bf_pool_simps [simp]: "pl_world bf_pool = bf_world" "pl_phase bf_pool = (\<lambda>_. Idle)"
  by (simp_all add: bf_pool_def)


end
