(* ===== verification/Executor_Props.thy ===== *)
theory Executor_Props
  imports Executors
begin

text \<open>
  What the executors guarantee: the registry of sources, the stored candles, and the two sweeps that track how
  far the stored data has been checked.
\<close>

section \<open>The registry\<close>

definition usable :: "Registry \<Rightarrow> Request \<Rightarrow> Source \<Rightarrow> bool" where
  "usable r req s \<longleftrightarrow> compatible r req s \<and> (case src_FetchCandles s req of Inl e \<Rightarrow> False | Inr items \<Rightarrow> items \<noteq> [])"

definition source_errors :: "Registry \<Rightarrow> Request \<Rightarrow> Source list \<Rightarrow> string list" where
  "source_errors r req ss = List.map_filter
     (\<lambda>s. if compatible r req s then (case src_FetchCandles s req of Inl e \<Rightarrow> Some (src_Name s @ '': '' @ e) | Inr _ \<Rightarrow> None) else None) ss"

lemma fetch_loop_find:
  "fetch_loop r req ss errs att nod =
     (case find (usable r req) ss of
        Some s \<Rightarrow> (case src_FetchCandles s req of Inr items \<Rightarrow> Inr items | Inl e \<Rightarrow> undefined)
      | None \<Rightarrow> Inl (errs @ source_errors r req ss, att \<or> list_ex (compatible r req) ss,
          nod \<or> list_ex (\<lambda>s. compatible r req s \<and> src_FetchCandles s req = Inr []) ss))"
  by (induction ss arbitrary: errs att nod)
    (auto simp: usable_def source_errors_def map_filter_simps split: sum.splits option.splits if_splits)


section \<open>Sequences of executions\<close>

datatype market_op =
    DoBackfill exec_env BackfillExecutor Task
  | DoRealtime exec_env RealtimeExecutor Task
  | DoIngest exec_env bool "Candle list"
  | DoGap exec_env Task
  | DoValidate exec_env ValidatorExecutor Task

fun exec_market :: "market_op \<Rightarrow> exec_world \<Rightarrow> exec_world" where
  "exec_market (DoBackfill env e item) w = snd (backfill_Execute env e item w)"
| "exec_market (DoRealtime env e item) w = snd (realtime_Execute env e item w)"
| "exec_market (DoIngest env n cs) w = snd (IngestRealtimeCandles env n cs w)"
| "exec_market (DoGap env item) w = snd (gap_Execute env item w)"
| "exec_market (DoValidate env v item) w = snd (validator_Execute env v item w)"

text \<open>The database's ordering of the raw candles only permutes them.\<close>

fun reorders :: "market_op \<Rightarrow> bool" where
  "reorders (DoGap env item) \<longleftrightarrow> x_by_source env [] = []"
| "reorders _ \<longleftrightarrow> True"

definition no_raw_daily :: "exec_world \<Rightarrow> bool" where
  "no_raw_daily w \<longleftrightarrow> (\<forall>c\<in>set (raw_candles (market w)). k_Interval c \<noteq> ''1d'')"

lemma UpsertRawCandles_intervals:
  "c \<in> set (raw_candles (snd (UpsertRawCandles err interval cs db))) \<Longrightarrow> c \<in> set (raw_candles db) \<or> k_Interval c = interval"
  by (auto simp: UpsertRawCandles_def dest!: set_fold_replace split: option.splits)

lemma UpsertCandles_raw [simp]: "raw_candles (snd (UpsertCandles err interval cs db)) = raw_candles db"
  by (simp add: UpsertCandles_def split: sum.split option.split candle_table.split)

text \<open>Neither tables of candles nor coverage change except as said here.\<close>

definition raw_only :: "string \<Rightarrow> exec_world \<Rightarrow> exec_world \<Rightarrow> bool" where
  "raw_only i w w' \<longleftrightarrow> coverage w' = coverage w \<and>
     (\<forall>c\<in>set (raw_candles (market w')). c \<in> set (raw_candles (market w)) \<or> k_Interval c = i)"

lemma raw_only_simps [simp]:
  "raw_only i w w" "raw_only i w (w\<lparr>market := snd (UpsertRawCandles err i cs (market w))\<rparr>)"
  by (auto simp: raw_only_def dest: UpsertRawCandles_intervals)

lemma materializeCandles_raw:
  "t_Interval item = ''1d'' \<Longrightarrow> snd (materializeCandles env e item w) = w"
  "t_Interval item \<noteq> ''1d'' \<Longrightarrow> raw_only (t_Interval item) w (snd (materializeCandles env e item w))"
  by (simp_all add: materializeCandles_def materializeDaily_def materializeHourly_def prod.case_eq_if split: sum.split)

lemma updateSyncProgress_raw [simp]:
  "market (snd (updateSyncProgress env item w)) = market w" "coverage (snd (updateSyncProgress env item w)) = coverage w"
  by (simp_all add: updateSyncProgress_def prod.case_eq_if)

lemma mark_realtime_raw [simp]:
  "market (snd (mark_realtime env item w)) = market w" "coverage (snd (mark_realtime env item w)) = coverage w"
  by (simp_all add: mark_realtime_def prod.case_eq_if)

lemma backfill_Execute_raw:
  "raw_candles (market (snd (backfill_Execute env e item w))) = raw_candles (market (snd (materializeCandles env e item w))) \<or>
   snd (backfill_Execute env e item w) = w"
  "coverage (snd (backfill_Execute env e item w)) = coverage (snd (materializeCandles env e item w)) \<or> snd (backfill_Execute env e item w) = w"
  by (simp_all add: backfill_Execute_def prod.case_eq_if split: sum.split)

lemma no_raw_daily_step:
  assumes "raw_only i w w'" "i \<noteq> ''1d''" "no_raw_daily w"
  shows "no_raw_daily w' \<and> coverage w' = coverage w"
  using assms by (auto simp: raw_only_def no_raw_daily_def)

lemma no_raw_daily_backfill:
  assumes "no_raw_daily w"
  shows "no_raw_daily (snd (backfill_Execute env e item w)) \<and> coverage (snd (backfill_Execute env e item w)) = coverage w"
proof -
  have "no_raw_daily (snd (materializeCandles env e item w)) \<and> coverage (snd (materializeCandles env e item w)) = coverage w"
    using assms no_raw_daily_step [OF materializeCandles_raw(2)] by (cases "t_Interval item = ''1d''") (simp_all add: materializeCandles_raw(1))
  with assms backfill_Execute_raw [of env e item w] show ?thesis by (auto simp: no_raw_daily_def)
qed

lemma no_raw_daily_realtime:
  assumes "no_raw_daily w"
  shows "no_raw_daily (snd (realtime_Execute env e item w)) \<and> coverage (snd (realtime_Execute env e item w)) = coverage w"
proof -
  have "raw_only ''1h'' w (snd (publishRealtime env e item w))"
    by (auto simp: publishRealtime_def prod.case_eq_if raw_only_def dest: UpsertRawCandles_intervals split: sum.split option.split)
  from no_raw_daily_step [OF this _ assms] assms show ?thesis
    by (simp add: realtime_Execute_def prod.case_eq_if no_raw_daily_def split: sum.split)
qed

lemma no_raw_daily_ingest:
  assumes "no_raw_daily w"
  shows "no_raw_daily (snd (IngestRealtimeCandles env n cs w)) \<and> coverage (snd (IngestRealtimeCandles env n cs w)) = coverage w"
proof -
  have "raw_only ''1h'' w (snd (IngestRealtimeCandles env n cs w))"
    by (auto simp: IngestRealtimeCandles_def prod.case_eq_if raw_only_def Let_def dest: UpsertRawCandles_intervals
        split: sum.split list.split)
  from no_raw_daily_step [OF this _ assms] show ?thesis by simp
qed

lemma validateDay_fails:
  assumes "no_raw_daily w" "x_by_source env [] = []"
  shows "\<exists>e. validateDay env p day w = Inl e"
proof -
  have "filter (\<lambda>c. k_Pair c = p \<and> k_Interval c = ''1d'' \<and> in_window start stop c) (raw_candles (market w)) = []" for start stop
    using assms(1) by (auto simp: no_raw_daily_def filter_empty_conv)
  with assms(2) show ?thesis by (simp add: validateDay_def RawCandles_def Let_def split: option.split)
qed

lemma gap_loop_idle:
  assumes "no_raw_daily w" "x_by_source env [] = []"
  shows "\<exists>e. gap_loop env p cov days n 0 lastErr w = (Inr (0, e), w) \<and> (lastErr \<noteq> None \<longrightarrow> e \<noteq> None)"
proof (induction days arbitrary: n lastErr)
  case (Cons day days)
  from validateDay_fails [OF assms, of p day] obtain e where e: "validateDay env p day w = Inl e" ..
  show ?case using Cons.IH [of n lastErr] Cons.IH [of "Suc n" "Some e"] e by auto
qed simp

lemma gap_Execute_idle:
  assumes "no_raw_daily w" "x_by_source env [] = []"
  shows "snd (gap_Execute env item w) = w"
proof -
  obtain e where "gap_loop env (t_Pair item) cov (sweep_days item) 0 0 None w = (Inr (0, e cov), w)" for cov
    using gap_loop_idle [OF assms, of "t_Pair item" _ "sweep_days item" 0 None] by metis
  then show ?thesis by (simp add: gap_Execute_def split: sum.split option.split)
qed

lemma validator_loop_world:
  "coverage (snd (validator_loop env v p ver days n lastErr w)) = coverage w \<and> market (snd (validator_loop env v p ver days n lastErr w)) = market w"
  by (induction days arbitrary: n lastErr w) (auto simp: Let_def prod.case_eq_if split: option.split sum.split)

lemma no_raw_daily_validator:
  "no_raw_daily w \<Longrightarrow> no_raw_daily (snd (validator_Execute env v item w)) \<and> coverage (snd (validator_Execute env v item w)) = coverage w"
  using validator_loop_world [of env v "t_Pair item" _ "sweep_days item" 0 None w]
  by (simp add: validator_Execute_def no_raw_daily_def prod.case_eq_if split: sum.split option.split)


section \<open>Completed days\<close>

text \<open>An operation on the market data with no daily row among the raw candles leaves none and completes no day.\<close>

lemma no_raw_daily_op:
  assumes "no_raw_daily w" "reorders oper"
  shows "no_raw_daily (exec_market oper w) \<and> coverage (exec_market oper w) = coverage w"
  using assms by (cases oper)
    (simp_all add: no_raw_daily_backfill no_raw_daily_realtime no_raw_daily_ingest no_raw_daily_validator gap_Execute_idle)

text \<open>
  \<^bold>\<open>C15\<close>. No day is ever marked complete. The gap validator looks for the daily candle of a day among the raw candles of interval
  \<^verbatim>\<open>1d\<close>, but the executors and the event consumer only write raw candles of the other intervals: the daily
  consolidation writes the table of daily candles alone. So whatever sequence of backfill, ticker, ingestion,
  validation and integrity tasks runs on a database with no raw daily candle, the coverage table does not change.
\<close>

theorem gap_validation_never_completes:
  assumes "no_raw_daily w" "list_all reorders ops"
  shows "coverage (fold exec_market ops w) = coverage w"
  using assms
proof (induction ops arbitrary: w)
  case (Cons oper ops)
  with no_raw_daily_op [of w oper] show ?case by simp
qed simp

section \<open>Verified days\<close>

text \<open>The sources that answer the validator's request for a day, by name.\<close>

definition day_request :: "string \<Rightarrow> string \<times> string \<Rightarrow> gotime \<Rightarrow> Request" where
  "day_request p bq day =
     \<lparr>q_TaskID = [], q_Pair = p, q_Base = fst bq, q_Quote = snd bq, q_Interval = ''1h'', q_StartTime = day, q_EndTime = day + 24 * Hour\<rparr>"

definition answering :: "ValidatorExecutor \<Rightarrow> string \<Rightarrow> string \<times> string \<Rightarrow> gotime \<Rightarrow> string set" where
  "answering v p bq day =
     src_Name ` set (filter (\<lambda>s. src_Supports s (day_request p bq day) \<and> \<not> isl (src_FetchCandles s (day_request p bq day))) (v_sources v))"

lemma collect_sources_keys:
  "distinct (gm_keys m) \<Longrightarrow> distinct (gm_keys (fst (collect_sources req ss m n))) \<and>
     set (gm_keys (fst (collect_sources req ss m n))) =
       set (gm_keys m) \<union> src_Name ` set (filter (\<lambda>s. src_Supports s req \<and> \<not> isl (src_FetchCandles s req)) ss)"
  by (induction ss arbitrary: m n) (auto simp: distinct_gm_keys_put split: sum.splits)

lemma collect_sources_length:
  "length (fst (collect_sources (day_request p bq day) (v_sources v) [] 0)) = card (answering v p bq day)"
proof -
  let ?m = "fst (collect_sources (day_request p bq day) (v_sources v) [] 0)"
  have "distinct (gm_keys ?m)" "set (gm_keys ?m) = answering v p bq day"
    using collect_sources_keys [of "[]" "day_request p bq day" "v_sources v" 0] by (simp_all add: gm_keys_def answering_def)
  from distinct_card [OF this(1)] this(2) show ?thesis by (simp add: gm_keys_def)
qed

lemma verifyDay_undersourced:
  assumes "ParsePairSymbol p = Inr bq" "int (card (answering v p bq day)) < minSources v"
  shows "day_err (verifyDay v p day) = None"
  using assms collect_sources_length [of p bq day v]
  by (simp add: verifyDay_def day_request_def prod.case_eq_if Let_def)

definition day_verified :: "string \<Rightarrow> integrity_row list \<Rightarrow> gotime \<Rightarrow> bool" where
  "day_verified p rs day \<longleftrightarrow> (\<exists>r\<in>set rs. ir_PairSymbol r = p \<and> ir_Verified r \<and> fmt_day (ir_Day r) = fmt_day day)"

lemma fmt_day_trunc: "fmt_day (trunc_time t (24 * Hour)) = fmt_day t"
proof -
  have "(t - t mod Day) div Day = t div Day" by (simp add: minus_mod_eq_mult_div)
  then show ?thesis by (simp add: fmt_day_inj trunc_time_def Day_def)
qed

lemma set_upsert_row: "set (sql_upsert key row (\<lambda>_. row) rs) = insert row {r \<in> set rs. key r \<noteq> key row}"
  by (auto simp: sql_upsert_def set_sql_update) (metis imageI)

lemma record_verified:
  "fst (RecordResult None (verified_result p day n) rs) = Inr ()"
  "day_verified p rs d \<or> fmt_day d = fmt_day day \<Longrightarrow> day_verified p (snd (RecordResult None (verified_result p day n) rs)) d"
proof -
  let ?row = "(verified_result p day n)\<lparr>ir_Day := trunc_time day (24 * Hour)\<rparr>"
  have rs': "snd (RecordResult None (verified_result p day n) rs) = sql_upsert ir_key ?row (\<lambda>_. ?row) rs"
    by (simp add: RecordResult_def verified_result_def Let_def)
  have key: "ir_Day ?row = trunc_time day (24 * Hour)" "ir_PairSymbol ?row = p" "ir_Verified ?row" by (simp_all add: verified_result_def)
  assume "day_verified p rs d \<or> fmt_day d = fmt_day day"
  then have "(\<exists>r\<in>set rs. ir_PairSymbol r = p \<and> ir_Verified r \<and> fmt_day (ir_Day r) = fmt_day d \<and> ir_key r \<noteq> ir_key ?row) \<or>
      fmt_day (ir_Day ?row) = fmt_day d"
    unfolding day_verified_def key fmt_day_trunc by (metis key(1) fmt_day_trunc ir_key_def prod.inject)
  then show "day_verified p (snd (RecordResult None (verified_result p day n) rs)) d"
    unfolding rs' day_verified_def set_upsert_row using key(2,3) by blast
qed (simp add: RecordResult_def Let_def)

lemma validator_loop_verifies:
  assumes "x_loop env = (\<lambda>_ _. None)" "\<forall>day\<in>set days. day_err (verifyDay v p day) = None"
    "n + int (length days) \<le> v_maxDaysPerRun v" "\<forall>day\<in>set days. fmt_day day \<in> set ver \<longrightarrow> day_verified p (integrity w) day"
  shows "\<exists>w'. validator_loop env v p ver days n None w = (Inr None, w') \<and>
    (\<forall>d. day_verified p (integrity w) d \<or> d \<in> set days \<longrightarrow> day_verified p (integrity w') d)"
  using assms(2-)
proof (induction days arbitrary: n w)
  case (Cons day days)
  show ?case
  proof (cases "fmt_day day \<in> set ver")
    case True
    with Cons.IH [of n w] Cons.prems show ?thesis by fastforce
  next
    case False
    let ?r1 = "RecordResult None (verified_result p day 0) (integrity w)"
    let ?r2 = "RecordResult None (verified_result p day (sourcesChecked (verifyDay v p day))) (snd ?r1)"
    define rs' where "rs' = (if v_resultWriter v then snd ?r2 else snd ?r1)"
    have ver: "day_verified p rs' d" if "day_verified p (integrity w) d \<or> fmt_day d = fmt_day day" for d
      using that by (simp add: rs'_def record_verified)
    have "validator_loop env v p ver (day # days) n None w = validator_loop env v p ver days (n + 1) None (w\<lparr>integrity := rs'\<rparr>)"
      using Cons.prems(1,2) False record_verified(1) [of p day]
      by (simp add: assms(1) rs'_def MarkDayVerified_def Let_def prod.case_eq_if)
    moreover have "\<forall>d\<in>set days. fmt_day d \<in> set ver \<longrightarrow> day_verified p rs' d" using Cons.prems(3) ver by simp
    ultimately show ?thesis
      using Cons.IH [of "n + 1" "w\<lparr>integrity := rs'\<rparr>"] Cons.prems(1,2) ver by auto
  qed
qed simp

text \<open>
  A day that too few sources answer for counts as verified. When fewer distinct sources than the required minimum
  answer for the days of a sweep, in particular when none does, and the database does not fail, the integrity
  check succeeds and leaves every day of the sweep recorded as verified, so later sweeps skip it.
\<close>

lemma undersourced_days_verified:
  assumes "t_Type item = TypeDataSanity" "ParsePairSymbol (t_Pair item) = Inr bq"
    and "x_db env 0 = None" "x_loop env = (\<lambda>_ _. None)"
    and "list_all (\<lambda>day. int (card (answering v (t_Pair item) bq day)) < minSources v) (sweep_days item)"
    and "int (length (sweep_days item)) \<le> v_maxDaysPerRun v"
  shows "fst (validator_Execute env v item w) = Inr () \<and>
    list_all (day_verified (t_Pair item) (integrity (snd (validator_Execute env v item w)))) (sweep_days item)"
proof -
  let ?p = "t_Pair item"
  let ?ver = "map (\<lambda>r. fmt_day (ir_Day r)) (filter (\<lambda>r. ir_PairSymbol r = ?p \<and> ir_Verified r) (integrity w))"
  have "\<forall>day\<in>set (sweep_days item). day_err (verifyDay v ?p day) = None"
    using assms(2,5) by (auto simp: list_all_iff intro: verifyDay_undersourced)
  moreover have "\<forall>day\<in>set (sweep_days item). fmt_day day \<in> set ?ver \<longrightarrow> day_verified ?p (integrity w) day"
    by (auto simp: day_verified_def)
  ultimately obtain w' where "validator_loop env v ?p ?ver (sweep_days item) 0 None w = (Inr None, w')"
    "\<forall>d\<in>set (sweep_days item). day_verified ?p (integrity w') d"
    using validator_loop_verifies [OF assms(4), of "sweep_days item" v ?p 0 ?ver w] assms(6) by auto
  then show ?thesis
    using assms(1,3) by (simp add: validator_Execute_def GetAllVerifiedDays_def list_all_iff)
qed

section \<open>A sample\<close>

definition sample_exec :: exec_env where
  "sample_exec = \<lparr>x_now = 0, x_db = (\<lambda>_. None), x_loop = (\<lambda>_ _. None), x_by_source = (\<lambda>cs. cs), x_arrange = (\<lambda>cs. cs), x_publish = None\<rparr>"

definition sample_market :: exec_world where
  "sample_market = \<lparr>market = \<lparr>candles_1h = [], candles_1d = [], raw_candles = []\<rparr>, sync = [], coverage = [], integrity = [],
     notified_pairs = [], published = []\<rparr>"

definition sample_sweep :: "string \<Rightarrow> Task" where
  "sample_sweep typ = new_task ''t'' typ ''BTCUSD'' ''1d'' 0 (24 * Hour)"

theorem gap_validation_never_completes_witness:
  "coverage (fold exec_market
     [DoGap sample_exec (sample_sweep TypeGapValidation),
      DoBackfill sample_exec \<lparr>be_sources = None, be_notifier = False\<rparr> (sample_sweep TypeConsolidate)] sample_market) = []"
  by (subst gap_validation_never_completes) (simp_all add: no_raw_daily_def sample_market_def sample_exec_def)

end
