(* ===== verification/Api_Limiter.thy ===== *)
theory Api_Limiter
  imports Sql
begin

text \<open>
  The request limiter of the API: \<^verbatim>\<open>auth/apiratelimit.go\<close> on top of
  \<^verbatim>\<open>storage/postgres/ratelimit_repository.go\<close>. The state is the table
  \<^verbatim>\<open>api_rate_limit_log\<close>, one row per counted request. A nullable column is an option.
\<close>

record rate_row =
  token_id :: "uuid option"
  user_id :: "uuid option"
  ip_address :: string
  requested_at :: gotime

text \<open>
  \<^verbatim>\<open>formatInterval\<close> prints whole seconds, rounded towards zero; PostgreSQL reads the text back as an
  interval.
\<close>

definition formatInterval :: "duration \<Rightarrow> string" where
  "formatInterval d = show_int (sgn d * (\<bar>d\<bar> div Second)) @ '' seconds''"

definition sql_interval :: "string \<Rightarrow> duration" where
  "sql_interval s =
     (let num = takeWhile (\<lambda>c. c \<noteq> CHR '' '') s
      in (case num of [] \<Rightarrow> 0
          | c # cs \<Rightarrow> if c = CHR ''-'' then - int (read_nat cs) else int (read_nat num)) * Second)"

text \<open>
  \<^verbatim>\<open>CheckAndIncrement\<close> is one statement: the \<^verbatim>\<open>INSERT\<close> of the \<^verbatim>\<open>WITH\<close> clause and
  the \<^verbatim>\<open>SELECT\<close> see the same snapshot, taken before the statement, so the count does not
  include the row that the statement inserts. \<open>err\<close> is the error of the statement, which then inserts
  nothing; \<open>now\<close> is \<^verbatim>\<open>now()\<close> of the database.
\<close>

definition CheckAndIncrement ::
    "string option \<Rightarrow> gotime \<Rightarrow> uuid option \<Rightarrow> uuid option \<Rightarrow> string \<Rightarrow> duration \<Rightarrow> rate_row list \<Rightarrow>
       (string, int) result \<times> rate_row list" where
  "CheckAndIncrement err now tokenID userID ip window log =
     (case err of
        Some e \<Rightarrow> (Inl e, log)
      | None \<Rightarrow>
          (Inr (int (length (filter (\<lambda>r. (sql_eq (token_id r) tokenID \<or> sql_eq (user_id r) userID) \<and>
                 now - sql_interval (formatInterval window) < requested_at r) log))),
           log @ [\<lparr>token_id = tokenID, user_id = userID, ip_address = ip, requested_at = now\<rparr>]))"

definition CheckIPAndIncrement ::
    "string option \<Rightarrow> gotime \<Rightarrow> string \<Rightarrow> duration \<Rightarrow> rate_row list \<Rightarrow> (string, int) result \<times> rate_row list" where
  "CheckIPAndIncrement err now ip window log =
     (case err of
        Some e \<Rightarrow> (Inl e, log)
      | None \<Rightarrow>
          (Inr (int (length (filter (\<lambda>r. ip_address r = ip \<and>
                 now - sql_interval (formatInterval window) < requested_at r) log))),
           log @ [\<lparr>token_id = None, user_id = None, ip_address = ip, requested_at = now\<rparr>]))"

definition PruneExpired :: "string option \<Rightarrow> gotime \<Rightarrow> duration \<Rightarrow> rate_row list \<Rightarrow> (string, nat) result \<times> rate_row list" where
  "PruneExpired err now window log =
     (case err of
        Some e \<Rightarrow> (Inl e, log)
      | None \<Rightarrow>
          let old = (\<lambda>r. requested_at r < now - sql_interval (formatInterval window))
          in (Inr (length (filter old log)), filter (\<lambda>r. \<not> old r) log))"

record APIRateLimitConfig =
  UserLimit :: int
  PremiumLimit :: int
  AdminLimit :: int
  IPLimit :: int
  Window :: duration

definition DefaultAPIRateLimitConfig :: APIRateLimitConfig where
  "DefaultAPIRateLimitConfig = \<lparr>UserLimit = 100, PremiumLimit = 500, AdminLimit = 1000, IPLimit = 200, Window = Minute\<rparr>"

record APIRateLimiter =
  api_tiers :: "string \<rightharpoonup> int"
  ipLimit :: int
  api_window :: duration

definition NewAPIRateLimiter :: "APIRateLimitConfig \<Rightarrow> APIRateLimiter" where
  "NewAPIRateLimiter cfg =
     \<lparr>api_tiers = [''user'' \<mapsto> UserLimit cfg, ''premium'' \<mapsto> PremiumLimit cfg, ''admin'' \<mapsto> AdminLimit cfg],
      ipLimit = IPLimit cfg, api_window = Window cfg\<rparr>"

text \<open>Reading a missing key of a Go map of integers gives 0.\<close>

definition LimitForRole :: "APIRateLimiter \<Rightarrow> string \<Rightarrow> int" where
  "LimitForRole rl role =
     (case api_tiers rl role of
        Some limit \<Rightarrow> limit
      | None \<Rightarrow> (case api_tiers rl ''user'' of Some limit \<Rightarrow> limit | None \<Rightarrow> 0))"

record RateLimitResult =
  Allowed :: bool
  Limit :: int
  Remaining :: int
  ResetAt :: gotime

definition fail_open :: "APIRateLimiter \<Rightarrow> gotime \<Rightarrow> int \<Rightarrow> RateLimitResult" where
  "fail_open rl now limit = \<lparr>Allowed = True, Limit = limit, Remaining = limit, ResetAt = now + api_window rl\<rparr>"

text \<open>
  \<open>clk 0\<close> is \<^verbatim>\<open>time.Now()\<close>, \<open>clk 1\<close> and \<open>clk 2\<close> are \<^verbatim>\<open>now()\<close> in the two statements, whose
  outcomes are \<open>db 1\<close> and \<open>db 2\<close>. The error \<^verbatim>\<open>Check\<close> returns is always nil.
\<close>

definition Check ::
    "db_outcome \<Rightarrow> (nat \<Rightarrow> gotime) \<Rightarrow> APIRateLimiter \<Rightarrow> uuid option \<Rightarrow> uuid option \<Rightarrow> string \<Rightarrow> string \<Rightarrow> rate_row list \<Rightarrow>
       RateLimitResult \<times> rate_row list" where
  "Check db clk rl tokenID userID role ip log =
     (let now = clk 0; limit = LimitForRole rl role
      in case CheckAndIncrement (db 1) (clk 1) tokenID userID ip (api_window rl) log of
           (Inl e, log1) \<Rightarrow> (fail_open rl now limit, log1)
         | (Inr tokenCount, log1) \<Rightarrow>
             case CheckIPAndIncrement (db 2) (clk 2) ip (api_window rl) log1 of
               (Inl e, log2) \<Rightarrow> (fail_open rl now limit, log2)
             | (Inr ipCount, log2) \<Rightarrow>
                 let tokenAllowed = (tokenCount \<le> limit);
                     ipAllowed = (ipCount \<le> ipLimit rl);
                     remaining = (if limit - tokenCount < 0 then 0 else limit - tokenCount);
                     ipRemaining = (if ipLimit rl - ipCount < 0 then 0 else ipLimit rl - ipCount);
                     remaining = (if ipRemaining < remaining then ipRemaining else remaining)
                 in (\<lparr>Allowed = tokenAllowed \<and> ipAllowed, Limit = limit, Remaining = remaining,
                      ResetAt = now + api_window rl\<rparr>, log2))"

section \<open>How many requests a client gets through\<close>

lemma read_show_interval: "0 \<le> n \<Longrightarrow> sql_interval (show_int n @ '' seconds'') = n * Second"
proof -
  assume "0 \<le> n"
  have sp: "CHR '' '' \<notin> set (show_nat (nat n))"
    using show_nat_digits [of "CHR '' ''" "nat n"] by (auto simp: is_digit_char_def)
  have "takeWhile (\<lambda>c. c \<noteq> CHR '' '') (show_nat (nat n) @ '' seconds'') = show_nat (nat n)"
    using sp by (subst takeWhile_append2) auto
  moreover obtain c cs where c: "show_nat (nat n) = c # cs" by (meson neq_Nil_conv show_nat_not_Nil)
  moreover have "c \<noteq> CHR ''-''" using c show_nat_no_minus [of "nat n"] by auto
  moreover have "read_nat (c # cs) = nat n" using c read_show_nat [of "nat n"] by simp
  ultimately show ?thesis using \<open>0 \<le> n\<close> by (simp add: sql_interval_def show_int_def Let_def)
qed

lemma interval_roundtrip: "0 \<le> d \<Longrightarrow> sql_interval (formatInterval d) = d - d mod Second"
  using read_show_interval [of "d div Second"]
  by (cases "d = 0") (simp_all add: formatInterval_def minus_mod_eq_mult_div sgn_if)

text \<open>A request at time \<open>t\<close>, and the log after a list of requests, oldest first.\<close>

definition request :: "APIRateLimiter \<Rightarrow> uuid \<Rightarrow> string \<Rightarrow> string \<Rightarrow> gotime \<Rightarrow> rate_row list \<Rightarrow> RateLimitResult \<times> rate_row list" where
  "request rl u role ip t log = Check no_errors (\<lambda>_. t) rl None (Some u) role ip log"

fun log_after :: "APIRateLimiter \<Rightarrow> uuid \<Rightarrow> string \<Rightarrow> string \<Rightarrow> gotime list \<Rightarrow> rate_row list \<Rightarrow> rate_row list" where
  "log_after rl u role ip [] log = log"
| "log_after rl u role ip (t # ts) log = log_after rl u role ip ts (snd (request rl u role ip t log))"

lemma snd_request:
  "snd (request rl u role ip t log) =
     log @ [\<lparr>token_id = None, user_id = Some u, ip_address = ip, requested_at = t\<rparr>,
            \<lparr>token_id = None, user_id = None, ip_address = ip, requested_at = t\<rparr>]"
  by (simp add: request_def Check_def CheckAndIncrement_def CheckIPAndIncrement_def no_errors_def Let_def)

lemma log_after_eq:
  "log_after rl u role ip ts log =
     log @ concat (map (\<lambda>t. [\<lparr>token_id = None, user_id = Some u, ip_address = ip, requested_at = t\<rparr>,
            \<lparr>token_id = None, user_id = None, ip_address = ip, requested_at = t\<rparr>]) ts)"
  by (induction ts arbitrary: log) (simp_all add: snd_request)

definition user_count :: "uuid \<Rightarrow> gotime \<Rightarrow> rate_row list \<Rightarrow> nat" where
  "user_count u c log = length (filter (\<lambda>r. sql_eq (user_id r) (Some u) \<and> c < requested_at r) log)"

definition ip_count :: "string \<Rightarrow> gotime \<Rightarrow> rate_row list \<Rightarrow> nat" where
  "ip_count ip c log = length (filter (\<lambda>r. ip_address r = ip \<and> c < requested_at r) log)"

lemma counts_log_after:
  "user_count u c (log_after rl u role ip ts log) = user_count u c log + length (filter (\<lambda>t. c < t) ts)"
  "ip_count ip c (log_after rl u role ip ts log) = ip_count ip c log + 2 * length (filter (\<lambda>t. c < t) ts)"
  unfolding log_after_eq by (induction ts) (auto simp: user_count_def ip_count_def sql_eq_def)

lemma Allowed_request:
  assumes "Second \<le> api_window rl"
  shows "Allowed (fst (request rl u role ip now log)) \<longleftrightarrow>
    int (user_count u (now - sql_interval (formatInterval (api_window rl))) log) \<le> LimitForRole rl role \<and>
    int (ip_count ip (now - sql_interval (formatInterval (api_window rl))) log) + 1 \<le> ipLimit rl"
proof -
  have "0 < sql_interval (formatInterval (api_window rl))"
    using assms pos_mod_bound [of Second "api_window rl"] by (simp add: interval_roundtrip)
  then show ?thesis
    by (simp add: request_def Check_def CheckAndIncrement_def CheckIPAndIncrement_def no_errors_def Let_def
        user_count_def ip_count_def add.commute)
qed

text \<open>
  \<^bold>\<open>C28\<close>. With a window of whole seconds, a user who sends all requests from one address and whose address nobody
  else used within the window gets the next request through exactly when at most \<open>limit\<close> of the
  earlier ones lie in the window and twice their number plus one does not exceed the limit by address. So the
  role's limit admits one request more than it says, because the count leaves out the current request, and the
  limit by address admits only half, because every request writes two rows with the address: with the default
  configuration a premium or admin account is refused from its 101st request in a minute on, as an ordinary one.
\<close>

theorem api_requests_admitted:
  assumes "Second \<le> api_window rl" "Second dvd api_window rl"
    "\<forall>r\<in>set log. now - api_window rl < requested_at r \<longrightarrow> ip_address r \<noteq> ip \<and> user_id r \<noteq> Some u"
  shows "Allowed (fst (request rl u role ip now (log_after rl u role ip ts log))) \<longleftrightarrow>
    int (length (filter (\<lambda>t. now - api_window rl < t) ts)) \<le> LimitForRole rl role \<and>
    2 * int (length (filter (\<lambda>t. now - api_window rl < t) ts)) + 1 \<le> ipLimit rl"
proof -
  have w: "sql_interval (formatInterval (api_window rl)) = api_window rl"
    using assms(1,2) by (simp add: interval_roundtrip)
  have "user_count u (now - api_window rl) log = 0" "ip_count ip (now - api_window rl) log = 0"
    using assms(3) by (auto simp: user_count_def ip_count_def sql_eq_def filter_empty_conv split: option.splits)
  with assms(1) show ?thesis by (simp add: Allowed_request w counts_log_after)
qed

theorem api_requests_admitted_witness:
  "let rl = NewAPIRateLimiter DefaultAPIRateLimitConfig
   in Allowed (fst (request rl 7 ''premium'' ''10.0.0.1'' 200 (log_after rl 7 ''premium'' ''10.0.0.1'' (replicate 99 100) []))) \<and>
      \<not> Allowed (fst (request rl 7 ''premium'' ''10.0.0.1'' 200 (log_after rl 7 ''premium'' ''10.0.0.1'' (replicate 100 100) []))) \<and>
      LimitForRole rl ''premium'' = 500"
  using api_requests_admitted [of "NewAPIRateLimiter DefaultAPIRateLimitConfig" "[]" 200 "''10.0.0.1''" 7 "''premium''" "replicate 99 100"]
    api_requests_admitted [of "NewAPIRateLimiter DefaultAPIRateLimitConfig" "[]" 200 "''10.0.0.1''" 7 "''premium''" "replicate 100 100"]
  by (simp add: NewAPIRateLimiter_def DefaultAPIRateLimitConfig_def LimitForRole_def filter_replicate)

text \<open>Deleting old rows never changes a later answer.\<close>

lemma prune_invisible:
  assumes "now \<le> now'"
  shows "fst (request rl u role ip now' (snd (PruneExpired None now (api_window rl) log))) = fst (request rl u role ip now' log)"
proof -
  let ?w = "sql_interval (formatInterval (api_window rl))"
  have flt: "filter (\<lambda>r. P r \<and> now' - ?w < requested_at r) (filter (\<lambda>r. \<not> requested_at r < now - ?w) log) =
      filter (\<lambda>r. P r \<and> now' - ?w < requested_at r) log" for P
    using assms by (auto intro!: filter_cong)
  show ?thesis
    by (simp add: request_def Check_def CheckAndIncrement_def CheckIPAndIncrement_def no_errors_def Let_def PruneExpired_def flt del: filter_filter)
qed

end
