(* ===== verification/Auth_Repo.thy ===== *)
theory Auth_Repo
  imports Sql
begin

text \<open>
  The accounts, sessions and API tokens of \<^verbatim>\<open>auth/types.go\<close> and their PostgreSQL repositories
  (\<^verbatim>\<open>user_repository.go\<close>, \<^verbatim>\<open>session_repository.go\<close>, \<^verbatim>\<open>apitoken_repository.go\<close>). A
  repository method takes the outcome of its database call, \<open>err\<close>, and the table; a method that writes
  returns the new table as well. The keys of the tables are those of migrations 17 and 19: the ids, the email, the
  Google id and the token hashes are unique, and a session or token refers to an existing user.
\<close>

section \<open>Types\<close>

record User =
  u_ID :: uuid
  u_Email :: string
  u_Name :: string
  u_AvatarURL :: string
  u_Role :: string
  u_GoogleID :: "string option"
  u_PasswordHash :: "string option"
  u_HasGoogle :: bool
  u_HasPassword :: bool
  u_Disabled :: bool
  u_MustChangePassword :: bool
  u_CreatedAt :: gotime
  u_UpdatedAt :: gotime

record Session =
  s_ID :: uuid
  s_UserID :: uuid
  s_RefreshTokenHash :: string
  s_ExpiresAt :: gotime
  s_CreatedAt :: gotime
  s_UserAgent :: string

record APIToken =
  t_ID :: uuid
  t_UserID :: uuid
  t_TokenHash :: string
  t_Label :: string
  t_Prefix :: string
  t_CreatedAt :: gotime
  t_LastUsedAt :: "gotime option"
  t_RevokedAt :: "gotime option"
  t_ExpiresAt :: gotime

text \<open>The errors of the package; \<open>Wrapped m e\<close> is \<^verbatim>\<open>fmt.Errorf("m: %w", e)\<close> and \<open>Panic\<close> a run-time panic.\<close>

datatype auth_error =
    ErrInvalidCredentials | ErrRateLimited | ErrIPBlocked | ErrSessionNotFound | ErrSessionExpired | ErrUserNotFound
  | ErrCSRFStateMismatch | ErrOAuthExchange string | ErrOAuthUserInfo string | ErrAccountDisabled
  | ErrInvalidRole | ErrCannotChangeSelfRole | ErrCannotDisableSelf | ErrNoPasswordAuth
  | ErrTokenLimitReached | ErrTokenNotFound | ErrTokenUnauthorized
  | ErrPasswordTooShort | ErrPasswordTooLong | ErrPasswordComplexity "string list"
  | ErrInvalidToken string | ErrMissingClaims
  | ErrNoRows | DbError string | Other string | Wrapped string auth_error | Panic

type_synonym 'a auth_result = "(auth_error, 'a) result"

definition TokenStatus :: "gotime \<Rightarrow> APIToken \<Rightarrow> string" where
  "TokenStatus now t =
     (if t_RevokedAt t \<noteq> None then ''revoked'' else if t_ExpiresAt t < now then ''expired'' else ''active'')"

section \<open>Users\<close>

text \<open>\<^verbatim>\<open>scanUser\<close>: a row as a struct; the two flags are not columns.\<close>

definition set_text :: "string option \<Rightarrow> bool" where
  "set_text s = (case s of None \<Rightarrow> False | Some t \<Rightarrow> t \<noteq> [])"

definition scan_row :: "User \<Rightarrow> User" where
  "scan_row u = u\<lparr>u_HasGoogle := set_text (u_GoogleID u), u_HasPassword := set_text (u_PasswordHash u)\<rparr>"

definition scanUser :: "string option \<Rightarrow> User option \<Rightarrow> User option auth_result" where
  "scanUser err row = (case err of Some e \<Rightarrow> Inl (DbError e) | None \<Rightarrow> Inr (map_option scan_row row))"

definition FindByID :: "string option \<Rightarrow> uuid \<Rightarrow> User list \<Rightarrow> User option auth_result" where
  "FindByID err i us = scanUser err (sql_row u_ID i us)"

definition FindByEmail :: "string option \<Rightarrow> string \<Rightarrow> User list \<Rightarrow> User option auth_result" where
  "FindByEmail err email us = scanUser err (sql_row u_Email email us)"

definition FindByGoogleID :: "string option \<Rightarrow> string \<Rightarrow> User list \<Rightarrow> User option auth_result" where
  "FindByGoogleID err gid us = scanUser err (sql_row u_GoogleID (Some gid) us)"

text \<open>A row that violates a unique key makes the statement fail.\<close>

definition user_conflict :: "User \<Rightarrow> User \<Rightarrow> bool" where
  "user_conflict u r \<longleftrightarrow> u_ID r = u_ID u \<or> u_Email r = u_Email u \<or> sql_eq (u_GoogleID r) (u_GoogleID u)"

definition user_Create :: "string option \<Rightarrow> gotime \<Rightarrow> User \<Rightarrow> User list \<Rightarrow> User auth_result \<times> User list" where
  "user_Create err now u us =
     (case err of
        Some e \<Rightarrow> (Inl (DbError e), us)
      | None \<Rightarrow>
          if list_ex (user_conflict u) us then (Inl (DbError ''unique_violation''), us)
          else (Inr (u\<lparr>u_CreatedAt := now, u_UpdatedAt := now\<rparr>),
                us @ [u\<lparr>u_Disabled := False, u_CreatedAt := now, u_UpdatedAt := now\<rparr>]))"

text \<open>The shape shared by the updates of one row by id: an error, no row (\<^verbatim>\<open>sql.ErrNoRows\<close>), or success.\<close>

definition update_user :: "string option \<Rightarrow> uuid \<Rightarrow> (User \<Rightarrow> User) \<Rightarrow> User list \<Rightarrow> unit auth_result \<times> User list" where
  "update_user err i f us =
     (case err of
        Some e \<Rightarrow> (Inl (DbError e), us)
      | None \<Rightarrow>
          if rows_affected (\<lambda>r. u_ID r = i) us = 0 then (Inl ErrNoRows, us)
          else (Inr (), sql_update (\<lambda>r. u_ID r = i) f us))"

definition user_Update :: "string option \<Rightarrow> gotime \<Rightarrow> User \<Rightarrow> User list \<Rightarrow> User auth_result \<times> User list" where
  "user_Update err now u us =
     (if err = None \<and> u_ID u \<in> u_ID ` set us \<and> list_ex (\<lambda>r. u_ID r \<noteq> u_ID u \<and> user_conflict u r) us then
        (Inl (DbError ''unique_violation''), us)
      else case update_user err (u_ID u)
             (\<lambda>r. r\<lparr>u_Email := u_Email u, u_Name := u_Name u, u_AvatarURL := u_AvatarURL u, u_Role := u_Role u,
                    u_GoogleID := u_GoogleID u, u_PasswordHash := u_PasswordHash u,
                    u_MustChangePassword := u_MustChangePassword u, u_UpdatedAt := now\<rparr>) us of
             (Inl e, us') \<Rightarrow> (Inl e, us')
           | (Inr _, us') \<Rightarrow> (Inr (u\<lparr>u_UpdatedAt := now\<rparr>), us'))"

definition UpdatePasswordHash ::
    "string option \<Rightarrow> gotime \<Rightarrow> uuid \<Rightarrow> string \<Rightarrow> bool \<Rightarrow> User list \<Rightarrow> unit auth_result \<times> User list" where
  "UpdatePasswordHash err now i hash mustChange =
     update_user err i (\<lambda>r. r\<lparr>u_PasswordHash := Some hash, u_MustChangePassword := mustChange, u_UpdatedAt := now\<rparr>)"

definition repo_UpdateRole :: "string option \<Rightarrow> gotime \<Rightarrow> uuid \<Rightarrow> string \<Rightarrow> User list \<Rightarrow> unit auth_result \<times> User list" where
  "repo_UpdateRole err now i role = update_user err i (\<lambda>r. r\<lparr>u_Role := role, u_UpdatedAt := now\<rparr>)"

definition repo_UpdateDisabled :: "string option \<Rightarrow> gotime \<Rightarrow> uuid \<Rightarrow> bool \<Rightarrow> User list \<Rightarrow> unit auth_result \<times> User list" where
  "repo_UpdateDisabled err now i dis = update_user err i (\<lambda>r. r\<lparr>u_Disabled := dis, u_UpdatedAt := now\<rparr>)"

definition SetMustChangePassword :: "string option \<Rightarrow> gotime \<Rightarrow> uuid \<Rightarrow> bool \<Rightarrow> User list \<Rightarrow> unit auth_result \<times> User list" where
  "SetMustChangePassword err now i mustChange = update_user err i (\<lambda>r. r\<lparr>u_MustChangePassword := mustChange, u_UpdatedAt := now\<rparr>)"

text \<open>
  \<^verbatim>\<open>ListWithFilters\<close>: the pattern match \<^verbatim>\<open>ILIKE\<close> of the database is the argument \<open>ilike\<close>
  (text, pattern), the ordering by \<^verbatim>\<open>created_at DESC\<close> the argument \<open>srt\<close>.
\<close>

definition user_matches :: "(string \<Rightarrow> string \<Rightarrow> bool) \<Rightarrow> string \<Rightarrow> string \<Rightarrow> string \<Rightarrow> User \<Rightarrow> bool" where
  "user_matches ilike search role status u \<longleftrightarrow>
     (search = [] \<or> ilike (u_Email u) (''%'' @ search @ ''%'') \<or> ilike (u_Name u) (''%'' @ search @ ''%'')) \<and>
     (role = [] \<or> u_Role u = role) \<and>
     (if status = ''active'' then \<not> u_Disabled u else if status = ''disabled'' then u_Disabled u else True)"

definition ListWithFilters ::
    "(string \<Rightarrow> string \<Rightarrow> bool) \<Rightarrow> User sorting \<Rightarrow> string option \<Rightarrow> string \<Rightarrow> string \<Rightarrow> string \<Rightarrow> int \<Rightarrow> int \<Rightarrow> User list \<Rightarrow>
       (User list \<times> nat) auth_result" where
  "ListWithFilters ilike srt err search role status limit offset us =
     (case err of
        Some e \<Rightarrow> Inl (DbError e)
      | None \<Rightarrow>
          let found = filter (user_matches ilike search role status) us;
              page = map scan_row (sql_page limit offset (srt (\<lambda>u. (- u_CreatedAt u, 0, 0, 0)) found))
          in Inr (page, if page = [] then 0 else length found))"

section \<open>Sessions\<close>

definition session_Create :: "string option \<Rightarrow> gotime \<Rightarrow> Session \<Rightarrow> User list \<Rightarrow> Session list \<Rightarrow> Session auth_result \<times> Session list" where
  "session_Create err now s us ss =
     (case err of
        Some e \<Rightarrow> (Inl (DbError e), ss)
      | None \<Rightarrow>
          if list_ex (\<lambda>r. s_ID r = s_ID s \<or> s_RefreshTokenHash r = s_RefreshTokenHash s) ss then
            (Inl (DbError ''unique_violation''), ss)
          else if s_UserID s \<notin> u_ID ` set us then (Inl (DbError ''foreign_key_violation''), ss)
          else (Inr (s\<lparr>s_CreatedAt := now\<rparr>), ss @ [s\<lparr>s_CreatedAt := now\<rparr>]))"

definition FindByTokenHash :: "string option \<Rightarrow> string \<Rightarrow> Session list \<Rightarrow> Session option auth_result" where
  "FindByTokenHash err h ss = (case err of Some e \<Rightarrow> Inl (DbError e) | None \<Rightarrow> Inr (sql_row s_RefreshTokenHash h ss))"

definition session_Delete :: "string option \<Rightarrow> uuid \<Rightarrow> Session list \<Rightarrow> unit auth_result \<times> Session list" where
  "session_Delete err i ss = (case err of Some e \<Rightarrow> (Inl (DbError e), ss) | None \<Rightarrow> (Inr (), sql_delete (\<lambda>r. s_ID r = i) ss))"

definition DeleteAllForUser :: "string option \<Rightarrow> uuid \<Rightarrow> Session list \<Rightarrow> unit auth_result \<times> Session list" where
  "DeleteAllForUser err i ss = (case err of Some e \<Rightarrow> (Inl (DbError e), ss) | None \<Rightarrow> (Inr (), sql_delete (\<lambda>r. s_UserID r = i) ss))"

definition DeleteExpired :: "string option \<Rightarrow> gotime \<Rightarrow> Session list \<Rightarrow> nat auth_result \<times> Session list" where
  "DeleteExpired err now ss =
     (case err of
        Some e \<Rightarrow> (Inl (DbError e), ss)
      | None \<Rightarrow> (Inr (rows_affected (\<lambda>r. s_ExpiresAt r < now) ss), sql_delete (\<lambda>r. s_ExpiresAt r < now) ss))"

section \<open>API tokens\<close>

definition token_Create :: "string option \<Rightarrow> gotime \<Rightarrow> APIToken \<Rightarrow> User list \<Rightarrow> APIToken list \<Rightarrow> APIToken auth_result \<times> APIToken list" where
  "token_Create err now t us ts =
     (case err of
        Some e \<Rightarrow> (Inl (DbError e), ts)
      | None \<Rightarrow>
          if list_ex (\<lambda>r. t_ID r = t_ID t \<or> t_TokenHash r = t_TokenHash t) ts then (Inl (DbError ''unique_violation''), ts)
          else if t_UserID t \<notin> u_ID ` set us then (Inl (DbError ''foreign_key_violation''), ts)
          else (Inr (t\<lparr>t_CreatedAt := now\<rparr>), ts @ [t\<lparr>t_CreatedAt := now, t_LastUsedAt := None, t_RevokedAt := None\<rparr>]))"

definition token_FindByTokenHash :: "string option \<Rightarrow> string \<Rightarrow> APIToken list \<Rightarrow> APIToken option auth_result" where
  "token_FindByTokenHash err h ts = (case err of Some e \<Rightarrow> Inl (DbError e) | None \<Rightarrow> Inr (sql_row t_TokenHash h ts))"

definition ListByUserID :: "APIToken sorting \<Rightarrow> string option \<Rightarrow> uuid \<Rightarrow> APIToken list \<Rightarrow> APIToken list auth_result" where
  "ListByUserID srt err i ts =
     (case err of
        Some e \<Rightarrow> Inl (DbError e)
      | None \<Rightarrow> Inr (srt (\<lambda>t. (- t_CreatedAt t, 0, 0, 0)) (filter (\<lambda>t. t_UserID t = i) ts)))"

definition token_active :: "gotime \<Rightarrow> uuid \<Rightarrow> APIToken \<Rightarrow> bool" where
  "token_active now i t \<longleftrightarrow> t_UserID t = i \<and> t_RevokedAt t = None \<and> now < t_ExpiresAt t"

definition CountActiveByUserID :: "string option \<Rightarrow> gotime \<Rightarrow> uuid \<Rightarrow> APIToken list \<Rightarrow> nat auth_result" where
  "CountActiveByUserID err now i ts =
     (case err of Some e \<Rightarrow> Inl (DbError e) | None \<Rightarrow> Inr (length (filter (token_active now i) ts)))"

definition Revoke :: "db_outcome \<Rightarrow> gotime \<Rightarrow> uuid \<Rightarrow> uuid \<Rightarrow> APIToken list \<Rightarrow> unit auth_result \<times> APIToken list" where
  "Revoke db now i uid ts =
     (case db 0 of
        Some e \<Rightarrow> (Inl (DbError e), ts)
      | None \<Rightarrow>
          case find (\<lambda>r. t_ID r = i \<and> t_UserID r = uid) ts of
            None \<Rightarrow> (Inl ErrTokenNotFound, ts)
          | Some r \<Rightarrow>
              if t_RevokedAt r \<noteq> None then (Inr (), ts)
              else case db 1 of
                     Some e \<Rightarrow> (Inl (DbError e), ts)
                   | None \<Rightarrow> (Inr (), sql_update (\<lambda>r. t_ID r = i \<and> t_UserID r = uid) (\<lambda>r. r\<lparr>t_RevokedAt := Some now\<rparr>) ts))"

definition UpdateLastUsedAt :: "string option \<Rightarrow> uuid \<Rightarrow> gotime \<Rightarrow> APIToken list \<Rightarrow> unit auth_result \<times> APIToken list" where
  "UpdateLastUsedAt err i t ts =
     (case err of
        Some e \<Rightarrow> (Inl (DbError e), ts)
      | None \<Rightarrow> (Inr (), sql_update (\<lambda>r. t_ID r = i) (\<lambda>r. r\<lparr>t_LastUsedAt := Some t\<rparr>) ts))"

section \<open>Keys\<close>

definition users_ok :: "User list \<Rightarrow> bool" where
  "users_ok us \<longleftrightarrow> distinct (map u_ID us) \<and> distinct (map u_Email us)"

definition sessions_ok :: "User list \<Rightarrow> Session list \<Rightarrow> bool" where
  "sessions_ok us ss \<longleftrightarrow> distinct (map s_ID ss) \<and> distinct (map s_RefreshTokenHash ss) \<and> s_UserID ` set ss \<subseteq> u_ID ` set us"

lemma scan_row_simps [simp]:
  "u_ID (scan_row u) = u_ID u" "u_Email (scan_row u) = u_Email u" "u_Role (scan_row u) = u_Role u"
  "u_Disabled (scan_row u) = u_Disabled u" "u_PasswordHash (scan_row u) = u_PasswordHash u"
  "u_GoogleID (scan_row u) = u_GoogleID u"
  by (simp_all add: scan_row_def)

lemma FindByID_Inr: "FindByID err i us = Inr r \<longleftrightarrow> err = None \<and> r = map_option scan_row (sql_row u_ID i us)"
  by (auto simp: FindByID_def scanUser_def split: option.split)

lemma FindByEmail_Inr: "FindByEmail err e us = Inr r \<longleftrightarrow> err = None \<and> r = map_option scan_row (sql_row u_Email e us)"
  by (auto simp: FindByEmail_def scanUser_def split: option.split)

lemma FindByGoogleID_Inr: "FindByGoogleID err e us = Inr r \<longleftrightarrow> err = None \<and> r = map_option scan_row (sql_row u_GoogleID (Some e) us)"
  by (auto simp: FindByGoogleID_def scanUser_def split: option.split)

lemma update_user_Inr:
  "fst (update_user err i f us) = Inr x \<Longrightarrow> snd (update_user err i f us) = sql_update (\<lambda>r. u_ID r = i) f us \<and> i \<in> u_ID ` set us"
  by (auto simp: update_user_def rows_affected_def filter_empty_conv split: option.splits if_splits)

lemma snd_update_user:
  "snd (update_user err i f us) = us \<or> snd (update_user err i f us) = sql_update (\<lambda>r. u_ID r = i) f us"
  by (auto simp: update_user_def split: option.split)

lemma sessions_ok_delete: "sessions_ok us ss \<Longrightarrow> sessions_ok us (sql_delete P ss)"
  by (auto simp: sessions_ok_def distinct_sql_delete set_sql_delete)

lemma session_Create_ok:
  "sessions_ok us ss \<Longrightarrow> sessions_ok us (snd (session_Create err now s us ss))"
  by (auto simp: sessions_ok_def session_Create_def list_ex_iff split: option.split)

lemma sessions_ok_users:
  "sessions_ok us ss \<Longrightarrow> u_ID ` set us \<subseteq> u_ID ` set us' \<Longrightarrow> sessions_ok us' ss"
  unfolding sessions_ok_def by blast

end
