(* ===== verification/Login_Limiter.thy ===== *)
theory Login_Limiter
  imports Go_Time
begin

text \<open>
  \<^verbatim>\<open>auth/ratelimit.go\<close>: the in-memory limiter of login attempts. Every method holds the mutex, so
  a method is one step on the limiter's state; \<open>now\<close> is the clock during that step. The two maps of
  attempts are maps from keys to lists of times, oldest first.
\<close>

record ipBanTier =
  threshold :: int
  ban_duration :: duration

definition defaultIPBanTiers :: "ipBanTier list" where
  "defaultIPBanTiers = [\<lparr>threshold = 20, ban_duration = 15 * Minute\<rparr>, \<lparr>threshold = 40, ban_duration = 30 * Minute\<rparr>,
     \<lparr>threshold = 60, ban_duration = 1 * Hour\<rparr>]"

record ipBanState =
  bannedAt :: gotime
  tier :: nat

record RateLimiter =
  attempts :: "string \<Rightarrow> gotime list option"
  ipAttempts :: "string \<Rightarrow> gotime list option"
  ipBans :: "string \<Rightarrow> ipBanState option"
  maxAttempts :: int
  window :: duration
  ipBanTiers :: "ipBanTier list"

definition NewRateLimiter :: "int \<Rightarrow> duration \<Rightarrow> RateLimiter" where
  "NewRateLimiter mx w = \<lparr>attempts = (\<lambda>_. None), ipAttempts = (\<lambda>_. None), ipBans = (\<lambda>_. None),
     maxAttempts = mx, window = w, ipBanTiers = defaultIPBanTiers\<rparr>"

definition entries_of :: "(string \<Rightarrow> gotime list option) \<Rightarrow> string \<Rightarrow> gotime list" where
  "entries_of m k = (case m k of None \<Rightarrow> [] | Some ts \<Rightarrow> ts)"

text \<open>\<^verbatim>\<open>pruneExpired\<close> and \<^verbatim>\<open>pruneIPExpired\<close> do the same on their own maps.\<close>

definition prune_map :: "gotime \<Rightarrow> duration \<Rightarrow> string \<Rightarrow> (string \<Rightarrow> gotime list option) \<Rightarrow> string \<Rightarrow> gotime list option" where
  "prune_map now w k m =
     (case m k of
        None \<Rightarrow> m
      | Some entries \<Rightarrow>
          let rest = dropWhile (\<lambda>t. t < now + - w) entries
          in if rest = [] then m(k := None) else m(k \<mapsto> rest))"

definition pruneExpired :: "gotime \<Rightarrow> string \<Rightarrow> RateLimiter \<Rightarrow> RateLimiter" where
  "pruneExpired now email rl = rl\<lparr>attempts := prune_map now (window rl) email (attempts rl)\<rparr>"

definition pruneIPExpired :: "gotime \<Rightarrow> string \<Rightarrow> RateLimiter \<Rightarrow> RateLimiter" where
  "pruneIPExpired now ip rl = rl\<lparr>ipAttempts := prune_map now (window rl) ip (ipAttempts rl)\<rparr>"

definition Allow :: "gotime \<Rightarrow> string \<Rightarrow> RateLimiter \<Rightarrow> bool \<times> RateLimiter" where
  "Allow now email rl =
     (let rl' = pruneExpired now email rl
      in (int (length (entries_of (attempts rl') email)) < maxAttempts rl', rl'))"

definition Record :: "gotime \<Rightarrow> string \<Rightarrow> RateLimiter \<Rightarrow> RateLimiter" where
  "Record now email rl =
     (let rl' = pruneExpired now email rl
      in rl'\<lparr>attempts := (attempts rl')(email \<mapsto> entries_of (attempts rl') email @ [now])\<rparr>)"

definition Reset :: "string \<Rightarrow> RateLimiter \<Rightarrow> RateLimiter" where
  "Reset email rl = rl\<lparr>attempts := (attempts rl)(email := None)\<rparr>"

definition ban_active :: "gotime \<Rightarrow> RateLimiter \<Rightarrow> ipBanState \<Rightarrow> bool" where
  "ban_active now rl ban \<longleftrightarrow>
     tier ban < length (ipBanTiers rl) \<and> now < bannedAt ban + ban_duration (ipBanTiers rl ! tier ban)"

text \<open>The loop from the highest tier down; \<open>i\<close> tiers are still to be looked at.\<close>

fun ban_tier :: "int \<Rightarrow> ipBanTier list \<Rightarrow> nat \<Rightarrow> nat option" where
  "ban_tier cnt tiers 0 = None"
| "ban_tier cnt tiers (Suc i) = (if cnt \<ge> threshold (tiers ! i) then Some i else ban_tier cnt tiers i)"

definition AllowIP :: "gotime \<Rightarrow> string \<Rightarrow> RateLimiter \<Rightarrow> bool \<times> RateLimiter" where
  "AllowIP now ip rl =
     (if (case ipBans rl ip of None \<Rightarrow> False | Some ban \<Rightarrow> ban_active now rl ban) then (False, rl)
      else
        let rl1 = pruneIPExpired now ip (rl\<lparr>ipBans := (ipBans rl)(ip := None)\<rparr>);
            cnt = int (length (entries_of (ipAttempts rl1) ip))
        in case ban_tier cnt (ipBanTiers rl1) (length (ipBanTiers rl1)) of
             Some i \<Rightarrow> (False, rl1\<lparr>ipBans := (ipBans rl1)(ip \<mapsto> \<lparr>bannedAt = now, tier = i\<rparr>)\<rparr>)
           | None \<Rightarrow> (True, rl1))"

definition RecordIP :: "gotime \<Rightarrow> string \<Rightarrow> RateLimiter \<Rightarrow> RateLimiter" where
  "RecordIP now ip rl =
     (let rl' = pruneIPExpired now ip rl
      in rl'\<lparr>ipAttempts := (ipAttempts rl')(ip \<mapsto> entries_of (ipAttempts rl') ip @ [now])\<rparr>)"

definition ResetIP :: "string \<Rightarrow> RateLimiter \<Rightarrow> RateLimiter" where
  "ResetIP ip rl = rl\<lparr>ipAttempts := (ipAttempts rl)(ip := None), ipBans := (ipBans rl)(ip := None)\<rparr>"

section \<open>Lockout by address\<close>

text \<open>
  A client that is asked for permission before each recorded failure never reaches the second tier: at 20
  failures the address is refused, so no further failure is recorded until old ones leave the window.
\<close>

definition first_tier_only :: "RateLimiter \<Rightarrow> bool" where
  "first_tier_only rl \<longleftrightarrow> ipBanTiers rl = defaultIPBanTiers \<and>
     (\<forall>ip. length (entries_of (ipAttempts rl) ip) \<le> 20 \<and> (\<forall>b. ipBans rl ip = Some b \<longrightarrow> tier b = 0))"

lemma entries_prune_map:
  "entries_of (prune_map now w k m) q = (if q = k then dropWhile (\<lambda>t. t < now - w) (entries_of m q) else entries_of m q)"
  by (auto simp: prune_map_def entries_of_def Let_def dropWhile_eq_Nil_conv [THEN iffD2] split: option.split
      dest!: dropWhile_eq_Nil_conv [THEN iffD1])

lemma entries_prune_map_length: "length (entries_of (prune_map now w k m) q) \<le> length (entries_of m q)"
  by (simp add: entries_prune_map length_dropWhile_le)

lemma ban_tier_default:
  assumes "n \<le> 20"
  shows "ban_tier (int n) defaultIPBanTiers (length defaultIPBanTiers) = (if n < 20 then None else Some 0)"
  using assms by (simp add: defaultIPBanTiers_def numeral_3_eq_3)

lemma AllowIP_first_tier:
  assumes "first_tier_only rl"
  shows "first_tier_only (snd (AllowIP now ip rl))"
    and "fst (AllowIP now ip rl) \<Longrightarrow> length (entries_of (ipAttempts (snd (AllowIP now ip rl))) ip) < 20"
proof -
  let ?rl = "pruneIPExpired now ip (rl\<lparr>ipBans := (ipBans rl)(ip := None)\<rparr>)"
  let ?n = "length (entries_of (ipAttempts ?rl) ip)"
  have len: "length (entries_of (ipAttempts ?rl) q) \<le> 20" for q
    using assms entries_prune_map_length [of now "window rl" ip "ipAttempts rl" q]
    by (auto simp: first_tier_only_def pruneIPExpired_def intro: order_trans)
  have tiers: "ipBanTiers ?rl = defaultIPBanTiers" "ipBans ?rl = (ipBans rl)(ip := None)"
    using assms by (auto simp: first_tier_only_def pruneIPExpired_def)
  have eq: "AllowIP now ip rl = (if (case ipBans rl ip of None \<Rightarrow> False | Some ban \<Rightarrow> ban_active now rl ban) then (False, rl)
      else if ?n < 20 then (True, ?rl) else (False, ?rl\<lparr>ipBans := (ipBans ?rl)(ip \<mapsto> \<lparr>bannedAt = now, tier = 0\<rparr>)\<rparr>))"
    unfolding AllowIP_def Let_def tiers ban_tier_default [OF len] by auto
  show "first_tier_only (snd (AllowIP now ip rl))"
    using assms len tiers unfolding eq by (auto simp: first_tier_only_def split: if_splits)
  show "length (entries_of (ipAttempts (snd (AllowIP now ip rl))) ip) < 20" if "fst (AllowIP now ip rl)"
    using that unfolding eq by (auto split: if_splits)
qed

lemma entries_RecordIP:
  "entries_of (ipAttempts (RecordIP now ip rl)) q =
     (if q = ip then dropWhile (\<lambda>t. t < now - window rl) (entries_of (ipAttempts rl) q) @ [now] else entries_of (ipAttempts rl) q)"
  using entries_prune_map [of now "window rl" ip "ipAttempts rl" q]
  by (auto simp: RecordIP_def pruneIPExpired_def Let_def entries_of_def)

lemma RecordIP_first_tier:
  assumes "first_tier_only rl" "length (entries_of (ipAttempts rl) ip) < 20"
  shows "first_tier_only (RecordIP now ip rl)"
  using assms length_dropWhile_le [of "\<lambda>t. t < now - window rl" "entries_of (ipAttempts rl) ip"]
  unfolding first_tier_only_def entries_RecordIP by (simp add: RecordIP_def pruneIPExpired_def Let_def)

lemma first_tier_only_simps [simp]:
  "first_tier_only (NewRateLimiter mx w)"
  "first_tier_only rl \<Longrightarrow> first_tier_only (ResetIP ip rl)"
  "first_tier_only (Record now e rl) = first_tier_only rl"
  "first_tier_only (snd (Allow now e rl)) = first_tier_only rl"
  "first_tier_only (Reset e rl) = first_tier_only rl"
  by (auto simp: first_tier_only_def NewRateLimiter_def ResetIP_def Record_def Allow_def Reset_def pruneExpired_def
      Let_def entries_of_def)

lemma ipAttempts_simps [simp]:
  "ipAttempts (Record now e rl) = ipAttempts rl"
  "ipAttempts (snd (Allow now e rl)) = ipAttempts rl"
  by (simp_all add: Record_def Allow_def pruneExpired_def Let_def)

section \<open>The sliding window\<close>

text \<open>
  The specification keeps every failure since the last reset and counts those inside the window. The
  implementation drops expired times as it goes along.
\<close>

datatype login_event = Failed gotime string | Asked gotime string | Succeeded gotime string

fun event_time :: "login_event \<Rightarrow> gotime" where
  "event_time (Failed t e) = t"
| "event_time (Asked t e) = t"
| "event_time (Succeeded t e) = t"

fun run_event :: "login_event \<Rightarrow> RateLimiter \<Rightarrow> RateLimiter" where
  "run_event (Failed t e) rl = Record t e rl"
| "run_event (Asked t e) rl = snd (Allow t e rl)"
| "run_event (Succeeded t e) rl = Reset e rl"

fun failures :: "login_event list \<Rightarrow> string \<Rightarrow> gotime list" where
  "failures [] e = []"
| "failures (Failed t e' # evs) e = (if e' = e then failures evs e @ [t] else failures evs e)"
| "failures (Asked t e' # evs) e = failures evs e"
| "failures (Succeeded t e' # evs) e = (if e' = e then [] else failures evs e)"

lemma dropWhile_later: "c \<le> c' \<Longrightarrow> dropWhile (\<lambda>t. t < c') (dropWhile (\<lambda>t. t < (c::int)) ts) = dropWhile (\<lambda>t. t < c') ts"
  by (induction ts) auto

lemma dropWhile_append_sorted:
  "sorted (ts @ [u]) \<Longrightarrow> c \<le> (u::int) \<Longrightarrow> dropWhile (\<lambda>t. t < c) ts @ [u] = dropWhile (\<lambda>t. t < c) (ts @ [u])"
  by (induction ts) auto

lemma dropWhile_sorted_filter: "sorted ts \<Longrightarrow> dropWhile (\<lambda>t. t < (c::int)) ts = filter (\<lambda>t. c \<le> t) ts"
proof (induction ts)
  case (Cons a ts)
  have "filter (\<lambda>t. c \<le> t) ts = ts" if "c \<le> a"
    using that Cons.prems by (force simp: filter_id_conv)
  with Cons show ?case by auto
qed simp

text \<open>Each list is the history cut at some time that is not after the window's start at the last event.\<close>

definition tracks :: "gotime \<Rightarrow> RateLimiter \<Rightarrow> login_event list \<Rightarrow> bool" where
  "tracks now rl evs \<longleftrightarrow>
     (\<forall>e. sorted (failures evs e) \<and> (\<forall>t\<in>set (failures evs e). t \<le> now) \<and>
        (\<exists>c\<le>now - window rl. entries_of (attempts rl) e = dropWhile (\<lambda>t. t < c) (failures evs e)))"

lemma tracks_later: "tracks now rl evs \<Longrightarrow> now \<le> now' \<Longrightarrow> tracks now' rl evs"
  unfolding tracks_def by (meson diff_right_mono order_trans)

lemma run_event_window [simp]: "window (run_event ev rl) = window rl" "maxAttempts (run_event ev rl) = maxAttempts rl"
  by (cases ev; simp add: Record_def Allow_def Reset_def pruneExpired_def Let_def)+

lemma entries_run_event:
  "entries_of (attempts (run_event (Failed t e') rl)) e =
     (if e = e' then dropWhile (\<lambda>u. u < t - window rl) (entries_of (attempts rl) e) @ [t] else entries_of (attempts rl) e)"
  "entries_of (attempts (run_event (Asked t e') rl)) e =
     (if e = e' then dropWhile (\<lambda>u. u < t - window rl) (entries_of (attempts rl) e) else entries_of (attempts rl) e)"
  "entries_of (attempts (run_event (Succeeded t e') rl)) e = (if e = e' then [] else entries_of (attempts rl) e)"
  using entries_prune_map [of t "window rl" e' "attempts rl"]
  by (auto simp: Record_def Allow_def Reset_def pruneExpired_def Let_def entries_of_def)

lemma tracks_run_event:
  assumes "tracks (event_time ev) rl evs" "0 \<le> window rl"
  shows "tracks (event_time ev) (run_event ev rl) (ev # evs)"
proof -
  let ?now = "event_time ev"
  have "sorted (failures (ev # evs) e) \<and> (\<forall>t\<in>set (failures (ev # evs) e). t \<le> ?now) \<and>
      (\<exists>c\<le>?now - window rl. entries_of (attempts (run_event ev rl)) e = dropWhile (\<lambda>t. t < c) (failures (ev # evs) e))" for e
  proof -
    obtain c where h: "sorted (failures evs e)" "\<forall>t\<in>set (failures evs e). t \<le> ?now" "c \<le> ?now - window rl"
      "entries_of (attempts rl) e = dropWhile (\<lambda>t. t < c) (failures evs e)"
      using assms(1) unfolding tracks_def by blast
    show ?thesis
    proof (cases ev)
      case (Failed t e')
      have srt: "sorted (failures evs e @ [t])" using h(1,2) Failed by (simp add: sorted_append)
      then have *: "dropWhile (\<lambda>u. u < t - window rl) (failures evs e) @ [t] = dropWhile (\<lambda>u. u < t - window rl) (failures evs e @ [t])"
        using assms(2) by (intro dropWhile_append_sorted) auto
      show ?thesis
        using h srt * Failed dropWhile_later [OF h(3), of "failures evs e"]
        by (cases "e = e'") (auto simp: entries_run_event simp del: run_event.simps intro: exI [of _ c] exI [of _ "t - window rl"])
    next
      case (Asked t e')
      then show ?thesis using h dropWhile_later [OF h(3), of "failures evs e"]
        by (cases "e = e'") (auto simp: entries_run_event simp del: run_event.simps intro: exI [of _ c] exI [of _ "t - window rl"])
    next
      case (Succeeded t e')
      then show ?thesis using h by (cases "e = e'") (auto simp: entries_run_event simp del: run_event.simps intro: exI [of _ c])
    qed
  qed
  then show ?thesis by (simp add: tracks_def)
qed

lemma tracks_run:
  assumes "sorted (map event_time (rev evs))" "0 \<le> w"
  shows "\<forall>now. (\<forall>ev\<in>set evs. event_time ev \<le> now) \<longrightarrow> tracks now (foldr run_event evs (NewRateLimiter mx w)) evs"
    and "window (foldr run_event evs (NewRateLimiter mx w)) = w \<and> maxAttempts (foldr run_event evs (NewRateLimiter mx w)) = mx"
proof -
  show w: "window (foldr run_event evs (NewRateLimiter mx w)) = w \<and> maxAttempts (foldr run_event evs (NewRateLimiter mx w)) = mx" for evs
    by (induction evs) (simp_all add: NewRateLimiter_def)
  show "\<forall>now. (\<forall>ev\<in>set evs. event_time ev \<le> now) \<longrightarrow> tracks now (foldr run_event evs (NewRateLimiter mx w)) evs"
    using assms(1)
  proof (induction evs)
    case Nil
    show ?case by (auto simp: tracks_def NewRateLimiter_def entries_of_def intro: exI [of _ "_ - w"])
  next
    case (Cons ev evs)
    let ?rl = "foldr run_event evs (NewRateLimiter mx w)"
    have "\<forall>e'\<in>set evs. event_time e' \<le> event_time ev" using Cons.prems by (auto simp: sorted_append)
    then have "tracks (event_time ev) ?rl evs" using Cons by (simp add: sorted_append)
    from tracks_run_event [OF this] w [of evs] assms(2) show ?case by (auto intro: tracks_later)
  qed
qed

text \<open>
  \<^bold>\<open>C11\<close>. Whatever attempts, checks and successful logins came before, in time order, an attempt for an email is
  allowed exactly when fewer than the maximum number of failures for that email since its last success lie
  within the window that ends now: pruning never changes an answer.
\<close>

theorem login_window_exact:
  assumes "sorted (map event_time (rev evs))" "\<forall>ev\<in>set evs. event_time ev \<le> now" "0 \<le> w"
  shows "fst (Allow now email (foldr run_event evs (NewRateLimiter mx w))) \<longleftrightarrow>
    int (length (filter (\<lambda>t. now - w \<le> t) (failures evs email))) < mx"
proof -
  let ?rl = "foldr run_event evs (NewRateLimiter mx w)"
  have w: "window ?rl = w" "maxAttempts ?rl = mx" using tracks_run(2) [OF assms(1,3)] by auto
  obtain c where h: "sorted (failures evs email)" "c \<le> now - w" "entries_of (attempts ?rl) email = dropWhile (\<lambda>t. t < c) (failures evs email)"
    using tracks_run(1) [OF assms(1,3), of mx] assms(2) w unfolding tracks_def by metis
  have "entries_of (attempts (pruneExpired now email ?rl)) email = dropWhile (\<lambda>t. t < now - w) (failures evs email)"
    using h(3) w(1) dropWhile_later [OF h(2)] by (simp add: pruneExpired_def entries_prune_map)
  also have "\<dots> = filter (\<lambda>t. now - w \<le> t) (failures evs email)" using h(1) by (rule dropWhile_sorted_filter)
  finally have "entries_of (attempts (pruneExpired now email ?rl)) email = filter (\<lambda>t. now - w \<le> t) (failures evs email)" .
  then show ?thesis using w by (simp add: Allow_def Let_def pruneExpired_def)
qed

theorem login_window_exact_witness:
  "\<not> fst (Allow 10 ''a@b.c'' (foldr run_event [Failed 9 ''a@b.c'', Asked 8 ''a@b.c'', Failed 7 ''a@b.c''] (NewRateLimiter 2 (15 * Minute)))) \<and>
   fst (Allow (10 + 15 * Minute) ''a@b.c'' (foldr run_event [Failed 9 ''a@b.c'', Asked 8 ''a@b.c'', Failed 7 ''a@b.c''] (NewRateLimiter 2 (15 * Minute))))"
  using login_window_exact [of "[Failed 9 ''a@b.c'', Asked 8 ''a@b.c'', Failed 7 ''a@b.c'']" 10 "15 * Minute" "''a@b.c''" 2]
    login_window_exact [of "[Failed 9 ''a@b.c'', Asked 8 ''a@b.c'', Failed 7 ''a@b.c'']" "10 + 15 * Minute" "15 * Minute" "''a@b.c''" 2]
  by simp

end
