(* ===== verification/Auth_Service.thy ===== *)
theory Auth_Service
  imports Auth_Repo Login_Limiter Go_Strings
begin

text \<open>
  The authentication service: \<^verbatim>\<open>auth/service.go\<close>, \<^verbatim>\<open>auth/jwt.go\<close>,
  \<^verbatim>\<open>auth/validation.go\<close>, \<^verbatim>\<open>auth/admin.go\<close> and \<^verbatim>\<open>auth/apitoken.go\<close> over
  the repositories of \<^verbatim>\<open>Auth_Repo\<close> and the limiter of \<^verbatim>\<open>Login_Limiter\<close>. A method
  maps the state to its result and the new state. Calls to structured logging have no effect except that the
  masked email is computed first, which may panic.
\<close>

section \<open>State and environment\<close>

record auth_world =
  users :: "User list"
  sessions :: "Session list"
  api_tokens :: "APIToken list"
  limiter :: RateLimiter

record Claims =
  c_Sub :: string
  c_Email :: string
  c_Role :: string
  c_MustChangePassword :: bool
  c_Subject :: string
  c_IssuedAt :: "gotime option"
  c_ExpiresAt :: "gotime option"

record Config =
  AuthMode :: string
  GoogleClientID :: string
  GoogleClientSecret :: string
  GoogleRedirectURI :: string
  JWTSecret :: string
  JWTExpiry :: duration
  RefreshTokenExpiry :: duration
  BcryptCost :: int
  AdminEmail :: string

record Service =
  cfg :: Config
  minBcryptCost :: int

definition minBcryptCostDefault :: int where "minBcryptCostDefault = 12"

definition NewService :: "Config \<Rightarrow> Service" where
  "NewService c = \<lparr>cfg = c, minBcryptCost = minBcryptCostDefault\<rparr>"

definition initial_limiter :: RateLimiter where
  "initial_limiter = NewRateLimiter 5 (15 * Minute)"

record googleUserInfo =
  g_ID :: string
  g_Email :: string
  g_Name :: string
  g_Picture :: string

text \<open>
  What a call meets: the clock at its successive readings, the outcome of its successive database calls, random
  bytes, a new identifier, and the functions of packages outside the repository (hashing, bcrypt, JWT, Unicode
  classes, Google's two endpoints, the pattern match and the ordering of the database).
\<close>

record auth_env =
  clk :: "nat \<Rightarrow> gotime"
  db :: db_outcome
  rand_read :: "nat \<Rightarrow> (string, nat list) result"
  new_uuid :: uuid
  uuid_string :: "uuid \<Rightarrow> string"
  sha256 :: "string \<Rightarrow> nat list"
  bcrypt_compare :: "string \<Rightarrow> string \<Rightarrow> bool"
  bcrypt_generate :: "string \<Rightarrow> int \<Rightarrow> (string, string) result"
  numeric_date :: "gotime \<Rightarrow> gotime"
  jwt_sign :: "Claims \<Rightarrow> string \<Rightarrow> (string, string) result"
  jwt_parse :: "string \<Rightarrow> (bool \<Rightarrow> (string, string) result) \<Rightarrow> (string, Claims \<times> bool) result"
  runes :: "string \<Rightarrow> nat list"
  IsUpper :: "nat \<Rightarrow> bool"
  IsLower :: "nat \<Rightarrow> bool"
  IsDigit :: "nat \<Rightarrow> bool"
  IsLetter :: "nat \<Rightarrow> bool"
  IsSpace :: "nat \<Rightarrow> bool"
  exchange_code :: "string \<Rightarrow> (string, string) result"
  fetch_userinfo :: "string \<Rightarrow> (string, googleUserInfo) result"
  ilike :: "string \<Rightarrow> string \<Rightarrow> bool"
  usort :: "User sorting"
  tsort :: "APIToken sorting"

section \<open>Helpers\<close>

text \<open>\<^verbatim>\<open>string(b)\<close> of a byte is the UTF-8 encoding of the code point with that number.\<close>

definition byte_string :: "char \<Rightarrow> string" where
  "byte_string c =
     (let n = of_char c :: nat in if n < 128 then [c] else [char_of (192 + n div 64), char_of (128 + n mod 64)])"

text \<open>
  \<^verbatim>\<open>maskEmail\<close>; \<open>None\<close> is the panic of the slice expression \<^verbatim>\<open>local[:1]\<close> on an empty local
  part.
\<close>

definition maskEmail :: "string \<Rightarrow> string option" where
  "maskEmail email =
     (case split2 (CHR ''@'') email of
        [loc, domain] \<Rightarrow>
          if loc = [] then None
          else if length loc \<le> 2 then Some (take 1 loc @ ''***@'' @ domain)
          else Some (byte_string (hd loc) @ ''***'' @ byte_string (last loc) @ ''@'' @ domain)
      | _ \<Rightarrow> Some ''***'')"

definition logged :: "string \<Rightarrow> 'a auth_result \<Rightarrow> auth_world \<Rightarrow> 'a auth_result \<times> auth_world" where
  "logged email r w = (case maskEmail email of None \<Rightarrow> (Inl Panic, w) | Some _ \<Rightarrow> (r, w))"

definition TrimInput :: "string \<Rightarrow> string" where
  "TrimInput s = TrimSpace s"

definition hashToken :: "auth_env \<Rightarrow> string \<Rightarrow> string" where
  "hashToken env raw = hex_encode (sha256 env raw)"

definition generateRandomToken :: "auth_env \<Rightarrow> nat \<Rightarrow> string auth_result" where
  "generateRandomToken env n = (case rand_read env n of Inl e \<Rightarrow> Inl (Other e) | Inr b \<Rightarrow> Inr (base64url b))"

definition password_charset :: string where
  "password_charset = ''abcdefghijklmnopqrstuvwxyzABCDEFGHIJKLMNOPQRSTUVWXYZ0123456789!@#$%^&*''"

definition generateRandomPassword :: "auth_env \<Rightarrow> nat \<Rightarrow> string auth_result" where
  "generateRandomPassword env n =
     (case rand_read env n of
        Inl e \<Rightarrow> Inl (Other e)
      | Inr bs \<Rightarrow> Inr (map (\<lambda>b. password_charset ! (b mod length password_charset)) bs))"

definition DefaultAccessTokenExpiry :: duration where
  "DefaultAccessTokenExpiry = 15 * Minute"

definition IssueAccessToken :: "auth_env \<Rightarrow> gotime \<Rightarrow> User \<Rightarrow> string \<Rightarrow> duration \<Rightarrow> string auth_result" where
  "IssueAccessToken env now u secret expiry0 =
     (let expiry = (if expiry0 \<le> 0 then DefaultAccessTokenExpiry else expiry0);
          claims = \<lparr>c_Sub = uuid_string env (u_ID u), c_Email = u_Email u, c_Role = u_Role u,
                    c_MustChangePassword = u_MustChangePassword u, c_Subject = uuid_string env (u_ID u),
                    c_IssuedAt = Some (numeric_date env now), c_ExpiresAt = Some (numeric_date env (now + expiry))\<rparr>
      in case jwt_sign env claims secret of Inl e \<Rightarrow> Inl (Other e) | Inr t \<Rightarrow> Inr t)"

text \<open>
  \<^verbatim>\<open>ValidateAccessToken\<close>: the key function accepts only tokens signed with an HMAC; the result of parsing
  is the claims and \<^verbatim>\<open>token.Valid\<close>.
\<close>

definition ValidateAccessToken :: "auth_env \<Rightarrow> string \<Rightarrow> string \<Rightarrow> Claims auth_result" where
  "ValidateAccessToken env tok secret =
     (case jwt_parse env tok (\<lambda>is_hmac. if is_hmac then Inr secret else Inl ''unexpected signing method'') of
        Inl e \<Rightarrow> Inl (ErrInvalidToken e)
      | Inr (claims, valid) \<Rightarrow>
          if \<not> valid then Inl (ErrInvalidToken [])
          else if c_Sub claims = [] \<or> c_Email claims = [] \<or> c_Role claims = [] then Inl ErrMissingClaims
          else Inr claims)"

text \<open>\<^verbatim>\<open>ValidatePassword\<close>: lengths count bytes, the classes are those of the runes.\<close>

definition is_special :: "auth_env \<Rightarrow> nat \<Rightarrow> bool" where
  "is_special env r \<longleftrightarrow> \<not> IsUpper env r \<and> \<not> IsLower env r \<and> \<not> IsDigit env r \<and> \<not> IsLetter env r \<and> \<not> IsSpace env r"

definition password_missing :: "auth_env \<Rightarrow> string \<Rightarrow> string list" where
  "password_missing env password =
     (let rs = runes env password
      in (if list_ex (IsUpper env) rs then [] else [''password must contain at least one uppercase letter'']) @
         (if list_ex (\<lambda>r. \<not> IsUpper env r \<and> IsLower env r) rs then [] else [''password must contain at least one lowercase letter'']) @
         (if list_ex (\<lambda>r. \<not> IsUpper env r \<and> \<not> IsLower env r \<and> IsDigit env r) rs then [] else [''password must contain at least one digit'']) @
         (if list_ex (is_special env) rs then [] else [''password must contain at least one special character'']))"

definition ValidatePassword :: "auth_env \<Rightarrow> string \<Rightarrow> unit auth_result" where
  "ValidatePassword env password =
     (if length password < 12 then Inl ErrPasswordTooShort
      else if length password > 128 then Inl ErrPasswordTooLong
      else if password_missing env password \<noteq> [] then Inl (ErrPasswordComplexity (password_missing env password))
      else Inr ())"

section \<open>Sessions\<close>

text \<open>\<^verbatim>\<open>createSession\<close>: \<open>err\<close> is the outcome of the insert, \<open>t\<close> the clock when the session is built.\<close>

definition createSession ::
    "auth_env \<Rightarrow> Service \<Rightarrow> string option \<Rightarrow> gotime \<Rightarrow> uuid \<Rightarrow> string \<Rightarrow> auth_world \<Rightarrow> string auth_result \<times> auth_world" where
  "createSession env s err t userID userAgent w =
     (case generateRandomToken env 32 of
        Inl e \<Rightarrow> (Inl (Wrapped ''generating refresh token'' e), w)
      | Inr rawToken \<Rightarrow>
          (case session_Create err t
             \<lparr>s_ID = new_uuid env, s_UserID = userID, s_RefreshTokenHash = hashToken env rawToken,
              s_ExpiresAt = t + RefreshTokenExpiry (cfg s), s_CreatedAt = 0, s_UserAgent = userAgent\<rparr> (users w) (sessions w) of
             (Inl e, ss) \<Rightarrow> (Inl e, w\<lparr>sessions := ss\<rparr>)
           | (Inr _, ss) \<Rightarrow> (Inr rawToken, w\<lparr>sessions := ss\<rparr>)))"

text \<open>The common end of the three ways to obtain tokens: an access token, a session, a log entry.\<close>

definition issue_tokens ::
    "auth_env \<Rightarrow> Service \<Rightarrow> string \<Rightarrow> string option \<Rightarrow> gotime \<Rightarrow> gotime \<Rightarrow> User \<Rightarrow> string \<Rightarrow> auth_world \<Rightarrow>
       (string \<times> string) auth_result \<times> auth_world" where
  "issue_tokens env s msg err t1 t2 u userAgent w =
     (case IssueAccessToken env t1 u (JWTSecret (cfg s)) (JWTExpiry (cfg s)) of
        Inl e \<Rightarrow> (Inl (Wrapped ''issuing access token'' e), w)
      | Inr access \<Rightarrow>
          (case createSession env s err t2 (u_ID u) userAgent w of
             (Inl e, w') \<Rightarrow> (Inl (Wrapped msg e), w')
           | (Inr refresh, w') \<Rightarrow> logged (u_Email u) (Inr (access, refresh)) w'))"

definition with_user :: "User \<Rightarrow> (string \<times> string) auth_result \<times> auth_world \<Rightarrow> (string \<times> string \<times> User) auth_result \<times> auth_world" where
  "with_user u r = (case r of (Inl e, w) \<Rightarrow> (Inl e, w) | (Inr (a, b), w) \<Rightarrow> (Inr (a, b, u), w))"

definition login_failed :: "auth_env \<Rightarrow> string \<Rightarrow> string \<Rightarrow> auth_world \<Rightarrow> 'a auth_result \<times> auth_world" where
  "login_failed env email ip w =
     logged email (Inl ErrInvalidCredentials)
       (w\<lparr>limiter := RecordIP (clk env 3) ip (Record (clk env 2) email (limiter w))\<rparr>)"

definition LocalLogin ::
    "auth_env \<Rightarrow> Service \<Rightarrow> string \<Rightarrow> string \<Rightarrow> string \<Rightarrow> string \<Rightarrow> auth_world \<Rightarrow> (string \<times> string \<times> User) auth_result \<times> auth_world" where
  "LocalLogin env s email0 password userAgent ip w0 =
     (let email = TrimInput email0;
          (ip_ok, rl1) = AllowIP (clk env 0) ip (limiter w0);
          w1 = w0\<lparr>limiter := rl1\<rparr>
      in if \<not> ip_ok then logged email (Inl ErrIPBlocked) w1
         else
           let (ok, rl2) = Allow (clk env 1) email rl1;
               w2 = w1\<lparr>limiter := rl2\<rparr>
           in if \<not> ok then logged email (Inl ErrRateLimited) w2
              else
                case FindByEmail (db env 0) email (users w2) of
                  Inl e \<Rightarrow> (Inl (Wrapped ''finding user'' e), w2)
                | Inr None \<Rightarrow> login_failed env email ip w2
                | Inr (Some u) \<Rightarrow>
                    (case u_PasswordHash u of
                       None \<Rightarrow> login_failed env email ip w2
                     | Some hash \<Rightarrow>
                         if u_Disabled u then logged email (Inl ErrAccountDisabled) w2
                         else if \<not> bcrypt_compare env hash password then login_failed env email ip w2
                         else with_user u (issue_tokens env s ''creating session'' (db env 1) (clk env 2) (clk env 3) u userAgent
                                (w2\<lparr>limiter := ResetIP ip (Reset email (limiter w2))\<rparr>))))"

text \<open>\<^verbatim>\<open>url.QueryEscape\<close>.\<close>

definition query_char :: "char \<Rightarrow> string" where
  "query_char c =
     (let n = of_char c :: nat
      in if 48 \<le> n \<and> n \<le> 57 \<or> 65 \<le> n \<and> n \<le> 90 \<or> 97 \<le> n \<and> n \<le> 122 \<or> c \<in> set ''-_.~'' then [c]
         else if c = CHR '' '' then ''+''
         else [CHR ''%'', ''0123456789ABCDEF'' ! (n div 16), ''0123456789ABCDEF'' ! (n mod 16)])"

definition query_escape :: "string \<Rightarrow> string" where
  "query_escape s = concat (map query_char s)"

definition googleAuthURL :: string where "googleAuthURL = ''https://accounts.google.com/o/oauth2/v2/auth''"

text \<open>The URL to which a login is redirected, with its state. \<^verbatim>\<open>url.Values\<close> are encoded in the order of their keys.\<close>

definition GoogleLogin :: "auth_env \<Rightarrow> Service \<Rightarrow> (string \<times> string) auth_result" where
  "GoogleLogin env s =
     (case generateRandomToken env 32 of
        Inl e \<Rightarrow> Inl (Wrapped ''generating CSRF state'' e)
      | Inr state \<Rightarrow>
          Inr (googleAuthURL @ ''?client_id='' @ query_escape (GoogleClientID (cfg s)) @ ''&redirect_uri='' @ query_escape (GoogleRedirectURI (cfg s)) @
               ''&response_type=code&scope='' @ query_escape ''openid email profile'' @ ''&state='' @ query_escape state, state))"

definition upsertGoogleUser :: "auth_env \<Rightarrow> googleUserInfo \<Rightarrow> auth_world \<Rightarrow> User auth_result \<times> auth_world" where
  "upsertGoogleUser env info w =
     (case FindByGoogleID (db env 0) (g_ID info) (users w) of
        Inl e \<Rightarrow> (Inl e, w)
      | Inr (Some existing) \<Rightarrow>
          (case user_Update (db env 1) (clk env 1) (existing\<lparr>u_Name := g_Name info, u_AvatarURL := g_Picture info\<rparr>) (users w) of
             (Inl e, us) \<Rightarrow> (Inl e, w\<lparr>users := us\<rparr>)
           | (Inr u, us) \<Rightarrow> (Inr u, w\<lparr>users := us\<rparr>))
      | Inr None \<Rightarrow>
          (case user_Create (db env 1) (clk env 1)
             \<lparr>u_ID = new_uuid env, u_Email = g_Email info, u_Name = g_Name info, u_AvatarURL = g_Picture info, u_Role = ''user'',
              u_GoogleID = Some (g_ID info), u_PasswordHash = None, u_HasGoogle = False, u_HasPassword = False,
              u_Disabled = False, u_MustChangePassword = False, u_CreatedAt = 0, u_UpdatedAt = 0\<rparr> (users w) of
             (Inl e, us) \<Rightarrow> (Inl e, w\<lparr>users := us\<rparr>)
           | (Inr u, us) \<Rightarrow> logged (u_Email u) (Inr u) (w\<lparr>users := us\<rparr>)))"

definition oauth_failed :: "auth_env \<Rightarrow> string \<Rightarrow> auth_error \<Rightarrow> auth_world \<Rightarrow> 'a auth_result \<times> auth_world" where
  "oauth_failed env ip e w =
     (Inl e, if ip = [] then w else w\<lparr>limiter := RecordIP (clk env 0) ip (limiter w)\<rparr>)"

definition GoogleCallback ::
    "auth_env \<Rightarrow> Service \<Rightarrow> string \<Rightarrow> string \<Rightarrow> string \<Rightarrow> string \<Rightarrow> auth_world \<Rightarrow> (string \<times> string \<times> User) auth_result \<times> auth_world" where
  "GoogleCallback env s code state expectedState ip w =
     (if state \<noteq> expectedState then oauth_failed env ip ErrCSRFStateMismatch w
      else case exchange_code env code of
        Inl e \<Rightarrow> oauth_failed env ip (ErrOAuthExchange e) w
      | Inr googleToken \<Rightarrow>
          (case fetch_userinfo env googleToken of
             Inl e \<Rightarrow> oauth_failed env ip (ErrOAuthUserInfo e) w
           | Inr info \<Rightarrow>
               (case upsertGoogleUser env info w of
                  (Inl e, w1) \<Rightarrow> (Inl (if e = Panic then Panic else Wrapped ''upserting Google user'' e), w1)
                | (Inr u, w1) \<Rightarrow>
                    if u_Disabled u then logged (u_Email u) (Inl ErrAccountDisabled) w1
                    else with_user u (issue_tokens env s ''creating session'' (db env 2) (clk env 2) (clk env 3) u [] w1))))"

definition RefreshToken :: "auth_env \<Rightarrow> Service \<Rightarrow> string \<Rightarrow> string \<Rightarrow> auth_world \<Rightarrow> (string \<times> string) auth_result \<times> auth_world" where
  "RefreshToken env s rawRefreshToken userAgent w =
     (case FindByTokenHash (db env 0) (hashToken env rawRefreshToken) (sessions w) of
        Inl e \<Rightarrow> (Inl (Wrapped ''finding session'' e), w)
      | Inr None \<Rightarrow> (Inl ErrSessionNotFound, w)
      | Inr (Some session) \<Rightarrow>
          (case session_Delete (db env 1) (s_ID session) (sessions w) of (del, ss) \<Rightarrow>
             let w1 = w\<lparr>sessions := ss\<rparr>
             in if s_ExpiresAt session < clk env 0 then (Inl ErrSessionExpired, w1)
                else case del of
                  Inl e \<Rightarrow> (Inl (Wrapped ''deleting old session'' e), w1)
                | Inr _ \<Rightarrow>
                    (case FindByID (db env 2) (s_UserID session) (users w1) of
                       Inl e \<Rightarrow> (Inl (Wrapped ''finding user'' e), w1)
                     | Inr None \<Rightarrow> (Inl ErrUserNotFound, w1)
                     | Inr (Some u) \<Rightarrow>
                         if u_Disabled u then logged (u_Email u) (Inl ErrAccountDisabled) w1
                         else issue_tokens env s ''creating new session'' (db env 3) (clk env 1) (clk env 2) u userAgent w1)))"

definition Logout :: "auth_env \<Rightarrow> string \<Rightarrow> auth_world \<Rightarrow> unit auth_result \<times> auth_world" where
  "Logout env rawRefreshToken w =
     (case FindByTokenHash (db env 0) (hashToken env rawRefreshToken) (sessions w) of
        Inl e \<Rightarrow> (Inl (Wrapped ''finding session'' e), w)
      | Inr None \<Rightarrow> (Inr (), w)
      | Inr (Some session) \<Rightarrow>
          (case session_Delete (db env 1) (s_ID session) (sessions w) of
             (Inl e, ss) \<Rightarrow> (Inl (Wrapped ''deleting session'' e), w\<lparr>sessions := ss\<rparr>)
           | (Inr _, ss) \<Rightarrow> (Inr (), w\<lparr>sessions := ss\<rparr>)))"

section \<open>Accounts\<close>

definition bcrypt_cost :: "Service \<Rightarrow> int" where
  "bcrypt_cost s = (if BcryptCost (cfg s) < minBcryptCost s then minBcryptCost s else BcryptCost (cfg s))"

definition ChangePassword :: "auth_env \<Rightarrow> Service \<Rightarrow> uuid \<Rightarrow> string \<Rightarrow> string \<Rightarrow> auth_world \<Rightarrow> unit auth_result \<times> auth_world" where
  "ChangePassword env s userID currentPassword newPassword w =
     (case FindByID (db env 0) userID (users w) of
        Inl e \<Rightarrow> (Inl (Wrapped ''finding user'' e), w)
      | Inr None \<Rightarrow> (Inl ErrInvalidCredentials, w)
      | Inr (Some u) \<Rightarrow>
          (case u_PasswordHash u of
             None \<Rightarrow> (Inl ErrInvalidCredentials, w)
           | Some hash \<Rightarrow>
               if \<not> bcrypt_compare env hash currentPassword then (Inl ErrInvalidCredentials, w)
               else case ValidatePassword env newPassword of
                 Inl e \<Rightarrow> (Inl e, w)
               | Inr _ \<Rightarrow>
                   (case bcrypt_generate env newPassword (bcrypt_cost s) of
                      Inl e \<Rightarrow> (Inl (Wrapped ''hashing new password'' (Other e)), w)
                    | Inr newHash \<Rightarrow>
                        (case UpdatePasswordHash (db env 1) (clk env 0) userID newHash False (users w) of
                           (Inl e, us) \<Rightarrow> (Inl (Wrapped ''updating password hash'' e), w\<lparr>users := us\<rparr>)
                         | (Inr _, us) \<Rightarrow>
                             (case DeleteAllForUser (db env 2) userID (sessions w) of
                                (Inl e, ss) \<Rightarrow> (Inl (Wrapped ''deleting sessions'' e), w\<lparr>users := us, sessions := ss\<rparr>)
                              | (Inr _, ss) \<Rightarrow> logged (u_Email u) (Inr ()) (w\<lparr>users := us, sessions := ss\<rparr>))))))"

definition Me :: "auth_env \<Rightarrow> uuid \<Rightarrow> auth_world \<Rightarrow> User auth_result" where
  "Me env userID w =
     (case FindByID (db env 0) userID (users w) of
        Inl e \<Rightarrow> Inl (Wrapped ''finding user'' e)
      | Inr None \<Rightarrow> Inl ErrUserNotFound
      | Inr (Some u) \<Rightarrow> Inr u)"

definition ssoEnabled :: "Service \<Rightarrow> bool" where
  "ssoEnabled s \<longleftrightarrow> go_contains (AuthMode (cfg s)) ''sso'' \<and> GoogleClientID (cfg s) \<noteq> [] \<and> GoogleClientSecret (cfg s) \<noteq> []"

definition localEnabled :: "Service \<Rightarrow> bool" where
  "localEnabled s \<longleftrightarrow> go_contains (AuthMode (cfg s)) ''local''"

definition AuthMethods :: "Service \<Rightarrow> bool \<times> bool" where
  "AuthMethods s = (ssoEnabled s, localEnabled s)"

definition BootstrapAdmin :: "auth_env \<Rightarrow> Service \<Rightarrow> auth_world \<Rightarrow> unit auth_result \<times> auth_world" where
  "BootstrapAdmin env s w =
     (if AdminEmail (cfg s) = [] then (Inr (), w)
      else case FindByEmail (db env 0) (AdminEmail (cfg s)) (users w) of
        Inl e \<Rightarrow> (Inl (Wrapped ''checking existing admin'' e), w)
      | Inr (Some _) \<Rightarrow> logged (AdminEmail (cfg s)) (Inr ()) w
      | Inr None \<Rightarrow>
          (case ListWithFilters (ilike env) (usort env) (db env 1) [] ''admin'' ''active'' 1 0 (users w) of
             Inl e \<Rightarrow> (Inl (Wrapped ''checking existing admins'' e), w)
           | Inr (a # _, _) \<Rightarrow> logged (u_Email a) (Inr ()) w
           | Inr ([], _) \<Rightarrow>
               (case generateRandomPassword env 24 of
                  Inl e \<Rightarrow> (Inl (Wrapped ''generating admin password'' e), w)
                | Inr password \<Rightarrow>
                    (case bcrypt_generate env password (bcrypt_cost s) of
                       Inl e \<Rightarrow> (Inl (Wrapped ''hashing admin password'' (Other e)), w)
                     | Inr hash \<Rightarrow>
                         (case user_Create (db env 2) (clk env 0)
                            \<lparr>u_ID = new_uuid env, u_Email = AdminEmail (cfg s), u_Name = ''Admin'', u_AvatarURL = [], u_Role = ''admin'',
                             u_GoogleID = None, u_PasswordHash = Some hash, u_HasGoogle = False, u_HasPassword = False,
                             u_Disabled = False, u_MustChangePassword = True, u_CreatedAt = 0, u_UpdatedAt = 0\<rparr> (users w) of
                            (Inl e, us) \<Rightarrow> (Inl (Wrapped ''creating admin user'' e), w\<lparr>users := us\<rparr>)
                          | (Inr _, us) \<Rightarrow> (Inr (), w\<lparr>users := us\<rparr>))))))"

section \<open>Administration\<close>

definition ListUsers :: "auth_env \<Rightarrow> string \<Rightarrow> string \<Rightarrow> string \<Rightarrow> int \<Rightarrow> int \<Rightarrow> auth_world \<Rightarrow> (User list \<times> nat) auth_result" where
  "ListUsers env search role status page limit w =
     ListWithFilters (ilike env) (usort env) (db env 0) search role status limit ((page - 1) * limit) (users w)"

definition GetUser :: "auth_env \<Rightarrow> uuid \<Rightarrow> auth_world \<Rightarrow> User option auth_result" where
  "GetUser env userID w = FindByID (db env 0) userID (users w)"

definition UpdateRole :: "auth_env \<Rightarrow> uuid \<Rightarrow> uuid \<Rightarrow> string \<Rightarrow> auth_world \<Rightarrow> User option auth_result \<times> auth_world" where
  "UpdateRole env actingAdminID targetUserID newRole w =
     (if newRole \<noteq> ''user'' \<and> newRole \<noteq> ''premium'' \<and> newRole \<noteq> ''admin'' then (Inl ErrInvalidRole, w)
      else if actingAdminID = targetUserID then (Inl ErrCannotChangeSelfRole, w)
      else case FindByID (db env 0) targetUserID (users w) of
        Inl e \<Rightarrow> (Inl e, w)
      | Inr None \<Rightarrow> (Inl ErrUserNotFound, w)
      | Inr (Some oldUser) \<Rightarrow>
          (case repo_UpdateRole (db env 1) (clk env 0) targetUserID newRole (users w) of
             (Inl e, us) \<Rightarrow> (Inl e, w\<lparr>users := us\<rparr>)
           | (Inr _, us) \<Rightarrow>
               (case FindByID (db env 2) targetUserID us of
                  Inl e \<Rightarrow> (Inl e, w\<lparr>users := us\<rparr>)
                | Inr updatedUser \<Rightarrow> logged (u_Email oldUser) (Inr updatedUser) (w\<lparr>users := us\<rparr>))))"

definition UpdateDisabled :: "auth_env \<Rightarrow> uuid \<Rightarrow> uuid \<Rightarrow> bool \<Rightarrow> auth_world \<Rightarrow> User option auth_result \<times> auth_world" where
  "UpdateDisabled env actingAdminID targetUserID disabled w =
     (if actingAdminID = targetUserID then (Inl ErrCannotDisableSelf, w)
      else case repo_UpdateDisabled (db env 0) (clk env 0) targetUserID disabled (users w) of
        (Inl e, us) \<Rightarrow> (Inl e, w\<lparr>users := us\<rparr>)
      | (Inr _, us) \<Rightarrow>
          let ss = (if disabled then snd (DeleteAllForUser (db env 1) targetUserID (sessions w)) else sessions w);
              w' = w\<lparr>users := us, sessions := ss\<rparr>
          in case FindByID (db env 2) targetUserID us of
               Inl e \<Rightarrow> (Inl e, w')
             | Inr updatedUser \<Rightarrow> (Inr updatedUser, w'))"

definition ForcePasswordReset :: "auth_env \<Rightarrow> uuid \<Rightarrow> uuid \<Rightarrow> auth_world \<Rightarrow> User option auth_result \<times> auth_world" where
  "ForcePasswordReset env actingAdminID targetUserID w =
     (case FindByID (db env 0) targetUserID (users w) of
        Inl e \<Rightarrow> (Inl e, w)
      | Inr None \<Rightarrow> (Inl ErrUserNotFound, w)
      | Inr (Some u) \<Rightarrow>
          if \<not> u_HasPassword u then (Inl ErrNoPasswordAuth, w)
          else case SetMustChangePassword (db env 1) (clk env 0) targetUserID True (users w) of
            (Inl e, us) \<Rightarrow> (Inl e, w\<lparr>users := us\<rparr>)
          | (Inr _, us) \<Rightarrow>
              (case FindByID (db env 2) targetUserID us of
                 Inl e \<Rightarrow> (Inl e, w\<lparr>users := us\<rparr>)
               | Inr updatedUser \<Rightarrow> logged (u_Email u) (Inr updatedUser) (w\<lparr>users := us\<rparr>)))"

section \<open>API tokens\<close>

record APITokenConfig =
  MaxTokensPerUser :: int
  TokenExpiry :: duration

definition DefaultAPITokenConfig :: APITokenConfig where
  "DefaultAPITokenConfig = \<lparr>MaxTokensPerUser = 5, TokenExpiry = 90 * 24 * Hour\<rparr>"

definition apiTokenPrefix :: string where "apiTokenPrefix = ''exly_''"

definition CreateToken :: "auth_env \<Rightarrow> APITokenConfig \<Rightarrow> uuid \<Rightarrow> string \<Rightarrow> auth_world \<Rightarrow> (string \<times> APIToken) auth_result \<times> auth_world" where
  "CreateToken env c userID label w =
     (case CountActiveByUserID (db env 0) (clk env 0) userID (api_tokens w) of
        Inl e \<Rightarrow> (Inl (Wrapped ''counting active tokens'' e), w)
      | Inr active \<Rightarrow>
          if MaxTokensPerUser c \<le> int active then (Inl ErrTokenLimitReached, w)
          else case generateRandomToken env 32 of
            Inl e \<Rightarrow> (Inl (Wrapped ''generating token'' e), w)
          | Inr raw \<Rightarrow>
              let rawToken = apiTokenPrefix @ raw;
                  now = clk env 1;
                  token = \<lparr>t_ID = new_uuid env, t_UserID = userID, t_TokenHash = hashToken env rawToken, t_Label = label,
                           t_Prefix = take 8 rawToken, t_CreatedAt = now, t_LastUsedAt = None, t_RevokedAt = None,
                           t_ExpiresAt = now + TokenExpiry c\<rparr>
              in case token_Create (db env 1) (clk env 2) token (users w) (api_tokens w) of
                   (Inl e, ts) \<Rightarrow> (Inl (Wrapped ''storing token'' e), w\<lparr>api_tokens := ts\<rparr>)
                 | (Inr t, ts) \<Rightarrow> (Inr (rawToken, t), w\<lparr>api_tokens := ts\<rparr>))"

definition ListTokens :: "auth_env \<Rightarrow> uuid \<Rightarrow> auth_world \<Rightarrow> APIToken list auth_result" where
  "ListTokens env userID w =
     (case ListByUserID (tsort env) (db env 0) userID (api_tokens w) of
        Inl e \<Rightarrow> Inl (Wrapped ''listing tokens'' e) | Inr ts \<Rightarrow> Inr ts)"

definition RevokeToken :: "auth_env \<Rightarrow> uuid \<Rightarrow> uuid \<Rightarrow> auth_world \<Rightarrow> unit auth_result \<times> auth_world" where
  "RevokeToken env tokenID userID w =
     (case Revoke (db env) (clk env 0) tokenID userID (api_tokens w) of (r, ts) \<Rightarrow> (r, w\<lparr>api_tokens := ts\<rparr>))"

definition ValidateToken :: "auth_env \<Rightarrow> string \<Rightarrow> auth_world \<Rightarrow> (APIToken \<times> User) auth_result" where
  "ValidateToken env rawToken w =
     (case token_FindByTokenHash (db env 0) (hashToken env rawToken) (api_tokens w) of
        Inl e \<Rightarrow> Inl (Wrapped ''finding token'' e)
      | Inr None \<Rightarrow> Inl ErrTokenUnauthorized
      | Inr (Some token) \<Rightarrow>
          if t_RevokedAt token \<noteq> None then Inl ErrTokenUnauthorized
          else if t_ExpiresAt token < clk env 0 then Inl ErrTokenUnauthorized
          else case FindByID (db env 1) (t_UserID token) (users w) of
            Inl e \<Rightarrow> Inl (Wrapped ''finding user'' e)
          | Inr None \<Rightarrow> Inl ErrTokenUnauthorized
          | Inr (Some u) \<Rightarrow> Inr (token, u))"

definition TouchLastUsed :: "auth_env \<Rightarrow> uuid \<Rightarrow> auth_world \<Rightarrow> auth_world" where
  "TouchLastUsed env tokenID w = w\<lparr>api_tokens := snd (UpdateLastUsedAt (db env 2) tokenID (clk env 1) (api_tokens w))\<rparr>"

section \<open>A sample environment\<close>

text \<open>One concrete environment per random byte \<open>k\<close> and a service with local logins, for the concrete instances below.\<close>

definition sample_env :: "nat \<Rightarrow> auth_env" where
  "sample_env k = \<lparr>clk = (\<lambda>_. 100), db = no_errors, rand_read = (\<lambda>n. Inr (replicate n k)), new_uuid = k, uuid_string = show_nat,
     sha256 = (\<lambda>s. map of_char (take 2 s)), bcrypt_compare = (\<lambda>h p. h = p), bcrypt_generate = (\<lambda>p _. Inr p),
     numeric_date = (\<lambda>t. t), jwt_sign = (\<lambda>_ _. Inr ''jwt''), jwt_parse = (\<lambda>_ _. Inl ''bad token''), runes = map of_char,
     IsUpper = (\<lambda>r. 65 \<le> r \<and> r \<le> 90), IsLower = (\<lambda>r. 97 \<le> r \<and> r \<le> 122), IsDigit = (\<lambda>r. 48 \<le> r \<and> r \<le> 57),
     IsLetter = (\<lambda>r. 65 \<le> r \<and> r \<le> 90 \<or> 97 \<le> r \<and> r \<le> 122), IsSpace = (\<lambda>r. r = 32),
     exchange_code = (\<lambda>_. Inl ''offline''), fetch_userinfo = (\<lambda>_. Inl ''offline''), ilike = (\<lambda>_ _. False),
     usort = (\<lambda>key. sort_key key), tsort = (\<lambda>key. sort_key key)\<rparr>"

definition sample_service :: Service where
  "sample_service = NewService \<lparr>AuthMode = ''local'', GoogleClientID = [], GoogleClientSecret = [], GoogleRedirectURI = [], JWTSecret = ''s'', JWTExpiry = 0,
     RefreshTokenExpiry = Hour, BcryptCost = 12, AdminEmail = ''root@x.org''\<rparr>"

end
