(* ===== verification/Auth_Safety.thy ===== *)
theory Auth_Safety
  imports Auth_Service
begin

text \<open>
  Properties of the authentication service over sequences of calls. Calls are atomic steps; what a call meets
  (errors of the database at any point, the clock, random bytes) is arbitrary in every step.
\<close>

section \<open>Steps\<close>

datatype auth_op =
    OpLocalLogin string string string string
  | OpGoogleCallback string string string string
  | OpRefreshToken string string
  | OpLogout string
  | OpChangePassword uuid string string
  | OpBootstrapAdmin
  | OpUpdateRole uuid uuid string
  | OpUpdateDisabled uuid uuid bool
  | OpForcePasswordReset uuid uuid
  | OpCreateToken uuid string
  | OpRevokeToken uuid uuid
  | OpTouchLastUsed uuid
  | OpDeleteExpired

fun exec_auth :: "Service \<Rightarrow> APITokenConfig \<Rightarrow> auth_env \<Rightarrow> auth_op \<Rightarrow> auth_world \<Rightarrow> auth_world" where
  "exec_auth s c env (OpLocalLogin e p ua ip) w = snd (LocalLogin env s e p ua ip w)"
| "exec_auth s c env (OpGoogleCallback code st ex ip) w = snd (GoogleCallback env s code st ex ip w)"
| "exec_auth s c env (OpRefreshToken t ua) w = snd (RefreshToken env s t ua w)"
| "exec_auth s c env (OpLogout t) w = snd (Logout env t w)"
| "exec_auth s c env (OpChangePassword u old new) w = snd (ChangePassword env s u old new w)"
| "exec_auth s c env OpBootstrapAdmin w = snd (BootstrapAdmin env s w)"
| "exec_auth s c env (OpUpdateRole a t r) w = snd (UpdateRole env a t r w)"
| "exec_auth s c env (OpUpdateDisabled a t d) w = snd (UpdateDisabled env a t d w)"
| "exec_auth s c env (OpForcePasswordReset a t) w = snd (ForcePasswordReset env a t w)"
| "exec_auth s c env (OpCreateToken u l) w = snd (CreateToken env c u l w)"
| "exec_auth s c env (OpRevokeToken t u) w = snd (RevokeToken env t u w)"
| "exec_auth s c env (OpTouchLastUsed t) w = TouchLastUsed env t w"
| "exec_auth s c env OpDeleteExpired w = w\<lparr>sessions := snd (DeleteExpired (db env 0) (clk env 0) (sessions w))\<rparr>"

definition empty_world :: auth_world where
  "empty_world = \<lparr>users = [], sessions = [], api_tokens = [], limiter = initial_limiter\<rparr>"

inductive auth_reach :: "Service \<Rightarrow> APITokenConfig \<Rightarrow> auth_world \<Rightarrow> bool" for s c where
  start: "auth_reach s c empty_world"
| step: "auth_reach s c w \<Longrightarrow> auth_reach s c (exec_auth s c env op w)"

section \<open>Well-formed tables\<close>

definition valid_role :: "string \<Rightarrow> bool" where
  "valid_role r \<longleftrightarrow> r = ''user'' \<or> r = ''premium'' \<or> r = ''admin''"

definition tokens_ok :: "User list \<Rightarrow> APIToken list \<Rightarrow> bool" where
  "tokens_ok us ts \<longleftrightarrow> distinct (map t_ID ts) \<and> distinct (map t_TokenHash ts) \<and> t_UserID ` set ts \<subseteq> u_ID ` set us"

definition auth_ok :: "auth_world \<Rightarrow> bool" where
  "auth_ok w \<longleftrightarrow> users_ok (users w) \<and> (\<forall>u\<in>set (users w). valid_role (u_Role u)) \<and>
     sessions_ok (users w) (sessions w) \<and> tokens_ok (users w) (api_tokens w)"

lemma auth_ok_limiter [simp]: "auth_ok (w\<lparr>limiter := l\<rparr>) = auth_ok w"
  by (simp add: auth_ok_def)

lemma snd_logged [simp]: "snd (logged e r w) = w"
  by (simp add: logged_def split: option.split)

lemma snd_with_user [simp]: "snd (with_user u p) = snd p"
  by (simp add: with_user_def split: prod.split sum.split)

lemma auth_ok_sessions: "auth_ok w \<Longrightarrow> sessions_ok (users w) ss \<Longrightarrow> auth_ok (w\<lparr>sessions := ss\<rparr>)"
  by (simp add: auth_ok_def)

lemma auth_ok_delete: "auth_ok w \<Longrightarrow> auth_ok (w\<lparr>sessions := sql_delete P (sessions w)\<rparr>)"
  by (simp add: auth_ok_def sessions_ok_delete)

lemma auth_ok_users:
  assumes "auth_ok w" "users_ok us" "u_ID ` set (users w) \<subseteq> u_ID ` set us" "\<forall>u\<in>set us. valid_role (u_Role u)"
  shows "auth_ok (w\<lparr>users := us\<rparr>)"
proof -
  have "t_UserID ` set (api_tokens w) \<subseteq> u_ID ` set us" using assms(1,3) unfolding auth_ok_def tokens_ok_def by blast
  with assms sessions_ok_users [of "users w" "sessions w" us] show ?thesis by (auto simp: auth_ok_def tokens_ok_def)
qed

lemma users_ok_update:
  assumes "users_ok us" "\<And>r. u_ID (f r) = u_ID r" "\<And>r. u_Email (f r) = u_Email r"
  shows "users_ok (sql_update P f us)" "u_ID ` set (sql_update P f us) = u_ID ` set us"
  using assms map_sql_update [of P u_ID f us] map_sql_update [of P u_Email f us]
  by (auto simp: users_ok_def simp flip: set_map)

lemma auth_ok_update_user:
  assumes "auth_ok w" "\<And>r. u_ID (f r) = u_ID r" "\<And>r. u_Email (f r) = u_Email r"
    "\<And>r. valid_role (u_Role r) \<Longrightarrow> valid_role (u_Role (f r))"
  shows "auth_ok (w\<lparr>users := snd (update_user err i f (users w))\<rparr>)"
proof -
  have "users_ok (users w)" "\<forall>u\<in>set (users w). valid_role (u_Role u)" using assms(1) by (auto simp: auth_ok_def)
  with assms users_ok_update [of "users w" f "\<lambda>r. u_ID r = i"] have
    "auth_ok (w\<lparr>users := sql_update (\<lambda>r. u_ID r = i) f (users w)\<rparr>)"
    by (intro auth_ok_users) (auto simp: set_sql_update)
  with assms(1) snd_update_user [of err i f "users w"] show ?thesis by auto
qed

lemma users_ok_create: "users_ok us \<Longrightarrow> users_ok (snd (user_Create err now u us))"
  by (auto simp: user_Create_def users_ok_def list_ex_iff user_conflict_def split: option.split)

lemma auth_ok_user_Create:
  assumes "auth_ok w" "valid_role (u_Role u)"
  shows "auth_ok (w\<lparr>users := snd (user_Create err now u (users w))\<rparr>)"
  using assms users_ok_create [of "users w" err now u]
  by (intro auth_ok_users) (auto simp: auth_ok_def user_Create_def split: option.splits)

lemma auth_ok_createSession: "auth_ok w \<Longrightarrow> auth_ok (snd (createSession env s err t i ua w))"
  using session_Create_ok [of "users w" "sessions w" err t]
  by (auto simp: createSession_def auth_ok_def split: sum.split prod.split) (metis snd_conv)+

lemma auth_ok_issue_tokens: "auth_ok w \<Longrightarrow> auth_ok (snd (issue_tokens env s msg err t1 t2 u ua w))"
  using auth_ok_createSession [of w env s err t2 "u_ID u" ua]
  by (auto simp: issue_tokens_def split: sum.split prod.split)

lemma auth_ok_user_Update:
  assumes "auth_ok w" "r \<in> set (users w)" "u_ID u = u_ID r" "u_Email u = u_Email r" "u_Role u = u_Role r"
  shows "auth_ok (w\<lparr>users := snd (user_Update err now u (users w))\<rparr>)"
proof -
  let ?f = "\<lambda>r. r\<lparr>u_Email := u_Email u, u_Name := u_Name u, u_AvatarURL := u_AvatarURL u, u_Role := u_Role u,
                    u_GoogleID := u_GoogleID u, u_PasswordHash := u_PasswordHash u,
                    u_MustChangePassword := u_MustChangePassword u, u_UpdatedAt := now\<rparr>"
  let ?P = "\<lambda>r. u_ID r = u_ID u"
  have uniq: "q = r" if "q \<in> set (users w)" "?P q" for q
    using that assms(1-3) key_unique [of u_ID "users w" q r] by (auto simp: auth_ok_def users_ok_def)
  have "map u_ID (sql_update ?P ?f (users w)) = map u_ID (users w)" by (rule map_sql_update) simp
  moreover have "map u_Email (sql_update ?P ?f (users w)) = map u_Email (users w)"
    unfolding sql_update_def using uniq assms(4) by auto
  ultimately have "users_ok (sql_update ?P ?f (users w))" "u_ID ` set (sql_update ?P ?f (users w)) = u_ID ` set (users w)"
    using assms(1) by (auto simp: auth_ok_def users_ok_def simp flip: set_map)
  then have "auth_ok (w\<lparr>users := sql_update ?P ?f (users w)\<rparr>)"
    using assms by (intro auth_ok_users) (auto simp: set_sql_update auth_ok_def)
  with assms(1) snd_update_user [of err "u_ID u" ?f "users w"] show ?thesis
    by (auto simp: user_Update_def split: prod.split sum.split)
qed

lemma auth_ok_LocalLogin: "auth_ok w \<Longrightarrow> auth_ok (snd (LocalLogin env s e p ua ip w))"
  by (simp add: LocalLogin_def login_failed_def Let_def auth_ok_issue_tokens split: prod.split option.split sum.split)

lemma FindByGoogleID_SomeD: "FindByGoogleID err g us = Inr (Some x) \<Longrightarrow> \<exists>r\<in>set us. x = scan_row r"
  by (auto simp: FindByGoogleID_def scanUser_def dest: sql_row_SomeD split: option.splits)

lemma auth_ok_upsertGoogleUser:
  assumes "auth_ok w"
  shows "auth_ok (snd (upsertGoogleUser env info w))"
proof (cases "FindByGoogleID (db env 0) (g_ID info) (users w)")
  case (Inl e)
  with assms show ?thesis by (simp add: upsertGoogleUser_def)
next
  case (Inr found)
  show ?thesis
  proof (cases found)
    case None
    note create = auth_ok_user_Create [OF assms, of _ "db env 1" "clk env 1"]
    show ?thesis using Inr None assms create
      by (simp add: upsertGoogleUser_def valid_role_def prod.case_eq_if split: sum.split)
  next
    case (Some existing)
    then obtain r where "r \<in> set (users w)" "existing = scan_row r"
      using Inr FindByGoogleID_SomeD by blast
    then have "auth_ok (w\<lparr>users := snd (user_Update (db env 1) (clk env 1) (existing\<lparr>u_Name := g_Name info, u_AvatarURL := g_Picture info\<rparr>) (users w))\<rparr>)"
      by (intro auth_ok_user_Update [OF assms, of r]) simp_all
    then show ?thesis using Inr Some by (simp add: upsertGoogleUser_def prod.case_eq_if split: sum.split)
  qed
qed

lemma auth_ok_GoogleCallback: "auth_ok w \<Longrightarrow> auth_ok (snd (GoogleCallback env s code st ex ip w))"
  using auth_ok_upsertGoogleUser [of w env]
  by (simp add: GoogleCallback_def oauth_failed_def auth_ok_issue_tokens prod.case_eq_if split: sum.split)

lemma auth_ok_RefreshToken: "auth_ok w \<Longrightarrow> auth_ok (snd (RefreshToken env s t ua w))"
  by (simp add: RefreshToken_def session_Delete_def Let_def auth_ok_issue_tokens auth_ok_delete prod.case_eq_if split: option.split sum.split)

lemma auth_ok_Logout: "auth_ok w \<Longrightarrow> auth_ok (snd (Logout env t w))"
  by (simp add: Logout_def session_Delete_def auth_ok_delete prod.case_eq_if split: option.split sum.split)

lemma auth_ok_ChangePassword:
  assumes "auth_ok w"
  shows "auth_ok (snd (ChangePassword env s u old new w))"
proof -
  have "auth_ok (w\<lparr>users := snd (UpdatePasswordHash err now u h b (users w))\<rparr>)" for err now h b
    unfolding UpdatePasswordHash_def by (rule auth_ok_update_user [OF assms]) simp_all
  note upd = this
  then have "auth_ok (w\<lparr>users := snd (UpdatePasswordHash err now u h b (users w)), sessions := sql_delete P (sessions w)\<rparr>)" for err now h b P
    using auth_ok_delete [OF upd [of err now h b], of P] by simp
  with assms upd show ?thesis
    by (simp add: ChangePassword_def DeleteAllForUser_def prod.case_eq_if split: option.split sum.split)
qed

lemma auth_ok_BootstrapAdmin:
  assumes "auth_ok w"
  shows "auth_ok (snd (BootstrapAdmin env s w))"
proof -
  have "auth_ok (w\<lparr>users := snd (user_Create err now u (users w))\<rparr>)" if "u_Role u = ''admin''" for err now u
    by (rule auth_ok_user_Create [OF assms]) (simp add: that valid_role_def)
  note create = this
  then show ?thesis using assms
    by (simp add: BootstrapAdmin_def prod.case_eq_if split: option.split sum.split list.split)
qed

lemma UpdateRole_effect:
  "snd (UpdateRole env a t r w) = w \<or>
   valid_role r \<and> a \<noteq> t \<and> snd (UpdateRole env a t r w) = w\<lparr>users := snd (repo_UpdateRole (db env 1) (clk env 0) t r (users w))\<rparr>"
proof (cases "valid_role r")
  case True
  then have role: "\<not> (r \<noteq> ''user'' \<and> r \<noteq> ''premium'' \<and> r \<noteq> ''admin'')" by (simp add: valid_role_def)
  show ?thesis
    unfolding UpdateRole_def if_not_P [OF role] using True by (simp add: prod.case_eq_if split: option.split sum.split)
qed (simp add: UpdateRole_def valid_role_def)

lemma UpdateDisabled_effect:
  "snd (UpdateDisabled env a t d w) = w \<or>
   a \<noteq> t \<and> (\<exists>ss. (ss = sessions w \<or> ss = sql_delete (\<lambda>r. s_UserID r = t) (sessions w)) \<and>
     snd (UpdateDisabled env a t d w) = w\<lparr>users := snd (repo_UpdateDisabled (db env 0) (clk env 0) t d (users w)), sessions := ss\<rparr>)"
proof (cases "fst (repo_UpdateDisabled (db env 0) (clk env 0) t d (users w))")
  case (Inl e)
  then have "snd (repo_UpdateDisabled (db env 0) (clk env 0) t d (users w)) = users w"
    by (auto simp: repo_UpdateDisabled_def update_user_def split: option.splits if_splits)
  with Inl show ?thesis by (simp add: UpdateDisabled_def prod.case_eq_if)
next
  case (Inr x)
  let ?ss = "if d then snd (DeleteAllForUser (db env 1) t (sessions w)) else sessions w"
  have ss: "?ss = sessions w \<or> ?ss = sql_delete (\<lambda>r. s_UserID r = t) (sessions w)"
    by (simp add: DeleteAllForUser_def split: option.split)
  have "a \<noteq> t \<Longrightarrow> snd (UpdateDisabled env a t d w) =
      w\<lparr>users := snd (repo_UpdateDisabled (db env 0) (clk env 0) t d (users w)), sessions := ?ss\<rparr>"
    unfolding UpdateDisabled_def Let_def prod.case_eq_if Inr by (simp split: sum.split)
  with ss show ?thesis by (cases "a = t") (simp add: UpdateDisabled_def, blast)
qed

lemma auth_ok_admin:
  assumes "auth_ok w"
  shows "auth_ok (snd (UpdateRole env a t r w))" "auth_ok (snd (UpdateDisabled env a t d w))" "auth_ok (snd (ForcePasswordReset env a t w))"
proof -
  note upd = auth_ok_update_user [OF assms]
  have "valid_role r \<Longrightarrow> auth_ok (w\<lparr>users := snd (repo_UpdateRole err now t r (users w))\<rparr>)" for err now
    unfolding repo_UpdateRole_def by (rule upd) simp_all
  with assms show "auth_ok (snd (UpdateRole env a t r w))" using UpdateRole_effect [of env a t r w] by metis
  have dis: "auth_ok (w\<lparr>users := snd (repo_UpdateDisabled err now t d (users w))\<rparr>)" for err now
    unfolding repo_UpdateDisabled_def by (rule upd) simp_all
  from auth_ok_delete [OF dis] auth_ok_sessions [OF dis] dis assms show "auth_ok (snd (UpdateDisabled env a t d w))"
    using UpdateDisabled_effect [of env a t d w] by fastforce
  have "auth_ok (w\<lparr>users := snd (SetMustChangePassword err now t m (users w))\<rparr>)" for err now m
    unfolding SetMustChangePassword_def by (rule upd) simp_all
  with assms show "auth_ok (snd (ForcePasswordReset env a t w))"
    by (simp add: ForcePasswordReset_def prod.case_eq_if split: option.split sum.split)
qed

lemma auth_ok_tokens: "auth_ok w \<Longrightarrow> tokens_ok (users w) ts \<Longrightarrow> auth_ok (w\<lparr>api_tokens := ts\<rparr>)"
  by (simp add: auth_ok_def)

lemma tokens_ok_update:
  assumes "tokens_ok us ts" "\<And>r. t_ID (f r) = t_ID r" "\<And>r. t_TokenHash (f r) = t_TokenHash r" "\<And>r. t_UserID (f r) = t_UserID r"
  shows "tokens_ok us (sql_update P f ts)"
  using assms map_sql_update [of P t_ID f ts] map_sql_update [of P t_TokenHash f ts] map_sql_update [of P t_UserID f ts]
  unfolding tokens_ok_def by (metis set_map)

lemma auth_ok_token_ops:
  assumes "auth_ok w"
  shows "auth_ok (snd (CreateToken env c u l w))" "auth_ok (snd (RevokeToken env t u w))" "auth_ok (TouchLastUsed env t w)"
proof -
  have t: "tokens_ok (users w) (api_tokens w)" using assms by (simp add: auth_ok_def)
  then have "tokens_ok (users w) (snd (token_Create err now tok (users w) (api_tokens w)))" for err now tok
    by (auto simp: token_Create_def tokens_ok_def list_ex_iff split: option.split)
  then show "auth_ok (snd (CreateToken env c u l w))" using assms
    by (simp add: CreateToken_def Let_def prod.case_eq_if auth_ok_tokens split: sum.split)
  have "tokens_ok (users w) (snd (Revoke dbo now t u (api_tokens w)))" for dbo now
    using t by (auto simp: Revoke_def intro: tokens_ok_update split: option.split)
  then show "auth_ok (snd (RevokeToken env t u w))" using assms
    by (simp add: RevokeToken_def prod.case_eq_if auth_ok_tokens)
  show "auth_ok (TouchLastUsed env t w)"
    using t assms by (auto simp: TouchLastUsed_def UpdateLastUsedAt_def intro!: tokens_ok_update auth_ok_tokens split: option.split)
qed

lemma auth_ok_exec: "auth_ok w \<Longrightarrow> auth_ok (exec_auth s c env op w)"
  by (cases op)
    (simp_all add: auth_ok_LocalLogin auth_ok_GoogleCallback auth_ok_RefreshToken auth_ok_Logout auth_ok_ChangePassword
      auth_ok_BootstrapAdmin auth_ok_admin auth_ok_token_ops auth_ok_delete DeleteExpired_def split: option.split)

lemma auth_ok_reach: "auth_reach s c w \<Longrightarrow> auth_ok w"
  by (induction rule: auth_reach.induct)
    (simp_all add: auth_ok_exec, simp add: empty_world_def auth_ok_def users_ok_def sessions_ok_def tokens_ok_def)

text \<open>
  \<^bold>\<open>C9\<close>. Whatever calls were made before and whatever errors they met, no two accounts share an id or an email, every
  account has one of the three roles, refresh and API token hashes are unique, and every session and API token
  belongs to an existing account. The database itself no longer checks the role.
\<close>

theorem auth_tables_invariant:
  assumes "auth_reach s c w"
  shows "distinct (map u_ID (users w)) \<and> distinct (map u_Email (users w)) \<and>
    list_all (\<lambda>u. u_Role u \<in> {''user'', ''premium'', ''admin''}) (users w) \<and>
    distinct (map s_RefreshTokenHash (sessions w)) \<and> s_UserID ` set (sessions w) \<subseteq> u_ID ` set (users w) \<and>
    distinct (map t_TokenHash (api_tokens w)) \<and> t_UserID ` set (api_tokens w) \<subseteq> u_ID ` set (users w)"
  using auth_ok_reach [OF assms]
  by (auto simp: auth_ok_def users_ok_def sessions_ok_def tokens_ok_def valid_role_def list_all_iff)

section \<open>Sessions are opened for enabled accounts only\<close>

definition enabled_user :: "uuid \<Rightarrow> auth_world \<Rightarrow> bool" where
  "enabled_user i w \<longleftrightarrow> (\<exists>u\<in>set (users w). u_ID u = i \<and> \<not> u_Disabled u)"

definition opens_enabled :: "auth_world \<Rightarrow> auth_world \<Rightarrow> bool" where
  "opens_enabled w w' \<longleftrightarrow> (\<forall>x\<in>set (sessions w'). x \<in> set (sessions w) \<or> enabled_user (s_UserID x) w')"

lemma enabled_user_simps [simp]:
  "enabled_user i (w\<lparr>limiter := l\<rparr>) = enabled_user i w" "enabled_user i (w\<lparr>sessions := ss\<rparr>) = enabled_user i w"
  by (simp_all add: enabled_user_def)

lemma found_enabled:
  "sql_row key k (users w) = Some u \<Longrightarrow> \<not> u_Disabled u \<Longrightarrow> enabled_user (u_ID u) w"
  by (auto simp: enabled_user_def dest!: sql_row_SomeD)

lemma opens_enabled_same: "set (sessions w') \<subseteq> set (sessions w) \<Longrightarrow> opens_enabled w w'"
  by (auto simp: opens_enabled_def)

lemma opens_enabled_delete [simp]:
  "opens_enabled w w" "opens_enabled w (w\<lparr>limiter := l\<rparr>)" "opens_enabled w (w\<lparr>users := us\<rparr>)"
  "opens_enabled w (w\<lparr>sessions := sql_delete P (sessions w)\<rparr>)"
  "opens_enabled w (w\<lparr>users := us, sessions := sql_delete P (sessions w)\<rparr>)"
  "opens_enabled w (w\<lparr>users := us, sessions := sessions w\<rparr>)"
  "opens_enabled w (w\<lparr>api_tokens := ts\<rparr>)"
  by (auto intro!: opens_enabled_same simp: set_sql_delete)

lemma createSession_effect:
  "users (snd (createSession env s err t i ua w)) = users w \<and>
   (\<forall>x\<in>set (sessions (snd (createSession env s err t i ua w))). x \<in> set (sessions w) \<or> s_UserID x = i)"
  by (auto simp: createSession_def session_Create_def split: sum.split option.split)

lemma issue_tokens_effect:
  "users (snd (issue_tokens env s msg err t1 t2 u ua w)) = users w \<and>
   (\<forall>x\<in>set (sessions (snd (issue_tokens env s msg err t1 t2 u ua w))). x \<in> set (sessions w) \<or> s_UserID x = u_ID u)"
  using createSession_effect [of env s err t2 "u_ID u" ua w]
  by (simp add: issue_tokens_def prod.case_eq_if split: sum.split)

lemma opens_enabled_issue:
  assumes "enabled_user (u_ID u) w'" "set (sessions w') \<subseteq> set (sessions w)"
  shows "opens_enabled w (snd (issue_tokens env s msg err t1 t2 u ua w'))"
  using assms issue_tokens_effect [of env s msg err t1 t2 u ua w'] unfolding opens_enabled_def enabled_user_def by fastforce

lemma opens_enabled_LocalLogin: "opens_enabled w (snd (LocalLogin env s e p ua ip w))"
  by (auto simp: LocalLogin_def login_failed_def Let_def FindByEmail_Inr prod.case_eq_if
      intro!: opens_enabled_issue dest: found_enabled split: option.split sum.split)

lemma opens_enabled_RefreshToken: "opens_enabled w (snd (RefreshToken env s t ua w))"
  by (auto simp: RefreshToken_def session_Delete_def Let_def FindByID_Inr prod.case_eq_if set_sql_delete
      intro!: opens_enabled_issue dest: found_enabled split: option.split sum.split)

lemma user_Update_users:
  assumes "fst (user_Update err now u us) = Inr v" "r \<in> set us" "u_ID u = u_ID r" "u_Disabled u = u_Disabled r"
  shows "u_Disabled v = u_Disabled r" "u_ID v = u_ID r"
    "\<exists>r'\<in>set (snd (user_Update err now u us)). u_ID r' = u_ID r \<and> u_Disabled r' = u_Disabled r"
proof -
  let ?f = "\<lambda>r. r\<lparr>u_Email := u_Email u, u_Name := u_Name u, u_AvatarURL := u_AvatarURL u, u_Role := u_Role u,
                    u_GoogleID := u_GoogleID u, u_PasswordHash := u_PasswordHash u,
                    u_MustChangePassword := u_MustChangePassword u, u_UpdatedAt := now\<rparr>"
  have res: "v = u\<lparr>u_UpdatedAt := now\<rparr>" "snd (user_Update err now u us) = sql_update (\<lambda>r. u_ID r = u_ID u) ?f us"
    using assms(1) by (auto simp: user_Update_def update_user_def prod.case_eq_if split: option.splits sum.splits if_splits)
  then show "u_Disabled v = u_Disabled r" "u_ID v = u_ID r" using assms by auto
  have "?f r \<in> set (snd (user_Update err now u us))"
    unfolding res(2) using assms(2,3) by (intro updated_row) simp_all
  then show "\<exists>r'\<in>set (snd (user_Update err now u us)). u_ID r' = u_ID r \<and> u_Disabled r' = u_Disabled r"
    by (rule rev_bexI) simp
qed

lemma upsertGoogleUser_enabled:
  assumes "fst (upsertGoogleUser env info w) = Inr u" "\<not> u_Disabled u"
  shows "enabled_user (u_ID u) (snd (upsertGoogleUser env info w))"
proof (cases "FindByGoogleID (db env 0) (g_ID info) (users w)")
  case (Inl e)
  with assms show ?thesis by (simp add: upsertGoogleUser_def)
next
  case (Inr found)
  show ?thesis
  proof (cases found)
    case None
    with Inr assms show ?thesis
      by (auto simp: upsertGoogleUser_def user_Create_def logged_def enabled_user_def split: option.splits if_splits)
  next
    case (Some existing)
    then obtain r where r: "r \<in> set (users w)" "existing = scan_row r"
      using Inr FindByGoogleID_SomeD by blast
    let ?u = "existing\<lparr>u_Name := g_Name info, u_AvatarURL := g_Picture info\<rparr>"
    have "fst (user_Update (db env 1) (clk env 1) ?u (users w)) = Inr u"
      "users (snd (upsertGoogleUser env info w)) = snd (user_Update (db env 1) (clk env 1) ?u (users w))"
      using assms(1) Inr Some by (auto simp: upsertGoogleUser_def prod.case_eq_if split: sum.splits)
    with user_Update_users [OF this(1) r(1)] r(2) assms(2) show ?thesis by (auto simp: enabled_user_def)
  qed
qed

lemma upsertGoogleUser_sessions [simp]: "sessions (snd (upsertGoogleUser env info w)) = sessions w"
  by (simp add: upsertGoogleUser_def prod.case_eq_if split: sum.split option.split)

lemma opens_enabled_GoogleCallback: "opens_enabled w (snd (GoogleCallback env s code st ex ip w))"
  using opens_enabled_same [of "snd (upsertGoogleUser env info w)" w for info]
  by (auto simp: GoogleCallback_def oauth_failed_def prod.case_eq_if
      intro!: opens_enabled_issue upsertGoogleUser_enabled split: sum.split)

text \<open>
  \<^bold>\<open>C4\<close>. A disabled account never gets a session: any session that a call adds, be it a password login, a Google login
  or a token refresh, belongs to an account that exists and is enabled after the call.
\<close>

theorem sessions_for_enabled_accounts:
  assumes "x \<in> set (sessions (exec_auth s c env op w))" "x \<notin> set (sessions w)"
  shows "\<exists>u\<in>set (users (exec_auth s c env op w)). u_ID u = s_UserID x \<and> \<not> u_Disabled u"
proof -
  have "opens_enabled w (exec_auth s c env op w)"
  proof (cases op)
    case (OpUpdateDisabled a t d)
    with UpdateDisabled_effect [of env a t d w] show ?thesis by auto
  next
    case (OpCreateToken u l)
    then show ?thesis by (simp add: CreateToken_def Let_def prod.case_eq_if split: sum.split)
  qed (auto simp: opens_enabled_LocalLogin opens_enabled_GoogleCallback opens_enabled_RefreshToken Logout_def session_Delete_def
      ChangePassword_def DeleteAllForUser_def BootstrapAdmin_def UpdateRole_def ForcePasswordReset_def RevokeToken_def
      TouchLastUsed_def DeleteExpired_def prod.case_eq_if intro!: opens_enabled_same simp: set_sql_delete
      split: option.split sum.split list.split)
  with assms show ?thesis by (auto simp: opens_enabled_def enabled_user_def)
qed

section \<open>Refresh tokens are used once\<close>

lemma createSession_InrD:
  assumes "createSession env s err t i ua w = (Inr raw, w')"
  shows "\<exists>new. s_RefreshTokenHash new = hashToken env raw \<and> s_UserID new = i \<and> s_ExpiresAt new = t + RefreshTokenExpiry (cfg s) \<and>
    w' = w\<lparr>sessions := sessions w @ [new]\<rparr>"
  using assms
  by (intro exI [of _ "\<lparr>s_ID = new_uuid env, s_UserID = i, s_RefreshTokenHash = hashToken env raw,
        s_ExpiresAt = t + RefreshTokenExpiry (cfg s), s_CreatedAt = t, s_UserAgent = ua\<rparr>"])
    (auto simp: createSession_def session_Create_def split: sum.splits option.splits if_splits)

lemma issue_tokens_InrD:
  assumes "issue_tokens env s msg err t1 t2 u ua w = (Inr (a, raw), w')"
  shows "createSession env s err t2 (u_ID u) ua w = (Inr raw, w')"
  using assms by (auto simp: issue_tokens_def logged_def split: sum.splits prod.splits option.splits)

lemma RefreshToken_InrD:
  assumes "RefreshToken env s raw ua w = (Inr (a, raw'), w')"
  shows "\<exists>old new. sql_row s_RefreshTokenHash (hashToken env raw) (sessions w) = Some old \<and> clk env 0 \<le> s_ExpiresAt old \<and>
    s_RefreshTokenHash new = hashToken env raw' \<and> s_UserID new = s_UserID old \<and> s_ExpiresAt new = clk env 2 + RefreshTokenExpiry (cfg s) \<and>
    w' = w\<lparr>sessions := sql_delete (\<lambda>r. s_ID r = s_ID old) (sessions w) @ [new]\<rparr>"
proof -
  from assms obtain old u where old: "sql_row s_RefreshTokenHash (hashToken env raw) (sessions w) = Some old"
    "clk env 0 \<le> s_ExpiresAt old" and u: "sql_row u_ID (s_UserID old) (users w) = Some u"
    and issue: "issue_tokens env s ''creating new session'' (db env 3) (clk env 1) (clk env 2) (scan_row u) ua
      (w\<lparr>sessions := sql_delete (\<lambda>r. s_ID r = s_ID old) (sessions w)\<rparr>) = (Inr (a, raw'), w')"
    by (auto simp: RefreshToken_def FindByTokenHash_def session_Delete_def FindByID_def scanUser_def Let_def logged_def
        split: option.splits sum.splits if_splits)
  from sql_row_SomeD [OF u] have "u_ID u = s_UserID old" by simp
  with old createSession_InrD [OF issue_tokens_InrD [OF issue]] show ?thesis by fastforce
qed

lemma refresh_not_found:
  assumes "db env 0 = None" "hashToken env raw \<notin> s_RefreshTokenHash ` set (sessions w)"
  shows "RefreshToken env s raw ua w = (Inl ErrSessionNotFound, w)"
proof -
  have "sql_row s_RefreshTokenHash (hashToken env raw) (sessions w) = None" using assms(2) by (simp add: sql_row_None)
  with assms(1) show ?thesis by (simp add: RefreshToken_def FindByTokenHash_def)
qed

text \<open>
  A refresh rotates the session: it consumes the session of the presented token, which has not expired, adds
  one session for the same account under the new token, leaves every other session alone, and the old token
  is worthless from then on, provided the hash of the new token differs from that of the old one.
\<close>

lemma refresh_rotates_session:
  assumes "auth_reach s c w" "RefreshToken env s raw ua w = (Inr (a, raw'), w')"
    "hashToken env raw' \<noteq> hashToken env raw" "sha256 env' = sha256 env" "db env' 0 = None"
  shows "\<exists>old new. old \<in> set (sessions w) \<and> s_RefreshTokenHash old = hashToken env raw \<and> clk env 0 \<le> s_ExpiresAt old \<and>
    s_RefreshTokenHash new = hashToken env raw' \<and> s_UserID new = s_UserID old \<and>
    set (sessions w') = insert new (set (sessions w) - {old}) \<and>
    RefreshToken env' s raw ua' w' = (Inl ErrSessionNotFound, w')"
proof -
  obtain old new where r: "sql_row s_RefreshTokenHash (hashToken env raw) (sessions w) = Some old" "clk env 0 \<le> s_ExpiresAt old"
    "s_RefreshTokenHash new = hashToken env raw'" "s_UserID new = s_UserID old"
    "w' = w\<lparr>sessions := sql_delete (\<lambda>r. s_ID r = s_ID old) (sessions w) @ [new]\<rparr>"
    using RefreshToken_InrD [OF assms(2)] by blast
  note old = sql_row_SomeD [OF r(1)]
  have ok: "distinct (map s_ID (sessions w))" "distinct (map s_RefreshTokenHash (sessions w))"
    using auth_ok_reach [OF assms(1)] by (auto simp: auth_ok_def sessions_ok_def)
  have ss: "set (sessions w') = insert new (set (sessions w) - {old})"
    using key_unique [OF ok(1)] old by (auto simp: r(5) set_sql_delete)
  have h: "hashToken env' raw = hashToken env raw" using assms(4) by (simp add: hashToken_def)
  have "hashToken env' raw \<notin> s_RefreshTokenHash ` set (sessions w')"
    unfolding ss h using key_unique [OF ok(2)] old assms(3) r(3) by auto
  from refresh_not_found [OF assms(5) this] show ?thesis using old r(2-4) ss by blast
qed

text \<open>
  \<^bold>\<open>C10\<close>. After a successful password change no refresh token that the account held before is accepted any more.
\<close>

theorem password_change_ends_sessions:
  assumes "auth_reach s c w" "ChangePassword env s uid cur new w = (Inr (), w')"
    "x \<in> set (sessions w)" "s_UserID x = uid" "s_RefreshTokenHash x = hashToken env' raw" "db env' 0 = None"
  shows "RefreshToken env' s raw ua w' = (Inl ErrSessionNotFound, w')"
proof -
  have w': "sessions w' = sql_delete (\<lambda>r. s_UserID r = uid) (sessions w)"
    using assms(2) by (auto simp: ChangePassword_def DeleteAllForUser_def logged_def prod.case_eq_if split: option.splits sum.splits if_splits)
  have "distinct (map s_RefreshTokenHash (sessions w))"
    using auth_ok_reach [OF assms(1)] by (auto simp: auth_ok_def sessions_ok_def)
  from key_unique [OF this assms(3)] assms(4,5) have "hashToken env' raw \<notin> s_RefreshTokenHash ` set (sessions w')"
    by (auto simp: w' set_sql_delete)
  from refresh_not_found [OF assms(6) this] show ?thesis .
qed

section \<open>Administrators\<close>

definition active_admin :: "uuid \<Rightarrow> auth_world \<Rightarrow> bool" where
  "active_admin a w \<longleftrightarrow> (\<exists>u\<in>set (users w). u_ID u = a \<and> u_Role u = ''admin'' \<and> \<not> u_Disabled u)"

text \<open>The administrator on whose behalf a call is made, if it is an administrative one.\<close>

fun acting :: "auth_op \<Rightarrow> uuid option" where
  "acting (OpUpdateRole a t r) = Some a"
| "acting (OpUpdateDisabled a t d) = Some a"
| "acting (OpForcePasswordReset a t) = Some a"
| "acting op = None"

lemma active_admin_update:
  assumes "active_admin a w" "\<And>r. u_ID (f r) = u_ID r"
    "\<And>r. r \<in> set (users w) \<Longrightarrow> P r \<Longrightarrow> u_ID r = a \<Longrightarrow> u_Role (f r) = u_Role r \<and> u_Disabled (f r) = u_Disabled r"
  shows "active_admin a (w\<lparr>users := sql_update P f (users w)\<rparr>)"
proof -
  obtain u where u: "u \<in> set (users w)" "u_ID u = a" "u_Role u = ''admin''" "\<not> u_Disabled u"
    using assms(1) by (auto simp: active_admin_def)
  let ?g = "\<lambda>r. if P r then f r else r"
  have "?g u \<in> set (sql_update P f (users w))" using u(1) by (simp add: set_sql_update)
  moreover have "u_ID (?g u) = a" "u_Role (?g u) = ''admin''" "\<not> u_Disabled (?g u)" using u assms(2,3) by auto
  ultimately show ?thesis by (auto simp: active_admin_def)
qed

lemma active_admin_update_user:
  assumes "active_admin a w" "\<And>r. u_ID (f r) = u_ID r"
    "\<And>r. r \<in> set (users w) \<Longrightarrow> u_ID r = i \<Longrightarrow> u_ID r = a \<Longrightarrow> u_Role (f r) = u_Role r \<and> u_Disabled (f r) = u_Disabled r"
  shows "active_admin a (w\<lparr>users := snd (update_user err i f (users w))\<rparr>)"
  using assms snd_update_user [of err i f "users w"] active_admin_update [of a w f "\<lambda>r. u_ID r = i"] by auto

lemma active_admin_simps [simp]:
  "active_admin a (w\<lparr>limiter := l\<rparr>) = active_admin a w" "active_admin a (w\<lparr>sessions := ss\<rparr>) = active_admin a w"
  "active_admin a (w\<lparr>api_tokens := ts\<rparr>) = active_admin a w"
  by (simp_all add: active_admin_def)

lemma active_admin_same: "users w' = users w \<Longrightarrow> active_admin a w' = active_admin a w"
  by (simp add: active_admin_def)

lemma active_admin_Create: "active_admin a w \<Longrightarrow> active_admin a (w\<lparr>users := snd (user_Create err now u (users w))\<rparr>)"
  by (auto simp: active_admin_def user_Create_def split: option.split)

lemma issue_tokens_users [simp]: "users (snd (issue_tokens env s msg err t1 t2 u ua w)) = users w"
  using issue_tokens_effect by blast

lemma user_tables_unchanged:
  "users (snd (LocalLogin env s e p ua ip w)) = users w" "users (snd (RefreshToken env s t ua w)) = users w"
  "users (snd (Logout env t w)) = users w" "users (snd (CreateToken env c u l w)) = users w"
  "users (snd (RevokeToken env tid u w)) = users w" "users (TouchLastUsed env tid w) = users w"
  by (simp_all add: LocalLogin_def login_failed_def RefreshToken_def Logout_def CreateToken_def RevokeToken_def TouchLastUsed_def
      Let_def prod.case_eq_if split: option.split sum.split)

lemma active_admin_upsert:
  assumes "auth_ok w" "active_admin a w"
  shows "active_admin a (snd (upsertGoogleUser env info w))"
proof (cases "\<exists>x. FindByGoogleID (db env 0) (g_ID info) (users w) = Inr (Some x)")
  case True
  then obtain x r where x: "FindByGoogleID (db env 0) (g_ID info) (users w) = Inr (Some x)" "r \<in> set (users w)" "x = scan_row r"
    using FindByGoogleID_SomeD by blast
  have r: "u_Role r = u_Role q" if "q \<in> set (users w)" "u_ID q = u_ID r" for q
    using that x(2) assms(1) key_unique [of u_ID "users w" q r] by (auto simp: auth_ok_def users_ok_def)
  let ?u = "x\<lparr>u_Name := g_Name info, u_AvatarURL := g_Picture info\<rparr>"
  have "active_admin a (w\<lparr>users := snd (user_Update (db env 1) (clk env 1) ?u (users w))\<rparr>)"
    unfolding user_Update_def prod.case_eq_if using x(3) r assms(2)
    by (auto simp: prod.case_eq_if split: sum.split intro!: active_admin_update_user)
  with x(1) show ?thesis by (simp add: upsertGoogleUser_def prod.case_eq_if split: sum.split)
next
  case False
  with assms(2) active_admin_Create [OF assms(2)] show ?thesis
    by (auto simp: upsertGoogleUser_def prod.case_eq_if split: sum.splits option.splits)
qed

lemma active_admin_Google:
  assumes "auth_ok w" "active_admin a w"
  shows "active_admin a (snd (GoogleCallback env s code st ex ip w))"
proof -
  have "active_admin a (snd (issue_tokens env s msg err t1 t2 u ua (snd (upsertGoogleUser env info w))))" for msg err t1 t2 u ua info
    using active_admin_upsert [OF assms, of env info] active_admin_same [OF issue_tokens_users] by blast
  with assms active_admin_upsert [OF assms] show ?thesis
    by (simp add: GoogleCallback_def oauth_failed_def prod.case_eq_if split: sum.split)
qed

text \<open>
  An administrator cannot lock the system out of administration: whatever an enabled administrator does through the
  service, to whichever account, and whatever logins, refreshes, password changes and token calls happen in
  between, that administrator stays an enabled administrator.
\<close>

lemma acting_admin_remains:
  assumes "auth_reach s c w" "active_admin a w" "acting op = None \<or> acting op = Some a"
  shows "active_admin a (exec_auth s c env op w)"
proof -
  note ok = auth_ok_reach [OF assms(1)]
  have upd: "active_admin a (w\<lparr>users := snd (UpdatePasswordHash err now i h b (users w))\<rparr>)"
    "active_admin a (w\<lparr>users := snd (SetMustChangePassword err now i b (users w))\<rparr>)"
    "i \<noteq> a \<Longrightarrow> active_admin a (w\<lparr>users := snd (repo_UpdateRole err now i r (users w))\<rparr>)"
    "i \<noteq> a \<Longrightarrow> active_admin a (w\<lparr>users := snd (repo_UpdateDisabled err now i b (users w))\<rparr>)" for err now i h b r
    unfolding UpdatePasswordHash_def SetMustChangePassword_def repo_UpdateRole_def repo_UpdateDisabled_def
    using assms(2) by (auto intro!: active_admin_update_user)
  have upd2: "active_admin a (w\<lparr>users := us, sessions := ss\<rparr>) = active_admin a (w\<lparr>users := us\<rparr>)" for us ss
    by (simp add: active_admin_def)
  show ?thesis
  proof (cases op)
    case OpGoogleCallback
    with active_admin_Google [OF ok assms(2)] show ?thesis by simp
  next
    case (OpUpdateRole b t r)
    with assms(2,3) upd(3) [of t] UpdateRole_effect [of env b t r w] show ?thesis by auto
  next
    case (OpUpdateDisabled b t d)
    with assms(2,3) upd(4) [of t] upd2 UpdateDisabled_effect [of env b t d w] show ?thesis by auto
  next
    case OpBootstrapAdmin
    with assms(2) active_admin_Create [OF assms(2)] show ?thesis
      by (simp add: BootstrapAdmin_def prod.case_eq_if split: option.split sum.split list.split)
  qed (use assms(2) upd upd2 in \<open>simp_all add: active_admin_same [OF user_tables_unchanged(1)] active_admin_same [OF user_tables_unchanged(2)]
      active_admin_same [OF user_tables_unchanged(3)] active_admin_same [OF user_tables_unchanged(4)]
      active_admin_same [OF user_tables_unchanged(5)] active_admin_same [OF user_tables_unchanged(6)]
      ChangePassword_def ForcePasswordReset_def prod.case_eq_if split: option.split sum.split\<close>)
qed

section \<open>Lockout by address\<close>

lemma limiter_issue_tokens [simp]: "limiter (snd (issue_tokens env s msg err t1 t2 u ua w)) = limiter w"
  by (simp add: issue_tokens_def createSession_def prod.case_eq_if split: sum.split)

lemma first_tier_LocalLogin:
  assumes "first_tier_only (limiter w)"
  shows "first_tier_only (limiter (snd (LocalLogin env s e p ua ip w)))"
proof -
  note allow = AllowIP_first_tier [OF assms, of "clk env 0" ip]
  have "fst (AllowIP (clk env 0) ip (limiter w)) \<Longrightarrow>
      first_tier_only (RecordIP t2 ip (Record t1 em (snd (Allow t0 em (snd (AllowIP (clk env 0) ip (limiter w)))))))" for t0 t1 t2 em
    using allow by (intro RecordIP_first_tier) simp_all
  with allow(1) show ?thesis
    by (simp add: LocalLogin_def login_failed_def Let_def prod.case_eq_if split: option.split sum.split)
qed

lemma limiter_unchanged:
  "limiter (snd (RefreshToken env s t ua w)) = limiter w" "limiter (snd (Logout env t w)) = limiter w"
  "limiter (snd (ChangePassword env s u old new w)) = limiter w" "limiter (snd (BootstrapAdmin env s w)) = limiter w"
  "limiter (snd (UpdateRole env a tu r w)) = limiter w" "limiter (snd (UpdateDisabled env a tu d w)) = limiter w"
  "limiter (snd (ForcePasswordReset env a tu w)) = limiter w" "limiter (snd (CreateToken env c u l w)) = limiter w"
  "limiter (snd (RevokeToken env tid u w)) = limiter w" "limiter (TouchLastUsed env tid w) = limiter w"
  by (simp_all add: RefreshToken_def Logout_def ChangePassword_def BootstrapAdmin_def UpdateRole_def UpdateDisabled_def
      ForcePasswordReset_def CreateToken_def RevokeToken_def TouchLastUsed_def Let_def prod.case_eq_if
      split: option.split sum.split list.split)

fun is_google :: "auth_op \<Rightarrow> bool" where
  "is_google (OpGoogleCallback code st ex ip) = True"
| "is_google _ = False"

definition run_auth :: "Service \<Rightarrow> APITokenConfig \<Rightarrow> (auth_env \<times> auth_op) list \<Rightarrow> auth_world \<Rightarrow> auth_world" where
  "run_auth s c ops w = fold (\<lambda>(env, op). exec_auth s c env op) ops w"

lemma first_tier_run:
  "list_all (\<lambda>(env, op). \<not> is_google op) ops \<Longrightarrow> first_tier_only (limiter w) \<Longrightarrow> first_tier_only (limiter (run_auth s c ops w))"
proof (induction ops arbitrary: w)
  case (Cons p ops)
  obtain env op where p: "p = (env, op)" by force
  have "first_tier_only (limiter (exec_auth s c env op w))"
    using Cons.prems p by (cases op) (simp_all add: first_tier_LocalLogin limiter_unchanged)
  with Cons p show ?case by (simp add: run_auth_def)
qed (simp add: run_auth_def)

text \<open>
  The lockout of an address does not escalate. Start with a limiter in which no address has more than 20 failures
  on record or a ban above the lowest tier, as the limiter of a fresh service: after any sequence of password logins
  and other calls except Google callbacks that is still so, and a banned address is banned for 15 minutes. The login
  refuses the address as soon as 20 failures are on record and records nothing while it refuses, so the tiers of
  40 and 60 failures are never reached, however long an address keeps guessing.
\<close>

lemma lockout_stays_in_first_tier:
  assumes "list_all (\<lambda>(env, op). \<not> is_google op) ops" "first_tier_only (limiter w)"
    "ipBans (limiter (run_auth s c ops w)) ip = Some ban"
  shows "first_tier_only (limiter (run_auth s c ops w)) \<and> tier ban = 0 \<and>
    ban_duration (ipBanTiers (limiter (run_auth s c ops w)) ! tier ban) = 15 * Minute"
  using first_tier_run [OF assms(1,2), of s c] assms(3) by (auto simp: first_tier_only_def defaultIPBanTiers_def)

section \<open>A sample run\<close>

text \<open>The worlds after bootstrapping the administrator and logging in.\<close>

definition sample_login :: auth_op where
  "sample_login = OpLocalLogin ''root@x.org'' (replicate 24 (CHR ''a'')) ''cli'' ''10.0.0.1''"

definition sample_world :: "nat \<Rightarrow> auth_world" where
  "sample_world n = run_auth sample_service DefaultAPITokenConfig
     (take n [(sample_env 0, OpBootstrapAdmin), (sample_env 40, sample_login)]) empty_world"

lemma auth_reach_run: "auth_reach s c w \<Longrightarrow> auth_reach s c (run_auth s c ops w)"
  by (induction ops arbitrary: w) (auto simp: run_auth_def intro: auth_reach.step)

lemma sample_world_reach: "auth_reach sample_service DefaultAPITokenConfig (sample_world n)"
  unfolding sample_world_def by (intro auth_reach_run auth_reach.start)

theorem auth_tables_invariant_witness:
  "length (sessions (sample_world 2)) = 1 \<and> list_all (\<lambda>u. u_Role u \<in> {''user'', ''premium'', ''admin''}) (users (sample_world 2)) \<and>
   s_UserID ` set (sessions (sample_world 2)) \<subseteq> u_ID ` set (users (sample_world 2))"
proof -
  have "length (sessions (sample_world 2)) = 1" by code_simp
  with auth_tables_invariant [OF sample_world_reach [of 2]] show ?thesis by simp
qed

theorem sessions_for_enabled_accounts_witness:
  "\<exists>u\<in>set (users (exec_auth sample_service DefaultAPITokenConfig (sample_env 40) sample_login (sample_world 1))).
     u_ID u = s_UserID (hd (sessions (sample_world 2))) \<and> \<not> u_Disabled u"
proof (rule sessions_for_enabled_accounts)
  show "hd (sessions (sample_world 2)) \<in>
      set (sessions (exec_auth sample_service DefaultAPITokenConfig (sample_env 40) sample_login (sample_world 1)))"
    by code_simp
  show "hd (sessions (sample_world 2)) \<notin> set (sessions (sample_world 1))" by code_simp
qed

definition sample_refresh :: "(string \<times> string) auth_result \<times> auth_world" where
  "sample_refresh = RefreshToken (sample_env 80) sample_service (base64url (replicate 32 40)) ''cli'' (sample_world 2)"

definition sample_change :: "unit auth_result \<times> auth_world" where
  "sample_change = ChangePassword (sample_env 80) sample_service 0 (replicate 24 (CHR ''a'')) ''Correct-horse-7'' (sample_world 2)"

theorem password_change_ends_sessions_witness:
  "RefreshToken (sample_env 90) sample_service (base64url (replicate 32 40)) ''cli'' (snd sample_change) =
     (Inl ErrSessionNotFound, snd sample_change)"
proof (rule password_change_ends_sessions [OF sample_world_reach])
  have "fst sample_change = Inr ()" by code_simp
  then show "ChangePassword (sample_env 80) sample_service 0 (replicate 24 (CHR ''a'')) ''Correct-horse-7'' (sample_world 2) = (Inr (), snd sample_change)"
    unfolding sample_change_def by (metis prod.collapse)
  show "hd (sessions (sample_world 2)) \<in> set (sessions (sample_world 2))" by code_simp
  show "s_UserID (hd (sessions (sample_world 2))) = 0" by code_simp
  show "s_RefreshTokenHash (hd (sessions (sample_world 2))) = hashToken (sample_env 90) (base64url (replicate 32 40))" by code_simp
  show "db (sample_env 90) 0 = None" by (simp add: sample_env_def no_errors_def)
qed

definition attacked_world :: auth_world where
  "attacked_world = empty_world\<lparr>limiter := initial_limiter\<lparr>ipAttempts := [''10.6.6.6'' \<mapsto> replicate 20 90]\<rparr>\<rparr>"

definition sample_attack :: "(auth_env \<times> auth_op) list" where
  "sample_attack = [(sample_env 1, OpLocalLogin ''root@x.org'' ''guess'' ''bot'' ''10.6.6.6'')]"

end
