(* ===== verification/Middleware.thy ===== *)
theory Middleware
  imports Auth_Service Api_Limiter
begin

text \<open>
  The middleware around every request (\<^verbatim>\<open>httpapi/middleware\<close>), in the order in which
  \<^verbatim>\<open>router.New\<close> nests it: the client's address, API tokens, JWT and roles, request limits. A layer
  either answers the request itself or passes it on, possibly with values added to its context.
\<close>

record http_request =
  r_path :: string
  r_authorization :: string
  r_api_key :: string
  r_query_token :: string
  r_remote_addr :: string
  r_forwarded_for :: string
  r_real_ip :: string
  ctx_claims :: "Claims option"
  ctx_method :: "string option"

datatype http_outcome = Responded nat string | Served http_request

record http_state =
  auth :: auth_world
  rate_log :: "rate_row list"

section \<open>Routes\<close>

definition publicPaths :: "string list" where
  "publicPaths = [''/api/v1/health'', ''/api/v1/assets'', ''/api/v1/pairs'', ''/api/v1/tickers'', ''/api/v1/news'',
     ''/api/v1/config'', ''/api/v1/auth/refresh'', ''/api/v1/auth/logout'']"

definition publicPrefixes :: "string list" where
  "publicPrefixes = [''/api/v1/ticker/'', ''/api/v1/historical/'', ''/api/v1/tickers/stream'', ''/api/v1/news/stream'',
     ''/api/v1/auth/google/'', ''/api/v1/auth/local/login'', ''/swagger'']"

definition adminPrefixes :: "string list" where
  "adminPrefixes = [''/api/v1/system/'']"

text \<open>The three middlewares carry the same lists and the same function.\<close>

definition isPublic :: "string \<Rightarrow> bool" where
  "isPublic path \<longleftrightarrow> list_ex (\<lambda>p. path = p) publicPaths \<or> list_ex (\<lambda>p. prefix p path) publicPrefixes"

definition isAdminOnly :: "string \<Rightarrow> bool" where
  "isAdminOnly path \<longleftrightarrow> list_ex (\<lambda>p. prefix p path) adminPrefixes"

section \<open>Client address\<close>

text \<open>\<^verbatim>\<open>net.SplitHostPort\<close>: the host, or \<open>None\<close> for any of its errors.\<close>

definition last_index :: "char \<Rightarrow> string \<Rightarrow> nat option" where
  "last_index c s = (if c \<in> set s then Some (length s - 1 - length (takeWhile (\<lambda>x. x \<noteq> c) (rev s))) else None)"

definition first_index :: "char \<Rightarrow> string \<Rightarrow> nat option" where
  "first_index c s = (if c \<in> set s then Some (length (takeWhile (\<lambda>x. x \<noteq> c) s)) else None)"

definition split_host_port :: "string \<Rightarrow> string option" where
  "split_host_port hp =
     (case last_index (CHR '':'') hp of
        None \<Rightarrow> None
      | Some i \<Rightarrow>
          if hp \<noteq> [] \<and> hd hp = CHR ''['' then
            (case first_index (CHR '']'') hp of
               None \<Rightarrow> None
             | Some e \<Rightarrow>
                 if e + 1 \<noteq> i \<or> CHR ''['' \<in> set (drop 1 hp) \<or> CHR '']'' \<in> set (drop (e + 1) hp) then None
                 else Some (drop 1 (take e hp)))
          else if CHR '':'' \<in> set (take i hp) \<or> CHR ''['' \<in> set hp \<or> CHR '']'' \<in> set hp then None
          else Some (take i hp))"

text \<open>Parsed addresses are numbers; \<open>parse_ip\<close> and \<open>parse_cidr\<close> stand for \<^verbatim>\<open>net.ParseIP\<close> and \<^verbatim>\<open>net.ParseCIDR\<close>.\<close>

record net_env =
  parse_ip :: "string \<Rightarrow> nat option"
  parse_cidr :: "string \<Rightarrow> (nat \<Rightarrow> bool) option"
  uuid_parse :: "string \<Rightarrow> uuid option"

record RealIPMiddleware =
  trustedNets :: "(nat \<Rightarrow> bool) list"
  trustedIPs :: "nat list"

fun add_trusted :: "net_env \<Rightarrow> string list \<Rightarrow> RealIPMiddleware \<Rightarrow> RealIPMiddleware" where
  "add_trusted net [] m = m"
| "add_trusted net (entry # rest) m =
     (let e = TrimSpace entry
      in if e = [] then add_trusted net rest m
         else case parse_cidr net e of
           Some cidr \<Rightarrow> add_trusted net rest (m\<lparr>trustedNets := trustedNets m @ [cidr]\<rparr>)
         | None \<Rightarrow>
             (case parse_ip net e of
                Some ip \<Rightarrow> add_trusted net rest (m\<lparr>trustedIPs := trustedIPs m @ [ip]\<rparr>)
              | None \<Rightarrow> add_trusted net rest m))"

definition NewRealIPMiddleware :: "net_env \<Rightarrow> string list \<Rightarrow> RealIPMiddleware" where
  "NewRealIPMiddleware net trusted = add_trusted net trusted \<lparr>trustedNets = [], trustedIPs = []\<rparr>"

definition Enabled :: "RealIPMiddleware \<Rightarrow> bool" where
  "Enabled m \<longleftrightarrow> trustedNets m \<noteq> [] \<or> trustedIPs m \<noteq> []"

definition isTrusted :: "RealIPMiddleware \<Rightarrow> nat option \<Rightarrow> bool" where
  "isTrusted m ip =
     (case ip of None \<Rightarrow> False
      | Some a \<Rightarrow> list_ex (\<lambda>cidr. cidr a) (trustedNets m) \<or> list_ex (\<lambda>t. t = a) (trustedIPs m))"

definition extractIP :: "net_env \<Rightarrow> string \<Rightarrow> nat option" where
  "extractIP net addr = (case split_host_port addr of None \<Rightarrow> parse_ip net addr | Some host \<Rightarrow> parse_ip net host)"

definition candidate_ip :: "net_env \<Rightarrow> string \<Rightarrow> string option" where
  "candidate_ip net v = (let candidate = TrimSpace v in if parse_ip net candidate = None then None else Some candidate)"

definition resolveRealIP :: "net_env \<Rightarrow> http_request \<Rightarrow> string" where
  "resolveRealIP net r =
     (case (if r_forwarded_for r = [] then None else candidate_ip net (hd (split2 (CHR '','') (r_forwarded_for r)))) of
        Some ip \<Rightarrow> ip
      | None \<Rightarrow>
          (case (if r_real_ip r = [] then None else candidate_ip net (r_real_ip r)) of Some ip \<Rightarrow> ip | None \<Rightarrow> []))"

definition realip_Wrap :: "net_env \<Rightarrow> RealIPMiddleware \<Rightarrow> http_request \<Rightarrow> http_request" where
  "realip_Wrap net m r =
     (if \<not> Enabled m then r
      else if isTrusted m (extractIP net (r_remote_addr r)) \<and> resolveRealIP net r \<noteq> []
           then r\<lparr>r_remote_addr := resolveRealIP net r\<rparr>
      else r)"

section \<open>Credentials\<close>

definition extractBearerToken :: "http_request \<Rightarrow> string" where
  "extractBearerToken r =
     (if r_authorization r = [] then []
      else case split2 (CHR '' '') (r_authorization r) of
        [scheme, rest] \<Rightarrow> if equal_fold scheme ''Bearer'' then TrimSpace rest else []
      | _ \<Rightarrow> [])"

definition extractAPIToken :: "http_request \<Rightarrow> string" where
  "extractAPIToken r =
     (let bearer = extractBearerToken r
      in if bearer \<noteq> [] \<and> prefix ''exly_'' bearer then bearer
         else if r_api_key r \<noteq> [] then r_api_key r else [])"

text \<open>
  A layer takes the rest of the chain as an argument, as \<^verbatim>\<open>Wrap(next)\<close> does. \<open>None\<close> for the service is
  the nil pointer.
\<close>

type_synonym handler = "http_request \<Rightarrow> http_state \<Rightarrow> http_outcome \<times> http_state"

definition api_claims :: "auth_env \<Rightarrow> User \<Rightarrow> Claims" where
  "api_claims env u = \<lparr>c_Sub = uuid_string env (u_ID u), c_Email = u_Email u, c_Role = u_Role u, c_MustChangePassword = False,
     c_Subject = uuid_string env (u_ID u), c_IssuedAt = None, c_ExpiresAt = None\<rparr>"

definition apitoken_Wrap :: "auth_env \<Rightarrow> bool \<Rightarrow> handler \<Rightarrow> handler" where
  "apitoken_Wrap env configured next r st =
     (if \<not> configured then next r st
      else if isPublic (r_path r) then next r st
      else
        let rawToken = extractAPIToken r
        in if rawToken = [] then next r st
           else case ValidateToken env rawToken (auth st) of
             Inl e \<Rightarrow> (Responded 401 ''unauthorized'', st)
           | Inr (token, u) \<Rightarrow>
               if u_Disabled u then (Responded 401 ''unauthorized'', st)
               else next (r\<lparr>ctx_claims := Some (api_claims env u), ctx_method := Some ''api_token''\<rparr>)
                      (st\<lparr>auth := TouchLastUsed env (t_ID token) (auth st)\<rparr>))"

definition admin_check :: "http_request \<Rightarrow> Claims \<Rightarrow> handler \<Rightarrow> handler" where
  "admin_check r0 claims next r st =
     (if isAdminOnly (r_path r0) \<and> c_Role claims \<noteq> ''admin'' then (Responded 403 ''forbidden'', st) else next r st)"

definition auth_Wrap :: "auth_env \<Rightarrow> Service option \<Rightarrow> handler \<Rightarrow> handler" where
  "auth_Wrap env svc next r st =
     (case svc of
        None \<Rightarrow> next r st
      | Some s \<Rightarrow>
          if isPublic (r_path r) then next r st
          else case ctx_claims r of
            Some existing \<Rightarrow>
              admin_check r existing next (if ctx_method r = None then r\<lparr>ctx_method := Some ''jwt''\<rparr> else r) st
          | None \<Rightarrow>
              let bearer = extractBearerToken r;
                  token = (if bearer = [] then r_query_token r else bearer)
              in if token = [] then (Responded 401 ''unauthorized'', st)
                 else case ValidateAccessToken env token (JWTSecret (cfg s)) of
                   Inl e \<Rightarrow> (Responded 401 ''unauthorized'', st)
                 | Inr claims \<Rightarrow>
                     admin_check r claims next (r\<lparr>ctx_claims := Some claims, ctx_method := Some ''jwt''\<rparr>) st)"

definition clientIP :: "http_request \<Rightarrow> string" where
  "clientIP r = (case split_host_port (r_remote_addr r) of None \<Rightarrow> r_remote_addr r | Some host \<Rightarrow> host)"

definition ratelimit_Wrap :: "net_env \<Rightarrow> db_outcome \<Rightarrow> (nat \<Rightarrow> gotime) \<Rightarrow> APIRateLimiter option \<Rightarrow> handler \<Rightarrow> handler" where
  "ratelimit_Wrap net dbo clock lim next r st =
     (case lim of
        None \<Rightarrow> next r st
      | Some l \<Rightarrow>
          if isPublic (r_path r) then next r st
          else case ctx_claims r of
            None \<Rightarrow> next r st
          | Some claims \<Rightarrow>
              (case Check dbo clock l None (uuid_parse net (c_Sub claims)) (c_Role claims) (clientIP r) (rate_log st) of
                 (result, log) \<Rightarrow>
                   if \<not> Allowed result then (Responded 429 ''rate limit exceeded'', st\<lparr>rate_log := log\<rparr>)
                   else next r (st\<lparr>rate_log := log\<rparr>)))"

text \<open>The chain that \<^verbatim>\<open>router.New\<close> builds; the innermost handler, the routing table, is only recorded.\<close>

record stack =
  st_realip :: RealIPMiddleware
  st_tokens :: bool
  st_auth :: "Service option"
  st_limiter :: "APIRateLimiter option"

definition mux :: handler where
  "mux r st = (Served r, st)"

definition serve :: "net_env \<Rightarrow> auth_env \<Rightarrow> db_outcome \<Rightarrow> (nat \<Rightarrow> gotime) \<Rightarrow> stack \<Rightarrow> handler" where
  "serve net env dbo clock k r st =
     apitoken_Wrap env (st_tokens k)
       (auth_Wrap env (st_auth k) (ratelimit_Wrap net dbo clock (st_limiter k) mux))
       (realip_Wrap net (st_realip k) r) st"

section \<open>Who reaches the handlers\<close>

lemma admin_not_public: "isAdminOnly path \<Longrightarrow> \<not> isPublic path"
  by (auto simp: isAdminOnly_def isPublic_def adminPrefixes_def publicPaths_def publicPrefixes_def prefix_def)

lemma realip_path [simp]:
  "r_path (realip_Wrap net m r) = r_path r" "ctx_claims (realip_Wrap net m r) = ctx_claims r"
  "extractAPIToken (realip_Wrap net m r) = extractAPIToken r" "extractBearerToken (realip_Wrap net m r) = extractBearerToken r"
  "r_query_token (realip_Wrap net m r) = r_query_token r"
  by (simp_all add: realip_Wrap_def extractAPIToken_def extractBearerToken_def Let_def)

lemma ratelimit_Served: "fst (ratelimit_Wrap net dbo clock lim mux r st) = Served r' \<Longrightarrow> r' = r"
  by (auto simp: ratelimit_Wrap_def mux_def split: option.splits if_splits prod.splits)

text \<open>A valid API token of an enabled account in the database, with the claims derived from it.\<close>

definition token_grants :: "auth_env \<Rightarrow> string \<Rightarrow> auth_world \<Rightarrow> Claims \<Rightarrow> bool" where
  "token_grants env raw w claims \<longleftrightarrow>
     (\<exists>t\<in>set (api_tokens w). \<exists>u\<in>set (users w).
        t_TokenHash t = hashToken env raw \<and> t_UserID t = u_ID u \<and> t_RevokedAt t = None \<and> clk env 0 \<le> t_ExpiresAt t \<and>
        \<not> u_Disabled u \<and> c_Role claims = u_Role u \<and> c_Sub claims = uuid_string env (u_ID u))"

lemma ValidateToken_grants:
  assumes "ValidateToken env raw w = Inr (t, u)" "\<not> u_Disabled u"
  shows "token_grants env raw w (api_claims env u)"
proof -
  from assms(1) obtain v where t: "sql_row t_TokenHash (hashToken env raw) (api_tokens w) = Some t"
    and u: "sql_row u_ID (t_UserID t) (users w) = Some v" "u = scan_row v"
    and ok: "t_RevokedAt t = None" "clk env 0 \<le> t_ExpiresAt t"
    by (auto simp: ValidateToken_def token_FindByTokenHash_def FindByID_def scanUser_def split: option.splits sum.splits if_splits)
  from sql_row_SomeD [OF t] sql_row_SomeD [OF u(1)] ok assms(2) u(2) show ?thesis
    unfolding token_grants_def by (intro bexI [of _ t] bexI [of _ v]) (auto simp: api_claims_def)
qed


definition admin_claims :: Claims where
  "admin_claims = \<lparr>c_Sub = ''1'', c_Email = ''a@b.c'', c_Role = ''admin'', c_MustChangePassword = False, c_Subject = ''1'',
     c_IssuedAt = None, c_ExpiresAt = None\<rparr>"

definition sample_jwt_env :: auth_env where
  "sample_jwt_env = (sample_env 0)\<lparr>jwt_parse := \<lambda>tok key.
     case key True of Inl e \<Rightarrow> Inl e | Inr secret \<Rightarrow> if tok = ''t1'' then Inr (admin_claims, True) else Inl ''bad signature''\<rparr>"

definition sample_request :: http_request where
  "sample_request = \<lparr>r_path = ''/api/v1/system/tasks'', r_authorization = ''bearer t1'', r_api_key = [], r_query_token = [],
     r_remote_addr = ''10.0.0.1:80'', r_forwarded_for = [], r_real_ip = [], ctx_claims = None, ctx_method = None\<rparr>"

definition sample_stack :: stack where
  "sample_stack = \<lparr>st_realip = \<lparr>trustedNets = [], trustedIPs = []\<rparr>, st_tokens = True, st_auth = Some sample_service, st_limiter = None\<rparr>"

definition sample_net :: net_env where
  "sample_net = \<lparr>parse_ip = \<lambda>_. None, parse_cidr = \<lambda>_. None, uuid_parse = \<lambda>_. None\<rparr>"

definition sample_http_state :: http_state where
  "sample_http_state = \<lparr>auth = \<lparr>users = [], sessions = [], api_tokens = [], limiter = initial_limiter\<rparr>, rate_log = []\<rparr>"

lemma sample_request_served:
  "fst (serve sample_net sample_jwt_env no_errors (\<lambda>_. 0) sample_stack sample_request sample_http_state) =
     Served (sample_request\<lparr>ctx_claims := Some admin_claims, ctx_method := Some ''jwt''\<rparr>)"
proof -
  have tok: "extractBearerToken sample_request = ''t1''" by code_simp
  have api: "extractAPIToken sample_request = []" by code_simp
  have pub: "\<not> isPublic (r_path sample_request)" by code_simp
  have ip: "realip_Wrap sample_net (st_realip sample_stack) sample_request = sample_request"
    by (simp add: realip_Wrap_def Enabled_def sample_stack_def)
  have jwt: "ValidateAccessToken sample_jwt_env ''t1'' x = Inr admin_claims" for x
    by (simp add: ValidateAccessToken_def sample_jwt_env_def admin_claims_def)
  have "ctx_claims sample_request = None" by (simp add: sample_request_def)
  with tok api pub ip jwt show ?thesis
    by (simp add: serve_def apitoken_Wrap_def auth_Wrap_def sample_stack_def admin_check_def ratelimit_Wrap_def mux_def admin_claims_def)
qed


end
