(* ===== verification/Portfolio_Repo.thy ===== *)
theory Portfolio_Repo
  imports Portfolio_Types Sql Go_Strings
begin

text \<open>
  The portfolio tables and their repositories: holdings, exchange credentials and wallet addresses
  (\<^verbatim>\<open>domain/portfolio/portfolio.go\<close>, \<^verbatim>\<open>storage/postgres/portfolio_*_repository.go\<close>). A
  method takes the outcomes of its database calls and the table, and returns the new table when it writes. The
  constraints are those of migrations 23 and 24; a violated foreign key is one of the outcomes. A UUID is its canonical
  text, so \<^verbatim>\<open>String()\<close> is the identity, and \<open>parse\<close> stands for \<^verbatim>\<open>uuid.Parse\<close>. Byte
  strings are strings.
\<close>

section \<open>Types\<close>

record Holding =
  h_ID :: uuid_text
  h_UserID :: uuid_text
  h_AssetSymbol :: string
  h_Quantity :: float64
  h_AvgBuyPrice :: "float64 option"
  h_QuoteCurrency :: string
  h_Source :: string
  h_SourceRef :: "string option"
  h_Notes :: string
  h_CreatedAt :: gotime
  h_UpdatedAt :: gotime

record ExchangeCredential =
  ec_ID :: uuid_text
  ec_UserID :: uuid_text
  ec_Exchange :: string
  ec_APIKeyPrefix :: string
  ec_APIKeyCipher :: string
  ec_SecretCipher :: string
  ec_Nonce :: string
  ec_KeyNonce :: string
  ec_Status :: string
  ec_ErrorReason :: "string option"
  ec_LastSyncAt :: "gotime option"
  ec_CreatedAt :: gotime
  ec_UpdatedAt :: gotime

record WalletAddress =
  wa_ID :: uuid_text
  wa_UserID :: uuid_text
  wa_Chain :: string
  wa_AddressPrefix :: string
  wa_AddressCipher :: string
  wa_AddressNonce :: string
  wa_Label :: string
  wa_LabelCipher :: string
  wa_LabelNonce :: string
  wa_LastSyncAt :: "gotime option"
  wa_CreatedAt :: gotime
  wa_UpdatedAt :: gotime

text \<open>The errors of the package; \<open>Wrap m e\<close> is \<^verbatim>\<open>fmt.Errorf("m: %w", e)\<close>.\<close>

datatype port_error =
    ErrForbidden | ErrNonPositiveQuantity | ErrInvalidAssetSymbol string | ErrUnsupportedExchange string | ErrUnsupportedChain string
  | ErrInvalidEthereumAddress | ErrInvalidSolanaAddress | ErrInvalidBitcoinAddress | ErrDuplicateCredential string
  | ErrInvalidMasterKey string | ErrCiphertextTamper
  | SqlNoRows | SqlError string | UniqueViolation string | CheckViolation | Plain string | Wrap string port_error

type_synonym 'a port_result = "(port_error, 'a) result"

fun err_text :: "port_error \<Rightarrow> string" where
  "err_text ErrForbidden = ''forbidden: access denied''"
| "err_text ErrNonPositiveQuantity = ''holding quantity must be greater than zero''"
| "err_text (ErrInvalidAssetSymbol s) = ''asset symbol not found in catalog: '' @ go_quote s"
| "err_text (ErrUnsupportedExchange s) = ''unsupported exchange: must be one of binance, kraken, coinbase: got '' @ go_quote s"
| "err_text (ErrUnsupportedChain s) = ''unsupported chain: must be one of ethereum, solana, bitcoin: got '' @ go_quote s"
| "err_text ErrInvalidEthereumAddress = ''invalid Ethereum address: must be 0x followed by 40 hex characters''"
| "err_text ErrInvalidSolanaAddress = ''invalid Solana address: must be 32-44 base58 characters''"
| "err_text ErrInvalidBitcoinAddress = ''invalid Bitcoin address: must be a valid bech32 or base58check address''"
| "err_text (ErrDuplicateCredential s) = ''exchange credential already exists for this user: '' @ s"
| "err_text (ErrInvalidMasterKey d) = ''master key must be 64 hex characters (32 bytes): '' @ d"
| "err_text ErrCiphertextTamper = ''ciphertext tamper detected: GCM authentication failed''"
| "err_text SqlNoRows = ''sql: no rows in result set''"
| "err_text (SqlError e) = e"
| "err_text (UniqueViolation k) = ''pq: duplicate key value violates unique constraint '' @ go_quote k"
| "err_text CheckViolation = ''pq: new row violates check constraint''"
| "err_text (Plain e) = e"
| "err_text (Wrap m e) = m @ '': '' @ err_text e"

section \<open>Statements shared by the repositories\<close>

text \<open>An \<^verbatim>\<open>UPDATE\<close> or \<^verbatim>\<open>DELETE\<close> that reports \<^verbatim>\<open>sql.ErrNoRows\<close> when it hits no row.\<close>

definition exec_update :: "string option \<Rightarrow> ('r \<Rightarrow> bool) \<Rightarrow> ('r \<Rightarrow> 'r) \<Rightarrow> 'r list \<Rightarrow> unit port_result \<times> 'r list" where
  "exec_update err P f rs =
     (case err of
        Some e \<Rightarrow> (Inl (SqlError e), rs)
      | None \<Rightarrow> if rows_affected P rs = 0 then (Inl SqlNoRows, rs) else (Inr (), sql_update P f rs))"

definition exec_delete :: "string option \<Rightarrow> ('r \<Rightarrow> bool) \<Rightarrow> 'r list \<Rightarrow> unit port_result \<times> 'r list" where
  "exec_delete err P rs =
     (case err of
        Some e \<Rightarrow> (Inl (SqlError e), rs)
      | None \<Rightarrow> if rows_affected P rs = 0 then (Inl SqlNoRows, rs) else (Inr (), sql_delete P rs))"

definition delete_where :: "string option \<Rightarrow> ('r \<Rightarrow> bool) \<Rightarrow> 'r list \<Rightarrow> unit port_result \<times> 'r list" where
  "delete_where err P rs = (case err of Some e \<Rightarrow> (Inl (SqlError e), rs) | None \<Rightarrow> (Inr (), sql_delete P rs))"

definition query_row :: "string option \<Rightarrow> ('r \<Rightarrow> bool) \<Rightarrow> 'r list \<Rightarrow> 'r option port_result" where
  "query_row err P rs = (case err of Some e \<Rightarrow> Inl (SqlError e) | None \<Rightarrow> Inr (find P rs))"

definition query_rows :: "string option \<Rightarrow> 'r list \<Rightarrow> 'r list port_result" where
  "query_rows err rs = (case err of Some e \<Rightarrow> Inl (SqlError e) | None \<Rightarrow> Inr rs)"

section \<open>Holdings\<close>

text \<open>
  A row is kept as the holding it is read back as: the column \<^verbatim>\<open>notes_cipher\<close> holds the bytes of the notes,
  \<^verbatim>\<open>NULL\<close> for empty notes.
\<close>

definition holding_sources :: "string list" where
  "holding_sources = [''manual'', ''binance'', ''kraken'', ''coinbase'', ''ethereum'', ''solana'', ''bitcoin'', ''ledger'']"

text \<open>PostgreSQL orders \<^verbatim>\<open>NaN\<close> above every number.\<close>

definition holding_check :: "Holding \<Rightarrow> bool" where
  "holding_check h \<longleftrightarrow> (flt f0 (h_Quantity h) \<or> h_Quantity h = NaN) \<and> h_Source h \<in> set holding_sources"

definition holding_key :: "Holding \<Rightarrow> Holding \<Rightarrow> bool" where
  "holding_key h r \<longleftrightarrow>
     h_UserID r = h_UserID h \<and> h_AssetSymbol r = h_AssetSymbol h \<and> h_Source r = h_Source h \<and> sql_eq (h_SourceRef r) (h_SourceRef h)"

definition parse_ref :: "(string \<Rightarrow> uuid_text port_result) \<Rightarrow> string option \<Rightarrow> uuid_text option port_result" where
  "parse_ref parse ref = (case ref of None \<Rightarrow> Inr None | Some s \<Rightarrow> (case parse s of Inl e \<Rightarrow> Inl e | Inr u \<Rightarrow> Inr (Some u)))"

definition holding_Create ::
    "(string \<Rightarrow> uuid_text port_result) \<Rightarrow> string option \<Rightarrow> gotime \<Rightarrow> Holding \<Rightarrow> Holding list \<Rightarrow> Holding port_result \<times> Holding list" where
  "holding_Create parse err now h rs =
     (case parse_ref parse (h_SourceRef h) of
        Inl e \<Rightarrow> (Inl e, rs)
      | Inr ref \<Rightarrow>
          (case err of
             Some e \<Rightarrow> (Inl (SqlError e), rs)
           | None \<Rightarrow>
               let row = h\<lparr>h_SourceRef := ref, h_CreatedAt := now, h_UpdatedAt := now\<rparr>
               in if \<not> holding_check row then (Inl CheckViolation, rs)
                  else if list_ex (\<lambda>r. h_ID r = h_ID row) rs then (Inl (UniqueViolation ''portfolio_holdings_pkey''), rs)
                  else if list_ex (holding_key row) rs
                  then (Inl (UniqueViolation ''portfolio_holdings_user_id_asset_symbol_source_source_ref_key''), rs)
                  else (Inr (h\<lparr>h_CreatedAt := now, h_UpdatedAt := now\<rparr>), rs @ [row])))"

definition owned_holding :: "uuid_text \<Rightarrow> uuid_text \<Rightarrow> Holding \<Rightarrow> bool" where
  "owned_holding i userID r \<longleftrightarrow> h_ID r = i \<and> h_UserID r = userID"

definition holding_set :: "Holding \<Rightarrow> gotime \<Rightarrow> Holding \<Rightarrow> Holding" where
  "holding_set h now r =
     r\<lparr>h_AssetSymbol := h_AssetSymbol h, h_Quantity := h_Quantity h, h_AvgBuyPrice := h_AvgBuyPrice h,
       h_QuoteCurrency := h_QuoteCurrency h, h_Source := h_Source h, h_Notes := h_Notes h, h_UpdatedAt := now\<rparr>"

definition holding_Update :: "string option \<Rightarrow> gotime \<Rightarrow> Holding \<Rightarrow> Holding list \<Rightarrow> Holding port_result \<times> Holding list" where
  "holding_Update err now h rs =
     (let hit = owned_holding (h_ID h) (h_UserID h); news = map (holding_set h now) (filter hit rs)
      in if err = None \<and> list_ex (\<lambda>x. \<not> holding_check x) news then (Inl CheckViolation, rs)
         else if err = None \<and> list_ex (\<lambda>x. list_ex (\<lambda>r. h_ID r \<noteq> h_ID x \<and> holding_key x r) rs) news
         then (Inl (UniqueViolation ''portfolio_holdings_user_id_asset_symbol_source_source_ref_key''), rs)
         else case exec_update err hit (holding_set h now) rs of
           (Inl e, rs') \<Rightarrow> (Inl e, rs')
         | (Inr _, rs') \<Rightarrow> (Inr (h\<lparr>h_UpdatedAt := now\<rparr>), rs'))"

definition holding_Delete :: "string option \<Rightarrow> uuid_text \<Rightarrow> uuid_text \<Rightarrow> Holding list \<Rightarrow> unit port_result \<times> Holding list" where
  "holding_Delete err i userID rs = exec_delete err (owned_holding i userID) rs"

definition holding_FindByID :: "string option \<Rightarrow> uuid_text \<Rightarrow> uuid_text \<Rightarrow> Holding list \<Rightarrow> Holding option port_result" where
  "holding_FindByID err i userID rs = query_row err (owned_holding i userID) rs"

text \<open>\<open>srt\<close> orders by \<^verbatim>\<open>created_at DESC\<close>.\<close>

definition holding_ListByUserID :: "Holding sorting \<Rightarrow> string option \<Rightarrow> uuid_text \<Rightarrow> Holding list \<Rightarrow> Holding list port_result" where
  "holding_ListByUserID srt err userID rs =
     query_rows err (srt (\<lambda>h. (- h_CreatedAt h, 0, 0, 0)) (filter (\<lambda>r. h_UserID r = userID) rs))"

definition put_holding :: "gotime \<Rightarrow> Holding \<Rightarrow> Holding list \<Rightarrow> Holding list port_result" where
  "put_holding now row rs =
     (if \<not> holding_check row then Inl CheckViolation
      else if list_ex (holding_key row) rs
      then Inr (sql_update (holding_key row)
        (\<lambda>r. r\<lparr>h_Quantity := h_Quantity row, h_AvgBuyPrice := h_AvgBuyPrice row, h_Notes := h_Notes row, h_UpdatedAt := now\<rparr>) rs)
      else if list_ex (\<lambda>r. h_ID r = h_ID row) rs then Inl (UniqueViolation ''portfolio_holdings_pkey'')
      else Inr (rs @ [row\<lparr>h_CreatedAt := now, h_UpdatedAt := now\<rparr>]))"

definition nil_uuid :: uuid_text where
  "nil_uuid = ''00000000-0000-0000-0000-000000000000''"

fun upsert_holdings ::
    "db_outcome \<Rightarrow> nat \<Rightarrow> (nat \<Rightarrow> uuid_text) \<Rightarrow> gotime \<Rightarrow> uuid_text \<Rightarrow> string \<Rightarrow> uuid_text \<Rightarrow> Holding list \<Rightarrow> Holding list \<Rightarrow>
       Holding list port_result" where
  "upsert_holdings db k new_id now userID source ref [] rs = Inr rs"
| "upsert_holdings db k new_id now userID source ref (h # hs) rs =
     (case db k of
        Some e \<Rightarrow> Inl (SqlError e)
      | None \<Rightarrow>
          (case put_holding now
                  (h\<lparr>h_ID := (if h_ID h = nil_uuid then new_id k else h_ID h), h_UserID := userID, h_Source := source,
                     h_SourceRef := Some ref\<rparr>) rs of
             Inl e \<Rightarrow> Inl e
           | Inr rs' \<Rightarrow> upsert_holdings db (Suc k) new_id now userID source ref hs rs'))"

text \<open>Calls \<open>0\<close> and \<open>1\<close> begin and prepare, the last one commits.\<close>

definition UpsertBySource ::
    "(string \<Rightarrow> uuid_text port_result) \<Rightarrow> db_outcome \<Rightarrow> (nat \<Rightarrow> uuid_text) \<Rightarrow> gotime \<Rightarrow> uuid_text \<Rightarrow> string \<Rightarrow> string \<Rightarrow> Holding list \<Rightarrow>
       Holding list \<Rightarrow> unit port_result \<times> Holding list" where
  "UpsertBySource parse db new_id now userID source sourceRef hs rs =
     (case db 0 of
        Some e \<Rightarrow> (Inl (SqlError e), rs)
      | None \<Rightarrow>
          (case parse sourceRef of
             Inl e \<Rightarrow> (Inl e, rs)
           | Inr ref \<Rightarrow>
               (case db 1 of
                  Some e \<Rightarrow> (Inl (SqlError e), rs)
                | None \<Rightarrow>
                    (case upsert_holdings db 2 new_id now userID source ref hs rs of
                       Inl e \<Rightarrow> (Inl e, rs)
                     | Inr rs' \<Rightarrow>
                         (case db (2 + length hs) of Some e \<Rightarrow> (Inl (SqlError e), rs) | None \<Rightarrow> (Inr (), rs'))))))"

definition holding_DeleteBySourceRef ::
    "(string \<Rightarrow> uuid_text port_result) \<Rightarrow> string option \<Rightarrow> uuid_text \<Rightarrow> string \<Rightarrow> Holding list \<Rightarrow> unit port_result \<times> Holding list" where
  "holding_DeleteBySourceRef parse err userID sourceRef rs =
     (case parse sourceRef of
        Inl e \<Rightarrow> (Inl e, rs)
      | Inr ref \<Rightarrow> delete_where err (\<lambda>r. h_UserID r = userID \<and> h_SourceRef r = Some ref) rs)"

definition DeleteBySource :: "string option \<Rightarrow> uuid_text \<Rightarrow> string \<Rightarrow> Holding list \<Rightarrow> unit port_result \<times> Holding list" where
  "DeleteBySource err userID source rs = delete_where err (\<lambda>r. h_UserID r = userID \<and> h_Source r = source) rs"

definition ListDistinctUserIDs :: "string option \<Rightarrow> Holding list \<Rightarrow> uuid_text list port_result" where
  "ListDistinctUserIDs err rs = query_rows err (remdups (map h_UserID rs))"

section \<open>Credentials\<close>

definition owned_cred :: "uuid_text \<Rightarrow> uuid_text \<Rightarrow> ExchangeCredential \<Rightarrow> bool" where
  "owned_cred i userID r \<longleftrightarrow> ec_ID r = i \<and> ec_UserID r = userID"

definition cred_check :: "ExchangeCredential \<Rightarrow> bool" where
  "cred_check c \<longleftrightarrow> ec_Exchange c \<in> {''binance'', ''kraken'', ''coinbase''} \<and> ec_Status c \<in> {''active'', ''failed''}"

definition cred_Create :: "string option \<Rightarrow> gotime \<Rightarrow> ExchangeCredential \<Rightarrow> ExchangeCredential list \<Rightarrow> ExchangeCredential port_result \<times> ExchangeCredential list" where
  "cred_Create err now c rs =
     (case err of
        Some e \<Rightarrow> (Inl (SqlError e), rs)
      | None \<Rightarrow>
          if \<not> cred_check c then (Inl CheckViolation, rs)
          else if list_ex (\<lambda>r. ec_ID r = ec_ID c) rs then (Inl (UniqueViolation ''exchange_credentials_pkey''), rs)
          else if list_ex (\<lambda>r. ec_UserID r = ec_UserID c \<and> ec_Exchange r = ec_Exchange c) rs
          then (Inl (UniqueViolation ''idx_exchange_credentials_user_exchange''), rs)
          else let row = c\<lparr>ec_CreatedAt := now, ec_UpdatedAt := now\<rparr> in (Inr row, rs @ [row\<lparr>ec_LastSyncAt := None\<rparr>]))"

definition cred_FindByID :: "string option \<Rightarrow> uuid_text \<Rightarrow> uuid_text \<Rightarrow> ExchangeCredential list \<Rightarrow> ExchangeCredential option port_result" where
  "cred_FindByID err i userID rs = query_row err (owned_cred i userID) rs"

definition cred_ListByUserID :: "ExchangeCredential sorting \<Rightarrow> string option \<Rightarrow> uuid_text \<Rightarrow> ExchangeCredential list \<Rightarrow> ExchangeCredential list port_result" where
  "cred_ListByUserID srt err userID rs =
     query_rows err (srt (\<lambda>c. (- ec_CreatedAt c, 0, 0, 0)) (filter (\<lambda>r. ec_UserID r = userID) rs))"

definition cred_Delete :: "string option \<Rightarrow> uuid_text \<Rightarrow> uuid_text \<Rightarrow> ExchangeCredential list \<Rightarrow> unit port_result \<times> ExchangeCredential list" where
  "cred_Delete err i userID rs = exec_delete err (owned_cred i userID) rs"

definition UpdateSyncStatus ::
    "string option \<Rightarrow> gotime \<Rightarrow> uuid_text \<Rightarrow> string \<Rightarrow> string option \<Rightarrow> gotime option \<Rightarrow> ExchangeCredential list \<Rightarrow>
       unit port_result \<times> ExchangeCredential list" where
  "UpdateSyncStatus err now i status reason syncTime rs =
     exec_update err (\<lambda>r. ec_ID r = i)
       (\<lambda>r. r\<lparr>ec_Status := status, ec_ErrorReason := reason, ec_LastSyncAt := syncTime, ec_UpdatedAt := now\<rparr>) rs"

section \<open>Wallets\<close>

definition owned_wallet :: "uuid_text \<Rightarrow> uuid_text \<Rightarrow> WalletAddress \<Rightarrow> bool" where
  "owned_wallet i userID r \<longleftrightarrow> wa_ID r = i \<and> wa_UserID r = userID"

definition wallet_Create :: "string option \<Rightarrow> gotime \<Rightarrow> WalletAddress \<Rightarrow> WalletAddress list \<Rightarrow> WalletAddress port_result \<times> WalletAddress list" where
  "wallet_Create err now w rs =
     (case err of
        Some e \<Rightarrow> (Inl (SqlError e), rs)
      | None \<Rightarrow>
          if wa_Chain w \<notin> {''ethereum'', ''solana'', ''bitcoin''} then (Inl CheckViolation, rs)
          else if list_ex (\<lambda>r. wa_ID r = wa_ID w) rs then (Inl (UniqueViolation ''wallet_addresses_pkey''), rs)
          else let row = w\<lparr>wa_CreatedAt := now, wa_UpdatedAt := now\<rparr> in (Inr row, rs @ [row\<lparr>wa_LastSyncAt := None\<rparr>]))"

definition wallet_FindByID :: "string option \<Rightarrow> uuid_text \<Rightarrow> uuid_text \<Rightarrow> WalletAddress list \<Rightarrow> WalletAddress option port_result" where
  "wallet_FindByID err i userID rs = query_row err (owned_wallet i userID) rs"

definition wallet_ListByUserID :: "WalletAddress sorting \<Rightarrow> string option \<Rightarrow> uuid_text \<Rightarrow> WalletAddress list \<Rightarrow> WalletAddress list port_result" where
  "wallet_ListByUserID srt err userID rs =
     query_rows err (srt (\<lambda>w. (- wa_CreatedAt w, 0, 0, 0)) (filter (\<lambda>r. wa_UserID r = userID) rs))"

definition wallet_Delete :: "string option \<Rightarrow> uuid_text \<Rightarrow> uuid_text \<Rightarrow> WalletAddress list \<Rightarrow> unit port_result \<times> WalletAddress list" where
  "wallet_Delete err i userID rs = exec_delete err (owned_wallet i userID) rs"

definition UpdateSyncTime :: "string option \<Rightarrow> gotime \<Rightarrow> uuid_text \<Rightarrow> gotime \<Rightarrow> WalletAddress list \<Rightarrow> unit port_result \<times> WalletAddress list" where
  "UpdateSyncTime err now i syncTime rs =
     exec_update err (\<lambda>r. wa_ID r = i) (\<lambda>r. r\<lparr>wa_LastSyncAt := Some syncTime, wa_UpdatedAt := now\<rparr>) rs"

end
