(* ===== verification/Portfolio_Service.thy ===== *)
theory Portfolio_Service
  imports Portfolio_Repo
begin

text \<open>
  \<^verbatim>\<open>portfolio/service.go\<close> with \<^verbatim>\<open>portfolio/encryption.go\<close> and \<^verbatim>\<open>portfolio/validation.go\<close>:
  holdings entered by hand, exchange credentials, wallets, imports, and the synchronisation of all of them. HKDF, AES-GCM and the
  random source are arguments, as are the connectors to exchanges and chains.
\<close>

section \<open>Encryption\<close>

text \<open>
  \<open>hkdf\<close> derives a key of 32 bytes from the master key and the user, \<open>seal\<close> and \<open>unseal\<close> are AES-GCM under a key
  and a nonce.
\<close>

record crypto =
  hkdf :: "string \<Rightarrow> uuid_text \<Rightarrow> (string, string) result"
  new_cipher :: "string \<Rightarrow> (string, unit) result"
  seal :: "string \<Rightarrow> string \<Rightarrow> string \<Rightarrow> string"
  unseal :: "string \<Rightarrow> string \<Rightarrow> string \<Rightarrow> string option"

record KeyEncryptionService =
  masterKey :: string

definition NewKeyEncryptionService :: "string \<Rightarrow> KeyEncryptionService port_result" where
  "NewKeyEncryptionService masterKeyHex =
     (case hex_decode masterKeyHex of
        None \<Rightarrow> Inl (ErrInvalidMasterKey ''invalid hex encoding'')
      | Some decoded \<Rightarrow>
          if length decoded \<noteq> 32 then Inl (ErrInvalidMasterKey (''got '' @ show_nat (length decoded) @ '' bytes''))
          else Inr \<lparr>masterKey = decoded\<rparr>)"

definition DeriveUserKey :: "crypto \<Rightarrow> KeyEncryptionService \<Rightarrow> uuid_text \<Rightarrow> string port_result" where
  "DeriveUserKey c s userID =
     (case hkdf c (masterKey s) userID of
        Inl e \<Rightarrow> Inl (Plain (''key derivation failed for user '' @ userID @ '': '' @ e))
      | Inr key \<Rightarrow> Inr key)"

text \<open>\<open>nonce\<close> is the outcome of reading the random nonce.\<close>

definition Encrypt :: "crypto \<Rightarrow> (string, string) result \<Rightarrow> string \<Rightarrow> string \<Rightarrow> (string \<times> string) port_result" where
  "Encrypt c nonce key plaintext =
     (case new_cipher c key of
        Inl e \<Rightarrow> Inl (Plain (''failed to create AES cipher: '' @ e))
      | Inr _ \<Rightarrow>
          (case nonce of
             Inl e \<Rightarrow> Inl (Plain (''failed to generate nonce: '' @ e))
           | Inr n \<Rightarrow> Inr (seal c key n plaintext, n)))"

definition Decrypt :: "crypto \<Rightarrow> string \<Rightarrow> string \<Rightarrow> string \<Rightarrow> string port_result" where
  "Decrypt c key ciphertext nonce =
     (case new_cipher c key of
        Inl e \<Rightarrow> Inl (Plain (''failed to create AES cipher: '' @ e))
      | Inr _ \<Rightarrow> (case unseal c key nonce ciphertext of None \<Rightarrow> Inl ErrCiphertextTamper | Some p \<Rightarrow> Inr p))"

definition EncryptForUser :: "crypto \<Rightarrow> KeyEncryptionService \<Rightarrow> (string, string) result \<Rightarrow> uuid_text \<Rightarrow> string \<Rightarrow> (string \<times> string) port_result" where
  "EncryptForUser c s nonce userID plaintext =
     (case DeriveUserKey c s userID of Inl e \<Rightarrow> Inl e | Inr key \<Rightarrow> Encrypt c nonce key plaintext)"

definition DecryptForUser :: "crypto \<Rightarrow> KeyEncryptionService \<Rightarrow> uuid_text \<Rightarrow> string \<Rightarrow> string \<Rightarrow> string port_result" where
  "DecryptForUser c s userID ciphertext nonce =
     (case DeriveUserKey c s userID of Inl e \<Rightarrow> Inl e | Inr key \<Rightarrow> Decrypt c key ciphertext nonce)"

section \<open>Validation\<close>

definition AllowedExchanges :: "string list" where "AllowedExchanges = [''binance'', ''kraken'', ''coinbase'']"
definition AllowedChains :: "string list" where "AllowedChains = [''ethereum'', ''solana'', ''bitcoin'']"

definition base58_chars :: string where
  "base58_chars = ''123456789ABCDEFGHJKLMNPQRSTUVWXYZabcdefghijkmnopqrstuvwxyz''"

definition bech32_chars :: string where
  "bech32_chars = ''acdefghjklmnpqrstuvwxyz023456789''"

definition validateEthereumAddress :: "string \<Rightarrow> unit port_result" where
  "validateEthereumAddress a =
     (if prefix ''0x'' a \<and> length a = 42 \<and> list_all (\<lambda>c. hex_value c \<noteq> None) (drop 2 a) then Inr () else Inl ErrInvalidEthereumAddress)"

definition validateSolanaAddress :: "string \<Rightarrow> unit port_result" where
  "validateSolanaAddress a =
     (if length a < 32 \<or> length a > 44 then Inl ErrInvalidSolanaAddress
      else if \<not> list_all (\<lambda>c. c \<in> set base58_chars) a then Inl ErrInvalidSolanaAddress
      else Inr ())"

definition validateBitcoinBech32 :: "string \<Rightarrow> unit port_result" where
  "validateBitcoinBech32 a =
     (let rest = drop 3 a
      in if prefix ''bc1'' a \<and> 6 \<le> length rest \<and> length rest \<le> 87 \<and> list_all (\<lambda>c. c \<in> set bech32_chars) rest
         then Inr () else Inl ErrInvalidBitcoinAddress)"

definition validateBitcoinBase58Check :: "string \<Rightarrow> unit port_result" where
  "validateBitcoinBase58Check a =
     (if length a < 25 \<or> length a > 34 then Inl ErrInvalidBitcoinAddress
      else if \<not> list_all (\<lambda>c. c \<in> set base58_chars) a then Inl ErrInvalidBitcoinAddress
      else Inr ())"

definition validateBitcoinAddress :: "string \<Rightarrow> unit port_result" where
  "validateBitcoinAddress a =
     (if prefix ''bc1'' a then validateBitcoinBech32 a
      else case a of
        [] \<Rightarrow> Inl ErrInvalidBitcoinAddress
      | c # _ \<Rightarrow> if c = CHR ''1'' \<or> c = CHR ''3'' then validateBitcoinBase58Check a else Inl ErrInvalidBitcoinAddress)"

definition ValidateWalletAddress :: "string \<Rightarrow> string \<Rightarrow> unit port_result" where
  "ValidateWalletAddress chain a =
     (if chain = ''ethereum'' then validateEthereumAddress a
      else if chain = ''solana'' then validateSolanaAddress a
      else if chain = ''bitcoin'' then validateBitcoinAddress a
      else Inl (ErrUnsupportedChain chain))"

definition ValidateExchange :: "string \<Rightarrow> unit port_result" where
  "ValidateExchange e = (if e \<in> set AllowedExchanges then Inr () else Inl (ErrUnsupportedExchange e))"

definition ValidateChain :: "string \<Rightarrow> unit port_result" where
  "ValidateChain c = (if c \<in> set AllowedChains then Inr () else Inl (ErrUnsupportedChain c))"

definition ValidateAssetSymbol :: "string \<Rightarrow> string list \<Rightarrow> unit port_result" where
  "ValidateAssetSymbol symbol catalog = (if symbol \<in> set catalog then Inr () else Inl (ErrInvalidAssetSymbol symbol))"

definition ValidateQuantity :: "float64 \<Rightarrow> unit port_result" where
  "ValidateQuantity q = (if fle q f0 \<or> q = NaN \<or> q = PInf \<or> q = NInf then Inl ErrNonPositiveQuantity else Inr ())"

section \<open>The service\<close>

record Balance =
  b_Asset :: string
  b_Quantity :: float64

record Trade =
  tr_Asset :: string
  tr_Quantity :: float64
  tr_Type :: string
  tr_Price :: float64
  tr_Cost :: float64
  tr_Fee :: float64
  tr_FeeCurrency :: string
  tr_Timestamp :: gotime
  tr_TradeID :: string

record Connector =
  cn_FetchBalances :: "string \<Rightarrow> string \<Rightarrow> (string, Balance list) result"
  cn_FetchTrades :: "(string \<Rightarrow> string \<Rightarrow> (string, Trade list) result) option"

record PortfolioService =
  encryption :: KeyEncryptionService
  exchangeMap :: "string \<Rightarrow> Connector option"
  walletMap :: "string \<Rightarrow> (string \<Rightarrow> (string, Balance list) result) option"
  parseExport :: "string \<Rightarrow> (string, Balance list) result"
  catalog :: "string list"

record port_world =
  holdings :: "Holding list"
  credentials :: "ExchangeCredential list"
  wallets :: "WalletAddress list"

text \<open>
  \<open>p_db g\<close> are the outcomes of the calls of the \<open>g\<close>-th repository method a service method calls,
  \<open>p_new\<close> the UUIDs it draws, \<open>p_nonce\<close> the nonces and \<open>p_now\<close> the times it reads.
\<close>

record port_env =
  p_crypto :: crypto
  p_parse :: "string \<Rightarrow> uuid_text port_result"
  p_db :: "nat \<Rightarrow> db_outcome"
  p_now :: "nat \<Rightarrow> gotime"
  p_new :: "nat \<Rightarrow> uuid_text"
  p_nonce :: "nat \<Rightarrow> (string, string) result"

text \<open>\<^verbatim>\<open>encryptHoldingNotes\<close> returns an error or nothing: the ciphertext is not used.\<close>

definition encryptHoldingNotes :: "port_env \<Rightarrow> PortfolioService \<Rightarrow> uuid_text \<Rightarrow> Holding \<Rightarrow> unit port_result" where
  "encryptHoldingNotes env s userID h =
     (if h_Notes h = [] then Inr ()
      else case EncryptForUser (p_crypto env) (encryption s) (p_nonce env 0) userID (h_Notes h) of Inl e \<Rightarrow> Inl e | Inr _ \<Rightarrow> Inr ())"

definition decryptHoldingNotes :: "uuid_text \<Rightarrow> Holding \<Rightarrow> unit port_result" where
  "decryptHoldingNotes userID h = Inr ()"

definition CreateHolding :: "port_env \<Rightarrow> PortfolioService \<Rightarrow> uuid_text \<Rightarrow> Holding \<Rightarrow> port_world \<Rightarrow> Holding port_result \<times> port_world" where
  "CreateHolding env s userID h w =
     (case ValidateQuantity (h_Quantity h) of
        Inl e \<Rightarrow> (Inl e, w)
      | Inr _ \<Rightarrow>
          (case ValidateAssetSymbol (h_AssetSymbol h) (catalog s) of
             Inl e \<Rightarrow> (Inl e, w)
           | Inr _ \<Rightarrow>
               let h' = h\<lparr>h_UserID := userID, h_ID := p_new env 0, h_CreatedAt := p_now env 0, h_UpdatedAt := p_now env 0\<rparr>
               in case encryptHoldingNotes env s userID h' of
                    Inl e \<Rightarrow> (Inl (Wrap ''encrypting holding notes'' e), w)
                  | Inr _ \<Rightarrow>
                      (case holding_Create (p_parse env) (p_db env 0 0) (p_now env 1) h' (holdings w) of
                         (r, hs) \<Rightarrow> (r, w\<lparr>holdings := hs\<rparr>))))"

definition UpdateHolding :: "port_env \<Rightarrow> PortfolioService \<Rightarrow> uuid_text \<Rightarrow> Holding \<Rightarrow> port_world \<Rightarrow> Holding port_result \<times> port_world" where
  "UpdateHolding env s userID h w =
     (case holding_FindByID (p_db env 0 0) (h_ID h) userID (holdings w) of
        Inl e \<Rightarrow> (Inl e, w)
      | Inr None \<Rightarrow> (Inl ErrForbidden, w)
      | Inr (Some existing) \<Rightarrow>
          if h_UserID existing \<noteq> userID then (Inl ErrForbidden, w)
          else case ValidateQuantity (h_Quantity h) of
            Inl e \<Rightarrow> (Inl e, w)
          | Inr _ \<Rightarrow>
              (case ValidateAssetSymbol (h_AssetSymbol h) (catalog s) of
                 Inl e \<Rightarrow> (Inl e, w)
               | Inr _ \<Rightarrow>
                   let h' = h\<lparr>h_UserID := userID, h_UpdatedAt := p_now env 0\<rparr>
                   in case encryptHoldingNotes env s userID h' of
                        Inl e \<Rightarrow> (Inl (Wrap ''encrypting holding notes'' e), w)
                      | Inr _ \<Rightarrow> (case holding_Update (p_db env 1 0) (p_now env 1) h' (holdings w) of (r, hs) \<Rightarrow> (r, w\<lparr>holdings := hs\<rparr>))))"

definition DeleteHolding :: "port_env \<Rightarrow> uuid_text \<Rightarrow> uuid_text \<Rightarrow> port_world \<Rightarrow> unit port_result \<times> port_world" where
  "DeleteHolding env userID holdingID w =
     (case holding_FindByID (p_db env 0 0) holdingID userID (holdings w) of
        Inl e \<Rightarrow> (Inl e, w)
      | Inr None \<Rightarrow> (Inl ErrForbidden, w)
      | Inr (Some existing) \<Rightarrow>
          if h_UserID existing \<noteq> userID then (Inl ErrForbidden, w)
          else case holding_Delete (p_db env 1 0) holdingID userID (holdings w) of (r, hs) \<Rightarrow> (r, w\<lparr>holdings := hs\<rparr>))"

definition GetHolding :: "port_env \<Rightarrow> uuid_text \<Rightarrow> uuid_text \<Rightarrow> port_world \<Rightarrow> Holding port_result" where
  "GetHolding env userID holdingID w =
     (case holding_FindByID (p_db env 0 0) holdingID userID (holdings w) of
        Inl e \<Rightarrow> Inl e
      | Inr None \<Rightarrow> Inl ErrForbidden
      | Inr (Some h) \<Rightarrow>
          if h_UserID h \<noteq> userID then Inl ErrForbidden
          else case decryptHoldingNotes userID h of Inl e \<Rightarrow> Inl (Wrap ''decrypting holding notes'' e) | Inr _ \<Rightarrow> Inr h)"

definition ListHoldings :: "Holding sorting \<Rightarrow> port_env \<Rightarrow> uuid_text \<Rightarrow> port_world \<Rightarrow> Holding list port_result" where
  "ListHoldings srt env userID w = holding_ListByUserID srt (p_db env 0 0) userID (holdings w)"

section \<open>Credentials\<close>

definition strip_cred :: "ExchangeCredential \<Rightarrow> ExchangeCredential" where
  "strip_cred c = c\<lparr>ec_APIKeyCipher := [], ec_SecretCipher := [], ec_Nonce := [], ec_KeyNonce := []\<rparr>"

definition CreateCredential ::
    "port_env \<Rightarrow> PortfolioService \<Rightarrow> uuid_text \<Rightarrow> string \<Rightarrow> string \<Rightarrow> string \<Rightarrow> port_world \<Rightarrow> ExchangeCredential port_result \<times> port_world" where
  "CreateCredential env s userID exchangeName apiKey apiSecret w =
     (case ValidateExchange exchangeName of
        Inl e \<Rightarrow> (Inl e, w)
      | Inr _ \<Rightarrow>
          (case EncryptForUser (p_crypto env) (encryption s) (p_nonce env 0) userID apiKey of
             Inl e \<Rightarrow> (Inl (Wrap ''encrypting API key'' e), w)
           | Inr (keyCipher, keyNonce) \<Rightarrow>
               (case EncryptForUser (p_crypto env) (encryption s) (p_nonce env 1) userID apiSecret of
                  Inl e \<Rightarrow> (Inl (Wrap ''encrypting API secret'' e), w)
                | Inr (secretCipher, secretNonce) \<Rightarrow>
                    let cred = \<lparr>ec_ID = p_new env 0, ec_UserID = userID, ec_Exchange = exchangeName, ec_APIKeyPrefix = take 8 apiKey,
                          ec_APIKeyCipher = keyCipher, ec_SecretCipher = secretCipher, ec_Nonce = secretNonce, ec_KeyNonce = keyNonce,
                          ec_Status = ''active'', ec_ErrorReason = None, ec_LastSyncAt = None,
                          ec_CreatedAt = p_now env 0, ec_UpdatedAt = p_now env 1\<rparr>
                    in case cred_Create (p_db env 0 0) (p_now env 2) cred (credentials w) of
                         (Inl e, cs) \<Rightarrow>
                           (Inl (if contains_str (err_text e) ''duplicate key value violates unique constraint''
                                 then ErrDuplicateCredential exchangeName else e), w\<lparr>credentials := cs\<rparr>)
                       | (Inr c, cs) \<Rightarrow> (Inr (strip_cred c), w\<lparr>credentials := cs\<rparr>))))"

definition ListCredentials :: "ExchangeCredential sorting \<Rightarrow> port_env \<Rightarrow> uuid_text \<Rightarrow> port_world \<Rightarrow> ExchangeCredential list port_result" where
  "ListCredentials srt env userID w =
     (case cred_ListByUserID srt (p_db env 0 0) userID (credentials w) of Inl e \<Rightarrow> Inl e | Inr cs \<Rightarrow> Inr (map strip_cred cs))"

definition DeleteCredential :: "port_env \<Rightarrow> uuid_text \<Rightarrow> uuid_text \<Rightarrow> port_world \<Rightarrow> unit port_result \<times> port_world" where
  "DeleteCredential env userID credID w =
     (case cred_FindByID (p_db env 0 0) credID userID (credentials w) of
        Inl e \<Rightarrow> (Inl e, w)
      | Inr None \<Rightarrow> (Inl ErrForbidden, w)
      | Inr (Some cred) \<Rightarrow>
          if ec_UserID cred \<noteq> userID then (Inl ErrForbidden, w)
          else case holding_DeleteBySourceRef (p_parse env) (p_db env 1 0) userID credID (holdings w) of
            (Inl e, hs) \<Rightarrow> (Inl (Wrap ''cascade-deleting holdings'' e), w\<lparr>holdings := hs\<rparr>)
          | (Inr _, hs) \<Rightarrow>
              (case cred_Delete (p_db env 2 0) credID userID (credentials w) of (r, cs) \<Rightarrow> (r, w\<lparr>holdings := hs, credentials := cs\<rparr>)))"

record SyncCredentialResult =
  sc_Exchange :: string
  sc_Trades :: "LedgerEntry list"

definition isAuthError :: "string \<Rightarrow> bool" where
  "isAuthError err =
     (let msg = map ascii_lower err
      in list_ex (contains_str msg) [''401'', ''403'', ''authentication'', ''unauthorized'', ''invalid key'', ''invalid api''])"

text \<open>The holdings of the balances whose symbol the catalogue knows; \<open>ref\<close> is \<open>None\<close> for an import.\<close>

definition balance_holding :: "uuid_text \<Rightarrow> string \<Rightarrow> string option \<Rightarrow> Balance \<Rightarrow> Holding" where
  "balance_holding userID source ref b =
     \<lparr>h_ID = nil_uuid, h_UserID = userID, h_AssetSymbol = map ascii_upper (b_Asset b), h_Quantity = b_Quantity b, h_AvgBuyPrice = None,
      h_QuoteCurrency = ''USD'', h_Source = source, h_SourceRef = ref, h_Notes = [], h_CreatedAt = 0, h_UpdatedAt = 0\<rparr>"

definition known_holdings :: "string list \<Rightarrow> uuid_text \<Rightarrow> string \<Rightarrow> string option \<Rightarrow> Balance list \<Rightarrow> Holding list" where
  "known_holdings cat userID source ref bs =
     map (balance_holding userID source ref) (filter (\<lambda>b. map ascii_upper (b_Asset b) \<in> set cat) bs)"

definition trade_entries :: "string list \<Rightarrow> Trade list \<Rightarrow> LedgerEntry list" where
  "trade_entries cat ts =
     map (\<lambda>t. \<lparr>le_Asset = map ascii_upper (tr_Asset t), le_Quantity = tr_Quantity t, le_Type = tr_Type t, le_Timestamp = tr_Timestamp t,
            le_SourceID = tr_TradeID t, le_Fee = (if flt f0 (tr_Fee t) then Some (tr_Fee t) else None), le_FeeCurrency = tr_FeeCurrency t\<rparr>)
       (filter (\<lambda>t. map ascii_upper (tr_Asset t) \<in> set cat) ts)"

definition SyncCredential :: "port_env \<Rightarrow> PortfolioService \<Rightarrow> uuid_text \<Rightarrow> uuid_text \<Rightarrow> port_world \<Rightarrow> SyncCredentialResult port_result \<times> port_world" where
  "SyncCredential env s userID credID w =
     (case cred_FindByID (p_db env 0 0) credID userID (credentials w) of
        Inl e \<Rightarrow> (Inl e, w)
      | Inr None \<Rightarrow> (Inl ErrForbidden, w)
      | Inr (Some cred) \<Rightarrow>
          if ec_UserID cred \<noteq> userID then (Inl ErrForbidden, w)
          else case exchangeMap s (ec_Exchange cred) of
            None \<Rightarrow> (Inl (Plain (''no connector for exchange '' @ go_quote (ec_Exchange cred))), w)
          | Some connector \<Rightarrow>
              (case DecryptForUser (p_crypto env) (encryption s) userID (ec_APIKeyCipher cred) (ec_KeyNonce cred) of
                 Inl e \<Rightarrow> (Inl (Wrap ''decrypting API key'' e), w)
               | Inr apiKey \<Rightarrow>
                   (case DecryptForUser (p_crypto env) (encryption s) userID (ec_SecretCipher cred) (ec_Nonce cred) of
                      Inl e \<Rightarrow> (Inl (Wrap ''decrypting API secret'' e), w)
                    | Inr secret \<Rightarrow>
                        (case cn_FetchBalances connector apiKey secret of
                           Inl e \<Rightarrow>
                             if isAuthError e then
                               (Inl (Wrap ''exchange auth error'' (Plain e)),
                                w\<lparr>credentials := snd (UpdateSyncStatus (p_db env 1 0) (p_now env 0) credID ''failed'' (Some e) None (credentials w))\<rparr>)
                             else (Inl (Wrap ''fetching exchange balances'' (Plain e)), w)
                         | Inr balances \<Rightarrow>
                             (case UpsertBySource (p_parse env) (p_db env 1) (p_new env) (p_now env 0) userID (ec_Exchange cred) credID
                                     (known_holdings (catalog s) userID (ec_Exchange cred) (Some credID) balances) (holdings w) of
                                (Inl e, hs) \<Rightarrow> (Inl (Wrap ''upserting exchange holdings'' e), w\<lparr>holdings := hs\<rparr>)
                              | (Inr _, hs) \<Rightarrow>
                                  let trades = (case cn_FetchTrades connector of
                                        None \<Rightarrow> []
                                      | Some f \<Rightarrow> (case f apiKey secret of Inl e \<Rightarrow> [] | Inr ts \<Rightarrow> trade_entries (catalog s) ts))
                                  in case UpdateSyncStatus (p_db env 2 0) (p_now env 2) credID ''active'' None (Some (p_now env 1)) (credentials w) of
                                       (Inl e, cs) \<Rightarrow> (Inl (Wrap ''updating sync status'' e), w\<lparr>holdings := hs, credentials := cs\<rparr>)
                                     | (Inr _, cs) \<Rightarrow>
                                         (Inr \<lparr>sc_Exchange = ec_Exchange cred, sc_Trades = trades\<rparr>, w\<lparr>holdings := hs, credentials := cs\<rparr>))))))"

section \<open>Wallets\<close>

definition strip_wallet :: "WalletAddress \<Rightarrow> WalletAddress" where
  "strip_wallet a = a\<lparr>wa_AddressCipher := [], wa_AddressNonce := [], wa_LabelCipher := [], wa_LabelNonce := []\<rparr>"

definition encrypt_label :: "port_env \<Rightarrow> PortfolioService \<Rightarrow> uuid_text \<Rightarrow> string \<Rightarrow> (string \<times> string) port_result" where
  "encrypt_label env s userID label =
     (if label = [] then Inr ([], []) else EncryptForUser (p_crypto env) (encryption s) (p_nonce env 1) userID label)"

definition CreateWallet ::
    "port_env \<Rightarrow> PortfolioService \<Rightarrow> uuid_text \<Rightarrow> string \<Rightarrow> string \<Rightarrow> string \<Rightarrow> port_world \<Rightarrow> WalletAddress port_result \<times> port_world" where
  "CreateWallet env s userID chain address label w =
     (case ValidateChain chain of
        Inl e \<Rightarrow> (Inl e, w)
      | Inr _ \<Rightarrow>
          (case ValidateWalletAddress chain address of
             Inl e \<Rightarrow> (Inl e, w)
           | Inr _ \<Rightarrow>
               (case EncryptForUser (p_crypto env) (encryption s) (p_nonce env 0) userID address of
                  Inl e \<Rightarrow> (Inl (Wrap ''encrypting wallet address'' e), w)
                | Inr (addrCipher, addrNonce) \<Rightarrow>
                    (case encrypt_label env s userID label of
                       Inl e \<Rightarrow> (Inl (Wrap ''encrypting wallet label'' e), w)
                     | Inr (labelCipher, labelNonce) \<Rightarrow>
                         let a = \<lparr>wa_ID = p_new env 0, wa_UserID = userID, wa_Chain = chain, wa_AddressPrefix = take 8 address,
                               wa_AddressCipher = addrCipher, wa_AddressNonce = addrNonce, wa_Label = [], wa_LabelCipher = labelCipher,
                               wa_LabelNonce = labelNonce, wa_LastSyncAt = None, wa_CreatedAt = p_now env 0, wa_UpdatedAt = p_now env 1\<rparr>
                         in case wallet_Create (p_db env 0 0) (p_now env 2) a (wallets w) of
                              (Inl e, ws) \<Rightarrow> (Inl e, w\<lparr>wallets := ws\<rparr>)
                            | (Inr a', ws) \<Rightarrow> (Inr (strip_wallet a'), w\<lparr>wallets := ws\<rparr>)))))"

definition ListWallets :: "WalletAddress sorting \<Rightarrow> port_env \<Rightarrow> uuid_text \<Rightarrow> port_world \<Rightarrow> WalletAddress list port_result" where
  "ListWallets srt env userID w =
     (case wallet_ListByUserID srt (p_db env 0 0) userID (wallets w) of Inl e \<Rightarrow> Inl e | Inr ws \<Rightarrow> Inr (map strip_wallet ws))"

definition DeleteWallet :: "port_env \<Rightarrow> uuid_text \<Rightarrow> uuid_text \<Rightarrow> port_world \<Rightarrow> unit port_result \<times> port_world" where
  "DeleteWallet env userID walletID w =
     (case wallet_FindByID (p_db env 0 0) walletID userID (wallets w) of
        Inl e \<Rightarrow> (Inl e, w)
      | Inr None \<Rightarrow> (Inl ErrForbidden, w)
      | Inr (Some a) \<Rightarrow>
          if wa_UserID a \<noteq> userID then (Inl ErrForbidden, w)
          else case holding_DeleteBySourceRef (p_parse env) (p_db env 1 0) userID walletID (holdings w) of
            (Inl e, hs) \<Rightarrow> (Inl (Wrap ''cascade-deleting wallet holdings'' e), w\<lparr>holdings := hs\<rparr>)
          | (Inr _, hs) \<Rightarrow>
              (case wallet_Delete (p_db env 2 0) walletID userID (wallets w) of (r, ws) \<Rightarrow> (r, w\<lparr>holdings := hs, wallets := ws\<rparr>)))"

definition SyncWallet :: "port_env \<Rightarrow> PortfolioService \<Rightarrow> uuid_text \<Rightarrow> uuid_text \<Rightarrow> port_world \<Rightarrow> unit port_result \<times> port_world" where
  "SyncWallet env s userID walletID w =
     (case wallet_FindByID (p_db env 0 0) walletID userID (wallets w) of
        Inl e \<Rightarrow> (Inl e, w)
      | Inr None \<Rightarrow> (Inl ErrForbidden, w)
      | Inr (Some a) \<Rightarrow>
          if wa_UserID a \<noteq> userID then (Inl ErrForbidden, w)
          else case walletMap s (wa_Chain a) of
            None \<Rightarrow> (Inl (Plain (''no connector for chain '' @ go_quote (wa_Chain a))), w)
          | Some fetch \<Rightarrow>
              (case DecryptForUser (p_crypto env) (encryption s) userID (wa_AddressCipher a) (wa_AddressNonce a) of
                 Inl e \<Rightarrow> (Inl (Wrap ''decrypting wallet address'' e), w)
               | Inr address \<Rightarrow>
                   (case fetch address of
                      Inl e \<Rightarrow> (Inl (Wrap ''fetching wallet balances'' (Plain e)), w)
                    | Inr balances \<Rightarrow>
                        (case UpsertBySource (p_parse env) (p_db env 1) (p_new env) (p_now env 0) userID (wa_Chain a) walletID
                                (known_holdings (catalog s) userID (wa_Chain a) (Some walletID) balances) (holdings w) of
                           (Inl e, hs) \<Rightarrow> (Inl (Wrap ''upserting wallet holdings'' e), w\<lparr>holdings := hs\<rparr>)
                         | (Inr _, hs) \<Rightarrow>
                             (case UpdateSyncTime (p_db env 2 0) (p_now env 2) walletID (p_now env 1) (wallets w) of
                                (Inl e, ws) \<Rightarrow> (Inl (Wrap ''updating wallet sync time'' e), w\<lparr>holdings := hs, wallets := ws\<rparr>)
                              | (Inr _, ws) \<Rightarrow> (Inr (), w\<lparr>holdings := hs, wallets := ws\<rparr>))))))"

section \<open>Everything at once\<close>

record SyncAllResult =
  ExchangesSynced :: nat
  WalletsSynced :: nat
  Errors :: "string list"

text \<open>\<open>envs k\<close> is the environment of the \<open>k\<close>-th synchronisation.\<close>

fun sync_creds :: "(nat \<Rightarrow> port_env) \<Rightarrow> nat \<Rightarrow> PortfolioService \<Rightarrow> uuid_text \<Rightarrow> ExchangeCredential list \<Rightarrow> SyncAllResult \<Rightarrow> port_world \<Rightarrow> SyncAllResult \<times> port_world" where
  "sync_creds envs k s userID [] res w = (res, w)"
| "sync_creds envs k s userID (c # cs) res w =
     (case SyncCredential (envs k) s userID (ec_ID c) w of
        (Inl e, w') \<Rightarrow>
          sync_creds envs (Suc k) s userID cs
            (res\<lparr>Errors := Errors res @ [''sync exchange '' @ ec_Exchange c @ '' ('' @ ec_ID c @ ''): '' @ err_text e]\<rparr>) w'
      | (Inr _, w') \<Rightarrow> sync_creds envs (Suc k) s userID cs (res\<lparr>ExchangesSynced := ExchangesSynced res + 1\<rparr>) w')"

fun sync_wallets :: "(nat \<Rightarrow> port_env) \<Rightarrow> nat \<Rightarrow> PortfolioService \<Rightarrow> uuid_text \<Rightarrow> WalletAddress list \<Rightarrow> SyncAllResult \<Rightarrow> port_world \<Rightarrow> SyncAllResult \<times> port_world" where
  "sync_wallets envs k s userID [] res w = (res, w)"
| "sync_wallets envs k s userID (a # as) res w =
     (case SyncWallet (envs k) s userID (wa_ID a) w of
        (Inl e, w') \<Rightarrow>
          sync_wallets envs (Suc k) s userID as
            (res\<lparr>Errors := Errors res @ [''sync wallet '' @ wa_Chain a @ '' ('' @ wa_ID a @ ''): '' @ err_text e]\<rparr>) w'
      | (Inr _, w') \<Rightarrow> sync_wallets envs (Suc k) s userID as (res\<lparr>WalletsSynced := WalletsSynced res + 1\<rparr>) w')"

definition SyncAll ::
    "ExchangeCredential sorting \<Rightarrow> WalletAddress sorting \<Rightarrow> port_env \<Rightarrow> (nat \<Rightarrow> port_env) \<Rightarrow> (nat \<Rightarrow> port_env) \<Rightarrow> PortfolioService \<Rightarrow>
       uuid_text \<Rightarrow> port_world \<Rightarrow> SyncAllResult \<times> port_world" where
  "SyncAll srtC srtW env envC envW s userID w =
     (let res0 = \<lparr>ExchangesSynced = 0, WalletsSynced = 0, Errors = []\<rparr>;
          (res1, w1) = (case cred_ListByUserID srtC (p_db env 0 0) userID (credentials w) of
             Inl e \<Rightarrow> (res0\<lparr>Errors := [''listing credentials: '' @ err_text e]\<rparr>, w)
           | Inr cs \<Rightarrow> sync_creds envC 0 s userID cs res0 w)
      in case wallet_ListByUserID srtW (p_db env 1 0) userID (wallets w1) of
           Inl e \<Rightarrow> (res1\<lparr>Errors := Errors res1 @ [''listing wallets: '' @ err_text e]\<rparr>, w1)
         | Inr as \<Rightarrow> sync_wallets envW 0 s userID as res1 w1)"

section \<open>Ledger imports\<close>

fun create_all :: "port_env \<Rightarrow> nat \<Rightarrow> Holding list \<Rightarrow> Holding list \<Rightarrow> unit port_result \<times> Holding list" where
  "create_all env k [] rs = (Inr (), rs)"
| "create_all env k (h # hs) rs =
     (case holding_Create (p_parse env) (p_db env 1 k) (p_now env k)
             (h\<lparr>h_ID := p_new env k, h_CreatedAt := p_now env k, h_UpdatedAt := p_now env k\<rparr>) rs of
        (Inl e, rs') \<Rightarrow> (Inl e, rs')
      | (Inr _, rs') \<Rightarrow> create_all env (Suc k) hs rs')"

definition ImportLedgerExport :: "port_env \<Rightarrow> PortfolioService \<Rightarrow> uuid_text \<Rightarrow> string \<Rightarrow> port_world \<Rightarrow> nat port_result \<times> port_world" where
  "ImportLedgerExport env s userID data w =
     (case parseExport s data of
        Inl e \<Rightarrow> (Inl (Wrap ''parsing ledger export'' (Plain e)), w)
      | Inr balances \<Rightarrow>
          (case DeleteBySource (p_db env 0 0) userID ''ledger'' (holdings w) of
             (Inl e, hs) \<Rightarrow> (Inl (Wrap ''clearing previous ledger holdings'' e), w\<lparr>holdings := hs\<rparr>)
           | (Inr _, hs) \<Rightarrow>
               let new = known_holdings (catalog s) userID ''ledger'' None balances
               in case create_all env 0 new hs of
                    (Inl e, hs') \<Rightarrow> (Inl (Wrap ''creating ledger holding'' e), w\<lparr>holdings := hs'\<rparr>)
                  | (Inr _, hs') \<Rightarrow> (Inr (length new), w\<lparr>holdings := hs'\<rparr>)))"

definition DisconnectLedger :: "port_env \<Rightarrow> uuid_text \<Rightarrow> port_world \<Rightarrow> unit port_result \<times> port_world" where
  "DisconnectLedger env userID w = (case DeleteBySource (p_db env 0 0) userID ''ledger'' (holdings w) of (r, hs) \<Rightarrow> (r, w\<lparr>holdings := hs\<rparr>))"

end
