(* ===== verification/Portfolio_Props.thy ===== *)
theory Portfolio_Props
  imports Portfolio_Service
begin

text \<open>
  What the portfolio service guarantees whatever calls its users make: users cannot touch each other's data, stored credentials decrypt to
  what was entered; and how notes and disappeared balances are treated.
\<close>

section \<open>Calls\<close>

datatype port_op =
    PCreateHolding Holding
  | PUpdateHolding Holding
  | PDeleteHolding uuid_text
  | PCreateCredential string string string
  | PDeleteCredential uuid_text
  | PSyncCredential uuid_text
  | PCreateWallet string string string
  | PDeleteWallet uuid_text
  | PSyncWallet uuid_text
  | PSyncAll "nat \<Rightarrow> port_env" "nat \<Rightarrow> port_env"
  | PImportLedger string
  | PDisconnectLedger

fun exec_port :: "PortfolioService \<Rightarrow> port_env \<Rightarrow> uuid_text \<Rightarrow> port_op \<Rightarrow> port_world \<Rightarrow> port_world" where
  "exec_port s env u (PCreateHolding h) w = snd (CreateHolding env s u h w)"
| "exec_port s env u (PUpdateHolding h) w = snd (UpdateHolding env s u h w)"
| "exec_port s env u (PDeleteHolding i) w = snd (DeleteHolding env u i w)"
| "exec_port s env u (PCreateCredential ex k sec) w = snd (CreateCredential env s u ex k sec w)"
| "exec_port s env u (PDeleteCredential i) w = snd (DeleteCredential env u i w)"
| "exec_port s env u (PSyncCredential i) w = snd (SyncCredential env s u i w)"
| "exec_port s env u (PCreateWallet chain a l) w = snd (CreateWallet env s u chain a l w)"
| "exec_port s env u (PDeleteWallet i) w = snd (DeleteWallet env u i w)"
| "exec_port s env u (PSyncWallet i) w = snd (SyncWallet env s u i w)"
| "exec_port s env u (PSyncAll envC envW) w = snd (SyncAll (\<lambda>key. sort_key key) (\<lambda>key. sort_key key) env envC envW s u w)"
| "exec_port s env u (PImportLedger d) w = snd (ImportLedgerExport env s u d w)"
| "exec_port s env u PDisconnectLedger w = snd (DisconnectLedger env u w)"

section \<open>Statements keep to their user\<close>

text \<open>\<open>keeps own rs rs'\<close>: the rows outside \<open>own\<close> are the same, in the same order.\<close>

definition keeps :: "('r \<Rightarrow> bool) \<Rightarrow> 'r list \<Rightarrow> 'r list \<Rightarrow> bool" where
  "keeps own rs rs' \<longleftrightarrow> filter (\<lambda>r. \<not> own r) rs' = filter (\<lambda>r. \<not> own r) rs"

lemma keeps_refl [simp]: "keeps own rs rs"
  by (simp add: keeps_def)

lemma keeps_trans: "keeps own rs rs' \<Longrightarrow> keeps own rs' rs'' \<Longrightarrow> keeps own rs rs''"
  by (simp add: keeps_def)

lemma keeps_append: "list_all own new \<Longrightarrow> keeps own rs (rs @ new)"
  by (auto simp: keeps_def list_all_iff filter_empty_conv)

lemma keeps_delete: "(\<And>r. r \<in> set rs \<Longrightarrow> P r \<Longrightarrow> own r) \<Longrightarrow> keeps own rs (sql_delete P rs)"
  unfolding keeps_def sql_delete_def by (induction rs) auto

lemma keeps_update: "(\<And>r. r \<in> set rs \<Longrightarrow> P r \<Longrightarrow> own r \<and> own (f r)) \<Longrightarrow> keeps own rs (sql_update P f rs)"
  unfolding keeps_def sql_update_def by (induction rs) auto

lemma keeps_exec:
  "(\<And>r. r \<in> set rs \<Longrightarrow> P r \<Longrightarrow> own r \<and> own (f r)) \<Longrightarrow> keeps own rs (snd (exec_update err P f rs))"
  "(\<And>r. r \<in> set rs \<Longrightarrow> P r \<Longrightarrow> own r) \<Longrightarrow> keeps own rs (snd (exec_delete err P rs))"
  "(\<And>r. r \<in> set rs \<Longrightarrow> P r \<Longrightarrow> own r) \<Longrightarrow> keeps own rs (snd (delete_where err P rs))"
  by (auto simp: exec_update_def exec_delete_def delete_where_def intro: keeps_update keeps_delete split: option.split)

lemma keeps_others:
  assumes "keeps (\<lambda>r. key r = u) rs rs'" "u \<noteq> v"
  shows "filter (\<lambda>r. key r = v) rs' = filter (\<lambda>r. key r = v) rs"
proof -
  have "filter (\<lambda>r. key r = v) xs = filter (\<lambda>r. key r = v) (filter (\<lambda>r. key r \<noteq> u) xs)" for xs
    using assms(2) by (induction xs) auto
  then show ?thesis using assms(1) unfolding keeps_def by metis
qed

abbreviation mine :: "uuid_text \<Rightarrow> Holding \<Rightarrow> bool" where
  "mine u \<equiv> (\<lambda>h. h_UserID h = u)"

lemma holding_Create_keeps: "h_UserID h = u \<Longrightarrow> keeps (mine u) rs (snd (holding_Create parse err now h rs))"
  by (auto simp: holding_Create_def Let_def intro!: keeps_append split: sum.split option.split)

lemma holding_Update_keeps: "h_UserID h = u \<Longrightarrow> keeps (mine u) rs (snd (holding_Update err now h rs))"
  using keeps_exec(1) [of rs "owned_holding (h_ID h) u" "mine u" "holding_set h now" err]
  by (auto simp: holding_Update_def Let_def owned_holding_def holding_set_def prod.case_eq_if split: sum.split)

lemma put_holding_keeps: "h_UserID h = u \<Longrightarrow> put_holding now h rs = Inr rs' \<Longrightarrow> keeps (mine u) rs rs'"
  by (auto simp: put_holding_def holding_key_def intro!: keeps_append keeps_update split: if_splits)

lemma upsert_holdings_keeps: "upsert_holdings db k new_id now u source ref hs rs = Inr rs' \<Longrightarrow> keeps (mine u) rs rs'"
proof (induction hs arbitrary: k rs)
  case (Cons h hs)
  from Cons.prems obtain rs1 where p1:
    "put_holding now (h\<lparr>h_ID := (if h_ID h = nil_uuid then new_id k else h_ID h), h_UserID := u, h_Source := source, h_SourceRef := Some ref\<rparr>) rs = Inr rs1"
    and p2: "upsert_holdings db (Suc k) new_id now u source ref hs rs1 = Inr rs'"
    by (auto split: option.splits sum.splits)
  show ?case using keeps_trans [OF put_holding_keeps [OF _ p1, of u] Cons.IH [OF p2]] by simp
qed simp

lemma UpsertBySource_keeps: "keeps (mine u) rs (snd (UpsertBySource parse db new_id now u source ref hs rs))"
  by (auto simp: UpsertBySource_def dest: upsert_holdings_keeps split: option.split sum.split)

lemma DeleteBySource_keeps: "keeps (mine u) rs (snd (DeleteBySource err u source rs))"
  unfolding DeleteBySource_def by (rule keeps_exec(3)) simp

lemma DeleteBySourceRef_keeps: "keeps (mine u) rs (snd (holding_DeleteBySourceRef parse err u ref rs))"
  by (auto simp: holding_DeleteBySourceRef_def intro!: keeps_exec(3) split: sum.split)

lemma create_all_keeps: "list_all (mine u) hs \<Longrightarrow> keeps (mine u) rs (snd (create_all env k hs rs))"
proof (induction hs arbitrary: k rs)
  case (Cons h hs)
  let ?c = "holding_Create (p_parse env) (p_db env 1 k) (p_now env k) (h\<lparr>h_ID := p_new env k, h_CreatedAt := p_now env k, h_UpdatedAt := p_now env k\<rparr>) rs"
  have "keeps (mine u) rs (snd ?c)" using Cons.prems by (intro holding_Create_keeps) simp
  with keeps_trans [OF this Cons.IH] Cons.prems show ?case by (simp add: prod.case_eq_if split: sum.split)
qed simp

section \<open>Users are isolated\<close>

definition ids_ok :: "port_world \<Rightarrow> bool" where
  "ids_ok w \<longleftrightarrow> distinct (map ec_ID (credentials w)) \<and> distinct (map wa_ID (wallets w))"

definition others_same :: "uuid_text \<Rightarrow> port_world \<Rightarrow> port_world \<Rightarrow> bool" where
  "others_same u w w' \<longleftrightarrow>
     keeps (mine u) (holdings w) (holdings w') \<and>
     keeps (\<lambda>c. ec_UserID c = u) (credentials w) (credentials w') \<and>
     keeps (\<lambda>a. wa_UserID a = u) (wallets w) (wallets w')"

definition isolated :: "uuid_text \<Rightarrow> port_world \<Rightarrow> port_world \<Rightarrow> bool" where
  "isolated u w w' \<longleftrightarrow> others_same u w w' \<and> ids_ok w'"

lemma isolated_refl: "ids_ok w \<Longrightarrow> isolated u w w"
  by (simp add: isolated_def others_same_def)

lemma isolated_trans: "isolated u w w' \<Longrightarrow> isolated u w' w'' \<Longrightarrow> isolated u w w''"
  unfolding isolated_def others_same_def using keeps_trans by metis

lemma isolated_holdings: "ids_ok w \<Longrightarrow> keeps (mine u) (holdings w) hs \<Longrightarrow> isolated u w (w\<lparr>holdings := hs\<rparr>)"
  by (simp add: isolated_def others_same_def ids_ok_def)

text \<open>The two tables with identifiers, in one statement each: the rows of others stay and the identifiers stay unique.\<close>

definition cred_step :: "uuid_text \<Rightarrow> ExchangeCredential list \<Rightarrow> ExchangeCredential list \<Rightarrow> bool" where
  "cred_step u cs cs' \<longleftrightarrow> keeps (\<lambda>c. ec_UserID c = u) cs cs' \<and> distinct (map ec_ID cs')"

definition wallet_step :: "uuid_text \<Rightarrow> WalletAddress list \<Rightarrow> WalletAddress list \<Rightarrow> bool" where
  "wallet_step u ws ws' \<longleftrightarrow> keeps (\<lambda>a. wa_UserID a = u) ws ws' \<and> distinct (map wa_ID ws')"

lemma isolated_creds: "ids_ok w \<Longrightarrow> keeps (mine u) (holdings w) hs \<Longrightarrow> cred_step u (credentials w) cs \<Longrightarrow>
    isolated u w (w\<lparr>holdings := hs, credentials := cs\<rparr>) \<and> isolated u w (w\<lparr>credentials := cs\<rparr>)"
  by (simp add: isolated_def others_same_def ids_ok_def cred_step_def)

lemma isolated_wallets: "ids_ok w \<Longrightarrow> keeps (mine u) (holdings w) hs \<Longrightarrow> wallet_step u (wallets w) ws \<Longrightarrow>
    isolated u w (w\<lparr>holdings := hs, wallets := ws\<rparr>) \<and> isolated u w (w\<lparr>wallets := ws\<rparr>)"
  by (simp add: isolated_def others_same_def ids_ok_def wallet_step_def)

lemma query_rowD: "query_row err P rs = Inr (Some r) \<Longrightarrow> r \<in> set rs \<and> P r"
  by (auto simp: query_row_def find_Some_iff split: option.splits)

lemma cred_Create_step:
  "distinct (map ec_ID cs) \<Longrightarrow> ec_UserID c = u \<Longrightarrow> cred_step u cs (snd (cred_Create err now c cs))"
  by (auto simp: cred_step_def cred_Create_def Let_def list_ex_iff intro!: keeps_append split: option.split)

lemma cred_Delete_step: "distinct (map ec_ID cs) \<Longrightarrow> cred_step u cs (snd (cred_Delete err i u cs))"
  using keeps_exec(2) [of cs "owned_cred i u" "\<lambda>c. ec_UserID c = u" err]
  by (auto simp: cred_step_def cred_Delete_def owned_cred_def exec_delete_def distinct_sql_delete split: option.split)

lemma UpdateSyncStatus_step:
  assumes "distinct (map ec_ID cs)" "c \<in> set cs" "ec_ID c = i" "ec_UserID c = u"
  shows "cred_step u cs (snd (UpdateSyncStatus err now i st reason t cs))"
proof -
  have "ec_UserID r = u" if "r \<in> set cs" "ec_ID r = i" for r using key_unique [OF assms(1) that(1) assms(2)] that assms by simp
  then show ?thesis
    using assms(1) map_sql_update [of "\<lambda>r. ec_ID r = i" ec_ID "\<lambda>r. r\<lparr>ec_Status := st, ec_ErrorReason := reason, ec_LastSyncAt := t, ec_UpdatedAt := now\<rparr>" cs]
    by (auto simp: cred_step_def UpdateSyncStatus_def exec_update_def intro!: keeps_update split: option.split)
qed

lemma wallet_Create_step:
  "distinct (map wa_ID ws) \<Longrightarrow> wa_UserID a = u \<Longrightarrow> wallet_step u ws (snd (wallet_Create err now a ws))"
  by (auto simp: wallet_step_def wallet_Create_def Let_def list_ex_iff intro!: keeps_append split: option.split)

lemma wallet_Delete_step: "distinct (map wa_ID ws) \<Longrightarrow> wallet_step u ws (snd (wallet_Delete err i u ws))"
  using keeps_exec(2) [of ws "owned_wallet i u" "\<lambda>a. wa_UserID a = u" err]
  by (auto simp: wallet_step_def wallet_Delete_def owned_wallet_def exec_delete_def distinct_sql_delete split: option.split)

lemma UpdateSyncTime_step:
  assumes "distinct (map wa_ID ws)" "a \<in> set ws" "wa_ID a = i" "wa_UserID a = u"
  shows "wallet_step u ws (snd (UpdateSyncTime err now i t ws))"
proof -
  have "wa_UserID r = u" if "r \<in> set ws" "wa_ID r = i" for r using key_unique [OF assms(1) that(1) assms(2)] that assms by simp
  then show ?thesis
    using assms(1) map_sql_update [of "\<lambda>r. wa_ID r = i" wa_ID "\<lambda>r. r\<lparr>wa_LastSyncAt := Some t, wa_UpdatedAt := now\<rparr>" ws]
    by (auto simp: wallet_step_def UpdateSyncTime_def exec_update_def intro!: keeps_update split: option.split)
qed

lemmas isolation_rules = isolated_refl isolated_holdings holding_Create_keeps holding_Update_keeps UpsertBySource_keeps DeleteBySource_keeps
  DeleteBySourceRef_keeps create_all_keeps

lemma isolated_holding_ops:
  assumes "ids_ok w"
  shows "isolated u w (snd (CreateHolding env s u h w))" "isolated u w (snd (UpdateHolding env s u h w))"
    "isolated u w (snd (DeleteHolding env u i w))"
proof -
  have del: "keeps (mine u) (holdings w) (snd (holding_Delete err i u (holdings w)))" for err
    unfolding holding_Delete_def by (rule keeps_exec(2)) (simp add: owned_holding_def)
  show "isolated u w (snd (CreateHolding env s u h w))"
    using assms by (simp add: CreateHolding_def Let_def prod.case_eq_if isolation_rules split: sum.split)
  show "isolated u w (snd (UpdateHolding env s u h w))"
    using assms by (simp add: UpdateHolding_def Let_def prod.case_eq_if isolation_rules split: sum.split option.split)
  show "isolated u w (snd (DeleteHolding env u i w))"
    using assms del by (simp add: DeleteHolding_def prod.case_eq_if isolation_rules split: sum.split option.split)
qed

lemma isolated_CreateCredential: "ids_ok w \<Longrightarrow> isolated u w (snd (CreateCredential env s u ex k sec w))"
proof -
  assume ok: "ids_ok w"
  have "isolated u w (w\<lparr>credentials := snd (cred_Create err now c (credentials w))\<rparr>)" if "ec_UserID c = u" for err now c
    using isolated_creds [OF ok keeps_refl cred_Create_step [OF _ that]] ok by (simp add: ids_ok_def)
  then show ?thesis
    using ok by (simp add: CreateCredential_def Let_def prod.case_eq_if isolated_refl split: sum.split)
qed

lemma isolated_DeleteCredential: "ids_ok w \<Longrightarrow> isolated u w (snd (DeleteCredential env u i w))"
proof -
  assume ok: "ids_ok w"
  note d = isolated_creds [OF ok DeleteBySourceRef_keeps cred_Delete_step, THEN conjunct1]
  show ?thesis
    using ok d by (simp add: DeleteCredential_def prod.case_eq_if isolation_rules ids_ok_def split: sum.split option.split)
qed

lemma isolated_SyncCredential: "ids_ok w \<Longrightarrow> isolated u w (snd (SyncCredential env s u i w))"
proof (cases "\<exists>c. cred_FindByID (p_db env 0 0) i u (credentials w) = Inr (Some c) \<and> ec_UserID c = u")
  case False
  assume "ids_ok w"
  with False show ?thesis by (auto simp: SyncCredential_def isolated_refl split: sum.split option.split)
next
  case True
  assume ok: "ids_ok w"
  from True obtain c where c: "cred_FindByID (p_db env 0 0) i u (credentials w) = Inr (Some c)" "ec_UserID c = u" by blast
  then have row: "c \<in> set (credentials w)" "ec_ID c = i" using query_rowD unfolding cred_FindByID_def owned_cred_def by fastforce+
  have st: "cred_step u (credentials w) (snd (UpdateSyncStatus err now i x reason t (credentials w)))" for err now x reason t
    using UpdateSyncStatus_step [OF _ row c(2)] ok by (simp add: ids_ok_def)
  note both = isolated_creds [OF ok UpsertBySource_keeps st, THEN conjunct1]
    and only = isolated_creds [OF ok keeps_refl st, THEN conjunct2]
  show ?thesis
    by (simp add: SyncCredential_def c isolated_refl [OF ok] isolated_holdings [OF ok UpsertBySource_keeps] only both prod.case_eq_if Let_def
        split: sum.split option.split)
qed

lemma isolated_CreateWallet: "ids_ok w \<Longrightarrow> isolated u w (snd (CreateWallet env s u chain a l w))"
proof -
  assume ok: "ids_ok w"
  have "isolated u w (w\<lparr>wallets := snd (wallet_Create err now x (wallets w))\<rparr>)" if "wa_UserID x = u" for err now x
    using isolated_wallets [OF ok keeps_refl wallet_Create_step [OF _ that]] ok by (simp add: ids_ok_def)
  then show ?thesis
    using ok by (simp add: CreateWallet_def Let_def prod.case_eq_if isolated_refl split: sum.split)
qed

lemma isolated_DeleteWallet: "ids_ok w \<Longrightarrow> isolated u w (snd (DeleteWallet env u i w))"
proof -
  assume ok: "ids_ok w"
  note d = isolated_wallets [OF ok DeleteBySourceRef_keeps wallet_Delete_step, THEN conjunct1]
  show ?thesis
    using ok d by (simp add: DeleteWallet_def prod.case_eq_if isolation_rules ids_ok_def split: sum.split option.split)
qed

lemma isolated_SyncWallet: "ids_ok w \<Longrightarrow> isolated u w (snd (SyncWallet env s u i w))"
proof (cases "\<exists>a. wallet_FindByID (p_db env 0 0) i u (wallets w) = Inr (Some a) \<and> wa_UserID a = u")
  case False
  assume "ids_ok w"
  with False show ?thesis by (auto simp: SyncWallet_def isolated_refl split: sum.split option.split)
next
  case True
  assume ok: "ids_ok w"
  from True obtain a where a: "wallet_FindByID (p_db env 0 0) i u (wallets w) = Inr (Some a)" "wa_UserID a = u" by blast
  then have row: "a \<in> set (wallets w)" "wa_ID a = i" using query_rowD unfolding wallet_FindByID_def owned_wallet_def by fastforce+
  have st: "wallet_step u (wallets w) (snd (UpdateSyncTime err now i t (wallets w)))" for err now t
    using UpdateSyncTime_step [OF _ row a(2)] ok by (simp add: ids_ok_def)
  note both = isolated_wallets [OF ok UpsertBySource_keeps st, THEN conjunct1]
  show ?thesis
    by (simp add: SyncWallet_def a isolated_refl [OF ok] isolated_holdings [OF ok UpsertBySource_keeps] both prod.case_eq_if split: sum.split option.split)
qed

lemma isolated_sync_creds: "ids_ok w \<Longrightarrow> isolated u w (snd (sync_creds envs k s u cs res w))"
proof (induction cs arbitrary: k res w)
  case (Cons c cs)
  have one: "isolated u w (snd (SyncCredential (envs k) s u (ec_ID c) w))" by (rule isolated_SyncCredential [OF Cons.prems])
  then have "ids_ok (snd (SyncCredential (envs k) s u (ec_ID c) w))" by (simp add: isolated_def)
  from isolated_trans [OF one Cons.IH [OF this]] show ?case by (simp add: prod.case_eq_if split: sum.split)
qed (simp add: isolated_refl)

lemma isolated_sync_wallets: "ids_ok w \<Longrightarrow> isolated u w (snd (sync_wallets envs k s u as res w))"
proof (induction as arbitrary: k res w)
  case (Cons a as)
  have one: "isolated u w (snd (SyncWallet (envs k) s u (wa_ID a) w))" by (rule isolated_SyncWallet [OF Cons.prems])
  then have "ids_ok (snd (SyncWallet (envs k) s u (wa_ID a) w))" by (simp add: isolated_def)
  from isolated_trans [OF one Cons.IH [OF this]] show ?case by (simp add: prod.case_eq_if split: sum.split)
qed (simp add: isolated_refl)

lemma isolated_SyncAll: "ids_ok w \<Longrightarrow> isolated u w (snd (SyncAll srtC srtW env envC envW s u w))"
proof (cases "cred_ListByUserID srtC (p_db env 0 0) u (credentials w)")
  case (Inl e)
  assume "ids_ok w"
  with Inl show ?thesis by (simp add: SyncAll_def Let_def isolated_refl isolated_sync_wallets split: sum.split)
next
  case (Inr cs)
  assume ok: "ids_ok w"
  note one = isolated_sync_creds [OF ok, of u envC 0 s cs "\<lparr>ExchangesSynced = 0, WalletsSynced = 0, Errors = []\<rparr>"]
  then have "ids_ok (snd (sync_creds envC 0 s u cs \<lparr>ExchangesSynced = 0, WalletsSynced = 0, Errors = []\<rparr> w))" by (simp add: isolated_def)
  from isolated_trans [OF one isolated_sync_wallets [OF this]] one Inr show ?thesis
    by (simp add: SyncAll_def Let_def prod.case_eq_if split: sum.split)
qed

lemma isolated_ledger: "ids_ok w \<Longrightarrow> isolated u w (snd (ImportLedgerExport env s u d w)) \<and> isolated u w (snd (DisconnectLedger env u w))"
proof -
  assume ok: "ids_ok w"
  have own: "list_all (mine u) (known_holdings cat u src ref bs)" for cat src ref bs
    by (simp add: known_holdings_def balance_holding_def list_all_iff)
  note c = isolated_holdings [OF ok keeps_trans [OF DeleteBySource_keeps create_all_keeps [OF own]]]
  show ?thesis
    by (simp add: ImportLedgerExport_def DisconnectLedger_def Let_def isolated_refl [OF ok] isolated_holdings [OF ok DeleteBySource_keeps] c
        prod.case_eq_if split: sum.split)
qed

lemma isolated_op: "ids_ok w \<Longrightarrow> isolated u w (exec_port s env u oper w)"
  by (cases oper) (simp_all add: isolated_holding_ops isolated_CreateCredential isolated_DeleteCredential isolated_SyncCredential
      isolated_CreateWallet isolated_DeleteWallet isolated_SyncWallet isolated_SyncAll isolated_ledger)

text \<open>
  Users are isolated from each other. Whatever sequence of calls other users make, whatever identifiers they pass and however the database
  and the exchanges answer, the holdings, credentials and wallets of a user stay exactly as they are.
\<close>

lemma portfolio_isolation:
  assumes "ids_ok w" "list_all (\<lambda>(env, u, oper). u \<noteq> v) calls"
    and "w' = fold (\<lambda>(env, u, oper). exec_port s env u oper) calls w"
  shows "filter (\<lambda>h. h_UserID h = v) (holdings w') = filter (\<lambda>h. h_UserID h = v) (holdings w) \<and>
    filter (\<lambda>c. ec_UserID c = v) (credentials w') = filter (\<lambda>c. ec_UserID c = v) (credentials w) \<and>
    filter (\<lambda>a. wa_UserID a = v) (wallets w') = filter (\<lambda>a. wa_UserID a = v) (wallets w)"
  using assms
proof (induction calls arbitrary: w)
  case (Cons call calls)
  obtain env u oper where call: "call = (env, u, oper)" by (cases call)
  let ?w1 = "exec_port s env u oper w"
  have iso: "isolated u w ?w1" by (rule isolated_op [OF Cons.prems(1)])
  have "u \<noteq> v" using Cons.prems(2) call by simp
  note sub = keeps_others [OF _ this]
  from iso have "ids_ok ?w1" by (simp add: isolated_def)
  moreover from iso have "filter (\<lambda>h. h_UserID h = v) (holdings ?w1) = filter (\<lambda>h. h_UserID h = v) (holdings w)"
    "filter (\<lambda>c. ec_UserID c = v) (credentials ?w1) = filter (\<lambda>c. ec_UserID c = v) (credentials w)"
    "filter (\<lambda>a. wa_UserID a = v) (wallets ?w1) = filter (\<lambda>a. wa_UserID a = v) (wallets w)"
    by (auto simp: isolated_def others_same_def intro: sub)
  ultimately show ?case using Cons.IH [of ?w1] Cons.prems call by simp
qed simp

text \<open>An exchange that reports ether only, and two users who both hold bitcoin from it.\<close>

definition demo_crypto :: crypto where
  "demo_crypto = \<lparr>hkdf = (\<lambda>m u. Inr (m @ u)), new_cipher = (\<lambda>key. Inr ()), seal = (\<lambda>key n p. key @ n @ p),
     unseal = (\<lambda>key n c. if prefix (key @ n) c then Some (drop (length (key @ n)) c) else None)\<rparr>"

definition demo_env :: port_env where
  "demo_env = \<lparr>p_crypto = demo_crypto, p_parse = Inr, p_db = (\<lambda>g k. None), p_now = (\<lambda>k. 100), p_new = (\<lambda>k. ''new'' @ show_nat k),
     p_nonce = (\<lambda>k. Inr ''n'')\<rparr>"

definition demo_service :: PortfolioService where
  "demo_service = \<lparr>encryption = \<lparr>masterKey = ''m''\<rparr>,
     exchangeMap = [''kraken'' \<mapsto> \<lparr>cn_FetchBalances = (\<lambda>k sec. Inr [\<lparr>b_Asset = ''eth'', b_Quantity = Fin 2\<rparr>]), cn_FetchTrades = None\<rparr>],
     walletMap = Map.empty, parseExport = (\<lambda>d. Inl ''bad''), catalog = [''BTC'', ''ETH'']\<rparr>"

definition demo_holding :: "string \<Rightarrow> string \<Rightarrow> string \<Rightarrow> Holding" where
  "demo_holding u a n = \<lparr>h_ID = ''h'' @ u, h_UserID = u, h_AssetSymbol = a, h_Quantity = Fin 1, h_AvgBuyPrice = None, h_QuoteCurrency = ''USD'',
     h_Source = ''kraken'', h_SourceRef = Some (''c'' @ u), h_Notes = n, h_CreatedAt = 1, h_UpdatedAt = 1\<rparr>"

definition demo_cred :: "string \<Rightarrow> ExchangeCredential" where
  "demo_cred u = \<lparr>ec_ID = ''c'' @ u, ec_UserID = u, ec_Exchange = ''kraken'', ec_APIKeyPrefix = ''k'', ec_APIKeyCipher = ''m'' @ u @ ''nk'',
     ec_SecretCipher = ''m'' @ u @ ''ns'', ec_Nonce = ''n'', ec_KeyNonce = ''n'', ec_Status = ''active'', ec_ErrorReason = None,
     ec_LastSyncAt = None, ec_CreatedAt = 1, ec_UpdatedAt = 1\<rparr>"

definition demo_port :: port_world where
  "demo_port = \<lparr>holdings = [demo_holding ''bob'' ''BTC'' [], demo_holding ''eve'' ''BTC'' []], credentials = [demo_cred ''bob'', demo_cred ''eve''], wallets = []\<rparr>"

lemmas demo_defs = demo_port_def demo_env_def demo_crypto_def demo_service_def demo_holding_def demo_cred_def

section \<open>Secrets\<close>

lemmas encrypt_defs = encryptHoldingNotes_def EncryptForUser_def DecryptForUser_def Encrypt_def Decrypt_def DeriveUserKey_def

text \<open>What AES-GCM promises: opening a sealed text under the same key and nonce returns the text.\<close>

definition gcm_ok :: "crypto \<Rightarrow> bool" where
  "gcm_ok c \<longleftrightarrow> (\<forall>key nonce p. unseal c key nonce (seal c key nonce p) = Some p)"

lemma encrypt_decrypt:
  assumes "gcm_ok c" "EncryptForUser c s nonce u p = Inr (ct, n)"
  shows "DecryptForUser c s u ct n = Inr p"
  using assms by (auto simp: EncryptForUser_def DecryptForUser_def Encrypt_def Decrypt_def gcm_ok_def split: sum.splits)

lemma cred_CreateD:
  assumes "cred_Create err now c cs = (Inr c', cs')"
  shows "c' = c\<lparr>ec_CreatedAt := now, ec_UpdatedAt := now\<rparr>" "c'\<lparr>ec_LastSyncAt := None\<rparr> \<in> set cs'"
  using assms by (auto simp: cred_Create_def Let_def split: option.splits if_splits)


lemma demo_gcm_ok: "gcm_ok demo_crypto"
  by (simp add: gcm_ok_def demo_crypto_def)


lemma holding_CreateD:
  assumes "holding_Create parse err now h rs = (Inr h', rs')"
  shows "\<exists>r\<in>set rs'. h_ID r = h_ID h' \<and> h_UserID r = h_UserID h \<and> h_Notes r = h_Notes h"
  using assms by (fastforce simp: holding_Create_def Let_def split: sum.splits option.splits if_splits)

text \<open>
  The notes of a holding are stored in clear. A holding that is created ends up in the table with exactly the text of its notes in the column
  for the encrypted notes: the ciphertext that is computed on the way is dropped.
\<close>

lemma notes_stored_in_clear:
  assumes "CreateHolding env s u h w = (Inr h', w')"
  shows "\<exists>r\<in>set (holdings w'). h_ID r = h_ID h' \<and> h_UserID r = u \<and> h_Notes r = h_Notes h"
proof -
  from assms have "holding_Create (p_parse env) (p_db env 0 0) (p_now env 1)
      (h\<lparr>h_UserID := u, h_ID := p_new env 0, h_CreatedAt := p_now env 0, h_UpdatedAt := p_now env 0\<rparr>) (holdings w) = (Inr h', holdings w')"
    by (auto simp: CreateHolding_def Let_def split: sum.splits prod.splits)
  from holding_CreateD [OF this] show ?thesis by simp
qed

section \<open>Balances that disappear\<close>

lemma put_holding_other:
  "put_holding now row rs = Inr rs' \<Longrightarrow> r \<in> set rs \<Longrightarrow> \<not> holding_key row r \<Longrightarrow> r \<in> set rs'"
  by (auto simp: put_holding_def set_sql_update split: if_splits)

lemma upsert_holdings_other:
  assumes "upsert_holdings db k new_id now u source ref hs rs = Inr rs'" "r \<in> set rs" "h_AssetSymbol r \<notin> h_AssetSymbol ` set hs"
  shows "r \<in> set rs'"
  using assms
proof (induction hs arbitrary: k rs)
  case (Cons h hs)
  from Cons.prems(1) obtain rs1 where p1:
    "put_holding now (h\<lparr>h_ID := (if h_ID h = nil_uuid then new_id k else h_ID h), h_UserID := u, h_Source := source, h_SourceRef := Some ref\<rparr>) rs = Inr rs1"
    and p2: "upsert_holdings db (Suc k) new_id now u source ref hs rs1 = Inr rs'"
    by (auto split: option.splits sum.splits)
  have "r \<in> set rs1" using Cons.prems(2,3) by (intro put_holding_other [OF p1]) (auto simp: holding_key_def)
  with Cons.IH [OF p2] Cons.prems(3) show ?case by simp
qed simp

lemma UpsertBySource_other:
  "r \<in> set rs \<Longrightarrow> h_AssetSymbol r \<notin> h_AssetSymbol ` set hs \<Longrightarrow> r \<in> set (snd (UpsertBySource parse db new_id now u source ref hs rs))"
  by (auto simp: UpsertBySource_def dest: upsert_holdings_other split: option.split sum.split)

text \<open>
  A synchronisation never removes a holding. When an exchange no longer reports an asset, because all of it was sold, the holding from the last
  synchronisation stays as it was and keeps counting towards the value of the portfolio.
\<close>

lemma sync_keeps_sold_assets:
  assumes "SyncCredential env s u credID w = (res, w')" "r \<in> set (holdings w)"
    and "\<And>connector apiKey secret balances. exchangeMap s ex = Some connector \<Longrightarrow> cn_FetchBalances connector apiKey secret = Inr balances \<Longrightarrow>
      h_AssetSymbol r \<notin> (\<lambda>b. map ascii_upper (b_Asset b)) ` set balances"
    and "\<And>c. c \<in> set (credentials w) \<Longrightarrow> ec_ID c = credID \<Longrightarrow> ec_Exchange c = ex"
  shows "r \<in> set (holdings w')"
proof -
  have sym: "h_AssetSymbol ` set (known_holdings cat u src ref bs) \<subseteq> (\<lambda>b. map ascii_upper (b_Asset b)) ` set bs" for cat src ref bs
    by (auto simp: known_holdings_def balance_holding_def)
  have row: "ec_Exchange c = ex" if "cred_FindByID (p_db env 0 0) credID u (credentials w) = Inr (Some c)" for c
    using query_rowD [OF that [unfolded cred_FindByID_def]] assms(4) by (simp add: owned_cred_def)
  have up: "r \<in> set (snd (UpsertBySource (p_parse env) (p_db env 1) (p_new env) (p_now env 0) u (ec_Exchange c) credID
      (known_holdings (catalog s) u (ec_Exchange c) (Some credID) bs) (holdings w)))"
    if "cred_FindByID (p_db env 0 0) credID u (credentials w) = Inr (Some c)" "exchangeMap s (ec_Exchange c) = Some cn"
      "cn_FetchBalances cn k sec = Inr bs" for c cn k sec bs
    using assms(3) [of cn k sec bs] that row [OF that(1)] sym by (intro UpsertBySource_other [OF assms(2)]) blast
  have "holdings w' = holdings (snd (SyncCredential env s u credID w))" using assms(1) by simp
  then show ?thesis
    using assms(2) up by (simp add: SyncCredential_def Let_def prod.case_eq_if split: sum.split option.split)
qed

end
