(* ===== verification/Transactions.thy ===== *)
theory Transactions
  imports PnL_Engine Portfolio_Repo Market_Repo Planner_Runtime
begin

text \<open>
  Transactions of a user and their value in a reference currency: \<^verbatim>\<open>transaction_repository.go\<close>,
  \<^verbatim>\<open>pnl_repository.go\<close>, \<^verbatim>\<open>portfolio/price_resolver.go\<close>, \<^verbatim>\<open>portfolio/transaction_service.go\<close> and the
  executors \<^verbatim>\<open>worker/recompute_executor.go\<close> and \<^verbatim>\<open>worker/pnl_refresh_executor.go\<close>. Times are in UTC.
\<close>

section \<open>The transactions table\<close>

definition tx_check :: "Transaction \<Rightarrow> bool" where
  "tx_check t \<longleftrightarrow> tx_Type t \<in> {''buy'', ''sell'', ''transfer'', ''fee''} \<and> tx_Resolution t \<in> {''exact'', ''hourly'', ''daily'', ''unresolvable''}"

definition tx_key :: "Transaction \<Rightarrow> uuid_text \<times> string \<times> string \<times> string \<times> gotime" where
  "tx_key t = (tx_UserID t, tx_Source t, tx_SourceRef t, tx_AssetSymbol t, tx_Timestamp t)"

definition tx_Create :: "string option \<Rightarrow> gotime \<Rightarrow> Transaction \<Rightarrow> Transaction list \<Rightarrow> Transaction port_result \<times> Transaction list" where
  "tx_Create err now t rs =
     (case err of
        Some e \<Rightarrow> (Inl (SqlError e), rs)
      | None \<Rightarrow>
          let row = t\<lparr>tx_CreatedAt := now, tx_UpdatedAt := now\<rparr>
          in if \<not> tx_check t then (Inl CheckViolation, rs)
             else if list_ex (\<lambda>r. tx_ID r = tx_ID t) rs then (Inl (UniqueViolation ''portfolio_transactions_pkey''), rs)
             else if list_ex (\<lambda>r. tx_key r = tx_key t) rs
             then (Inl (UniqueViolation ''portfolio_transactions_user_id_source_source_ref_asset_symb_key''), rs)
             else (Inr row, rs @ [row]))"

text \<open>A conflict with a row that was edited by hand returns no row.\<close>

definition tx_overwrite :: "gotime \<Rightarrow> Transaction \<Rightarrow> Transaction \<Rightarrow> Transaction" where
  "tx_overwrite now t r =
     r\<lparr>tx_Quantity := tx_Quantity t, tx_Type := tx_Type t, tx_ReferenceValue := tx_ReferenceValue t,
       tx_ReferenceCurrency := tx_ReferenceCurrency t, tx_Resolution := tx_Resolution t, tx_Notes := tx_Notes t,
       tx_Fee := tx_Fee t, tx_FeeCurrency := tx_FeeCurrency t, tx_UpdatedAt := now\<rparr>"

definition tx_Upsert :: "string option \<Rightarrow> gotime \<Rightarrow> Transaction \<Rightarrow> Transaction list \<Rightarrow> unit port_result \<times> Transaction list" where
  "tx_Upsert err now t rs =
     (case err of
        Some e \<Rightarrow> (Inl (SqlError e), rs)
      | None \<Rightarrow>
          if \<not> tx_check t then (Inl CheckViolation, rs)
          else if list_ex (\<lambda>r. tx_key r = tx_key t) rs then
            (if list_ex (\<lambda>r. tx_key r = tx_key t \<and> \<not> tx_ManuallyEdited r) rs
             then (Inr (), sql_update (\<lambda>r. tx_key r = tx_key t \<and> \<not> tx_ManuallyEdited r) (tx_overwrite now t) rs)
             else (Inl SqlNoRows, rs))
          else if list_ex (\<lambda>r. tx_ID r = tx_ID t) rs then (Inl (UniqueViolation ''portfolio_transactions_pkey''), rs)
          else (Inr (), rs @ [t\<lparr>tx_CreatedAt := now, tx_UpdatedAt := now\<rparr>]))"

definition owned_tx :: "uuid_text \<Rightarrow> uuid_text \<Rightarrow> Transaction \<Rightarrow> bool" where
  "owned_tx i userID r \<longleftrightarrow> tx_ID r = i \<and> tx_UserID r = userID"

definition tx_set :: "Transaction \<Rightarrow> gotime \<Rightarrow> Transaction \<Rightarrow> Transaction" where
  "tx_set t now r =
     r\<lparr>tx_ReferenceValue := tx_ReferenceValue t, tx_ReferenceCurrency := tx_ReferenceCurrency t, tx_Resolution := tx_Resolution t,
       tx_ManuallyEdited := tx_ManuallyEdited t, tx_Notes := tx_Notes t, tx_UpdatedAt := now\<rparr>"

definition tx_Update :: "string option \<Rightarrow> gotime \<Rightarrow> Transaction \<Rightarrow> Transaction list \<Rightarrow> unit port_result \<times> Transaction list" where
  "tx_Update err now t rs =
     (if err = None \<and> list_ex (\<lambda>r. owned_tx (tx_ID t) (tx_UserID t) r \<and> \<not> tx_check (tx_set t now r)) rs then (Inl CheckViolation, rs)
      else exec_update err (owned_tx (tx_ID t) (tx_UserID t)) (tx_set t now) rs)"

definition tx_FindByID :: "string option \<Rightarrow> uuid_text \<Rightarrow> uuid_text \<Rightarrow> Transaction list \<Rightarrow> Transaction option port_result" where
  "tx_FindByID err userID txID rs = query_row err (owned_tx txID userID) rs"

definition tx_matches :: "uuid_text \<Rightarrow> ListOptions \<Rightarrow> Transaction \<Rightarrow> bool" where
  "tx_matches userID opts t \<longleftrightarrow>
     tx_UserID t = userID \<and> (lo_Asset opts = [] \<or> tx_AssetSymbol t = lo_Asset opts) \<and> (lo_Type opts = [] \<or> tx_Type t = lo_Type opts) \<and>
     (case lo_StartDate opts of None \<Rightarrow> True | Some d \<Rightarrow> d \<le> tx_Timestamp t) \<and>
     (case lo_EndDate opts of None \<Rightarrow> True | Some d \<Rightarrow> tx_Timestamp t \<le> d)"

text \<open>The total comes with the rows: a page without rows reports none.\<close>

definition tx_ListByUser ::
    "Transaction sorting \<Rightarrow> string option \<Rightarrow> uuid_text \<Rightarrow> ListOptions \<Rightarrow> Transaction list \<Rightarrow> (Transaction list \<times> int) port_result" where
  "tx_ListByUser srt err userID opts rs =
     (let hits = filter (tx_matches userID opts) rs;
          pageSize = (if lo_PageSize opts \<le> 0 then 50 else lo_PageSize opts);
          page = (if lo_Page opts \<le> 0 then 1 else lo_Page opts);
          items = sql_page pageSize ((page - 1) * pageSize) (srt (\<lambda>t. (- tx_Timestamp t, 0, 0, 0)) hits)
      in case err of Some e \<Rightarrow> Inl (SqlError e) | None \<Rightarrow> Inr (items, if items = [] then 0 else int (length hits)))"

definition tx_DeleteBySourceRef :: "string option \<Rightarrow> uuid_text \<Rightarrow> string \<Rightarrow> string \<Rightarrow> Transaction list \<Rightarrow> unit port_result \<times> Transaction list" where
  "tx_DeleteBySourceRef err userID source sourceRef rs =
     delete_where err (\<lambda>r. tx_UserID r = userID \<and> tx_Source r = source \<and> tx_SourceRef r = sourceRef) rs"

definition CountByUser :: "string option \<Rightarrow> uuid_text \<Rightarrow> Transaction list \<Rightarrow> int port_result" where
  "CountByUser err userID rs =
     (case err of Some e \<Rightarrow> Inl (SqlError e) | None \<Rightarrow> Inr (int (length (filter (\<lambda>r. tx_UserID r = userID) rs))))"

text \<open>\<open>rng\<close> is the order in which \<^verbatim>\<open>SELECT DISTINCT\<close> returns its rows.\<close>

definition DistinctCurrencies :: "(string list \<Rightarrow> string list) \<Rightarrow> string option \<Rightarrow> uuid_text \<Rightarrow> Transaction list \<Rightarrow> string list port_result" where
  "DistinctCurrencies rng err userID rs =
     query_rows err (rng (remdups (map tx_ReferenceCurrency (filter (\<lambda>r. tx_UserID r = userID) rs))))"

section \<open>Snapshots\<close>

text \<open>\<^verbatim>\<open>json.Marshal\<close> refuses infinities and not-a-number.\<close>

fun json_float :: "float64 \<Rightarrow> string option" where
  "json_float (Fin q) = None"
| "json_float NaN = Some ''json: unsupported value: NaN''"
| "json_float PInf = Some ''json: unsupported value: +Inf''"
| "json_float NInf = Some ''json: unsupported value: -Inf''"

fun marshal_assets :: "AssetPnL list \<Rightarrow> string option" where
  "marshal_assets [] = None"
| "marshal_assets (a # as) =
     (case json_float (ap_RealizedPnL a) of
        Some e \<Rightarrow> Some e
      | None \<Rightarrow>
          (case json_float (ap_UnrealizedPnL a) of
             Some e \<Rightarrow> Some e
           | None \<Rightarrow> (case json_float (ap_TotalPnL a) of Some e \<Rightarrow> Some e | None \<Rightarrow> marshal_assets as)))"

definition snapshot_key :: "PnLSnapshot \<Rightarrow> uuid_text \<times> string" where
  "snapshot_key s = (ps_UserID s, ps_ReferenceCurrency s)"

definition pnl_Upsert :: "string option \<Rightarrow> PnLSnapshot \<Rightarrow> PnLSnapshot list \<Rightarrow> (uuid_text \<times> PnLSnapshot list) port_result" where
  "pnl_Upsert err s rs =
     (case marshal_assets (ps_Assets s) of
        Some e \<Rightarrow> Inl (Wrap ''marshal assets'' (Plain e))
      | None \<Rightarrow>
          (case err of
             Some e \<Rightarrow> Inl (SqlError e)
           | None \<Rightarrow>
               if list_ex (\<lambda>r. snapshot_key r = snapshot_key s) rs then
                 let i = (case find (\<lambda>r. snapshot_key r = snapshot_key s) rs of Some r \<Rightarrow> ps_ID r | None \<Rightarrow> ps_ID s)
                 in Inr (i, sql_update (\<lambda>r. snapshot_key r = snapshot_key s) (\<lambda>r. s\<lparr>ps_ID := ps_ID r\<rparr>) rs)
               else if list_ex (\<lambda>r. ps_ID r = ps_ID s) rs then Inl (UniqueViolation ''pnl_snapshots_pkey'')
               else Inr (ps_ID s, rs @ [s])))"

definition pnl_FindByUser :: "string option \<Rightarrow> uuid_text \<Rightarrow> string \<Rightarrow> PnLSnapshot list \<Rightarrow> PnLSnapshot option port_result" where
  "pnl_FindByUser err userID referenceCurrency rs = query_row err (\<lambda>r. snapshot_key r = (userID, referenceCurrency)) rs"

section \<open>Prices\<close>

record Resolution =
  rs_Price :: float64
  rs_Method :: string

definition unresolved :: Resolution where
  "unresolved = \<lparr>rs_Price = f0, rs_Method = ''unresolvable''\<rparr>"

text \<open>\<open>db k\<close> is the outcome of the \<open>k\<close>-th query. The daily query does not read raw candles.\<close>

definition Resolve :: "db_outcome \<Rightarrow> market_db \<Rightarrow> string \<Rightarrow> string \<Rightarrow> gotime \<Rightarrow> (string, Resolution) result" where
  "Resolve db mkt asset quoteCurrency timestamp =
     (let pair = asset @ quoteCurrency;
          hourStart = trunc_time timestamp Hour;
          hourEnd = hourStart + Hour
      in case HourlyCandles (db 0) pair hourStart hourEnd mkt of
           Inl e \<Rightarrow> Inl e
         | Inr (c # _) \<Rightarrow> Inr \<lparr>rs_Price = k_Close c, rs_Method = ''hourly''\<rparr>
         | Inr [] \<Rightarrow>
             let dayStart = trunc_time timestamp Day;
                 dayEnd = dayStart + Day
             in case Historical id (db 1) 0 pair ''1d'' dayStart dayEnd mkt of
                  Inl e \<Rightarrow> Inl e
                | Inr (c # _) \<Rightarrow> Inr \<lparr>rs_Price = k_Close c, rs_Method = ''daily''\<rparr>
                | Inr [] \<Rightarrow> Inr unresolved)"

text \<open>A failed resolution is logged and counts as unresolvable.\<close>

definition resolve_or :: "db_outcome \<Rightarrow> market_db \<Rightarrow> string \<Rightarrow> string \<Rightarrow> gotime \<Rightarrow> Resolution" where
  "resolve_or db mkt asset cur ts = (case Resolve db mkt asset cur ts of Inl e \<Rightarrow> unresolved | Inr r \<Rightarrow> r)"

definition ref_value :: "Resolution \<Rightarrow> float64 \<Rightarrow> float64 option" where
  "ref_value res q = (if rs_Method res \<noteq> ''unresolvable'' then Some (fmul (rs_Price res) q) else None)"

section \<open>The transaction service\<close>

text \<open>
  What a method of the service meets: for page \<open>p\<close> the order and outcome of its listing, and for item \<open>i\<close> of it the
  outcomes of its candle queries and of its write, and the time of the write.
\<close>

record tx_env =
  te_srt :: "nat \<Rightarrow> Transaction sorting"
  te_list :: db_outcome
  te_candles :: "nat \<Rightarrow> nat \<Rightarrow> db_outcome"
  te_write :: "nat \<Rightarrow> db_outcome"
  te_now :: "nat \<Rightarrow> nat \<Rightarrow> gotime"
  te_new :: "nat \<Rightarrow> uuid_text"

definition entry_tx :: "uuid_text \<Rightarrow> uuid_text \<Rightarrow> string \<Rightarrow> string \<Rightarrow> string \<Rightarrow> LedgerEntry \<Rightarrow> Resolution \<Rightarrow> Transaction" where
  "entry_tx i userID source sourceRef cur e res =
     \<lparr>tx_ID = i, tx_UserID = userID, tx_AssetSymbol = le_Asset e, tx_Quantity = le_Quantity e, tx_Type = le_Type e,
      tx_Timestamp = le_Timestamp e, tx_Source = source, tx_SourceRef = sourceRef, tx_ReferenceValue = ref_value res (le_Quantity e),
      tx_ReferenceCurrency = cur, tx_Resolution = rs_Method res, tx_Fee = le_Fee e, tx_FeeCurrency = le_FeeCurrency e,
      tx_ManuallyEdited = False, tx_Notes = [], tx_CreatedAt = 0, tx_UpdatedAt = 0\<rparr>"

fun NormalizeForSource ::
    "tx_env \<Rightarrow> nat \<Rightarrow> market_db \<Rightarrow> uuid_text \<Rightarrow> string \<Rightarrow> string \<Rightarrow> string \<Rightarrow> LedgerEntry list \<Rightarrow> Transaction list \<Rightarrow>
       unit port_result \<times> Transaction list" where
  "NormalizeForSource env i mkt userID source sourceRef cur [] rs = (Inr (), rs)"
| "NormalizeForSource env i mkt userID source sourceRef cur (e # es) rs =
     (let res = resolve_or (te_candles env 0 i) mkt (le_Asset e) cur (le_Timestamp e)
      in case tx_Upsert (te_write env 0 i) (te_now env 0 i) (entry_tx (te_new env i) userID source sourceRef cur e res) rs of
           (Inl SqlNoRows, rs') \<Rightarrow> NormalizeForSource env (Suc i) mkt userID source sourceRef cur es rs'
         | (Inl err, rs') \<Rightarrow> (Inl (Wrap (''upsert transaction for '' @ le_Asset e) err), rs')
         | (Inr _, rs') \<Rightarrow> NormalizeForSource env (Suc i) mkt userID source sourceRef cur es rs')"

definition UpdateTransaction ::
    "db_outcome \<Rightarrow> gotime \<Rightarrow> uuid_text \<Rightarrow> uuid_text \<Rightarrow> float64 option \<Rightarrow> string option \<Rightarrow> Transaction list \<Rightarrow> unit port_result \<times> Transaction list" where
  "UpdateTransaction db now userID txID val notes rs =
     (case tx_FindByID (db 0) userID txID rs of
        Inl e \<Rightarrow> (Inl (Wrap ''find transaction'' e), rs)
      | Inr None \<Rightarrow> (Inl SqlNoRows, rs)
      | Inr (Some t) \<Rightarrow>
          let t1 = (case val of None \<Rightarrow> t | Some v \<Rightarrow> t\<lparr>tx_ReferenceValue := Some v\<rparr>);
              t2 = (case notes of None \<Rightarrow> t1 | Some n \<Rightarrow> t1\<lparr>tx_Notes := n\<rparr>);
              t3 = t2\<lparr>tx_ManuallyEdited := True\<rparr>
          in case tx_Update (db 1) now t3 rs of
               (Inl e, rs') \<Rightarrow> (Inl (Wrap ''update transaction'' e), rs')
             | (Inr _, rs') \<Rightarrow> (Inr (), rs'))"

definition ListTransactions :: "Transaction sorting \<Rightarrow> string option \<Rightarrow> uuid_text \<Rightarrow> ListOptions \<Rightarrow> Transaction list \<Rightarrow> (Transaction list \<times> int) port_result" where
  "ListTransactions srt err userID opts rs = tx_ListByUser srt err userID opts rs"

definition renormalized :: "db_outcome \<Rightarrow> market_db \<Rightarrow> string \<Rightarrow> Transaction \<Rightarrow> Transaction" where
  "renormalized db mkt cur t =
     (let res = resolve_or db mkt (tx_AssetSymbol t) cur (tx_Timestamp t)
      in t\<lparr>tx_ReferenceValue := ref_value res (tx_Quantity t), tx_ReferenceCurrency := cur, tx_Resolution := rs_Method res\<rparr>)"

fun renormalize_batch ::
    "tx_env \<Rightarrow> nat \<Rightarrow> nat \<Rightarrow> market_db \<Rightarrow> string \<Rightarrow> Transaction list \<Rightarrow> Transaction list \<Rightarrow> unit port_result \<times> Transaction list" where
  "renormalize_batch env p i mkt cur [] rs = (Inr (), rs)"
| "renormalize_batch env p i mkt cur (t # ts) rs =
     (if tx_ManuallyEdited t then renormalize_batch env p (Suc i) mkt cur ts rs
      else case tx_Update (te_write env p i) (te_now env p i) (renormalized (te_candles env p i) mkt cur t) rs of
             (Inl e, rs') \<Rightarrow> (Inl (Wrap (''updating transaction '' @ tx_ID t) e), rs')
           | (Inr _, rs') \<Rightarrow> renormalize_batch env p (Suc i) mkt cur ts rs')"

text \<open>The loop over pages, from page \<open>p\<close>; \<open>None\<close> is a loop that does not end.\<close>

partial_function (option) renormalize_pages ::
    "tx_env \<Rightarrow> market_db \<Rightarrow> uuid_text \<Rightarrow> string \<Rightarrow> nat \<Rightarrow> Transaction list \<Rightarrow> (unit port_result \<times> Transaction list) option" where
  "renormalize_pages env mkt userID cur p rs =
     (case tx_ListByUser (te_srt env p) (te_list env p) userID (page_opts (int p)) rs of
        Inl e \<Rightarrow> Some (Inl (Wrap (''listing transactions page '' @ show_nat p) e), rs)
      | Inr (batch, tot) \<Rightarrow>
          (case renormalize_batch env p 0 mkt cur batch rs of
             (Inl e, rs') \<Rightarrow> Some (Inl e, rs')
           | (Inr _, rs') \<Rightarrow>
               if int p * batchSize \<ge> tot \<or> batch = [] then Some (Inr (), rs')
               else renormalize_pages env mkt userID cur (Suc p) rs'))"

definition ReNormalizeAll :: "tx_env \<Rightarrow> market_db \<Rightarrow> uuid_text \<Rightarrow> string \<Rightarrow> Transaction list \<Rightarrow> (unit port_result \<times> Transaction list) option" where
  "ReNormalizeAll env mkt userID cur rs = renormalize_pages env mkt userID cur 1 rs"

record debouncer =
  hasPublisher :: bool
  debounceWindow :: duration
  debounceTracker :: "uuid_text \<rightharpoonup> gotime"

definition recompute_task :: "uuid_text \<Rightarrow> string \<Rightarrow> Task" where
  "recompute_task userID currency =
     Enrich (new_task (''portfolio_recompute:'' @ userID @ '':pending'') TypePortfolioRecompute [] currency 0 0)"

text \<open>\<open>pub\<close> is the outcome of publishing; the last component are the published tasks.\<close>

definition QueueRecomputeWithCurrency ::
    "string option \<Rightarrow> gotime \<Rightarrow> uuid_text \<Rightarrow> string \<Rightarrow> debouncer \<Rightarrow> unit port_result \<times> debouncer \<times> Task list" where
  "QueueRecomputeWithCurrency pub now userID currency s =
     (if \<not> hasPublisher s then (Inr (), s, [])
      else if (case debounceTracker s userID of None \<Rightarrow> False | Some prev \<Rightarrow> 0 < debounceWindow s \<and> now - prev < debounceWindow s)
      then (Inr (), s, [])
      else case pub of
        Some e \<Rightarrow> (Inl (Wrap ''publish recompute task'' (Plain e)), s, [])
      | None \<Rightarrow> (Inr (), s\<lparr>debounceTracker := (debounceTracker s)(userID \<mapsto> now)\<rparr>, [recompute_task userID currency]))"

definition QueueRecompute :: "string option \<Rightarrow> gotime \<Rightarrow> uuid_text \<Rightarrow> debouncer \<Rightarrow> unit port_result \<times> debouncer \<times> Task list" where
  "QueueRecompute pub now userID s = QueueRecomputeWithCurrency pub now userID [] s"

section \<open>The executors\<close>

record tx_world =
  txs :: "Transaction list"
  snapshots :: "PnLSnapshot list"
  updates :: "uuid_text list"

text \<open>
  The environment of one execution: how \<^verbatim>\<open>uuid.Parse\<close> answers, the listing of currencies, and for the \<open>k\<close>-th currency the
  environments of \<^verbatim>\<open>ReNormalizeAll\<close> and of \<^verbatim>\<open>ComputeAndStore\<close>, with the current prices.
\<close>

record calc_env =
  ce_parse :: "string \<Rightarrow> uuid_text port_result"
  ce_rng :: "string list \<Rightarrow> string list"
  ce_currencies :: "string option"
  ce_market :: "nat \<Rightarrow> market_db"
  ce_tx :: "nat \<Rightarrow> tx_env"
  ce_load :: "nat \<Rightarrow> tx_env"
  ce_sort :: "Transaction list \<Rightarrow> Transaction list"
  ce_rngQ :: "string list \<Rightarrow> string list"
  ce_rngA :: "string list \<Rightarrow> string list"
  ce_price :: "nat \<Rightarrow> string \<Rightarrow> string \<Rightarrow> float64 port_result"
  ce_store :: db_outcome
  ce_new :: "nat \<Rightarrow> uuid_text"
  ce_time :: "nat \<Rightarrow> gotime"

definition compute_currency :: "calc_env \<Rightarrow> nat \<Rightarrow> uuid_text \<Rightarrow> string \<Rightarrow> tx_world \<Rightarrow> (PnLSnapshot \<times> PnLSnapshot list) port_result option" where
  "compute_currency env k userID cur w =
     ComputeAndStore Wrap (ce_sort env) (ce_rngQ env) (ce_rngA env)
       (\<lambda>opts. tx_ListByUser (te_srt (ce_load env k) (nat (lo_Page opts))) (te_list (ce_load env k) (nat (lo_Page opts))) userID opts (txs w))
       (ce_price env k) (pnl_Upsert (ce_store env k)) (ce_new env k) (ce_time env k) userID cur (snapshots w)"

definition parseUserIDFromTaskID :: "(string \<Rightarrow> uuid_text port_result) \<Rightarrow> string \<Rightarrow> uuid_text port_result" where
  "parseUserIDFromTaskID parse i =
     (let parts = split_on CHR '':'' i
      in if length parts < 3 then Inl (Plain (''expected at least 3 colon-separated segments, got '' @ show_nat (length parts)))
         else parse (parts ! 1))"

definition with_common :: "string list \<Rightarrow> string list" where
  "with_common found = sort (remdups (found @ [''USD'', ''EUR'']))"

definition resolveCurrencies :: "calc_env \<Rightarrow> uuid_text \<Rightarrow> string \<Rightarrow> tx_world \<Rightarrow> string list port_result" where
  "resolveCurrencies env userID hint w =
     (if hint \<noteq> [] then Inr [hint]
      else case DistinctCurrencies (ce_rng env) (ce_currencies env) userID (txs w) of Inl e \<Rightarrow> Inl e | Inr cs \<Rightarrow> Inr (with_common cs))"

fun recompute_loop :: "calc_env \<Rightarrow> nat \<Rightarrow> uuid_text \<Rightarrow> string list \<Rightarrow> tx_world \<Rightarrow> (unit port_result \<times> tx_world) option" where
  "recompute_loop env k userID [] w = Some (Inr (), w)"
| "recompute_loop env k userID (cur # curs) w =
     (case ReNormalizeAll (ce_tx env k) (ce_market env k) userID cur (txs w) of
        None \<Rightarrow> None
      | Some (Inl e, ts) \<Rightarrow> Some (Inl (Wrap (''re-normalizing transactions for '' @ cur) e), w\<lparr>txs := ts\<rparr>)
      | Some (Inr _, ts) \<Rightarrow>
          (case compute_currency env k userID cur (w\<lparr>txs := ts\<rparr>) of
             None \<Rightarrow> None
           | Some (Inl e) \<Rightarrow> Some (Inl (Wrap (''computing P&L for '' @ cur) e), w\<lparr>txs := ts\<rparr>)
           | Some (Inr (_, ss)) \<Rightarrow> recompute_loop env (Suc k) userID curs (w\<lparr>txs := ts, snapshots := ss\<rparr>)))"

fun refresh_loop :: "calc_env \<Rightarrow> nat \<Rightarrow> uuid_text \<Rightarrow> string list \<Rightarrow> tx_world \<Rightarrow> (unit port_result \<times> tx_world) option" where
  "refresh_loop env k userID [] w = Some (Inr (), w)"
| "refresh_loop env k userID (cur # curs) w =
     (case compute_currency env k userID cur w of
        None \<Rightarrow> None
      | Some (Inl e) \<Rightarrow> Some (Inl (Wrap (''computing P&L for '' @ cur) e), w)
      | Some (Inr (_, ss)) \<Rightarrow> refresh_loop env (Suc k) userID curs (w\<lparr>snapshots := ss\<rparr>))"

definition notify_user :: "uuid_text \<Rightarrow> unit port_result \<times> tx_world \<Rightarrow> unit port_result \<times> tx_world" where
  "notify_user userID r = (case r of (Inl e, w) \<Rightarrow> (Inl e, w) | (Inr _, w) \<Rightarrow> (Inr (), w\<lparr>updates := updates w @ [userID]\<rparr>))"

definition recompute_Execute :: "calc_env \<Rightarrow> Task \<Rightarrow> tx_world \<Rightarrow> (unit port_result \<times> tx_world) option" where
  "recompute_Execute env item w =
     (if t_Type item \<noteq> TypePortfolioRecompute
      then Some (Inl (Plain (''recompute executor received unexpected task type '' @ go_quote (t_Type item))), w)
      else case parseUserIDFromTaskID (ce_parse env) (t_ID item) of
        Inl e \<Rightarrow> Some (Inl (Wrap (''parsing user ID from task '' @ go_quote (t_ID item)) e), w)
      | Inr userID \<Rightarrow>
          (case resolveCurrencies env userID (t_Interval item) w of
             Inl e \<Rightarrow> Some (Inl (Wrap ''resolving currencies'' e), w)
           | Inr curs \<Rightarrow> map_option (notify_user userID) (recompute_loop env 0 userID curs w)))"

definition refresh_Execute :: "calc_env \<Rightarrow> Task \<Rightarrow> tx_world \<Rightarrow> (unit port_result \<times> tx_world) option" where
  "refresh_Execute env item w =
     (if t_Type item \<noteq> TypePnLRefresh
      then Some (Inl (Plain (''pnl refresh executor received unexpected task type '' @ go_quote (t_Type item))), w)
      else case parseUserIDFromTaskID (ce_parse env) (t_ID item) of
        Inl e \<Rightarrow> Some (Inl (Wrap (''parsing user ID from task '' @ go_quote (t_ID item)) e), w)
      | Inr userID \<Rightarrow>
          let found = (case DistinctCurrencies (ce_rng env) (ce_currencies env) userID (txs w) of Inl e \<Rightarrow> [] | Inr cs \<Rightarrow> cs)
          in map_option (notify_user userID) (refresh_loop env 0 userID (with_common found) w))"

end
