(* ===== verification/Transaction_Props.thy ===== *)
theory Transaction_Props
  imports Transactions Worker
begin

text \<open>
  What holds of transactions: the price a transaction is valued with, that a recompute revalues every transaction exactly once and none that was
  edited by hand, how often recomputes are requested, and what becomes of the requests.
\<close>

section \<open>The price of a transaction\<close>

lemma filter_by_key:
  assumes "distinct (map key xs)" "\<And>x. x \<in> set xs \<Longrightarrow> P x \<Longrightarrow> key x = k"
  shows "filter P xs = (case find P xs of None \<Rightarrow> [] | Some x \<Rightarrow> [x])"
  using assms
proof (induction xs)
  case (Cons a xs)
  show ?case
  proof (cases "P a")
    case True
    have "\<not> P x" if "x \<in> set xs" for x using Cons.prems(1) Cons.prems(2) [of x] Cons.prems(2) [of a] True that by force
    then show ?thesis using True by (simp add: filter_empty_conv)
  qed (use Cons in simp)
qed simp

lemma hd_sort_key:
  assumes "c \<in> set xs" "\<And>d. d \<in> set xs \<Longrightarrow> d \<noteq> c \<Longrightarrow> key c < key d"
  shows "\<exists>ys. sort_key key xs = c # ys"
proof (cases "sort_key key xs")
  case Nil
  with assms(1) show ?thesis by (metis empty_iff empty_set set_sort)
next
  case (Cons y ys)
  have "sorted (map key (y # ys))" using Cons by (metis sorted_sort_key)
  moreover have "c \<in> set (y # ys)" using assms(1) Cons by (metis set_sort)
  ultimately have "key y \<le> key c" by auto
  moreover have "y \<in> set xs" using Cons by (metis list.set_intros(1) set_sort)
  ultimately show ?thesis using assms(2) [of y] Cons by fastforce
qed

definition aligned :: "market_db \<Rightarrow> bool" where
  "aligned mkt \<longleftrightarrow> list_all (\<lambda>c. trunc_time (from_unix (k_Timestamp c)) Hour = from_unix (k_Timestamp c)) (candles_1h mkt) \<and>
     list_all (\<lambda>c. trunc_time (from_unix (k_Timestamp c)) Day = from_unix (k_Timestamp c)) (candles_1d mkt)"

definition candle_at :: "string \<Rightarrow> gotime \<Rightarrow> Candle list \<Rightarrow> Candle option" where
  "candle_at pair t cs = find (\<lambda>c. k_Pair c = pair \<and> from_unix (k_Timestamp c) = t) cs"

lemma multiple_in_window:
  fixes x h d :: int
  assumes "d dvd x" "d dvd h" "h \<le> x" "x < h + d"
  shows "x = h"
proof (rule ccontr)
  assume "x \<noteq> h"
  with assms have "d \<le> x - h" by (intro zdvd_imp_le) simp_all
  with assms show False by simp
qed

lemma aligned_dvd: "0 < d \<Longrightarrow> trunc_time x d = x \<Longrightarrow> d dvd x"
  using trunc_time_dvd [of d x] by simp

lemma from_unix_cmp: "from_unix a = from_unix b \<longleftrightarrow> a = b" "from_unix a < from_unix b \<longleftrightarrow> a < b" "from_unix a \<le> from_unix b \<longleftrightarrow> a \<le> b"
  by (simp_all add: from_unix_def)

lemma hourly_window:
  assumes "aligned mkt" "market_ok mkt"
  shows "HourlyCandles None pair (trunc_time t Hour) (trunc_time t Hour + Hour) mkt =
    Inr (case candle_at pair (trunc_time t Hour) (candles_1h mkt) of None \<Rightarrow> [] | Some c \<Rightarrow> [c])"
proof -
  let ?P = "\<lambda>c. k_Pair c = pair \<and> from_unix (k_Timestamp c) = trunc_time t Hour"
  have "(k_Pair c = pair \<and> in_window (trunc_time t Hour) (trunc_time t Hour + Hour) c) = ?P c" if "c \<in> set (candles_1h mkt)" for c
  proof -
    have "Hour dvd from_unix (k_Timestamp c)" using assms(1) that by (intro aligned_dvd) (simp_all add: aligned_def list_all_iff)
    moreover have "Hour dvd trunc_time t Hour" by (rule trunc_time_dvd) simp
    ultimately show ?thesis
      using multiple_in_window [of Hour "from_unix (k_Timestamp c)" "trunc_time t Hour"] by (auto simp: in_window_def)
  qed
  then have "filter (\<lambda>c. k_Pair c = pair \<and> in_window (trunc_time t Hour) (trunc_time t Hour + Hour) c) (candles_1h mkt) = filter ?P (candles_1h mkt)"
    by (rule filter_cong [OF refl])
  also have "\<dots> = (case find ?P (candles_1h mkt) of None \<Rightarrow> [] | Some c \<Rightarrow> [c])"
    using assms(2) by (intro filter_by_key [where key = candle_key and k = "(pair, unix (trunc_time t Hour))"])
      (simp_all only: market_ok_def candle_key_def, metis unix_from_unix)
  finally show ?thesis unfolding HourlyCandles_def candle_at_def by (simp split: option.split)
qed

lemma daily_window:
  assumes "aligned mkt" "market_ok mkt" "d = trunc_time t Day" "0 < d"
  shows "\<exists>cs. Historical id None 0 pair ''1d'' d (d + Day) mkt = Inr cs \<and>
    (case cs of [] \<Rightarrow> None | c # _ \<Rightarrow> Some c) =
      (case candle_at pair d (candles_1d mkt) of None \<Rightarrow> candle_at pair (d + Day) (candles_1d mkt) | Some c \<Rightarrow> Some c)"
proof -
  define xs where "xs = filter (\<lambda>c. k_Pair c = pair \<and> in_range d (d + Day) c) (candles_1d mkt)"
  have dv: "Day dvd d" unfolding assms(3) by (rule trunc_time_dvd) simp
  have split: "from_unix (k_Timestamp c) = d \<or> from_unix (k_Timestamp c) = d + Day" if "c \<in> set xs" for c
  proof -
    have "Day dvd from_unix (k_Timestamp c)" using assms(1) that by (intro aligned_dvd) (simp_all add: aligned_def list_all_iff xs_def)
    with dv multiple_in_window [of Day "from_unix (k_Timestamp c)" d] that assms(4) show ?thesis
      by (fastforce simp: xs_def in_range_def)
  qed
  have uniq: "c = c'" if "c \<in> set xs" "c' \<in> set xs" "from_unix (k_Timestamp c) = from_unix (k_Timestamp c')" for c c'
    using that assms(2) key_unique [of candle_key "candles_1d mkt" c c'] by (simp add: xs_def market_ok_def candle_key_def from_unix_cmp)
  have at: "candle_at pair e (candles_1d mkt) = Some c \<Longrightarrow> e = d \<or> e = d + Day \<Longrightarrow> c \<in> set xs \<and> from_unix (k_Timestamp c) = e" for e c
    using assms(4) by (auto simp: candle_at_def find_Some_iff xs_def in_range_def)
  have none: "candle_at pair e (candles_1d mkt) = None \<Longrightarrow> c \<in> set xs \<Longrightarrow> from_unix (k_Timestamp c) \<noteq> e" for e c
    by (auto simp: candle_at_def find_None_iff xs_def)
  have hd: "\<exists>ys. sort_key k_Timestamp xs = c # ys"
    if "c \<in> set xs" "from_unix (k_Timestamp c) = d \<or> candle_at pair d (candles_1d mkt) = None" for c
  proof (rule hd_sort_key [OF that(1)])
    fix c' assume c': "c' \<in> set xs" "c' \<noteq> c"
    then have "from_unix (k_Timestamp c) < from_unix (k_Timestamp c')"
      using that split [OF that(1)] split [OF c'(1)] uniq [OF that(1) c'(1)] none [of d] by auto
    then show "k_Timestamp c < k_Timestamp c'" by (simp add: from_unix_cmp)
  qed
  have hist: "Historical id None 0 pair ''1d'' d (d + Day) mkt = Inr (sort_key k_Timestamp xs)"
    using assms(4) by (simp add: Historical_def candleTable_def xs_def)
  show ?thesis
  proof (cases "candle_at pair d (candles_1d mkt)")
    case (Some c)
    with at [of d c] hd [of c] hist show ?thesis by auto
  next
    case d: None
    show ?thesis
    proof (cases "candle_at pair (d + Day) (candles_1d mkt)")
      case (Some c)
      with at [of "d + Day" c] hd [of c] hist d show ?thesis by auto
    next
      case None
      with d split none have "xs = []" by (metis list.set_intros(1) neq_Nil_conv)
      with hist d None show ?thesis by simp
    qed
  qed
qed

text \<open>
  The price of a transaction, on consolidated candles that start on full hours and days: the close of its hour, else the close of its day, else
  the close of the \<^emph>\<open>following\<close> day, because the end of the daily window is inclusive; only without all three is it
  unresolvable. A value from the following day is recorded as a daily one.
\<close>

lemma price_resolution:
  assumes "aligned mkt" "market_ok mkt" "Day \<le> t"
  shows "Resolve no_errors mkt asset cur t = Inr
    (case candle_at (asset @ cur) (trunc_time t Hour) (candles_1h mkt) of
       Some c \<Rightarrow> \<lparr>rs_Price = k_Close c, rs_Method = ''hourly''\<rparr>
     | None \<Rightarrow>
         (case candle_at (asset @ cur) (trunc_time t Day) (candles_1d mkt) of
            Some c \<Rightarrow> \<lparr>rs_Price = k_Close c, rs_Method = ''daily''\<rparr>
          | None \<Rightarrow>
              (case candle_at (asset @ cur) (trunc_time t Day + Day) (candles_1d mkt) of
                 Some c \<Rightarrow> \<lparr>rs_Price = k_Close c, rs_Method = ''daily''\<rparr>
               | None \<Rightarrow> unresolved)))"
proof -
  have "0 < trunc_time t Day" using assms(3) trunc_time_mono [of Day t Day] trunc_time_id [of Day Day] by simp
  from daily_window [OF assms(1,2) refl this, of "asset @ cur"] obtain cs where
    cs: "Historical id None 0 (asset @ cur) ''1d'' (trunc_time t Day) (trunc_time t Day + Day) mkt = Inr cs"
      "(case cs of [] \<Rightarrow> None | c # _ \<Rightarrow> Some c) = (case candle_at (asset @ cur) (trunc_time t Day) (candles_1d mkt) of
         None \<Rightarrow> candle_at (asset @ cur) (trunc_time t Day + Day) (candles_1d mkt) | Some c \<Rightarrow> Some c)" by blast
  show ?thesis
    using cs(2) unfolding Resolve_def Let_def no_errors_def hourly_window [OF assms(1,2)] cs(1)
    by (cases cs) (auto split: option.splits)
qed

section \<open>Revaluation\<close>

text \<open>
  Up to the time of the last update: the table in which exactly the transactions of \<open>u\<close> with an identifier in \<open>D\<close>
  have been revalued.
\<close>

definition stamped :: "Transaction \<Rightarrow> Transaction" where
  "stamped t = t\<lparr>tx_UpdatedAt := 0\<rparr>"

definition revalue :: "market_db \<Rightarrow> string \<Rightarrow> uuid_text \<Rightarrow> uuid_text set \<Rightarrow> Transaction \<Rightarrow> Transaction" where
  "revalue mkt cur u D t =
     (if tx_UserID t = u \<and> \<not> tx_ManuallyEdited t \<and> tx_ID t \<in> D then renormalized no_errors mkt cur t else t)"

definition revalued :: "market_db \<Rightarrow> string \<Rightarrow> uuid_text \<Rightarrow> uuid_text set \<Rightarrow> Transaction list \<Rightarrow> Transaction list \<Rightarrow> bool" where
  "revalued mkt cur u D = list_all2 (\<lambda>t t'. stamped t' = stamped (revalue mkt cur u D t))"

lemma stamped_eqD:
  assumes "stamped t = stamped t'"
  shows "tx_ID t = tx_ID t'" "tx_UserID t = tx_UserID t'" "tx_Timestamp t = tx_Timestamp t'" "tx_ManuallyEdited t = tx_ManuallyEdited t'"
    "tx_Type t = tx_Type t'" "tx_Resolution t = tx_Resolution t'"
  using assms by (cases t; cases t'; simp add: stamped_def)+

lemma revalue_keeps [simp]:
  "tx_ID (revalue mkt cur u D t) = tx_ID t" "tx_UserID (revalue mkt cur u D t) = tx_UserID t"
  "tx_Timestamp (revalue mkt cur u D t) = tx_Timestamp t" "tx_ManuallyEdited (revalue mkt cur u D t) = tx_ManuallyEdited t"
  "tx_Type (revalue mkt cur u D t) = tx_Type t"
  by (simp_all add: revalue_def renormalized_def Let_def)

lemma revaluedD:
  assumes "revalued mkt cur u D rs rs'"
  shows "map tx_ID rs' = map tx_ID rs" "map tx_UserID rs' = map tx_UserID rs" "map tx_Timestamp rs' = map tx_Timestamp rs"
  using assms unfolding revalued_def
  by (induction rs rs' rule: list_all2_induct; force dest: stamped_eqD)+

lemma revalued_map: "revalued mkt cur u D rs rs' \<Longrightarrow> map stamped rs' = map (\<lambda>t. stamped (revalue mkt cur u D t)) rs"
  unfolding revalued_def by (induction rs rs' rule: list_all2_induct) simp_all

lemma resolve_method: "rs_Method (resolve_or db mkt a cur t) \<in> {''hourly'', ''daily'', ''unresolvable''}"
  by (auto simp: resolve_or_def Resolve_def Let_def unresolved_def split: sum.split list.split)

lemma renormalized_check: "tx_check t \<Longrightarrow> tx_check (tx_set (renormalized db mkt cur t') now t)"
  using resolve_method [of db mkt "tx_AssetSymbol t'" cur "tx_Timestamp t'"]
  by (auto simp: tx_check_def tx_set_def renormalized_def Let_def)

lemma tx_set_renormalized:
  assumes "stamped t = stamped t'"
  shows "stamped (tx_set (renormalized db mkt cur t) now t') = stamped (renormalized db mkt cur t')"
  using assms by (cases t; cases t') (simp add: stamped_def tx_set_def renormalized_def Let_def)

lemma stamped_renormalized: "stamped t = stamped t' \<Longrightarrow> stamped (renormalized db mkt cur t) = stamped (renormalized db mkt cur t')"
  by (cases t; cases t') (simp add: stamped_def renormalized_def Let_def)

lemma stamped_check: "stamped t = stamped t' \<Longrightarrow> tx_check t = tx_check t'"
  using stamped_eqD(5,6) [of t t'] by (simp add: tx_check_def)

lemma revalue_check: "tx_check t \<Longrightarrow> tx_check (revalue mkt cur u D t)"
  using resolve_method [of no_errors mkt "tx_AssetSymbol t" cur "tx_Timestamp t"]
  by (auto simp: tx_check_def revalue_def renormalized_def Let_def)

lemma revalued_rows:
  assumes "revalued mkt cur u D rs rs'"
  shows "r' \<in> set rs' \<Longrightarrow> \<exists>r\<in>set rs. stamped r' = stamped (revalue mkt cur u D r)"
    "r \<in> set rs \<Longrightarrow> \<exists>r'\<in>set rs'. stamped r' = stamped (revalue mkt cur u D r)"
  using assms unfolding revalued_def by (induction rs rs' rule: list_all2_induct) auto

text \<open>One transaction of a page.\<close>

lemma revalue_one:
  assumes rs: "revalued mkt cur u D rs rs'" "distinct (map tx_ID rs)" "list_all tx_check rs"
    and t: "t0 \<in> set rs" "stamped t = stamped t0" "tx_UserID t = u" "\<not> tx_ManuallyEdited t" "tx_ID t \<notin> D"
  shows "\<exists>rs''. tx_Update None now (renormalized no_errors mkt cur t) rs' = (Inr (), rs'') \<and> revalued mkt cur u (insert (tx_ID t) D) rs rs''"
proof -
  let ?t = "renormalized no_errors mkt cur t"
  let ?hit = "owned_tx (tx_ID t) u"
  note t0 = stamped_eqD [OF t(2)]
  have row: "stamped (if ?hit r' then tx_set ?t now r' else r') = stamped (revalue mkt cur u (insert (tx_ID t) D) r)"
    if "r \<in> set rs" "stamped r' = stamped (revalue mkt cur u D r)" for r r'
  proof (cases "tx_ID r = tx_ID t")
    case True
    then have r: "r = t0" using key_unique [OF rs(2) that(1) t(1)] t0 by simp
    then have "stamped r' = stamped t0" using that(2) t0 t(5) by (simp add: revalue_def)
    moreover from this have "?hit r'" using t0 t(3) stamped_eqD [of r' t0] by (simp add: owned_tx_def)
    ultimately show ?thesis
      using r t0 t(3,4) tx_set_renormalized [of t r' no_errors mkt cur now] t(2) stamped_renormalized [of r' t0 no_errors mkt cur]
      by (simp add: revalue_def)
  next
    case False
    moreover have "tx_ID r' = tx_ID r" using stamped_eqD(1) [OF that(2)] by simp
    ultimately show ?thesis using that(2) by (simp add: revalue_def owned_tx_def)
  qed
  have chk: "tx_check r'" if "r' \<in> set rs'" for r'
  proof -
    from revalued_rows(1) [OF rs(1) that] obtain r where r: "r \<in> set rs" "stamped r' = stamped (revalue mkt cur u D r)" by blast
    have "tx_check (revalue mkt cur u D r)" using rs(3) r(1) by (intro revalue_check) (simp add: list_all_iff)
    then show ?thesis using stamped_check [OF r(2)] by simp
  qed
  obtain r' where r': "r' \<in> set rs'" "stamped r' = stamped (revalue mkt cur u D t0)" using revalued_rows(2) [OF rs(1) t(1)] by blast
  then have "\<exists>r'\<in>set rs'. ?hit r'" using stamped_eqD [OF r'(2)] t0 t(3) by (auto simp: owned_tx_def)
  then have upd: "tx_Update None now ?t rs' = (Inr (), sql_update ?hit (tx_set ?t now) rs')"
    using chk renormalized_check rows_affected_pos [of ?hit rs'] t(3)
    by (auto simp: tx_Update_def exec_update_def renormalized_def Let_def list_ex_iff)
  have "revalued mkt cur u (insert (tx_ID t) D) rs (sql_update ?hit (tx_set ?t now) rs')"
    unfolding revalued_def sql_update_def list_all2_map2 by (rule list.rel_mono_strong [OF rs(1) [unfolded revalued_def]]) (rule row)
  with upd show ?thesis by blast
qed

text \<open>A page: its transactions are in the table, have not been revalued yet and are different from each other.\<close>

lemma revalue_batch:
  assumes "revalued mkt cur u D rs rs'" "distinct (map tx_ID rs)" "list_all tx_check rs"
    and "te_write env = (\<lambda>p. no_errors)" "te_candles env = (\<lambda>p i. no_errors)"
    and "distinct (map tx_ID ts)" "\<And>t. t \<in> set ts \<Longrightarrow> tx_UserID t = u \<and> tx_ID t \<notin> D \<and> (\<exists>t0\<in>set rs. stamped t = stamped t0)"
  shows "\<exists>rs''. renormalize_batch env p i mkt cur ts rs' = (Inr (), rs'') \<and> revalued mkt cur u (D \<union> tx_ID ` set ts) rs rs''"
  using assms(1,6,7)
proof (induction ts arbitrary: i rs' D)
  case (Cons t ts)
  from Cons.prems(3) [of t] obtain t0 where t: "tx_UserID t = u" "tx_ID t \<notin> D" "t0 \<in> set rs" "stamped t = stamped t0" by auto
  have next_ok: "tx_UserID x = u \<and> tx_ID x \<notin> insert (tx_ID t) D \<and> (\<exists>t0\<in>set rs. stamped x = stamped t0)" if "x \<in> set ts" for x
  proof -
    have "tx_ID x \<noteq> tx_ID t" using Cons.prems(2) imageI [OF that, of tx_ID] by (metis distinct.simps(2) list.simps(9) set_map)
    then show ?thesis using Cons.prems(3) [of x] that by simp
  qed
  show ?case
  proof (cases "tx_ManuallyEdited t")
    case True
    have "revalue mkt cur u (insert (tx_ID t) D) r = revalue mkt cur u D r" if "r \<in> set rs" for r
      using key_unique [OF assms(2) that t(3)] stamped_eqD [OF t(4)] True by (auto simp: revalue_def)
    with Cons.prems(1) have "revalued mkt cur u (insert (tx_ID t) D) rs rs'"
      unfolding revalued_def by (auto elim!: list.rel_mono_strong)
    from Cons.IH [OF this, of "Suc i"] next_ok Cons.prems(2) True show ?thesis by simp
  next
    case False
    from revalue_one [OF Cons.prems(1) assms(2,3) t(3,4,1) False t(2), of "te_now env p i"] obtain rs2 where
      "tx_Update None (te_now env p i) (renormalized no_errors mkt cur t) rs' = (Inr (), rs2)" "revalued mkt cur u (insert (tx_ID t) D) rs rs2"
      by blast
    with Cons.IH [OF this(2), of "Suc i"] next_ok Cons.prems(2) False show ?thesis by (simp add: assms(4,5) no_errors_def)
  qed
qed simp

text \<open>With different timestamps the order of the listing is the same whenever it is read.\<close>

lemma listing_order:
  assumes "sql_order srt" "sql_order srt'" "distinct (map tx_Timestamp xs)"
    and "map tx_ID ys = map tx_ID xs" "map tx_Timestamp ys = map tx_Timestamp xs"
  shows "map tx_ID (srt (\<lambda>t. (- tx_Timestamp t, 0, 0, 0)) ys) = map tx_ID (srt' (\<lambda>t. (- tx_Timestamp t, 0, 0, 0)) xs)"
proof -
  let ?k = "\<lambda>t. (- tx_Timestamp t, 0, 0, 0) :: order_key"
  let ?id = "\<lambda>t. the (map_of (zip (map tx_Timestamp xs) (map tx_ID xs)) t)"
  have id: "map tx_ID zs = map ?id (map tx_Timestamp zs)"
    if "set zs = set ws" "map tx_ID ws = map tx_ID xs" "map tx_Timestamp ws = map tx_Timestamp xs" for zs ws
  proof -
    have "?id (tx_Timestamp z) = tx_ID z" if "z \<in> set zs" for z
    proof -
      from that obtain i where i: "i < length ws" "ws ! i = z" using \<open>set zs = set ws\<close> by (metis in_set_conv_nth)
      have "length ws = length xs" using \<open>map tx_ID ws = map tx_ID xs\<close> by (metis length_map)
      then have "tx_Timestamp z = map tx_Timestamp xs ! i" "tx_ID z = map tx_ID xs ! i" "i < length xs"
        using i that \<open>map tx_ID ws = map tx_ID xs\<close> \<open>map tx_Timestamp ws = map tx_Timestamp xs\<close> by (metis nth_map)+
      then show ?thesis using map_of_zip_nth [of "map tx_Timestamp xs" "map tx_ID xs" i] assms(3) by simp
    qed
    then show ?thesis by simp
  qed
  have desc: "sorted (map (\<lambda>t. - tx_Timestamp t) (s ?k zs))" if "sql_order s" for s zs
    using sql_orderD(3) [OF that, of ?k zs] by (simp add: sorted_map sorted_wrt_iff_nth_less less_eq_prod_def) force
  have neg: "map (\<lambda>t. - tx_Timestamp t) zs = map uminus (map tx_Timestamp zs)" for zs :: "Transaction list" by simp
  have dist: "distinct (map (\<lambda>t. - tx_Timestamp t) (s ?k zs))" if "sql_order s" "map tx_Timestamp zs = map tx_Timestamp xs" for s zs
  proof -
    have "mset (map tx_Timestamp (s ?k zs)) = mset (map tx_Timestamp zs)" using sql_orderD(5) [OF that(1), of ?k zs] by simp
    then have "distinct (map tx_Timestamp (s ?k zs))" using assms(3) that(2) by (metis mset_eq_imp_distinct_iff)
    then show ?thesis by (simp add: distinct_map inj_on_def)
  qed
  have "set (map (\<lambda>t. - tx_Timestamp t) (srt ?k ys)) = set (map (\<lambda>t. - tx_Timestamp t) (srt' ?k xs))"
  proof -
    have "set (map tx_Timestamp (srt ?k ys)) = set (map tx_Timestamp (srt' ?k xs))"
      using arg_cong [OF assms(5), of set] by (simp add: sql_orderD(1) [OF assms(1)] sql_orderD(1) [OF assms(2)])
    from arg_cong [OF this, of "image uminus"] show ?thesis by (simp add: image_image)
  qed
  then have "map (\<lambda>t. - tx_Timestamp t) (srt ?k ys) = map (\<lambda>t. - tx_Timestamp t) (srt' ?k xs)"
    using sorted_distinct_set_unique desc [OF assms(1)] desc [OF assms(2)] dist [OF assms(1,5)] dist [OF assms(2) refl] by metis
  then have "map uminus (map tx_Timestamp (srt ?k ys)) = map uminus (map tx_Timestamp (srt' ?k xs))" by (simp add: comp_def)
  then have "map tx_Timestamp (srt ?k ys) = map tx_Timestamp (srt' ?k xs)" by (simp only: inj_map_eq_map [OF inj_on_subset [OF inj_uminus subset_UNIV]])
  then show ?thesis
    using id [OF sql_orderD(1) [OF assms(1)] assms(4,5)] id [OF sql_orderD(1) [OF assms(2)] refl refl] by metis
qed

lemma page_items:
  assumes "1 \<le> p"
  shows "tx_ListByUser srt None u (page_opts (int p)) rs =
    (let hits = filter (\<lambda>t. tx_UserID t = u) rs; items = take 500 (drop (500 * (p - 1)) (srt (\<lambda>t. (- tx_Timestamp t, 0, 0, 0)) hits))
     in Inr (items, if items = [] then 0 else int (length hits)))"
proof -
  have "nat ((int p - 1) * 500) = 500 * (p - 1)" using assms by simp
  then show ?thesis
    using assms by (simp add: tx_ListByUser_def page_opts_def batchSize_def sql_page_def tx_matches_def [abs_def] Let_def)
qed

lemma map_filter_same:
  assumes "map f xs = map f ys" "map g xs = map g ys"
  shows "map f (filter (\<lambda>x. g x = u) xs) = map f (filter (\<lambda>x. g x = u) ys)"
  using map_eq_imp_length_eq [OF assms(1)] assms by (induction xs ys rule: list_induct2) auto

text \<open>From page \<open>p\<close> on, with the pages before it done.\<close>

lemma revalue_pages:
  assumes rs: "distinct (map tx_ID rs)" "list_all tx_check rs" "distinct (map tx_Timestamp (filter (\<lambda>t. tx_UserID t = u) rs))"
    and env: "te_list env = no_errors" "te_write env = (\<lambda>p. no_errors)" "te_candles env = (\<lambda>p i. no_errors)" "\<And>p. sql_order (te_srt env p)"
    and ids: "ids = map tx_ID (te_srt env 1 (\<lambda>t. (- tx_Timestamp t, 0, 0, 0)) (filter (\<lambda>t. tx_UserID t = u) rs))"
    and "1 \<le> p" "revalued mkt cur u (set (take (500 * (p - 1)) ids)) rs rs'"
  shows "\<exists>rs''. renormalize_pages env mkt u cur p rs' = Some (Inr (), rs'') \<and> revalued mkt cur u (set ids) rs rs''"
  using assms(9,10)
proof (induction "length ids - 500 * (p - 1)" arbitrary: p rs' rule: less_induct)
  case less
  let ?D = "set (take (500 * (p - 1)) ids)"
  let ?mine = "filter (\<lambda>t. tx_UserID t = u)"
  define all where "all = te_srt env p (\<lambda>t. (- tx_Timestamp t, 0, 0, 0)) (?mine rs')"
  define batch where "batch = take 500 (drop (500 * (p - 1)) all)"
  note keep = revaluedD [OF less.prems(2)]
  note mine_map = map_filter_same [OF _ keep(2), of _ u]
  have all_ids: "map tx_ID all = ids"
    unfolding all_def ids by (rule listing_order) (use env(4) rs(3) mine_map keep in auto)
  have "mset (map tx_ID all) = mset (map tx_ID (?mine rs'))"
    unfolding all_def mset_map sql_orderD(5) [OF env(4)] ..
  then have dist: "distinct ids"
    unfolding all_ids mine_map [OF keep(1)] using distinct_map_filter [OF rs(1)] mset_eq_imp_distinct_iff by blast
  have len: "length all = length (?mine rs')" unfolding all_def using sql_orderD(2) [OF env(4)] by simp
  have list: "tx_ListByUser (te_srt env p) (te_list env p) u (page_opts (int p)) rs' = Inr (batch, if batch = [] then 0 else int (length ids))"
    using page_items [OF less.prems(1), of "te_srt env p" u rs'] len all_ids
    by (simp add: env(1) no_errors_def batch_def all_def Let_def flip: all_ids)
  have ids_batch: "map tx_ID batch = take 500 (drop (500 * (p - 1)) ids)"
    unfolding batch_def all_ids [symmetric] by (simp add: take_map drop_map)
  have "500 * p = 500 * (p - 1) + 500" using less.prems(1) by (cases p) simp_all
  then have step: "?D \<union> tx_ID ` set batch = set (take (500 * p) ids)"
    using arg_cong [OF ids_batch, of set] by (simp only: take_add set_append set_map)
  have apart: "set (take (500 * (p - 1)) ids) \<inter> set (take 500 (drop (500 * (p - 1)) ids)) = {}"
    using set_take_disj_set_drop_if_distinct [OF dist order_refl] set_take_subset by fastforce
  have in_batch: "tx_UserID t = u \<and> tx_ID t \<notin> ?D \<and> (\<exists>t0\<in>set rs. stamped t = stamped t0)" if "t \<in> set batch" for t
  proof -
    have "t \<in> set (?mine rs')"
      using that in_set_takeD in_set_dropD sql_orderD(1) [OF env(4)] unfolding batch_def all_def by metis
    then have t: "t \<in> set rs'" "tx_UserID t = u" by simp_all
    have new: "tx_ID t \<notin> ?D" using apart ids_batch imageI [OF that, of tx_ID] by (metis disjoint_iff set_map)
    from revalued_rows(1) [OF less.prems(2) t(1)] obtain t0 where t0: "t0 \<in> set rs" "stamped t = stamped (revalue mkt cur u ?D t0)" by blast
    have "tx_ID t = tx_ID t0" using stamped_eqD(1) [OF t0(2)] by simp
    then have "revalue mkt cur u ?D t0 = t0" using new by (simp add: revalue_def)
    with t0 t(2) new show ?thesis by auto
  qed
  have "distinct (map tx_ID batch)" unfolding ids_batch using dist by simp
  from revalue_batch [OF less.prems(2) rs(1,2) env(2,3) this in_batch, of p 0] obtain rs2 where
    b: "renormalize_batch env p 0 mkt cur batch rs' = (Inr (), rs2)" "revalued mkt cur u (set (take (500 * p) ids)) rs rs2"
    unfolding step by blast
  show ?case
  proof (cases "int (length ids) \<le> int p * 500 \<or> batch = []")
    case True
    then have "length ids \<le> 500 * p"
    proof
      assume "batch = []"
      then have "drop (500 * (p - 1)) ids = []" using ids_batch by simp
      then show ?thesis by simp
    qed linarith
    then have "set (take (500 * p) ids) = set ids" by simp
    with b True show ?thesis by (subst renormalize_pages.simps) (auto simp: list batchSize_def)
  next
    case False
    then have "length ids - 500 * (Suc p - 1) < length ids - 500 * (p - 1)" using less.prems(1) by (cases p) auto
    from less.hyps [OF this, of rs2] b False show ?thesis by (subst renormalize_pages.simps) (simp add: list batchSize_def)
  qed
qed


text \<open>A market with one daily candle, and two transactions of one user, one of them edited by hand.\<close>

definition demo_market :: market_db where
  "demo_market = \<lparr>candles_1h = [], candles_1d = [\<lparr>k_Pair = ''BTCEUR'', k_Interval = ''1d'', k_Timestamp = 2 * 86400 - unix_offset, k_Open = Fin 1,
     k_High = Fin 9, k_Low = Fin 1, k_Close = Fin 7, k_Volume = Fin 1, k_Volume24H = f0, k_Source = ''x'', k_Finalized = True\<rparr>], raw_candles = []\<rparr>"

definition demo_tx :: "string \<Rightarrow> gotime \<Rightarrow> bool \<Rightarrow> Transaction" where
  "demo_tx i t edited = \<lparr>tx_ID = i, tx_UserID = ''ann'', tx_AssetSymbol = ''BTC'', tx_Quantity = Fin 2, tx_Type = ''buy'', tx_Timestamp = t,
     tx_Source = ''kraken'', tx_SourceRef = ''c'', tx_ReferenceValue = Some (Fin 5), tx_ReferenceCurrency = ''USD'', tx_Resolution = ''hourly'',
     tx_Fee = None, tx_FeeCurrency = [], tx_ManuallyEdited = edited, tx_Notes = [], tx_CreatedAt = 0, tx_UpdatedAt = 0\<rparr>"

definition demo_txs :: "Transaction list" where
  "demo_txs = [demo_tx ''a'' (Day + 5) False, demo_tx ''b'' (Day + 6) True]"

definition demo_txenv :: tx_env where
  "demo_txenv = \<lparr>te_srt = (\<lambda>p key. sort_key key), te_list = no_errors, te_candles = (\<lambda>p i. no_errors), te_write = (\<lambda>p. no_errors),
     te_now = (\<lambda>p i. 9), te_new = (\<lambda>i. ''n'')\<rparr>"

lemmas demo_tx_defs = demo_market_def demo_tx_def demo_txs_def demo_txenv_def


section \<open>Edits by hand\<close>

text \<open>
  What happens to the transactions over time: synchronisations, edits, and the two kinds of tasks. \<open>tx_step u i\<close> is a step that is not an
  edit of transaction \<open>i\<close> by user \<open>u\<close>.
\<close>

inductive tx_step :: "uuid_text \<Rightarrow> uuid_text \<Rightarrow> tx_world \<Rightarrow> tx_world \<Rightarrow> bool" for u i where
  sync: "tx_step u i w (w\<lparr>txs := snd (NormalizeForSource env 0 mkt user source sourceRef cur es (txs w))\<rparr>)"
| edit: "(user, txID) \<noteq> (u, i) \<Longrightarrow> tx_step u i w (w\<lparr>txs := snd (UpdateTransaction db now user txID val notes (txs w))\<rparr>)"
| recompute: "recompute_Execute env item w = Some (r, w') \<Longrightarrow> (\<And>k p. sql_order (te_srt (ce_tx env k) p)) \<Longrightarrow> tx_step u i w w'"
| refresh: "refresh_Execute env item w = Some (r, w') \<Longrightarrow> tx_step u i w w'"

definition has_edited :: "Transaction \<Rightarrow> Transaction list \<Rightarrow> bool" where
  "has_edited r rs \<longleftrightarrow> tx_ManuallyEdited r \<and> r \<in> set rs \<and> distinct (map tx_ID rs)"

lemma has_edited_update: "has_edited r rs \<Longrightarrow> \<not> P r \<Longrightarrow> (\<And>x. tx_ID (f x) = tx_ID x) \<Longrightarrow> has_edited r (sql_update P f rs)"
  using map_sql_update [of P tx_ID f rs] by (force simp: has_edited_def set_sql_update)

lemma has_edited_Upsert: "has_edited r rs \<Longrightarrow> has_edited r (snd (tx_Upsert err now t rs))"
proof (cases "tx_Upsert err now t rs = (Inr (), rs @ [t\<lparr>tx_CreatedAt := now, tx_UpdatedAt := now\<rparr>]) \<and> \<not> list_ex (\<lambda>r. tx_ID r = tx_ID t) rs")
  case True
  assume "has_edited r rs"
  with True show ?thesis by (auto simp: has_edited_def list_ex_iff)
next
  case False
  assume "has_edited r rs"
  with False show ?thesis
    by (auto simp: tx_Upsert_def has_edited_def [of r rs] intro!: has_edited_update simp: tx_overwrite_def split: option.splits if_splits)
qed

lemma has_edited_Update:
  "has_edited r rs \<Longrightarrow> \<not> owned_tx (tx_ID t) (tx_UserID t) r \<Longrightarrow> has_edited r (snd (tx_Update err now t rs))"
  by (auto simp: tx_Update_def exec_update_def tx_set_def intro!: has_edited_update split: option.split)

lemma has_edited_Normalize: "has_edited r rs \<Longrightarrow> has_edited r (snd (NormalizeForSource env i mkt u source ref cur es rs))"
proof (induction es arbitrary: i rs)
  case (Cons e es)
  let ?t = "entry_tx (te_new env i) u source ref cur e (resolve_or (te_candles env 0 i) mkt (le_Asset e) cur (le_Timestamp e))"
  let ?up = "tx_Upsert (te_write env 0 i) (te_now env 0 i) ?t rs"
  have "has_edited r (snd ?up)" by (rule has_edited_Upsert [OF Cons.prems])
  with Cons.IH show ?case by (auto simp: Let_def prod.case_eq_if split: sum.split port_error.split)
qed simp

lemma has_edited_batch:
  assumes "has_edited r rs" "\<And>t. t \<in> set ts \<Longrightarrow> \<not> tx_ManuallyEdited t \<Longrightarrow> tx_ID t \<noteq> tx_ID r"
  shows "has_edited r (snd (renormalize_batch env p i mkt cur ts rs))"
  using assms
proof (induction ts arbitrary: i rs)
  case (Cons t ts)
  show ?case
  proof (cases "tx_ManuallyEdited t")
    case True
    with Cons show ?thesis by simp
  next
    case False
    let ?up = "tx_Update (te_write env p i) (te_now env p i) (renormalized (te_candles env p i) mkt cur t) rs"
    have "has_edited r (snd ?up)"
      using Cons.prems(2) [of t] False by (intro has_edited_Update [OF Cons.prems(1)]) (simp add: owned_tx_def renormalized_def Let_def)
    with Cons False show ?thesis by (simp add: prod.case_eq_if split: sum.split)
  qed
qed simp

lemma tx_ListByUser_rows:
  assumes "sql_order srt" "tx_ListByUser srt err u opts rs = Inr (items, tot)" "t \<in> set items"
  shows "t \<in> set rs"
  using assms sql_orderD(1) [OF assms(1)]
  by (auto simp: tx_ListByUser_def Let_def sql_page_def split: option.splits dest!: in_set_takeD in_set_dropD)

lemma has_edited_pages:
  assumes "\<And>p. sql_order (te_srt env p)" "renormalize_pages env mkt u cur p rs = Some res" "has_edited r rs"
  shows "has_edited r (snd res)"
proof -
  have "(\<forall>p. sql_order (te_srt env p)) \<longrightarrow> has_edited r rs \<longrightarrow> has_edited r (snd res)"
  proof (rule renormalize_pages.raw_induct [where P = "\<lambda>env mkt u cur p rs res. (\<forall>p. sql_order (te_srt env p)) \<longrightarrow> has_edited r rs \<longrightarrow> has_edited r (snd res)", OF _ assms(2)])
    fix pages :: "tx_env \<Rightarrow> market_db \<Rightarrow> uuid_text \<Rightarrow> string \<Rightarrow> nat \<Rightarrow> Transaction list \<Rightarrow> (unit port_result \<times> Transaction list) option"
      and env mkt u cur p rs res
    assume rec: "\<And>env mkt u cur p rs res. pages env mkt u cur p rs = Some res \<Longrightarrow>
        (\<forall>p. sql_order (te_srt env p)) \<longrightarrow> has_edited r rs \<longrightarrow> has_edited r (snd res)"
      and step: "(case tx_ListByUser (te_srt env p) (te_list env p) u (page_opts (int p)) rs of
        Inl e \<Rightarrow> Some (Inl (Wrap (''listing transactions page '' @ show_nat p) e), rs)
      | Inr (batch, tot) \<Rightarrow>
          (case renormalize_batch env p 0 mkt cur batch rs of
             (Inl e, rs') \<Rightarrow> Some (Inl e, rs')
           | (Inr _, rs') \<Rightarrow> if int p * batchSize \<ge> tot \<or> batch = [] then Some (Inr (), rs') else pages env mkt u cur (Suc p) rs')) = Some res"
    have items: "has_edited r (snd (renormalize_batch env p 0 mkt cur batch rs))"
      if "tx_ListByUser (te_srt env p) (te_list env p) u (page_opts (int p)) rs = Inr (batch, tot)" "\<forall>p. sql_order (te_srt env p)" "has_edited r rs"
      for batch tot
    proof (rule has_edited_batch [OF that(3)])
      fix t assume "t \<in> set batch" "\<not> tx_ManuallyEdited t"
      then show "tx_ID t \<noteq> tx_ID r"
        using tx_ListByUser_rows [OF that(2) [rule_format] that(1)] that(3) key_unique [of tx_ID rs t r] by (auto simp: has_edited_def)
    qed
    show "(\<forall>p. sql_order (te_srt env p)) \<longrightarrow> has_edited r rs \<longrightarrow> has_edited r (snd res)"
    proof (intro impI)
      assume ok: "\<forall>p. sql_order (te_srt env p)" "has_edited r rs"
      show "has_edited r (snd res)"
      proof (cases "tx_ListByUser (te_srt env p) (te_list env p) u (page_opts (int p)) rs")
        case (Inl e)
        with step ok(2) show ?thesis by auto
      next
        case (Inr bt)
        obtain batch tot where bt: "bt = (batch, tot)" by (cases bt)
        obtain rr rs' where b: "renormalize_batch env p 0 mkt cur batch rs = (rr, rs')" by (cases "renormalize_batch env p 0 mkt cur batch rs")
        have "has_edited r rs'" using items [OF Inr [unfolded bt] ok] b by simp
        then show ?thesis
          using step [unfolded Inr bt b sum.case prod.case] ok(1) rec [of env mkt u cur "Suc p" rs' res] by (cases rr) (auto split: if_splits)
      qed
    qed
  qed
  with assms(1,3) show ?thesis by blast
qed

lemma has_edited_recompute:
  assumes "recompute_loop env k u curs w = Some (res, w')" "\<And>k p. sql_order (te_srt (ce_tx env k) p)" "has_edited r (txs w)"
  shows "has_edited r (txs w')"
  using assms(1,3)
proof (induction curs arbitrary: k w)
  case (Cons cur curs)
  from Cons.prems(1) obtain r1 ts where re: "ReNormalizeAll (ce_tx env k) (ce_market env k) u cur (txs w) = Some (r1, ts)"
    by (auto split: option.splits)
  have "has_edited r ts"
    using has_edited_pages [OF assms(2) re [unfolded ReNormalizeAll_def] Cons.prems(2)] by simp
  then show ?case
    using Cons re by (cases r1) (auto split: option.splits sum.splits)
qed simp

lemma refresh_keeps_txs: "refresh_loop env k u curs w = Some (res, w') \<Longrightarrow> txs w' = txs w"
  by (induction curs arbitrary: k w) (auto split: option.splits sum.splits)

lemma notify_user_txs: "txs (snd (notify_user u r)) = txs (snd r)"
  by (cases r) (simp add: notify_user_def split: sum.split)

text \<open>
  Edits by hand survive. A transaction that a user has edited stays exactly as it is, value, currency and notes included, through any sequence of
  synchronisations, recomputes, refreshes and edits of other transactions, whatever fails on the way, until that user edits it again.
\<close>

lemma manual_edits_survive:
  assumes "(tx_step (tx_UserID r) (tx_ID r))\<^sup>*\<^sup>* w w'" "tx_ManuallyEdited r" "r \<in> set (txs w)" "distinct (map tx_ID (txs w))"
  shows "r \<in> set (txs w')"
proof -
  have step: "has_edited r (txs w2)" if "tx_step (tx_UserID r) (tx_ID r) w1 w2" "has_edited r (txs w1)" for w1 w2
    using that
  proof cases
    case (sync env mkt user source sourceRef cur es)
    with that(2) show ?thesis by (simp add: has_edited_Normalize)
  next
    case (edit user txID db now val nt)
    have "\<not> owned_tx txID user r" using edit(2) by (auto simp: owned_tx_def)
    moreover have "tx_ID t = txID \<and> tx_UserID t = user" if "tx_FindByID (db 0) user txID (txs w1) = Inr (Some t)" for t
      using that by (auto simp: tx_FindByID_def query_row_def owned_tx_def find_Some_iff split: option.splits)
    ultimately show ?thesis
      using that(2) unfolding edit(1) by (auto simp: UpdateTransaction_def Let_def prod.case_eq_if intro!: has_edited_Update split: sum.split option.split)
  next
    case (recompute env item res)
    then show ?thesis
      using that(2) notify_user_txs by (auto simp: recompute_Execute_def split: if_splits sum.splits dest: has_edited_recompute)
        (metis has_edited_recompute prod.collapse snd_conv)
  next
    case (refresh env item res)
    then show ?thesis
      using that(2) notify_user_txs by (auto simp: refresh_Execute_def Let_def split: if_splits sum.splits)
        (metis refresh_keeps_txs prod.collapse snd_conv)+
  qed
  have "has_edited r (txs w')"
    using assms(1) by (induction rule: rtranclp_induct) (use assms(2-4) step in \<open>auto simp: has_edited_def\<close>)
  then show ?thesis by (simp add: has_edited_def)
qed

definition demo_entry :: LedgerEntry where
  "demo_entry = \<lparr>le_Asset = ''BTC'', le_Quantity = Fin 3, le_Type = ''sell'', le_Timestamp = Day + 6, le_SourceID = ''x'', le_Fee = None, le_FeeCurrency = []\<rparr>"

definition demo_tx_world :: tx_world where
  "demo_tx_world = \<lparr>txs = demo_txs, snapshots = [], updates = []\<rparr>"

end
