(* ===== verification/Recompute_Props.thy ===== *)
theory Recompute_Props
  imports Transaction_Props
begin

text \<open>
  Requests for a recompute of a portfolio, from \<^verbatim>\<open>QueueRecompute\<close> through the broker to the worker, and what the periodic
  refresh stores.
\<close>

section \<open>Requests for a recompute\<close>

text \<open>A sequence of requests, each with its time and the outcome of publishing; the result are the times and users of the published tasks.\<close>

fun queue_run :: "(string option \<times> gotime \<times> uuid_text \<times> string) list \<Rightarrow> debouncer \<Rightarrow> (gotime \<times> uuid_text) list" where
  "queue_run [] s = []"
| "queue_run ((pub, now, u, cur) # calls) s =
     (case QueueRecomputeWithCurrency pub now u cur s of (_, s', ts) \<Rightarrow> map (\<lambda>_. (now, u)) ts @ queue_run calls s')"

lemma queue_run_after:
  assumes "0 < debounceWindow s" "(t, u) \<in> set (queue_run calls s)" "debounceTracker s u = Some t0"
  shows "debounceWindow s \<le> t - t0"
  using assms
proof (induction calls arbitrary: s t0)
  case (Cons call calls)
  obtain pub now u' cur where call: "call = (pub, now, u', cur)" by (cases call)
  show ?case
  proof (cases "snd (snd (QueueRecomputeWithCurrency pub now u' cur s)) = []")
    case True
    then have "snd (QueueRecomputeWithCurrency pub now u' cur s) = (s, [])"
      by (auto simp: QueueRecomputeWithCurrency_def split: if_splits option.splits)
    with Cons call show ?thesis by (auto simp: prod.case_eq_if)
  next
    case False
    let ?s' = "s\<lparr>debounceTracker := (debounceTracker s)(u' \<mapsto> now)\<rparr>"
    from False have q: "snd (QueueRecomputeWithCurrency pub now u' cur s) = (?s', [recompute_task u' cur])"
      and late: "\<And>prev. debounceTracker s u' = Some prev \<Longrightarrow> 0 < debounceWindow s \<Longrightarrow> debounceWindow s \<le> now - prev"
      by (auto simp: QueueRecomputeWithCurrency_def split: if_splits option.splits)
    from Cons.prems(2) q call have "(t, u) = (now, u') \<or> (t, u) \<in> set (queue_run calls ?s')" by (simp add: prod.case_eq_if)
    then show ?thesis
      using Cons.IH [of ?s' now] Cons.IH [of ?s' t0] Cons.prems late [of t0] by (cases "u = u'") auto
  qed
qed simp

text \<open>
  Requests for a recompute are debounced: whatever the sequence of requests and however the clock runs, two tasks published for the same user are at
  least the window apart.
\<close>

lemma recompute_debounced:
  assumes "0 < debounceWindow s"
  shows "sorted_wrt (\<lambda>(t, u) (t', u'). u = u' \<longrightarrow> debounceWindow s \<le> t' - t) (queue_run calls s)"
  using assms
proof (induction calls arbitrary: s)
  case (Cons call calls)
  obtain pub now u cur where call: "call = (pub, now, u, cur)" by (cases call)
  show ?case
  proof (cases "snd (snd (QueueRecomputeWithCurrency pub now u cur s)) = []")
    case True
    then have "snd (QueueRecomputeWithCurrency pub now u cur s) = (s, [])"
      by (auto simp: QueueRecomputeWithCurrency_def split: if_splits option.splits)
    with Cons call show ?thesis by (auto simp: prod.case_eq_if)
  next
    case False
    let ?s' = "s\<lparr>debounceTracker := (debounceTracker s)(u \<mapsto> now)\<rparr>"
    from False have q: "snd (QueueRecomputeWithCurrency pub now u cur s) = (?s', [recompute_task u cur])"
      by (auto simp: QueueRecomputeWithCurrency_def split: if_splits option.splits)
    have "debounceWindow s \<le> t - now" if "(t, u) \<in> set (queue_run calls ?s')" for t
      using queue_run_after [OF _ that, of now] Cons.prems by simp
    with Cons.IH [of ?s'] Cons.prems q call show ?thesis by (auto simp: prod.case_eq_if)
  qed
qed simp

text \<open>
  The task table of the application: filled by ticks of planners, changed by the claims, outcomes and the cleanup of workers.
\<close>

fun enqueues :: "task_op \<Rightarrow> bool" where
  "enqueues (OpEnqueue r db now items) = True"
| "enqueues _ = False"

inductive app_tasks :: "task_row sorting \<Rightarrow> task_store \<Rightarrow> bool" for srt where
  start: "rows st = [] \<Longrightarrow> app_tasks srt st"
| tick: "app_tasks srt (w_tasks w) \<Longrightarrow> runTick r env w = Some (res, r', w') \<Longrightarrow> app_tasks srt (w_tasks w')"
| worker: "app_tasks srt st \<Longrightarrow> \<not> enqueues opn \<Longrightarrow> app_tasks srt (exec_op srt opn st)"

definition no_recompute :: "string \<Rightarrow> bool" where
  "no_recompute i \<longleftrightarrow> \<not> prefix ''po'' i"

lemma no_recompute_types [simp]:
  "no_recompute (TypeBackfill @ x)" "no_recompute (TypeConsolidate @ x)" "no_recompute (TypeRealtime @ x)" "no_recompute (TypeDataSanity @ x)"
  "no_recompute (TypeCleanup @ x)" "no_recompute (TypeNewsFetch @ x)" "no_recompute (TypeGapValidation @ x)" "no_recompute (TypePnLRefresh @ x)"
  by (simp_all add: no_recompute_def TypeBackfill_def TypeConsolidate_def TypeRealtime_def TypeDataSanity_def TypeCleanup_def TypeNewsFetch_def
      TypeGapValidation_def TypePnLRefresh_def)

abbreviation planned :: "Task list \<Rightarrow> bool" where
  "planned ts \<equiv> list_all (\<lambda>t. no_recompute (t_ID t)) ts"

lemma emit_loop_id: "emit_loop c = Some (c', Some t) \<Longrightarrow> no_recompute (t_ID t)"
proof -
  assume eq: "emit_loop c = Some (c', Some t)"
  have "snd (c', Some t) = Some t \<longrightarrow> no_recompute (t_ID t)"
  proof (rule emit_loop.raw_induct [where P = "\<lambda>c res. snd res = Some t \<longrightarrow> no_recompute (t_ID t)", OF _ eq])
    fix f c res
    assume "\<And>c res. f c = Some res \<Longrightarrow> snd res = Some t \<longrightarrow> no_recompute (t_ID t)"
      and "(let windowStart = bc_cursor c + - bc_window c
        in if \<not> bc_cursor c > windowStart then Some (c\<lparr>bc_done := True\<rparr>, None)
           else if fmt_day windowStart \<in> set (bc_coverage c) then f (c\<lparr>bc_cursor := windowStart\<rparr>)
           else Some (c\<lparr>bc_cursor := windowStart\<rparr>, Some (backfill_task c windowStart (bc_cursor c)))) = Some res"
    then show "snd res = Some t \<longrightarrow> no_recompute (t_ID t)"
      by (auto simp: Let_def backfill_task_def taskID_def split: if_splits)
  qed
  then show ?thesis by simp
qed

definition planned_round :: "Task list + backfillCursor list \<times> Task list \<Rightarrow> bool" where
  "planned_round r = (case r of Inl ts \<Rightarrow> planned ts | Inr (cs', ts) \<Rightarrow> planned ts)"

lemma planned_round_map: "planned_round (map_sum id (\<lambda>(cs', ts). (c # cs', ts)) r) = planned_round r"
  by (cases r) (auto simp: planned_round_def)

lemma backfill_round_planned: "backfill_round limit cs tasks = Some r \<Longrightarrow> planned tasks \<Longrightarrow> planned_round r"
proof (induction cs arbitrary: tasks r)
  case Nil
  then show ?case by (auto simp: planned_round_def)
next
  case (Cons c cs)
  have rest: "planned_round (map_sum id (\<lambda>(cs', ts). (c' # cs', ts)) r0)" if "backfill_round limit cs ts = Some r0" "planned ts" for c' r0 ts
    using Cons.IH [OF that] by (simp add: planned_round_map)
  show ?case
  proof (cases "bc_done c")
    case True
    with Cons.prems rest show ?thesis by auto
  next
    case False
    with Cons.prems(1) obtain c' ot where e: "emit_loop c = Some (c', ot)" by (auto split: option.splits)
    show ?thesis
    proof (cases ot)
      case None
      with Cons.prems e False rest show ?thesis by auto
    next
      case (Some t)
      then have p: "planned (tasks @ [t])" using emit_loop_id [of c c' t] e Cons.prems(2) by simp
      then have "planned_round (Inl (tasks @ [t]))" by (simp add: planned_round_def)
      with Cons.prems(1) e Some False rest [OF _ p] show ?thesis by (auto split: if_splits)
    qed
  qed
qed

lemma backfill_planned:
  assumes "BuildInitialBackfillTasksLimited s pairs state cov active now limit = Some ts"
  shows "planned ts"
proof -
  have "planned [] \<longrightarrow> planned ts"
  proof (rule backfill_rounds.raw_induct [where P = "\<lambda>limit cs tasks ts. planned tasks \<longrightarrow> planned ts",
        OF _ assms [unfolded BuildInitialBackfillTasksLimited_def]])
    fix f limit cs tasks ts
    assume IH: "\<And>limit cs tasks ts. f limit cs tasks = Some ts \<Longrightarrow> planned tasks \<longrightarrow> planned ts"
      and eq: "(if active_count cs > 0 then case backfill_round limit cs tasks of None \<Rightarrow> None
          | Some (Inl ts) \<Rightarrow> Some ts | Some (Inr (cs', ts)) \<Rightarrow> f limit cs' ts else Some tasks) = Some ts"
    show "planned tasks \<longrightarrow> planned ts"
      using eq IH backfill_round_planned [of limit cs tasks]
      by (auto simp: planned_round_def split: if_splits option.splits sum.splits)
  qed
  then show ?thesis by simp
qed

lemma planned_filter: "(\<And>x y. f x = Some y \<Longrightarrow> no_recompute (t_ID y)) \<Longrightarrow> planned (List.map_filter f xs)"
  by (auto simp: list_all_iff List.map_filter_def)

lemma planned_builders:
  "planned (BuildRealtimeTasks pairs state now)" "planned (BuildBackfillProbeTasks s pairs state now)"
  "planned (BuildGapValidationTasks s pairs state cov now)" "planned (BuildIntegrityCheckTasks s pairs state cov now)"
  "planned (BuildConsolidationTasks pairs state now)" "no_recompute (t_ID (BuildCleanupTask now))" "planned (BuildNewsFetchTasks s now)"
  "planned (pnl_tasks r env)"
  unfolding BuildRealtimeTasks_def BuildBackfillProbeTasks_def BuildGapValidationTasks_def BuildIntegrityCheckTasks_def BuildConsolidationTasks_def
    Let_def
  by (rule planned_filter, auto simp: sweep_task_def taskID_def split: option.splits if_splits)+
    (simp_all add: BuildCleanupTask_def BuildNewsFetchTasks_def pnl_tasks_def BuildPnLRefreshTasks_def Let_def list_all_iff split: option.split sum.split, auto)

abbreviation clean_table :: "task_store \<Rightarrow> bool" where
  "clean_table st \<equiv> list_all (\<lambda>x. no_recompute (r_id x)) (rows st)"

lemma clean_enqueue: "clean_table st \<Longrightarrow> planned ts \<Longrightarrow> clean_table (snd (Enqueue r db now ts st))"
proof -
  have "list_all (\<lambda>x. no_recompute (r_id x)) rs'"
    if "enqueue_loop db k now ts rs acc = Inr (rs', acc')" "list_all (\<lambda>x. no_recompute (r_id x)) rs" "planned ts" for k rs acc rs' acc'
    using that
  proof (induction ts arbitrary: k rs acc)
    case (Cons t ts)
    have "r_id ` set (fst (upsert_task now t rs)) = insert (t_ID t) (r_id ` set rs)" by (rule upsert_ids)
    moreover have "\<forall>i\<in>insert (t_ID t) (r_id ` set rs). no_recompute i" using Cons.prems(2,3) by (simp add: list_all_iff)
    ultimately have "list_all (\<lambda>x. no_recompute (r_id x)) (fst (upsert_task now t rs))" unfolding list_all_iff by (metis imageI)
    with Cons show ?case by (auto split: option.splits simp: prod.case_eq_if)
  qed simp
  then show "clean_table st \<Longrightarrow> planned ts \<Longrightarrow> clean_table (snd (Enqueue r db now ts st))"
    by (cases rule: Enqueue_cases [of r db now ts st]) auto
qed

lemma clean_enqueueBatch: "clean_table (w_tasks w) \<Longrightarrow> planned ts \<Longrightarrow> clean_table (w_tasks (snd (enqueueBatch r env db ts w)))"
  using clean_enqueue [of "w_tasks w" ts "taskRepo r" db "e_dbnow env"]
  by (simp add: enqueueBatch_def prod.case_eq_if split: sum.split)

lemma clean_plan_tick:
  assumes "plan_tick r env w pairs adapted cov icov active = Some (res, w2)" "clean_table (w_tasks w)"
  shows "clean_table (w_tasks w2)"
proof -
  obtain r1 w1 where e: "enqueueBatch r env (e_enqueue_realtime env) (BuildRealtimeTasks pairs adapted (e_clock env)) w = (r1, w1)"
    by (cases "enqueueBatch r env (e_enqueue_realtime env) (BuildRealtimeTasks pairs adapted (e_clock env)) w")
  have w1: "clean_table (w_tasks w1)" using clean_enqueueBatch [OF assms(2) planned_builders(1)] e by (metis snd_conv)
  show ?thesis
  proof (cases r1)
    case (Inl err)
    with assms(1) e w1 show ?thesis by (simp add: plan_tick_def)
  next
    case (Inr un)
    with assms(1) e obtain bts where
      b: "BuildInitialBackfillTasksLimited (scheduler r) pairs adapted cov (\<lambda>p. p \<in> set active) (e_clock env) (maxBackfillTasksPerTick r) = Some bts"
      by (auto simp: plan_tick_def Let_def split: option.splits)
    let ?ts = "bts @ BuildBackfillProbeTasks (scheduler r) pairs adapted (e_clock env) @
      BuildGapValidationTasks (scheduler r) pairs adapted cov (e_clock env) @
      BuildIntegrityCheckTasks (scheduler r) pairs adapted icov (e_clock env) @
      BuildConsolidationTasks pairs adapted (e_clock env) @ [BuildCleanupTask (e_clock env)] @
      BuildNewsFetchTasks (scheduler r) (e_clock env) @ pnl_tasks r env"
    have "planned ?ts" using backfill_planned [OF b] by (simp add: planned_builders)
    from clean_enqueueBatch [OF w1 this, of r env "e_enqueue_followup env"]
    have "clean_table (w_tasks (snd (enqueueBatch r env (e_enqueue_followup env) ?ts w1)))" .
    moreover have "(res, w2) = enqueueBatch r env (e_enqueue_followup env) ?ts w1"
      using assms(1) e Inr b by (simp add: plan_tick_def Let_def)
    ultimately show ?thesis by (metis snd_conv)
  qed
qed

lemma clean_runTick:
  assumes "runTick r env w = Some (res, r', w')" "clean_table (w_tasks w)"
  shows "clean_table (w_tasks w')"
proof -
  have plan: "clean_table (w_tasks w2)" if "plan_tick r1 env w1 pairs adapted cov icov active = Some (res, w2)" "w_tasks w1 = w_tasks w"
    for r1 w1 pairs adapted cov icov active w2
    using clean_plan_tick [OF that(1)] that(2) assms(2) by simp
  show ?thesis
    using assms plan unfolding runTick_def Let_def by (simp add: prod.case_eq_if split: sum.splits if_splits) (auto split: sum.splits)
qed

text \<open>
  \<^bold>\<open>C25\<close>. A requested recompute is never carried out. \<^verbatim>\<open>QueueRecompute\<close> hands its task to the broker only; no planner enqueues such a task, so no row
  of the task table has its identifier, and the worker that receives it finds nothing to claim: whatever the
  executor would do, processing the task leaves everything as it was.
\<close>

theorem recompute_never_runs:
  assumes "app_tasks srt (ww_tasks w)" "t \<in> set (snd (snd (QueueRecomputeWithCurrency pub now u cur s)))"
  shows "Process repo exec env t w = ((case pe_claim_db env 0 of Some e \<Rightarrow> Inl e | None \<Rightarrow> Inr ()), w)"
proof -
  have clean: "clean_table st" if "app_tasks srt st" for st
    using that
  proof induction
    case (tick w r env res r' w')
    then show ?case by (blast intro: clean_runTick)
  next
    case (worker st opn)
    then show ?case
    proof (cases opn)
      case (OpPrune db clock old keep)
      have "set (rows (exec_op srt opn st)) \<subseteq> set (rows st)"
        by (auto simp: OpPrune PruneOldTasks_def prune_by_age_def prune_by_count_def Let_def split: option.splits)
      with worker show ?thesis by (auto simp: list_all_iff)
    qed (auto simp: list_all_iff Claim_def Complete_def Fail_def Let_def set_sql_update notify_def split: option.splits)
  qed simp
  have "t_ID t = ''portfolio_recompute:'' @ u @ '':pending''"
    using assms(2) by (auto simp: QueueRecomputeWithCurrency_def recompute_task_def Enrich_def Let_def split: if_splits option.splits)
  then have "\<not> no_recompute (t_ID t)" by (simp add: no_recompute_def)
  then have "\<not> claimable (t_ID t) x" if "x \<in> set (rows (ww_tasks w))" for x
    using clean [OF assms(1)] that by (auto simp: claimable_def list_all_iff)
  then have "rows_affected (claimable (t_ID t)) (rows (ww_tasks w)) = 0" "sql_update (claimable (t_ID t)) f (rows (ww_tasks w)) = rows (ww_tasks w)" for f
    using rows_affected_pos [of "claimable (t_ID t)" "rows (ww_tasks w)"] by (auto intro: sql_update_none)
  then show ?thesis by (simp add: Process_def Claim_def Let_def split: option.split)
qed

theorem recompute_never_runs_witness:
  "snd (snd (QueueRecomputeWithCurrency None 7 ''ann'' ''EUR'' \<lparr>hasPublisher = True, debounceWindow = 10, debounceTracker = Map.empty\<rparr>)) =
     [recompute_task ''ann'' ''EUR''] \<and>
   Process worker_a (\<lambda>item w. (Inl ''boom'', w)) (bf_env None) (recompute_task ''ann'' ''EUR'') (bf_world\<lparr>ww_tasks := \<lparr>rows = [], notified = 0\<rparr>\<rparr>) =
     (Inr (), bf_world\<lparr>ww_tasks := \<lparr>rows = [], notified = 0\<rparr>\<rparr>)"
proof
  let ?s = "\<lparr>hasPublisher = True, debounceWindow = 10, debounceTracker = Map.empty\<rparr> :: debouncer"
  let ?w = "bf_world\<lparr>ww_tasks := \<lparr>rows = [], notified = 0\<rparr>\<rparr>"
  show q: "snd (snd (QueueRecomputeWithCurrency None 7 ''ann'' ''EUR'' ?s)) = [recompute_task ''ann'' ''EUR'']"
    by (simp add: QueueRecomputeWithCurrency_def)
  have "app_tasks (\<lambda>key. sort_key key) (ww_tasks ?w)" by (rule app_tasks.start) simp
  from recompute_never_runs [OF this, of "recompute_task ''ann'' ''EUR''" None 7 "''ann''" "''EUR''" ?s worker_a "\<lambda>item w. (Inl ''boom'', w)" "bf_env None"] q
  show "Process worker_a (\<lambda>item w. (Inl ''boom'', w)) (bf_env None) (recompute_task ''ann'' ''EUR'') ?w = (Inr (), ?w)"
    by (simp add: bf_env_def no_errors_def)
qed

section \<open>Snapshots\<close>

text \<open>The realised profit of each asset, as a snapshot lists it.\<close>

definition realized_list :: "PnLSnapshot \<Rightarrow> (string \<times> float64) list" where
  "realized_list s = map (\<lambda>a. (ap_AssetSymbol a, ap_RealizedPnL a)) (ps_Assets s)"

definition fifo_realized :: "Transaction list \<Rightarrow> (string \<times> float64) list" where
  "fifo_realized ts = map (\<lambda>a. (a, gm_get (realizedByAsset (foldl fifo_step fifo_init (resolved_of ts))) f0 a))
     (sorted_list_of_set (tx_AssetSymbol ` set (resolved_of ts)))"

lemma snapshot_realized:
  assumes "permutes_keys rngQ" "permutes_keys rngA"
  shows "realized_list (compute_snapshot rngQ rngA price i now u cur ts) = fifo_realized ts"
proof -
  let ?st = "foldl fifo_step fifo_init (resolved_of ts)"
  let ?u = "unrealized_map price cur (rngQ (gm_keys (fifoQueues ?st))) (fifoQueues ?st)"
  let ?ks = "asset_set (realizedByAsset ?st) ?u (txCountByAsset ?st)"
  let ?s = "compute_snapshot rngQ rngA price i now u cur ts"
  let ?A = "sort_key ap_AssetSymbol (map (asset_pnl (realizedByAsset ?st) ?u (txCountByAsset ?st)) (rngA ?ks))"
  have assets: "ps_Assets ?s = ?A" by (simp add: compute_snapshot_def partition_txs_eq Let_def)
  have "set ?ks = tx_AssetSymbol ` set (resolved_of ts)" by (rule asset_set_eq [OF assms(1)])
  moreover have "distinct ?ks" by (simp add: asset_set_def)
  ultimately have syms: "map ap_AssetSymbol ?A = sorted_list_of_set (tx_AssetSymbol ` set (resolved_of ts))"
    by (intro sorted_assets [OF assms(2)])
  have val: "ap_RealizedPnL a = gm_get (realizedByAsset ?st) f0 (ap_AssetSymbol a)" if "a \<in> set ?A" for a
    using that by (auto simp: asset_pnl_def)
  have "realized_list ?s = map (\<lambda>a. (a, gm_get (realizedByAsset ?st) f0 a)) (map ap_AssetSymbol ?A)"
    unfolding realized_list_def assets using val by simp
  then show ?thesis unfolding syms fifo_realized_def .
qed

lemma find_key_update:
  assumes "\<And>r. key (f r) = k"
  shows "find (\<lambda>r. key r = k') (sql_update (\<lambda>r. key r = k) f rs) =
    (if k' = k then map_option f (find (\<lambda>r. key r = k) rs) else find (\<lambda>r. key r = k') rs)"
  using assms by (induction rs) (auto simp: sql_update_def)

lemma pnl_Upsert_find:
  assumes "pnl_Upsert err s rs = Inr (i, rs')"
  shows "\<exists>s'. find (\<lambda>r. snapshot_key r = snapshot_key s) rs' = Some s' \<and> realized_list s' = realized_list s"
    "k \<noteq> snapshot_key s \<Longrightarrow> find (\<lambda>r. snapshot_key r = k) rs' = find (\<lambda>r. snapshot_key r = k) rs"
proof -
  have key: "snapshot_key (s\<lparr>ps_ID := ps_ID r\<rparr>) = snapshot_key s" for r by (simp add: snapshot_key_def)
  note upd = find_key_update [of snapshot_key "\<lambda>r. s\<lparr>ps_ID := ps_ID r\<rparr>" "snapshot_key s", OF key]
  show "\<exists>s'. find (\<lambda>r. snapshot_key r = snapshot_key s) rs' = Some s' \<and> realized_list s' = realized_list s"
  proof (cases "list_ex (\<lambda>r. snapshot_key r = snapshot_key s) rs")
    case True
    then obtain r where "find (\<lambda>r. snapshot_key r = snapshot_key s) rs = Some r"
      by (metis find_None_iff list_ex_iff not_None_eq)
    with True assms upd [of "snapshot_key s" rs] show ?thesis
      by (auto simp: pnl_Upsert_def Let_def realized_list_def split: option.splits)
  next
    case False
    then have "find (\<lambda>r. snapshot_key r = snapshot_key s) rs = None" by (auto simp: find_None_iff list_ex_iff)
    with False assms show ?thesis by (auto simp: pnl_Upsert_def find_append split: option.splits if_splits)
  qed
  show "k \<noteq> snapshot_key s \<Longrightarrow> find (\<lambda>r. snapshot_key r = k) rs' = find (\<lambda>r. snapshot_key r = k) rs"
    using assms upd [of k rs] by (auto simp: pnl_Upsert_def Let_def find_append split: option.splits if_splits)
qed

lemma compute_currency_result:
  assumes "compute_currency env k u cur w = Some (Inr (s, ss))" "permutes_keys (ce_rngQ env)" "permutes_keys (ce_rngA env)"
  shows "\<exists>L. loadAllTransactions (ce_sort env) (\<lambda>opts. tx_ListByUser (te_srt (ce_load env k) (nat (lo_Page opts)))
        (te_list (ce_load env k) (nat (lo_Page opts))) u opts (txs w)) = Some (Inr L) \<and>
      (\<exists>s'. find (\<lambda>r. snapshot_key r = (u, cur)) ss = Some s' \<and> realized_list s' = fifo_realized L) \<and>
      (\<forall>cur'. cur' \<noteq> cur \<longrightarrow> find (\<lambda>r. snapshot_key r = (u, cur')) ss = find (\<lambda>r. snapshot_key r = (u, cur')) (snapshots w))"
proof -
  let ?snap = "compute_snapshot (ce_rngQ env) (ce_rngA env) (ce_price env k) (ce_new env k) (ce_time env k) u cur"
  let ?load = "loadAllTransactions (ce_sort env) (\<lambda>opts. tx_ListByUser (te_srt (ce_load env k) (nat (lo_Page opts)))
        (te_list (ce_load env k) (nat (lo_Page opts))) u opts (txs w))"
  from assms(1) obtain lr where lr: "?load = Some lr" by (auto simp: compute_currency_def ComputeAndStore_def)
  with assms(1) obtain L where L: "?load = Some (Inr L)" by (cases lr) (simp_all add: compute_currency_def ComputeAndStore_def)
  with assms(1) obtain i where up: "pnl_Upsert (ce_store env k) (?snap L) (snapshots w) = Inr (i, ss)"
    by (cases "pnl_Upsert (ce_store env k) (?snap L) (snapshots w)") (auto simp: compute_currency_def ComputeAndStore_def Let_def)
  have key: "snapshot_key (?snap L) = (u, cur)" by (simp add: snapshot_key_def compute_snapshot_def Let_def)
  show ?thesis
    using L pnl_Upsert_find [OF up] snapshot_realized [OF assms(2,3), of "ce_price env k" "ce_new env k" "ce_time env k" u cur L] unfolding key by auto
qed

lemma refresh_loop_snapshots:
  assumes "refresh_loop env k u curs w = Some (Inr (), w')" "distinct curs" "\<And>k. ce_load env k = load"
    and "permutes_keys (ce_rngQ env)" "permutes_keys (ce_rngA env)"
  shows "(\<forall>cur. cur \<notin> set curs \<longrightarrow> find (\<lambda>r. snapshot_key r = (u, cur)) (snapshots w') = find (\<lambda>r. snapshot_key r = (u, cur)) (snapshots w)) \<and>
    (\<forall>cur\<in>set curs. \<exists>L s. loadAllTransactions (ce_sort env) (\<lambda>opts. tx_ListByUser (te_srt load (nat (lo_Page opts)))
        (te_list load (nat (lo_Page opts))) u opts (txs w)) = Some (Inr L) \<and>
      find (\<lambda>r. snapshot_key r = (u, cur)) (snapshots w') = Some s \<and> realized_list s = fifo_realized L)"
  using assms(1,2)
proof (induction curs arbitrary: k w)
  case (Cons cur curs)
  from Cons.prems(1) obtain s ss where c: "compute_currency env k u cur w = Some (Inr (s, ss))"
    and rest: "refresh_loop env (Suc k) u curs (w\<lparr>snapshots := ss\<rparr>) = Some (Inr (), w')"
    by (auto split: option.splits sum.splits)
  note one = compute_currency_result [OF c assms(4,5), unfolded assms(3)]
  have IH: "(\<forall>cur. cur \<notin> set curs \<longrightarrow> find (\<lambda>r. snapshot_key r = (u, cur)) (snapshots w') = find (\<lambda>r. snapshot_key r = (u, cur)) ss) \<and>
    (\<forall>cur\<in>set curs. \<exists>L s. loadAllTransactions (ce_sort env) (\<lambda>opts. tx_ListByUser (te_srt load (nat (lo_Page opts)))
        (te_list load (nat (lo_Page opts))) u opts (txs w)) = Some (Inr L) \<and>
      find (\<lambda>r. snapshot_key r = (u, cur)) (snapshots w') = Some s \<and> realized_list s = fifo_realized L)"
    using Cons.IH [OF rest] Cons.prems(2) by simp
  with one Cons.prems(2) show ?case by auto
qed simp

text \<open>
  The periodic refresh mixes currencies. It stores a snapshot for euros and one for dollars from the same stored values of the transactions, without
  converting them: when the order of equal rows does not change in between, both snapshots list the same realised profit, number for number,
  for every asset.
\<close>

lemma refresh_mixes_currencies:
  assumes "refresh_Execute env item w = Some (Inr (), w')" "parseUserIDFromTaskID (ce_parse env) (t_ID item) = Inr u" "\<And>k. ce_load env k = load"
    and "permutes_keys (ce_rngQ env)" "permutes_keys (ce_rngA env)"
  shows "\<exists>s s'. pnl_FindByUser None u ''EUR'' (snapshots w') = Inr (Some s) \<and> pnl_FindByUser None u ''USD'' (snapshots w') = Inr (Some s') \<and>
    ps_ReferenceCurrency s = ''EUR'' \<and> ps_ReferenceCurrency s' = ''USD'' \<and> realized_list s = realized_list s'"
proof -
  define found where "found = (case DistinctCurrencies (ce_rng env) (ce_currencies env) u (txs w) of Inl e \<Rightarrow> [] | Inr cs \<Rightarrow> cs)"
  have "map_option (notify_user u) (refresh_loop env 0 u (with_common found) w) = Some (Inr (), w')"
    using assms(1,2) by (simp add: refresh_Execute_def Let_def found_def split: if_splits)
  then obtain r w1 where "refresh_loop env 0 u (with_common found) w = Some (r, w1)" "notify_user u (r, w1) = (Inr (), w')" by auto
  then have run: "refresh_loop env 0 u (with_common found) w = Some (Inr (), w1)" "snapshots w' = snapshots w1"
    by (cases r; force simp: notify_user_def)+
  have curs: "distinct (with_common found)" "''EUR'' \<in> set (with_common found)" "''USD'' \<in> set (with_common found)"
    by (auto simp: with_common_def)
  note snaps = refresh_loop_snapshots [OF run(1) curs(1) assms(3-5), THEN conjunct2]
  from bspec [OF snaps curs(2)] bspec [OF snaps curs(3)] obtain s s' where
    "find (\<lambda>r. snapshot_key r = (u, ''EUR'')) (snapshots w1) = Some s" "find (\<lambda>r. snapshot_key r = (u, ''USD'')) (snapshots w1) = Some s'"
    "realized_list s = realized_list s'" by force
  moreover from this(1,2) have "snapshot_key s = (u, ''EUR'')" "snapshot_key s' = (u, ''USD'')" by (auto dest: find_holds)
  ultimately show ?thesis by (simp add: pnl_FindByUser_def query_row_def run(2) snapshot_key_def)
qed

definition demo_calc :: calc_env where
  "demo_calc = \<lparr>ce_parse = Inr, ce_rng = (\<lambda>cs. cs), ce_currencies = None, ce_market = (\<lambda>k. demo_market), ce_tx = (\<lambda>k. demo_txenv),
     ce_load = (\<lambda>k. demo_txenv), ce_sort = sort_key tx_Timestamp, ce_rngQ = (\<lambda>ks. ks), ce_rngA = (\<lambda>ks. ks), ce_price = (\<lambda>k a q. Inl (Plain ''none'')),
     ce_store = no_errors, ce_new = (\<lambda>k. ''s'' @ show_nat k), ce_time = (\<lambda>k. 0)\<rparr>"

definition demo_transfers :: "Transaction list" where
  "demo_transfers = map (\<lambda>t. t\<lparr>tx_Type := ''transfer''\<rparr>) demo_txs"

definition demo_transfer_world :: tx_world where
  "demo_transfer_world = demo_tx_world\<lparr>txs := demo_transfers\<rparr>"

definition demo_snapshot :: "nat \<Rightarrow> string \<Rightarrow> PnLSnapshot" where
  "demo_snapshot k cur = compute_snapshot (\<lambda>ks. ks) (\<lambda>ks. ks) (\<lambda>a q. Inl (Plain ''none'')) (''s'' @ show_nat k) 0 ''ann'' cur demo_transfers"

lemma demo_snapshot_facts:
  "ps_UserID (demo_snapshot k cur) = ''ann''" "ps_ReferenceCurrency (demo_snapshot k cur) = cur"
  "ps_ID (demo_snapshot 0 cur) = ''s0''" "ps_ID (demo_snapshot (Suc 0) cur) = ''s1''" "marshal_assets (ps_Assets (demo_snapshot k cur)) = None"
proof -
  have "show_nat 0 = ''0''" "show_nat (Suc 0) = ''1''" by code_simp+
  then show "ps_UserID (demo_snapshot k cur) = ''ann''" "ps_ReferenceCurrency (demo_snapshot k cur) = cur"
    "ps_ID (demo_snapshot 0 cur) = ''s0''" "ps_ID (demo_snapshot (Suc 0) cur) = ''s1''"
    by (simp_all add: demo_snapshot_def compute_snapshot_def Let_def)
  have txs: "pt_resolved (partition_txs demo_transfers \<lparr>pt_resolved = [], pt_excluded = 0, pt_approximate = False\<rparr>) = demo_transfers"
    by (simp add: partition_txs_eq demo_transfers_def demo_txs_def demo_tx_def is_unresolvable_def)
  have st: "foldl fifo_step fifo_init demo_transfers = \<lparr>fifoQueues = [], realizedByAsset = [], txCountByAsset = [(''BTC'', 2)]\<rparr>"
    by (simp add: demo_transfers_def demo_txs_def demo_tx_def fifo_init_def fifo_step_def gm_get_def Let_def)
  show "marshal_assets (ps_Assets (demo_snapshot k cur)) = None"
    by (simp add: demo_snapshot_def compute_snapshot_def Let_def txs st unrealized_map_def asset_set_def gm_keys_def asset_pnl_def)
qed

lemma demo_load:
  "loadAllTransactions (sort_key tx_Timestamp) (\<lambda>opts. tx_ListByUser (te_srt demo_txenv (nat (lo_Page opts)))
     (te_list demo_txenv (nat (lo_Page opts))) ''ann'' opts demo_transfers) = Some (Inr demo_transfers)"
proof -
  have page: "tx_ListByUser (te_srt demo_txenv (nat (lo_Page (page_opts 1)))) (te_list demo_txenv (nat (lo_Page (page_opts 1)))) ''ann''
      (page_opts 1) demo_transfers = Inr (rev demo_transfers, 2)" by code_simp
  have "sort_key tx_Timestamp (rev demo_transfers) = demo_transfers" by code_simp
  moreover have "length demo_transfers = 2" "demo_transfers \<noteq> []" by (simp_all add: demo_transfers_def demo_txs_def)
  ultimately show ?thesis unfolding loadAllTransactions_def by (subst load_pages.simps) (simp add: page)
qed

lemma demo_compute:
  "txs w = demo_transfers \<Longrightarrow> pnl_Upsert None (demo_snapshot k cur) (snapshots w) = Inr (i, ss) \<Longrightarrow>
     compute_currency demo_calc k ''ann'' cur w = Some (Inr ((demo_snapshot k cur)\<lparr>ps_ID := i\<rparr>, ss))"
  unfolding compute_currency_def ComputeAndStore_def
  by (simp add: demo_calc_def demo_load demo_snapshot_def no_errors_def)

end
