(* ===== verification/Fan_Out.thy ===== *)
theory Fan_Out
  imports Prelude
begin

text \<open>
  The contract that the program's publishers share: \<^verbatim>\<open>PortfolioUpdateBroadcaster\<close>, the event bus of \<^verbatim>\<open>MarketService\<close> and the
  task streams of \<^verbatim>\<open>SystemService\<close> each keep a list of subscriptions, hand every publication to all of them without waiting, and
  forget a subscription that leaves. A subscription is the address of its object, its inbox is whatever the publisher writes into.
\<close>

text \<open>Two facts about loops over the subscriptions.\<close>

lemma fold_frame: "(\<And>a s. g (upd a s) = g s) \<Longrightarrow> g (fold upd as s) = g s"
  by (induction as arbitrary: s) simp_all

lemma fold_boxes:
  assumes "\<And>a s. box (upd a s) = (box s)(a := f (box s a))"
  shows "distinct as \<Longrightarrow> box (fold upd as s) b = (if b \<in> set as then f (box s b) else box s b)"
  by (induction as arbitrary: s) (auto simp: assms)

locale fan_out =
  fixes subs :: "'s \<Rightarrow> nat list"
    and fresh :: "'s \<Rightarrow> nat"
    and box :: "'s \<Rightarrow> nat \<Rightarrow> 'b"
    and new_box :: 'b
    and put :: "'m \<Rightarrow> 'b \<Rightarrow> 'b"
    and publish :: "'m \<Rightarrow> 's \<Rightarrow> 's"
    and join :: "'s \<Rightarrow> nat \<times> 's"
    and leave :: "nat \<Rightarrow> 's \<Rightarrow> 's"
  assumes publish_subs: "subs (publish m s) = subs s"
    and publish_fresh: "fresh (publish m s) = fresh s"
    and publish_box: "distinct (subs s) \<Longrightarrow> box (publish m s) a = (if a \<in> set (subs s) then put m (box s a) else box s a)"
    and join_address: "fst (join s) = fresh s"
    and join_subs: "subs (snd (join s)) = subs s @ [fresh s]"
    and join_fresh: "fresh (snd (join s)) = Suc (fresh s)"
    and join_box: "box (snd (join s)) = (box s)(fresh s := new_box)"
    and leave_subs: "subs (leave a s) = remove1 a (subs s)"
    and leave_fresh: "fresh (leave a s) = fresh s"
    and leave_box: "box (leave a s) = box s"
begin

definition subs_ok :: "'s \<Rightarrow> bool" where
  "subs_ok s \<longleftrightarrow> distinct (subs s) \<and> (\<forall>a\<in>set (subs s). a < fresh s)"

lemma publish_ok: "subs_ok s \<Longrightarrow> subs_ok (publish m s)"
  by (simp add: subs_ok_def publish_subs publish_fresh)

lemma join_ok: "subs_ok s \<Longrightarrow> subs_ok (snd (join s))"
  by (auto simp: subs_ok_def join_subs join_fresh intro: less_SucI)

lemma leave_ok: "subs_ok s \<Longrightarrow> subs_ok (leave a s)"
  by (auto simp: subs_ok_def leave_subs leave_fresh dest: notin_set_remove1 set_remove1_subset [THEN subsetD])

text \<open>What arrives between two readings: everything that is published, in order.\<close>

lemma publish_all: "subs_ok s \<Longrightarrow> box (fold publish ms s) a = (if a \<in> set (subs s) then fold put ms (box s a) else box s a)"
proof (induction ms arbitrary: s)
  case (Cons m ms)
  then show ?case
    using Cons.IH [OF publish_ok [OF Cons.prems]] by (simp add: publish_subs publish_box subs_ok_def)
qed simp

lemma joined_receives: "subs_ok s \<Longrightarrow> box (fold publish ms (snd (join s))) (fst (join s)) = fold put ms new_box"
  using publish_all [OF join_ok] by (simp add: join_subs join_address join_box)

lemma others_undisturbed: "subs_ok s \<Longrightarrow> a \<in> set (subs s) \<Longrightarrow> box (snd (join s)) a = box s a \<and> a \<in> set (subs (snd (join s)))"
  by (auto simp: join_subs join_box subs_ok_def)

lemma left_is_silent: "subs_ok s \<Longrightarrow> box (fold publish ms (leave a s)) a = box s a"
  using publish_all [OF leave_ok] by (simp add: leave_subs leave_box subs_ok_def)

end

end
