(* ===== verification/Valuation.thy ===== *)
theory Valuation
  imports Portfolio_Repo Market_Repo Fan_Out
begin

text \<open>
  \<^verbatim>\<open>portfolio/valuation.go\<close> over \<^verbatim>\<open>service/market_data_adapter.go\<close>: the value of a portfolio now and over time;
  \<^verbatim>\<open>portfolio/sse.go\<close> and \<^verbatim>\<open>portfolio/notifier.go\<close>: who is told about changes. The latest price of a pair
  (\<^verbatim>\<open>MarketRepository.Ticker\<close>) is an argument.
\<close>

section \<open>Prices\<close>

text \<open>\<^verbatim>\<open>strings.ReplaceAll(pair, "/", "")\<close>.\<close>

definition strip_slash :: "string \<Rightarrow> string" where
  "strip_slash = filter (\<lambda>c. c \<noteq> CHR ''/'')"

definition GetTickerPrice :: "(string \<Rightarrow> (string, float64) result) \<Rightarrow> string \<Rightarrow> (string, float64) result" where
  "GetTickerPrice ticker pair =
     (case ticker (strip_slash pair) of
        Inl e \<Rightarrow> Inl (''ticker price for '' @ pair @ '': '' @ e)
      | Inr p \<Rightarrow> if feq p f0 then Inl (''no price available for '' @ pair) else Inr p)"

definition GetCandles ::
    "(Candle list \<Rightarrow> Candle list) \<Rightarrow> string option \<Rightarrow> gotime \<Rightarrow> string \<Rightarrow> string \<Rightarrow> gotime \<Rightarrow> gotime \<Rightarrow> market_db \<Rightarrow> (string, Candle list) result" where
  "GetCandles latest err now pair interval start stop db = Historical latest err now (strip_slash pair) interval start stop db"

section \<open>The value now\<close>

record AssetValuation =
  av_AssetSymbol :: string
  av_Quantity :: float64
  av_CurrentPrice :: float64
  av_CurrentValue :: float64
  av_AllocationPct :: float64
  av_AvgBuyPrice :: "float64 option"
  av_UnrealizedPnL :: "float64 option"
  av_UnrealizedPct :: "float64 option"
  av_Priced :: bool
  av_Source :: string

record Valuation =
  va_TotalValue :: float64
  va_QuoteCurrency :: string
  va_Assets :: "AssetValuation list"
  va_UpdatedAt :: gotime

text \<open>\<^verbatim>\<open>math.Round\<close>: half away from zero.\<close>

fun math_round :: "float64 \<Rightarrow> float64" where
  "math_round (Fin q) = Fin (if 0 \<le> q then of_int \<lfloor>q + 1 / 2\<rfloor> else - of_int \<lfloor>- q + 1 / 2\<rfloor>)"
| "math_round x = x"

definition roundTo2 :: "float64 \<Rightarrow> float64" where
  "roundTo2 v = fdiv (math_round (fmul v (Fin 100))) (Fin 100)"

definition hold_pair :: "Holding \<Rightarrow> string \<Rightarrow> string" where
  "hold_pair h quote = h_AssetSymbol h @ ''/'' @ quote"

definition value_holding :: "(string \<Rightarrow> (string, float64) result) \<Rightarrow> string \<Rightarrow> Holding \<Rightarrow> AssetValuation" where
  "value_holding price quote h =
     (let av = \<lparr>av_AssetSymbol = h_AssetSymbol h, av_Quantity = h_Quantity h, av_CurrentPrice = f0, av_CurrentValue = f0, av_AllocationPct = f0,
            av_AvgBuyPrice = h_AvgBuyPrice h, av_UnrealizedPnL = None, av_UnrealizedPct = None, av_Priced = False, av_Source = h_Source h\<rparr>
      in case price (hold_pair h quote) of
           Inl e \<Rightarrow> av
         | Inr p \<Rightarrow>
             let av1 = av\<lparr>av_Priced := True, av_CurrentPrice := p, av_CurrentValue := fmul (h_Quantity h) p\<rparr>
             in case h_AvgBuyPrice h of
                  None \<Rightarrow> av1
                | Some a \<Rightarrow>
                    let av2 = av1\<lparr>av_UnrealizedPnL := Some (fmul (fsub p a) (h_Quantity h))\<rparr>
                    in if \<not> feq a f0 then av2\<lparr>av_UnrealizedPct := Some (fmul (fdiv (fsub p a) a) (Fin 100))\<rparr> else av2)"

definition total_value :: "AssetValuation list \<Rightarrow> float64" where
  "total_value avs = foldl (\<lambda>s av. if av_Priced av then fadd s (av_CurrentValue av) else s) f0 avs"

text \<open>The first largest allocation of the priced assets takes the difference to 100.\<close>

fun alloc_scan :: "nat \<Rightarrow> AssetValuation list \<Rightarrow> float64 \<times> nat option \<times> float64 \<Rightarrow> float64 \<times> nat option \<times> float64" where
  "alloc_scan i [] acc = acc"
| "alloc_scan i (a # as) (s, largestIdx, largestPct) =
     (if \<not> av_Priced a then alloc_scan (Suc i) as (s, largestIdx, largestPct)
      else if flt largestPct (av_AllocationPct a) then alloc_scan (Suc i) as (fadd s (av_AllocationPct a), Some i, av_AllocationPct a)
      else alloc_scan (Suc i) as (fadd s (av_AllocationPct a), largestIdx, largestPct))"

definition adjustAllocationRounding :: "AssetValuation list \<Rightarrow> AssetValuation list" where
  "adjustAllocationRounding avs =
     (case alloc_scan 0 avs (f0, None, f0) of
        (s, None, _) \<Rightarrow> avs
      | (s, Some i, _) \<Rightarrow>
          avs[i := (avs ! i)\<lparr>av_AllocationPct := roundTo2 (fadd (av_AllocationPct (avs ! i)) (fsub (Fin 100) s))\<rparr>])"

definition allocate :: "AssetValuation list \<Rightarrow> AssetValuation list" where
  "allocate avs =
     (let total = total_value avs
      in if flt f0 total
         then adjustAllocationRounding
           (map (\<lambda>a. if av_Priced a then a\<lparr>av_AllocationPct := roundTo2 (fmul (fdiv (av_CurrentValue a) total) (Fin 100))\<rparr> else a) avs)
         else avs)"

definition ComputeValuation ::
    "Holding sorting \<Rightarrow> string option \<Rightarrow> (string \<Rightarrow> (string, float64) result) \<Rightarrow> gotime \<Rightarrow> uuid_text \<Rightarrow> string \<Rightarrow> Holding list \<Rightarrow> Valuation port_result" where
  "ComputeValuation srt err price now userID quote rs =
     (case holding_ListByUserID srt err userID rs of
        Inl e \<Rightarrow> Inl (Wrap ''listing holdings'' e)
      | Inr hs \<Rightarrow>
          let avs = map (value_holding price quote) hs
          in Inr \<lparr>va_TotalValue = total_value avs, va_QuoteCurrency = quote, va_Assets = allocate avs, va_UpdatedAt = now\<rparr>)"

section \<open>The value over time\<close>

record HistoricalPoint =
  hp_Timestamp :: int
  hp_Value :: float64

definition resolveTimeRange :: "gotime \<Rightarrow> string \<Rightarrow> string \<times> gotime \<times> gotime" where
  "resolveTimeRange now timeRange =
     (if timeRange = ''1d'' then (''1h'', now - 24 * Hour, now)
      else if timeRange = ''7d'' then (''1h'', now - 7 * 24 * Hour, now)
      else if timeRange = ''30d'' then (''1d'', now - 30 * 24 * Hour, now)
      else if timeRange = ''1y'' then (''1d'', now - 365 * 24 * Hour, now)
      else (''1h'', now - 7 * 24 * Hour, now))"

type_synonym price_series = "int \<rightharpoonup> float64"

definition series :: "Candle list \<Rightarrow> price_series" where
  "series cs = fold (\<lambda>c m. m(k_Timestamp c \<mapsto> k_Close c)) cs Map.empty"

text \<open>\<open>fetch k\<close> is the outcome of the candle query for holding \<open>k\<close>. An asset without data is asked for again by its next holding.\<close>

fun fetch_series ::
    "(nat \<Rightarrow> string \<Rightarrow> (string, Candle list) result) \<Rightarrow> nat \<Rightarrow> string \<Rightarrow> Holding list \<Rightarrow> (string \<rightharpoonup> price_series) \<times> int list \<Rightarrow>
       (string \<rightharpoonup> price_series) \<times> int list" where
  "fetch_series fetch k quote [] acc = acc"
| "fetch_series fetch k quote (h # hs) (prices, stamps) =
     (if prices (h_AssetSymbol h) \<noteq> None then fetch_series fetch (Suc k) quote hs (prices, stamps)
      else case fetch k (hold_pair h quote) of
        Inl e \<Rightarrow> fetch_series fetch (Suc k) quote hs (prices, stamps)
      | Inr cs \<Rightarrow> fetch_series fetch (Suc k) quote hs (prices(h_AssetSymbol h \<mapsto> series cs), stamps @ map k_Timestamp cs))"

fun point_value ::
    "(string \<rightharpoonup> price_series) \<Rightarrow> int \<Rightarrow> Holding list \<Rightarrow> (string \<rightharpoonup> float64) \<times> float64 \<Rightarrow> (string \<rightharpoonup> float64) \<times> float64" where
  "point_value prices ts [] acc = acc"
| "point_value prices ts (h # hs) (lastKnown, v) =
     (case prices (h_AssetSymbol h) of
        None \<Rightarrow> point_value prices ts hs (lastKnown, v)
      | Some p \<Rightarrow>
          (case p ts of
             Some c \<Rightarrow> point_value prices ts hs (lastKnown(h_AssetSymbol h \<mapsto> c), fadd v (fmul (h_Quantity h) c))
           | None \<Rightarrow>
               (case lastKnown (h_AssetSymbol h) of
                  Some c \<Rightarrow> point_value prices ts hs (lastKnown, fadd v (fmul (h_Quantity h) c))
                | None \<Rightarrow> point_value prices ts hs (lastKnown, v))))"

fun points :: "(string \<rightharpoonup> price_series) \<Rightarrow> Holding list \<Rightarrow> int list \<Rightarrow> (string \<rightharpoonup> float64) \<Rightarrow> HistoricalPoint list" where
  "points prices hs [] lastKnown = []"
| "points prices hs (ts # tss) lastKnown =
     (case point_value prices ts hs (lastKnown, f0) of
        (lastKnown', v) \<Rightarrow> \<lparr>hp_Timestamp = ts, hp_Value = v\<rparr> # points prices hs tss lastKnown')"

definition ComputeHistorical ::
    "Holding sorting \<Rightarrow> string option \<Rightarrow> (nat \<Rightarrow> string \<Rightarrow> string \<Rightarrow> gotime \<Rightarrow> gotime \<Rightarrow> (string, Candle list) result) \<Rightarrow> gotime \<Rightarrow> uuid_text \<Rightarrow> string \<Rightarrow>
       string \<Rightarrow> Holding list \<Rightarrow> HistoricalPoint list port_result" where
  "ComputeHistorical srt err candles now userID quote timeRange rs =
     (case holding_ListByUserID srt err userID rs of
        Inl e \<Rightarrow> Inl (Wrap ''listing holdings'' e)
      | Inr hs \<Rightarrow>
          if hs = [] then Inr []
          else let (interval, start, stop) = resolveTimeRange now timeRange;
                   (prices, stamps) = fetch_series (\<lambda>k pair. candles k pair interval start stop) 0 quote hs (Map.empty, [])
               in if stamps = [] then Inr []
                  else Inr (points prices hs (sort (remdups stamps)) Map.empty))"

section \<open>Carrying prices forward\<close>

text \<open>The reference: the close of the latest candle at or before a time.\<close>

definition close_at :: "int list \<Rightarrow> price_series \<Rightarrow> int \<Rightarrow> float64 option" where
  "close_at stamps p ts =
     (let earlier = filter (\<lambda>t. t \<le> ts \<and> p t \<noteq> None) stamps
      in if earlier = [] then None else p (Max (set earlier)))"

definition value_at :: "(string \<Rightarrow> float64 option) \<Rightarrow> Holding list \<Rightarrow> float64 \<Rightarrow> float64" where
  "value_at close hs v0 =
     foldl (\<lambda>v h. case close (h_AssetSymbol h) of None \<Rightarrow> v | Some c \<Rightarrow> fadd v (fmul (h_Quantity h) c)) v0 hs"

text \<open>What is known of an asset after the candles of one time.\<close>

definition now_known :: "(string \<rightharpoonup> price_series) \<Rightarrow> int \<Rightarrow> (string \<rightharpoonup> float64) \<Rightarrow> string \<Rightarrow> float64 option" where
  "now_known prices ts known a =
     (case prices a of None \<Rightarrow> None | Some p \<Rightarrow> (case p ts of Some c \<Rightarrow> Some c | None \<Rightarrow> known a))"

definition close_of :: "(string \<rightharpoonup> price_series) \<Rightarrow> int list \<Rightarrow> int \<Rightarrow> string \<Rightarrow> float64 option" where
  "close_of prices stamps ts a = Option.bind (prices a) (\<lambda>p. close_at stamps p ts)"

lemma now_known_upd:
  "prices b = Some p \<Longrightarrow> p ts = Some c \<Longrightarrow> now_known prices ts (known(b \<mapsto> c)) = now_known prices ts known"
  by (rule ext) (auto simp: now_known_def split: option.splits)

lemma now_known_cases:
  "prices a = None \<Longrightarrow> now_known prices ts known a = None"
  "prices a = Some p \<Longrightarrow> p ts = Some c \<Longrightarrow> now_known prices ts known a = Some c"
  "prices a = Some p \<Longrightarrow> p ts = None \<Longrightarrow> now_known prices ts known a = known a"
  by (simp_all add: now_known_def)

lemma value_at_rec:
  "value_at close [] v = v"
  "value_at close (h # hs) v =
     value_at close hs (case close (h_AssetSymbol h) of None \<Rightarrow> v | Some c \<Rightarrow> fadd v (fmul (h_Quantity h) c))"
  by (simp_all add: value_at_def)

lemma value_at_cong: "(\<And>h. h \<in> set hs \<Longrightarrow> f (h_AssetSymbol h) = g (h_AssetSymbol h)) \<Longrightarrow> value_at f hs v = value_at g hs v"
  by (induction hs arbitrary: v) (simp_all add: value_at_rec)

lemma point_value_sum:
  "snd (point_value prices ts hs (known, v)) = value_at (now_known prices ts known) hs v"
  by (induction hs arbitrary: known v) (auto simp: value_at_rec now_known_upd now_known_cases split: option.split)

lemma point_value_known:
  "prices a \<noteq> None \<Longrightarrow> fst (point_value prices ts hs (known, v)) a =
     (if a \<in> h_AssetSymbol ` set hs then now_known prices ts known a else known a)"
proof (induction hs arbitrary: known v)
  case (Cons h hs)
  from Cons.prems show ?case
    by (cases "prices (h_AssetSymbol h)"; cases "the (prices (h_AssetSymbol h)) ts"; cases "known (h_AssetSymbol h)")
      (auto simp: Cons.IH now_known_upd now_known_cases)
qed simp

lemma close_at_cong:
  assumes "\<And>t. t \<in> set stamps \<Longrightarrow> p t \<noteq> None \<Longrightarrow> t \<le> u \<longleftrightarrow> t \<le> v"
  shows "close_at stamps p u = close_at stamps p v"
proof -
  have "filter (\<lambda>t. t \<le> u \<and> p t \<noteq> None) stamps = filter (\<lambda>t. t \<le> v \<and> p t \<noteq> None) stamps"
    using assms by (intro filter_cong) auto
  then show ?thesis by (simp only: close_at_def)
qed

lemma close_at_hit: "ts \<in> set stamps \<Longrightarrow> p ts = Some c \<Longrightarrow> close_at stamps p ts = Some c"
proof -
  assume "ts \<in> set stamps" and c: "p ts = Some c"
  then have "Max (set (filter (\<lambda>t. t \<le> ts \<and> p t \<noteq> None) stamps)) = ts" "ts \<in> set (filter (\<lambda>t. t \<le> ts \<and> p t \<noteq> None) stamps)"
    by (auto intro!: Max_eqI)
  then show ?thesis using c by (auto simp: close_at_def Let_def filter_empty_conv)
qed

lemma close_at_none: "\<forall>t\<in>set stamps. u < t \<Longrightarrow> close_at stamps p u = None"
  by (auto simp: close_at_def filter_empty_conv)

text \<open>Between two consecutive candle times nothing new is known.\<close>

lemma close_of_next:
  assumes "ts \<in> set stamps" "\<forall>t\<in>set stamps. t < ts \<longleftrightarrow> t \<le> u"
  shows "close_of prices stamps ts a = now_known prices ts (close_of prices stamps u) a"
proof (cases "prices a")
  case (Some p)
  show ?thesis
  proof (cases "p ts")
    case None
    then have "close_at stamps p ts = close_at stamps p u"
      using assms by (intro close_at_cong) (metis order_le_less)
    then show ?thesis using Some None by (simp add: close_of_def now_known_def)
  next
    case (Some c)
    then show ?thesis using \<open>prices a = _\<close> close_at_hit [OF assms(1)] by (simp add: close_of_def now_known_def)
  qed
qed (simp add: close_of_def now_known_def)

definition knows :: "(string \<rightharpoonup> price_series) \<Rightarrow> Holding list \<Rightarrow> (string \<rightharpoonup> float64) \<Rightarrow> (string \<Rightarrow> float64 option) \<Rightarrow> bool" where
  "knows prices hs known close \<longleftrightarrow> (\<forall>a\<in>h_AssetSymbol ` set hs. prices a \<noteq> None \<longrightarrow> known a = close a)"

lemma now_known_close:
  assumes "knows prices hs known (close_of prices stamps u)" "ts \<in> set stamps" "\<forall>t\<in>set stamps. t < ts \<longleftrightarrow> t \<le> u"
    "a \<in> h_AssetSymbol ` set hs"
  shows "now_known prices ts known a = close_of prices stamps ts a"
  using assms(1,4) unfolding close_of_next [OF assms(2,3)]
  by (cases "prices a") (auto simp: knows_def now_known_def split: option.split)

lemma points_carry:
  assumes "stamps = pre @ tss" "sorted_wrt (<) stamps" "\<forall>t\<in>set pre. t \<le> u" "\<forall>t\<in>set tss. u < t"
    "knows prices hs known (close_of prices stamps u)"
  shows "points prices hs tss known =
     map (\<lambda>ts. \<lparr>hp_Timestamp = ts, hp_Value = value_at (close_of prices stamps ts) hs f0\<rparr>) tss"
  using assms
proof (induction tss arbitrary: pre u known)
  case (Cons ts tss)
  have now: "now_known prices ts known a = close_of prices stamps ts a" if "a \<in> h_AssetSymbol ` set hs" for a
  proof (rule now_known_close [OF Cons.prems(5) _ _ that])
    show "\<forall>t\<in>set stamps. t < ts \<longleftrightarrow> t \<le> u"
      using Cons.prems(1-4) by (fastforce simp: sorted_wrt_append)
  qed (simp add: Cons.prems(1))
  have "points prices hs tss (fst (point_value prices ts hs (known, f0))) =
     map (\<lambda>ts. \<lparr>hp_Timestamp = ts, hp_Value = value_at (close_of prices stamps ts) hs f0\<rparr>) tss"
  proof (rule Cons.IH [of "pre @ [ts]" ts])
    show "knows prices hs (fst (point_value prices ts hs (known, f0))) (close_of prices stamps ts)"
      using now by (auto simp: knows_def point_value_known)
  qed (use Cons.prems in \<open>auto simp: sorted_wrt_append\<close>)
  moreover have "snd (point_value prices ts hs (known, f0)) = value_at (close_of prices stamps ts) hs f0"
    unfolding point_value_sum by (rule value_at_cong) (simp add: now)
  ultimately show ?case by (simp add: case_prod_beta)
qed simp

lemma close_at_set: "set stamps = set stamps' \<Longrightarrow> close_at stamps p ts = close_at stamps' p ts"
proof -
  assume *: "set stamps = set stamps'"
  have "(filter P stamps = []) = (filter P stamps' = [])" "set (filter P stamps) = set (filter P stamps')" for P
    by (simp_all add: filter_empty_conv *)
  then show ?thesis by (simp only: close_at_def Let_def)
qed

lemma points_from_start:
  "points prices hs (sort (remdups stamps)) Map.empty =
     map (\<lambda>ts. \<lparr>hp_Timestamp = ts, hp_Value = value_at (close_of prices stamps ts) hs f0\<rparr>) (sort (remdups stamps))"
proof -
  have *: "close_of prices stamps = close_of prices (sort (remdups stamps))"
    by (intro ext) (simp add: close_of_def close_at_set [of stamps "sort (remdups stamps)"])
  have "\<exists>u. \<forall>t\<in>set stamps. u < t"
    by (rule exI [of _ "Min (insert 0 (set stamps)) - 1"])
      (metis List.finite_set Min_le finite_insert insertCI zle_diff1_eq less_le_not_le linorder_not_le)
  then obtain u where u: "\<forall>t\<in>set stamps. u < t" ..
  show ?thesis
    unfolding *
    by (rule points_carry [where pre = "[]" and u = u])
      (use u in \<open>auto simp: knows_def close_of_def close_at_none strict_sorted_iff\<close>)
qed

subsection \<open>The reference in terms of the candles\<close>

text \<open>The candles of an asset: the answer for its pair, nothing when the query fails.\<close>

definition candles_of :: "(string \<Rightarrow> (string, Candle list) result) \<Rightarrow> string \<Rightarrow> Holding \<Rightarrow> Candle list" where
  "candles_of cand quote h = (case cand (hold_pair h quote) of Inl e \<Rightarrow> [] | Inr cs \<Rightarrow> cs)"

text \<open>The close of the latest candle at or before \<open>ts\<close>; of two candles of the same time the later in the list counts.\<close>

definition latest_close :: "Candle list \<Rightarrow> int \<Rightarrow> float64 option" where
  "latest_close cs ts =
     (let stamps = filter (\<lambda>t. t \<le> ts) (map k_Timestamp cs)
      in if stamps = [] then None
         else Some (k_Close (List.last (filter (\<lambda>c. k_Timestamp c = Max (set stamps)) cs))))"

definition portfolio_at :: "(string \<Rightarrow> (string, Candle list) result) \<Rightarrow> string \<Rightarrow> Holding list \<Rightarrow> int \<Rightarrow> float64" where
  "portfolio_at cand quote hs ts =
     foldl (\<lambda>v h. case latest_close (candles_of cand quote h) ts of None \<Rightarrow> v | Some c \<Rightarrow> fadd v (fmul (h_Quantity h) c)) f0 hs"

lemma series_app: "series (cs @ [c]) = (series cs)(k_Timestamp c \<mapsto> k_Close c)"
  by (simp add: series_def)

lemma series_last:
  "series cs t = (case filter (\<lambda>c. k_Timestamp c = t) cs of [] \<Rightarrow> None | es \<Rightarrow> Some (k_Close (List.last es)))"
  by (induction cs rule: rev_induct) (auto simp: series_app series_def split: list.splits)

lemma series_dom: "series cs t \<noteq> None \<longleftrightarrow> t \<in> k_Timestamp ` set cs"
  by (induction cs rule: rev_induct) (auto simp: series_app series_def)

lemma close_at_series:
  assumes "k_Timestamp ` set cs \<subseteq> set stamps"
  shows "close_at stamps (series cs) ts = latest_close cs ts"
proof -
  define early where "early = {t \<in> k_Timestamp ` set cs. t \<le> ts}"
  have e: "set (filter (\<lambda>t. t \<le> ts \<and> series cs t \<noteq> None) stamps) = early"
    using assms by (auto simp: early_def series_dom simp del: not_None_eq)
  have l: "set (filter (\<lambda>t. t \<le> ts) (map k_Timestamp cs)) = early"
    by (auto simp: early_def)
  show ?thesis
  proof (cases "early = {}")
    case True
    then show ?thesis using e l by (simp only: close_at_def latest_close_def Let_def set_empty) simp
  next
    case False
    moreover have "finite early" by (simp add: early_def)
    ultimately have "Max early \<in> k_Timestamp ` set cs" using Max_in [of early] by (auto simp: early_def)
    then have "filter (\<lambda>c. k_Timestamp c = Max early) cs \<noteq> []" by (auto simp: filter_empty_conv)
    then have "series cs (Max early) = Some (k_Close (List.last (filter (\<lambda>c. k_Timestamp c = Max early) cs)))"
      by (auto simp: series_last split: list.split)
    then show ?thesis using False e l by (simp only: close_at_def latest_close_def Let_def set_empty [symmetric] if_False)
  qed
qed

text \<open>With answers that depend on the pair only, every asset has the series of its own candles.\<close>

definition series_fetched :: "(string \<Rightarrow> (string, Candle list) result) \<Rightarrow> string \<Rightarrow> (string \<rightharpoonup> price_series) \<times> int list \<Rightarrow> bool" where
  "series_fetched cand quote acc \<longleftrightarrow>
     (\<forall>a p. fst acc a = Some p \<longrightarrow> (\<exists>cs. cand (a @ ''/'' @ quote) = Inr cs \<and> p = series cs \<and> k_Timestamp ` set cs \<subseteq> set (snd acc)))"

lemma fetch_series_keeps:
  "series_fetched cand quote acc \<Longrightarrow> series_fetched cand quote (fetch_series (\<lambda>k. cand) k quote hs acc)"
proof (induction "\<lambda>k :: nat. cand" k quote hs acc rule: fetch_series.induct)
  case (2 k quote h hs prices stamps)
  show ?case
  proof (cases "prices (h_AssetSymbol h)")
    case None
    show ?thesis
    proof (cases "cand (hold_pair h quote)")
      case (Inr cs)
      with 2(4) have "series_fetched cand quote (prices(h_AssetSymbol h \<mapsto> series cs), stamps @ map k_Timestamp cs)"
        by (fastforce simp: series_fetched_def hold_pair_def)
      with None Inr 2(3) show ?thesis by simp
    qed (use 2(2,4) None in simp)
  qed (use 2(1,4) in simp)
qed simp

lemma fetch_series_dom:
  "fst (fetch_series (\<lambda>k. cand) k quote hs acc) a \<noteq> None \<longleftrightarrow>
     fst acc a \<noteq> None \<or> (\<exists>h\<in>set hs. h_AssetSymbol h = a \<and> (\<exists>cs. cand (hold_pair h quote) = Inr cs))"
  by (induction "\<lambda>k :: nat. cand" k quote hs acc rule: fetch_series.induct) (auto split: sum.splits)

lemma fetch_series_stamps:
  "series_fetched cand quote acc \<Longrightarrow>
     set (snd (fetch_series (\<lambda>k. cand) k quote hs acc)) = set (snd acc) \<union> (\<Union>h\<in>set hs. k_Timestamp ` set (candles_of cand quote h))"
proof (induction "\<lambda>k :: nat. cand" k quote hs acc rule: fetch_series.induct)
  case (2 k quote h hs prices stamps)
  show ?case
  proof (cases "prices (h_AssetSymbol h)")
    case None
    show ?thesis
    proof (cases "cand (hold_pair h quote)")
      case (Inr cs)
      with 2(4) have "series_fetched cand quote (prices(h_AssetSymbol h \<mapsto> series cs), stamps @ map k_Timestamp cs)"
        by (fastforce simp: series_fetched_def hold_pair_def)
      with None Inr 2(3) show ?thesis by (auto simp: candles_of_def)
    qed (use 2(2,4) None in \<open>simp add: candles_of_def\<close>)
  next
    case (Some p)
    with 2(4) have "k_Timestamp ` set (candles_of cand quote h) \<subseteq> set stamps"
      by (fastforce simp: series_fetched_def candles_of_def hold_pair_def)
    then show ?thesis using 2(1,4) Some by auto
  qed
qed simp

lemma close_of_fetched:
  assumes f: "fetch_series (\<lambda>k. cand) 0 quote hs (Map.empty, []) = (prices, stamps)" and h: "h \<in> set hs"
  shows "close_of prices stamps ts (h_AssetSymbol h) = latest_close (candles_of cand quote h) ts"
proof (cases "prices (h_AssetSymbol h)")
  case None
  with f h have "\<nexists>cs. cand (hold_pair h quote) = Inr cs"
    using fetch_series_dom [of cand 0 quote hs "(Map.empty, [])" "h_AssetSymbol h"] by auto
  then have "candles_of cand quote h = []" by (auto simp: candles_of_def split: sum.split)
  then show ?thesis using None by (simp add: close_of_def latest_close_def)
next
  case (Some p)
  have "series_fetched cand quote (prices, stamps)"
    using fetch_series_keeps [of cand quote "(Map.empty, [])" 0 hs] f by (simp add: series_fetched_def)
  with Some obtain cs where "cand (hold_pair h quote) = Inr cs" "p = series cs" "k_Timestamp ` set cs \<subseteq> set stamps"
    by (auto simp: series_fetched_def hold_pair_def)
  then show ?thesis using Some by (simp add: close_of_def candles_of_def close_at_series)
qed

lemma candle_times:
  assumes "fetch_series (\<lambda>k. cand) 0 quote hs (Map.empty, []) = (prices, stamps)"
  shows "sort (remdups stamps) = sorted_list_of_set (\<Union>h\<in>set hs. k_Timestamp ` set (candles_of cand quote h))"
  using fetch_series_stamps [of cand quote "(Map.empty, [])" 0 hs] assms
  by (simp add: series_fetched_def sorted_list_of_set_sort_remdups [symmetric])

text \<open>
  \<^bold>\<open>C29\<close>. The value over time carries prices forward: with one point for every time at which some candle of the range exists, in
  ascending order, each point is the sum over the holdings, in their order, of quantity times the close of the latest candle of that
  asset at or before the point; an asset counts for nothing before its first candle, and not at all when its query fails.
\<close>

theorem historical_carries_forward:
  assumes "holding_ListByUserID srt err userID rs = Inr hs" "resolveTimeRange now timeRange = (interval, start, stop)"
  shows "ComputeHistorical srt err (\<lambda>k. candles) now userID quote timeRange rs =
     Inr (map (\<lambda>ts. \<lparr>hp_Timestamp = ts, hp_Value = portfolio_at (\<lambda>pair. candles pair interval start stop) quote hs ts\<rparr>)
       (sorted_list_of_set (\<Union>h\<in>set hs. k_Timestamp ` set (candles_of (\<lambda>pair. candles pair interval start stop) quote h))))"
proof -
  define cand where "cand = (\<lambda>pair. candles pair interval start stop)"
  obtain prices stamps where f: "fetch_series (\<lambda>k. cand) 0 quote hs (Map.empty, []) = (prices, stamps)" by fastforce
  have "value_at (close_of prices stamps ts) hs f0 = portfolio_at cand quote hs ts" for ts
    using close_of_fetched [OF f] unfolding value_at_def portfolio_at_def by (intro foldl_cong) auto
  then have "points prices hs (sort (remdups stamps)) Map.empty =
      map (\<lambda>ts. \<lparr>hp_Timestamp = ts, hp_Value = portfolio_at cand quote hs ts\<rparr>)
        (sorted_list_of_set (\<Union>h\<in>set hs. k_Timestamp ` set (candles_of cand quote h)))"
    unfolding points_from_start unfolding candle_times [OF f] by simp
  moreover have "hs = [] \<Longrightarrow> stamps = []" using f by simp
  ultimately show ?thesis
    using assms f candle_times [OF f, symmetric] by (auto simp: ComputeHistorical_def cand_def)
qed

definition demo_point :: "string \<Rightarrow> int \<Rightarrow> int \<Rightarrow> Candle" where
  "demo_point pair ts close = \<lparr>k_Pair = pair, k_Interval = ''1h'', k_Timestamp = ts, k_Open = Fin (of_int close), k_High = Fin (of_int close),
     k_Low = Fin (of_int close), k_Close = Fin (of_int close), k_Volume = f0, k_Volume24H = f0, k_Source = ''kraken'', k_Finalized = True\<rparr>"

definition demo_held :: "string \<Rightarrow> int \<Rightarrow> Holding" where
  "demo_held a q = \<lparr>h_ID = ''h'' @ a, h_UserID = ''ann'', h_AssetSymbol = a, h_Quantity = Fin (of_int q), h_AvgBuyPrice = Some (Fin 4), h_QuoteCurrency = ''USD'',
     h_Source = ''manual'', h_SourceRef = None, h_Notes = [], h_CreatedAt = 1, h_UpdatedAt = 1\<rparr>"

definition demo_candles :: "string \<Rightarrow> string \<Rightarrow> gotime \<Rightarrow> gotime \<Rightarrow> (string, Candle list) result" where
  "demo_candles pair interval start stop =
     (if pair = ''BTC/USD'' then Inr [demo_point pair 0 10, demo_point pair 7200 20]
      else if pair = ''ETH/USD'' then Inr [demo_point pair 3600 5] else Inl ''no such pair'')"

theorem historical_carries_forward_witness:
  "ComputeHistorical (\<lambda>k. id) None (\<lambda>k. demo_candles) 0 ''ann'' ''USD'' ''1d'' [demo_held ''BTC'' 2, demo_held ''ETH'' 3, demo_held ''DOGE'' 1] =
     Inr [\<lparr>hp_Timestamp = 0, hp_Value = fadd f0 (fmul (Fin 2) (Fin 10))\<rparr>,
          \<lparr>hp_Timestamp = 3600, hp_Value = fadd (fadd f0 (fmul (Fin 2) (Fin 10))) (fmul (Fin 3) (Fin 5))\<rparr>,
          \<lparr>hp_Timestamp = 7200, hp_Value = fadd (fadd f0 (fmul (Fin 2) (Fin 20))) (fmul (Fin 3) (Fin 5))\<rparr>]"
proof -
  let ?hs = "[demo_held ''BTC'' 2, demo_held ''ETH'' 3, demo_held ''DOGE'' 1]"
  have l: "holding_ListByUserID (\<lambda>k. id) None ''ann'' ?hs = Inr ?hs"
    by (simp add: holding_ListByUserID_def query_rows_def demo_held_def)
  have r: "resolveTimeRange 0 ''1d'' = (''1h'', - (24 * Hour), 0)" by (simp add: resolveTimeRange_def)
  let ?cs = "candles_of (\<lambda>pair. demo_candles pair ''1h'' (- (24 * Hour)) 0) ''USD''"
  have c: "concat (map (\<lambda>h. map k_Timestamp (?cs h)) ?hs) = [0, 7200, 3600]"
    by (simp add: candles_of_def hold_pair_def demo_held_def demo_candles_def demo_point_def)
  have u: "(\<Union>h\<in>set ?hs. k_Timestamp ` set (?cs h)) = set (concat (map (\<lambda>h. map k_Timestamp (?cs h)) ?hs))"
    by (simp only: set_concat set_map image_image)
  have t: "sorted_list_of_set (\<Union>h\<in>set ?hs. k_Timestamp ` set (?cs h)) = [0, 3600, 7200]"
    unfolding u c by (simp only: sorted_list_of_set_sort_remdups) simp
  show ?thesis
    using historical_carries_forward [OF l r, of demo_candles "''USD''"]
    unfolding t by (simp add: portfolio_at_def latest_close_def candles_of_def hold_pair_def demo_held_def demo_candles_def demo_point_def)
qed

section \<open>The shape of a valuation\<close>

definition same_but_alloc :: "AssetValuation \<Rightarrow> AssetValuation \<Rightarrow> bool" where
  "same_but_alloc a b \<longleftrightarrow> b = a\<lparr>av_AllocationPct := av_AllocationPct b\<rparr> \<and> (\<not> av_Priced a \<longrightarrow> b = a)"

lemma same_but_alloc_refl [simp]: "same_but_alloc a a"
  by (simp add: same_but_alloc_def)

lemma same_but_alloc_trans: "same_but_alloc a b \<Longrightarrow> same_but_alloc b c \<Longrightarrow> same_but_alloc a c"
  by (cases a; cases b; cases c) (auto simp: same_but_alloc_def)

lemma alloc_scan_idx:
  "alloc_scan i as (s, j, l) = (s', Some k, l') \<Longrightarrow> (j = Some k) \<or> (i \<le> k \<and> k < i + length as \<and> av_Priced (as ! (k - i)))"
proof (induction i as "(s, j, l)" arbitrary: s j l rule: alloc_scan.induct)
  case (2 i a as s j l)
  have "k = i \<or> i < k \<Longrightarrow> (a # as) ! (k - i) = (if k = i then a else as ! (k - Suc i))"
    by (auto simp: nth_Cons')
  then show ?case using 2 by (fastforce split: if_splits)
qed simp

lemma list_all2_chain:
  "list_all2 P xs ys \<Longrightarrow> list_all2 Q ys zs \<Longrightarrow> (\<And>a b c. P a b \<Longrightarrow> Q b c \<Longrightarrow> R a c) \<Longrightarrow> list_all2 R xs zs"
  by (auto simp: list_all2_conv_all_nth)

lemma adjust_same: "list_all2 same_but_alloc avs (adjustAllocationRounding avs)"
proof -
  have "list_all2 same_but_alloc avs (avs[i := (avs ! i)\<lparr>av_AllocationPct := x\<rparr>])" if "av_Priced (avs ! i)" for i x
  proof (cases "i < length avs")
    case True
    then show ?thesis using that by (auto simp: list_all2_conv_all_nth nth_list_update same_but_alloc_def)
  next
    case False
    then have "avs[i := (avs ! i)\<lparr>av_AllocationPct := x\<rparr>] = avs" by (intro list_update_beyond) simp
    then show ?thesis by (simp add: list_all2_same)
  qed
  then show ?thesis
    by (auto simp: adjustAllocationRounding_def list.rel_refl split: prod.split option.split dest: alloc_scan_idx)
qed

lemma allocate_same: "list_all2 same_but_alloc avs (allocate avs)"
proof -
  have "list_all2 same_but_alloc avs (map (\<lambda>a. if av_Priced a then a\<lparr>av_AllocationPct := x a\<rparr> else a) avs)" for x
    by (auto simp: list_all2_conv_all_nth same_but_alloc_def)
  from list_all2_chain [OF this adjust_same same_but_alloc_trans] show ?thesis
    by (simp add: allocate_def Let_def list_all2_same)
qed

text \<open>
  What an entry of a valuation says about its holding: it copies the holding; it is priced exactly when the market had a price, and an
  unpriced entry carries no value, no share and no profit; a profit is there exactly for a priced holding with an average buy price, a
  percentage only beside a profit and never for a buy price of zero.
\<close>

definition entry_ok :: "(string \<Rightarrow> (string, float64) result) \<Rightarrow> string \<Rightarrow> Holding \<Rightarrow> AssetValuation \<Rightarrow> bool" where
  "entry_ok price quote h a \<longleftrightarrow>
     av_AssetSymbol a = h_AssetSymbol h \<and> av_Quantity a = h_Quantity h \<and> av_AvgBuyPrice a = h_AvgBuyPrice h \<and> av_Source a = h_Source h \<and>
     (case price (hold_pair h quote) of
        Inl e \<Rightarrow> \<not> av_Priced a \<and> av_CurrentPrice a = f0 \<and> av_CurrentValue a = f0 \<and> av_AllocationPct a = f0
      | Inr p \<Rightarrow> av_Priced a \<and> av_CurrentPrice a = p \<and> av_CurrentValue a = fmul (h_Quantity h) p) \<and>
     (av_UnrealizedPnL a \<noteq> None \<longleftrightarrow> av_Priced a \<and> h_AvgBuyPrice h \<noteq> None) \<and>
     (av_UnrealizedPct a \<noteq> None \<longleftrightarrow> av_Priced a \<and> (\<exists>b. h_AvgBuyPrice h = Some b \<and> \<not> feq b f0))"

lemma value_holding_ok: "entry_ok price quote h (value_holding price quote h)"
  by (auto simp: entry_ok_def value_holding_def Let_def split: sum.split option.split)

lemma entry_ok_alloc: "entry_ok price quote h a \<Longrightarrow> same_but_alloc a b \<Longrightarrow> entry_ok price quote h b"
  by (cases a; cases b) (auto simp: entry_ok_def same_but_alloc_def split: sum.splits)

lemma total_value_holdings:
  "total_value (map (value_holding price quote) hs) =
     foldl (\<lambda>s h. case price (hold_pair h quote) of Inl e \<Rightarrow> s | Inr p \<Rightarrow> fadd s (fmul (h_Quantity h) p)) f0 hs"
proof -
  have "(if av_Priced (value_holding price quote h) then fadd s (av_CurrentValue (value_holding price quote h)) else s) =
      (case price (hold_pair h quote) of Inl e \<Rightarrow> s | Inr p \<Rightarrow> fadd s (fmul (h_Quantity h) p))" for s h
    by (auto simp: value_holding_def Let_def split: sum.split option.split)
  then show ?thesis by (simp add: total_value_def foldl_map)
qed

text \<open>
  \<^bold>\<open>C30\<close>. A valuation is well-formed. It has one entry per holding of the user, in the order of the holdings; every entry copies its
  holding, is priced exactly when the market has a price, and has its optional fields set exactly when they are defined; an unpriced
  holding has no value and no share; and the total is the sum of the values of the priced holdings and of nothing else.
\<close>

theorem valuation_wellformed:
  assumes "ComputeValuation srt err price now userID quote rs = Inr va"
  shows "\<exists>hs. holding_ListByUserID srt err userID rs = Inr hs \<and> list_all2 (entry_ok price quote) hs (va_Assets va) \<and>
     va_TotalValue va = foldl (\<lambda>s h. case price (hold_pair h quote) of Inl e \<Rightarrow> s | Inr p \<Rightarrow> fadd s (fmul (h_Quantity h) p)) f0 hs"
proof -
  from assms obtain hs where hs: "holding_ListByUserID srt err userID rs = Inr hs" by (auto simp: ComputeValuation_def split: sum.splits)
  have "list_all2 (entry_ok price quote) hs (map (value_holding price quote) hs)"
    by (simp add: list_all2_conv_all_nth value_holding_ok)
  then have "list_all2 (entry_ok price quote) hs (allocate (map (value_holding price quote) hs))"
    by (rule list_all2_chain [OF _ allocate_same entry_ok_alloc])
  then show ?thesis using assms hs by (auto simp: ComputeValuation_def Let_def total_value_holdings)
qed

theorem valuation_wellformed_witness:
  "entry_ok (\<lambda>p. if p = ''BTC/USD'' then Inr (Fin 10) else Inl ''no price'') ''USD'' (demo_held ''ETH'' 3)
     (va_Assets (projr (ComputeValuation (\<lambda>k. id) None (\<lambda>p. if p = ''BTC/USD'' then Inr (Fin 10) else Inl ''no price'') 0 ''ann'' ''USD''
       [demo_held ''BTC'' 2, demo_held ''ETH'' 3])) ! 1)"
proof -
  let ?price = "\<lambda>p. if p = ''BTC/USD'' then Inr (Fin 10) else Inl ''no price''" and ?hs = "[demo_held ''BTC'' 2, demo_held ''ETH'' 3]"
  have l: "holding_ListByUserID (\<lambda>k. id) None ''ann'' ?hs = Inr ?hs"
    by (simp add: holding_ListByUserID_def query_rows_def demo_held_def)
  then obtain va where va: "ComputeValuation (\<lambda>k. id) None ?price 0 ''ann'' ''USD'' ?hs = Inr va"
    by (simp add: ComputeValuation_def Let_def)
  from valuation_wellformed [OF va] l have "list_all2 (entry_ok ?price ''USD'') ?hs (va_Assets va)" by auto
  then have "entry_ok ?price ''USD'' (?hs ! 1) (va_Assets va ! 1)" by (rule list_all2_nthD) simp
  then show ?thesis unfolding va by simp
qed

section \<open>Who is told\<close>

text \<open>\<^verbatim>\<open>HeldAssetPairs\<close> builds a set, \<^verbatim>\<open>HasRelevantUpdate\<close> looks the updated pairs up in it.\<close>

definition HeldAssetPairs :: "Holding list \<Rightarrow> string \<Rightarrow> string set" where
  "HeldAssetPairs hs quote = set (map (\<lambda>h. h_AssetSymbol h @ quote) hs)"

definition HasRelevantUpdate :: "string set \<Rightarrow> string list \<Rightarrow> bool" where
  "HasRelevantUpdate held updatedPairs = list_ex (\<lambda>pair. pair \<in> held) updatedPairs"

text \<open>
  The broadcaster: the subscriptions in their order, by the address of their object, with the contents of their channels. A channel
  holds four values; a value for a full channel is dropped.
\<close>

record broadcaster =
  b_subs :: "nat list"
  b_chan :: "nat \<Rightarrow> uuid_text list"
  b_next :: nat

definition NewPortfolioUpdateBroadcaster :: broadcaster where
  "NewPortfolioUpdateBroadcaster = \<lparr>b_subs = [], b_chan = (\<lambda>_. []), b_next = 0\<rparr>"

definition chan_cap :: nat where "chan_cap = 4"

definition try_send :: "uuid_text \<Rightarrow> uuid_text list \<Rightarrow> uuid_text list" where
  "try_send u q = (if length q < chan_cap then q @ [u] else q)"

definition NotifyPortfolioUpdate :: "uuid_text \<Rightarrow> broadcaster \<Rightarrow> broadcaster" where
  "NotifyPortfolioUpdate u b = fold (\<lambda>s b. b\<lparr>b_chan := (b_chan b)(s := try_send u (b_chan b s))\<rparr>) (b_subs b) b"

definition Subscribe :: "broadcaster \<Rightarrow> nat \<times> broadcaster" where
  "Subscribe b = (b_next b, b\<lparr>b_subs := b_subs b @ [b_next b], b_chan := (b_chan b)(b_next b := []), b_next := Suc (b_next b)\<rparr>)"

definition Unsubscribe :: "nat \<Rightarrow> broadcaster \<Rightarrow> broadcaster" where
  "Unsubscribe s b = b\<lparr>b_subs := remove1 s (b_subs b)\<rparr>"

text \<open>The stream handler takes the next value from its channel.\<close>

definition receive :: "nat \<Rightarrow> broadcaster \<Rightarrow> uuid_text option \<times> broadcaster" where
  "receive s b = (case b_chan b s of [] \<Rightarrow> (None, b) | u # us \<Rightarrow> (Some u, b\<lparr>b_chan := (b_chan b)(s := us)\<rparr>))"

inductive bstep :: "broadcaster \<Rightarrow> broadcaster \<Rightarrow> bool" where
  notify: "bstep b (NotifyPortfolioUpdate u b)"
| subscribe: "bstep b (snd (Subscribe b))"
| unsubscribe: "bstep b (Unsubscribe s b)"
| receive: "bstep b (snd (receive s b))"

lemma notify_frame: "b_subs (NotifyPortfolioUpdate u b) = b_subs b" "b_next (NotifyPortfolioUpdate u b) = b_next b"
  unfolding NotifyPortfolioUpdate_def by (rule fold_frame, simp)+

lemma notify_chan:
  "distinct (b_subs b) \<Longrightarrow> b_chan (NotifyPortfolioUpdate u b) s = (if s \<in> set (b_subs b) then try_send u (b_chan b s) else b_chan b s)"
  unfolding NotifyPortfolioUpdate_def by (rule fold_boxes) auto

interpretation bus: fan_out b_subs b_next b_chan "[]" try_send NotifyPortfolioUpdate Subscribe Unsubscribe
  by unfold_locales (simp_all add: notify_frame notify_chan Subscribe_def Unsubscribe_def)

text \<open>The subscriptions of the contract, and no channel holds more than its capacity.\<close>

definition b_ok :: "broadcaster \<Rightarrow> bool" where
  "b_ok b \<longleftrightarrow> bus.subs_ok b \<and> (\<forall>s. length (b_chan b s) \<le> chan_cap)"

lemma try_send_bound: "length q \<le> chan_cap \<Longrightarrow> length (try_send u q) \<le> chan_cap"
  by (simp add: try_send_def)

lemma bstep_ok: "bstep b b' \<Longrightarrow> b_ok b \<Longrightarrow> b_ok b'"
proof (induction rule: bstep.induct)
  case (notify b u)
  then show ?case by (auto simp: b_ok_def bus.publish_ok bus.publish_box bus.subs_ok_def notify_frame notify_chan try_send_bound)
next
  case (subscribe b)
  then show ?case by (simp add: b_ok_def bus.join_ok bus.join_box)
next
  case (unsubscribe b s)
  then show ?case by (simp add: b_ok_def bus.leave_ok bus.leave_box)
next
  case (receive b s)
  have subs_ok_same: "bus.subs_ok (b\<lparr>b_chan := f\<rparr>) = bus.subs_ok b" for f by (simp add: bus.subs_ok_def)
  have "length us \<le> chan_cap" if "b_chan b s = u # us" for u us
    using receive that unfolding b_ok_def by (metis Suc_leD length_Cons)
  with receive show ?case by (auto simp: b_ok_def receive_def subs_ok_same split: list.split)
qed

text \<open>
  Notifications never pile up and never wait: in every state the broadcaster can reach, every channel holds at most four updates,
  and notifying appends the user to every subscribed channel that has room, leaves the full ones and those of nobody as they are, and
  keeps the subscriptions.
\<close>

lemma broadcaster_bounded:
  assumes "bstep\<^sup>*\<^sup>* NewPortfolioUpdateBroadcaster b"
  shows "length (b_chan b s) \<le> chan_cap \<and> b_subs (NotifyPortfolioUpdate u b) = b_subs b \<and>
     b_chan (NotifyPortfolioUpdate u b) s =
       (if s \<in> set (b_subs b) \<and> length (b_chan b s) < chan_cap then b_chan b s @ [u] else b_chan b s)"
proof -
  from assms have "b_ok b"
  proof (induction rule: rtranclp_induct)
    case base
    show ?case by (simp add: b_ok_def bus.subs_ok_def NewPortfolioUpdateBroadcaster_def)
  qed (rule bstep_ok)
  then show ?thesis by (auto simp: b_ok_def bus.subs_ok_def notify_chan notify_frame try_send_def)
qed

definition demo_bus :: "nat \<Rightarrow> broadcaster" where
  "demo_bus n = (NotifyPortfolioUpdate ''eve'' ^^ n) (snd (Subscribe NewPortfolioUpdateBroadcaster))"

lemma demo_bus_reachable: "bstep\<^sup>*\<^sup>* NewPortfolioUpdateBroadcaster (demo_bus n)"
proof (induction n)
  case 0
  show ?case using bstep.subscribe [of NewPortfolioUpdateBroadcaster] by (simp add: demo_bus_def)
next
  case (Suc n)
  then show ?case
    using bstep.notify [of "demo_bus n" "''eve''"] by (simp add: demo_bus_def rtranclp.rtrancl_into_rtrancl)
qed

text \<open>After four updates of another user the subscriber misses the update of its own user.\<close>

lemma broadcaster_drops_when_full:
  "length (b_chan (demo_bus 4) 0) \<le> chan_cap \<and> b_subs (demo_bus 4) = [0] \<and>
   b_chan (NotifyPortfolioUpdate ''ann'' (demo_bus 4)) 0 = [''eve'', ''eve'', ''eve'', ''eve''] \<and>
   b_chan (NotifyPortfolioUpdate ''ann'' (demo_bus 1)) 0 = [''eve'', ''ann'']"
proof -
  have "b_chan (demo_bus 4) 0 = [''eve'', ''eve'', ''eve'', ''eve'']" "b_subs (demo_bus 4) = [0]"
    "b_chan (demo_bus 1) 0 = [''eve'']" "b_subs (demo_bus 1) = [0]"
    by code_simp+
  then show ?thesis
    using broadcaster_bounded [OF demo_bus_reachable, of 4 0 "''ann''"] broadcaster_bounded [OF demo_bus_reachable, of 1 0 "''ann''"]
    by (simp add: chan_cap_def)
qed

end
