(* ===== verification/Catalog.thy ===== *)
theory Catalog
  imports Planner_Runtime Market_Repo
begin

text \<open>
  \<^verbatim>\<open>service/catalog.go\<close> and \<^verbatim>\<open>storage/postgres/catalog_repository.go\<close>: the assets and trading pairs the program
  tracks. \<^verbatim>\<open>Seed\<close> runs at every start with the configured quote currencies and brings the tables in line with them, deleting the data of
  the pairs that are no longer wanted. The model holds every table that \<^verbatim>\<open>deletePairData\<close> clears, and the two it does not.
\<close>

section \<open>The catalog of a configuration\<close>

record Asset =
  a_Symbol :: string
  a_Name :: string
  a_Type :: string
  a_CirculatingSupply :: float64

definition crypto :: "string \<Rightarrow> string \<Rightarrow> int \<Rightarrow> Asset" where
  "crypto s n c = \<lparr>a_Symbol = s, a_Name = n, a_Type = ''crypto'', a_CirculatingSupply = Fin (of_int c)\<rparr>"

definition baseAssets :: "Asset list" where
  "baseAssets =
     [crypto ''BTC'' ''Bitcoin'' 19850000, crypto ''ETH'' ''Ethereum'' 120700000, crypto ''XRP'' ''XRP'' 58400000000,
      crypto ''SOL'' ''Solana'' 510000000, crypto ''DOGE'' ''Dogecoin'' 148000000000, crypto ''ADA'' ''Cardano'' 35300000000,
      crypto ''AVAX'' ''Avalanche'' 410000000, crypto ''LINK'' ''Chainlink'' 638000000]"

definition quote_symbol :: "string \<Rightarrow> string" where
  "quote_symbol quote = map ascii_upper (TrimSpace quote)"

definition quote_asset :: "string \<Rightarrow> Asset" where
  "quote_asset symbol =
     (let (name, assetType) =
        (if symbol = ''USDT'' then (''Tether USDt'', ''stablecoin'')
         else if symbol = ''USD'' then (''US Dollar'', ''fiat'')
         else if symbol = ''EUR'' then (''Euro'', ''fiat'') else (symbol, ''quote''))
      in \<lparr>a_Symbol = symbol, a_Name = name, a_Type = assetType, a_CirculatingSupply = f0\<rparr>)"

definition bootstrapAssets :: "string list \<Rightarrow> Asset list" where
  "bootstrapAssets quotes = baseAssets @ map quote_asset (filter (\<lambda>s. s \<noteq> []) (map quote_symbol quotes))"

definition bootstrapPairs :: "Asset list \<Rightarrow> Pair list" where
  "bootstrapPairs assets =
     (let bases = map a_Symbol (filter (\<lambda>a. a_Type a = ''crypto'') assets);
          quotes = map a_Symbol (filter (\<lambda>a. a_Type a \<in> {''fiat'', ''stablecoin'', ''quote''}) assets)
      in concat (map (\<lambda>b. map (\<lambda>q. \<lparr>p_Base = b, p_Quote = q, p_Symbol = b @ q\<rparr>) quotes) bases))"

section \<open>The tables\<close>

record catalog_db =
  cat_assets :: "Asset list"
  cat_pairs :: "Pair list"
  cat_tasks :: "task_row list"
  cat_sync :: "sync_row list"
  cat_market :: market_db
  cat_coverage :: "coverage_row list"
  cat_integrity :: "integrity_row list"

definition fk_violation :: string where "fk_violation = ''violates foreign key constraint''"

definition put_asset :: "Asset \<Rightarrow> Asset list \<Rightarrow> Asset list" where
  "put_asset a = sql_upsert a_Symbol a
     (\<lambda>r. r\<lparr>a_Name := a_Name a, a_Type := a_Type a, a_CirculatingSupply := a_CirculatingSupply a\<rparr>)"

text \<open>Both columns of a pair reference \<^verbatim>\<open>assets(symbol)\<close>.\<close>

definition put_pair :: "Asset list \<Rightarrow> Pair \<Rightarrow> Pair list \<Rightarrow> (string, Pair list) result" where
  "put_pair assets p ps =
     (if p_Base p \<in> a_Symbol ` set assets \<and> p_Quote p \<in> a_Symbol ` set assets
      then Inr (sql_upsert p_Symbol p (\<lambda>r. r\<lparr>p_Base := p_Base p, p_Quote := p_Quote p\<rparr>) ps)
      else Inl fk_violation)"

fun put_pairs :: "Asset list \<Rightarrow> Pair list \<Rightarrow> Pair list \<Rightarrow> (string, Pair list) result" where
  "put_pairs assets [] ps = Inr ps"
| "put_pairs assets (p # rest) ps = (case put_pair assets p ps of Inl e \<Rightarrow> Inl e | Inr ps' \<Rightarrow> put_pairs assets rest ps')"

definition deletePairData :: "string \<Rightarrow> catalog_db \<Rightarrow> catalog_db" where
  "deletePairData symbol db =
     db\<lparr>cat_tasks := sql_delete (\<lambda>r. r_pair r = symbol) (cat_tasks db),
        cat_sync := sql_delete (\<lambda>r. s_pair r = symbol) (cat_sync db),
        cat_market := (cat_market db)
          \<lparr>raw_candles := sql_delete (\<lambda>c. k_Pair c = symbol) (raw_candles (cat_market db)),
           candles_1h := sql_delete (\<lambda>c. k_Pair c = symbol) (candles_1h (cat_market db)),
           candles_1d := sql_delete (\<lambda>c. k_Pair c = symbol) (candles_1d (cat_market db))\<rparr>,
        cat_pairs := sql_delete (\<lambda>p. p_Symbol p = symbol) (cat_pairs db)\<rparr>"

definition drop_pairs :: "string list \<Rightarrow> catalog_db \<Rightarrow> catalog_db" where
  "drop_pairs desired db =
     fold (\<lambda>symbol db. if symbol \<in> set desired then db else deletePairData symbol db) (map p_Symbol (cat_pairs db)) db"

text \<open>An asset that a pair still references cannot be deleted.\<close>

fun drop_assets :: "string list \<Rightarrow> string list \<Rightarrow> catalog_db \<Rightarrow> (string, catalog_db) result" where
  "drop_assets desired [] db = Inr db"
| "drop_assets desired (symbol # rest) db =
     (if symbol \<in> set desired then drop_assets desired rest db
      else if list_ex (\<lambda>p. p_Base p = symbol \<or> p_Quote p = symbol) (cat_pairs db) then Inl fk_violation
      else drop_assets desired rest (db\<lparr>cat_assets := sql_delete (\<lambda>a. a_Symbol a = symbol) (cat_assets db)\<rparr>))"

text \<open>One transaction: with any error nothing changes. \<open>err\<close> is the first statement that fails for reasons of its own.\<close>

definition ReplaceCatalog :: "string option \<Rightarrow> Asset list \<Rightarrow> Pair list \<Rightarrow> catalog_db \<Rightarrow> (string, unit) result \<times> catalog_db" where
  "ReplaceCatalog err assets pairs db =
     (case err of
        Some e \<Rightarrow> (Inl e, db)
      | None \<Rightarrow>
          let db1 = db\<lparr>cat_assets := fold put_asset assets (cat_assets db)\<rparr>
          in case put_pairs (cat_assets db1) pairs (cat_pairs db1) of
               Inl e \<Rightarrow> (Inl e, db)
             | Inr ps \<Rightarrow>
                 let db2 = drop_pairs (map p_Symbol pairs) (db1\<lparr>cat_pairs := ps\<rparr>)
                 in case drop_assets (map a_Symbol assets) (map a_Symbol (cat_assets db2)) db2 of
                      Inl e \<Rightarrow> (Inl e, db)
                    | Inr db3 \<Rightarrow> (Inr (), db3))"

definition Seed :: "string option \<Rightarrow> string list \<Rightarrow> catalog_db \<Rightarrow> (string, unit) result \<times> catalog_db" where
  "Seed err quotes db = (let assets = bootstrapAssets quotes in ReplaceCatalog err assets (bootstrapPairs assets) db)"

definition ListAssets :: "string option \<Rightarrow> catalog_db \<Rightarrow> (string, Asset list) result" where
  "ListAssets err db =
     (case err of Some e \<Rightarrow> Inl e | None \<Rightarrow> Inr (sort_key (\<lambda>a. (a_Type a, a_Symbol a)) (cat_assets db)))"

definition ListPairs :: "string option \<Rightarrow> catalog_db \<Rightarrow> (string, Pair list) result" where
  "ListPairs err db = (case err of Some e \<Rightarrow> Inl e | None \<Rightarrow> Inr (sort_key p_Symbol (cat_pairs db)))"

section \<open>What seeding does\<close>

definition wanted :: "string list \<Rightarrow> string set" where
  "wanted quotes = p_Symbol ` set (bootstrapPairs (bootstrapAssets quotes))"

lemma keys_sql_upsert:
  assumes "\<And>r. key (f r) = key r"
  shows "key ` set (sql_upsert key new f rs) = insert (key new) (key ` set rs)"
proof -
  have "key ` set (sql_update P f rs) = key ` set rs" for P
    using map_sql_update [of P key f rs] assms by (metis list.set_map)
  then show ?thesis by (auto simp: sql_upsert_def)
qed

lemma set_put_pair:
  "put_pair assets p ps = Inr ps' \<Longrightarrow> p_Symbol ` set ps' = insert (p_Symbol p) (p_Symbol ` set ps)"
proof -
  assume "put_pair assets p ps = Inr ps'"
  then have "ps' = sql_upsert p_Symbol p (\<lambda>r. r\<lparr>p_Base := p_Base p, p_Quote := p_Quote p\<rparr>) ps"
    by (auto simp: put_pair_def split: if_splits)
  then show ?thesis by (simp add: keys_sql_upsert)
qed

lemma put_pairs_symbols: "put_pairs assets rest ps = Inr ps' \<Longrightarrow> p_Symbol ` set ps' = p_Symbol ` set rest \<union> p_Symbol ` set ps"
proof (induction rest arbitrary: ps)
  case (Cons p rest)
  then show ?case using set_put_pair [of assets p ps] by (auto split: sum.splits)
qed simp

lemma put_pairs_succeed:
  "\<forall>p\<in>set rest. p_Base p \<in> a_Symbol ` set assets \<and> p_Quote p \<in> a_Symbol ` set assets \<Longrightarrow> \<exists>ps'. put_pairs assets rest ps = Inr ps'"
  by (induction rest arbitrary: ps) (auto simp: put_pair_def)

lemma set_put_assets: "a_Symbol ` set (fold put_asset as rs) = a_Symbol ` set as \<union> a_Symbol ` set rs"
proof (induction as arbitrary: rs)
  case (Cons a as)
  have "a_Symbol ` set (put_asset a rs) = insert (a_Symbol a) (a_Symbol ` set rs)"
    by (simp add: put_asset_def keys_sql_upsert)
  then show ?case using Cons by auto
qed simp

lemma bootstrap_fk:
  "p \<in> set (bootstrapPairs assets) \<Longrightarrow> p_Base p \<in> a_Symbol ` set assets \<and> p_Quote p \<in> a_Symbol ` set assets"
  by (auto simp: bootstrapPairs_def)

text \<open>Dropping pairs filters every table it touches by the symbols to drop.\<close>

definition without :: "string set \<Rightarrow> catalog_db \<Rightarrow> catalog_db" where
  "without S db =
     db\<lparr>cat_tasks := filter (\<lambda>r. r_pair r \<notin> S) (cat_tasks db),
        cat_sync := filter (\<lambda>r. s_pair r \<notin> S) (cat_sync db),
        cat_market := \<lparr>candles_1h = filter (\<lambda>c. k_Pair c \<notin> S) (candles_1h (cat_market db)),
           candles_1d = filter (\<lambda>c. k_Pair c \<notin> S) (candles_1d (cat_market db)),
           raw_candles = filter (\<lambda>c. k_Pair c \<notin> S) (raw_candles (cat_market db))\<rparr>,
        cat_pairs := filter (\<lambda>p. p_Symbol p \<notin> S) (cat_pairs db)\<rparr>"

lemma without_without: "without A (without B db) = without (A \<union> B) db"
  by (simp add: without_def conj_commute)

lemma deletePairData_without: "deletePairData s db = without {s} db"
  by (simp add: deletePairData_def without_def sql_delete_def)

lemma drop_pairs_without: "drop_pairs desired db = without (p_Symbol ` set (cat_pairs db) - set desired) db"
proof -
  have "fold (\<lambda>symbol db. if symbol \<in> set desired then db else deletePairData symbol db) syms db = without (set syms - set desired) db" for syms
  proof (induction syms arbitrary: db)
    case Nil
    show ?case by (simp add: without_def)
  next
    case (Cons s syms)
    have *: "set (s # syms) - set desired = set syms - set desired" if "s \<in> set desired" using that by auto
    have "set (s # syms) - set desired = (set syms - set desired) \<union> {s}" if "s \<notin> set desired" using that by auto
    with Cons * show ?case by (simp add: deletePairData_without without_without)
  qed
  then show ?thesis by (simp add: drop_pairs_def)
qed

lemma drop_assets_ok:
  assumes "\<forall>p\<in>set (cat_pairs db). p_Base p \<in> set desired \<and> p_Quote p \<in> set desired"
  shows "drop_assets desired syms db = Inr (db\<lparr>cat_assets := filter (\<lambda>a. a_Symbol a \<in> set desired \<or> a_Symbol a \<notin> set syms) (cat_assets db)\<rparr>)"
  using assms
proof (induction syms arbitrary: db)
  case (Cons s syms)
  then show ?case
    by (auto simp: list_ex_iff sql_delete_def intro!: arg_cong [where f = "\<lambda>as. db\<lparr>cat_assets := as\<rparr>"] filter_cong)
qed simp

lemma put_pair_row:
  "put_pair assets p0 ps = Inr ps' \<Longrightarrow> p \<in> set ps' \<Longrightarrow>
     if p_Symbol p = p_Symbol p0 then p_Base p = p_Base p0 \<and> p_Quote p = p_Quote p0 else p \<in> set ps"
  by (fastforce simp: put_pair_def sql_upsert_def set_sql_update image_iff split: if_splits)

lemma put_pairs_row:
  assumes "put_pairs assets rest ps = Inr ps'" "p \<in> set ps'"
  shows "if p_Symbol p \<in> p_Symbol ` set rest then \<exists>q\<in>set rest. p_Base p = p_Base q \<and> p_Quote p = p_Quote q else p \<in> set ps"
  using assms
proof (induction rest arbitrary: ps)
  case (Cons p0 rest)
  from Cons.prems(1) obtain ps1 where ps1: "put_pair assets p0 ps = Inr ps1" "put_pairs assets rest ps1 = Inr ps'"
    by (auto split: sum.splits)
  show ?case using Cons.IH [OF ps1(2) Cons.prems(2)] put_pair_row [OF ps1(1), of p] by (auto split: if_splits)
qed simp

lemma image_filtered: "D \<subseteq> f ` A \<Longrightarrow> f ` {x \<in> A. f x \<in> D \<or> f x \<notin> f ` A} = D"
  by blast

lemma quote_asset_simps [simp]:
  "a_Symbol (quote_asset s) = s" "a_Type (quote_asset s) \<in> {''fiat'', ''stablecoin'', ''quote''}" "a_Type (quote_asset s) \<noteq> ''crypto''"
  by (simp_all add: quote_asset_def)

lemma base_types: "a \<in> set baseAssets \<Longrightarrow> a_Type a = ''crypto''"
  by (auto simp: baseAssets_def crypto_def)

lemma wanted_symbols:
  "wanted quotes = {b @ q | b q. b \<in> a_Symbol ` set baseAssets \<and> q \<in> quote_symbol ` set quotes \<and> q \<noteq> []}"
proof -
  have b: "filter (\<lambda>a. a_Type a = ''crypto'') (bootstrapAssets quotes) = baseAssets"
    by (simp add: bootstrapAssets_def filter_id_conv base_types filter_empty_conv)
  have q: "filter (\<lambda>a. a_Type a \<in> {''fiat'', ''stablecoin'', ''quote''}) (bootstrapAssets quotes) =
      map quote_asset (filter (\<lambda>s. s \<noteq> []) (map quote_symbol quotes))"
    using quote_asset_simps(2) by (auto simp: bootstrapAssets_def filter_id_conv filter_empty_conv base_types simp del: quote_asset_simps(2))
  show ?thesis
    unfolding wanted_def bootstrapPairs_def b q Let_def by (fastforce simp: image_iff)
qed

text \<open>Seeding as one update of the tables.\<close>

lemma Seed_ok:
  "\<exists>db'. Seed None quotes db = (Inr (), db') \<and>
     p_Symbol ` set (cat_pairs db') = wanted quotes \<and>
     a_Symbol ` set (cat_assets db') = a_Symbol ` set (bootstrapAssets quotes) \<and>
     (\<forall>p\<in>set (cat_pairs db'). p_Base p \<in> a_Symbol ` set (cat_assets db') \<and> p_Quote p \<in> a_Symbol ` set (cat_assets db')) \<and>
     (let S = p_Symbol ` set (cat_pairs db) - wanted quotes
      in cat_tasks db' = cat_tasks (without S db) \<and> cat_sync db' = cat_sync (without S db) \<and> cat_market db' = cat_market (without S db) \<and>
         cat_coverage db' = cat_coverage db \<and> cat_integrity db' = cat_integrity db)"
proof -
  define as ps where "as = bootstrapAssets quotes" and "ps = bootstrapPairs as"
  define db1 where "db1 = db\<lparr>cat_assets := fold put_asset as (cat_assets db)\<rparr>"
  have syms1: "a_Symbol ` set (cat_assets db1) = a_Symbol ` set as \<union> a_Symbol ` set (cat_assets db)"
    by (simp add: db1_def set_put_assets)
  have "\<forall>p\<in>set ps. p_Base p \<in> a_Symbol ` set (cat_assets db1) \<and> p_Quote p \<in> a_Symbol ` set (cat_assets db1)"
    using bootstrap_fk unfolding ps_def syms1 by blast
  then obtain ps' where ps': "put_pairs (cat_assets db1) ps (cat_pairs db1) = Inr ps'" using put_pairs_succeed by blast
  have w: "set (map p_Symbol ps) = wanted quotes" by (simp add: wanted_def ps_def as_def)
  define S where "S = p_Symbol ` set ps' - wanted quotes"
  have S: "S = p_Symbol ` set (cat_pairs db) - wanted quotes"
    using put_pairs_symbols [OF ps'] w by (auto simp: S_def db1_def)
  define db2 where "db2 = without S (db1\<lparr>cat_pairs := ps'\<rparr>)"
  have fk: "\<forall>p\<in>set (cat_pairs db2). p_Base p \<in> set (map a_Symbol as) \<and> p_Quote p \<in> set (map a_Symbol as)"
  proof
    fix p assume "p \<in> set (cat_pairs db2)"
    then have "p \<in> set ps'" "p_Symbol p \<in> wanted quotes" by (auto simp: db2_def without_def S_def)
    then obtain q where "q \<in> set ps" "p_Base p = p_Base q" "p_Quote p = p_Quote q"
      using put_pairs_row [OF ps', of p] w by auto
    then show "p_Base p \<in> set (map a_Symbol as) \<and> p_Quote p \<in> set (map a_Symbol as)"
      using bootstrap_fk [of q as] by (simp add: ps_def)
  qed
  define db3 where "db3 = db2\<lparr>cat_assets := filter (\<lambda>a. a_Symbol a \<in> set (map a_Symbol as) \<or> a_Symbol a \<notin> set (map a_Symbol (cat_assets db2))) (cat_assets db2)\<rparr>"
  have "Seed None quotes db = (Inr (), db3)"
  proof -
    have "drop_pairs (map p_Symbol ps) (db1\<lparr>cat_pairs := ps'\<rparr>) = db2"
      unfolding drop_pairs_without w db2_def S_def by simp
    then have "ReplaceCatalog None as ps db = (Inr (), db3)"
      using ps' drop_assets_ok [OF fk, of "map a_Symbol (cat_assets db2)"]
      unfolding ReplaceCatalog_def Let_def db1_def [symmetric] by (simp add: db3_def)
    then show ?thesis by (simp add: Seed_def as_def ps_def)
  qed
  moreover have "p_Symbol ` set (cat_pairs db3) = wanted quotes"
    using put_pairs_symbols [OF ps'] w by (auto simp: db3_def db2_def without_def S_def image_iff)
  moreover have a3: "a_Symbol ` set (cat_assets db3) = a_Symbol ` set as"
    using syms1 image_filtered [of "a_Symbol ` set as" a_Symbol "set (cat_assets db1)"] by (simp add: db3_def db2_def without_def)
  moreover have "\<forall>p\<in>set (cat_pairs db3). p_Base p \<in> a_Symbol ` set (cat_assets db3) \<and> p_Quote p \<in> a_Symbol ` set (cat_assets db3)"
    using fk unfolding a3 by (simp add: db3_def)
  ultimately show ?thesis
    unfolding S [symmetric] by (intro exI [of _ db3]) (simp add: db3_def db2_def db1_def without_def as_def)
qed

text \<open>
  \<^bold>\<open>C31\<close>. Starting the program brings the catalog in line with its configuration. Whatever the tables held, seeding succeeds unless the
  database fails: no foreign key is ever violated. Afterwards the pairs are exactly the wanted ones and the assets exactly the configured
  ones, every pair refers to assets that exist, and the tasks, progress rows and candles that are gone are exactly those of the pairs that
  were dropped.
\<close>

theorem seed_in_line:
  "\<exists>db'. Seed None quotes db = (Inr (), db') \<and>
     p_Symbol ` set (cat_pairs db') = {b @ q | b q. b \<in> a_Symbol ` set baseAssets \<and> q \<in> quote_symbol ` set quotes \<and> q \<noteq> []} \<and>
     a_Symbol ` set (cat_assets db') = a_Symbol ` set (bootstrapAssets quotes) \<and>
     list_all (\<lambda>p. p_Base p \<in> a_Symbol ` set (cat_assets db') \<and> p_Quote p \<in> a_Symbol ` set (cat_assets db')) (cat_pairs db') \<and>
     (let S = p_Symbol ` set (cat_pairs db) - p_Symbol ` set (cat_pairs db')
      in cat_tasks db' = filter (\<lambda>r. r_pair r \<notin> S) (cat_tasks db) \<and> cat_sync db' = filter (\<lambda>r. s_pair r \<notin> S) (cat_sync db) \<and>
         candles_1h (cat_market db') = filter (\<lambda>c. k_Pair c \<notin> S) (candles_1h (cat_market db)) \<and>
         candles_1d (cat_market db') = filter (\<lambda>c. k_Pair c \<notin> S) (candles_1d (cat_market db)) \<and>
         raw_candles (cat_market db') = filter (\<lambda>c. k_Pair c \<notin> S) (raw_candles (cat_market db)))"
proof -
  obtain db' where db': "Seed None quotes db = (Inr (), db')" "p_Symbol ` set (cat_pairs db') = wanted quotes"
    "a_Symbol ` set (cat_assets db') = a_Symbol ` set (bootstrapAssets quotes)"
    "\<forall>p\<in>set (cat_pairs db'). p_Base p \<in> a_Symbol ` set (cat_assets db') \<and> p_Quote p \<in> a_Symbol ` set (cat_assets db')"
    "cat_tasks db' = cat_tasks (without (p_Symbol ` set (cat_pairs db) - wanted quotes) db)"
    "cat_sync db' = cat_sync (without (p_Symbol ` set (cat_pairs db) - wanted quotes) db)"
    "cat_market db' = cat_market (without (p_Symbol ` set (cat_pairs db) - wanted quotes) db)"
    using Seed_ok [of quotes db] by (auto simp: Let_def)
  show ?thesis
    unfolding wanted_symbols [symmetric]
    by (rule exI [of _ db']) (use db' in \<open>simp add: without_def Let_def list_all_iff\<close>)
qed

section \<open>Coverage that outlives its candles\<close>

lemma Seed_facts:
  assumes "Seed None quotes db = (r, db')"
  shows "p_Symbol ` set (cat_pairs db') = wanted quotes" "cat_coverage db' = cat_coverage db" "cat_integrity db' = cat_integrity db"
    "cat_market db' = cat_market (without (p_Symbol ` set (cat_pairs db) - wanted quotes) db)"
  using Seed_ok [of quotes db] assms by (simp_all add: Let_def)

lemma without_market:
  "set (candles_1h (cat_market (without S db))) = {c \<in> set (candles_1h (cat_market db)). k_Pair c \<notin> S}"
  "set (candles_1d (cat_market (without S db))) = {c \<in> set (candles_1d (cat_market db)). k_Pair c \<notin> S}"
  by (simp_all add: without_def)

lemma seed_twice:
  assumes "symbol \<in> p_Symbol ` set (cat_pairs db)" "symbol \<notin> wanted quotes"
    "Seed None quotes db = (r, db1)" "Seed None quotes' db1 = (r', db2)"
  shows "symbol \<notin> k_Pair ` set (candles_1h (cat_market db2))" "symbol \<notin> k_Pair ` set (candles_1d (cat_market db2))"
  using assms(1,2) unfolding Seed_facts(4) [OF assms(4)] Seed_facts(4) [OF assms(3)] without_market by blast+


definition demo_catalog :: catalog_db where
  "demo_catalog = \<lparr>cat_assets = bootstrapAssets [''EUR''], cat_pairs = [btc_eur], cat_tasks = [], cat_sync = [],
     cat_market = \<lparr>candles_1h = [], candles_1d = [], raw_candles = []\<rparr>,
     cat_coverage = [\<lparr>c_pair = ''BTCEUR'', c_day = 63835516800 * Second, c_is_complete = True, c_updated_at = 0\<rparr>], cat_integrity = []\<rparr>"

lemma demo_wanted: "''BTCEUR'' \<notin> wanted [''USD'']" "''BTCEUR'' \<in> wanted [''EUR'']"
  by (simp_all add: wanted_def, code_simp+)


end
