(* ===== verification/Market_Service.thy ===== *)
theory Market_Service
  imports Fan_Out Go_Time Go_Float
begin

text \<open>
  \<^verbatim>\<open>service/market.go\<close>: the ticker caches and the subscriptions of the browsers' event streams. The repository is an argument.
  A method is the composition of its locked sections, so that the sections can also be interleaved.
\<close>

section \<open>Data\<close>

record Ticker =
  tk_Pair :: string
  tk_Price :: float64
  tk_MarketCap :: float64
  tk_Variation1H :: float64
  tk_Variation24H :: float64
  tk_Variation7D :: float64
  tk_Volume24H :: float64
  tk_High24H :: float64
  tk_Low24H :: float64
  tk_LastUpdateUnix :: int
  tk_Source :: string

record SparklinePoint =
  sp_Timestamp :: int
  sp_Open :: float64
  sp_High :: float64
  sp_Low :: float64
  sp_Close :: float64
  sp_Volume :: float64

record TickerWithSparkline = Ticker +
  tw_Sparkline :: "SparklinePoint list"

text \<open>One stream: the wake-up channel has room for one signal, the pending pairs are a set.\<close>

record MarketSubscription =
  ms_ch :: bool
  ms_pending :: "string list"

text \<open>A slice is \<open>None\<close> when it is nil. Subscriptions are known by the address of their object.\<close>

record MarketService =
  updateChs :: "nat list"
  sub_at :: "nat \<Rightarrow> MarketSubscription"
  next_sub :: nat
  tickerCache :: "(string, Ticker) gomap"
  tickersCache :: "Ticker list option"
  tickersCacheExpiry :: gotime
  cacheSize :: int
  tickersTTL :: duration
  sparklineCache :: "TickerWithSparkline list option"
  sparklineCacheExpiry :: gotime
  sparklineTTL :: duration

definition NewMarketService :: "int \<Rightarrow> duration \<Rightarrow> MarketService" where
  "NewMarketService cap ttl =
     \<lparr>updateChs = [], sub_at = (\<lambda>_. \<lparr>ms_ch = False, ms_pending = []\<rparr>), next_sub = 0, tickerCache = [], tickersCache = None,
      tickersCacheExpiry = 0, cacheSize = cap, tickersTTL = ttl, sparklineCache = None, sparklineCacheExpiry = 0,
      sparklineTTL = 60 * Second\<rparr>"

section \<open>Caches\<close>

text \<open>The second half of \<^verbatim>\<open>Ticker\<close>: the value read from the repository goes into the cache, which is emptied first when it is full.\<close>

definition ticker_store :: "string \<Rightarrow> Ticker \<Rightarrow> MarketService \<Rightarrow> MarketService" where
  "ticker_store p item s =
     (let cache = (if int (length (tickerCache s)) \<ge> cacheSize s then [] else tickerCache s)
      in s\<lparr>tickerCache := gm_put p item cache\<rparr>)"

definition svc_Ticker :: "(string \<Rightarrow> (string, Ticker) result) \<Rightarrow> string \<Rightarrow> MarketService \<Rightarrow> (string, Ticker) result \<times> MarketService" where
  "svc_Ticker repo p s =
     (case map_of (tickerCache s) p of
        Some item \<Rightarrow> (Inr item, s)
      | None \<Rightarrow> (case repo p of Inl e \<Rightarrow> (Inl e, s) | Inr item \<Rightarrow> (Inr item, ticker_store p item s)))"

text \<open>The repository returns a nil slice when it has no rows, and a nil cache is never used.\<close>

definition svc_Tickers ::
    "(string, Ticker list option) result \<Rightarrow> gotime \<Rightarrow> gotime \<Rightarrow> MarketService \<Rightarrow> (string, Ticker list option) result \<times> MarketService" where
  "svc_Tickers repo now later s =
     (if tickersCache s \<noteq> None \<and> now < tickersCacheExpiry s then (Inr (tickersCache s), s)
      else case repo of
             Inl e \<Rightarrow> (Inl e, s)
           | Inr items \<Rightarrow> (Inr items, s\<lparr>tickersCache := items, tickersCacheExpiry := later + tickersTTL s\<rparr>))"

definition svc_TickersWithSparklines ::
    "(string, TickerWithSparkline list option) result \<Rightarrow> gotime \<Rightarrow> gotime \<Rightarrow> MarketService \<Rightarrow>
       (string, TickerWithSparkline list option) result \<times> MarketService" where
  "svc_TickersWithSparklines repo now later s =
     (if sparklineCache s \<noteq> None \<and> now < sparklineCacheExpiry s then (Inr (sparklineCache s), s)
      else case repo of
             Inl e \<Rightarrow> (Inl e, s)
           | Inr items \<Rightarrow> (Inr items, s\<lparr>sparklineCache := items, sparklineCacheExpiry := later + sparklineTTL s\<rparr>))"

section \<open>Subscriptions\<close>

text \<open>\<^verbatim>\<open>queuePair\<close> is a locked insertion followed by a signal that is dropped when one is waiting.\<close>

definition queue_mark :: "string \<Rightarrow> MarketSubscription \<Rightarrow> MarketSubscription" where
  "queue_mark p m = m\<lparr>ms_pending := List.insert p (ms_pending m)\<rparr>"

definition queue_signal :: "MarketSubscription \<Rightarrow> MarketSubscription" where
  "queue_signal m = m\<lparr>ms_ch := True\<rparr>"

definition queuePair :: "string \<Rightarrow> MarketSubscription \<Rightarrow> MarketSubscription" where
  "queuePair p m = queue_signal (queue_mark p m)"

definition DrainPendingPairs :: "MarketSubscription \<Rightarrow> string list \<times> MarketSubscription" where
  "DrainPendingPairs m = (if ms_pending m = [] then ([], m) else (sort (ms_pending m), m\<lparr>ms_pending := []\<rparr>))"

definition invalidate :: "string \<Rightarrow> MarketService \<Rightarrow> MarketService" where
  "invalidate p s = s\<lparr>tickerCache := AList.delete p (tickerCache s)\<rparr>"

definition market_NotifyUpdate :: "string \<Rightarrow> MarketService \<Rightarrow> MarketService" where
  "market_NotifyUpdate p s =
     fold (\<lambda>a s. s\<lparr>sub_at := (sub_at s)(a := queuePair p (sub_at s a))\<rparr>) (updateChs s) (invalidate p s)"

definition market_Subscribe :: "MarketService \<Rightarrow> nat \<times> MarketService" where
  "market_Subscribe s =
     (next_sub s, s\<lparr>updateChs := updateChs s @ [next_sub s], next_sub := Suc (next_sub s),
        sub_at := (sub_at s)(next_sub s := \<lparr>ms_ch = False, ms_pending = []\<rparr>)\<rparr>)"

definition market_Unsubscribe :: "nat \<Rightarrow> MarketService \<Rightarrow> MarketService" where
  "market_Unsubscribe a s = s\<lparr>updateChs := remove1 a (updateChs s)\<rparr>"

lemma NotifyUpdate_frame:
  "updateChs (market_NotifyUpdate p s) = updateChs s" "next_sub (market_NotifyUpdate p s) = next_sub s"
  "tickerCache (market_NotifyUpdate p s) = AList.delete p (tickerCache s)" "cacheSize (market_NotifyUpdate p s) = cacheSize s"
proof -
  note f = fold_frame [where upd = "\<lambda>a (s :: MarketService). s\<lparr>sub_at := (sub_at s)(a := queuePair p (sub_at s a))\<rparr>"]
  show "updateChs (market_NotifyUpdate p s) = updateChs s" "next_sub (market_NotifyUpdate p s) = next_sub s"
    "tickerCache (market_NotifyUpdate p s) = AList.delete p (tickerCache s)" "cacheSize (market_NotifyUpdate p s) = cacheSize s"
    using f [of updateChs] f [of next_sub] f [of tickerCache] f [of cacheSize] by (simp_all add: market_NotifyUpdate_def invalidate_def)
qed

lemma NotifyUpdate_subs:
  "distinct (updateChs s) \<Longrightarrow> sub_at (market_NotifyUpdate p s) a = (if a \<in> set (updateChs s) then queuePair p (sub_at s a) else sub_at s a)"
  unfolding market_NotifyUpdate_def
  using fold_boxes [of sub_at "\<lambda>a s. s\<lparr>sub_at := (sub_at s)(a := queuePair p (sub_at s a))\<rparr>" "queuePair p" "updateChs s" "invalidate p s" a]
  by (simp add: invalidate_def)

interpretation streams: fan_out updateChs next_sub sub_at "\<lparr>ms_ch = False, ms_pending = []\<rparr>" queuePair market_NotifyUpdate market_Subscribe market_Unsubscribe
  by unfold_locales (simp_all add: NotifyUpdate_frame NotifyUpdate_subs market_Subscribe_def market_Unsubscribe_def)

text \<open>A new stream that has not drained yet has pending exactly the pairs notified since it subscribed.\<close>

lemma new_stream_pending:
  assumes "streams.subs_ok s"
  shows "set (ms_pending (sub_at (fold market_NotifyUpdate ps (snd (market_Subscribe s))) (fst (market_Subscribe s)))) = set ps"
proof -
  have "set (ms_pending (fold queuePair ps m)) = set ps \<union> set (ms_pending m)" for m
    by (induction ps arbitrary: m) (auto simp: queuePair_def queue_mark_def queue_signal_def)
  then show ?thesis by (simp add: streams.joined_receives [OF assms])
qed

section \<open>No update is lost\<close>

text \<open>
  One subscription with its threads: any number of notifiers, each between its two halves, and the stream handler, which waits for a
  signal and then drains.
\<close>

record sub_run =
  run_sub :: MarketSubscription
  marking :: nat
  draining :: bool

text \<open>The steps that only finish what is under way, and all steps.\<close>

inductive finish_step :: "sub_run \<Rightarrow> sub_run \<Rightarrow> bool" where
  signal: "0 < marking r \<Longrightarrow> finish_step r (r\<lparr>run_sub := queue_signal (run_sub r), marking := marking r - 1\<rparr>)"
| wake: "ms_ch (run_sub r) \<Longrightarrow> \<not> draining r \<Longrightarrow> finish_step r (r\<lparr>run_sub := (run_sub r)\<lparr>ms_ch := False\<rparr>, draining := True\<rparr>)"

inductive sub_step :: "sub_run \<Rightarrow> sub_run \<Rightarrow> bool" where
  mark: "sub_step r (r\<lparr>run_sub := queue_mark p (run_sub r), marking := Suc (marking r)\<rparr>)"
| finish: "finish_step r r' \<Longrightarrow> sub_step r r'"
| drain: "draining r \<Longrightarrow> sub_step r (r\<lparr>run_sub := snd (DrainPendingPairs (run_sub r)), draining := False\<rparr>)"

definition new_run :: sub_run where
  "new_run = \<lparr>run_sub = \<lparr>ms_ch = False, ms_pending = []\<rparr>, marking = 0, draining = False\<rparr>"

text \<open>While a pair is pending, a signal is waiting, on its way, or already taken by a handler that has yet to drain.\<close>

definition awake :: "sub_run \<Rightarrow> bool" where
  "awake r \<longleftrightarrow> distinct (ms_pending (run_sub r)) \<and> (ms_pending (run_sub r) = [] \<or> ms_ch (run_sub r) \<or> 0 < marking r \<or> draining r)"

lemma finish_step_awake: "finish_step r r' \<Longrightarrow> awake r \<Longrightarrow> awake r' \<and> ms_pending (run_sub r') = ms_pending (run_sub r)"
  by (induction rule: finish_step.induct) (auto simp: awake_def queue_signal_def)

lemma sub_step_awake: "sub_step r r' \<Longrightarrow> awake r \<Longrightarrow> awake r'"
  by (induction rule: sub_step.induct)
    (auto simp: finish_step_awake awake_def queue_mark_def DrainPendingPairs_def distinct_insert dest: finish_step_awake)

lemma reachable_awake: "sub_step\<^sup>*\<^sup>* new_run r \<Longrightarrow> awake r"
proof (induction rule: rtranclp_induct)
  case base
  show ?case by (simp add: awake_def new_run_def)
qed (rule sub_step_awake)

lemma awake_drains:
  assumes "awake r" "ms_pending (run_sub r) \<noteq> []"
  shows "\<exists>r'. finish_step\<^sup>*\<^sup>* r r' \<and> draining r' \<and> ms_pending (run_sub r') = ms_pending (run_sub r)"
proof (cases "draining r")
  case False
  have wake: "\<exists>r'. finish_step\<^sup>*\<^sup>* r1 r' \<and> draining r' \<and> ms_pending (run_sub r') = ms_pending (run_sub r1)"
    if "ms_ch (run_sub r1)" "\<not> draining r1" for r1
    using finish_step.wake [OF that] by (intro exI [of _ "r1\<lparr>run_sub := (run_sub r1)\<lparr>ms_ch := False\<rparr>, draining := True\<rparr>"]) auto
  show ?thesis
  proof (cases "ms_ch (run_sub r)")
    case False
    with assms \<open>\<not> draining r\<close> have m: "0 < marking r" by (auto simp: awake_def)
    let ?r1 = "r\<lparr>run_sub := queue_signal (run_sub r), marking := marking r - 1\<rparr>"
    obtain r' where "finish_step\<^sup>*\<^sup>* ?r1 r'" "draining r'" "ms_pending (run_sub r') = ms_pending (run_sub ?r1)"
      using wake [of ?r1] \<open>\<not> draining r\<close> by (auto simp: queue_signal_def)
    then show ?thesis
      using finish_step.signal [OF m] by (intro exI [of _ r']) (auto simp: queue_signal_def intro: converse_rtranclp_into_rtranclp)
  qed (use wake False in blast)
qed auto

text \<open>
  \<^bold>\<open>C33\<close>. No update is lost. However the notifiers of a subscription and its stream handler interleave, a pair that was notified and not
  yet handed out is handed out by the next drain, and that drain is certain to come: finishing what is under way, without a further
  notification, brings the handler to a drain that returns exactly the pending pairs, each once and in order.
\<close>

theorem no_update_lost:
  assumes "sub_step\<^sup>*\<^sup>* new_run r" "p \<in> set (ms_pending (run_sub r))"
  shows "\<exists>r'. finish_step\<^sup>*\<^sup>* r r' \<and> draining r' \<and> p \<in> set (fst (DrainPendingPairs (run_sub r'))) \<and>
     sorted (fst (DrainPendingPairs (run_sub r'))) \<and> distinct (fst (DrainPendingPairs (run_sub r'))) \<and>
     set (fst (DrainPendingPairs (run_sub r'))) = set (ms_pending (run_sub r))"
proof -
  have aw: "awake r" using assms(1) by (rule reachable_awake)
  moreover have ne: "ms_pending (run_sub r) \<noteq> []" using assms(2) by auto
  ultimately obtain r' where r': "finish_step\<^sup>*\<^sup>* r r'" "draining r'" "ms_pending (run_sub r') = ms_pending (run_sub r)"
    using awake_drains by blast
  then have "fst (DrainPendingPairs (run_sub r')) = sort (ms_pending (run_sub r))" using ne by (simp add: DrainPendingPairs_def)
  then show ?thesis using r' aw assms(2) by (intro exI [of _ r']) (simp add: awake_def)
qed

text \<open>A second notifier marks its pair after the handler took the signal of the first.\<close>

definition demo_run :: sub_run where
  "demo_run = \<lparr>run_sub = \<lparr>ms_ch = False, ms_pending = [''ETHEUR'', ''BTCEUR'']\<rparr>, marking = 1, draining = True\<rparr>"

lemma demo_run_reachable: "sub_step\<^sup>*\<^sup>* new_run demo_run"
proof -
  let ?r1 = "new_run\<lparr>run_sub := queue_mark ''BTCEUR'' (run_sub new_run), marking := Suc 0\<rparr>"
  let ?r2 = "?r1\<lparr>run_sub := queue_signal (run_sub ?r1), marking := 0\<rparr>"
  let ?r3 = "?r2\<lparr>run_sub := (run_sub ?r2)\<lparr>ms_ch := False\<rparr>, draining := True\<rparr>"
  have "sub_step new_run ?r1" using sub_step.mark [of new_run "''BTCEUR''"] by (simp add: new_run_def)
  moreover have "sub_step ?r1 ?r2" using sub_step.finish [OF finish_step.signal [of ?r1]] by simp
  moreover have "sub_step ?r2 ?r3"
    using sub_step.finish [OF finish_step.wake [of ?r2]] by (simp add: queue_signal_def new_run_def)
  moreover have "sub_step ?r3 demo_run"
    using sub_step.mark [of ?r3 "''ETHEUR''"] by (simp add: demo_run_def new_run_def queue_mark_def queue_signal_def)
  ultimately show ?thesis by (meson rtranclp.rtrancl_refl rtranclp.rtrancl_into_rtrancl)
qed

theorem no_update_lost_witness:
  "\<exists>r'. finish_step\<^sup>*\<^sup>* demo_run r' \<and> draining r' \<and> set (fst (DrainPendingPairs (run_sub r'))) = {''ETHEUR'', ''BTCEUR''}"
proof -
  have "''ETHEUR'' \<in> set (ms_pending (run_sub demo_run))" "set (ms_pending (run_sub demo_run)) = {''ETHEUR'', ''BTCEUR''}"
    by (simp_all add: demo_run_def)
  then show ?thesis using no_update_lost [OF demo_run_reachable, of "''ETHEUR''"] by auto
qed

section \<open>The ticker cache\<close>

text \<open>Whole operations in sequence: a read, with the error of the repository if there is one, and a write that is followed by its notification.\<close>

datatype cache_op =
    ReadTicker string "string option"
  | WriteTicker string Ticker

record market_world =
  mw_repo :: "string \<Rightarrow> Ticker"
  mw_svc :: MarketService

fun exec_cache :: "cache_op \<Rightarrow> market_world \<Rightarrow> market_world" where
  "exec_cache (ReadTicker p err) w =
     w\<lparr>mw_svc := snd (svc_Ticker (\<lambda>q. case err of Some e \<Rightarrow> Inl e | None \<Rightarrow> Inr (mw_repo w q)) p (mw_svc w))\<rparr>"
| "exec_cache (WriteTicker p t) w = w\<lparr>mw_repo := (mw_repo w)(p := t), mw_svc := market_NotifyUpdate p (mw_svc w)\<rparr>"

definition coherent :: "int \<Rightarrow> market_world \<Rightarrow> bool" where
  "coherent cap w \<longleftrightarrow> cacheSize (mw_svc w) = cap \<and> int (length (tickerCache (mw_svc w))) \<le> max 1 cap \<and>
     (\<forall>p t. map_of (tickerCache (mw_svc w)) p = Some t \<longrightarrow> t = mw_repo w p)"

lemma ticker_store_cache:
  "map_of (tickerCache (ticker_store p t s)) q = Some u \<Longrightarrow> q = p \<and> u = t \<or> q \<noteq> p \<and> map_of (tickerCache s) q = Some u"
  "cacheSize (ticker_store p t s) = cacheSize s"
  by (auto simp: ticker_store_def Let_def update_conv' split: if_splits)

lemma ticker_store_size: "int (length (tickerCache (ticker_store p t s))) \<le> max 1 (cacheSize s)"
proof -
  have "length (gm_put p t c) \<le> Suc (length c)" for c :: "(string, Ticker) gomap" by (induction c) auto
  from this [of "tickerCache s"] show ?thesis by (auto simp: ticker_store_def Let_def)
qed

lemma exec_cache_coherent: "coherent cap w \<Longrightarrow> coherent cap (exec_cache oper w)"
proof (cases oper)
  case (ReadTicker p err)
  assume w: "coherent cap w"
  show ?thesis
  proof (cases "map_of (tickerCache (mw_svc w)) p = None \<and> err = None")
    case True
    with w ReadTicker show ?thesis
      using ticker_store_size [of p "mw_repo w p" "mw_svc w"]
      by (auto simp: coherent_def svc_Ticker_def ticker_store_cache(2) dest!: ticker_store_cache(1))
  next
    case False
    with w ReadTicker show ?thesis by (auto simp: svc_Ticker_def split: option.splits)
  qed
next
  case (WriteTicker p t)
  assume "coherent cap w"
  then show ?thesis
    using WriteTicker length_delete_le [of p "tickerCache (mw_svc w)"]
    by (auto simp: coherent_def NotifyUpdate_frame delete_conv' fun_upd_apply split: if_splits)
qed


definition demo_ticker :: "int \<Rightarrow> Ticker" where
  "demo_ticker x = \<lparr>tk_Pair = ''BTCEUR'', tk_Price = Fin (of_int x), tk_MarketCap = f0, tk_Variation1H = f0, tk_Variation24H = f0,
     tk_Variation7D = f0, tk_Volume24H = f0, tk_High24H = f0, tk_Low24H = f0, tk_LastUpdateUnix = x, tk_Source = ''kraken''\<rparr>"


text \<open>
  The same operations cut at the locks: a reader that missed the cache has read the repository and not yet stored the value; a writer has
  written and not yet notified.
\<close>

record cache_run =
  cr_world :: market_world
  cr_reading :: "(string \<times> Ticker) list"
  cr_writing :: "string list"

inductive cache_step :: "cache_run \<Rightarrow> cache_run \<Rightarrow> bool" where
  read: "map_of (tickerCache (mw_svc (cr_world r))) p = None \<Longrightarrow>
    cache_step r (r\<lparr>cr_reading := (p, mw_repo (cr_world r) p) # cr_reading r\<rparr>)"
| store: "(p, t) \<in> set (cr_reading r) \<Longrightarrow>
    cache_step r (r\<lparr>cr_world := (cr_world r)\<lparr>mw_svc := ticker_store p t (mw_svc (cr_world r))\<rparr>, cr_reading := remove1 (p, t) (cr_reading r)\<rparr>)"
| written: "cache_step r (r\<lparr>cr_world := (cr_world r)\<lparr>mw_repo := (mw_repo (cr_world r))(p := t)\<rparr>, cr_writing := p # cr_writing r\<rparr>)"
| notified: "p \<in> set (cr_writing r) \<Longrightarrow>
    cache_step r (r\<lparr>cr_world := (cr_world r)\<lparr>mw_svc := market_NotifyUpdate p (mw_svc (cr_world r))\<rparr>, cr_writing := remove1 p (cr_writing r)\<rparr>)"

definition new_cache_run :: "(string \<Rightarrow> Ticker) \<Rightarrow> int \<Rightarrow> duration \<Rightarrow> cache_run" where
  "new_cache_run repo cap ttl = \<lparr>cr_world = \<lparr>mw_repo = repo, mw_svc = NewMarketService cap ttl\<rparr>, cr_reading = [], cr_writing = []\<rparr>"

text \<open>
  A slow reader can leave an old ticker in the cache. For every pair and any two tickers there is an interleaving of one read
  and one write after which nothing is under way, the repository holds the new ticker, and a read returns the old one, and does so until
  the next update of the pair.
\<close>

lemma slow_reader_caches_old_ticker:
  "\<exists>r. cache_step\<^sup>*\<^sup>* (new_cache_run (\<lambda>_. old) cap ttl) r \<and> cr_reading r = [] \<and> cr_writing r = [] \<and> mw_repo (cr_world r) p = new \<and>
     fst (svc_Ticker (\<lambda>q. Inr (mw_repo (cr_world r) q)) p (mw_svc (cr_world r))) = Inr old"
proof -
  let ?s0 = "NewMarketService cap ttl"
  let ?r1 = "\<lparr>cr_world = \<lparr>mw_repo = \<lambda>_. old, mw_svc = ?s0\<rparr>, cr_reading = [(p, old)], cr_writing = []\<rparr>"
  let ?r2 = "\<lparr>cr_world = \<lparr>mw_repo = (\<lambda>_. old)(p := new), mw_svc = ?s0\<rparr>, cr_reading = [(p, old)], cr_writing = [p]\<rparr>"
  let ?r3 = "\<lparr>cr_world = \<lparr>mw_repo = (\<lambda>_. old)(p := new), mw_svc = market_NotifyUpdate p ?s0\<rparr>, cr_reading = [(p, old)], cr_writing = []\<rparr>"
  let ?r4 = "\<lparr>cr_world = \<lparr>mw_repo = (\<lambda>_. old)(p := new), mw_svc = ticker_store p old (market_NotifyUpdate p ?s0)\<rparr>, cr_reading = [], cr_writing = []\<rparr>"
  have "cache_step (new_cache_run (\<lambda>_. old) cap ttl) ?r1"
    using cache_step.read [of "new_cache_run (\<lambda>_. old) cap ttl" p] by (simp add: new_cache_run_def NewMarketService_def)
  moreover have "cache_step ?r1 ?r2" using cache_step.written [of ?r1 p new] by simp
  moreover have "cache_step ?r2 ?r3" using cache_step.notified [of p ?r2] by simp
  moreover have "cache_step ?r3 ?r4" using cache_step.store [of p old ?r3] by simp
  ultimately have "cache_step\<^sup>*\<^sup>* (new_cache_run (\<lambda>_. old) cap ttl) ?r4"
    by (meson rtranclp.rtrancl_refl rtranclp.rtrancl_into_rtrancl)
  then show ?thesis
    by (intro exI [of _ ?r4]) (simp add: svc_Ticker_def ticker_store_def Let_def update_conv' NotifyUpdate_frame)
qed

end
