(* ===== verification/System_Service.thy ===== *)
theory System_Service
  imports Task_Repo Sync_Repo Lease_Repo Market_Service Go_Strings
begin

text \<open>
  \<^verbatim>\<open>service/system.go\<close> and \<^verbatim>\<open>storage/postgres/warning_dismissal_repository.go\<close>: what the operations pages show, that is
  the tasks to come with projections of the next ones, the finished tasks, the health of the system and its warnings, which a user can
  dismiss. SHA-256 is an argument, \<open>digest\<close>. A call that reads the clock at several places takes the reading of each place as an argument.
\<close>

section \<open>Text\<close>

text \<open>\<^verbatim>\<open>Duration.Hours\<close> and its siblings compute in floating point.\<close>

definition in_units :: "duration \<Rightarrow> duration \<Rightarrow> float64" where
  "in_units d u = fadd (float_of_int (go_div d u)) (fdiv (float_of_int (go_rem d u)) (float_of_int u))"

definition formatDuration :: "duration \<Rightarrow> string" where
  "formatDuration d =
     (if d = 0 then ''0s''
      else let h = float_to_int (in_units d Hour);
               m = go_rem (float_to_int (in_units d Minute)) 60;
               s = go_rem (float_to_int (in_units d Second)) 60
           in if 0 < h \<and> m = 0 \<and> s = 0 then show_int h @ ''h''
              else if 0 < h \<and> s = 0 then show_int h @ ''h'' @ show_int m @ ''m''
              else if 0 < h then show_int h @ ''h'' @ show_int m @ ''m'' @ show_int s @ ''s''
              else if 0 < m \<and> s = 0 then show_int m @ ''m''
              else if 0 < m then show_int m @ ''m'' @ show_int s @ ''s''
              else show_int s @ ''s'')"

text \<open>The ellipsis is U+2026 in UTF-8; the limit counts bytes.\<close>

definition ellipsis :: string where "ellipsis = [CHR 0xE2, CHR 0x80, CHR 0xA6]"

definition truncateText :: "string \<Rightarrow> nat \<Rightarrow> string" where
  "truncateText t limit = (if length t \<le> limit then t else take (limit - 1) t @ ellipsis)"

fun joinStrings :: "string list \<Rightarrow> string" where
  "joinStrings [] = []"
| "joinStrings (v # vs) = foldl (\<lambda>r v. r @ '', '' @ v) v vs"

definition taskTypeLabel :: "string \<Rightarrow> string" where
  "taskTypeLabel ty =
     (if ty = TypeBackfill then ''Historical Backfill'' else if ty = TypeRealtime then ''Live Ticker''
      else if ty = TypeDataSanity then ''Integrity Check'' else if ty = TypeConsolidate then ''Consolidation''
      else if ty = TypeCleanup then ''Task Log Cleanup'' else ty)"

section \<open>Tasks to come\<close>

text \<open>Tasks of the table as they are shown.\<close>

definition shown :: "string \<Rightarrow> Task \<Rightarrow> Task" where
  "shown pollIntervalStr t =
     (let t1 = (if t_Type t = TypeRealtime then t\<lparr>t_Interval := pollIntervalStr\<rparr> else t)
      in if t_Description t1 = [] then described t1 else t1)"

definition scheduled :: "string \<Rightarrow> string \<Rightarrow> string \<Rightarrow> string \<Rightarrow> gotime \<Rightarrow> gotime \<Rightarrow> Task" where
  "scheduled i ty pr iv ws we = (new_task i ty pr iv ws we)\<lparr>t_Status := ''scheduled''\<rparr>"

definition minInt64 :: "int \<Rightarrow> int \<Rightarrow> int" where
  "minInt64 a b = (if a < b then a else b)"

definition proj_cleanup :: "gotime \<Rightarrow> (string \<times> string) list \<Rightarrow> Task list" where
  "proj_cleanup now pending =
     (if (''*'', TypeCleanup) \<in> set pending then []
      else let dayStart = trunc_time now (24 * Hour)
           in [described (scheduled ''proj-cleanup'' TypeCleanup ''*'' ''1d'' dayStart (dayStart + 24 * Hour))])"

definition proj_backfill :: "gotime \<Rightarrow> gotime \<Rightarrow> (string \<times> string) list \<Rightarrow> SyncRow \<Rightarrow> Task list" where
  "proj_backfill now1 now2 pending row =
     (let nextGapStart = (if sr_HourlySyncedUnix row = 0 then unix (trunc_time (now1 - 30 * 24 * Hour) Hour) else sr_HourlySyncedUnix row);
          thisHour = unix (trunc_time now2 Hour);
          hourlyCutover = (if 0 < sr_HourlyRealtimeStartedUnix row \<and> sr_HourlyRealtimeStartedUnix row < thisHour
            then sr_HourlyRealtimeStartedUnix row else thisHour)
      in if \<not> sr_HourlyBackfillCompleted row \<and> (sr_Pair row, TypeBackfill) \<notin> set pending \<and> nextGapStart < hourlyCutover
         then [described (scheduled (''proj-backfill-'' @ sr_Pair row) TypeBackfill (sr_Pair row) ''1h''
           (from_unix nextGapStart) (from_unix (minInt64 (nextGapStart + 3600) hourlyCutover)))]
         else [])"

definition proj_realtime :: "duration \<Rightarrow> gotime \<Rightarrow> (string \<times> string) list \<Rightarrow> SyncRow \<Rightarrow> Task list" where
  "proj_realtime poll now pending row =
     (if (sr_Pair row, TypeRealtime) \<in> set pending then []
      else let pollBound = trunc_time now poll + poll
           in [scheduled (''proj-realtime-'' @ sr_Pair row) TypeRealtime (sr_Pair row) (formatDuration poll) pollBound (pollBound + Hour)])"

definition proj_integrity :: "gotime \<Rightarrow> (string \<times> string) list \<Rightarrow> SyncRow \<Rightarrow> Task list" where
  "proj_integrity now pending row =
     (let currentHour = trunc_time now Hour; prevHour = currentHour - Hour
      in if (sr_Pair row, TypeDataSanity) \<notin> set pending \<and>
            (sr_HourlyBackfillCompleted row \<or> (0 < sr_HourlyRealtimeStartedUnix row \<and> sr_HourlyRealtimeStartedUnix row \<le> unix prevHour))
         then [described (scheduled (''proj-integrity-'' @ sr_Pair row) TypeDataSanity (sr_Pair row) ''1h'' prevHour currentHour)]
         else [])"

definition proj_consolidation :: "gotime \<Rightarrow> (string \<times> string) list \<Rightarrow> SyncRow \<Rightarrow> Task list" where
  "proj_consolidation now pending row =
     (if sr_DailyBackfillCompleted row \<and> (sr_Pair row, TypeConsolidate) \<notin> set pending
      then let currentDay = trunc_time now (24 * Hour)
           in [described (scheduled (''proj-consolidation-'' @ sr_Pair row) TypeConsolidate (sr_Pair row) ''1d'' (currentDay - 24 * Hour) currentDay)]
      else [])"

text \<open>\<open>clock i k\<close>: the clock at place \<open>k\<close> of the round of row \<open>i\<close>.\<close>

definition proj_row :: "duration \<Rightarrow> (nat \<Rightarrow> gotime) \<Rightarrow> (string \<times> string) list \<Rightarrow> SyncRow \<Rightarrow> Task list" where
  "proj_row poll clock pending row =
     proj_backfill (clock 0) (clock 1) pending row @ proj_realtime poll (clock 2) pending row @
     proj_integrity (clock 3) pending row @ proj_consolidation (clock 4) pending row"

definition projections :: "duration \<Rightarrow> gotime \<Rightarrow> (nat \<Rightarrow> nat \<Rightarrow> gotime) \<Rightarrow> (string \<times> string) list \<Rightarrow> SyncRow list \<Rightarrow> Task list" where
  "projections poll now clock pending srs =
     proj_cleanup now pending @ concat (map (\<lambda>(i, row). proj_row poll (clock i) pending row) (enumerate 0 srs))"

text \<open>The database tasks and the sync rows are what the two readers return.\<close>

definition sys_UpcomingTasks ::
    "duration \<Rightarrow> gotime \<Rightarrow> (nat \<Rightarrow> nat \<Rightarrow> gotime) \<Rightarrow> (string, Task list \<times> nat) result \<Rightarrow> (string, SyncRow list) result \<Rightarrow> int \<Rightarrow> int \<Rightarrow>
       (string, Task list \<times> nat) result" where
  "sys_UpcomingTasks poll now clock page sync limit offset =
     (case page of
        Inl e \<Rightarrow> Inl e
      | Inr (dbTasks, n) \<Rightarrow>
          let pending = map (\<lambda>t. (t_Pair t, t_Type t)) dbTasks;
              tasks = map (shown (formatDuration poll)) dbTasks
          in case sync of
               Inl e \<Rightarrow> Inr (tasks, n)
             | Inr srs \<Rightarrow>
                 if offset = 0
                 then let ps = projections poll now clock pending srs; tasks' = tasks @ ps
                      in Inr (if 0 < limit \<and> limit < int (length tasks') then take (nat limit) tasks' else tasks', n + length ps)
                 else Inr (tasks, n))"

definition sys_RecentTasks :: "duration \<Rightarrow> (string, Task list \<times> nat) result \<Rightarrow> (string, Task list \<times> nat) result" where
  "sys_RecentTasks poll page =
     (case page of Inl e \<Rightarrow> Inl e | Inr (tasks, n) \<Rightarrow> Inr (map (shown (formatDuration poll)) tasks, n))"

section \<open>Health and synchronisation\<close>

record HealthStatus =
  hs_Status :: string
  hs_Checks :: "(string, string) gomap"
  hs_Timestamp :: int

definition check_word :: "string option \<Rightarrow> string" where
  "check_word ping = (case ping of Some e \<Rightarrow> ''error'' | None \<Rightarrow> ''ok'')"

definition Health :: "string option \<Rightarrow> string option \<Rightarrow> gotime \<Rightarrow> HealthStatus" where
  "Health db kafka now =
     (let checks = gm_put ''kafka'' (check_word kafka) (gm_put ''db'' (check_word db) [(''api'', ''ok'')])
      in \<lparr>hs_Status = (if list_ex (\<lambda>(k, v). v \<noteq> ''ok'') checks then ''degraded'' else ''ok''), hs_Checks = checks, hs_Timestamp = unix now\<rparr>)"

record PairSyncStatus =
  ps_Pair :: string
  ps_BackfillCompleted :: bool
  ps_LastSyncedUnix :: int
  ps_NextTargetUnix :: int
  ps_HourlyBackfillCompleted :: bool
  ps_DailyBackfillCompleted :: bool
  ps_HourlySyncedUnix :: int
  ps_DailySyncedUnix :: int
  ps_NextHourlyTargetUnix :: int
  ps_NextDailyTargetUnix :: int

definition SyncSnapshot :: "(string, SyncRow list) result \<Rightarrow> (string, PairSyncStatus list) result" where
  "SyncSnapshot sync =
     (case sync of
        Inl e \<Rightarrow> Inl e
      | Inr srs \<Rightarrow> Inr (map (\<lambda>r.
          \<lparr>ps_Pair = sr_Pair r, ps_BackfillCompleted = False, ps_LastSyncedUnix = 0, ps_NextTargetUnix = 0,
           ps_HourlyBackfillCompleted = sr_HourlyBackfillCompleted r, ps_DailyBackfillCompleted = sr_DailyBackfillCompleted r,
           ps_HourlySyncedUnix = sr_HourlySyncedUnix r, ps_DailySyncedUnix = sr_DailySyncedUnix r,
           ps_NextHourlyTargetUnix = 0, ps_NextDailyTargetUnix = 0\<rparr>) srs))"

definition CurrentPlannerLeader :: "string option \<Rightarrow> string \<Rightarrow> Lease list \<Rightarrow> (string, Lease) result" where
  "CurrentPlannerLeader err name rs = Current err name rs"

section \<open>Warnings\<close>

record ActiveWarning =
  aw_ID :: string
  aw_Level :: string
  aw_Title :: string
  aw_Detail :: string
  aw_Fingerprint :: string
  aw_Timestamp :: int

definition newWarning :: "(string \<Rightarrow> nat list) \<Rightarrow> string \<Rightarrow> string \<Rightarrow> string \<Rightarrow> string \<Rightarrow> int \<Rightarrow> ActiveWarning" where
  "newWarning digest i level title detail ts =
     \<lparr>aw_ID = i, aw_Level = level, aw_Title = title, aw_Detail = detail,
      aw_Fingerprint = hex_encode (digest (i @ ''|'' @ level @ ''|'' @ title @ ''|'' @ detail)), aw_Timestamp = ts\<rparr>"

definition health_warnings :: "(string \<Rightarrow> nat list) \<Rightarrow> HealthStatus \<Rightarrow> ActiveWarning list" where
  "health_warnings digest h =
     (if hs_Status h \<noteq> ''ok''
      then let failing = sort (map fst (filter (\<lambda>(k, v). v \<noteq> ''ok'') (hs_Checks h)));
               detail = (if failing = [] then ''One or more system health checks are failing.''
                 else ''Failing checks: '' @ joinStrings failing @ ''.'')
           in [newWarning digest ''system-health'' ''error'' ''System health degraded'' detail 0]
      else [])"

definition hourly_warning :: "(string \<Rightarrow> nat list) \<Rightarrow> PairSyncStatus \<Rightarrow> ActiveWarning" where
  "hourly_warning digest p = newWarning digest (''hourly-backfill-'' @ ps_Pair p) ''warning'' ''Hourly backfill pending''
     (ps_Pair p @ '' is still filling hourly history.'') 0"

definition daily_warning :: "(string \<Rightarrow> nat list) \<Rightarrow> PairSyncStatus \<Rightarrow> ActiveWarning" where
  "daily_warning digest p = newWarning digest (''daily-backfill-'' @ ps_Pair p) ''warning'' ''Daily backfill pending''
     (ps_Pair p @ '' is not ready for consolidation yet.'') 0"

definition sync_warnings :: "(string \<Rightarrow> nat list) \<Rightarrow> PairSyncStatus list \<Rightarrow> ActiveWarning list" where
  "sync_warnings digest ps =
     map (hourly_warning digest) (filter (\<lambda>p. \<not> ps_HourlyBackfillCompleted p) ps) @
     map (daily_warning digest) (filter (\<lambda>p. ps_HourlyBackfillCompleted p \<and> \<not> ps_DailyBackfillCompleted p) ps)"

definition with_error :: "string \<Rightarrow> Task \<Rightarrow> string" where
  "with_error detail t = (if t_LastError t \<noteq> [] then detail @ '' ('' @ truncateText (t_LastError t) 110 @ '')'' else detail)"

definition task_warning :: "(string \<Rightarrow> nat list) \<Rightarrow> Task \<Rightarrow> ActiveWarning" where
  "task_warning digest t =
     (let ts = (case t_CompletedAt t of None \<Rightarrow> 0 | Some c \<Rightarrow> unix c)
      in if t_Type t = TypeDataSanity
         then newWarning digest (''integrity-failure-'' @ t_ID t) ''error'' ''Integrity check failure''
           (with_error (''Integrity check failed for '' @ t_Pair t) t) ts
         else newWarning digest (''task-failure-'' @ t_ID t) ''warning'' ''Task failure''
           (with_error (taskTypeLabel (t_Type t) @ '' failed'' @ (if t_Pair t \<noteq> [] \<and> t_Pair t \<noteq> ''*'' then '' for '' @ t_Pair t else [])) t) ts)"

definition tickerStaleThreshold :: duration where "tickerStaleThreshold = 5 * Minute"

definition stale_warnings :: "(string \<Rightarrow> nat list) \<Rightarrow> gotime \<Rightarrow> Ticker list \<Rightarrow> ActiveWarning list" where
  "stale_warnings digest now ts =
     (let stale = sort (map tk_Pair (filter (\<lambda>t. 0 < tk_LastUpdateUnix t \<and> tickerStaleThreshold div Second < unix now - tk_LastUpdateUnix t) ts))
      in if stale = [] then []
         else [newWarning digest ''stale-ticker-feeds'' ''warning'' ''Stale ticker feeds''
           (show_nat (length stale) @ '' pair(s) have not received a ticker update in over '' @ show_int (tickerStaleThreshold div Minute) @
            '' minutes: '' @ joinStrings stale @ ''.'') 0])"

text \<open>Newest first, errors before warnings, then by ID; \<open>arrange\<close> is the sorting of \<^verbatim>\<open>sort.Slice\<close>.\<close>

definition warn_key :: "ActiveWarning \<Rightarrow> int \<times> nat \<times> string" where
  "warn_key w = (- aw_Timestamp w, if aw_Level w = ''error'' then 0 else 1, aw_ID w)"

definition buildActiveWarnings ::
    "(string \<Rightarrow> nat list) \<Rightarrow> (ActiveWarning list \<Rightarrow> ActiveWarning list) \<Rightarrow> gotime \<Rightarrow> HealthStatus \<Rightarrow> PairSyncStatus list \<Rightarrow> Task list \<Rightarrow> Ticker list \<Rightarrow>
       ActiveWarning list" where
  "buildActiveWarnings digest arrange now h ps failed ts =
     arrange (health_warnings digest h @ sync_warnings digest ps @ map (task_warning digest) failed @ stale_warnings digest now ts)"

section \<open>Dismissed warnings\<close>

record dismissed_row =
  dw_warning_id :: string
  dw_fingerprint :: string
  dw_dismissed_at :: gotime

definition repo_DismissWarning :: "string option \<Rightarrow> gotime \<Rightarrow> string \<Rightarrow> string \<Rightarrow> dismissed_row list \<Rightarrow> (string, unit) result \<times> dismissed_row list" where
  "repo_DismissWarning err now i fp rs =
     (case err of
        Some e \<Rightarrow> (Inl e, rs)
      | None \<Rightarrow> (Inr (), sql_upsert dw_warning_id \<lparr>dw_warning_id = i, dw_fingerprint = fp, dw_dismissed_at = now\<rparr>
          (\<lambda>r. r\<lparr>dw_fingerprint := fp, dw_dismissed_at := now\<rparr>) rs))"

definition DismissedWarnings :: "string option \<Rightarrow> dismissed_row list \<Rightarrow> (string, string \<Rightarrow> string) result" where
  "DismissedWarnings err rs =
     (case err of
        Some e \<Rightarrow> Inl e
      | None \<Rightarrow> Inr (gm_get (fold (\<lambda>r m. gm_put (dw_warning_id r) (dw_fingerprint r) m) rs []) []))"

definition DismissWarning ::
    "bool \<Rightarrow> string option \<Rightarrow> gotime \<Rightarrow> string \<Rightarrow> string \<Rightarrow> dismissed_row list \<Rightarrow> (string, unit) result \<times> dismissed_row list" where
  "DismissWarning has_store err now i fp rs =
     (if i = [] \<or> fp = [] \<or> \<not> has_store then (Inr (), rs) else repo_DismissWarning err now i fp rs)"

text \<open>What a look at the warnings finds: the health, and what the readers return.\<close>

record warn_env =
  we_digest :: "string \<Rightarrow> nat list"
  we_arrange :: "ActiveWarning list \<Rightarrow> ActiveWarning list"
  we_poll :: duration
  we_db :: "string option"
  we_kafka :: "string option"
  we_health_clock :: gotime
  we_clock :: gotime
  we_sync :: "(string, SyncRow list) result"
  we_failed :: "(string, Task list \<times> nat) result"
  we_tickers :: "(string, Ticker list) result option"
  we_has_store :: bool
  we_dismissed :: "string option"

definition ActiveWarnings :: "warn_env \<Rightarrow> dismissed_row list \<Rightarrow> (string, ActiveWarning list) result" where
  "ActiveWarnings env rs =
     (case SyncSnapshot (we_sync env) of
        Inl e \<Rightarrow> Inl e
      | Inr ps \<Rightarrow>
          (case sys_RecentTasks (we_poll env) (we_failed env) of
             Inl e \<Rightarrow> Inl e
           | Inr (failed, _) \<Rightarrow>
               let tickers = (case we_tickers env of None \<Rightarrow> [] | Some (Inl e) \<Rightarrow> [] | Some (Inr ts) \<Rightarrow> ts);
                   warnings = buildActiveWarnings (we_digest env) (we_arrange env) (we_clock env)
                     (Health (we_db env) (we_kafka env) (we_health_clock env)) ps failed tickers
               in if \<not> we_has_store env then Inr warnings
                  else case DismissedWarnings (we_dismissed env) rs of
                         Inl e \<Rightarrow> Inl e
                       | Inr dismissed \<Rightarrow> Inr (filter (\<lambda>w. dismissed (aw_ID w) \<noteq> aw_Fingerprint w) warnings)))"

section \<open>The task stream\<close>

record TaskStreamSnapshot =
  ts_Upcoming :: "Task list"
  ts_UpcomingTotal :: nat
  ts_Recent :: "Task list"
  ts_RecentTotal :: nat
  ts_SyncStatus :: "PairSyncStatus list"

text \<open>A reader's error leaves its part of the snapshot empty.\<close>

definition buildStreamSnapshot ::
    "(string, Task list \<times> nat) result \<Rightarrow> (string, Task list \<times> nat) result \<Rightarrow> (string, PairSyncStatus list) result \<Rightarrow> TaskStreamSnapshot" where
  "buildStreamSnapshot upcoming recent sync =
     (let (us, ut) = (case upcoming of Inl e \<Rightarrow> ([], 0) | Inr x \<Rightarrow> x);
          (rs, rt) = (case recent of Inl e \<Rightarrow> ([], 0) | Inr x \<Rightarrow> x)
      in \<lparr>ts_Upcoming = us, ts_UpcomingTotal = ut, ts_Recent = rs, ts_RecentTotal = rt,
          ts_SyncStatus = (case sync of Inl e \<Rightarrow> [] | Inr ps \<Rightarrow> ps)\<rparr>)"

text \<open>The update channels of the streams, each with room for one signal.\<close>

record stream_subs =
  ss_chs :: "nat list"
  ss_signal :: "nat \<Rightarrow> bool"
  ss_next :: nat

definition sys_NotifyUpdate :: "stream_subs \<Rightarrow> stream_subs" where
  "sys_NotifyUpdate s = fold (\<lambda>a s. s\<lparr>ss_signal := (ss_signal s)(a := True)\<rparr>) (ss_chs s) s"

definition stream_open :: "stream_subs \<Rightarrow> nat \<times> stream_subs" where
  "stream_open s = (ss_next s, s\<lparr>ss_chs := ss_chs s @ [ss_next s], ss_signal := (ss_signal s)(ss_next s := False), ss_next := Suc (ss_next s)\<rparr>)"

definition stream_close :: "nat \<Rightarrow> stream_subs \<Rightarrow> stream_subs" where
  "stream_close a s = s\<lparr>ss_chs := remove1 a (ss_chs s)\<rparr>"

lemma sys_notify_facts:
  "ss_chs (sys_NotifyUpdate s) = ss_chs s" "ss_next (sys_NotifyUpdate s) = ss_next s"
  "distinct (ss_chs s) \<Longrightarrow> ss_signal (sys_NotifyUpdate s) a = (if a \<in> set (ss_chs s) then True else ss_signal s a)"
  unfolding sys_NotifyUpdate_def by (rule fold_frame, simp)+ (rule fold_boxes, auto)

interpretation tasks: fan_out ss_chs ss_next ss_signal False "\<lambda>_ _. True" "\<lambda>_. sys_NotifyUpdate" stream_open stream_close
  by unfold_locales (simp_all add: sys_notify_facts stream_open_def stream_close_def)

section \<open>The first page of the tasks to come\<close>

lemma shown_simps [simp]:
  "t_Pair (shown iv t) = t_Pair t" "t_Type (shown iv t) = t_Type t" "t_Status (shown iv t) = t_Status t" "t_ID (shown iv t) = t_ID t"
  by (auto simp: shown_def Let_def described_def)

lemma scheduled_simps [simp]:
  "t_Pair (scheduled i ty pr iv ws we) = pr" "t_Type (scheduled i ty pr iv ws we) = ty" "t_Status (scheduled i ty pr iv ws we) = ''scheduled''"
  by (simp_all add: scheduled_def)

lemma described_status [simp]: "t_Status (described t) = t_Status t"
  by (simp add: described_def)

definition forecast_of :: "(string \<times> string) list \<Rightarrow> string \<Rightarrow> Task \<Rightarrow> bool" where
  "forecast_of pending pr t \<longleftrightarrow> t_Status t = ''scheduled'' \<and> t_Pair t = pr \<and> (t_Pair t, t_Type t) \<notin> set pending"

lemma singleton_if: "t \<in> set (if c then [x] else []) \<longleftrightarrow> c \<and> t = x" "t \<in> set (if c then [] else [x]) \<longleftrightarrow> \<not> c \<and> t = x"
  by (cases c, simp, simp)+

lemma proj_forecasts:
  "t \<in> set (proj_cleanup now pending) \<Longrightarrow> forecast_of pending ''*'' t"
  "t \<in> set (proj_backfill now1 now2 pending row) \<Longrightarrow> forecast_of pending (sr_Pair row) t"
  "t \<in> set (proj_realtime poll now pending row) \<Longrightarrow> forecast_of pending (sr_Pair row) t"
  "t \<in> set (proj_integrity now pending row) \<Longrightarrow> forecast_of pending (sr_Pair row) t"
  "t \<in> set (proj_consolidation now pending row) \<Longrightarrow> forecast_of pending (sr_Pair row) t"
  unfolding proj_cleanup_def proj_backfill_def proj_realtime_def proj_integrity_def proj_consolidation_def Let_def singleton_if
  by (simp_all add: forecast_of_def)

lemma proj_row_facts: "t \<in> set (proj_row poll clock pending row) \<Longrightarrow> forecast_of pending (sr_Pair row) t"
  using proj_forecasts(2-5) unfolding proj_row_def set_append by blast

lemma projections_facts: "t \<in> set (projections poll now clock pending srs) \<Longrightarrow> \<exists>pr. forecast_of pending pr t"
  unfolding projections_def set_append set_concat set_map using proj_forecasts(1) proj_row_facts by fastforce

text \<open>
  The first page of the tasks to come. It shows the pending and running tasks of the table in the table's order, then forecasts, and
  never more than the limit; a forecast is marked as scheduled and is only made for a pair and type of which the page holds no real task;
  the total counts the tasks of the table and all forecasts.
\<close>

lemma upcoming_first_page:
  assumes "0 < limit" "UpcomingTasks srt db st limit 0 = Inr (dbTasks, n)"
  shows "\<exists>ps. sys_UpcomingTasks poll now clock (UpcomingTasks srt db st limit 0) (Inr srs) limit 0 =
       Inr (take (nat limit) (map (shown (formatDuration poll)) dbTasks @ ps), n + length ps) \<and>
     (\<forall>t\<in>set ps. t_Status t = ''scheduled'' \<and> (\<forall>d\<in>set dbTasks. \<not> (t_Pair d = t_Pair t \<and> t_Type d = t_Type t)))"
proof -
  let ?pending = "map (\<lambda>t. (t_Pair t, t_Type t)) dbTasks"
  let ?ps = "projections poll now clock ?pending srs"
  have "sys_UpcomingTasks poll now clock (UpcomingTasks srt db st limit 0) (Inr srs) limit 0 =
      Inr (take (nat limit) (map (shown (formatDuration poll)) dbTasks @ ?ps), n + length ?ps)"
    using assms by (auto simp: sys_UpcomingTasks_def Let_def)
  moreover have "\<forall>t\<in>set ?ps. t_Status t = ''scheduled'' \<and> (\<forall>d\<in>set dbTasks. \<not> (t_Pair d = t_Pair t \<and> t_Type d = t_Type t))"
  proof
    fix t assume "t \<in> set ?ps"
    then obtain pr where "forecast_of ?pending pr t" using projections_facts by blast
    then have "t_Status t = ''scheduled''" "(t_Pair t, t_Type t) \<notin> (\<lambda>t. (t_Pair t, t_Type t)) ` set dbTasks"
      unfolding forecast_of_def set_map by blast+
    then show "t_Status t = ''scheduled'' \<and> (\<forall>d\<in>set dbTasks. \<not> (t_Pair d = t_Pair t \<and> t_Type d = t_Type t))"
      by (metis (mono_tags, lifting) image_eqI)
  qed
  ultimately show ?thesis by blast
qed

lemma sample_page:
  "UpcomingTasks (\<lambda>key. sort_key key) no_errors sample_store 1 0 =
     Inr ([Enrich ((task_of_row (fresh_row sample_task 5))\<lparr>t_Status := ''pending''\<rparr>)], 1)"
  by (simp add: UpcomingTasks_def no_errors_def sample_rows sql_page_def fresh_row_def Let_def)

text \<open>
  Forecasts that do not fit on the first page are on no page. When the table holds at least a page of tasks, every page shows tasks
  of the table only, whatever its offset; the total of the first page counts forecasts all the same, at least the one of the daily cleanup
  when no cleanup is on the page, so that it promises more entries than all pages together show, and it differs from the total of the
  other pages.
\<close>

lemma forecasts_cut_off:
  assumes "0 < limit" "sql_order srt" "UpcomingTasks srt db st limit 0 = Inr (dbTasks, n)" "nat limit \<le> n"
    and "UpcomingTasks srt db st limit offset = Inr (dbTasks', n')" "0 < offset"
    and "(''*'', TypeCleanup) \<notin> (\<lambda>t. (t_Pair t, t_Type t)) ` set dbTasks"
  shows "\<exists>m. sys_UpcomingTasks poll now clock (UpcomingTasks srt db st limit 0) (Inr srs) limit 0 =
       Inr (map (shown (formatDuration poll)) dbTasks, m) \<and> n < m \<and>
     sys_UpcomingTasks poll now clock (UpcomingTasks srt db st limit offset) (Inr srs) limit offset =
       Inr (map (shown (formatDuration poll)) dbTasks', n)"
proof -
  let ?pending = "map (\<lambda>t. (t_Pair t, t_Type t)) dbTasks"
  let ?ps = "projections poll now clock ?pending srs"
  have n: "length dbTasks = nat limit" "n' = n"
    using assms(2-5) sql_orderD(2) [OF assms(2)]
    by (auto simp: UpcomingTasks_def Let_def sql_page_def split: option.splits)
  have "?ps \<noteq> []" using assms(7) by (auto simp: projections_def proj_cleanup_def Let_def)
  then have "n < n + length ?ps" by simp
  moreover have "sys_UpcomingTasks poll now clock (UpcomingTasks srt db st limit 0) (Inr srs) limit 0 =
      Inr (map (shown (formatDuration poll)) dbTasks, n + length ?ps)"
    using assms(1,3) n(1) by (auto simp: sys_UpcomingTasks_def Let_def)
  moreover have "sys_UpcomingTasks poll now clock (UpcomingTasks srt db st limit offset) (Inr srs) limit offset =
      Inr (map (shown (formatDuration poll)) dbTasks', n)"
    using assms(5,6) n(2) by (simp add: sys_UpcomingTasks_def Let_def)
  ultimately show ?thesis by blast
qed

lemma forecasts_cut_off_example:
  "\<exists>d m. sys_UpcomingTasks (2 * Minute) 0 (\<lambda>i k. 0) (UpcomingTasks (\<lambda>key. sort_key key) no_errors sample_store 1 0) (Inr []) 1 0 =
       Inr ([shown (formatDuration (2 * Minute)) d], m) \<and> 1 < m \<and>
     sys_UpcomingTasks (2 * Minute) 0 (\<lambda>i k. 0) (UpcomingTasks (\<lambda>key. sort_key key) no_errors sample_store 1 1) (Inr []) 1 1 = Inr ([], 1)"
proof -
  have next_page: "UpcomingTasks (\<lambda>key. sort_key key) no_errors sample_store 1 1 = Inr ([], 1)"
    by (simp add: UpcomingTasks_def no_errors_def sample_rows sql_page_def fresh_row_def Let_def)
  have "(''*'', TypeCleanup) \<notin> (\<lambda>t. (t_Pair t, t_Type t)) ` set [Enrich ((task_of_row (fresh_row sample_task 5))\<lparr>t_Status := ''pending''\<rparr>)]"
    by (simp add: Enrich_def task_of_row_def fresh_row_def sample_task_def Let_def)
  from forecasts_cut_off [OF _ sql_order_sort_key sample_page _ next_page _ this, of "2 * Minute" 0 "\<lambda>i k. 0" "[]"]
  show ?thesis by auto
qed

section \<open>Dismissing\<close>

text \<open>The table is a map from the ID to the fingerprint dismissed last.\<close>

definition dismissals :: "(gotime \<times> string \<times> string) list \<Rightarrow> dismissed_row list" where
  "dismissals ds = fold (\<lambda>(now, i, fp) rs. snd (DismissWarning True None now i fp rs)) ds []"

definition dismissed_last :: "(gotime \<times> string \<times> string) list \<Rightarrow> string \<Rightarrow> string option" where
  "dismissed_last ds i = fold (\<lambda>(now, j, fp) r. if j = i \<and> j \<noteq> [] \<and> fp \<noteq> [] then Some fp else r) ds None"

definition look_up :: "dismissed_row list \<Rightarrow> string \<Rightarrow> string" where
  "look_up rs = gm_get (fold (\<lambda>r m. gm_put (dw_warning_id r) (dw_fingerprint r) m) rs []) []"

lemma look_up_row:
  assumes "distinct (map dw_warning_id rs)"
  shows "look_up rs i = (case sql_row dw_warning_id i rs of None \<Rightarrow> [] | Some r \<Rightarrow> dw_fingerprint r)"
proof -
  have "gm_get (fold (\<lambda>r m. gm_put (dw_warning_id r) (dw_fingerprint r) m) rs m) [] i =
      (case sql_row dw_warning_id i rs of None \<Rightarrow> gm_get m [] i | Some r \<Rightarrow> dw_fingerprint r)" for m
    using assms
  proof (induction rs arbitrary: m)
    case (Cons r rs)
    from Cons.prems have none: "dw_warning_id r = i \<Longrightarrow> find (\<lambda>r. dw_warning_id r = i) rs = None"
      by (auto simp: find_None_iff image_iff)
    have "gm_get (fold (\<lambda>r m. gm_put (dw_warning_id r) (dw_fingerprint r) m) (r # rs) m) [] i =
        (case find (\<lambda>r. dw_warning_id r = i) rs of
           None \<Rightarrow> if dw_warning_id r = i then dw_fingerprint r else gm_get m [] i | Some r \<Rightarrow> dw_fingerprint r)"
      using Cons.IH [of "gm_put (dw_warning_id r) (dw_fingerprint r) m"] Cons.prems by (simp add: sql_row_def gm_get_put split: option.split)
    then show ?case using none by (auto simp: sql_row_def)
  qed (simp add: sql_row_def)
  then show ?thesis by (simp add: look_up_def split: option.split)
qed

lemma dismiss_step:
  assumes "distinct (map dw_warning_id rs)" "rs' = snd (DismissWarning True None now j fp rs)"
  shows "distinct (map dw_warning_id rs')" "look_up rs' i = (if j = i \<and> j \<noteq> [] \<and> fp \<noteq> [] then fp else look_up rs i)"
proof -
  show d: "distinct (map dw_warning_id rs')"
    using assms by (auto simp: DismissWarning_def repo_DismissWarning_def intro: distinct_upsert)
  show "look_up rs' i = (if j = i \<and> j \<noteq> [] \<and> fp \<noteq> [] then fp else look_up rs i)"
  proof (cases "j = [] \<or> fp = []")
    case False
    then show ?thesis
      unfolding look_up_row [OF d] look_up_row [OF assms(1)]
      unfolding assms(2)
      by (auto simp: DismissWarning_def repo_DismissWarning_def sql_row_upsert split: option.split)
  qed (auto simp: assms(2) DismissWarning_def)
qed

lemma look_up_dismissals: "look_up (dismissals ds) i = (case dismissed_last ds i of None \<Rightarrow> [] | Some fp \<Rightarrow> fp)"
proof -
  have "distinct (map dw_warning_id rs) \<and> look_up rs i = (case r of None \<Rightarrow> [] | Some fp \<Rightarrow> fp) \<Longrightarrow>
      look_up (fold (\<lambda>(now, i, fp) rs. snd (DismissWarning True None now i fp rs)) ds rs) i =
      (case fold (\<lambda>(now, j, fp) r. if j = i \<and> j \<noteq> [] \<and> fp \<noteq> [] then Some fp else r) ds r of None \<Rightarrow> [] | Some fp \<Rightarrow> fp)" for rs r
  proof (induction ds arbitrary: rs r)
    case (Cons d ds)
    obtain now j fp where d: "d = (now, j, fp)" by (cases d)
    show ?case
      unfolding d fold.simps comp_apply prod.case
      by (rule Cons.IH) (use Cons.prems dismiss_step [OF _ refl, of rs now j fp] in \<open>auto\<close>)
  qed simp
  from this [of "[]" None] show ?thesis by (simp add: dismissals_def dismissed_last_def look_up_def)
qed

lemma warning_fingerprint:
  assumes "slice_sort warn_key arrange" "\<And>x. digest x \<noteq> []" "w \<in> set (buildActiveWarnings digest arrange now h ps failed ts)"
  shows "aw_Fingerprint w \<noteq> []"
proof -
  have ne: "aw_Fingerprint (newWarning digest a b c d e) \<noteq> []" for a b c d e
    using assms(2) by (cases "digest (a @ ''|'' @ b @ ''|'' @ c @ ''|'' @ d)") (auto simp: newWarning_def hex_encode_def)
  show ?thesis
    using assms(3) ne unfolding buildActiveWarnings_def slice_sort_set [OF assms(1)]
    by (auto simp: health_warnings_def sync_warnings_def hourly_warning_def daily_warning_def task_warning_def stale_warnings_def Let_def split: if_splits)
qed

text \<open>
  A dismissed warning stays away until it changes. After any history of dismissals, a look at the warnings shows, in the same order,
  exactly those for which the last dismissal of their ID was not of their present fingerprint; requests with an empty ID or fingerprint
  count for nothing, and a dismissal never hides a warning of another ID.
\<close>

lemma dismissed_until_changed:
  assumes "slice_sort warn_key (we_arrange env)" "\<And>x. length (we_digest env x) = 32"
    and "ActiveWarnings (env\<lparr>we_has_store := False\<rparr>) [] = Inr ws"
  shows "ActiveWarnings (env\<lparr>we_has_store := True, we_dismissed := None\<rparr>) (dismissals ds) =
     Inr (filter (\<lambda>w. dismissed_last ds (aw_ID w) \<noteq> Some (aw_Fingerprint w)) ws)"
proof -
  have "we_digest env x \<noteq> []" for x using assms(2) [of x] by auto
  then have fp: "aw_Fingerprint w \<noteq> []" if "w \<in> set ws" for w
    using that assms(3) warning_fingerprint [OF assms(1), of "we_digest env" w]
    by (auto simp: ActiveWarnings_def Let_def split: sum.splits)
  then have "filter (\<lambda>w. look_up (dismissals ds) (aw_ID w) \<noteq> aw_Fingerprint w) ws =
      filter (\<lambda>w. dismissed_last ds (aw_ID w) \<noteq> Some (aw_Fingerprint w)) ws"
    by (intro filter_cong) (auto simp: look_up_dismissals dest: fp split: option.splits)
  then show ?thesis
    using assms(3) by (auto simp: ActiveWarnings_def DismissedWarnings_def Let_def look_up_def split: sum.splits)
qed

definition demo_warn :: warn_env where
  "demo_warn = \<lparr>we_digest = (\<lambda>s. replicate 32 (length s)), we_arrange = sort_key warn_key, we_poll = 0, we_db = None, we_kafka = Some ''down'',
     we_health_clock = 0, we_clock = 0, we_sync = Inr [], we_failed = Inr ([], 0), we_tickers = None, we_has_store = True, we_dismissed = None\<rparr>"

definition demo_warning :: ActiveWarning where
  "demo_warning = newWarning (we_digest demo_warn) ''system-health'' ''error'' ''System health degraded'' ''Failing checks: kafka.'' 0"

end
