(* ===== verification/Http_Requests.thy ===== *)
theory Http_Requests
  imports Middleware Portfolio_Types "HOL-Library.Sublist"
begin

text \<open>
  Requests as the handlers of \<^verbatim>\<open>httpapi\<close> see them, and the helpers with which these read paths and parameters. Decoding a JSON or
  multipart body is part of the request: each handler has a field for what decoding its body yields, \<open>None\<close> when that fails. The path is
  the one the multiplexer sees, after cleaning.
\<close>

section \<open>Requests\<close>

record holding_body =
  hb_AssetSymbol :: string
  hb_Quantity :: float64
  hb_AvgBuyPrice :: "float64 option"
  hb_QuoteCurrency :: string
  hb_Notes :: string

datatype upload = BadForm | NoFile | Unreadable | Upload string

datatype login_body = LoginTooLarge | MalformedLogin | LoginBody string string

record api_request = http_request +
  rq_method :: string
  rq_query :: "string \<Rightarrow> string"
  rq_holding :: "holding_body option"
  rq_credential :: "(string \<times> string \<times> string) option"
  rq_wallet :: "(string \<times> string \<times> string) option"
  rq_edit :: "(float64 option \<times> string option) option"
  rq_currency :: string
  rq_upload :: upload
  rq_cookie :: "string \<Rightarrow> string option"
  rq_user_agent :: string
  rq_login :: login_body
  rq_passwords :: "(string \<times> string) option"
  rq_label :: "string option"
  rq_role :: "string option"
  rq_disabled :: "bool option"
  rq_dismissal :: "(string \<times> string) option"
  rq_origin :: string

section \<open>Paths and parameters\<close>

definition trim_prefix :: "string \<Rightarrow> string \<Rightarrow> string" where
  "trim_prefix p s = (if prefix p s then drop (length p) s else s)"

definition trim_suffix :: "string \<Rightarrow> string \<Rightarrow> string" where
  "trim_suffix p s = (if suffix p s then take (length s - length p) s else s)"

definition with_default :: "string \<Rightarrow> string \<Rightarrow> string" where
  "with_default d s = (if s = [] then d else s)"

definition getIntQueryParam :: "api_request \<Rightarrow> string \<Rightarrow> int \<Rightarrow> int" where
  "getIntQueryParam r key d = (if rq_query r key = [] then d else case atoi (rq_query r key) of None \<Rightarrow> d | Some v \<Rightarrow> v)"

end
