(* ===== verification/Portfolio_Handlers.thy ===== *)
theory Portfolio_Handlers
  imports Portfolio_Props Transactions Valuation Http_Requests
begin

text \<open>
  \<^verbatim>\<open>httpapi/handlers/portfolio.go\<close> and \<^verbatim>\<open>transactions.go\<close>, with the part of the routing table of \<^verbatim>\<open>router.New\<close>
  that dispatches to them. A handler takes the request as the middleware passes it on, and returns the status and body of the answer and
  the new state. Decoding a JSON or multipart body is part of the request: its fields hold what decoding yields. The path is the one the
  multiplexer sees, after cleaning. \<open>uuid.Parse\<close> and the parsing of RFC 3339 times are arguments.
\<close>

section \<open>Requests and answers\<close>

datatype sse_event = EvPortfolio Valuation | EvTransactionsUpdated gotime | EvPnLUpdated gotime

datatype body =
    JError string
  | JHoldings "Holding list" | JHolding Holding
  | JValuation Valuation | JPoints "HistoricalPoint list"
  | JCredential ExchangeCredential | JCredentials "ExchangeCredential list"
  | JWallet WalletAddress | JWallets "WalletAddress list"
  | JSyncAll SyncAllResult | JStatus string | JImported nat | JMessage string
  | JTransactions "Transaction list" int int int | JSnapshot "PnLSnapshot option"
  | JEvents "sse_event list" | PlainText string | NoContent

type_synonym reply = "nat \<times> body"

text \<open>The state behind the handlers, and what one request meets.\<close>

record api_world =
  aw_port :: port_world
  aw_txs :: "Transaction list"
  aw_snapshots :: "PnLSnapshot list"
  aw_debounce :: debouncer
  aw_published :: "Task list"

record api_env =
  ae_uuid :: "string \<Rightarrow> uuid_text option"
  ae_time :: "string \<Rightarrow> gotime option"
  ae_port :: port_env
  ae_sync_creds :: "nat \<Rightarrow> port_env"
  ae_sync_wallets :: "nat \<Rightarrow> port_env"
  ae_sort_h :: "Holding sorting"
  ae_sort_c :: "ExchangeCredential sorting"
  ae_sort_w :: "WalletAddress sorting"
  ae_sort_t :: "Transaction sorting"
  ae_err :: db_outcome
  ae_price :: "string \<Rightarrow> (string, float64) result"
  ae_candles :: "nat \<Rightarrow> string \<Rightarrow> string \<Rightarrow> gotime \<Rightarrow> gotime \<Rightarrow> (string, Candle list) result"
  ae_now :: gotime
  ae_tx :: tx_env
  ae_market :: market_db
  ae_publish :: "string option"

record PortfolioHandler =
  ph_svc :: PortfolioService
  ph_has_market :: bool
  ph_has_tx :: bool
  ph_has_pnl :: bool

definition requireJWTUser :: "string \<Rightarrow> api_env \<Rightarrow> api_request \<Rightarrow> (reply, uuid_text) result" where
  "requireJWTUser msg env r =
     (if ctx_method r = Some ''api_token'' then Inl (403, JError msg)
      else case ctx_claims r of
        None \<Rightarrow> Inl (401, JError ''unauthorized'')
      | Some claims \<Rightarrow> (case ae_uuid env (c_Sub claims) of None \<Rightarrow> Inl (401, JError ''unauthorized'') | Some u \<Rightarrow> Inr u))"

definition as_user :: "string \<Rightarrow> api_env \<Rightarrow> api_request \<Rightarrow> api_world \<Rightarrow> (uuid_text \<Rightarrow> reply \<times> api_world) \<Rightarrow> reply \<times> api_world" where
  "as_user msg env r w f = (case requireJWTUser msg env r of Inl a \<Rightarrow> (a, w) | Inr u \<Rightarrow> f u)"

abbreviation port_user :: "api_env \<Rightarrow> api_request \<Rightarrow> api_world \<Rightarrow> (uuid_text \<Rightarrow> reply \<times> api_world) \<Rightarrow> reply \<times> api_world" where
  "port_user \<equiv> as_user ''portfolio endpoints require JWT session auth''"

abbreviation tx_user :: "api_env \<Rightarrow> api_request \<Rightarrow> api_world \<Rightarrow> (uuid_text \<Rightarrow> reply \<times> api_world) \<Rightarrow> reply \<times> api_world" where
  "tx_user \<equiv> as_user ''transaction endpoints require JWT session auth''"

text \<open>\<^verbatim>\<open>errors.Is\<close> looks through wrapped errors.\<close>

fun root_error :: "port_error \<Rightarrow> port_error" where
  "root_error (Wrap m e) = root_error e"
| "root_error e = e"

definition handleServiceError :: "port_error \<Rightarrow> reply" where
  "handleServiceError e =
     (case root_error e of
        ErrForbidden \<Rightarrow> (403, JError ''forbidden'')
      | ErrDuplicateCredential _ \<Rightarrow> (409, JError (err_text e))
      | ErrNonPositiveQuantity \<Rightarrow> (400, JError (err_text e))
      | ErrInvalidAssetSymbol _ \<Rightarrow> (400, JError (err_text e))
      | ErrUnsupportedExchange _ \<Rightarrow> (400, JError (err_text e))
      | ErrUnsupportedChain _ \<Rightarrow> (400, JError (err_text e))
      | ErrInvalidEthereumAddress \<Rightarrow> (400, JError (err_text e))
      | ErrInvalidSolanaAddress \<Rightarrow> (400, JError (err_text e))
      | ErrInvalidBitcoinAddress \<Rightarrow> (400, JError (err_text e))
      | _ \<Rightarrow> (500, JError ''internal error''))"

definition internal_error :: reply where "internal_error = (500, JError ''internal error'')"

definition extractPathID :: "api_env \<Rightarrow> string \<Rightarrow> string \<Rightarrow> uuid_text option" where
  "extractPathID env path pre = ae_uuid env (hd (split_on CHR ''/'' (trim_prefix pre path)))"

section \<open>Holdings and valuations\<close>

definition ph_ListHoldings :: "api_env \<Rightarrow> PortfolioHandler \<Rightarrow> api_request \<Rightarrow> api_world \<Rightarrow> reply \<times> api_world" where
  "ph_ListHoldings env h r w = port_user env r w (\<lambda>u.
     (case ListHoldings (ae_sort_h env) (ae_port env) u (aw_port w) of Inl e \<Rightarrow> internal_error | Inr hs \<Rightarrow> (200, JHoldings hs), w))"

definition body_holding :: "uuid_text \<Rightarrow> holding_body \<Rightarrow> Holding" where
  "body_holding i b =
     \<lparr>h_ID = i, h_UserID = nil_uuid, h_AssetSymbol = hb_AssetSymbol b, h_Quantity = hb_Quantity b, h_AvgBuyPrice = hb_AvgBuyPrice b,
      h_QuoteCurrency = with_default ''USD'' (hb_QuoteCurrency b), h_Source = ''manual'', h_SourceRef = None, h_Notes = hb_Notes b,
      h_CreatedAt = 0, h_UpdatedAt = 0\<rparr>"

text \<open>The outcome of a call of the portfolio service as an answer, with the new state.\<close>

definition svc_reply :: "api_world \<Rightarrow> ('a \<Rightarrow> reply) \<Rightarrow> 'a port_result \<times> port_world \<Rightarrow> reply \<times> api_world" where
  "svc_reply w ok res = (case res of (Inl e, p) \<Rightarrow> (handleServiceError e, w\<lparr>aw_port := p\<rparr>) | (Inr x, p) \<Rightarrow> (ok x, w\<lparr>aw_port := p\<rparr>))"

definition ph_CreateHolding :: "api_env \<Rightarrow> PortfolioHandler \<Rightarrow> api_request \<Rightarrow> api_world \<Rightarrow> reply \<times> api_world" where
  "ph_CreateHolding env h r w = port_user env r w (\<lambda>u.
     case rq_holding r of
       None \<Rightarrow> ((400, JError ''invalid request body''), w)
     | Some b \<Rightarrow> svc_reply w (\<lambda>x. (201, JHolding x)) (CreateHolding (ae_port env) (ph_svc h) u (body_holding nil_uuid b) (aw_port w)))"

definition ph_UpdateHolding :: "api_env \<Rightarrow> PortfolioHandler \<Rightarrow> api_request \<Rightarrow> api_world \<Rightarrow> reply \<times> api_world" where
  "ph_UpdateHolding env h r w = port_user env r w (\<lambda>u.
     case extractPathID env (r_path r) ''/api/v1/portfolio/holdings/'' of
       None \<Rightarrow> ((400, JError ''invalid holding id''), w)
     | Some i \<Rightarrow>
         (case rq_holding r of
            None \<Rightarrow> ((400, JError ''invalid request body''), w)
          | Some b \<Rightarrow> svc_reply w (\<lambda>x. (200, JHolding x)) (UpdateHolding (ae_port env) (ph_svc h) u (body_holding i b) (aw_port w))))"

definition ph_DeleteHolding :: "api_env \<Rightarrow> PortfolioHandler \<Rightarrow> api_request \<Rightarrow> api_world \<Rightarrow> reply \<times> api_world" where
  "ph_DeleteHolding env h r w = port_user env r w (\<lambda>u.
     case extractPathID env (r_path r) ''/api/v1/portfolio/holdings/'' of
       None \<Rightarrow> ((400, JError ''invalid holding id''), w)
     | Some i \<Rightarrow> svc_reply w (\<lambda>_. (204, NoContent)) (DeleteHolding (ae_port env) u i (aw_port w)))"

definition ph_GetValuation :: "api_env \<Rightarrow> PortfolioHandler \<Rightarrow> api_request \<Rightarrow> api_world \<Rightarrow> reply \<times> api_world" where
  "ph_GetValuation env h r w = port_user env r w (\<lambda>u.
     (case ComputeValuation (ae_sort_h env) (ae_err env 0) (ae_price env) (ae_now env) u (with_default ''USD'' (rq_query r ''quote'')) (holdings (aw_port w)) of
        Inl e \<Rightarrow> internal_error
      | Inr v \<Rightarrow> (200, JValuation v), w))"

definition ph_GetHistory :: "api_env \<Rightarrow> PortfolioHandler \<Rightarrow> api_request \<Rightarrow> api_world \<Rightarrow> reply \<times> api_world" where
  "ph_GetHistory env h r w = port_user env r w (\<lambda>u.
     (case ComputeHistorical (ae_sort_h env) (ae_err env 0) (ae_candles env) (ae_now env) u (with_default ''USD'' (rq_query r ''quote''))
             (with_default ''7d'' (rq_query r ''range'')) (holdings (aw_port w)) of
        Inl e \<Rightarrow> internal_error
      | Inr ps \<Rightarrow> (200, JPoints ps), w))"

section \<open>Recomputation\<close>

text \<open>An error of queueing is only logged.\<close>

definition queueRecomputeWithCurrency :: "api_env \<Rightarrow> PortfolioHandler \<Rightarrow> uuid_text \<Rightarrow> string \<Rightarrow> api_world \<Rightarrow> api_world" where
  "queueRecomputeWithCurrency env h u currency w =
     (if \<not> ph_has_tx h then w
      else case QueueRecomputeWithCurrency (ae_publish env) (ae_now env) u currency (aw_debounce w) of
        (_, s, ts) \<Rightarrow> w\<lparr>aw_debounce := s, aw_published := aw_published w @ ts\<rparr>)"

definition ph_queueRecompute :: "api_env \<Rightarrow> PortfolioHandler \<Rightarrow> uuid_text \<Rightarrow> api_world \<Rightarrow> api_world" where
  "ph_queueRecompute env h u w = queueRecomputeWithCurrency env h u [] w"

definition ph_Recompute :: "api_env \<Rightarrow> PortfolioHandler \<Rightarrow> api_request \<Rightarrow> api_world \<Rightarrow> reply \<times> api_world" where
  "ph_Recompute env h r w = port_user env r w (\<lambda>u.
     ((200, JStatus ''queued''),
      queueRecomputeWithCurrency env h u (if rq_query r ''quote'' = [] then rq_currency r else rq_query r ''quote'') w))"

section \<open>Credentials and wallets\<close>

definition ph_CreateCredential :: "api_env \<Rightarrow> PortfolioHandler \<Rightarrow> api_request \<Rightarrow> api_world \<Rightarrow> reply \<times> api_world" where
  "ph_CreateCredential env h r w = port_user env r w (\<lambda>u.
     case rq_credential r of
       None \<Rightarrow> ((400, JError ''invalid request body''), w)
     | Some (ex, key, sec) \<Rightarrow>
         if ex = [] \<or> key = [] \<or> sec = [] then ((400, JError ''exchange, api_key, and api_secret are required''), w)
         else svc_reply w (\<lambda>c. (201, JCredential c)) (CreateCredential (ae_port env) (ph_svc h) u ex key sec (aw_port w)))"

definition ph_ListCredentials :: "api_env \<Rightarrow> PortfolioHandler \<Rightarrow> api_request \<Rightarrow> api_world \<Rightarrow> reply \<times> api_world" where
  "ph_ListCredentials env h r w = port_user env r w (\<lambda>u.
     (case ListCredentials (ae_sort_c env) (ae_port env) u (aw_port w) of Inl e \<Rightarrow> internal_error | Inr cs \<Rightarrow> (200, JCredentials cs), w))"

definition ph_DeleteCredential :: "api_env \<Rightarrow> PortfolioHandler \<Rightarrow> api_request \<Rightarrow> api_world \<Rightarrow> reply \<times> api_world" where
  "ph_DeleteCredential env h r w = port_user env r w (\<lambda>u.
     case extractPathID env (r_path r) ''/api/v1/portfolio/credentials/'' of
       None \<Rightarrow> ((400, JError ''invalid credential id''), w)
     | Some i \<Rightarrow> svc_reply w (\<lambda>_. (204, NoContent)) (DeleteCredential (ae_port env) u i (aw_port w)))"

text \<open>Errors of normalising the fetched trades are only logged.\<close>

definition normalize_trades :: "api_env \<Rightarrow> PortfolioHandler \<Rightarrow> uuid_text \<Rightarrow> uuid_text \<Rightarrow> SyncCredentialResult \<Rightarrow> api_world \<Rightarrow> api_world" where
  "normalize_trades env h u credID res w =
     (if ph_has_tx h \<and> sc_Trades res \<noteq> []
      then w\<lparr>aw_txs := snd (NormalizeForSource (ae_tx env) 0 (ae_market env) u (sc_Exchange res) credID ''USD'' (sc_Trades res) (aw_txs w))\<rparr>
      else w)"

definition ph_SyncCredential :: "api_env \<Rightarrow> PortfolioHandler \<Rightarrow> api_request \<Rightarrow> api_world \<Rightarrow> reply \<times> api_world" where
  "ph_SyncCredential env h r w = port_user env r w (\<lambda>u.
     case ae_uuid env (trim_suffix ''/sync'' (trim_prefix ''/api/v1/portfolio/credentials/'' (r_path r))) of
       None \<Rightarrow> ((400, JError ''invalid credential id''), w)
     | Some i \<Rightarrow>
         (case SyncCredential (ae_port env) (ph_svc h) u i (aw_port w) of
            (Inl e, p) \<Rightarrow> (handleServiceError e, w\<lparr>aw_port := p\<rparr>)
          | (Inr res, p) \<Rightarrow>
              ((200, JStatus ''synced''), ph_queueRecompute env h u (normalize_trades env h u i res (w\<lparr>aw_port := p\<rparr>)))))"

definition ph_SyncAll :: "api_env \<Rightarrow> PortfolioHandler \<Rightarrow> api_request \<Rightarrow> api_world \<Rightarrow> reply \<times> api_world" where
  "ph_SyncAll env h r w = port_user env r w (\<lambda>u.
     case SyncAll (ae_sort_c env) (ae_sort_w env) (ae_port env) (ae_sync_creds env) (ae_sync_wallets env) (ph_svc h) u (aw_port w) of
       (res, p) \<Rightarrow> ((200, JSyncAll res), ph_queueRecompute env h u (w\<lparr>aw_port := p\<rparr>)))"

definition ph_CreateWallet :: "api_env \<Rightarrow> PortfolioHandler \<Rightarrow> api_request \<Rightarrow> api_world \<Rightarrow> reply \<times> api_world" where
  "ph_CreateWallet env h r w = port_user env r w (\<lambda>u.
     case rq_wallet r of
       None \<Rightarrow> ((400, JError ''invalid request body''), w)
     | Some (chain, address, label) \<Rightarrow>
         if chain = [] \<or> address = [] then ((400, JError ''chain and address are required''), w)
         else svc_reply w (\<lambda>a. (201, JWallet a)) (CreateWallet (ae_port env) (ph_svc h) u chain address label (aw_port w)))"

definition ph_ListWallets :: "api_env \<Rightarrow> PortfolioHandler \<Rightarrow> api_request \<Rightarrow> api_world \<Rightarrow> reply \<times> api_world" where
  "ph_ListWallets env h r w = port_user env r w (\<lambda>u.
     (case ListWallets (ae_sort_w env) (ae_port env) u (aw_port w) of Inl e \<Rightarrow> internal_error | Inr ws \<Rightarrow> (200, JWallets ws), w))"

definition ph_DeleteWallet :: "api_env \<Rightarrow> PortfolioHandler \<Rightarrow> api_request \<Rightarrow> api_world \<Rightarrow> reply \<times> api_world" where
  "ph_DeleteWallet env h r w = port_user env r w (\<lambda>u.
     case extractPathID env (r_path r) ''/api/v1/portfolio/wallets/'' of
       None \<Rightarrow> ((400, JError ''invalid wallet id''), w)
     | Some i \<Rightarrow> svc_reply w (\<lambda>_. (204, NoContent)) (DeleteWallet (ae_port env) u i (aw_port w)))"

definition ph_SyncWallet :: "api_env \<Rightarrow> PortfolioHandler \<Rightarrow> api_request \<Rightarrow> api_world \<Rightarrow> reply \<times> api_world" where
  "ph_SyncWallet env h r w = port_user env r w (\<lambda>u.
     case ae_uuid env (trim_suffix ''/sync'' (trim_prefix ''/api/v1/portfolio/wallets/'' (r_path r))) of
       None \<Rightarrow> ((400, JError ''invalid wallet id''), w)
     | Some i \<Rightarrow>
         (case SyncWallet (ae_port env) (ph_svc h) u i (aw_port w) of
            (Inl e, p) \<Rightarrow> (handleServiceError e, w\<lparr>aw_port := p\<rparr>)
          | (Inr _, p) \<Rightarrow> ((200, JStatus ''synced''), ph_queueRecompute env h u (w\<lparr>aw_port := p\<rparr>))))"

section \<open>Ledger\<close>

definition ph_ConnectLedger :: "api_env \<Rightarrow> PortfolioHandler \<Rightarrow> api_request \<Rightarrow> api_world \<Rightarrow> reply \<times> api_world" where
  "ph_ConnectLedger env h r w = port_user env r w (\<lambda>u.
     case rq_upload r of
       BadForm \<Rightarrow> ((400, JError ''invalid multipart form or file too large''), w)
     | NoFile \<Rightarrow> ((400, JError ''file field is required''), w)
     | Unreadable \<Rightarrow> ((400, JError ''failed to read uploaded file''), w)
     | Upload d \<Rightarrow>
         (case ImportLedgerExport (ae_port env) (ph_svc h) u d (aw_port w) of
            (Inl e, p) \<Rightarrow>
              (if contains_str (err_text e) ''parsing ledger export'' then (400, JError ''invalid ledger export file'') else handleServiceError e,
               w\<lparr>aw_port := p\<rparr>)
          | (Inr n, p) \<Rightarrow> ((200, JImported n), ph_queueRecompute env h u (w\<lparr>aw_port := p\<rparr>))))"

definition ph_SyncLedger :: "api_env \<Rightarrow> PortfolioHandler \<Rightarrow> api_request \<Rightarrow> api_world \<Rightarrow> reply \<times> api_world" where
  "ph_SyncLedger env h r w = port_user env r w (\<lambda>u.
     ((200, JMessage ''Ledger sync is not supported with file upload. Please re-upload your Ledger Live export.''), w))"

definition ph_DisconnectLedger :: "api_env \<Rightarrow> PortfolioHandler \<Rightarrow> api_request \<Rightarrow> api_world \<Rightarrow> reply \<times> api_world" where
  "ph_DisconnectLedger env h r w = port_user env r w (\<lambda>u. svc_reply w (\<lambda>_. (204, NoContent)) (DisconnectLedger (ae_port env) u (aw_port w)))"

section \<open>Transactions\<close>

definition time_param :: "api_env \<Rightarrow> string \<Rightarrow> (unit, gotime option) result" where
  "time_param env s = (if s = [] then Inr None else case ae_time env s of None \<Rightarrow> Inl () | Some t \<Rightarrow> Inr (Some t))"

definition th_ListTransactions :: "api_env \<Rightarrow> api_request \<Rightarrow> api_world \<Rightarrow> reply \<times> api_world" where
  "th_ListTransactions env r w = tx_user env r w (\<lambda>u.
     (case time_param env (rq_query r ''start'') of
        Inl _ \<Rightarrow> (400, JError ''invalid start parameter, expected RFC3339 format'')
      | Inr start \<Rightarrow>
          (case time_param env (rq_query r ''end'') of
             Inl _ \<Rightarrow> (400, JError ''invalid end parameter, expected RFC3339 format'')
           | Inr stop \<Rightarrow>
               let page = max 1 (getIntQueryParam r ''page'' 1);
                   size0 = getIntQueryParam r ''page_size'' 50;
                   pageSize = (if size0 < 1 \<or> 200 < size0 then 50 else size0);
                   opts = \<lparr>lo_Asset = rq_query r ''asset'', lo_Type = rq_query r ''type'', lo_StartDate = start, lo_EndDate = stop,
                     lo_Page = page, lo_PageSize = pageSize\<rparr>
               in case ListTransactions (ae_sort_t env) (ae_err env 0) u opts (aw_txs w) of
                    Inl e \<Rightarrow> internal_error
                  | Inr (ts, n) \<Rightarrow> (200, JTransactions ts n page pageSize)), w))"

definition th_UpdateTransaction :: "api_env \<Rightarrow> api_request \<Rightarrow> api_world \<Rightarrow> reply \<times> api_world" where
  "th_UpdateTransaction env r w = tx_user env r w (\<lambda>u.
     case extractPathID env (r_path r) ''/api/v1/portfolio/transactions/'' of
       None \<Rightarrow> ((400, JError ''invalid transaction id''), w)
     | Some i \<Rightarrow>
         (case rq_edit r of
            None \<Rightarrow> ((400, JError ''invalid request body''), w)
          | Some (val, txt) \<Rightarrow>
              if val = None \<and> txt = None then ((400, JError ''at least one of reference_value or notes is required''), w)
              else case UpdateTransaction (ae_err env) (ae_now env) u i val txt (aw_txs w) of
                (Inl e, ts) \<Rightarrow> (if root_error e = SqlNoRows then (404, JError ''transaction not found'') else internal_error, w\<lparr>aw_txs := ts\<rparr>)
              | (Inr _, ts) \<Rightarrow> ((200, JStatus ''updated''), w\<lparr>aw_txs := ts\<rparr>)))"

definition GetSnapshot :: "string option \<Rightarrow> uuid_text \<Rightarrow> string \<Rightarrow> PnLSnapshot list \<Rightarrow> PnLSnapshot option port_result" where
  "GetSnapshot err u cur rs = pnl_FindByUser err u cur rs"

definition th_GetPnL :: "api_env \<Rightarrow> api_request \<Rightarrow> api_world \<Rightarrow> reply \<times> api_world" where
  "th_GetPnL env r w = tx_user env r w (\<lambda>u.
     (case GetSnapshot (ae_err env 0) u (with_default ''USD'' (rq_query r ''quote'')) (aw_snapshots w) of
        Inl e \<Rightarrow> internal_error
      | Inr s \<Rightarrow> (200, JSnapshot s), w))"

section \<open>The event stream\<close>

text \<open>What a stream fixes when it opens: its user and currency, the pairs of the assets held then, and the end of the session.\<close>

record port_stream =
  pst_user :: uuid_text
  pst_quote :: string
  pst_held :: "string set"
  pst_deadline :: "gotime option"

text \<open>Opening: an answer, or the first event with the stream, if it goes on. A writer that cannot be flushed is not considered.\<close>

definition stream_start :: "api_env \<Rightarrow> PortfolioHandler \<Rightarrow> api_request \<Rightarrow> api_world \<Rightarrow> (reply, sse_event \<times> port_stream option) result" where
  "stream_start env h r w =
     (case requireJWTUser ''portfolio endpoints require JWT session auth'' env r of
        Inl a \<Rightarrow> Inl a
      | Inr u \<Rightarrow>
          if \<not> ph_has_market h then Inl (503, JError ''portfolio streaming not available'')
          else let quote = with_default ''USD'' (rq_query r ''quote''); deadline = Option.bind (ctx_claims r) c_ExpiresAt
               in if (case deadline of None \<Rightarrow> False | Some t \<Rightarrow> t - ae_now env \<le> 0) then Inl (401, JError ''session expired'')
                  else case ComputeValuation (ae_sort_h env) (ae_err env 0) (ae_price env) (ae_now env) u quote (holdings (aw_port w)) of
                    Inl e \<Rightarrow> Inl internal_error
                  | Inr v \<Rightarrow>
                      Inr (EvPortfolio v,
                        case ListHoldings (ae_sort_h env) (ae_port env) u (aw_port w) of
                          Inl e \<Rightarrow> None
                        | Inr hs \<Rightarrow> Some \<lparr>pst_user = u, pst_quote = quote, pst_held = HeldAssetPairs hs quote, pst_deadline = deadline\<rparr>))"

definition stream_ticker :: "api_env \<Rightarrow> port_stream \<Rightarrow> string list \<Rightarrow> api_world \<Rightarrow> sse_event list" where
  "stream_ticker env st pairs w =
     (if pairs = [] \<or> \<not> HasRelevantUpdate (pst_held st) pairs then []
      else case ComputeValuation (ae_sort_h env) (ae_err env 0) (ae_price env) (ae_now env) (pst_user st) (pst_quote st) (holdings (aw_port w)) of
        Inl e \<Rightarrow> []
      | Inr v \<Rightarrow> [EvPortfolio v])"

definition stream_notified :: "port_stream \<Rightarrow> gotime \<Rightarrow> uuid_text \<Rightarrow> sse_event list" where
  "stream_notified st now u = (if u \<noteq> pst_user st then [] else [EvTransactionsUpdated now, EvPnLUpdated now])"

text \<open>The answer of the handler up to its first event.\<close>

definition ph_StreamPortfolio :: "api_env \<Rightarrow> PortfolioHandler \<Rightarrow> api_request \<Rightarrow> api_world \<Rightarrow> reply \<times> api_world" where
  "ph_StreamPortfolio env h r w = (case stream_start env h r w of Inl a \<Rightarrow> (a, w) | Inr (ev, _) \<Rightarrow> ((200, JEvents [ev]), w))"

text \<open>An asset bought after the stream was opened never triggers a new valuation.\<close>

lemma late_assets_not_pushed: "set pairs \<inter> pst_held st = {} \<Longrightarrow> stream_ticker env st pairs w = []"
  by (auto simp: stream_ticker_def HasRelevantUpdate_def list_ex_iff)

section \<open>Routes\<close>

definition not_allowed :: reply where "not_allowed = (405, PlainText ''method not allowed'')"

definition not_found :: reply where "not_found = (404, PlainText ''not found'')"

definition mux_not_found :: reply where "mux_not_found = (404, PlainText ''404 page not found'')"

definition only :: "string \<Rightarrow> api_request \<Rightarrow> api_world \<Rightarrow> reply \<times> api_world \<Rightarrow> reply \<times> api_world" where
  "only m r w res = (if rq_method r = m then res else (not_allowed, w))"

text \<open>
  The routes below \<^verbatim>\<open>/api/v1/portfolio\<close>. A pattern that ends in a slash matches every longer path. What no pattern matches is left
  to the multiplexer of the library.
\<close>

definition portfolio_mux :: "api_env \<Rightarrow> PortfolioHandler \<Rightarrow> api_request \<Rightarrow> api_world \<Rightarrow> reply \<times> api_world" where
  "portfolio_mux env h r w =
     (let path = r_path r; meth = rq_method r in
      if path = ''/api/v1/portfolio/holdings'' then
        (if meth = ''GET'' then ph_ListHoldings env h r w else if meth = ''POST'' then ph_CreateHolding env h r w else (not_allowed, w))
      else if prefix ''/api/v1/portfolio/holdings/'' path then
        (if meth = ''PUT'' then ph_UpdateHolding env h r w else if meth = ''DELETE'' then ph_DeleteHolding env h r w else (not_allowed, w))
      else if path = ''/api/v1/portfolio/valuation'' then ph_GetValuation env h r w
      else if path = ''/api/v1/portfolio/history'' then ph_GetHistory env h r w
      else if path = ''/api/v1/portfolio/sync-all'' then only ''POST'' r w (ph_SyncAll env h r w)
      else if path = ''/api/v1/portfolio/recompute'' then only ''POST'' r w (ph_Recompute env h r w)
      else if path = ''/api/v1/portfolio/credentials'' then
        (if meth = ''GET'' then ph_ListCredentials env h r w else if meth = ''POST'' then ph_CreateCredential env h r w else (not_allowed, w))
      else if prefix ''/api/v1/portfolio/credentials/'' path then
        (if suffix ''/sync'' path \<and> meth = ''POST'' then ph_SyncCredential env h r w
         else if meth = ''DELETE'' then ph_DeleteCredential env h r w else (not_found, w))
      else if path = ''/api/v1/portfolio/wallets'' then
        (if meth = ''GET'' then ph_ListWallets env h r w else if meth = ''POST'' then ph_CreateWallet env h r w else (not_allowed, w))
      else if prefix ''/api/v1/portfolio/wallets/'' path then
        (if suffix ''/sync'' path \<and> meth = ''POST'' then ph_SyncWallet env h r w
         else if meth = ''DELETE'' then ph_DeleteWallet env h r w else (not_found, w))
      else if path = ''/api/v1/portfolio/ledger/connect'' then only ''POST'' r w (ph_ConnectLedger env h r w)
      else if path = ''/api/v1/portfolio/ledger/sync'' then only ''POST'' r w (ph_SyncLedger env h r w)
      else if path = ''/api/v1/portfolio/ledger'' then only ''DELETE'' r w (ph_DisconnectLedger env h r w)
      else if path = ''/api/v1/portfolio/stream'' then ph_StreamPortfolio env h r w
      else if ph_has_tx h \<and> ph_has_pnl h \<and> path = ''/api/v1/portfolio/transactions'' then only ''GET'' r w (th_ListTransactions env r w)
      else if ph_has_tx h \<and> ph_has_pnl h \<and> prefix ''/api/v1/portfolio/transactions/'' path then only ''PUT'' r w (th_UpdateTransaction env r w)
      else if ph_has_tx h \<and> ph_has_pnl h \<and> path = ''/api/v1/portfolio/pnl'' then only ''GET'' r w (th_GetPnL env r w)
      else (mux_not_found, w))"

section \<open>Who may do what\<close>

text \<open>The user a request acts for.\<close>

definition requester :: "api_env \<Rightarrow> api_request \<Rightarrow> uuid_text option" where
  "requester env r =
     (if ctx_method r = Some ''api_token'' then None else Option.bind (ctx_claims r) (\<lambda>c. ae_uuid env (c_Sub c)))"

lemma require_requester:
  "requester env r = Some u \<Longrightarrow> requireJWTUser msg env r = Inr u"
  "requester env r = None \<Longrightarrow> \<exists>b. requireJWTUser msg env r = Inl (401, b) \<or> requireJWTUser msg env r = Inl (403, b)"
  by (auto simp: requester_def requireJWTUser_def split: option.splits if_splits bind_splits)

lemmas handler_defs = ph_ListHoldings_def ph_CreateHolding_def ph_UpdateHolding_def ph_DeleteHolding_def ph_GetValuation_def ph_GetHistory_def
  ph_Recompute_def ph_CreateCredential_def ph_ListCredentials_def ph_DeleteCredential_def ph_SyncCredential_def ph_SyncAll_def ph_CreateWallet_def
  ph_ListWallets_def ph_DeleteWallet_def ph_SyncWallet_def ph_ConnectLedger_def ph_SyncLedger_def ph_DisconnectLedger_def
  th_ListTransactions_def th_UpdateTransaction_def th_GetPnL_def

definition refused :: "api_world \<Rightarrow> reply \<times> api_world \<Rightarrow> bool" where
  "refused w res \<longleftrightarrow> snd res = w \<and> fst (fst res) \<in> {401, 403, 404, 405}"

lemma as_user_refused: "requester env r = None \<Longrightarrow> refused w (as_user msg env r w f)"
  using require_requester(2) [of env r msg] by (auto simp: as_user_def refused_def)

lemma handlers_refused:
  assumes "requester env r = None"
  shows "refused w (ph_ListHoldings env h r w)" "refused w (ph_CreateHolding env h r w)" "refused w (ph_UpdateHolding env h r w)"
    "refused w (ph_DeleteHolding env h r w)" "refused w (ph_GetValuation env h r w)" "refused w (ph_GetHistory env h r w)"
    "refused w (ph_Recompute env h r w)" "refused w (ph_CreateCredential env h r w)" "refused w (ph_ListCredentials env h r w)"
    "refused w (ph_DeleteCredential env h r w)" "refused w (ph_SyncCredential env h r w)" "refused w (ph_SyncAll env h r w)"
    "refused w (ph_CreateWallet env h r w)" "refused w (ph_ListWallets env h r w)" "refused w (ph_DeleteWallet env h r w)"
    "refused w (ph_SyncWallet env h r w)" "refused w (ph_ConnectLedger env h r w)" "refused w (ph_SyncLedger env h r w)"
    "refused w (ph_DisconnectLedger env h r w)" "refused w (th_ListTransactions env r w)" "refused w (th_UpdateTransaction env r w)"
    "refused w (th_GetPnL env r w)"
  unfolding handler_defs by (rule as_user_refused [OF assms])+

lemma refused_if: "refused w a \<Longrightarrow> refused w b \<Longrightarrow> refused w (if c then a else b)"
  by simp

lemma refused_only: "refused w res \<Longrightarrow> refused w (only m r w res)" "refused w (not_allowed, w)" "refused w (not_found, w)"
  "refused w (mux_not_found, w)"
  by (auto simp: only_def refused_def not_allowed_def not_found_def mux_not_found_def)

lemma stream_refused: "requester env r = None \<Longrightarrow> refused w (ph_StreamPortfolio env h r w)"
  using require_requester(2) [of env r "''portfolio endpoints require JWT session auth''"]
  by (auto simp: ph_StreamPortfolio_def stream_start_def refused_def)

lemma mux_refused: "requester env r = None \<Longrightarrow> refused w (portfolio_mux env h r w)"
  unfolding portfolio_mux_def Let_def by (intro refused_if handlers_refused stream_refused refused_only)

text \<open>
  The portfolio is only open to sessions. A request below \<^verbatim>\<open>/api/v1/portfolio\<close> that was authenticated by an API token, that
  carries no claims or whose claims name no user is refused whatever its path, method and body, with 401, 403, 404 or 405, and nothing
  changes.
\<close>

lemma portfolio_needs_session:
  assumes "ctx_method r = Some ''api_token'' \<or> ctx_claims r = None \<or> (\<exists>c. ctx_claims r = Some c \<and> ae_uuid env (c_Sub c) = None)"
  shows "snd (portfolio_mux env h r w) = w \<and> fst (fst (portfolio_mux env h r w)) \<in> {401, 403, 404, 405}"
proof -
  from assms have "requester env r = None" by (auto simp: requester_def)
  from mux_refused [OF this] show ?thesis by (simp add: refused_def)
qed

section \<open>Isolation through the API\<close>

abbreviation own_tx :: "uuid_text \<Rightarrow> Transaction \<Rightarrow> bool" where
  "own_tx u \<equiv> (\<lambda>t. tx_UserID t = u)"

definition api_isolated :: "uuid_text \<Rightarrow> api_world \<Rightarrow> api_world \<Rightarrow> bool" where
  "api_isolated u w w' \<longleftrightarrow> isolated u (aw_port w) (aw_port w') \<and> keeps (own_tx u) (aw_txs w) (aw_txs w') \<and> aw_snapshots w' = aw_snapshots w"

lemma api_isolated_refl: "ids_ok (aw_port w) \<Longrightarrow> api_isolated u w w"
  by (simp add: api_isolated_def isolated_refl)

lemma api_isolated_port: "isolated u (aw_port w) p \<Longrightarrow> api_isolated u w (w\<lparr>aw_port := p\<rparr>)"
  by (simp add: api_isolated_def)

lemma tx_Upsert_keeps: "tx_UserID t = u \<Longrightarrow> keeps (own_tx u) rs (snd (tx_Upsert err now t rs))"
  by (auto simp: tx_Upsert_def tx_key_def tx_overwrite_def intro!: keeps_append keeps_update split: option.split)

lemma NormalizeForSource_keeps: "keeps (own_tx u) rs (snd (NormalizeForSource env i mkt u src ref cur es rs))"
proof (induction es arbitrary: i rs)
  case (Cons e es)
  let ?up = "tx_Upsert (te_write env 0 i) (te_now env 0 i)
    (entry_tx (te_new env i) u src ref cur e (resolve_or (te_candles env 0 i) mkt (le_Asset e) cur (le_Timestamp e))) rs"
  have one: "keeps (own_tx u) rs (snd ?up)" by (rule tx_Upsert_keeps) (simp add: entry_tx_def)
  with keeps_trans [OF one Cons.IH] show ?case by (auto simp: Let_def prod.case_eq_if split: sum.split port_error.split)
qed simp

lemma UpdateTransaction_keeps: "keeps (own_tx u) rs (snd (UpdateTransaction dbo now u i val txt rs))"
proof -
  have "keeps (own_tx u) rs (snd (tx_Update err now t rs))" if "tx_UserID t = u" for err t
    using that keeps_exec(1) [of rs "owned_tx (tx_ID t) u" "own_tx u" "tx_set t now" err] by (auto simp: tx_Update_def owned_tx_def tx_set_def)
  then show ?thesis
    by (auto simp: UpdateTransaction_def tx_FindByID_def Let_def prod.case_eq_if owned_tx_def dest!: query_rowD split: sum.split option.split)
qed

lemma isolated_queue: "api_isolated u w w' \<Longrightarrow> api_isolated u w (queueRecomputeWithCurrency env h v cur w')"
  by (auto simp: api_isolated_def queueRecomputeWithCurrency_def split: prod.split)

lemma isolated_svc_reply: "isolated u (aw_port w) (snd res) \<Longrightarrow> api_isolated u w (snd (svc_reply w ok res))"
  by (auto simp: svc_reply_def api_isolated_port split: prod.splits sum.splits)

lemma isolated_txs: "ids_ok (aw_port w) \<Longrightarrow> keeps (own_tx u) (aw_txs w) ts \<Longrightarrow> api_isolated u w (w\<lparr>aw_txs := ts\<rparr>)"
  by (simp add: api_isolated_def isolated_refl)

lemma isolated_normalize: "api_isolated u w w' \<Longrightarrow> api_isolated u w (normalize_trades env h u i res w')"
  using keeps_trans [OF _ NormalizeForSource_keeps] by (auto simp: api_isolated_def normalize_trades_def)

lemma as_user_requester: "requester env r = Some u \<Longrightarrow> as_user msg env r w f = f u"
  by (simp add: as_user_def require_requester)

lemmas isolated_service = isolated_holding_ops isolated_CreateCredential isolated_DeleteCredential isolated_SyncCredential
  isolated_CreateWallet isolated_DeleteWallet isolated_SyncWallet isolated_SyncAll isolated_ledger

lemma handlers_isolated:
  assumes u: "requester env r = Some u" and ok: "ids_ok (aw_port w)"
  shows "api_isolated u w (snd (ph_ListHoldings env h r w))" "api_isolated u w (snd (ph_CreateHolding env h r w))"
    "api_isolated u w (snd (ph_UpdateHolding env h r w))" "api_isolated u w (snd (ph_DeleteHolding env h r w))"
    "api_isolated u w (snd (ph_GetValuation env h r w))" "api_isolated u w (snd (ph_GetHistory env h r w))"
    "api_isolated u w (snd (ph_Recompute env h r w))" "api_isolated u w (snd (ph_CreateCredential env h r w))"
    "api_isolated u w (snd (ph_ListCredentials env h r w))" "api_isolated u w (snd (ph_DeleteCredential env h r w))"
    "api_isolated u w (snd (ph_CreateWallet env h r w))" "api_isolated u w (snd (ph_ListWallets env h r w))"
    "api_isolated u w (snd (ph_DeleteWallet env h r w))" "api_isolated u w (snd (ph_SyncLedger env h r w))"
    "api_isolated u w (snd (ph_DisconnectLedger env h r w))" "api_isolated u w (snd (th_ListTransactions env r w))"
    "api_isolated u w (snd (th_GetPnL env r w))"
  unfolding handler_defs as_user_requester [OF u]
  by (auto intro!: isolated_svc_reply isolated_queue simp: api_isolated_refl [OF ok] isolated_service [OF ok] split: option.split)

lemma sync_handlers_isolated:
  assumes u: "requester env r = Some u" and ok: "ids_ok (aw_port w)"
  shows "api_isolated u w (snd (ph_SyncCredential env h r w))" "api_isolated u w (snd (ph_SyncAll env h r w))"
    "api_isolated u w (snd (ph_SyncWallet env h r w))" "api_isolated u w (snd (ph_ConnectLedger env h r w))"
    "api_isolated u w (snd (th_UpdateTransaction env r w))"
  unfolding handler_defs as_user_requester [OF u] ph_queueRecompute_def
  by (simp_all add: prod.case_eq_if api_isolated_refl [OF ok] isolated_queue isolated_normalize api_isolated_port isolated_txs [OF ok]
      UpdateTransaction_keeps isolated_service [OF ok] split: option.split sum.split upload.split)

lemma isolated_if: "api_isolated u w (snd a) \<Longrightarrow> api_isolated u w (snd b) \<Longrightarrow> api_isolated u w (snd (if c then a else b))"
  by simp

lemma isolated_only:
  assumes "ids_ok (aw_port w)"
  shows "api_isolated u w (snd res) \<Longrightarrow> api_isolated u w (snd (only m r w res))" "api_isolated u w (snd (a, w))"
  using assms by (simp_all add: only_def api_isolated_refl)

lemma stream_isolated: "ids_ok (aw_port w) \<Longrightarrow> api_isolated u w (snd (ph_StreamPortfolio env h r w))"
  by (simp add: ph_StreamPortfolio_def api_isolated_refl prod.case_eq_if split: sum.split)

lemma mux_isolated:
  assumes "requester env r = Some u" "ids_ok (aw_port w)"
  shows "api_isolated u w (snd (portfolio_mux env h r w))"
  unfolding portfolio_mux_def Let_def
  by (intro isolated_if handlers_isolated [OF assms] sync_handlers_isolated [OF assms] stream_isolated [OF assms(2)] isolated_only [OF assms(2)])

definition serve_all :: "PortfolioHandler \<Rightarrow> (api_env \<times> api_request) list \<Rightarrow> api_world \<Rightarrow> api_world" where
  "serve_all h reqs w = fold (\<lambda>(env, r) w. snd (portfolio_mux env h r w)) reqs w"

text \<open>
  \<^bold>\<open>C19\<close>. Users are isolated from each other through the API. Whatever requests other users, API tokens or strangers send to the portfolio
  endpoints, in whatever order, with whatever paths and bodies, and however the database, the exchanges and the market data answer, the holdings,
  credentials, wallets and transactions of a user stay exactly as they are, and so do all snapshots.
\<close>

theorem portfolio_api_isolation:
  assumes "ids_ok (aw_port w)" "list_all (\<lambda>(env, r). requester env r \<noteq> Some v) reqs"
  shows "filter (\<lambda>h. h_UserID h = v) (holdings (aw_port (serve_all h reqs w))) = filter (\<lambda>h. h_UserID h = v) (holdings (aw_port w)) \<and>
    filter (\<lambda>c. ec_UserID c = v) (credentials (aw_port (serve_all h reqs w))) = filter (\<lambda>c. ec_UserID c = v) (credentials (aw_port w)) \<and>
    filter (\<lambda>a. wa_UserID a = v) (wallets (aw_port (serve_all h reqs w))) = filter (\<lambda>a. wa_UserID a = v) (wallets (aw_port w)) \<and>
    filter (\<lambda>t. tx_UserID t = v) (aw_txs (serve_all h reqs w)) = filter (\<lambda>t. tx_UserID t = v) (aw_txs w) \<and>
    aw_snapshots (serve_all h reqs w) = aw_snapshots w"
  using assms
proof (induction reqs arbitrary: w)
  case (Cons req reqs)
  obtain env r where req: "req = (env, r)" by (cases req)
  let ?w1 = "snd (portfolio_mux env h r w)"
  have step: "serve_all h (req # reqs) w = serve_all h reqs ?w1" by (simp add: serve_all_def req)
  show ?case
  proof (cases "requester env r")
    case None
    then have "?w1 = w" using mux_refused by (auto simp: refused_def)
    with Cons.IH [OF Cons.prems(1)] Cons.prems(2) show ?thesis unfolding step by simp
  next
    case (Some u)
    with Cons.prems(2) have "u \<noteq> v" by (simp add: req)
    note same = keeps_others [OF _ this]
    have iso: "api_isolated u w ?w1" by (rule mux_isolated [OF Some Cons.prems(1)])
    then have "ids_ok (aw_port ?w1)" by (simp add: api_isolated_def isolated_def)
    note rest = Cons.IH [OF this]
    from iso show ?thesis
      using rest Cons.prems(2) unfolding step
      by (simp add: api_isolated_def isolated_def others_same_def same [of h_UserID] same [of ec_UserID] same [of wa_UserID] same [of tx_UserID])
  qed
qed (simp add: serve_all_def)

text \<open>The world of the two users behind the API, and requests of one of them.\<close>

definition api_demo_env :: api_env where
  "api_demo_env = \<lparr>ae_uuid = (\<lambda>s. if s = [] then None else Some s), ae_time = (\<lambda>s. None), ae_port = demo_env, ae_sync_creds = (\<lambda>k. demo_env),
     ae_sync_wallets = (\<lambda>k. demo_env), ae_sort_h = (\<lambda>key. sort_key key), ae_sort_c = (\<lambda>key. sort_key key), ae_sort_w = (\<lambda>key. sort_key key),
     ae_sort_t = (\<lambda>key. sort_key key), ae_err = (\<lambda>k. None), ae_price = (\<lambda>p. Inl ''none''), ae_candles = (\<lambda>k p i a b. Inr []), ae_now = 100,
     ae_tx = \<lparr>te_srt = (\<lambda>p key. sort_key key), te_list = (\<lambda>k. None), te_candles = (\<lambda>p i k. None), te_write = (\<lambda>p k. None), te_now = (\<lambda>p k. 100),
       te_new = (\<lambda>k. ''t'')\<rparr>, ae_market = \<lparr>candles_1h = [], candles_1d = [], raw_candles = []\<rparr>, ae_publish = None\<rparr>"

definition api_demo_handler :: PortfolioHandler where
  "api_demo_handler = \<lparr>ph_svc = demo_service, ph_has_market = False, ph_has_tx = True, ph_has_pnl = True\<rparr>"

definition api_demo_request :: "string \<Rightarrow> string \<Rightarrow> string \<Rightarrow> api_request" where
  "api_demo_request u meth path = \<lparr>r_path = path, r_authorization = [], r_api_key = [], r_query_token = [], r_remote_addr = [], r_forwarded_for = [],
     r_real_ip = [], ctx_claims = Some \<lparr>c_Sub = u, c_Email = [], c_Role = ''user'', c_MustChangePassword = False, c_Subject = u, c_IssuedAt = None,
     c_ExpiresAt = None\<rparr>, ctx_method = Some ''jwt'', rq_method = meth, rq_query = (\<lambda>k. []), rq_holding = None, rq_credential = None, rq_wallet = None,
     rq_edit = None, rq_currency = [], rq_upload = NoFile, rq_cookie = (\<lambda>k. None), rq_user_agent = [], rq_login = MalformedLogin, rq_passwords = None,
     rq_label = None, rq_role = None, rq_disabled = None, rq_dismissal = None, rq_origin = []\<rparr>"

definition api_demo_world :: api_world where
  "api_demo_world = \<lparr>aw_port = demo_port, aw_txs = [], aw_snapshots = [],
     aw_debounce = \<lparr>hasPublisher = False, debounceWindow = 10, debounceTracker = Map.empty\<rparr>, aw_published = []\<rparr>"

definition api_demo_requests :: "(api_env \<times> api_request) list" where
  "api_demo_requests =
     [(api_demo_env, api_demo_request ''eve'' ''DELETE'' ''/api/v1/portfolio/holdings/hbob''),
      (api_demo_env, api_demo_request ''eve'' ''DELETE'' ''/api/v1/portfolio/holdings/heve'')]"

lemmas api_demo_defs = api_demo_env_def api_demo_handler_def api_demo_request_def api_demo_world_def api_demo_requests_def

theorem portfolio_api_isolation_witness:
  "holdings (aw_port (serve_all api_demo_handler api_demo_requests api_demo_world)) \<noteq> holdings demo_port \<and>
   filter (\<lambda>h. h_UserID h = ''bob'') (holdings (aw_port (serve_all api_demo_handler api_demo_requests api_demo_world))) = [demo_holding ''bob'' ''BTC'' []]"
  (is "?changed \<and> ?same")
proof
  show ?changed by code_simp
  show ?same
    using portfolio_api_isolation [of api_demo_world "''bob''" api_demo_requests api_demo_handler]
    by (simp add: ids_ok_def api_demo_defs demo_port_def demo_cred_def demo_holding_def requester_def)
qed

end
