(* ===== verification/Auth_Handlers.thy ===== *)
theory Auth_Handlers
  imports Http_Requests Transactions
begin

text \<open>
  \<^verbatim>\<open>httpapi/handlers/auth.go\<close> and \<^verbatim>\<open>admin_users.go\<close>, with the part of the routing table of \<^verbatim>\<open>router.New\<close>
  that dispatches to them. An answer carries its status, its body, the cookies it sets and a \<^verbatim>\<open>Retry-After\<close>; \<open>None\<close> is
  a handler that panics, which the server ends by closing the connection. The headers that every answer of these handlers has are left out.
\<close>

section \<open>Answers\<close>

record cookie =
  ck_Name :: string
  ck_Value :: string
  ck_Path :: string
  ck_MaxAge :: int
  ck_HttpOnly :: bool
  ck_Secure :: bool
  ck_SameSite :: string

text \<open>Accounts and tokens as they are printed: hashes and the Google identifier are not.\<close>

record user_json =
  uj_id :: uuid
  uj_email :: string
  uj_name :: string
  uj_avatar_url :: string
  uj_role :: string
  uj_has_google :: bool
  uj_has_password :: bool
  uj_disabled :: bool
  uj_must_change_password :: bool
  uj_created_at :: gotime
  uj_updated_at :: gotime

definition print_user :: "User \<Rightarrow> user_json" where
  "print_user u = \<lparr>uj_id = u_ID u, uj_email = u_Email u, uj_name = u_Name u, uj_avatar_url = u_AvatarURL u, uj_role = u_Role u,
     uj_has_google = u_HasGoogle u, uj_has_password = u_HasPassword u, uj_disabled = u_Disabled u,
     uj_must_change_password = u_MustChangePassword u, uj_created_at = u_CreatedAt u, uj_updated_at = u_UpdatedAt u\<rparr>"

record new_token_json =
  nt_token :: string
  nt_id :: uuid
  nt_label :: string
  nt_prefix :: string
  nt_created_at :: gotime
  nt_expires_at :: gotime

record tokenResponse =
  tr_ID :: uuid
  tr_Label :: string
  tr_Prefix :: string
  tr_Status :: string
  tr_CreatedAt :: gotime
  tr_LastUsedAt :: "gotime option"
  tr_RevokedAt :: "gotime option"
  tr_ExpiresAt :: gotime

datatype auth_body =
    AError string | ARedirect string | AAccessToken string | AUser "user_json option" | ANewToken new_token_json
  | ATokens "tokenResponse list" | AUsers "user_json list" nat int int | AStatus string | APlain string | ANothing

record auth_reply =
  ar_status :: nat
  ar_body :: auth_body
  ar_cookies :: "cookie list"
  ar_retry :: "string option"

definition answer :: "nat \<Rightarrow> auth_body \<Rightarrow> auth_reply" where
  "answer st b = \<lparr>ar_status = st, ar_body = b, ar_cookies = [], ar_retry = None\<rparr>"

definition with_cookie :: "cookie \<Rightarrow> auth_reply \<Rightarrow> auth_reply" where
  "with_cookie c a = a\<lparr>ar_cookies := c # ar_cookies a\<rparr>"

record AuthHandler =
  ah_service :: Service
  ah_tokens :: APITokenConfig
  ah_env :: string

definition auth_cookie :: "AuthHandler \<Rightarrow> string \<Rightarrow> string \<Rightarrow> int \<Rightarrow> cookie" where
  "auth_cookie h name val age = \<lparr>ck_Name = name, ck_Value = val, ck_Path = ''/api/v1/auth'', ck_MaxAge = age, ck_HttpOnly = True,
     ck_Secure = (ah_env h \<noteq> ''development''), ck_SameSite = ''Lax''\<rparr>"

definition setRefreshCookie :: "AuthHandler \<Rightarrow> string \<Rightarrow> auth_reply \<Rightarrow> auth_reply" where
  "setRefreshCookie h tok = with_cookie (auth_cookie h ''refresh_token'' tok (7 * 24 * 3600))"

definition clearRefreshCookie :: "AuthHandler \<Rightarrow> auth_reply \<Rightarrow> auth_reply" where
  "clearRefreshCookie h = with_cookie (auth_cookie h ''refresh_token'' [] (-1))"

text \<open>\<^verbatim>\<open>errors.Is\<close> looks through wrapped errors.\<close>

fun auth_root :: "auth_error \<Rightarrow> auth_error" where
  "auth_root (Wrapped m e) = auth_root e"
| "auth_root e = e"

definition retry_later :: auth_reply where
  "retry_later = (answer 429 (AError ''too many requests''))\<lparr>ar_retry := Some ''900''\<rparr>"

definition writeAuthError :: "auth_error \<Rightarrow> auth_reply" where
  "writeAuthError e =
     (case auth_root e of
        ErrInvalidCredentials \<Rightarrow> answer 401 (AError ''invalid credentials'')
      | ErrAccountDisabled \<Rightarrow> answer 401 (AError ''account disabled'')
      | ErrIPBlocked \<Rightarrow> retry_later
      | ErrRateLimited \<Rightarrow> retry_later
      | ErrSessionNotFound \<Rightarrow> answer 401 (AError ''unauthorized'')
      | ErrSessionExpired \<Rightarrow> answer 401 (AError ''unauthorized'')
      | ErrUserNotFound \<Rightarrow> answer 401 (AError ''unauthorized'')
      | _ \<Rightarrow> answer 500 (AError ''internal error''))"

text \<open>The text of an error of the package.\<close>

fun auth_text :: "auth_error \<Rightarrow> string" where
  "auth_text ErrInvalidCredentials = ''invalid credentials''"
| "auth_text ErrRateLimited = ''too many requests''"
| "auth_text ErrIPBlocked = ''ip blocked''"
| "auth_text ErrSessionNotFound = ''session not found''"
| "auth_text ErrSessionExpired = ''session expired''"
| "auth_text ErrUserNotFound = ''user not found''"
| "auth_text ErrCSRFStateMismatch = ''CSRF state mismatch''"
| "auth_text (ErrOAuthExchange e) = ''OAuth code exchange failed: '' @ e"
| "auth_text (ErrOAuthUserInfo e) = ''failed to fetch Google user info: '' @ e"
| "auth_text ErrAccountDisabled = ''account disabled''"
| "auth_text ErrInvalidRole = ''invalid role''"
| "auth_text ErrCannotChangeSelfRole = ''cannot change own role''"
| "auth_text ErrCannotDisableSelf = ''cannot disable own account''"
| "auth_text ErrNoPasswordAuth = ''user has no password authentication''"
| "auth_text ErrTokenLimitReached = ''token limit reached''"
| "auth_text ErrTokenNotFound = ''not found''"
| "auth_text ErrTokenUnauthorized = ''unauthorized''"
| "auth_text ErrPasswordTooShort = ''password must be at least 12 characters''"
| "auth_text ErrPasswordTooLong = ''password must not exceed 128 characters''"
| "auth_text (ErrPasswordComplexity ms) = ''password does not meet complexity requirements: '' @ join_with ms ''; ''"
| "auth_text (ErrInvalidToken e) = ''invalid or expired token: '' @ e"
| "auth_text ErrMissingClaims = ''token missing required claims''"
| "auth_text auth_error.ErrNoRows = ''sql: no rows in result set''"
| "auth_text (DbError e) = e"
| "auth_text (Other e) = e"
| "auth_text (Wrapped m e) = m @ '': '' @ auth_text e"
| "auth_text Panic = []"

type_synonym auth_outcome = "auth_reply option \<times> auth_world"

text \<open>The answer to an error of the service; a panic unwinds the handler.\<close>

definition on_error :: "auth_error \<Rightarrow> auth_reply \<Rightarrow> auth_reply option" where
  "on_error e a = (if e = Panic then None else Some a)"

abbreviation internal :: auth_reply where "internal \<equiv> answer 500 (AError ''internal error'')"

abbreviation unauthorized :: auth_reply where "unauthorized \<equiv> answer 401 (AError ''unauthorized'')"

section \<open>Logging in and out\<close>

definition h_GoogleLogin :: "auth_env \<Rightarrow> AuthHandler \<Rightarrow> api_request \<Rightarrow> auth_world \<Rightarrow> auth_outcome" where
  "h_GoogleLogin env h r w =
     (Some (case GoogleLogin env (ah_service h) of
        Inl e \<Rightarrow> internal
      | Inr (authURL, state) \<Rightarrow> with_cookie (auth_cookie h ''oauth_state'' state 300) (answer 302 (ARedirect authURL))), w)"

definition login_page :: "string \<Rightarrow> auth_reply" where
  "login_page err = answer 302 (ARedirect (''/#login?error='' @ err))"

definition h_GoogleCallback :: "auth_env \<Rightarrow> AuthHandler \<Rightarrow> api_request \<Rightarrow> auth_world \<Rightarrow> auth_outcome" where
  "h_GoogleCallback env h r w =
     (case rq_cookie r ''oauth_state'' of
        None \<Rightarrow> (Some (login_page ''csrf_failed''), w)
      | Some expected \<Rightarrow>
          let cleared = with_cookie (auth_cookie h ''oauth_state'' [] (-1)); state = rq_query r ''state''; code = rq_query r ''code''
          in if state = [] \<or> code = [] then (Some (cleared (login_page (with_default ''oauth_failed'' (rq_query r ''error'')))), w)
             else case GoogleCallback env (ah_service h) code state expected (r_remote_addr r) w of
               (Inl e, w') \<Rightarrow>
                 (on_error e (cleared (login_page
                    (if auth_root e = ErrCSRFStateMismatch then ''csrf_failed''
                     else if auth_root e = ErrAccountDisabled then ''account_disabled'' else ''oauth_failed''))), w')
             | (Inr (access, refresh, u), w') \<Rightarrow> (Some (cleared (setRefreshCookie h refresh (answer 302 (ARedirect ''/#'')))), w'))"

definition h_LocalLogin :: "auth_env \<Rightarrow> AuthHandler \<Rightarrow> api_request \<Rightarrow> auth_world \<Rightarrow> auth_outcome" where
  "h_LocalLogin env h r w =
     (case rq_login r of
        LoginTooLarge \<Rightarrow> (Some (answer 413 (AError ''request too large'')), w)
      | MalformedLogin \<Rightarrow> (Some (answer 400 (AError ''invalid request body'')), w)
      | LoginBody email password \<Rightarrow>
          (case LocalLogin env (ah_service h) email password (rq_user_agent r) (r_remote_addr r) w of
             (Inl e, w') \<Rightarrow> (on_error e (writeAuthError e), w')
           | (Inr (access, refresh, u), w') \<Rightarrow> (Some (setRefreshCookie h refresh (answer 200 (AAccessToken access))), w')))"

definition h_Refresh :: "auth_env \<Rightarrow> AuthHandler \<Rightarrow> api_request \<Rightarrow> auth_world \<Rightarrow> auth_outcome" where
  "h_Refresh env h r w =
     (case rq_cookie r ''refresh_token'' of
        None \<Rightarrow> (Some unauthorized, w)
      | Some tok \<Rightarrow>
          (case RefreshToken env (ah_service h) tok (rq_user_agent r) w of
             (Inl e, w') \<Rightarrow> (on_error e (clearRefreshCookie h (writeAuthError e)), w')
           | (Inr (access, refresh), w') \<Rightarrow> (Some (setRefreshCookie h refresh (answer 200 (AAccessToken access))), w')))"

definition h_Logout :: "auth_env \<Rightarrow> AuthHandler \<Rightarrow> api_request \<Rightarrow> auth_world \<Rightarrow> auth_outcome" where
  "h_Logout env h r w =
     (Some (clearRefreshCookie h (answer 204 ANothing)),
      case rq_cookie r ''refresh_token'' of None \<Rightarrow> w | Some tok \<Rightarrow> snd (Logout env tok w))"

section \<open>The account of the caller\<close>

definition session_user :: "net_env \<Rightarrow> api_request \<Rightarrow> uuid option" where
  "session_user net r = Option.bind (ctx_claims r) (\<lambda>c. uuid_parse net (c_Sub c))"

definition h_Me :: "net_env \<Rightarrow> auth_env \<Rightarrow> AuthHandler \<Rightarrow> api_request \<Rightarrow> auth_world \<Rightarrow> auth_outcome" where
  "h_Me net env h r w =
     (Some (case session_user net r of
        None \<Rightarrow> unauthorized
      | Some u \<Rightarrow>
          (case Me env u w of
             Inl e \<Rightarrow> if auth_root e = ErrUserNotFound then answer 404 (AError ''user not found'') else internal
           | Inr x \<Rightarrow> answer 200 (AUser (Some (print_user x))))), w)"

definition h_ChangePassword :: "net_env \<Rightarrow> auth_env \<Rightarrow> AuthHandler \<Rightarrow> api_request \<Rightarrow> auth_world \<Rightarrow> auth_outcome" where
  "h_ChangePassword net env h r w =
     (case session_user net r of
        None \<Rightarrow> (Some unauthorized, w)
      | Some u \<Rightarrow>
          (case rq_passwords r of
             None \<Rightarrow> (Some (answer 400 (AError ''invalid request body'')), w)
           | Some (cur, new) \<Rightarrow>
               (case ChangePassword env (ah_service h) u cur new w of
                  (Inl e, w') \<Rightarrow>
                    (on_error e
                       (if auth_root e = ErrInvalidCredentials then answer 401 (AError ''invalid credentials'')
                        else if contains_str (auth_text e) ''password does not meet complexity requirements'' then answer 400 (AError (auth_text e))
                        else internal), w')
                | (Inr _, w') \<Rightarrow> (Some (answer 204 ANothing), w'))))"

section \<open>API tokens\<close>

definition requireJWTSession :: "net_env \<Rightarrow> api_request \<Rightarrow> uuid option" where
  "requireJWTSession net r = (if ctx_method r = Some ''api_token'' then None else session_user net r)"

definition h_CreateAPIToken :: "net_env \<Rightarrow> auth_env \<Rightarrow> AuthHandler \<Rightarrow> api_request \<Rightarrow> auth_world \<Rightarrow> auth_outcome" where
  "h_CreateAPIToken net env h r w =
     (case requireJWTSession net r of
        None \<Rightarrow> (Some unauthorized, w)
      | Some u \<Rightarrow>
          (case rq_label r of
             None \<Rightarrow> (Some (answer 400 (AError ''invalid request body'')), w)
           | Some label0 \<Rightarrow>
               let label = TrimSpace label0
               in if label = [] then (Some (answer 400 (AError ''label is required'')), w)
                  else case CreateToken env (ah_tokens h) u label w of
                    (Inl e, w') \<Rightarrow> (Some (if auth_root e = ErrTokenLimitReached then answer 409 (AError ''token limit reached'') else internal), w')
                  | (Inr (raw, t), w') \<Rightarrow>
                      (Some (answer 201 (ANewToken \<lparr>nt_token = raw, nt_id = APIToken.t_ID t, nt_label = t_Label t, nt_prefix = t_Prefix t,
                         nt_created_at = t_CreatedAt t, nt_expires_at = t_ExpiresAt t\<rparr>)), w')))"

definition print_token :: "gotime \<Rightarrow> APIToken \<Rightarrow> tokenResponse" where
  "print_token now t = \<lparr>tr_ID = APIToken.t_ID t, tr_Label = t_Label t, tr_Prefix = t_Prefix t, tr_Status = TokenStatus now t, tr_CreatedAt = t_CreatedAt t,
     tr_LastUsedAt = t_LastUsedAt t, tr_RevokedAt = t_RevokedAt t, tr_ExpiresAt = t_ExpiresAt t\<rparr>"

text \<open>The \<open>i\<close>-th token is printed at the \<open>i\<close>-th reading of the clock.\<close>

definition h_ListAPITokens :: "net_env \<Rightarrow> auth_env \<Rightarrow> AuthHandler \<Rightarrow> api_request \<Rightarrow> auth_world \<Rightarrow> auth_outcome" where
  "h_ListAPITokens net env h r w =
     (Some (case requireJWTSession net r of
        None \<Rightarrow> unauthorized
      | Some u \<Rightarrow>
          (case ListTokens env u w of
             Inl e \<Rightarrow> internal
           | Inr ts \<Rightarrow> answer 200 (ATokens (map (\<lambda>(i, t). print_token (clk env i) t) (enumerate 0 ts))))), w)"

definition h_RevokeAPIToken :: "net_env \<Rightarrow> auth_env \<Rightarrow> AuthHandler \<Rightarrow> api_request \<Rightarrow> auth_world \<Rightarrow> auth_outcome" where
  "h_RevokeAPIToken net env h r w =
     (case requireJWTSession net r of
        None \<Rightarrow> (Some unauthorized, w)
      | Some u \<Rightarrow>
          (case uuid_parse net (trim_prefix ''/api/v1/auth/api-tokens/'' (r_path r)) of
             None \<Rightarrow> (Some (answer 400 (AError ''invalid token id'')), w)
           | Some i \<Rightarrow>
               (case RevokeToken env i u w of
                  (Inl e, w') \<Rightarrow> (Some (if auth_root e = ErrTokenNotFound then answer 404 (AError ''not found'') else internal), w')
                | (Inr _, w') \<Rightarrow> (Some (answer 204 ANothing), w'))))"

section \<open>Administration of accounts\<close>

definition users_path :: string where "users_path = ''/api/v1/system/users/''"

definition admin_List :: "auth_env \<Rightarrow> api_request \<Rightarrow> auth_world \<Rightarrow> auth_outcome" where
  "admin_List env r w =
     (let page = getIntQueryParam r ''page'' 1; limit = getIntQueryParam r ''limit'' 50
      in if page \<le> 0 \<or> limit \<le> 0 then (Some (answer 400 (AError ''invalid pagination parameters'')), w)
         else (Some (case ListUsers env (rq_query r ''search'') (rq_query r ''role'') (rq_query r ''status'') page limit w of
            Inl e \<Rightarrow> internal
          | Inr (us, n) \<Rightarrow> answer 200 (AUsers (map print_user us) n page limit)), w))"

definition admin_Get :: "net_env \<Rightarrow> auth_env \<Rightarrow> api_request \<Rightarrow> auth_world \<Rightarrow> auth_outcome" where
  "admin_Get net env r w =
     (Some (case uuid_parse net (hd (split_on CHR ''/'' (trim_prefix users_path (r_path r)))) of
        None \<Rightarrow> answer 400 (AError ''invalid user id'')
      | Some i \<Rightarrow>
          (case GetUser env i w of
             Inl e \<Rightarrow> if e = ErrUserNotFound then answer 404 (AError ''user not found'') else internal
           | Inr None \<Rightarrow> answer 404 (AError ''user not found'')
           | Inr (Some u) \<Rightarrow> answer 200 (AUser (Some (print_user u))))), w)"

definition admin_target :: "net_env \<Rightarrow> string \<Rightarrow> api_request \<Rightarrow> uuid option" where
  "admin_target net suf r = uuid_parse net (trim_suffix suf (trim_prefix users_path (r_path r)))"

text \<open>The common frame of the three operations: the acting administrator, the account, then the operation.\<close>

definition admin_op :: "net_env \<Rightarrow> string \<Rightarrow> api_request \<Rightarrow> auth_world \<Rightarrow> (uuid \<Rightarrow> uuid \<Rightarrow> auth_outcome) \<Rightarrow> auth_outcome" where
  "admin_op net suf r w f =
     (case session_user net r of
        None \<Rightarrow> (Some unauthorized, w)
      | Some acting \<Rightarrow>
          (case admin_target net suf r of None \<Rightarrow> (Some (answer 400 (AError ''invalid user id'')), w) | Some i \<Rightarrow> f acting i))"

definition admin_reply :: "(auth_error \<Rightarrow> auth_reply) \<Rightarrow> User option auth_result \<times> auth_world \<Rightarrow> auth_outcome" where
  "admin_reply bad res =
     (case res of
        (Inl e, w) \<Rightarrow> (on_error e (if e = ErrUserNotFound then answer 404 (AError ''user not found'') else bad e), w)
      | (Inr u, w) \<Rightarrow> (Some (answer 200 (AUser (map_option print_user u))), w))"

definition admin_UpdateRole :: "net_env \<Rightarrow> auth_env \<Rightarrow> api_request \<Rightarrow> auth_world \<Rightarrow> auth_outcome" where
  "admin_UpdateRole net env r w = admin_op net ''/role'' r w (\<lambda>acting i.
     case rq_role r of
       None \<Rightarrow> (Some (answer 400 (AError ''invalid request body'')), w)
     | Some role \<Rightarrow>
         admin_reply (\<lambda>e. if e = ErrInvalidRole then answer 400 (AError ''invalid role: must be user, premium, or admin'')
                          else if e = ErrCannotChangeSelfRole then answer 400 (AError ''cannot change own role'') else internal)
           (UpdateRole env acting i role w))"

definition admin_UpdateStatus :: "net_env \<Rightarrow> auth_env \<Rightarrow> api_request \<Rightarrow> auth_world \<Rightarrow> auth_outcome" where
  "admin_UpdateStatus net env r w = admin_op net ''/status'' r w (\<lambda>acting i.
     case rq_disabled r of
       None \<Rightarrow> (Some (answer 400 (AError ''invalid request body'')), w)
     | Some disabled \<Rightarrow>
         admin_reply (\<lambda>e. if e = ErrCannotDisableSelf then answer 400 (AError ''cannot disable own account'') else internal)
           (UpdateDisabled env acting i disabled w))"

definition admin_ForcePasswordReset :: "net_env \<Rightarrow> auth_env \<Rightarrow> api_request \<Rightarrow> auth_world \<Rightarrow> auth_outcome" where
  "admin_ForcePasswordReset net env r w = admin_op net ''/force-password-reset'' r w (\<lambda>acting i.
     admin_reply (\<lambda>e. if e = ErrNoPasswordAuth then answer 400 (AError ''user has no password authentication'') else internal)
       (ForcePasswordReset env acting i w))"

text \<open>\<open>has\<close> says whether a service for transactions is attached.\<close>

definition admin_RecomputePnL ::
    "net_env \<Rightarrow> auth_env \<Rightarrow> bool \<Rightarrow> string option \<Rightarrow> gotime \<Rightarrow> api_request \<Rightarrow> debouncer \<Rightarrow> auth_reply \<times> debouncer \<times> Task list" where
  "admin_RecomputePnL net env has pub now r s =
     (if \<not> has then (answer 503 (AError ''portfolio features are not enabled''), s, [])
      else case admin_target net ''/recompute-pnl'' r of
        None \<Rightarrow> (answer 400 (AError ''invalid user id''), s, [])
      | Some i \<Rightarrow>
          (case QueueRecompute pub now (uuid_string env i) s of
             (Inl e, s', ts) \<Rightarrow> (answer 500 (AError ''failed to queue recompute''), s', ts)
           | (Inr _, s', ts) \<Rightarrow> (answer 200 (AStatus ''queued''), s', ts)))"

section \<open>Spraying passwords\<close>

text \<open>What the limiter knows of an address and an email, and what a login leaves alone.\<close>

definition unknown :: "string \<Rightarrow> string \<Rightarrow> RateLimiter \<Rightarrow> bool" where
  "unknown ip email rl \<longleftrightarrow> entries_of (ipAttempts rl) ip = [] \<and> ipBans rl ip = None \<and> entries_of (attempts rl) email = []"

definition limiter_frame :: "string \<Rightarrow> string \<Rightarrow> RateLimiter \<Rightarrow> RateLimiter \<Rightarrow> bool" where
  "limiter_frame ip email rl rl' \<longleftrightarrow> ipBanTiers rl' = ipBanTiers rl \<and> maxAttempts rl' = maxAttempts rl \<and>
     (\<forall>q. q \<noteq> ip \<longrightarrow> entries_of (ipAttempts rl') q = entries_of (ipAttempts rl) q \<and> ipBans rl' q = ipBans rl q) \<and>
     (\<forall>q. q \<noteq> email \<longrightarrow> entries_of (attempts rl') q = entries_of (attempts rl) q)"

lemma frame_refl [simp]: "limiter_frame ip email rl rl"
  by (simp add: limiter_frame_def)

lemma frame_trans: "limiter_frame ip email rl rl' \<Longrightarrow> limiter_frame ip email rl' rl'' \<Longrightarrow> limiter_frame ip email rl rl''"
  by (simp add: limiter_frame_def)

lemma entries_upd: "entries_of (m(k := v)) q = (if q = k then (case v of None \<Rightarrow> [] | Some ts \<Rightarrow> ts) else entries_of m q)"
  by (simp add: entries_of_def)

lemma frame_ops:
  "limiter_frame ip email rl (snd (AllowIP now ip rl))" "limiter_frame ip email rl (snd (Allow now email rl))"
  "limiter_frame ip email rl (Record now email rl)" "limiter_frame ip email rl (RecordIP now ip rl)"
  "limiter_frame ip email rl (Reset email rl)" "limiter_frame ip email rl (ResetIP ip rl)"
  by (auto simp: limiter_frame_def AllowIP_def Allow_def Record_def RecordIP_def Reset_def ResetIP_def pruneExpired_def pruneIPExpired_def Let_def
      entries_prune_map entries_upd split: option.split)

lemma unknown_allowed:
  assumes "unknown ip email rl" "ipBanTiers rl = defaultIPBanTiers" "0 < maxAttempts rl"
  shows "fst (AllowIP now ip rl)" "fst (Allow now' email (snd (AllowIP now ip rl)))"
proof -
  have no: "ban_tier 0 defaultIPBanTiers (length defaultIPBanTiers) = None" by (simp add: defaultIPBanTiers_def numeral_3_eq_3)
  from assms have eq: "AllowIP now ip rl = (True, pruneIPExpired now ip (rl\<lparr>ipBans := (ipBans rl)(ip := None)\<rparr>))"
    by (simp add: AllowIP_def unknown_def Let_def pruneIPExpired_def entries_prune_map no)
  show "fst (AllowIP now ip rl)" "fst (Allow now' email (snd (AllowIP now ip rl)))"
    using assms unfolding eq by (simp_all add: Allow_def Let_def pruneExpired_def pruneIPExpired_def entries_prune_map unknown_def)
qed

text \<open>Errors that a login can end in beside the two of the limiter.\<close>

definition limited :: "'a auth_result \<Rightarrow> bool" where
  "limited res \<longleftrightarrow> (\<exists>e. res = Inl e \<and> (auth_root e = ErrIPBlocked \<or> auth_root e = ErrRateLimited))"

lemma not_limited_logged: "\<not> limited res \<Longrightarrow> \<not> limited (fst (logged email res w))"
  by (auto simp: logged_def limited_def split: option.split)

lemma limiter_logged [simp]: "limiter (snd (logged email res w)) = limiter w"
  by (simp add: logged_def split: option.split)

lemma session_Create_error: "session_Create err now s us ss = (Inl e, ss') \<Longrightarrow> \<exists>m. e = DbError m"
  by (auto simp: session_Create_def Let_def split: option.splits if_splits)

lemma issue_tokens_limiter:
  "\<not> limited (fst (issue_tokens env s msg err t1 t2 u ua w))" "limiter (snd (issue_tokens env s msg err t1 t2 u ua w)) = limiter w"
  by (auto simp: issue_tokens_def IssueAccessToken_def createSession_def generateRandomToken_def limited_def logged_def Let_def
      dest!: session_Create_error split: sum.splits prod.splits option.splits)

lemma not_limited [simp]: "\<not> limited (Inl ErrInvalidCredentials)" "\<not> limited (Inl ErrAccountDisabled)" "\<not> limited (Inr x)"
  "limited (Inl (Wrapped m e)) \<longleftrightarrow> limited (Inl e :: unit auth_result)"
  by (simp_all add: limited_def)

lemma not_limited_scan: "scanUser err row = Inl e \<Longrightarrow> \<not> limited (Inl e)"
  by (auto simp: limited_def scanUser_def split: option.splits)

lemma LocalLogin_unknown:
  assumes fresh: "unknown ip (TrimInput email) (limiter w)"
    and cfg: "ipBanTiers (limiter w) = defaultIPBanTiers" "0 < maxAttempts (limiter w)"
  shows "\<not> limited (fst (LocalLogin env s email password ua ip w)) \<and>
    limiter_frame ip (TrimInput email) (limiter w) (limiter (snd (LocalLogin env s email password ua ip w)))"
proof -
  let ?e = "TrimInput email"
  let ?rl1 = "snd (AllowIP (clk env 0) ip (limiter w))"
  let ?rl2 = "snd (Allow (clk env 1) ?e ?rl1)"
  note ok = unknown_allowed [OF fresh cfg]
  have two: "limiter_frame ip ?e (limiter w) ?rl2" by (rule frame_trans [OF frame_ops(1,2)])
  have failed: "limiter_frame ip ?e (limiter w) (RecordIP t ip (Record t' ?e ?rl2))" for t t'
    by (rule frame_trans [OF frame_trans [OF two frame_ops(3)] frame_ops(4)])
  have reset: "limiter_frame ip ?e (limiter w) (ResetIP ip (Reset ?e ?rl2))"
    by (rule frame_trans [OF frame_trans [OF two frame_ops(5)] frame_ops(6)])
  have user: "\<not> limited (fst (with_user u res))" "limiter (snd (with_user u res)) = limiter (snd res)"
    if "\<not> limited (fst res)" for u res
    using that by (auto simp: with_user_def limited_def split: prod.split sum.split)
  show ?thesis
    using ok two failed reset
    by (auto simp: LocalLogin_def Let_def prod.case_eq_if login_failed_def FindByEmail_def issue_tokens_limiter user not_limited_logged
        not_limited_scan split: sum.split option.split)
qed

fun logins :: "AuthHandler \<Rightarrow> (auth_env \<times> api_request) list \<Rightarrow> auth_world \<Rightarrow> auth_reply option list" where
  "logins h [] w = []"
| "logins h ((env, r) # rest) w = fst (h_LocalLogin env h r w) # logins h rest (snd (h_LocalLogin env h r w))"

definition login_email :: "api_request \<Rightarrow> string" where
  "login_email r = (case rq_login r of LoginBody email password \<Rightarrow> TrimInput email | _ \<Rightarrow> [])"

lemma on_error_status:
  assumes "\<not> limited (Inl e :: unit auth_result)"
  shows "map_option ar_status (on_error e (writeAuthError e)) \<noteq> Some 429"
proof -
  from assms have "auth_root e \<noteq> ErrIPBlocked" "auth_root e \<noteq> ErrRateLimited" by (auto simp: limited_def)
  then show ?thesis by (auto simp: on_error_def writeAuthError_def answer_def split: auth_error.split)
qed

lemma h_LocalLogin_unknown:
  assumes "unknown (r_remote_addr r) (login_email r) (limiter w)" "ipBanTiers (limiter w) = defaultIPBanTiers" "0 < maxAttempts (limiter w)"
  shows "map_option ar_status (fst (h_LocalLogin env h r w)) \<noteq> Some 429"
    "limiter_frame (r_remote_addr r) (login_email r) (limiter w) (limiter (snd (h_LocalLogin env h r w)))"
proof -
  have "map_option ar_status (fst (h_LocalLogin env h r w)) \<noteq> Some 429 \<and>
    limiter_frame (r_remote_addr r) (login_email r) (limiter w) (limiter (snd (h_LocalLogin env h r w)))"
  proof (cases "rq_login r")
    case (LoginBody email password)
    then have "unknown (r_remote_addr r) (TrimInput email) (limiter w)" using assms(1) by (simp add: login_email_def)
    note run = LocalLogin_unknown [OF this assms(2,3), of env "ah_service h" password "rq_user_agent r"]
    obtain res w' where eq: "LocalLogin env (ah_service h) email password (rq_user_agent r) (r_remote_addr r) w = (res, w')" by fastforce
    show ?thesis
    proof (cases res)
      case (Inl e)
      with run eq have "\<not> limited (Inl e :: unit auth_result)" by (simp add: limited_def)
      from on_error_status [OF this] run eq Inl LoginBody show ?thesis by (simp add: h_LocalLogin_def login_email_def)
    next
      case (Inr x)
      with run eq LoginBody show ?thesis
        by (simp add: h_LocalLogin_def login_email_def setRefreshCookie_def with_cookie_def answer_def split: prod.split)
    qed
  qed (simp_all add: h_LocalLogin_def answer_def)
  then show "map_option ar_status (fst (h_LocalLogin env h r w)) \<noteq> Some 429"
    "limiter_frame (r_remote_addr r) (login_email r) (limiter w) (limiter (snd (h_LocalLogin env h r w)))" by simp_all
qed

lemma logins_unknown:
  assumes "list_all (\<lambda>(env, r). unknown (r_remote_addr r) (login_email r) (limiter w)) tries"
    and "ipBanTiers (limiter w) = defaultIPBanTiers" "0 < maxAttempts (limiter w)"
    and "distinct (map (\<lambda>(env, r). r_remote_addr r) tries)" "distinct (map (\<lambda>(env, r). login_email r) tries)"
  shows "Some 429 \<notin> map_option ar_status ` set (logins h tries w)"
  using assms
proof (induction tries arbitrary: w)
  case (Cons a tries)
  obtain env r where a: "a = (env, r)" by (cases a)
  let ?w = "snd (h_LocalLogin env h r w)"
  from Cons.prems have "unknown (r_remote_addr r) (login_email r) (limiter w)" by (simp add: a)
  note one = h_LocalLogin_unknown [OF this Cons.prems(2,3), of env h]
  have "list_all (\<lambda>(env, r). unknown (r_remote_addr r) (login_email r) (limiter ?w)) tries"
    unfolding list_all_iff
  proof safe
    fix env' r' assume r': "(env', r') \<in> set tries"
    with Cons.prems have "unknown (r_remote_addr r') (login_email r') (limiter w)" "r_remote_addr r' \<noteq> r_remote_addr r" "login_email r' \<noteq> login_email r"
      by (auto simp: a list_all_iff rev_image_eqI)
    with one(2) show "unknown (r_remote_addr r') (login_email r') (limiter ?w)" by (simp add: unknown_def limiter_frame_def)
  qed
  moreover have "ipBanTiers (limiter ?w) = defaultIPBanTiers" "0 < maxAttempts (limiter ?w)"
    using one(2) Cons.prems(2,3) by (simp_all add: limiter_frame_def)
  ultimately have "Some 429 \<notin> map_option ar_status ` set (logins h tries ?w)" using Cons.IH [of ?w] Cons.prems(4,5) by (simp add: a)
  with one(1) [symmetric] show ?case by (simp only: a logins.simps list.simps image_insert insert_iff) blast
qed simp

text \<open>
  \<^bold>\<open>C23\<close>. The lockout by address does not stop a client that opens a new connection for every attempt. The handler passes on the remote
  address with its port, so any number of logins that try one password per account, all from one host but each over its own connection, are
  answered without a single 429.
\<close>

theorem spraying_not_limited:
  assumes "limiter w = initial_limiter"
    and "distinct (map (\<lambda>(env, r). r_remote_addr r) tries)" "distinct (map (\<lambda>(env, r). login_email r) tries)"
  shows "Some 429 \<notin> map_option ar_status ` set (logins h tries w)"
  using assms
  by (intro logins_unknown) (simp_all add: initial_limiter_def NewRateLimiter_def unknown_def entries_of_def list_all_iff)

text \<open>Twenty-five accounts tried from one host.\<close>

definition blank_request :: api_request where
  "blank_request = \<lparr>r_path = [], r_authorization = [], r_api_key = [], r_query_token = [], r_remote_addr = [], r_forwarded_for = [],
     r_real_ip = [], ctx_claims = None, ctx_method = None, rq_method = ''POST'', rq_query = (\<lambda>k. []), rq_holding = None, rq_credential = None,
     rq_wallet = None, rq_edit = None, rq_currency = [], rq_upload = NoFile, rq_cookie = (\<lambda>k. None), rq_user_agent = [],
     rq_login = MalformedLogin, rq_passwords = None, rq_label = None, rq_role = None, rq_disabled = None, rq_dismissal = None, rq_origin = []\<rparr>"

definition spray_request :: "nat \<Rightarrow> api_request" where
  "spray_request i = blank_request\<lparr>r_remote_addr := ''10.0.0.9:'' @ show_nat (40000 + i), rq_login := LoginBody (''u'' @ show_nat i @ ''@x.org'') ''Passw0rd!''\<rparr>"

definition spray_handler :: AuthHandler where
  "spray_handler = \<lparr>ah_service = sample_service, ah_tokens = DefaultAPITokenConfig, ah_env = ''production''\<rparr>"

definition spray_world :: auth_world where
  "spray_world = \<lparr>users = [], sessions = [], api_tokens = [], limiter = initial_limiter\<rparr>"

lemma trimmed: "TrimSpace (''u'' @ s @ ''g'') = ''u'' @ s @ ''g''"
proof -
  have one: "find (\<lambda>p. prefix p (CHR ''u'' # t)) space_seqs = None" "find (\<lambda>p. prefix p (CHR ''g'' # t)) (map rev space_seqs) = None" for t
    by (simp_all add: find_None_iff space_seqs_def char_of_eq_iff)
  have "trim_front space_seqs (CHR ''u'' # t) = CHR ''u'' # t" "trim_front (map rev space_seqs) (CHR ''g'' # t) = CHR ''g'' # t" for t
    by (simp_all add: trim_front.simps strip_one_def one)
  then show ?thesis by (simp add: TrimSpace_def)
qed

theorem spraying_not_limited_witness:
  "list_all (\<lambda>i. prefix ''10.0.0.9:'' (r_remote_addr (spray_request i))) [0..<25] \<and>
   Some 429 \<notin> map_option ar_status ` set (logins spray_handler (map (\<lambda>i. (sample_env i, spray_request i)) [0..<25]) spray_world)"
proof
  show "list_all (\<lambda>i. prefix ''10.0.0.9:'' (r_remote_addr (spray_request i))) [0..<25]" by (simp add: list_all_iff spray_request_def)
  have A: "distinct (map r_remote_addr (map spray_request [0..<25]))"
    by (simp add: distinct_map spray_request_def inj_on_def del: upt_conv_Cons upt_rec_numeral)
  have B: "distinct (map login_email (map spray_request [0..<25]))"
    using trimmed [of "show_nat _ @ ''@x.or''"]
    by (simp add: distinct_map spray_request_def login_email_def TrimInput_def inj_on_def del: upt_conv_Cons upt_rec_numeral)
  from A B show "Some 429 \<notin> map_option ar_status ` set (logins spray_handler (map (\<lambda>i. (sample_env i, spray_request i)) [0..<25]) spray_world)"
    by (intro spraying_not_limited) (simp_all add: spray_world_def comp_def)
qed

section \<open>Weak passwords\<close>

text \<open>
  A change of password keeps the rules for passwords but not always says so: for a user who gives the right current password, a new
  password of less than 12 or more than 128 bytes is answered with an internal error, one of the right length that misses a class of
  characters with the list of what is missing; in both cases nothing changes.
\<close>

lemma weak_password_answers:
  assumes "session_user net r = Some u" "rq_passwords r = Some (cur, new)" "FindByID (db env 0) u (users w) = Inr (Some x)"
    and "u_PasswordHash x = Some hash" "bcrypt_compare env hash cur" "ValidatePassword env new \<noteq> Inr ()"
  shows "h_ChangePassword net env h r w =
    (Some (if length new < 12 \<or> 128 < length new then answer 500 (AError ''internal error'')
           else answer 400 (AError (''password does not meet complexity requirements: '' @ join_with (password_missing env new) ''; ''))), w)"
proof -
  have short: "\<not> contains_str (auth_text ErrPasswordTooShort) ''password does not meet complexity requirements''"
    "\<not> contains_str (auth_text ErrPasswordTooLong) ''password does not meet complexity requirements''" by code_simp+
  have pre: "contains_str (p @ q) p" for p q by (auto simp: contains_str_def list_ex_iff intro!: bexI [of _ 0])
  have long: "contains_str (auth_text (ErrPasswordComplexity ms)) ''password does not meet complexity requirements''" for ms
    using pre [of "''password does not meet complexity requirements''" "'': '' @ join_with ms ''; ''"] by simp
  show ?thesis
    using assms short long
    by (auto simp: h_ChangePassword_def ChangePassword_def ValidatePassword_def on_error_def simp del: auth_text.simps split: if_splits) simp
qed

definition weak_user :: User where
  "weak_user = \<lparr>u_ID = 1, u_Email = ''a@b.c'', u_Name = [], u_AvatarURL = [], u_Role = ''user'', u_GoogleID = None, u_PasswordHash = Some ''old'',
     u_HasGoogle = False, u_HasPassword = True, u_Disabled = False, u_MustChangePassword = False, u_CreatedAt = 0, u_UpdatedAt = 0\<rparr>"

definition weak_request :: "string \<Rightarrow> api_request" where
  "weak_request new = blank_request\<lparr>ctx_claims := Some admin_claims, rq_passwords := Some (''old'', new)\<rparr>"

definition weak_net :: net_env where
  "weak_net = sample_net\<lparr>uuid_parse := \<lambda>s. Some 1\<rparr>"

section \<open>Routes\<close>

text \<open>What the server is built with: the services that may be missing, and the modes of logging in.\<close>

record auth_routes =
  ao_mode :: string
  ao_handler :: AuthHandler
  ao_tokens :: bool
  ao_admin :: bool
  ao_recompute :: bool

definition plain :: "nat \<Rightarrow> string \<Rightarrow> auth_reply" where
  "plain st m = answer st (APlain m)"

text \<open>
  The routes of accounts below \<^verbatim>\<open>/api/v1/auth\<close> and \<^verbatim>\<open>/api/v1/system/users\<close>; \<open>None\<close> when no pattern
  matches. The state has the debouncer of recomputations and the published tasks beside the tables.
\<close>

definition auth_mux :: "net_env \<Rightarrow> auth_env \<Rightarrow> string option \<Rightarrow> auth_routes \<Rightarrow> api_request \<Rightarrow> auth_world \<times> debouncer \<times> Task list \<Rightarrow>
    (auth_reply option \<times> auth_world \<times> debouncer \<times> Task list) option" where
  "auth_mux net env pub opts r st =
     (case st of (w, s, ts) \<Rightarrow>
      let path = r_path r; meth = rq_method r; h = ao_handler opts;
          hasLocal = contains_str (ao_mode opts) ''local''; hasSSO = contains_str (ao_mode opts) ''sso'';
          fin = (\<lambda>(a, w'). Some (a, w', s, ts)); bad = (\<lambda>a. Some (Some a, st))
      in if hasSSO \<and> path = ''/api/v1/auth/google/login'' then fin (h_GoogleLogin env h r w)
      else if hasSSO \<and> path = ''/api/v1/auth/google/callback'' then fin (h_GoogleCallback env h r w)
      else if hasLocal \<and> path = ''/api/v1/auth/local/login'' then fin (h_LocalLogin env h r w)
      else if hasLocal \<and> path = ''/api/v1/auth/local/change-password'' then fin (h_ChangePassword net env h r w)
      else if path = ''/api/v1/auth/refresh'' then fin (h_Refresh env h r w)
      else if path = ''/api/v1/auth/logout'' then fin (h_Logout env h r w)
      else if path = ''/api/v1/auth/me'' then fin (h_Me net env h r w)
      else if ao_tokens opts \<and> path = ''/api/v1/auth/api-tokens'' then
        (if meth = ''POST'' then fin (h_CreateAPIToken net env h r w)
         else if meth = ''GET'' then fin (h_ListAPITokens net env h r w) else bad (plain 405 ''method not allowed''))
      else if ao_tokens opts \<and> prefix ''/api/v1/auth/api-tokens/'' path then fin (h_RevokeAPIToken net env h r w)
      else if ao_admin opts \<and> path = ''/api/v1/system/users'' then
        (if meth = ''GET'' then fin (admin_List env r w) else bad (plain 405 ''method not allowed''))
      else if ao_admin opts \<and> prefix users_path path then
        (if suffix ''/role'' path \<and> meth = ''PATCH'' then fin (admin_UpdateRole net env r w)
         else if suffix ''/status'' path \<and> meth = ''PATCH'' then fin (admin_UpdateStatus net env r w)
         else if suffix ''/force-password-reset'' path \<and> meth = ''POST'' then fin (admin_ForcePasswordReset net env r w)
         else if suffix ''/recompute-pnl'' path \<and> meth = ''POST'' then
           (case admin_RecomputePnL net env (ao_recompute opts) pub (clk env 0) r s of (a, s', new) \<Rightarrow> Some (Some a, w, s', ts @ new))
         else if meth = ''GET'' \<and> CHR ''/'' \<notin> set (trim_prefix users_path path) then fin (admin_Get net env r w)
         else bad (plain 404 ''not found''))
      else None)"

end
