(* ===== verification/Exchange_Clients.thy ===== *)
theory Exchange_Clients
  imports Executors
begin

text \<open>
  The clients behind the source registry: \<^verbatim>\<open>ingest/binance\<close>, \<^verbatim>\<open>ingest/kraken\<close>, \<^verbatim>\<open>ingest/coingecko\<close>,
  \<^verbatim>\<open>ingest/binancevision\<close> and \<^verbatim>\<open>ingest/cryptodatadownload\<close>. What a request over the network ends in is an argument: an
  error, or a status with the decoded body. So are \<^verbatim>\<open>strconv.ParseFloat\<close> and \<^verbatim>\<open>time.Parse\<close>, and the readings of the clock,
  numbered in the order in which a call of
  \<^verbatim>\<open>FetchCandles\<close> can take them; \<open>xc_asked\<close> is the clock when the registry asks whether the source supports a request. A client with a state returns the new state and the requests it sent.
\<close>

section \<open>Answers and numbers\<close>

datatype 'a http_answer = NoResponse string | Response nat "(string, 'a) result"

text \<open>What \<^verbatim>\<open>encoding/json\<close> decodes a value of type \<^verbatim>\<open>any\<close> to; the last case carries the name of the type.\<close>

datatype json_any = AStr string | ANum float64 | AOther string

definition parse_int64 :: "string \<Rightarrow> (string, int) result" where
  "parse_int64 s =
     (case atoi s of
        Some v \<Rightarrow> Inr v
      | None \<Rightarrow>
          let ds = (case s of [] \<Rightarrow> [] | c # rest \<Rightarrow> if c = CHR ''-'' \<or> c = CHR ''+'' then rest else s)
          in Inl (''strconv.ParseInt: parsing '' @ go_quote s @ '': '' @
               (if ds = [] \<or> \<not> list_all is_digit_char ds then ''invalid syntax'' else ''value out of range'')))"

definition toFloat64 :: "(string \<Rightarrow> (string, float64) result) \<Rightarrow> json_any \<Rightarrow> (string, float64) result" where
  "toFloat64 pf v = (case v of AStr s \<Rightarrow> pf s | ANum x \<Rightarrow> Inr x | AOther ty \<Rightarrow> Inl (''unsupported float value '' @ ty))"

definition toInt64 :: "json_any \<Rightarrow> (string, int) result" where
  "toInt64 v = (case v of ANum x \<Rightarrow> Inr (float_to_int x) | AStr s \<Rightarrow> parse_int64 s | AOther ty \<Rightarrow> Inl (''unsupported int value '' @ ty))"

text \<open>A sequence of conversions that stops at the first error.\<close>

fun traverse :: "('a \<Rightarrow> ('e, 'b) result) \<Rightarrow> 'a list \<Rightarrow> ('e, 'b list) result" where
  "traverse f [] = Inr []"
| "traverse f (x # xs) =
     (case f x of Inl e \<Rightarrow> Inl e | Inr y \<Rightarrow> (case traverse f xs of Inl e \<Rightarrow> Inl e | Inr ys \<Rightarrow> Inr (y # ys)))"

text \<open>The candle of a request from the five numbers of a row.\<close>

definition row_candle :: "string \<Rightarrow> Request \<Rightarrow> int \<Rightarrow> float64 list \<Rightarrow> float64 \<Rightarrow> Candle" where
  "row_candle name req ts xs v24 =
     \<lparr>k_Pair = q_Pair req, k_Interval = q_Interval req, k_Timestamp = ts, k_Open = xs ! 0, k_High = xs ! 1, k_Low = xs ! 2, k_Close = xs ! 3,
      k_Volume = xs ! 4, k_Volume24H = v24, k_Source = name, k_Finalized = True\<rparr>"

definition ticker_candle :: "string \<Rightarrow> Request \<Rightarrow> gotime \<Rightarrow> float64 list \<Rightarrow> float64 \<Rightarrow> Candle" where
  "ticker_candle name req now xs v24 =
     (row_candle name req (unix (trunc_time now Minute)) xs v24)\<lparr>k_Interval := ''ticker'', k_Finalized := False\<rparr>"

definition unsupported :: "Request \<Rightarrow> string" where
  "unsupported req = ''unsupported request '' @ q_Pair req @ '' '' @ q_Interval req"

text \<open>The loop over the rows of an answer: a row is skipped, fails, or becomes a candle.\<close>

definition collect_rows :: "('r \<Rightarrow> (string, Candle option) result) \<Rightarrow> 'r list \<Rightarrow> (string, Candle list) result" where
  "collect_rows f rs = (case traverse f rs of Inl e \<Rightarrow> Inl e | Inr os \<Rightarrow> Inr (List.map_filter id os))"

definition fmt_rfc3339 :: "gotime \<Rightarrow> string" where
  "fmt_rfc3339 t =
     (let s = (t div Second) mod 86400
      in fmt_day t @ ''T'' @ pad_int 2 (s div 3600) @ '':'' @ pad_int 2 (s div 60 mod 60) @ '':'' @ pad_int 2 (s mod 60) @ ''Z'')"

definition unix_milli :: "gotime \<Rightarrow> int" where
  "unix_milli t = (t - from_unix 0) div 1000000"

definition normalizeTimestamp :: "int \<Rightarrow> int" where
  "normalizeTimestamp v = (if 1000000000000000 \<le> v then v div 1000000 else if 1000000000000 \<le> v then v div 1000 else v)"

record client_env =
  xc_asked :: gotime
  xc_now :: "nat \<Rightarrow> gotime"
  xc_float :: "string \<Rightarrow> (string, float64) result"

section \<open>Binance\<close>

record binance_ticker =
  bt_open :: string
  bt_high :: string
  bt_low :: string
  bt_last :: string
  bt_volume :: string
  bt_quoteVolume :: string

record binance_env = client_env +
  bn_ticker :: "string \<Rightarrow> binance_ticker http_answer"
  bn_volume :: "string \<Rightarrow> string http_answer"
  bn_klines :: "string \<Rightarrow> string \<Rightarrow> int \<Rightarrow> int \<Rightarrow> json_any list list http_answer"

datatype binance_request = BnTicker string | BnKlines string string int int

text \<open>The state is the end of the back-off, 0 for the zero time.\<close>

type_synonym binance_outcome = "(string, Candle list) result \<times> gotime \<times> binance_request list"

definition bn_Supports :: "gotime \<Rightarrow> Request \<Rightarrow> bool" where
  "bn_Supports now req \<longleftrightarrow>
     q_Quote req \<in> {''USDT'', ''EUR'', ''USD''} \<and>
     (if q_Interval req = ''1h'' \<or> q_Interval req = ''1d'' then \<not> q_EndTime req < now - 31 * Day else q_Interval req = ''ticker'')"

definition bn_cooldownError :: "'e client_env_scheme \<Rightarrow> gotime \<Rightarrow> string option" where
  "bn_cooldownError env cd =
     (if cd = 0 \<or> \<not> xc_now env 1 < cd then None else Some (''binance cooldown active until '' @ fmt_rfc3339 cd))"

definition bn_setCooldown :: "gotime \<Rightarrow> gotime" where
  "bn_setCooldown now = now + 30 * Second"

definition bn_limited :: "nat \<Rightarrow> bool" where
  "bn_limited status \<longleftrightarrow> status = 429 \<or> status = 418"

definition bn_symbol :: "Request \<Rightarrow> string" where
  "bn_symbol req = map ascii_upper (q_Base req @ q_Quote req)"

definition bn_fetchTicker :: "binance_env \<Rightarrow> gotime \<Rightarrow> Request \<Rightarrow> binance_outcome" where
  "bn_fetchTicker env cd req =
     (case bn_cooldownError env cd of
        Some e \<Rightarrow> (Inl e, cd, [])
      | None \<Rightarrow>
          let sent = [BnTicker (bn_symbol req)]
          in case bn_ticker env (bn_symbol req) of
               NoResponse e \<Rightarrow> (Inl e, cd, sent)
             | Response status body \<Rightarrow>
                 if bn_limited status then (Inl ''binance ticker rate limited'', bn_setCooldown (xc_now env 2), sent)
                 else if 400 \<le> status then (Inl (''binance ticker status '' @ show_nat status), cd, sent)
                 else case body of
                   Inl e \<Rightarrow> (Inl e, cd, sent)
                 | Inr p \<Rightarrow>
                     (case traverse (\<lambda>(what, s). case xc_float env s of Inl e \<Rightarrow> Inl (''binance ticker parse '' @ what @ '': '' @ e) | Inr x \<Rightarrow> Inr x)
                             [(''open'', bt_open p), (''high'', bt_high p), (''low'', bt_low p), (''last'', bt_last p), (''volume'', bt_volume p),
                              (''quote volume'', bt_quoteVolume p)] of
                        Inl e \<Rightarrow> (Inl e, cd, sent)
                      | Inr xs \<Rightarrow> (Inr [ticker_candle ''binance'' req (xc_now env 2) xs (xs ! 5)], cd, sent)))"

definition bn_fetchNativeV24H :: "binance_env \<Rightarrow> gotime \<Rightarrow> string \<Rightarrow> (string, float64) result \<times> gotime" where
  "bn_fetchNativeV24H env cd symbol =
     (case bn_volume env symbol of
        NoResponse e \<Rightarrow> (Inl e, cd)
      | Response status body \<Rightarrow>
          if bn_limited status then (Inl ''rate limited'', bn_setCooldown (xc_now env 3))
          else if 400 \<le> status then (Inl (''binance ticker status '' @ show_nat status), cd)
          else case body of Inl e \<Rightarrow> (Inl e, cd) | Inr p \<Rightarrow> (xc_float env p, cd))"

definition bn_row :: "binance_env \<Rightarrow> Request \<Rightarrow> float64 \<Rightarrow> nat \<Rightarrow> nat \<times> json_any list \<Rightarrow> (string, Candle option) result" where
  "bn_row env req native n ir =
     (case ir of (i, row) \<Rightarrow>
        if length row < 6 then Inr None
        else case toInt64 (row ! 0) of
          Inl e \<Rightarrow> Inl e
        | Inr openTime \<Rightarrow>
            (case traverse (toFloat64 (xc_float env)) (take 5 (drop 1 row)) of
               Inl e \<Rightarrow> Inl e
             | Inr xs \<Rightarrow> Inr (Some (row_candle ''binance'' req (go_div openTime 1000) xs (if flt f0 native \<and> i = n - 1 then native else f0)))))"

text \<open>Candles of an hour are asked for by the minute.\<close>

definition bn_fetchOHLC :: "binance_env \<Rightarrow> gotime \<Rightarrow> Request \<Rightarrow> binance_outcome" where
  "bn_fetchOHLC env cd req =
     (case bn_cooldownError env cd of
        Some e \<Rightarrow> (Inl e, cd, [])
      | None \<Rightarrow>
          let symbol = bn_symbol req; iv = (if q_Interval req = ''1h'' then ''1m'' else q_Interval req);
              recent = (xc_now env 2 - q_EndTime req < 2 * Hour);
              (native, cd1) = (if recent then (case bn_fetchNativeV24H env cd symbol of (Inl e, c) \<Rightarrow> (f0, c) | (Inr v, c) \<Rightarrow> (v, c)) else (f0, cd));
              start = unix_milli (q_StartTime req); stop = unix_milli (q_EndTime req);
              sent = (if recent then [BnTicker symbol] else []) @ [BnKlines symbol iv start stop]
          in case bn_klines env symbol iv start stop of
               NoResponse e \<Rightarrow> (Inl e, cd1, sent)
             | Response status body \<Rightarrow>
                 if bn_limited status then (Inl (''binance status '' @ show_nat status), bn_setCooldown (xc_now env 4), sent)
                 else if 400 \<le> status then (Inl (''binance status '' @ show_nat status), cd1, sent)
                 else case body of
                   Inl e \<Rightarrow> (Inl e, cd1, sent)
                 | Inr rows \<Rightarrow> (collect_rows (bn_row env req native (length rows)) (enumerate 0 rows), cd1, sent))"

definition bn_FetchCandles :: "binance_env \<Rightarrow> gotime \<Rightarrow> Request \<Rightarrow> binance_outcome" where
  "bn_FetchCandles env cd req =
     (if \<not> bn_Supports (xc_now env 0) req then (Inl (unsupported req), cd, [])
      else if q_Interval req = ''ticker'' then bn_fetchTicker env cd req else bn_fetchOHLC env cd req)"

section \<open>Kraken\<close>

record kraken_ticker =
  kt_C :: "string list"
  kt_V :: "string list"
  kt_P :: "string list"
  kt_L :: "string list"
  kt_H :: "string list"
  kt_O :: string

record 'p kraken_payload =
  kp_Error :: "string list"
  kp_Result :: "(string, 'p) gomap"

text \<open>An answer of \<^verbatim>\<open>OHLC\<close> has the rows of a code, or the error of decoding them; an asset pair has its two names.\<close>

record kraken_env = client_env +
  kr_ticker :: "string \<Rightarrow> kraken_ticker kraken_payload http_answer"
  kr_volume :: "string \<Rightarrow> (string list \<times> string list) kraken_payload http_answer"
  kr_ohlc :: "string \<Rightarrow> int \<Rightarrow> int \<Rightarrow> ((string, json_any list list) result) kraken_payload http_answer"
  kr_pairs :: "(string \<times> string) kraken_payload http_answer"
  kr_rng :: "string list \<Rightarrow> string list"

datatype kraken_request = KrTicker string | KrOHLC string int int | KrAssetPairs

record kraken_client =
  kc_pairMap :: "(string, string) gomap option"
  kc_cachedAt :: gotime
  kc_cooldown :: gotime

type_synonym 'a kraken_outcome = "(string, 'a) result \<times> kraken_client \<times> kraken_request list"

definition kr_Supports :: "gotime \<Rightarrow> Request \<Rightarrow> bool" where
  "kr_Supports now req \<longleftrightarrow>
     q_Quote req \<in> {''EUR'', ''USD''} \<and>
     (if q_Interval req = ''1h'' \<or> q_Interval req = ''1d'' then \<not> q_EndTime req < now - 31 * Day else q_Interval req = ''ticker'')"

definition kr_cooldownError :: "'e client_env_scheme \<Rightarrow> kraken_client \<Rightarrow> string option" where
  "kr_cooldownError env c =
     (if xc_now env 1 < kc_cooldown c then Some (''kraken cooldown active until '' @ fmt_rfc3339 (kc_cooldown c)) else None)"

definition kr_setCooldown :: "gotime \<Rightarrow> kraken_client \<Rightarrow> kraken_client" where
  "kr_setCooldown now c = c\<lparr>kc_cooldown := now + 30 * Second\<rparr>"

fun replace_all :: "string \<Rightarrow> string \<Rightarrow> string \<Rightarrow> string" where
  "replace_all old new [] = []"
| "replace_all old new (c # s) =
     (if old \<noteq> [] \<and> prefix old (c # s) then new @ replace_all old new (drop (length old - 1) s) else c # replace_all old new s)"

definition normalizeKrakenPair :: "string \<Rightarrow> string" where
  "normalizeKrakenPair v =
     replace_all ''XDG'' ''DOGE'' (replace_all ''XBT'' ''BTC'' (filter (\<lambda>c. c \<notin> set ''/-_ '') (map ascii_upper (TrimSpace v))))"

text \<open>An error in the payload, which also starts the back-off when it says so.\<close>

definition kr_failed :: "gotime \<Rightarrow> string list \<Rightarrow> kraken_client \<Rightarrow> kraken_client" where
  "kr_failed now errs c = (if contains_str (join_with errs '', '') ''Too many requests'' then kr_setCooldown now c else c)"

definition kr_map :: "kraken_env \<Rightarrow> (string, string \<times> string) gomap \<Rightarrow> (string, string) gomap" where
  "kr_map env res =
     foldl (\<lambda>m code. foldl (\<lambda>m key. if key = [] then m else gm_put key code m) m
         (map normalizeKrakenPair [code, fst (gm_get res ([], []) code), snd (gm_get res ([], []) code)]))
       [] (kr_rng env (gm_keys res))"

definition kr_loadPairMap :: "kraken_env \<Rightarrow> kraken_client \<Rightarrow> unit kraken_outcome" where
  "kr_loadPairMap env c =
     (if kc_pairMap c \<noteq> None \<and> xc_now env 2 - kc_cachedAt c < 6 * Hour then (Inr (), c, [])
      else case kr_pairs env of
        NoResponse e \<Rightarrow> (Inl e, c, [KrAssetPairs])
      | Response status body \<Rightarrow>
          if status = 429 then (Inl (''kraken asset pairs status '' @ show_nat status), kr_setCooldown (xc_now env 3) c, [KrAssetPairs])
          else if 400 \<le> status then (Inl (''kraken asset pairs status '' @ show_nat status), c, [KrAssetPairs])
          else case body of
            Inl e \<Rightarrow> (Inl e, c, [KrAssetPairs])
          | Inr p \<Rightarrow>
              if kp_Error p \<noteq> [] then
                (Inl (''kraken asset pairs error: '' @ join_with (kp_Error p) '', ''), kr_failed (xc_now env 3) (kp_Error p) c, [KrAssetPairs])
              else (Inr (), c\<lparr>kc_pairMap := Some (kr_map env (kp_Result p)), kc_cachedAt := xc_now env 3\<rparr>, [KrAssetPairs]))"

definition kr_lookup :: "kraken_client \<Rightarrow> string \<Rightarrow> string option" where
  "kr_lookup c p = Option.bind (kc_pairMap c) (\<lambda>m. map_of m p)"

definition kr_resolvePairCode :: "kraken_env \<Rightarrow> kraken_client \<Rightarrow> string \<Rightarrow> string kraken_outcome" where
  "kr_resolvePairCode env c pair =
     (case kr_lookup c (normalizeKrakenPair pair) of
        Some code \<Rightarrow> (Inr code, c, [])
      | None \<Rightarrow>
          (case kr_loadPairMap env c of
             (Inl e, c', sent) \<Rightarrow> (Inl e, c', sent)
           | (Inr _, c', sent) \<Rightarrow>
               (case kr_lookup c' (normalizeKrakenPair pair) of
                  None \<Rightarrow> (Inl (''pair '' @ pair @ '' is not mapped for kraken''), c', sent)
                | Some code \<Rightarrow> (Inr code, c', sent))))"

definition kr_fetchTicker :: "kraken_env \<Rightarrow> kraken_client \<Rightarrow> Request \<Rightarrow> Candle list kraken_outcome" where
  "kr_fetchTicker env c req =
     (case kr_cooldownError env c of
        Some e \<Rightarrow> (Inl e, c, [])
      | None \<Rightarrow>
          (case kr_resolvePairCode env c (q_Pair req) of
             (Inl e, c', sent) \<Rightarrow> (Inl e, c', sent)
           | (Inr code, c', sent0) \<Rightarrow>
               let sent = sent0 @ [KrTicker code]
               in case kr_ticker env code of
                    NoResponse e \<Rightarrow> (Inl e, c', sent)
                  | Response status body \<Rightarrow>
                      if status = 429 then (Inl ''kraken ticker rate limited'', kr_setCooldown (xc_now env 4) c', sent)
                      else if 400 \<le> status then (Inl (''kraken ticker status '' @ show_nat status), c', sent)
                      else case body of
                        Inl e \<Rightarrow> (Inl e, c', sent)
                      | Inr p \<Rightarrow>
                          if kp_Error p \<noteq> [] then
                            (Inl (''kraken ticker error: '' @ join_with (kp_Error p) '', ''), kr_failed (xc_now env 4) (kp_Error p) c', sent)
                          else case map_of (kp_Result p) code of
                            None \<Rightarrow> (Inl (''kraken ticker result missing or invalid for '' @ code), c', sent)
                          | Some d \<Rightarrow>
                              if length (kt_C d) < 1 \<or> length (kt_H d) < 2 \<or> length (kt_L d) < 2 \<or> length (kt_V d) < 2 \<or> length (kt_P d) < 2 then
                                (Inl (''kraken ticker result missing or invalid for '' @ code), c', sent)
                              else case traverse (\<lambda>(what, s). case xc_float env s of Inl e \<Rightarrow> Inl (''kraken ticker parse '' @ what @ '': '' @ e) | Inr x \<Rightarrow> Inr x)
                                     [(''last'', kt_C d ! 0), (''open'', kt_O d), (''high'', kt_H d ! 1), (''low'', kt_L d ! 1), (''volume'', kt_V d ! 1),
                                      (''vwap'', kt_P d ! 1)] of
                                Inl e \<Rightarrow> (Inl e, c', sent)
                              | Inr xs \<Rightarrow>
                                  (Inr [ticker_candle ''kraken'' req (xc_now env 4) [xs ! 1, xs ! 2, xs ! 3, xs ! 0, xs ! 4] (fmul (xs ! 4) (xs ! 5))], c', sent)))"

text \<open>The status of this answer is only looked at for the rate limit.\<close>

definition kr_fetchNativeV24H :: "kraken_env \<Rightarrow> kraken_client \<Rightarrow> string \<Rightarrow> (string, float64) result \<times> kraken_client" where
  "kr_fetchNativeV24H env c code =
     (case kr_volume env code of
        NoResponse e \<Rightarrow> (Inl e, c)
      | Response status body \<Rightarrow>
          if status = 429 then (Inl ''rate limited'', kr_setCooldown (xc_now env 5) c)
          else case body of
            Inl e \<Rightarrow> (Inl e, c)
          | Inr p \<Rightarrow>
              if kp_Error p \<noteq> [] then (Inl (''kraken ticker error: '' @ join_with (kp_Error p) '', ''), c)
              else case map_of (kp_Result p) code of
                None \<Rightarrow> (Inl (''kraken ticker result missing or invalid for '' @ code), c)
              | Some (vs, ps) \<Rightarrow>
                  if length vs < 2 \<or> length ps < 2 then (Inl (''kraken ticker result missing or invalid for '' @ code), c)
                  else (case traverse (xc_float env) [vs ! 1, ps ! 1] of Inl e \<Rightarrow> (Inl e, c) | Inr xs \<Rightarrow> (Inr (fmul (xs ! 0) (xs ! 1)), c)))"

definition krakenInterval :: "string \<Rightarrow> (string, int) result" where
  "krakenInterval iv =
     (if iv = ''1m'' then Inr 1 else if iv = ''1h'' then Inr 60 else if iv = ''1d'' then Inr 1440 else Inl (''unsupported interval '' @ go_quote iv))"

definition kr_row :: "kraken_env \<Rightarrow> Request \<Rightarrow> float64 \<Rightarrow> nat \<Rightarrow> nat \<times> json_any list \<Rightarrow> (string, Candle option) result" where
  "kr_row env req native n ir =
     (case ir of (i, row) \<Rightarrow>
        if length row < 7 then Inr None
        else case toInt64 (row ! 0) of
          Inl e \<Rightarrow> Inl e
        | Inr ts \<Rightarrow>
            if unix (q_EndTime req) \<le> ts then Inr None
            else case traverse (toFloat64 (xc_float env)) [row ! 1, row ! 2, row ! 3, row ! 4, row ! 6] of
              Inl e \<Rightarrow> Inl e
            | Inr xs \<Rightarrow> Inr (Some (row_candle ''kraken'' req ts xs (if flt f0 native \<and> i = n - 1 then native else f0))))"

definition kr_fetchOHLC :: "kraken_env \<Rightarrow> kraken_client \<Rightarrow> Request \<Rightarrow> Candle list kraken_outcome" where
  "kr_fetchOHLC env c req =
     (case kr_cooldownError env c of
        Some e \<Rightarrow> (Inl e, c, [])
      | None \<Rightarrow>
          (case kr_resolvePairCode env c (q_Pair req) of
             (Inl e, c', sent) \<Rightarrow> (Inl e, c', sent)
           | (Inr code, c1, sent0) \<Rightarrow>
               (case krakenInterval (q_Interval req) of
                  Inl e \<Rightarrow> (Inl e, c1, sent0)
                | Inr iv \<Rightarrow>
                    let recent = (xc_now env 4 - q_EndTime req < 2 * Hour);
                        (native, c2) = (if recent then (case kr_fetchNativeV24H env c1 code of (Inl e, x) \<Rightarrow> (f0, x) | (Inr v, x) \<Rightarrow> (v, x)) else (f0, c1));
                        since = unix (q_StartTime req);
                        sent = sent0 @ (if recent then [KrTicker code] else []) @ [KrOHLC code iv since]
                    in case kr_ohlc env code iv since of
                         NoResponse e \<Rightarrow> (Inl e, c2, sent)
                       | Response status body \<Rightarrow>
                           if status = 429 then (Inl (''kraken status '' @ show_nat status), kr_setCooldown (xc_now env 6) c2, sent)
                           else if 400 \<le> status then (Inl (''kraken status '' @ show_nat status), c2, sent)
                           else case body of
                             Inl e \<Rightarrow> (Inl e, c2, sent)
                           | Inr p \<Rightarrow>
                               if kp_Error p \<noteq> [] then (Inl (''kraken error: '' @ join_with (kp_Error p) '', ''), kr_failed (xc_now env 6) (kp_Error p) c2, sent)
                               else case map_of (kp_Result p) code of
                                 None \<Rightarrow> (Inl (''kraken result missing pair '' @ code), c2, sent)
                               | Some (Inl e) \<Rightarrow> (Inl e, c2, sent)
                               | Some (Inr rows) \<Rightarrow> (collect_rows (kr_row env req native (length rows)) (enumerate 0 rows), c2, sent))))"

definition kr_FetchCandles :: "kraken_env \<Rightarrow> kraken_client \<Rightarrow> Request \<Rightarrow> Candle list kraken_outcome" where
  "kr_FetchCandles env c req =
     (if \<not> kr_Supports (xc_now env 0) req then (Inl (unsupported req), c, [])
      else if q_Interval req = ''ticker'' then kr_fetchTicker env c req else kr_fetchOHLC env c req)"

section \<open>CoinGecko\<close>

text \<open>The two answers: prices by coin and key, and the samples of prices and volumes.\<close>

record gecko_env = client_env +
  cg_price :: "string \<Rightarrow> string \<Rightarrow> (string, (string, float64) gomap) gomap http_answer"
  cg_chart :: "string \<Rightarrow> string \<Rightarrow> int \<Rightarrow> int \<Rightarrow> (float64 list list \<times> float64 list list) http_answer"

definition coinIDForBase :: "string \<Rightarrow> string option" where
  "coinIDForBase base =
     map_of [(''BTC'', ''bitcoin''), (''ETH'', ''ethereum''), (''SOL'', ''solana''), (''XRP'', ''ripple''), (''ADA'', ''cardano''), (''LINK'', ''chainlink''),
       (''AVAX'', ''avalanche-2''), (''DOGE'', ''dogecoin'')] (map ascii_upper (TrimSpace base))"

definition cg_Supports :: "gotime \<Rightarrow> Request \<Rightarrow> bool" where
  "cg_Supports now req \<longleftrightarrow>
     q_Interval req \<in> {''1h'', ''ticker''} \<and> q_Quote req \<in> {''EUR'', ''USD''} \<and> coinIDForBase (q_Base req) \<noteq> None \<and>
     (q_Interval req = ''ticker'' \<or> trunc_time now Day < q_EndTime req)"

definition cg_fetchTicker :: "gecko_env \<Rightarrow> Request \<Rightarrow> (string, Candle list) result" where
  "cg_fetchTicker env req =
     (case coinIDForBase (q_Base req) of
        None \<Rightarrow> Inl (''unsupported CoinGecko asset '' @ q_Base req)
      | Some coin \<Rightarrow>
          let quote = map ascii_lower (q_Quote req)
          in case cg_price env coin quote of
               NoResponse e \<Rightarrow> Inl e
             | Response status body \<Rightarrow>
                 if 400 \<le> status then Inl (''coingecko ticker status '' @ show_nat status)
                 else case body of
                   Inl e \<Rightarrow> Inl e
                 | Inr p \<Rightarrow>
                     (case map_of p coin of
                        None \<Rightarrow> Inl (''coingecko ticker missing coin '' @ coin)
                      | Some d \<Rightarrow>
                          (case map_of d quote of
                             None \<Rightarrow> Inl (''coingecko ticker missing quote '' @ q_Quote req)
                           | Some price \<Rightarrow>
                               Inr [ticker_candle ''coingecko'' req (xc_now env 1) [price, price, price, price, f0] (gm_get d f0 (quote @ ''_24h_vol''))])))"

definition cg_volumes :: "float64 list list \<Rightarrow> (int, float64) gomap" where
  "cg_volumes vs = foldl (\<lambda>m v. if length v < 2 then m else gm_put (normalizeTimestamp (float_to_int (v ! 0))) (v ! 1) m) [] vs"

definition cg_sample :: "Request \<Rightarrow> gotime \<Rightarrow> (int, float64) gomap \<Rightarrow> nat \<Rightarrow> nat \<times> float64 list \<Rightarrow> Candle option" where
  "cg_sample req stop volumes n ir =
     (case ir of (i, sample) \<Rightarrow>
        if length sample < 2 then None
        else let ts = normalizeTimestamp (float_to_int (sample ! 0)); price = sample ! 1; v = gm_get volumes f0 ts
             in if ts < unix (q_StartTime req) \<or> unix stop \<le> ts then None
                else Some (row_candle ''coingecko'' req ts [price, price, price, price, f0] (if flt f0 v \<and> i = n - 1 then v else f0)))"

definition cg_fetchOHLC :: "gecko_env \<Rightarrow> Request \<Rightarrow> (string, Candle list) result" where
  "cg_fetchOHLC env req =
     (case coinIDForBase (q_Base req) of
        None \<Rightarrow> Inl (''unsupported CoinGecko asset '' @ q_Base req)
      | Some coin \<Rightarrow>
          let stop = min (q_EndTime req) (xc_now env 1)
          in if \<not> q_StartTime req < stop then Inr []
             else case cg_chart env coin (map ascii_lower (q_Quote req)) (unix (q_StartTime req)) (unix stop) of
               NoResponse e \<Rightarrow> Inl e
             | Response status body \<Rightarrow>
                 if 400 \<le> status then Inl (''coingecko status '' @ show_nat status)
                 else case body of
                   Inl e \<Rightarrow> Inl e
                 | Inr (prices, volumes) \<Rightarrow>
                     let items = List.map_filter (cg_sample req stop (cg_volumes volumes) (length prices)) (enumerate 0 prices)
                     in if items = [] then Inl (''no coingecko prices for '' @ q_Pair req @ '' '' @ q_Interval req) else Inr items)"

definition cg_FetchCandles :: "gecko_env \<Rightarrow> Request \<Rightarrow> (string, Candle list) result" where
  "cg_FetchCandles env req =
     (if \<not> cg_Supports (xc_now env 0) req then Inl (unsupported req)
      else if q_Interval req = ''ticker'' then cg_fetchTicker env req else cg_fetchOHLC env req)"

section \<open>Binance Vision\<close>

text \<open>
  A CSV file is its records up to the first that the reader rejects, with the error of that one; an archive is the files in it, each of
  which may fail to open.
\<close>

type_synonym csv = "string list list \<times> string option"

datatype archive_error = ErrArchiveNotFound | ArchiveError string

record vision_env = client_env +
  bv_archive :: "string \<Rightarrow> (string, csv) result list http_answer"

definition dayStart :: "gotime \<Rightarrow> gotime" where
  "dayStart t = trunc_time t Day"

definition bv_Supports :: "gotime \<Rightarrow> Request \<Rightarrow> bool" where
  "bv_Supports now req \<longleftrightarrow>
     q_Interval req \<in> {''1h'', ''1d''} \<and> q_Quote req \<in> {''USDT'', ''EUR''} \<and> \<not> dayStart now < q_EndTime req"

definition bv_record :: "vision_env \<Rightarrow> Request \<Rightarrow> string list \<Rightarrow> (string, Candle option) result" where
  "bv_record env req rec =
     (if length rec < 6 then Inr None
      else case parse_int64 (rec ! 0) of
        Inl e \<Rightarrow> Inr None
      | Inr openTime \<Rightarrow>
          let ts = normalizeTimestamp openTime
          in if ts < unix (q_StartTime req) \<or> unix (q_EndTime req) \<le> ts then Inr None
             else case traverse (xc_float env) (take 5 (drop 1 rec)) of
               Inl e \<Rightarrow> Inl e
             | Inr xs \<Rightarrow> Inr (Some (row_candle ''binancevision'' req ts xs f0)))"

text \<open>An error of the reader comes after the records before it.\<close>

definition csv_loop :: "(string list \<Rightarrow> (string, Candle option) result) \<Rightarrow> csv \<Rightarrow> (string, Candle list) result" where
  "csv_loop f file =
     (case collect_rows f (fst file) of
        Inl e \<Rightarrow> Inl e
      | Inr cs \<Rightarrow> (case snd file of Some e \<Rightarrow> Inl e | None \<Rightarrow> Inr cs))"

definition bv_path :: "Request \<Rightarrow> gotime \<Rightarrow> string" where
  "bv_path req day =
     (let symbol = map ascii_upper (q_Base req @ q_Quote req)
      in ''/data/spot/daily/klines/'' @ symbol @ ''/'' @ q_Interval req @ ''/'' @ symbol @ ''-'' @ q_Interval req @ ''-'' @ fmt_day day @ ''.zip'')"

definition bv_fetchArchive :: "vision_env \<Rightarrow> string \<Rightarrow> Request \<Rightarrow> (archive_error, Candle list) result" where
  "bv_fetchArchive env path req =
     (case bv_archive env path of
        NoResponse e \<Rightarrow> Inl (ArchiveError e)
      | Response status body \<Rightarrow>
          if status = 404 then Inl ErrArchiveNotFound
          else if 400 \<le> status then Inl (ArchiveError (''binance vision status '' @ show_nat status @ '' for '' @ path))
          else case body of
            Inl e \<Rightarrow> Inl (ArchiveError e)
          | Inr [] \<Rightarrow> Inl (ArchiveError (''binance vision archive '' @ path @ '' is empty''))
          | Inr (Inl e # _) \<Rightarrow> Inl (ArchiveError e)
          | Inr (Inr file # _) \<Rightarrow> (case csv_loop (bv_record env req) file of Inl e \<Rightarrow> Inl (ArchiveError e) | Inr cs \<Rightarrow> Inr cs))"

definition bv_fetchDailyArchive :: "vision_env \<Rightarrow> Request \<Rightarrow> gotime \<Rightarrow> (archive_error, Candle list) result" where
  "bv_fetchDailyArchive env req day = bv_fetchArchive env (bv_path req day) req"

fun add_new :: "Candle list \<Rightarrow> Candle list \<Rightarrow> Candle list" where
  "add_new [] acc = acc"
| "add_new (c # cs) acc = add_new cs (if k_Timestamp c \<in> k_Timestamp ` set acc then acc else acc @ [c])"

function bv_days :: "vision_env \<Rightarrow> Request \<Rightarrow> gotime \<Rightarrow> Candle list \<Rightarrow> string list \<Rightarrow> Candle list \<times> string list" where
  "bv_days env req day acc errs =
     (if \<not> day < q_EndTime req then (acc, errs)
      else case bv_fetchDailyArchive env req day of
        Inl ErrArchiveNotFound \<Rightarrow> bv_days env req (day + Day) acc errs
      | Inl (ArchiveError e) \<Rightarrow> bv_days env req (day + Day) acc (errs @ [e])
      | Inr items \<Rightarrow> bv_days env req (day + Day) (add_new items acc) errs)"
  by pat_completeness auto
termination
  by (relation "measure (\<lambda>(env, req, day, acc, errs). nat (q_EndTime req - day))") (auto simp: Day_def Hour_def Minute_def Second_def)

declare bv_days.simps [simp del]

definition bv_FetchCandles :: "vision_env \<Rightarrow> Request \<Rightarrow> (string, Candle list) result" where
  "bv_FetchCandles env req =
     (if \<not> bv_Supports (xc_now env 0) req then Inl (unsupported req)
      else if \<not> q_StartTime req < q_EndTime req then Inr []
      else case bv_days env req (dayStart (q_StartTime req)) [] [] of
        (result, errs) \<Rightarrow>
          if result \<noteq> [] then Inr result
          else if errs \<noteq> [] then Inl (join_lines errs)
          else Inl (''no binance vision archives available for '' @ q_Pair req @ '' '' @ q_Interval req))"

section \<open>CryptoDataDownload\<close>

record availabilityEntry =
  ae_Exchange :: string
  ae_StartDate :: gotime
  ae_EndDate :: gotime
  ae_FileURL :: string

type_synonym availabilityGraph = "(string, availabilityEntry list) gomap"

record globalRecord =
  gr_Exchange :: string
  gr_Type :: string

record providerRecord =
  pr_Symbol :: string
  pr_Timeframe :: string
  pr_StartDate :: string
  pr_EndDate :: string
  pr_File :: string

record cdd_env = client_env +
  cd_global :: "globalRecord list http_answer"
  cd_provider :: "string \<Rightarrow> providerRecord list http_answer"
  cd_parse :: "string \<Rightarrow> string \<Rightarrow> gotime option"
  cd_file :: "string \<Rightarrow> csv http_answer"
  cd_sort :: "availabilityEntry list \<Rightarrow> availabilityEntry list"
  cd_sort_candles :: "Candle list \<Rightarrow> Candle list"

definition normalizeSymbol :: "string \<Rightarrow> string" where
  "normalizeSymbol s = map ascii_upper (filter (\<lambda>c. c \<noteq> CHR ''/'') s)"

definition mapTimeframe :: "string \<Rightarrow> string" where
  "mapTimeframe iv = (if iv = ''1h'' then ''hour'' else if iv = ''1d'' then ''day'' else [])"

definition providerPriority :: "string \<Rightarrow> nat" where
  "providerPriority ex = (if equal_fold ex ''binance'' then 0 else if equal_fold ex ''bitstamp'' then 1 else if equal_fold ex ''bitfinex'' then 2 else 3)"

definition parseAvailabilityDate :: "(string \<Rightarrow> string \<Rightarrow> gotime option) \<Rightarrow> string \<Rightarrow> gotime option" where
  "parseAvailabilityDate parse raw =
     (let r = TrimSpace raw in case parse ''2006-01-02 15:04:05'' r of Some t \<Rightarrow> Some t | None \<Rightarrow> parse ''2006-01-02'' r)"

definition index_record :: "cdd_env \<Rightarrow> string \<Rightarrow> availabilityGraph \<Rightarrow> providerRecord \<Rightarrow> availabilityGraph" where
  "index_record env prov g rec =
     (case parseAvailabilityDate (cd_parse env) (pr_StartDate rec) of
        None \<Rightarrow> g
      | Some s \<Rightarrow>
          (case parseAvailabilityDate (cd_parse env) (pr_EndDate rec) of
             None \<Rightarrow> g
           | Some e \<Rightarrow>
               let key = normalizeSymbol (pr_Symbol rec) @ '':'' @ pr_Timeframe rec
               in gm_put key (gm_get g [] key @ [\<lparr>ae_Exchange = prov, ae_StartDate = s, ae_EndDate = e, ae_FileURL = pr_File rec\<rparr>]) g))"

definition fetchAvailabilityGraph :: "cdd_env \<Rightarrow> availabilityGraph" where
  "fetchAvailabilityGraph env =
     (case cd_global env of
        NoResponse e \<Rightarrow> []
      | Response status body \<Rightarrow>
          if status \<noteq> 200 then []
          else case body of
            Inl e \<Rightarrow> []
          | Inr recs \<Rightarrow>
              let found = map (\<lambda>r. map ascii_lower (gr_Exchange r)) (filter (\<lambda>r. equal_fold (gr_Type r) ''Spot'') recs);
                  graph = foldl (\<lambda>g prov. case cd_provider env prov of
                      NoResponse e \<Rightarrow> g
                    | Response st b \<Rightarrow> if st \<noteq> 200 then g else (case b of Inl e \<Rightarrow> g | Inr rs \<Rightarrow> foldl (index_record env prov) g rs))
                    [] (filter (\<lambda>p. p \<in> set found) [''binance'', ''bitstamp'', ''bitfinex''])
              in map (\<lambda>(k, es). (k, cd_sort env es)) graph)"

definition cd_resolve :: "availabilityGraph \<Rightarrow> string \<Rightarrow> string \<Rightarrow> gotime \<Rightarrow> gotime \<Rightarrow> string option" where
  "cd_resolve g symbol tf start stop =
     (case map_of g (symbol @ '':'' @ tf) of
        None \<Rightarrow> None
      | Some es \<Rightarrow> map_option ae_FileURL (find (\<lambda>e. start < ae_EndDate e \<and> ae_StartDate e < stop) es))"

definition cd_url :: "availabilityGraph \<Rightarrow> Request \<Rightarrow> string option" where
  "cd_url g req = cd_resolve g (normalizeSymbol (q_Pair req)) (mapTimeframe (q_Interval req)) (q_StartTime req) (q_EndTime req)"

definition cd_Supports :: "gotime \<Rightarrow> availabilityGraph \<Rightarrow> Request \<Rightarrow> bool" where
  "cd_Supports now g req \<longleftrightarrow>
     q_Interval req \<in> {''1h'', ''1d''} \<and> \<not> trunc_time now Day < q_EndTime req \<and> g \<noteq> [] \<and> cd_url g req \<noteq> None"

definition cd_record :: "cdd_env \<Rightarrow> Request \<Rightarrow> string list \<Rightarrow> (string, Candle option) result" where
  "cd_record env req rec =
     (if length rec < 8 then Inr None
      else case parse_int64 (TrimSpace (rec ! 0)) of
        Inl e \<Rightarrow> Inr None
      | Inr raw \<Rightarrow>
          let ts = normalizeTimestamp raw
          in if ts < unix (q_StartTime req) \<or> unix (q_EndTime req) \<le> ts then Inr None
             else case traverse (\<lambda>s. xc_float env (TrimSpace s)) (take 5 (drop 3 rec)) of
               Inl e \<Rightarrow> Inl e
             | Inr xs \<Rightarrow> Inr (Some (row_candle ''cryptodatadownload'' req ts xs f0)))"

definition cd_FetchCandles :: "cdd_env \<Rightarrow> availabilityGraph \<Rightarrow> Request \<Rightarrow> (string, Candle list) result" where
  "cd_FetchCandles env g req =
     (if \<not> cd_Supports (xc_now env 0) g req then Inl (unsupported req)
      else if \<not> q_StartTime req < q_EndTime req then Inr []
      else case cd_url g req of
        None \<Rightarrow> Inl (unsupported req)
      | Some url \<Rightarrow>
          (case cd_file env url of
             NoResponse e \<Rightarrow> Inl e
           | Response status body \<Rightarrow>
               if 400 \<le> status then Inl (''cryptodatadownload status '' @ show_nat status)
               else case body of
                 Inl e \<Rightarrow> Inl e
               | Inr file \<Rightarrow>
                   (case csv_loop (cd_record env req) file of
                      Inl e \<Rightarrow> Inl e
                    | Inr cs \<Rightarrow>
                        if cd_sort_candles env cs = [] then Inl (''no cryptodatadownload candles for '' @ q_Pair req @ '' '' @ q_Interval req)
                        else Inr (cd_sort_candles env cs))))"

section \<open>The sources of the application\<close>

definition vision_source :: "vision_env \<Rightarrow> Source" where
  "vision_source env = \<lparr>src_Name = ''binancevision'', src_Capabilities = CapHistorical, src_Supports = bv_Supports (xc_asked env),
     src_FetchCandles = bv_FetchCandles env\<rparr>"

definition cdd_source :: "cdd_env \<Rightarrow> availabilityGraph \<Rightarrow> Source" where
  "cdd_source env g = \<lparr>src_Name = ''cryptodatadownload'', src_Capabilities = CapHistorical, src_Supports = cd_Supports (xc_asked env) g,
     src_FetchCandles = cd_FetchCandles env g\<rparr>"

definition binance_source :: "binance_env \<Rightarrow> gotime \<Rightarrow> Source" where
  "binance_source env cd = \<lparr>src_Name = ''binance'', src_Capabilities = CapHistorical OR CapRealtime, src_Supports = bn_Supports (xc_asked env),
     src_FetchCandles = (\<lambda>req. fst (bn_FetchCandles env cd req))\<rparr>"

definition kraken_source :: "kraken_env \<Rightarrow> kraken_client \<Rightarrow> Source" where
  "kraken_source env c = \<lparr>src_Name = ''kraken'', src_Capabilities = CapHistorical OR CapRealtime, src_Supports = kr_Supports (xc_asked env),
     src_FetchCandles = (\<lambda>req. fst (kr_FetchCandles env c req))\<rparr>"

definition gecko_source :: "gecko_env \<Rightarrow> Source" where
  "gecko_source env = \<lparr>src_Name = ''coingecko'', src_Capabilities = CapRealtime, src_Supports = cg_Supports (xc_asked env),
     src_FetchCandles = cg_FetchCandles env\<rparr>"

text \<open>The flags of the configuration, and the clients with what they meet.\<close>

record source_flags =
  EnableBinanceVision :: bool
  EnableCryptoDataDownload :: bool
  EnableBinance :: bool
  EnableKraken :: bool
  EnableCoinGecko :: bool

record clients =
  cl_vision :: vision_env
  cl_cdd :: cdd_env
  cl_binance :: "binance_env \<times> gotime"
  cl_kraken :: "kraken_env \<times> kraken_client"
  cl_gecko :: gecko_env

record sourceSet =
  registrySources :: "Source list"
  validatorSources :: "Source list"
  enabledNames :: "string list"

definition add_source :: "bool \<Rightarrow> bool \<Rightarrow> Source \<Rightarrow> sourceSet \<Rightarrow> sourceSet" where
  "add_source enabled validates s ss =
     (if \<not> enabled then ss
      else ss\<lparr>registrySources := registrySources ss @ [s],
               validatorSources := (if validates then validatorSources ss @ [s] else validatorSources ss),
               enabledNames := enabledNames ss @ [src_Name s]\<rparr>)"

definition buildSources :: "source_flags \<Rightarrow> clients \<Rightarrow> sourceSet" where
  "buildSources cfg w =
     add_source (EnableCoinGecko cfg) True (gecko_source (cl_gecko w))
      (add_source (EnableKraken cfg) True (kraken_source (fst (cl_kraken w)) (snd (cl_kraken w)))
        (add_source (EnableBinance cfg) True (binance_source (fst (cl_binance w)) (snd (cl_binance w)))
          (add_source (EnableCryptoDataDownload cfg) False (cdd_source (cl_cdd w) (fetchAvailabilityGraph (cl_cdd w)))
            (add_source (EnableBinanceVision cfg) True (vision_source (cl_vision w))
              \<lparr>registrySources = [], validatorSources = [], enabledNames = []\<rparr>))))"

end
