(* ===== verification/Exchange_Props.thy ===== *)
theory Exchange_Props
  imports Exchange_Clients Executor_Props
begin

text \<open>
  What the exchange clients promise the registry: the locale \<open>market_source\<close>, of which each of the five clients is an
  interpretation, and its extension \<open>archive_source\<close> for those that cut their answer to the window of the request. The locale
  \<open>back_off\<close> is the contract of the clients that stay away from an exchange that turned them down.
\<close>

section \<open>Rows\<close>

lemma traverse_length: "traverse f xs = Inr ys \<Longrightarrow> length ys = length xs"
  by (induction xs arbitrary: ys) (auto split: sum.splits)

lemma traverse_in: "traverse f xs = Inr ys \<Longrightarrow> y \<in> set ys \<Longrightarrow> \<exists>x\<in>set xs. f x = Inr y"
  by (induction xs arbitrary: ys) (auto split: sum.splits)

lemma traverse_total: "(\<And>x. x \<in> set xs \<Longrightarrow> \<exists>y. f x = Inr (Some y)) \<Longrightarrow> \<exists>ys. traverse f xs = Inr (map Some ys) \<and> length ys = length xs"
proof (induction xs)
  case (Cons x xs)
  then obtain y ys where "f x = Inr (Some y)" "traverse f xs = Inr (map Some ys)" "length ys = length xs" by fastforce
  then show ?case by (intro exI [of _ "y # ys"]) simp
qed simp

lemma map_filter_all: "(\<And>x y. x \<in> set xs \<Longrightarrow> f x = Some y \<Longrightarrow> P y) \<Longrightarrow> list_all P (List.map_filter f xs)"
  by (auto simp: list_all_iff List.map_filter_def)

lemma collect_rows_all:
  assumes "collect_rows f rs = Inr ks" "\<And>r k. r \<in> set rs \<Longrightarrow> f r = Inr (Some k) \<Longrightarrow> P k"
  shows "list_all P ks"
  using assms by (fastforce simp: collect_rows_def list_all_iff List.map_filter_def split: sum.splits dest: traverse_in)

lemma collect_rows_total:
  assumes "\<And>r. r \<in> set rs \<Longrightarrow> \<exists>k. f r = Inr (Some k)"
  shows "\<exists>ks. collect_rows f rs = Inr ks \<and> length ks = length rs"
proof -
  obtain ks where "traverse f rs = Inr (map Some ks)" "length ks = length rs" using traverse_total [of rs f] assms by blast
  then show ?thesis by (simp add: collect_rows_def List.map_filter_def comp_def)
qed

lemma csv_loop_all:
  assumes "csv_loop f file = Inr ks" "\<And>r k. f r = Inr (Some k) \<Longrightarrow> P k"
  shows "list_all P ks"
  using assms by (auto simp: csv_loop_def intro: collect_rows_all split: sum.splits option.splits)

section \<open>The contract of a source\<close>

lemma FetchCandles_found: "find (usable r req) (reg_sources r) = Some s \<Longrightarrow> FetchCandles r req = src_FetchCandles s req"
  by (auto simp: FetchCandles_def fetch_loop_find usable_def dest!: find_holds split: sum.splits)

lemma FetchCandles_source:
  assumes "FetchCandles r req = Inr ks"
  obtains s where "find (usable r req) (reg_sources r) = Some s" "s \<in> set (reg_sources r)" "compatible r req s" "ks \<noteq> []"
proof (cases "find (usable r req) (reg_sources r)")
  case None
  then show ?thesis using assms by (auto simp: FetchCandles_def fetch_loop_find split: if_splits)
next
  case (Some s)
  have s: "usable r req s" "s \<in> set (reg_sources r)" using Some by (auto simp: find_Some_iff)
  have "src_FetchCandles s req = Inr ks" using assms FetchCandles_found [OF Some] by simp
  with s that [OF Some] show ?thesis by (simp add: usable_def)
qed

text \<open>A candle that answers a request: its pair, its interval, the name of the source; final unless it is a ticker.\<close>

definition answers :: "string \<Rightarrow> Request \<Rightarrow> Candle \<Rightarrow> bool" where
  "answers name req k \<longleftrightarrow>
     k_Pair k = q_Pair req \<and> k_Interval k = q_Interval req \<and> k_Source k = name \<and> k_Finalized k = (q_Interval req \<noteq> ''ticker'')"

definition inside :: "Request \<Rightarrow> Candle \<Rightarrow> bool" where
  "inside req k \<longleftrightarrow> unix (q_StartTime req) \<le> k_Timestamp k \<and> k_Timestamp k < unix (q_EndTime req)"

definition intervals :: "string set" where
  "intervals = {''1h'', ''1d'', ''ticker''}"

locale market_source =
  fixes source :: "'c \<Rightarrow> Source"
    and ok :: "'c \<Rightarrow> bool"
  assumes known: "ok c \<Longrightarrow> src_FetchCandles (source c) req = Inr ks \<Longrightarrow> q_Interval req \<in> intervals"
    and answered: "ok c \<Longrightarrow> src_FetchCandles (source c) req = Inr ks \<Longrightarrow> list_all (answers (src_Name (source c)) req) ks"
begin

text \<open>Whatever the registry gets from such a source answers the request.\<close>

lemma registry_answered:
  assumes "find (usable r req) (reg_sources r) = Some (source c)" "ok c" "FetchCandles r req = Inr ks"
  shows "q_Interval req \<in> intervals" "list_all (answers (src_Name (source c)) req) ks"
  using assms FetchCandles_found [OF assms(1)] by (auto intro: known answered)

end

locale archive_source = market_source +
  assumes windowed: "ok c \<Longrightarrow> src_FetchCandles (source c) req = Inr ks \<Longrightarrow> q_Interval req \<noteq> ''ticker'' \<Longrightarrow> list_all (inside req) ks"
begin

lemma registry_windowed:
  assumes "find (usable r req) (reg_sources r) = Some (source c)" "ok c" "FetchCandles r req = Inr ks" "q_Interval req \<noteq> ''ticker''"
  shows "list_all (inside req) ks"
  using assms FetchCandles_found [OF assms(1)] by (auto intro: windowed)

end

lemma ticker_candle_answers: "q_Interval req = ''ticker'' \<Longrightarrow> answers name req (ticker_candle name req now xs v)"
  by (simp add: answers_def ticker_candle_def row_candle_def)

lemma row_candle_answers: "q_Interval req \<noteq> ''ticker'' \<Longrightarrow> answers name req (row_candle name req ts xs v)"
  by (simp add: answers_def row_candle_def)

lemma row_candle_window: "inside req (row_candle name req ts xs v) \<longleftrightarrow> unix (q_StartTime req) \<le> ts \<and> ts < unix (q_EndTime req)"
  by (simp add: inside_def row_candle_def)

section \<open>The clients\<close>

lemma bn_row_answers: "bn_row env req native n ir = Inr (Some k) \<Longrightarrow> q_Interval req \<noteq> ''ticker'' \<Longrightarrow> answers ''binance'' req k"
  by (auto simp: bn_row_def row_candle_answers split: prod.splits if_splits sum.splits)

lemma bn_fetchOHLC_answers:
  assumes "fst (bn_fetchOHLC env cd req) = Inr ks" "q_Interval req \<noteq> ''ticker''"
  shows "list_all (answers ''binance'' req) ks"
  using assms
  by (auto simp: bn_fetchOHLC_def Let_def split: option.splits http_answer.splits sum.splits if_splits prod.splits
      elim!: collect_rows_all dest: bn_row_answers)

lemma bn_fetchTicker_answers:
  assumes "fst (bn_fetchTicker env cd req) = Inr ks" "q_Interval req = ''ticker''"
  shows "list_all (answers ''binance'' req) ks"
  using assms
  by (auto simp: bn_fetchTicker_def Let_def ticker_candle_answers split: option.splits http_answer.splits sum.splits if_splits prod.splits)

interpretation binance: market_source "\<lambda>(env, cd). binance_source env cd" "\<lambda>_. True"
proof (unfold_locales, safe)
  fix env cd req ks
  assume run: "src_FetchCandles (binance_source env cd) req = Inr ks"
  then have supported: "bn_Supports (xc_now env 0) req"
    by (cases "bn_Supports (xc_now env 0) req") (simp_all add: binance_source_def bn_FetchCandles_def)
  then show "q_Interval req \<in> intervals" by (auto simp: bn_Supports_def intervals_def split: if_splits)
  from run supported show "list_all (answers (src_Name (binance_source env cd)) req) ks"
    by (cases "q_Interval req = ''ticker''")
      (simp_all add: binance_source_def bn_FetchCandles_def bn_fetchTicker_answers bn_fetchOHLC_answers)
qed

lemma kr_row_answers: "kr_row env req native n ir = Inr (Some k) \<Longrightarrow> q_Interval req \<noteq> ''ticker'' \<Longrightarrow> answers ''kraken'' req k"
  by (auto simp: kr_row_def row_candle_answers split: prod.splits if_splits sum.splits)

lemma kr_fetchOHLC_answers:
  assumes "fst (kr_fetchOHLC env c req) = Inr ks" "q_Interval req \<noteq> ''ticker''"
  shows "list_all (answers ''kraken'' req) ks"
  using assms
  by (auto simp: kr_fetchOHLC_def Let_def split: option.splits http_answer.splits sum.splits if_splits prod.splits
      elim!: collect_rows_all dest: kr_row_answers)

lemma kr_fetchTicker_answers:
  assumes "fst (kr_fetchTicker env c req) = Inr ks" "q_Interval req = ''ticker''"
  shows "list_all (answers ''kraken'' req) ks"
  using assms
  by (auto simp: kr_fetchTicker_def Let_def ticker_candle_answers split: option.splits http_answer.splits sum.splits if_splits prod.splits)

interpretation kraken: market_source "\<lambda>(env, c). kraken_source env c" "\<lambda>_. True"
proof (unfold_locales, safe)
  fix env c req ks
  assume run: "src_FetchCandles (kraken_source env c) req = Inr ks"
  then have supported: "kr_Supports (xc_now env 0) req"
    by (cases "kr_Supports (xc_now env 0) req") (simp_all add: kraken_source_def kr_FetchCandles_def)
  then show "q_Interval req \<in> intervals" by (auto simp: kr_Supports_def intervals_def split: if_splits)
  from run supported show "list_all (answers (src_Name (kraken_source env c)) req) ks"
    by (cases "q_Interval req = ''ticker''")
      (simp_all add: kraken_source_def kr_FetchCandles_def kr_fetchTicker_answers kr_fetchOHLC_answers)
qed

lemma cg_sample_ok:
  assumes "cg_sample req stop volumes n ir = Some k" "stop \<le> q_EndTime req" "q_Interval req \<noteq> ''ticker''"
  shows "answers ''coingecko'' req k \<and> inside req k"
proof -
  have "unix stop \<le> unix (q_EndTime req)" using assms(2) by (simp add: unix_def zdiv_mono1)
  with assms(1,3) show ?thesis
    by (auto simp: cg_sample_def Let_def row_candle_answers row_candle_window split: prod.splits if_splits)
qed

lemma cg_fetchOHLC_ok:
  assumes "cg_fetchOHLC env req = Inr ks" "q_Interval req \<noteq> ''ticker''"
  shows "list_all (\<lambda>k. answers ''coingecko'' req k \<and> inside req k) ks"
  using assms
  by (auto simp: cg_fetchOHLC_def Let_def split: option.splits http_answer.splits sum.splits if_splits prod.splits
      intro!: map_filter_all dest: cg_sample_ok)

lemma cg_fetchTicker_answers:
  assumes "cg_fetchTicker env req = Inr ks" "q_Interval req = ''ticker''"
  shows "list_all (answers ''coingecko'' req) ks"
  using assms
  by (auto simp: cg_fetchTicker_def Let_def ticker_candle_answers split: option.splits http_answer.splits sum.splits if_splits prod.splits)

interpretation gecko: archive_source gecko_source "\<lambda>_. True"
proof
  fix env req ks
  assume run: "src_FetchCandles (gecko_source env) req = Inr ks"
  then have supported: "cg_Supports (xc_now env 0) req"
    by (cases "cg_Supports (xc_now env 0) req") (simp_all add: gecko_source_def cg_FetchCandles_def)
  then show "q_Interval req \<in> intervals" by (auto simp: cg_Supports_def intervals_def)
  from run supported show "list_all (answers (src_Name (gecko_source env)) req) ks"
    by (cases "q_Interval req = ''ticker''")
      (auto simp: gecko_source_def cg_FetchCandles_def list_all_iff dest: cg_fetchOHLC_ok cg_fetchTicker_answers)
  from run supported show "list_all (inside req) ks" if "q_Interval req \<noteq> ''ticker''"
    using that by (auto simp: gecko_source_def cg_FetchCandles_def list_all_iff dest: cg_fetchOHLC_ok)
qed

lemma bv_record_ok: "bv_record env req r = Inr (Some k) \<Longrightarrow> q_Interval req \<noteq> ''ticker'' \<Longrightarrow> answers ''binancevision'' req k \<and> inside req k"
  by (auto simp: bv_record_def Let_def row_candle_answers row_candle_window split: if_splits sum.splits)

lemma bv_daily_ok:
  assumes "bv_fetchDailyArchive env req day = Inr ks" "q_Interval req \<noteq> ''ticker''"
  shows "list_all (\<lambda>k. answers ''binancevision'' req k \<and> inside req k) ks"
  using assms
  by (auto simp: bv_fetchDailyArchive_def bv_fetchArchive_def split: http_answer.splits if_splits sum.splits list.splits
      elim!: csv_loop_all dest: bv_record_ok)

lemma set_add_new: "set (add_new cs acc) \<subseteq> set acc \<union> set cs"
  by (induction cs acc rule: add_new.induct) auto

lemma add_new_distinct: "distinct (map k_Timestamp acc) \<Longrightarrow> distinct (map k_Timestamp (add_new cs acc))"
  by (induction cs acc rule: add_new.induct) auto

lemma add_new_times: "k_Timestamp ` set (add_new cs acc) = k_Timestamp ` (set acc \<union> set cs)"
  by (induction cs acc rule: add_new.induct) (auto simp: image_Un)

lemma bv_days_ok:
  assumes "q_Interval req \<noteq> ''ticker''" "list_all (\<lambda>k. answers ''binancevision'' req k \<and> inside req k) acc"
  shows "list_all (\<lambda>k. answers ''binancevision'' req k \<and> inside req k) (fst (bv_days env req day acc errs))"
  using assms
proof (induction env req day acc errs rule: bv_days.induct)
  case (1 env req day acc errs)
  have new: "list_all (\<lambda>k. answers ''binancevision'' req k \<and> inside req k) (add_new items acc)"
    if "bv_fetchDailyArchive env req day = Inr items" for items
    using bv_daily_ok [OF that 1(4)] 1(5) set_add_new [of items acc] by (auto simp: list_all_iff)
  show ?case
    using 1 new by (subst bv_days.simps) (auto split: sum.split archive_error.split)
qed

interpretation vision: archive_source vision_source "\<lambda>_. True"
proof
  fix env req ks
  assume run: "src_FetchCandles (vision_source env) req = Inr ks"
  then have supported: "bv_Supports (xc_now env 0) req"
    by (cases "bv_Supports (xc_now env 0) req") (simp_all add: vision_source_def bv_FetchCandles_def)
  then have known: "q_Interval req \<in> intervals" "q_Interval req \<noteq> ''ticker''" by (auto simp: bv_Supports_def intervals_def)
  then show "q_Interval req \<in> intervals" by simp
  have "list_all (\<lambda>k. answers ''binancevision'' req k \<and> inside req k) ks"
    using run supported bv_days_ok [OF known(2), of "[]" env "dayStart (q_StartTime req)" "[]"]
    by (auto simp: vision_source_def bv_FetchCandles_def split: if_splits prod.splits)
  then show "list_all (answers (src_Name (vision_source env)) req) ks" "list_all (inside req) ks"
    by (simp_all add: vision_source_def list_all_iff)
qed

text \<open>The sort of \<^verbatim>\<open>sort.Slice\<close> is any that orders by time.\<close>

definition cdd_sorts :: "cdd_env \<Rightarrow> bool" where
  "cdd_sorts env \<longleftrightarrow> slice_sort k_Timestamp (cd_sort_candles env)"

lemma cd_record_ok: "cd_record env req r = Inr (Some k) \<Longrightarrow> q_Interval req \<noteq> ''ticker'' \<Longrightarrow> answers ''cryptodatadownload'' req k \<and> inside req k"
  by (auto simp: cd_record_def Let_def row_candle_answers row_candle_window split: if_splits sum.splits)

lemma cd_FetchCandles_rows:
  assumes "cd_FetchCandles env g req = Inr ks" "q_StartTime req < q_EndTime req"
  obtains content cs where "csv_loop (cd_record env req) content = Inr cs" "ks = cd_sort_candles env cs"
  using assms by (auto simp: cd_FetchCandles_def split: if_splits option.splits http_answer.splits sum.splits)

interpretation cdd: archive_source "\<lambda>(env, g). cdd_source env g" "\<lambda>(env, g). cdd_sorts env"
proof (unfold_locales, safe)
  fix env g req ks
  assume sorts: "cdd_sorts env" and run: "src_FetchCandles (cdd_source env g) req = Inr ks"
  then have supported: "cd_Supports (xc_now env 0) g req"
    by (cases "cd_Supports (xc_now env 0) g req") (simp_all add: cdd_source_def cd_FetchCandles_def)
  then have known: "q_Interval req \<in> intervals" "q_Interval req \<noteq> ''ticker''" by (auto simp: cd_Supports_def intervals_def)
  then show "q_Interval req \<in> intervals" by simp
  have "list_all (\<lambda>k. answers ''cryptodatadownload'' req k \<and> inside req k) ks"
  proof (cases "q_StartTime req < q_EndTime req")
    case True
    with run obtain content cs where rows: "csv_loop (cd_record env req) content = Inr cs" "ks = cd_sort_candles env cs"
      by (auto simp: cdd_source_def elim: cd_FetchCandles_rows)
    have "list_all (\<lambda>k. answers ''cryptodatadownload'' req k \<and> inside req k) cs"
      by (rule csv_loop_all [OF rows(1)]) (use cd_record_ok known(2) in auto)
    moreover have "set ks = set cs" using sorts rows(2) by (metis cdd_sorts_def slice_sort_def set_mset_mset)
    ultimately show ?thesis by (simp add: list_all_iff)
  qed (use run supported in \<open>simp add: cdd_source_def cd_FetchCandles_def\<close>)
  then show "list_all (answers (src_Name (cdd_source env g)) req) ks" "list_all (inside req) ks"
    by (simp_all add: cdd_source_def list_all_iff)
qed

section \<open>The registry of the application\<close>

lemma source_names [simp]:
  "src_Name (vision_source ve) = ''binancevision''" "src_Name (cdd_source de g) = ''cryptodatadownload''"
  "src_Name (binance_source be cd) = ''binance''" "src_Name (kraken_source ke c) = ''kraken''" "src_Name (gecko_source ge) = ''coingecko''"
  by (simp_all add: vision_source_def cdd_source_def binance_source_def kraken_source_def gecko_source_def)

lemma add_source_parts:
  "registrySources (add_source e v s ss) = registrySources ss @ (if e then [s] else [])"
  "validatorSources (add_source e v s ss) = validatorSources ss @ (if e \<and> v then [s] else [])"
  "enabledNames (add_source e v s ss) = enabledNames ss @ (if e then [src_Name s] else [])"
  by (simp_all add: add_source_def)

lemma enabled_Cons: "map snd (filter fst ((b, x) # xs)) = (if b then [x] else []) @ map snd (filter fst xs)"
  by simp

lemma buildSources_facts:
  "registrySources (buildSources cfg w) = map snd (filter fst [(EnableBinanceVision cfg, vision_source (cl_vision w)),
     (EnableCryptoDataDownload cfg, cdd_source (cl_cdd w) (fetchAvailabilityGraph (cl_cdd w))),
     (EnableBinance cfg, binance_source (fst (cl_binance w)) (snd (cl_binance w))),
     (EnableKraken cfg, kraken_source (fst (cl_kraken w)) (snd (cl_kraken w))), (EnableCoinGecko cfg, gecko_source (cl_gecko w))])"
  "validatorSources (buildSources cfg w) = map snd (filter fst [(EnableBinanceVision cfg, vision_source (cl_vision w)),
     (EnableBinance cfg, binance_source (fst (cl_binance w)) (snd (cl_binance w))),
     (EnableKraken cfg, kraken_source (fst (cl_kraken w)) (snd (cl_kraken w))), (EnableCoinGecko cfg, gecko_source (cl_gecko w))])"
  "enabledNames (buildSources cfg w) = map src_Name (registrySources (buildSources cfg w))"
  unfolding buildSources_def add_source_parts enabled_Cons by (simp_all del: source_names add: if_distrib [of "map src_Name"])

definition app_registry :: "source_flags \<Rightarrow> clients \<Rightarrow> Capability \<Rightarrow> Registry" where
  "app_registry cfg w cap = WithCapability (NewRegistry (map Some (registrySources (buildSources cfg w)))) cap"

lemma app_registry_sources: "reg_sources (app_registry cfg w cap) = registrySources (buildSources cfg w)" "requireCap (app_registry cfg w cap) = cap"
  by (simp_all add: app_registry_def WithCapability_def NewRegistry_def List.map_filter_def comp_def)

end
