(* ===== verification/Exchange_Safety.thy ===== *)
theory Exchange_Safety
  imports Exchange_Props
begin

text \<open>
  Results about the exchange clients in the program: what the executors get from the application's registry, that a rate limit
  silences a client, what Binance Vision makes of the archives of a window, and how the integrity check counts Binance's candles.
\<close>

section \<open>From the exchanges to the executors\<close>

lemma registry_sources_cases:
  assumes "s \<in> set (registrySources (buildSources cfg w))"
  obtains "s = vision_source (cl_vision w)" | "s = cdd_source (cl_cdd w) (fetchAvailabilityGraph (cl_cdd w))"
    | "s = binance_source (fst (cl_binance w)) (snd (cl_binance w))" | "s = kraken_source (fst (cl_kraken w)) (snd (cl_kraken w))"
    | "s = gecko_source (cl_gecko w)"
  using assms by (auto simp: buildSources_facts split: if_splits)

lemma source_capabilities [simp]:
  "src_Capabilities (vision_source ve) = CapHistorical" "src_Capabilities (cdd_source de g) = CapHistorical"
  "src_Capabilities (binance_source be cd) = CapHistorical OR CapRealtime" "src_Capabilities (kraken_source ke c) = CapHistorical OR CapRealtime"
  "src_Capabilities (gecko_source ge) = CapRealtime"
  by (simp_all add: vision_source_def cdd_source_def binance_source_def kraken_source_def gecko_source_def)

lemma needs_capability:
  "compatible r req s \<Longrightarrow> src_Capabilities s = CapRealtime \<Longrightarrow> requireCap r \<noteq> CapHistorical"
  "compatible r req s \<Longrightarrow> src_Capabilities s = CapHistorical \<Longrightarrow> requireCap r \<noteq> CapRealtime"
  by (auto simp: compatible_def CapHistorical_def CapRealtime_def)

text \<open>What the registry of the application delivers, by the name of the source that delivers it.\<close>

lemma app_registry_delivers:
  assumes "FetchCandles (app_registry cfg w cap) req = Inr ks" "cdd_sorts (cl_cdd w)"
  obtains name where "name \<in> set (enabledNames (buildSources cfg w))" "ks \<noteq> []" "list_all (answers name req) ks" "q_Interval req \<in> intervals"
    "cap = CapHistorical \<Longrightarrow> name \<noteq> ''coingecko''" "cap = CapRealtime \<Longrightarrow> name \<notin> {''binancevision'', ''cryptodatadownload''}"
    "q_Interval req \<noteq> ''ticker'' \<Longrightarrow> name \<notin> {''binance'', ''kraken''} \<Longrightarrow> list_all (inside req) ks"
proof -
  obtain s where s: "find (usable (app_registry cfg w cap) req) (reg_sources (app_registry cfg w cap)) = Some s"
      "s \<in> set (registrySources (buildSources cfg w))" "compatible (app_registry cfg w cap) req s" "ks \<noteq> []"
    using FetchCandles_source [OF assms(1)] by (metis app_registry_sources(1))
  note caps = needs_capability [OF s(3), unfolded app_registry_sources]
  have name: "src_Name s \<in> set (enabledNames (buildSources cfg w))" using s(2) by (simp add: buildSources_facts(3))
  note that = that [OF name s(4)]
  show thesis
    using s(2)
  proof (cases rule: registry_sources_cases)
    case 1
    note v = s(1) [unfolded 1]
    show thesis
      using that 1 caps vision.registry_answered [OF v TrueI assms(1)] vision.registry_windowed [OF v TrueI assms(1)] by simp
  next
    case 2
    let ?c = "(cl_cdd w, fetchAvailabilityGraph (cl_cdd w))"
    have v: "find (usable (app_registry cfg w cap) req) (reg_sources (app_registry cfg w cap)) = Some (case ?c of (env, g) \<Rightarrow> cdd_source env g)"
      "case ?c of (env, g) \<Rightarrow> cdd_sorts env" using s(1) 2 assms(2) by simp_all
    show thesis
      using that 2 caps cdd.registry_answered [OF v assms(1)] cdd.registry_windowed [OF v assms(1)] by simp
  next
    case 3
    have v: "find (usable (app_registry cfg w cap) req) (reg_sources (app_registry cfg w cap)) = Some (case cl_binance w of (env, cd) \<Rightarrow> binance_source env cd)"
      using s(1) 3 by (simp add: prod.case_eq_if)
    show thesis
      using that 3 binance.registry_answered [OF v TrueI assms(1)] by (simp add: prod.case_eq_if)
  next
    case 4
    have v: "find (usable (app_registry cfg w cap) req) (reg_sources (app_registry cfg w cap)) = Some (case cl_kraken w of (env, c) \<Rightarrow> kraken_source env c)"
      using s(1) 4 by (simp add: prod.case_eq_if)
    show thesis
      using that 4 kraken.registry_answered [OF v TrueI assms(1)] by (simp add: prod.case_eq_if)
  next
    case 5
    note v = s(1) [unfolded 5]
    show thesis
      using that 5 caps gecko.registry_answered [OF v TrueI assms(1)] gecko.registry_windowed [OF v TrueI assms(1)] by simp
  qed
qed


section \<open>Back-off\<close>

text \<open>
  A client that holds back: while the clock of a call has not reached the end of the back-off, the call sends nothing and leaves the
  client as it is. A session is a sequence of calls.
\<close>

locale back_off =
  fixes call :: "'e \<Rightarrow> 'c \<Rightarrow> Request \<Rightarrow> (string, Candle list) result \<times> 'c \<times> 'q list"
    and until :: "'c \<Rightarrow> gotime"
    and clock :: "'e \<Rightarrow> gotime"
  assumes quiet: "0 < until c \<Longrightarrow> clock e < until c \<Longrightarrow> snd (call e c req) = (c, [])"
begin

definition session :: "('e \<times> Request) list \<Rightarrow> 'c \<Rightarrow> 'c \<times> 'q list" where
  "session calls c = foldl (\<lambda>(c, sent) (e, req). case call e c req of (_, c', new) \<Rightarrow> (c', sent @ new)) (c, []) calls"

lemma quiet_session:
  assumes "0 < until c" "list_all (\<lambda>(e, req). clock e < until c) calls"
  shows "session calls c = (c, [])"
proof -
  have "foldl (\<lambda>(c, sent) (e, req). case call e c req of (_, c', new) \<Rightarrow> (c', sent @ new)) (c, sent) calls = (c, sent)" for sent
    using assms(2)
  proof (induction calls arbitrary: sent)
    case (Cons x calls)
    then obtain e req where "x = (e, req)" "snd (call e c req) = (c, [])" using quiet [OF assms(1)] by (cases x) auto
    with Cons show ?case by (cases "call e c req") simp
  qed simp
  then show ?thesis by (simp add: session_def)
qed

end

interpretation bn: back_off bn_FetchCandles "\<lambda>cd. cd" "\<lambda>env. xc_now env 1"
  by unfold_locales (simp add: bn_FetchCandles_def bn_fetchTicker_def bn_fetchOHLC_def bn_cooldownError_def)

interpretation kr: back_off kr_FetchCandles kc_cooldown "\<lambda>env. xc_now env 1"
  by unfold_locales (simp add: kr_FetchCandles_def kr_fetchTicker_def kr_fetchOHLC_def kr_cooldownError_def)

text \<open>
  \<^bold>\<open>C21\<close>. When Binance turns down the request for candles with status 429 or 418, the call fails and for the thirty seconds that
  follow no call of the client, whatever its request, sends anything.
\<close>

definition klines_answer :: "binance_env \<Rightarrow> Request \<Rightarrow> json_any list list http_answer" where
  "klines_answer env req =
     bn_klines env (bn_symbol req) (if q_Interval req = ''1h'' then ''1m'' else q_Interval req) (unix_milli (q_StartTime req)) (unix_milli (q_EndTime req))"


text \<open>The same for Kraken, whose limit also comes as an error in an answer with status 200.\<close>

lemma kraken_rate_limit_silences:
  assumes "kr_Supports (xc_now env 0) req" "q_Interval req \<noteq> ''ticker''" "kr_cooldownError env c = None"
    and "kr_resolvePairCode env c (q_Pair req) = (Inr code, c', sent)" "krakenInterval (q_Interval req) = Inr iv"
    and "kr_ohlc env code iv (unix (q_StartTime req)) = Response 200 (Inr p)" "kp_Error p = [''EAPI:Too many requests'']" "0 < xc_now env 6"
    and "list_all (\<lambda>(env', _). xc_now env' 1 < xc_now env 6 + 30 * Second) later"
  shows "isl (fst (kr_FetchCandles env c req)) \<and>
    kr.session later (fst (snd (kr_FetchCandles env c req))) = (fst (snd (kr_FetchCandles env c req)), [])"
proof -
  have limited: "contains_str ''EAPI:Too many requests'' ''Too many requests''" by code_simp
  have run: "isl (fst (kr_FetchCandles env c req))" "kc_cooldown (fst (snd (kr_FetchCandles env c req))) = xc_now env 6 + 30 * Second"
    using assms(1-7) limited
    by (simp_all add: kr_FetchCandles_def kr_fetchOHLC_def Let_def kr_failed_def kr_setCooldown_def prod.case_eq_if)
  moreover have "0 < xc_now env 6 + 30 * Second" using assms(8) by (simp add: Second_def)
  ultimately show ?thesis using kr.quiet_session [of "fst (snd (kr_FetchCandles env c req))" later] assms(9) by simp
qed

text \<open>A limit that the request for the volume of the day runs into starts the back-off, but the request for the candles still follows.\<close>

lemma limited_probe_not_honoured:
  assumes "bn_Supports (xc_now env 0) req" "q_Interval req \<noteq> ''ticker''" "bn_cooldownError env cd = None"
    and "xc_now env 2 - q_EndTime req < 2 * Hour" "bn_volume env (bn_symbol req) = Response 429 body" "klines_answer env req = Response 200 (Inr [])"
  shows "bn_FetchCandles env cd req = (Inr [], xc_now env 3 + 30 * Second,
    [BnTicker (bn_symbol req), BnKlines (bn_symbol req) (if q_Interval req = ''1h'' then ''1m'' else q_Interval req) (unix_milli (q_StartTime req)) (unix_milli (q_EndTime req))])"
  using assms
  by (simp add: bn_FetchCandles_def bn_fetchOHLC_def klines_answer_def Let_def bn_fetchNativeV24H_def bn_limited_def bn_setCooldown_def
      collect_rows_def List.map_filter_def)

text \<open>A pair that Kraken's map knows is never looked up again, however old the map is.\<close>

lemma known_pair_never_refreshed:
  "kr_lookup c (normalizeKrakenPair pair) = Some code \<Longrightarrow> kr_resolvePairCode env c pair = (Inr code, c, [])"
  by (simp add: kr_resolvePairCode_def)

section \<open>The archives of a window\<close>

lemma bv_days_distinct: "distinct (map k_Timestamp acc) \<Longrightarrow> distinct (map k_Timestamp (fst (bv_days env req day acc errs)))"
proof (induction env req day acc errs rule: bv_days.induct)
  case (1 env req day acc errs)
  then show ?case by (subst bv_days.simps) (auto simp: add_new_distinct split: sum.split archive_error.split)
qed

lemma bv_days_keeps: "k_Timestamp ` set acc \<subseteq> k_Timestamp ` set (fst (bv_days env req day acc errs))"
proof (induction env req day acc errs rule: bv_days.induct)
  case (1 env req day acc errs)
  have "k_Timestamp ` set acc \<subseteq> k_Timestamp ` set (add_new items acc)" for items by (auto simp: add_new_times)
  then show ?case using 1 by (subst bv_days.simps) (fastforce split: sum.split archive_error.split)
qed

lemma bv_days_complete:
  assumes "day + int i * Day < q_EndTime req" "bv_fetchDailyArchive env req (day + int i * Day) = Inr items" "k \<in> set items"
  shows "k_Timestamp k \<in> k_Timestamp ` set (fst (bv_days env req day acc errs))"
  using assms
proof (induction i arbitrary: day acc errs)
  case 0
  then have "k_Timestamp k \<in> k_Timestamp ` set (add_new items acc)" by (auto simp: add_new_times)
  with bv_days_keeps [of "add_new items acc" env req "day + Day" errs]
  have "k_Timestamp k \<in> k_Timestamp ` set (fst (bv_days env req (day + Day) (add_new items acc) errs))" by blast
  with 0 show ?case by (subst bv_days.simps) simp
next
  case (Suc i)
  have step: "day + int (Suc i) * Day = (day + Day) + int i * Day" by (simp add: algebra_simps)
  have "day < q_EndTime req" using Suc.prems(1) by (simp add: step Day_def Hour_def Minute_def Second_def)
  with Suc.IH [of "day + Day"] Suc.prems show ?case
    unfolding step by (subst bv_days.simps) (auto split: sum.split archive_error.split)
qed

text \<open>
  Binance Vision answers a window as soon as the archive of one of its days can be read: every time of that archive is in the
  answer, no time occurs twice, and the days whose archive is missing or broken are passed over.
\<close>

lemma vision_reads_archives:
  assumes "bv_Supports (xc_now env 0) req" "q_StartTime req < q_EndTime req" "dayStart (q_StartTime req) + int i * Day < q_EndTime req"
    and "bv_fetchDailyArchive env req (dayStart (q_StartTime req) + int i * Day) = Inr items" "k \<in> set items"
  shows "\<exists>ks. bv_FetchCandles env req = Inr ks \<and> k_Timestamp k \<in> k_Timestamp ` set ks \<and> distinct (map k_Timestamp ks)"
proof -
  let ?ks = "fst (bv_days env req (dayStart (q_StartTime req)) [] [])"
  have "k_Timestamp k \<in> k_Timestamp ` set ?ks" by (rule bv_days_complete [OF assms(3,4,5)])
  moreover from this have "bv_FetchCandles env req = Inr ?ks" using assms(1,2) by (auto simp: bv_FetchCandles_def prod.case_eq_if)
  ultimately show ?thesis using bv_days_distinct [of "[]"] by simp
qed

section \<open>The integrity check\<close>

lemma collect_expected_mono: "n \<le> snd (collect_sources req ss m n)"
proof (induction ss arbitrary: m n)
  case (Cons a ss)
  have "n \<le> snd (collect_sources req ss m' (max n l))" for m' l using Cons [of "max n l" m'] by simp
  with Cons show ?case by (simp split: sum.split)
qed simp

lemma collect_expected:
  "s \<in> set ss \<Longrightarrow> src_Supports s req \<Longrightarrow> src_FetchCandles s req = Inr cs \<Longrightarrow> length cs \<le> snd (collect_sources req ss m n)"
proof (induction ss arbitrary: m n)
  case (Cons a ss)
  have "length cs \<le> snd (collect_sources req ss m' (max n (length cs)))" for m'
    using collect_expected_mono [of "max n (length cs)" req ss m'] by simp
  with Cons show ?case by (auto split: sum.split)
qed simp

lemma collect_other: "k \<notin> src_Name ` set ss \<Longrightarrow> map_of (fst (collect_sources req ss m n)) k = map_of m k"
  by (induction ss arbitrary: m n) (auto simp: update_conv split: sum.split)

lemma collect_entry:
  "distinct (map src_Name ss) \<Longrightarrow> s \<in> set ss \<Longrightarrow> src_Supports s req \<Longrightarrow> src_FetchCandles s req = Inr cs \<Longrightarrow>
     map_of (fst (collect_sources req ss m n)) (src_Name s) = Some cs"
  by (induction ss arbitrary: m n) (auto simp: collect_other update_conv split: sum.split)

text \<open>Two sources that answer a day with different numbers of candles make a gap.\<close>

lemma uneven_sources_fail:
  assumes "ParsePairSymbol p = Inr bq" "distinct (map src_Name (v_sources v))" "minSources v \<le> 2"
    and "s \<in> set (v_sources v)" "src_Supports s (day_request p bq day)" "src_FetchCandles s (day_request p bq day) = Inr cs"
    and "t \<in> set (v_sources v)" "src_Supports t (day_request p bq day)" "src_FetchCandles t (day_request p bq day) = Inr ks"
    and "length ks < length cs"
  shows "0 < gapCount (verifyDay v p day) \<and> day_err (verifyDay v p day) \<noteq> None"
proof -
  let ?c = "collect_sources (day_request p bq day) (v_sources v) [] 0"
  have long: "length cs \<le> snd ?c" by (rule collect_expected [OF assms(4-6)])
  have ks: "map_of (fst ?c) (src_Name t) = Some ks" and cs: "map_of (fst ?c) (src_Name s) = Some cs"
    by (rule collect_entry [OF assms(2,7-9)], rule collect_entry [OF assms(2,4-6)])
  from map_of_SomeD [OF ks] long assms(10) have gap: "filter (\<lambda>(name, cs). length cs < snd ?c) (fst ?c) \<noteq> []"
    unfolding filter_empty_conv by fastforce
  have "src_Name s \<noteq> src_Name t" using ks cs assms(10) by auto
  then have two: "card {(src_Name s, cs), (src_Name t, ks)} = 2" by simp
  have "{(src_Name s, cs), (src_Name t, ks)} \<subseteq> set (fst ?c)" using map_of_SomeD [OF ks] map_of_SomeD [OF cs] by simp
  from card_mono [OF List.finite_set this] have "2 \<le> length (fst ?c)" using two card_length [of "fst ?c"] by linarith
  then have "\<not> int (length (fst ?c)) < minSources v" using assms(3) by linarith
  with assms(1) gap show ?thesis by (simp add: verifyDay_def day_request_def Let_def split_beta)
qed

text \<open>A row of klines that decodes: an opening time and five numbers.\<close>

definition good_row :: "binance_env \<Rightarrow> json_any list \<Rightarrow> bool" where
  "good_row env row \<longleftrightarrow> 6 \<le> length row \<and> \<not> isl (toInt64 (row ! 0)) \<and> \<not> isl (traverse (toFloat64 (xc_float env)) (take 5 (drop 1 row)))"

lemma bn_row_good: "good_row env row \<Longrightarrow> \<exists>k. bn_row env req native n (i, row) = Inr (Some k)"
  by (auto simp: good_row_def bn_row_def split: sum.split)

lemma bn_delivers_rows:
  assumes "bn_Supports (xc_now env 0) req" "q_Interval req \<noteq> ''ticker''" "bn_cooldownError env cd = None"
    and "klines_answer env req = Response 200 (Inr rows)" "list_all (good_row env) rows"
  shows "\<exists>ks. fst (bn_FetchCandles env cd req) = Inr ks \<and> length ks = length rows"
proof -
  have "\<exists>ks. collect_rows (bn_row env req native n) (enumerate 0 rows) = Inr ks \<and> length ks = length (enumerate 0 rows)" for native n
    by (rule collect_rows_total) (use assms(5) bn_row_good in \<open>auto simp: list_all_iff in_set_enumerate_eq\<close>)
  then show ?thesis
    using assms(1-4) by (simp add: bn_FetchCandles_def bn_fetchOHLC_def klines_answer_def Let_def bn_limited_def split_beta)
qed

text \<open>
  \<^bold>\<open>C22\<close>. The integrity check asks for the hours of a day, but Binance is asked for its minutes, which are counted as they come. So when
  Binance and Kraken both answer, Kraken with the hours of the day, the check finds a gap and the day fails, however good the data.
\<close>

theorem minutes_fail_integrity:
  assumes "ParsePairSymbol p = Inr bq" "v_sources v = validatorSources (buildSources cfg w)" "EnableBinance cfg" "EnableKraken cfg" "minSources v \<le> 2"
    and "req = day_request p bq day" "cl_binance w = (env, cd)" "cl_kraken w = (kenv, c)"
    and "bn_Supports (xc_asked env) req" "bn_Supports (xc_now env 0) req" "bn_cooldownError env cd = None"
    and "klines_answer env req = Response 200 (Inr rows)" "list_all (good_row env) rows" "24 < length rows"
    and "kr_Supports (xc_asked kenv) req" "fst (kr_FetchCandles kenv c req) = Inr ks" "length ks \<le> 24"
  shows "0 < gapCount (verifyDay v p day) \<and> day_err (verifyDay v p day) \<noteq> None"
proof -
  have iv: "q_Interval req \<noteq> ''ticker''" using assms(6) by (simp add: day_request_def)
  obtain bs where bs: "fst (bn_FetchCandles env cd req) = Inr bs" "length bs = length rows"
    using bn_delivers_rows [OF assms(10) iv assms(11-13)] by blast
  have names: "distinct (map src_Name (v_sources v))" unfolding assms(2) buildSources_facts by simp
  have mem: "binance_source env cd \<in> set (v_sources v)" "kraken_source kenv c \<in> set (v_sources v)"
    unfolding assms(2) buildSources_facts using assms(3,4,7,8) by simp_all
  show ?thesis
    by (rule uneven_sources_fail [OF assms(1) names assms(5) mem(1) _ _ mem(2), where cs = bs and ks = ks])
      (use assms(6,9,14-17) bs in \<open>simp_all add: binance_source_def kraken_source_def\<close>)
qed

section \<open>An instance\<close>

text \<open>Binance answers with minutes of one price, Kraken with nothing, the others do not answer.\<close>

definition demo_client :: client_env where
  "demo_client = \<lparr>xc_asked = 0, xc_now = (\<lambda>_. 0), xc_float = (\<lambda>_. Inr (Fin 1))\<rparr>"

definition demo_row :: "json_any list" where
  "demo_row = [ANum (Fin 60000), AStr ''1'', AStr ''1'', AStr ''1'', AStr ''1'', AStr ''1'']"

definition demo_binance :: "json_any list list http_answer \<Rightarrow> binance_env" where
  "demo_binance rows = client_env.extend demo_client (binance_env.fields (\<lambda>_. NoResponse ''down'') (\<lambda>_. NoResponse ''down'') (\<lambda>_ _ _ _. rows))"

definition demo_kraken :: kraken_env where
  "demo_kraken = client_env.extend demo_client (kraken_env.fields (\<lambda>_. NoResponse ''down'') (\<lambda>_. NoResponse ''down'')
     (\<lambda>_ _ _. Response 200 (Inr \<lparr>kp_Error = [], kp_Result = [(''XXBTZEUR'', Inr [])]\<rparr>)) (NoResponse ''down'') (\<lambda>ks. ks))"

definition demo_vision :: vision_env where
  "demo_vision = client_env.extend demo_client (vision_env.fields (\<lambda>_. NoResponse ''down''))"

definition demo_clients :: clients where
  "demo_clients = \<lparr>cl_vision = demo_vision,
     cl_cdd = client_env.extend demo_client (cdd_env.fields (NoResponse ''down'') (\<lambda>_. NoResponse ''down'') (\<lambda>_ _. None) (\<lambda>_. NoResponse ''down'')
       (\<lambda>es. es) (sort_key k_Timestamp)),
     cl_binance = (demo_binance (Response 200 (Inr (replicate 25 demo_row))), 0),
     cl_kraken = (demo_kraken, \<lparr>kc_pairMap = Some [(''BTCEUR'', ''XXBTZEUR'')], kc_cachedAt = 0, kc_cooldown = 0\<rparr>),
     cl_gecko = client_env.extend demo_client (gecko_env.fields (\<lambda>_ _. NoResponse ''down'') (\<lambda>_ _ _ _. NoResponse ''down''))\<rparr>"

definition demo_flags :: source_flags where
  "demo_flags = \<lparr>EnableBinanceVision = False, EnableCryptoDataDownload = False, EnableBinance = True, EnableKraken = True, EnableCoinGecko = False\<rparr>"

lemma demo_sorts: "cdd_sorts (cl_cdd demo_clients)"
  by (simp add: cdd_sorts_def demo_clients_def client_env.extend_def cdd_env.fields_def demo_client_def slice_sort_sort_key)

definition demo_task :: Task where
  "demo_task = new_task ''t'' TypeBackfill ''BTCEUR'' ''1h'' 0 (24 * Hour)"


definition demo_request :: Request where
  "demo_request = day_request ''BTCEUR'' (''BTC'', ''EUR'') 0"


theorem minutes_fail_integrity_witness:
  "let v = NewValidatorExecutor (map Some (validatorSources (buildSources demo_flags demo_clients))) 2 (Fin 2) 7
   in 0 < gapCount (verifyDay v ''BTCEUR'' 0) \<and> day_err (verifyDay v ''BTCEUR'' 0) \<noteq> None"
proof -
  let ?v = "NewValidatorExecutor (map Some (validatorSources (buildSources demo_flags demo_clients))) 2 (Fin 2) 7"
  let ?env = "demo_binance (Response 200 (Inr (replicate 25 demo_row)))"
  let ?c = "\<lparr>kc_pairMap = Some [(''BTCEUR'', ''XXBTZEUR'')], kc_cachedAt = 0, kc_cooldown = 0\<rparr>"
  have v: "v_sources ?v = validatorSources (buildSources demo_flags demo_clients)" "minSources ?v \<le> 2"
    by (simp_all add: NewValidatorExecutor_def List.map_filter_def comp_def)
  have p: "ParsePairSymbol ''BTCEUR'' = Inr (''BTC'', ''EUR'')" by code_simp
  have flags: "EnableBinance demo_flags" "EnableKraken demo_flags" by (simp_all add: demo_flags_def)
  have req: "demo_request = day_request ''BTCEUR'' (''BTC'', ''EUR'') 0" by (simp add: demo_request_def)
  have w: "cl_binance demo_clients = (?env, 0)" "cl_kraken demo_clients = (demo_kraken, ?c)" by (simp_all add: demo_clients_def)
  have b: "bn_Supports (xc_asked ?env) demo_request" "bn_Supports (xc_now ?env 0) demo_request" "bn_cooldownError ?env 0 = None"
    by code_simp+
  have rows: "klines_answer ?env demo_request = Response 200 (Inr (replicate 25 demo_row))" "list_all (good_row ?env) (replicate 25 demo_row)"
    "24 < length (replicate 25 demo_row)"
    by (simp add: klines_answer_def demo_binance_def demo_client_def client_env.extend_def binance_env.fields_def) code_simp+
  have k: "kr_Supports (xc_asked demo_kraken) demo_request" "fst (kr_FetchCandles demo_kraken ?c demo_request) = Inr []" "length ([] :: Candle list) \<le> 24"
    by code_simp+
  from minutes_fail_integrity [OF p v(1) flags v(2) req w b rows k] show ?thesis by (simp add: Let_def)
qed

end
