(* ===== verification/News.thy ===== *)
theory News
  imports Scheduler Sql Fan_Out Go_Strings
begin

text \<open>
  \<^verbatim>\<open>service/news.go\<close>, \<^verbatim>\<open>storage/postgres/news_repository.go\<close> and \<^verbatim>\<open>worker/news_executor.go\<close>: feeds are fetched,
  stored by identifier and announced to the streams. The answer of a feed, with the items its XML decodes to, and \<^verbatim>\<open>time.Parse\<close> are
  arguments. The column \<^verbatim>\<open>created_at\<close> of the table, which nothing reads, is left out.
\<close>

section \<open>The table\<close>

record News =
  n_ID :: string
  n_Title :: string
  n_Link :: string
  n_Source :: string
  n_PublishedAt :: gotime

definition news_set :: "News \<Rightarrow> News \<Rightarrow> News" where
  "news_set n r = r\<lparr>n_Title := n_Title n, n_Link := n_Link n, n_Source := n_Source n, n_PublishedAt := n_PublishedAt n\<rparr>"

definition put_news :: "News list \<Rightarrow> News list \<Rightarrow> News list" where
  "put_news items rs = fold (\<lambda>n. sql_upsert n_ID n (news_set n)) items rs"

text \<open>Call 0 opens the transaction, call \<open>i + 1\<close> inserts item \<open>i\<close>, the last one commits.\<close>

definition UpsertNews :: "db_outcome \<Rightarrow> News list \<Rightarrow> News list \<Rightarrow> (string, unit) result \<times> News list" where
  "UpsertNews dbo items rs =
     (case List.map_filter dbo [0..<length items + 2] of e # _ \<Rightarrow> (Inl e, rs) | [] \<Rightarrow> (Inr (), put_news items rs))"

definition ListNews :: "News sorting \<Rightarrow> string option \<Rightarrow> int \<Rightarrow> News list \<Rightarrow> (string, News list) result" where
  "ListNews srt err limit rs =
     (case err of Some e \<Rightarrow> Inl e | None \<Rightarrow> Inr (sql_page limit 0 (srt (\<lambda>n. (- n_PublishedAt n, 0, 0, 0)) rs)))"

section \<open>Feeds\<close>

record rssItem =
  Title :: string
  Link :: string
  PubDate :: string
  GUID :: string

text \<open>What a \<^verbatim>\<open>GET\<close> of a feed ends in: an error, or a status with the decoded body.\<close>

datatype feed_answer = NoAnswer string | Answered nat "(string, rssItem list) result"

record news_env =
  ne_get :: "string \<Rightarrow> feed_answer"
  ne_parse :: "string \<Rightarrow> string \<Rightarrow> gotime option"
  ne_now :: "nat \<Rightarrow> gotime"
  ne_db :: db_outcome

definition sourceURLMap :: "(string, string) gomap" where
  "sourceURLMap = [(''coindesk'', ''https://www.coindesk.com/arc/outboundfeeds/rss/''), (''cointelegraph'', ''https://cointelegraph.com/rss''),
     (''theblock'', ''https://www.theblock.co/rss.xml'')]"

definition rss_layouts :: "string list" where
  "rss_layouts = [''Mon, 02 Jan 2006 15:04:05 MST'', ''Mon, 02 Jan 2006 15:04:05 -0700'', ''Mon, 02 Jan 2006 15:04:05 -0700'',
     ''02 Jan 2006 15:04:05 -0700'', ''02 Jan 2006 15:04:05 MST'', ''2006-01-02T15:04:05Z07:00'']"

definition parseRSSDate :: "(string \<Rightarrow> string \<Rightarrow> gotime option) \<Rightarrow> string \<Rightarrow> (string, gotime) result" where
  "parseRSSDate parse d =
     (case List.map_filter (\<lambda>layout. parse layout d) rss_layouts of
        t # _ \<Rightarrow> Inr t
      | [] \<Rightarrow> Inl (''unknown date format: '' @ go_quote d))"

definition feed_source :: "string \<Rightarrow> string" where
  "feed_source url =
     (if contains_str url ''coindesk'' then ''CoinDesk'' else if contains_str url ''cointelegraph'' then ''Cointelegraph''
      else if contains_str url ''theblock'' then ''TheBlock'' else ''Source'')"

text \<open>An item without a date that can be read is dated now; \<open>now\<close> is the clock when its turn comes.\<close>

definition news_of_item :: "(string \<Rightarrow> string \<Rightarrow> gotime option) \<Rightarrow> string \<Rightarrow> gotime \<Rightarrow> rssItem \<Rightarrow> News" where
  "news_of_item parse source now item =
     \<lparr>n_ID = (if GUID item = [] then Link item else GUID item), n_Title = Title item, n_Link = Link item, n_Source = source,
      n_PublishedAt = (case parseRSSDate parse (PubDate item) of Inl e \<Rightarrow> now | Inr t \<Rightarrow> t)\<rparr>"

definition fetchRSS :: "news_env \<Rightarrow> string \<Rightarrow> (string, News list) result" where
  "fetchRSS env url =
     (case ne_get env url of
        NoAnswer e \<Rightarrow> Inl e
      | Answered status body \<Rightarrow>
          if status \<noteq> 200 then Inl (''bad status: '' @ show_nat status)
          else case body of
            Inl e \<Rightarrow> Inl e
          | Inr items \<Rightarrow> Inr (map (\<lambda>(i, item). news_of_item (ne_parse env) (feed_source url) (ne_now env i) item) (enumerate 0 items)))"

section \<open>The service\<close>

record NewsService =
  nw_rows :: "News list"
  nw_chs :: "nat list"
  nw_signal :: "nat \<Rightarrow> bool"
  nw_next :: nat

definition news_Subscribe :: "NewsService \<Rightarrow> nat \<times> NewsService" where
  "news_Subscribe s = (nw_next s, s\<lparr>nw_chs := nw_chs s @ [nw_next s], nw_signal := (nw_signal s)(nw_next s := False), nw_next := Suc (nw_next s)\<rparr>)"

definition news_Unsubscribe :: "nat \<Rightarrow> NewsService \<Rightarrow> NewsService" where
  "news_Unsubscribe a s = s\<lparr>nw_chs := remove1 a (nw_chs s)\<rparr>"

text \<open>A channel has room for one signal; the order in which they are visited does not matter.\<close>

definition news_notify :: "NewsService \<Rightarrow> NewsService" where
  "news_notify s = fold (\<lambda>a s. s\<lparr>nw_signal := (nw_signal s)(a := True)\<rparr>) (nw_chs s) s"

definition store_news :: "news_env \<Rightarrow> News list \<Rightarrow> NewsService \<Rightarrow> (string, unit) result \<times> NewsService" where
  "store_news env items s =
     (if items = [] then (Inr (), s)
      else case UpsertNews (ne_db env) items (nw_rows s) of
        (Inl e, rs) \<Rightarrow> (Inl e, s\<lparr>nw_rows := rs\<rparr>)
      | (Inr _, rs) \<Rightarrow> (Inr (), news_notify (s\<lparr>nw_rows := rs\<rparr>)))"

text \<open>\<open>sources\<close> are the URLs in the order in which the service was built.\<close>

definition FetchLatest :: "news_env \<Rightarrow> string list \<Rightarrow> NewsService \<Rightarrow> (string, unit) result \<times> NewsService" where
  "FetchLatest env sources s =
     store_news env (concat (map (\<lambda>url. case fetchRSS env url of Inl e \<Rightarrow> [] | Inr items \<Rightarrow> items) sources)) s"

definition FetchSource :: "news_env \<Rightarrow> string \<Rightarrow> NewsService \<Rightarrow> (string, unit) result \<times> NewsService" where
  "FetchSource env source s =
     (case map_of sourceURLMap source of
        None \<Rightarrow> (Inl (''unknown news source: '' @ go_quote source), s)
      | Some url \<Rightarrow>
          (case fetchRSS env url of
             Inl e \<Rightarrow> (Inl (''fetch '' @ source @ '': '' @ e), s)
           | Inr items \<Rightarrow> store_news env items s))"

definition news_List :: "News sorting \<Rightarrow> string option \<Rightarrow> int \<Rightarrow> NewsService \<Rightarrow> (string, News list) result" where
  "news_List srt err limit s = ListNews srt err (if limit \<le> 0 then 50 else limit) (nw_rows s)"

definition news_Execute :: "news_env \<Rightarrow> string list \<Rightarrow> Task \<Rightarrow> NewsService \<Rightarrow> (string, unit) result \<times> NewsService" where
  "news_Execute env sources item s =
     (if t_Type item \<noteq> TypeNewsFetch then (Inl (''news executor received unexpected task type '' @ go_quote (t_Type item)), s)
      else if t_Pair item = [] \<or> t_Pair item = ''*'' then FetchLatest env sources s
      else FetchSource env (t_Pair item) s)"

section \<open>Streams\<close>

lemma news_notify_facts:
  "nw_chs (news_notify s) = nw_chs s" "nw_next (news_notify s) = nw_next s" "nw_rows (news_notify s) = nw_rows s"
  "distinct (nw_chs s) \<Longrightarrow> nw_signal (news_notify s) a = (if a \<in> set (nw_chs s) then True else nw_signal s a)"
  unfolding news_notify_def by (rule fold_frame, simp)+ (rule fold_boxes, auto)

interpretation feed: fan_out nw_chs nw_next nw_signal False "\<lambda>_ _. True" "\<lambda>_. news_notify" news_Subscribe news_Unsubscribe
  by unfold_locales (simp_all add: news_notify_facts news_Subscribe_def news_Unsubscribe_def)

section \<open>What a fetch stores\<close>

lemma news_set_key [simp]: "n_ID (news_set n r) = n_ID r"
  by (simp add: news_set_def)

lemma news_set_same: "n_ID r = n_ID n \<Longrightarrow> news_set n r = n"
  by (simp add: news_set_def)

lemma put_one: "sql_row n_ID i (sql_upsert n_ID n (news_set n) rs) = (if i = n_ID n then Some n else sql_row n_ID i rs)"
  by (auto simp: sql_row_upsert news_set_same dest: sql_row_SomeD split: option.split)

lemma put_news_row: "sql_row n_ID i (put_news items rs) = (case find (\<lambda>n. n_ID n = i) (rev items) of Some n \<Rightarrow> Some n | None \<Rightarrow> sql_row n_ID i rs)"
  by (induction items arbitrary: rs) (simp_all add: put_news_def put_one find_append split: option.split)

lemma put_news_keys: "distinct (map n_ID rs) \<Longrightarrow> distinct (map n_ID (put_news items rs))"
  by (induction items arbitrary: rs) (simp_all add: put_news_def distinct_upsert)

lemma put_one_set: "set (sql_upsert n_ID n (news_set n) rs) \<subseteq> insert n (set rs)"
  by (auto simp: sql_upsert_def set_sql_update news_set_same)

lemma put_news_set: "set (put_news items rs) \<subseteq> set items \<union> set rs"
proof (induction items arbitrary: rs)
  case (Cons n items)
  have "set (put_news (n # items) rs) \<subseteq> set items \<union> set (sql_upsert n_ID n (news_set n) rs)"
    using Cons by (simp add: put_news_def)
  with put_one_set [of n rs] show ?case by auto
qed (simp add: put_news_def)

lemma UpsertNews_atomic:
  "fst (UpsertNews dbo items rs) = Inr () \<Longrightarrow> snd (UpsertNews dbo items rs) = put_news items rs"
  "fst (UpsertNews dbo items rs) \<noteq> Inr () \<Longrightarrow> snd (UpsertNews dbo items rs) = rs"
  by (auto simp: UpsertNews_def split: list.splits)

lemma store_news_cases:
  obtains "items = []" "store_news env items s = (Inr (), s)"
    | e where "store_news env items s = (Inl e, s)"
    | "items \<noteq> []" "store_news env items s = (Inr (), news_notify (s\<lparr>nw_rows := put_news items (nw_rows s)\<rparr>))"
  by (cases "items = []"; cases "List.map_filter (ne_db env) [0..<length items + 2]") (auto simp: store_news_def UpsertNews_def)

text \<open>
  A news task that the scheduler plans names a known feed. It either fails and then stores nothing and wakes nobody, or it stores, under
  every identifier of the feed, the last item that carries it, leaves all other news alone, keeps identifiers unique, and
  if there was an item wakes every stream.
\<close>

lemma news_task_stores_feed:
  assumes "item \<in> set (BuildNewsFetchTasks sch now)" "news_Execute env sources item s = (res, s')"
    and "distinct (map n_ID (nw_rows s))" "feed.subs_ok s"
  shows "\<exists>url. map_of sourceURLMap (t_Pair item) = Some url \<and>
    (case res of
       Inl e \<Rightarrow> s' = s
     | Inr _ \<Rightarrow> \<exists>items. fetchRSS env url = Inr items \<and>
         (\<forall>i. sql_row n_ID i (nw_rows s') = (case find (\<lambda>n. n_ID n = i) (rev items) of Some n \<Rightarrow> Some n | None \<Rightarrow> sql_row n_ID i (nw_rows s))) \<and>
         distinct (map n_ID (nw_rows s')) \<and> list_all (\<lambda>a. nw_signal s' a = (items \<noteq> [] \<or> nw_signal s a)) (nw_chs s))"
proof -
  have pair: "t_Pair (described (new_task a b c d e f)) = c" "t_Type (described (new_task a b c d e f)) = b" for a b c d e f
    by (simp_all add: described_def new_task_def)
  from assms(1) have known: "t_Type item = TypeNewsFetch" "t_Pair item \<in> {''coindesk'', ''cointelegraph'', ''theblock''}"
    by (auto simp: BuildNewsFetchTasks_def NewsSources_def Let_def pair)
  then obtain url where url: "map_of sourceURLMap (t_Pair item) = Some url" by (auto simp: sourceURLMap_def)
  from known assms(2) have run: "FetchSource env (t_Pair item) s = (res, s')" by (auto simp: news_Execute_def)
  show ?thesis
  proof (cases "fetchRSS env url")
    case (Inl e)
    with run url show ?thesis by (auto simp: FetchSource_def)
  next
    case (Inr items)
    with run url have store: "store_news env items s = (res, s')" by (simp add: FetchSource_def)
    have "distinct (nw_chs s)" using assms(4) by (simp add: feed.subs_ok_def)
    with store show ?thesis
      using url Inr assms(3)
      by (cases rule: store_news_cases [of items env s]) (auto simp: put_news_row put_news_keys news_notify_facts list_all_iff)
  qed
qed

definition demo_news_env :: news_env where
  "demo_news_env = \<lparr>ne_get = (\<lambda>_. Answered 200 (Inr [\<lparr>Title = ''a'', Link = ''l'', PubDate = ''d'', GUID = []\<rparr>])), ne_parse = (\<lambda>_ _. Some 7),
     ne_now = int, ne_db = no_errors\<rparr>"

text \<open>An item that is newer than everything else heads the list.\<close>

lemma newest_first:
  assumes "sql_order srt" "put_news items rs = rs'" "n \<in> set items" "n_PublishedAt n = now" "distinct (map n_ID items)"
    and "list_all (\<lambda>r. n_PublishedAt r < now) rs" "list_all (\<lambda>m. m = n \<or> n_PublishedAt m < now) items" "0 < limit"
  shows "\<exists>rest. ListNews srt None limit rs' = Inr (n # rest)"
proof -
  let ?key = "\<lambda>n :: News. (- n_PublishedAt n, 0 :: int, 0 :: int, 0 :: int)"
  have "distinct (map n_ID (rev items))" using assms(5) by (simp add: rev_map [symmetric])
  from sql_row_iff [OF this, of "n_ID n" n] have "find (\<lambda>m. n_ID m = n_ID n) (rev items) = Some n"
    using assms(3) unfolding sql_row_def by simp
  then have "sql_row n_ID (n_ID n) rs' = Some n" using assms(2) put_news_row [of "n_ID n" items rs] by simp
  from sql_row_SomeD [OF this] have mem: "n \<in> set (srt ?key rs')" using sql_orderD(1) [OF assms(1), of ?key rs'] by simp
  then obtain x xs where xs: "srt ?key rs' = x # xs" by (cases "srt ?key rs'") auto
  have "n_PublishedAt n \<le> n_PublishedAt x" using sql_orderD(3) [OF assms(1), of ?key rs'] mem unfolding xs by auto
  moreover have "x \<in> set rs'" using sql_orderD(1) [OF assms(1), of ?key rs'] xs by auto
  then have "x \<in> set items \<or> x \<in> set rs" using put_news_set [of items rs] assms(2) by blast
  ultimately have "x = n" using assms(4,6,7) by (fastforce simp: list_all_iff)
  then show ?thesis using xs assms(8) by (cases "nat limit") (auto simp: ListNews_def sql_page_def)
qed

text \<open>
  An item whose date cannot be read is dated anew by every fetch, so while the feed carries it, it heads the list however old it is.
\<close>

lemma undated_item_stays_on_top:
  assumes "map_of sourceURLMap source = Some url" "ne_get env url = Answered 200 (Inr [item])" "\<And>layout. ne_parse env layout (PubDate item) = None"
    and "ne_db env = no_errors" "list_all (\<lambda>r. n_PublishedAt r < ne_now env 0) (nw_rows s)" "sql_order srt" "0 < limit"
  shows "\<exists>n rest. n_Link n = Link item \<and> n_PublishedAt n = ne_now env 0 \<and> news_List srt None limit (snd (FetchSource env source s)) = Inr (n # rest)"
proof -
  let ?n = "news_of_item (ne_parse env) (feed_source url) (ne_now env 0) item"
  have n: "n_Link ?n = Link item" "n_PublishedAt ?n = ne_now env 0"
    using assms(3) by (simp_all add: news_of_item_def parseRSSDate_def List.map_filter_def)
  have "nw_rows (snd (FetchSource env source s)) = put_news [?n] (nw_rows s)"
    using assms(1,2,4) by (simp add: FetchSource_def fetchRSS_def store_news_def UpsertNews_def no_errors_def List.map_filter_def news_notify_facts)
  with n newest_first [OF assms(6) refl _ n(2), of "[?n]" "nw_rows s" limit] assms(5,7) show ?thesis
    by (auto simp: news_List_def)
qed

end
