(* ===== verification/Api_Router.thy ===== *)
theory Api_Router
  imports Portfolio_Handlers System_Service Catalog News
begin

text \<open>
  The rest of \<^verbatim>\<open>httpapi/router/router.go\<close>: the handlers that \<^verbatim>\<open>New\<close> declares in place for the market, system and news pages, the
  steps of their event streams, the helpers and the layer for cross-origin requests. A body of JSON is the value that is encoded; writing
  and logging are left out, and so are the OpenAPI text and its page.
\<close>

section \<open>Helpers\<close>

definition positiveInt :: "int \<Rightarrow> int \<Rightarrow> int" where
  "positiveInt v fallback = (if v \<le> 0 then fallback else v)"

text \<open>Multiplication of \<^verbatim>\<open>int\<close> wraps around.\<close>

definition int64 :: "int \<Rightarrow> int" where
  "int64 x = (x + 2 ^ 63) mod 2 ^ 64 - 2 ^ 63"

text \<open>
  The error of \<^verbatim>\<open>ParseInt\<close> is dropped, but not the value it returns with it: zero for text that is no number, the nearest bound for
  a number that does not fit.
\<close>

definition parse_int_value :: "string \<Rightarrow> int" where
  "parse_int_value s =
     (case atoi s of
        Some v \<Rightarrow> v
      | None \<Rightarrow>
          let (neg, ds) = (case s of [] \<Rightarrow> (False, []) | c # rest \<Rightarrow>
                if c = CHR ''-'' then (True, rest) else if c = CHR ''+'' then (False, rest) else (False, s))
          in if ds = [] \<or> \<not> list_all is_digit_char ds then 0 else if neg then - (2 ^ 63) else 2 ^ 63 - 1)"

definition parseUnix :: "string \<Rightarrow> gotime" where
  "parseUnix val = (if val = [] then 0 else from_unix (parse_int_value val))"

definition list_param :: "api_request \<Rightarrow> string \<Rightarrow> string list" where
  "list_param r name = (if rq_query r name = [] then [] else split_on (CHR '','') (rq_query r name))"

section \<open>Replies\<close>

record task_page =
  tp_upcoming :: "Task list \<times> nat"
  tp_upcomingLimit :: int
  tp_upcomingPage :: int
  tp_recent :: "Task list \<times> nat"
  tp_recentLimit :: int
  tp_recentPage :: int

datatype web_body =
    WText string
  | WHealth HealthStatus
  | WAssets "Asset list"
  | WPairs "Pair list"
  | WCandles "Candle list"
  | WTicker Ticker
  | WTickers "TickerWithSparkline list"
  | WConfig bool bool bool
  | WSync "PairSyncStatus list"
  | WNews "News list"
  | WWarnings "ActiveWarning list"
  | WTasks task_page
  | WNothing

type_synonym web_reply = "nat \<times> web_body"

definition writeError :: "string \<Rightarrow> web_reply" where
  "writeError e = (if e = Lease_Repo.ErrNoRows then (404, WText ''resource not found'') else (500, WText e))"

definition reply_with :: "('a \<Rightarrow> web_body) \<Rightarrow> (string, 'a) result \<Rightarrow> web_reply" where
  "reply_with f res = (case res of Inl e \<Rightarrow> writeError e | Inr x \<Rightarrow> (200, f x))"

text \<open>What the calls of a request meet; a page of tasks depends on the limit and the offset that are asked for.\<close>

record web_env =
  wb_db :: "string option"
  wb_kafka :: "string option"
  wb_now :: "nat \<Rightarrow> gotime"
  wb_catalog :: "string option"
  wb_latest :: "Candle list \<Rightarrow> Candle list"
  wb_candles :: "string option"
  wb_ticker :: "string \<Rightarrow> (string, Ticker) result"
  wb_sparklines :: "(string, TickerWithSparkline list option) result"
  wb_sync :: "(string, SyncRow list) result"
  wb_news_sort :: "News sorting"
  wb_news :: "string option"
  wb_warnings :: warn_env
  wb_dismiss :: "string option"
  wb_poll :: duration
  wb_clock :: "nat \<Rightarrow> nat \<Rightarrow> gotime"
  wb_upcoming :: "int \<Rightarrow> int \<Rightarrow> (string, Task list \<times> nat) result"
  wb_recent :: "int \<Rightarrow> int \<Rightarrow> string list \<Rightarrow> string list \<Rightarrow> (string, Task list \<times> nat) result"

record web_world =
  ww_catalog :: catalog_db
  ww_market_db :: market_db
  ww_market :: MarketService
  ww_news :: NewsService
  ww_dismissed :: "dismissed_row list"

section \<open>Handlers\<close>

definition h_historical :: "web_env \<Rightarrow> api_request \<Rightarrow> web_world \<Rightarrow> web_reply" where
  "h_historical env r w =
     (let pairSymbol = trim_prefix ''/api/v1/historical/'' (r_path r); interval = rq_query r ''interval''
      in if pairSymbol = [] \<or> interval = [] then (400, WText ''pair and interval are required'')
         else reply_with WCandles (Historical (wb_latest env) (wb_candles env) (wb_now env 0) pairSymbol interval
                (parseUnix (rq_query r ''start_time'')) (parseUnix (rq_query r ''end_time'')) (ww_market_db w)))"

definition h_ticker :: "web_env \<Rightarrow> api_request \<Rightarrow> web_world \<Rightarrow> web_reply \<times> web_world" where
  "h_ticker env r w =
     (let pairSymbol = trim_prefix ''/api/v1/ticker/'' (r_path r)
      in if pairSymbol = [] then ((400, WText ''pair is required''), w)
         else case svc_Ticker (wb_ticker env) pairSymbol (ww_market w) of (res, s) \<Rightarrow> (reply_with WTicker res, w\<lparr>ww_market := s\<rparr>))"

definition h_tickers :: "web_env \<Rightarrow> web_world \<Rightarrow> web_reply \<times> web_world" where
  "h_tickers env w =
     (case svc_TickersWithSparklines (wb_sparklines env) (wb_now env 0) (wb_now env 1) (ww_market w) of
        (res, s) \<Rightarrow> (reply_with (\<lambda>items. WTickers (case items of None \<Rightarrow> [] | Some ts \<Rightarrow> ts)) res, w\<lparr>ww_market := s\<rparr>))"

definition h_config :: "Service option \<Rightarrow> web_reply" where
  "h_config svc = (200, case svc of None \<Rightarrow> WConfig False False False | Some s \<Rightarrow> (case AuthMethods s of (google, loc) \<Rightarrow> WConfig True google loc))"

definition h_news :: "web_env \<Rightarrow> api_request \<Rightarrow> web_world \<Rightarrow> web_reply" where
  "h_news env r w = reply_with WNews (news_List (wb_news_sort env) (wb_news env) (getIntQueryParam r ''limit'' 50) (ww_news w))"

definition h_warnings :: "web_env \<Rightarrow> api_request \<Rightarrow> web_world \<Rightarrow> web_reply \<times> web_world" where
  "h_warnings env r w =
     (if rq_method r = ''GET'' then (reply_with WWarnings (ActiveWarnings (wb_warnings env) (ww_dismissed w)), w)
      else if rq_method r = ''POST'' then
        (case rq_dismissal r of
           None \<Rightarrow> ((400, WText ''invalid warning dismiss payload''), w)
         | Some (i, fp) \<Rightarrow>
             if i = [] \<or> fp = [] then ((400, WText ''id and fingerprint are required''), w)
             else case DismissWarning (we_has_store (wb_warnings env)) (wb_dismiss env) (wb_now env 0) i fp (ww_dismissed w) of
               (Inl e, rs) \<Rightarrow> (writeError e, w\<lparr>ww_dismissed := rs\<rparr>)
             | (Inr _, rs) \<Rightarrow> ((204, WNothing), w\<lparr>ww_dismissed := rs\<rparr>))
      else ((405, WText ''method not allowed''), w))"

text \<open>Limits and pages fall back to the common parameters, and these to 50 and 1.\<close>

definition limit_param :: "api_request \<Rightarrow> string \<Rightarrow> int" where
  "limit_param r name =
     (let d = positiveInt (getIntQueryParam r ''limit'' 50) 50 in positiveInt (getIntQueryParam r name d) d)"

definition page_param :: "api_request \<Rightarrow> string \<Rightarrow> int" where
  "page_param r name =
     (let d = positiveInt (getIntQueryParam r ''page'' 1) 1 in positiveInt (getIntQueryParam r name d) d)"

definition page_offset :: "int \<Rightarrow> int \<Rightarrow> int" where
  "page_offset page limit = int64 ((page - 1) * limit)"

definition h_tasks :: "web_env \<Rightarrow> api_request \<Rightarrow> web_reply" where
  "h_tasks env r =
     (let upLimit = limit_param r ''upcoming_limit''; recLimit = limit_param r ''recent_limit'';
          upPage = page_param r ''upcoming_page''; recPage = page_param r ''recent_page'';
          upOffset = page_offset upPage upLimit; recOffset = page_offset recPage recLimit
      in case sys_UpcomingTasks (wb_poll env) (wb_now env 0) (wb_clock env) (wb_upcoming env upLimit upOffset) (wb_sync env) upLimit upOffset of
           Inl e \<Rightarrow> writeError e
         | Inr upcoming \<Rightarrow>
             (case sys_RecentTasks (wb_poll env) (wb_recent env recLimit recOffset (list_param r ''type'') (list_param r ''status'')) of
                Inl e \<Rightarrow> writeError e
              | Inr recent \<Rightarrow>
                  (200, WTasks \<lparr>tp_upcoming = upcoming, tp_upcomingLimit = upLimit, tp_upcomingPage = upPage,
                     tp_recent = recent, tp_recentLimit = recLimit, tp_recentPage = recPage\<rparr>)))"

text \<open>The routes that are always registered; \<open>None\<close> when no pattern matches. Streams are below.\<close>

definition web_mux :: "web_env \<Rightarrow> Service option \<Rightarrow> api_request \<Rightarrow> web_world \<Rightarrow> (web_reply \<times> web_world) option" where
  "web_mux env svc r w =
     (let path = r_path r in
      if path = ''/api/v1/health'' then Some ((200, WHealth (Health (wb_db env) (wb_kafka env) (wb_now env 0))), w)
      else if path = ''/api/v1/assets'' then Some (reply_with WAssets (ListAssets (wb_catalog env) (ww_catalog w)), w)
      else if path = ''/api/v1/pairs'' then Some (reply_with WPairs (ListPairs (wb_catalog env) (ww_catalog w)), w)
      else if prefix ''/api/v1/historical/'' path then Some (h_historical env r w, w)
      else if prefix ''/api/v1/ticker/'' path then Some (h_ticker env r w)
      else if path = ''/api/v1/tickers'' then Some (h_tickers env w)
      else if path = ''/api/v1/config'' then Some (h_config svc, w)
      else if path = ''/api/v1/system/sync-status'' then Some (reply_with WSync (SyncSnapshot (wb_sync env)), w)
      else if path = ''/api/v1/news'' then Some (h_news env r w, w)
      else if path = ''/api/v1/system/warnings'' then Some (h_warnings env r w)
      else if path = ''/api/v1/system/tasks'' then Some (h_tasks env r, w)
      else None)"

section \<open>Event streams\<close>

text \<open>Two tickers are equal when their fields are, as \<^verbatim>\<open>==\<close> compares them.\<close>

definition ticker_eq :: "Ticker \<Rightarrow> Ticker \<Rightarrow> bool" where
  "ticker_eq a b \<longleftrightarrow>
     tk_Pair a = tk_Pair b \<and> feq (tk_Price a) (tk_Price b) \<and> feq (tk_MarketCap a) (tk_MarketCap b) \<and>
     feq (tk_Variation1H a) (tk_Variation1H b) \<and> feq (tk_Variation24H a) (tk_Variation24H b) \<and> feq (tk_Variation7D a) (tk_Variation7D b) \<and>
     feq (tk_Volume24H a) (tk_Volume24H b) \<and> feq (tk_High24H a) (tk_High24H b) \<and> feq (tk_Low24H a) (tk_Low24H b) \<and>
     tk_LastUpdateUnix a = tk_LastUpdateUnix b \<and> tk_Source a = tk_Source b"

text \<open>The loop over the drained pairs: the items to send, what was last sent per pair, the service.\<close>

fun stream_items ::
    "(string \<Rightarrow> (string, Ticker) result) \<Rightarrow> string \<Rightarrow> string list \<Rightarrow> Ticker list \<times> (string, Ticker) gomap \<times> MarketService \<Rightarrow>
       Ticker list \<times> (string, Ticker) gomap \<times> MarketService" where
  "stream_items repo quote [] st = st"
| "stream_items repo quote (p # ps) (items, sent, s) =
     (if quote \<noteq> [] \<and> \<not> suffix quote p then stream_items repo quote ps (items, sent, s)
      else case svc_Ticker repo p s of
        (Inl e, s') \<Rightarrow> stream_items repo quote ps (items, sent, s')
      | (Inr item, s') \<Rightarrow>
          if (case map_of sent p of None \<Rightarrow> False | Some prev \<Rightarrow> ticker_eq prev item) then stream_items repo quote ps (items, sent, s')
          else stream_items repo quote ps (items @ [item], gm_put p item sent, s'))"

text \<open>A wake-up of the ticker stream of subscription \<open>a\<close>, after its signal was taken; no event when there is nothing to send.\<close>

definition ticker_stream ::
    "(string \<Rightarrow> (string, Ticker) result) \<Rightarrow> string \<Rightarrow> nat \<Rightarrow> (string, Ticker) gomap \<Rightarrow> MarketService \<Rightarrow>
       Ticker list \<times> (string, Ticker) gomap \<times> MarketService" where
  "ticker_stream repo q a sent s =
     (case DrainPendingPairs (sub_at s a) of
        (pairs, m) \<Rightarrow> stream_items repo (map ascii_upper q) pairs ([], sent, s\<lparr>sub_at := (sub_at s)(a := m)\<rparr>))"

text \<open>The news stream sends the list when it opens and after every signal; an error leaves it empty.\<close>

definition news_event :: "News sorting \<Rightarrow> string option \<Rightarrow> NewsService \<Rightarrow> News list" where
  "news_event srt err s = (case news_List srt err 50 s of Inl e \<Rightarrow> [] | Inr items \<Rightarrow> items)"

definition task_event :: "web_env \<Rightarrow> api_request \<Rightarrow> TaskStreamSnapshot" where
  "task_event env r =
     (let upLimit = limit_param r ''upcoming_limit''; recLimit = limit_param r ''recent_limit''
      in buildStreamSnapshot
           (sys_UpcomingTasks (wb_poll env) (wb_now env 0) (wb_clock env) (wb_upcoming env upLimit 0) (wb_sync env) upLimit 0)
           (sys_RecentTasks (wb_poll env) (wb_recent env recLimit 0 (list_param r ''type'') (list_param r ''status'')))
           (SyncSnapshot (wb_sync env)))"

section \<open>Cross-origin requests\<close>

definition allow_methods :: "string list" where
  "allow_methods = [''GET'', ''POST'', ''PATCH'', ''DELETE'', ''OPTIONS'']"

definition allow_headers :: "string list" where
  "allow_headers = [''Content-Type'', ''Authorization'']"

text \<open>The origin that is allowed, with the lists above and credentials; and the status when the layer answers itself.\<close>

definition withCORS :: "string list \<Rightarrow> api_request \<Rightarrow> string option \<times> nat option" where
  "withCORS allowedOrigins r =
     (let allowed = list_ex (\<lambda>ori. ori = ''*'' \<or> ori = rq_origin r) allowedOrigins
      in (if allowed then Some (rq_origin r) else None,
          if rq_method r = ''OPTIONS'' then Some (if allowed then 204 else 403) else None))"

end
