(* ===== verification/Api_Safety.thy ===== *)
theory Api_Safety
  imports Api_Router
begin

text \<open>
  Results about whole requests: through the middleware to the portfolio, the ticker stream, and what the handlers of
  \<^verbatim>\<open>Api_Router\<close> make of their parameters.
\<close>

section \<open>From the wire to the tables\<close>

datatype api_outcome = Refused nat string | Handled reply

text \<open>The chain of \<^verbatim>\<open>router.New\<close> in front of the portfolio routes. The context of the request is what the middleware leaves there.\<close>

definition portfolio_api ::
    "net_env \<Rightarrow> auth_env \<Rightarrow> db_outcome \<Rightarrow> (nat \<Rightarrow> gotime) \<Rightarrow> stack \<Rightarrow> string list \<Rightarrow> api_env \<Rightarrow> PortfolioHandler \<Rightarrow> api_request \<Rightarrow>
       http_state \<times> api_world \<Rightarrow> api_outcome \<times> http_state \<times> api_world" where
  "portfolio_api net env dbo clock k origins aenv h r sw =
     (case sw of (st, w) \<Rightarrow>
        case snd (withCORS origins r) of
          Some code \<Rightarrow> (Refused code [], st, w)
        | None \<Rightarrow>
            (case serve net env dbo clock k (http_request.truncate r) st of
               (Responded code msg, st') \<Rightarrow> (Refused code msg, st', w)
             | (Served r', st') \<Rightarrow>
                 (case portfolio_mux aenv h (http_request.extend r' (http_request.more r)) w of (rep, w') \<Rightarrow> (Handled rep, st', w'))))"

lemma portfolio_not_public: "prefix ''/api/v1/portfolio/'' path \<Longrightarrow> \<not> isPublic path"
  by (auto simp: isPublic_def publicPaths_def publicPrefixes_def prefix_def)

text \<open>A request that the chain lets through was authenticated by an API token, and says so, or by an access token.\<close>

lemma auth_served_context:
  "fst (auth_Wrap env (Some svc) (ratelimit_Wrap net dbo clock lm mux) r st) = Served r' \<Longrightarrow> \<not> isPublic (r_path r) \<Longrightarrow> ctx_claims r \<noteq> None \<Longrightarrow>
     ctx_method r \<noteq> None \<Longrightarrow> r' = r"
  by (auto simp: auth_Wrap_def admin_check_def dest!: ratelimit_Served split: if_splits)

lemma auth_served_jwt:
  assumes "fst (auth_Wrap env (Some svc) (ratelimit_Wrap net dbo clock lm mux) r st) = Served r'" "\<not> isPublic (r_path r)" "ctx_claims r = None"
  defines "tok \<equiv> if extractBearerToken r = [] then r_query_token r else extractBearerToken r"
  shows "\<exists>claims. ValidateAccessToken env tok (JWTSecret (cfg svc)) = Inr claims \<and> ctx_claims r' = Some claims"
proof (cases "ValidateAccessToken env tok (JWTSecret (cfg svc))")
  case (Inl e)
  with assms show ?thesis by (cases "tok = []") (simp_all add: auth_Wrap_def Let_def)
next
  case (Inr claims)
  have "tok \<noteq> []" using assms by (cases "tok = []") (simp_all add: auth_Wrap_def Let_def)
  with Inr assms have "fst (admin_check r claims (ratelimit_Wrap net dbo clock lm mux) (r\<lparr>ctx_claims := Some claims, ctx_method := Some ''jwt''\<rparr>) st) = Served r'"
    by (simp add: auth_Wrap_def Let_def)
  then have "r' = r\<lparr>ctx_claims := Some claims, ctx_method := Some ''jwt''\<rparr>"
    by (auto simp: admin_check_def dest: ratelimit_Served split: if_splits)
  with Inr show ?thesis by simp
qed

lemma served_by_token:
  assumes "st_auth k = Some svc" "ctx_claims r = None" "\<not> isPublic (r_path r)" "fst (serve net env dbo clock k r st) = Served r'"
  shows "ctx_method r' = Some ''api_token'' \<or>
    (\<exists>tok claims. tok \<in> {extractBearerToken r, r_query_token r} \<and> ValidateAccessToken env tok (JWTSecret (cfg svc)) = Inr claims \<and>
       ctx_claims r' = Some claims)"
proof -
  let ?r = "realip_Wrap net (st_realip k) r"
  let ?next = "auth_Wrap env (Some svc) (ratelimit_Wrap net dbo clock (st_limiter k) mux)"
  have pub: "\<not> isPublic (r_path ?r)" "ctx_claims ?r = None" using assms(2,3) by simp_all
  have run: "fst (apitoken_Wrap env (st_tokens k) ?next ?r st) = Served r'" using assms(1,4) by (simp add: serve_def)
  show ?thesis
  proof (cases "fst (?next ?r st) = Served r'")
    case True
    show ?thesis using auth_served_jwt [OF True pub] by (auto split: if_splits)
  next
    case False
    with run pub obtain token u where "ValidateToken env (extractAPIToken ?r) (auth st) = Inr (token, u)"
        "fst (?next (?r\<lparr>ctx_claims := Some (api_claims env u), ctx_method := Some ''api_token''\<rparr>) (st\<lparr>auth := TouchLastUsed env (t_ID token) (auth st)\<rparr>)) = Served r'"
      by (auto simp: apitoken_Wrap_def Let_def split: if_splits sum.splits prod.splits)
    from auth_served_context [OF this(2)] pub show ?thesis by simp
  qed
qed

text \<open>
  \<^bold>\<open>C18\<close>. Through the whole chain of the API, with authentication configured, a request below \<^verbatim>\<open>/api/v1/portfolio/\<close> changes something only if it
  carries, as a bearer token or in the query, an access token that the secret of the service validates and whose subject is a user; and
  what it changes belongs to that user.
\<close>

theorem portfolio_changes_need_login:
  assumes "st_auth k = Some svc" "ctx_claims r = None" "prefix ''/api/v1/portfolio/'' (r_path r)" "ids_ok (aw_port w)"
    and "portfolio_api net env dbo clock k origins aenv h r (st, w) = (out, st', w')" "w' \<noteq> w"
  shows "\<exists>tok claims u. tok \<in> {extractBearerToken (http_request.truncate r), r_query_token r} \<and>
    ValidateAccessToken env tok (JWTSecret (cfg svc)) = Inr claims \<and> ae_uuid aenv (c_Sub claims) = Some u \<and> api_isolated u w w'"
proof -
  obtain r' where served: "fst (serve net env dbo clock k (http_request.truncate r) st) = Served r'"
      and run: "w' = snd (portfolio_mux aenv h (http_request.extend r' (http_request.more r)) w)"
    using assms(5,6) by (auto simp: portfolio_api_def split: option.splits prod.splits http_outcome.splits)
  let ?r = "http_request.extend r' (http_request.more r)"
  have trunc: "ctx_claims (http_request.truncate r) = None" "r_path (http_request.truncate r) = r_path r"
      "r_query_token (http_request.truncate r) = r_query_token r"
    using assms(2) by (simp_all add: http_request.truncate_def)
  have ctx: "ctx_claims ?r = ctx_claims r'" "ctx_method ?r = ctx_method r'" by (simp_all add: http_request.extend_def)
  obtain u where u: "requester aenv ?r = Some u"
    using mux_refused [of aenv ?r w h] assms(6) run by (cases "requester aenv ?r") (auto simp: refused_def)
  with ctx have "ctx_method r' \<noteq> Some ''api_token''" by (auto simp: requester_def)
  with served_by_token [OF assms(1) trunc(1) _ served] portfolio_not_public [OF assms(3)] trunc(2,3)
  obtain tok claims where tok: "tok \<in> {extractBearerToken (http_request.truncate r), r_query_token r}"
      "ValidateAccessToken env tok (JWTSecret (cfg svc)) = Inr claims" "ctx_claims r' = Some claims" by auto
  have "ae_uuid aenv (c_Sub claims) = Some u" using u tok(3) ctx by (auto simp: requester_def split: if_splits)
  with tok mux_isolated [OF u assms(4)] run show ?thesis by blast
qed

definition demo_delete :: api_request where
  "demo_delete = (api_demo_request [] ''DELETE'' ''/api/v1/portfolio/holdings/h1'')\<lparr>r_authorization := ''bearer t1'', ctx_claims := None, ctx_method := None\<rparr>"

definition demo_owner_world :: api_world where
  "demo_owner_world = api_demo_world\<lparr>aw_port := demo_port\<lparr>holdings := [demo_holding ''1'' ''BTC'' []]\<rparr>\<rparr>"

abbreviation demo_call :: "api_outcome \<times> http_state \<times> api_world" where
  "demo_call \<equiv> portfolio_api sample_net sample_jwt_env no_errors (\<lambda>_. 0) sample_stack [] api_demo_env api_demo_handler demo_delete (sample_http_state, demo_owner_world)"

theorem portfolio_changes_need_login_witness:
  "\<exists>tok claims u. ValidateAccessToken sample_jwt_env tok (JWTSecret (cfg sample_service)) = Inr claims \<and>
     api_isolated u demo_owner_world (snd (snd demo_call)) \<and> holdings (aw_port (snd (snd demo_call))) = []"
proof -
  have gone: "holdings (aw_port (snd (snd demo_call))) = []" by code_simp
  have "holdings (aw_port demo_owner_world) \<noteq> []" by (simp add: demo_owner_world_def)
  with gone have changed: "snd (snd demo_call) \<noteq> demo_owner_world" by metis
  have k: "st_auth sample_stack = Some sample_service" by (simp add: sample_stack_def)
  have r: "ctx_claims demo_delete = None" "prefix ''/api/v1/portfolio/'' (r_path demo_delete)" by (simp_all add: demo_delete_def api_demo_request_def)
  have ids: "ids_ok (aw_port demo_owner_world)"
    by (simp add: ids_ok_def demo_owner_world_def api_demo_world_def demo_port_def demo_cred_def demo_holding_def)
  have "demo_call = (fst demo_call, fst (snd demo_call), snd (snd demo_call))" by simp
  from portfolio_changes_need_login [OF k r ids this changed] gone show ?thesis by blast
qed

section \<open>The ticker stream\<close>

lemma ticker_eq_same: "ticker_eq a b \<Longrightarrow> a = b"
proof -
  have "feq x y \<Longrightarrow> x = y" for x y by (cases x) auto
  then show "ticker_eq a b \<Longrightarrow> a = b" by (cases a, cases b) (auto simp: ticker_eq_def)
qed

definition cache_ok :: "(string \<Rightarrow> (string, Ticker) result) \<Rightarrow> MarketService \<Rightarrow> bool" where
  "cache_ok repo s \<longleftrightarrow> (\<forall>p t. map_of (tickerCache s) p = Some t \<longrightarrow> repo p = Inr t)"

lemma svc_Ticker_fresh:
  assumes "cache_ok repo s" "repo p = Inr t"
  shows "fst (svc_Ticker repo p s) = Inr t" "cache_ok repo (snd (svc_Ticker repo p s))"
  using assms by (auto simp: cache_ok_def svc_Ticker_def split: option.splits dest: ticker_store_cache(1))

text \<open>What a browser knows that applies the events in order.\<close>

definition client_view :: "Ticker list \<Rightarrow> (string \<rightharpoonup> Ticker) \<Rightarrow> (string \<rightharpoonup> Ticker)" where
  "client_view items v = fold (\<lambda>t v. v(tk_Pair t \<mapsto> t)) items v"

lemma client_view_append: "client_view (xs @ ys) v = client_view ys (client_view xs v)"
  by (simp add: client_view_def)

definition wanted :: "string \<Rightarrow> string \<Rightarrow> bool" where
  "wanted quote p \<longleftrightarrow> quote = [] \<or> suffix quote p"

lemma stream_items_current:
  assumes "cache_ok repo s" "\<And>p. p \<in> set ps \<Longrightarrow> wanted quote p \<Longrightarrow> repo p = Inr (val p) \<and> tk_Pair (val p) = p"
    and "client_view items v0 = map_of sent" "stream_items repo quote ps (items, sent, s) = (items', sent', s')"
  shows "map_of sent' = (\<lambda>p. if p \<in> set ps \<and> wanted quote p then Some (val p) else map_of sent p) \<and> client_view items' v0 = map_of sent' \<and>
    cache_ok repo s'"
  using assms
proof (induction ps arbitrary: items sent s)
  case (Cons p ps)
  show ?case
  proof (cases "wanted quote p")
    case False
    then have "stream_items repo quote ps (items, sent, s) = (items', sent', s')" using Cons.prems(4) by (simp add: wanted_def)
    from Cons.IH [OF Cons.prems(1) _ Cons.prems(3) this] Cons.prems(2) False show ?thesis by (auto simp: fun_eq_iff)
  next
    case True
    then have filt: "\<not> (quote \<noteq> [] \<and> \<not> suffix quote p)" by (auto simp: wanted_def)
    from True Cons.prems(2) have val: "repo p = Inr (val p)" "tk_Pair (val p) = p" by simp_all
    obtain s1 where s1: "svc_Ticker repo p s = (Inr (val p), s1)" "cache_ok repo s1"
      using svc_Ticker_fresh [OF Cons.prems(1) val(1)] by (cases "svc_Ticker repo p s") auto
    show ?thesis
    proof (cases "case map_of sent p of None \<Rightarrow> False | Some prev \<Rightarrow> ticker_eq prev (val p)")
      case True': True
      then have "map_of sent p = Some (val p)" by (auto split: option.splits dest: ticker_eq_same)
      moreover have "stream_items repo quote ps (items, sent, s1) = (items', sent', s')"
        using Cons.prems(4) True' s1 unfolding stream_items.simps if_not_P [OF filt] by simp
      ultimately show ?thesis using Cons.IH [OF s1(2) _ Cons.prems(3)] Cons.prems(2) True by (auto simp: fun_eq_iff)
    next
      case False
      then have next_step: "stream_items repo quote ps (items @ [val p], gm_put p (val p) sent, s1) = (items', sent', s')"
        using Cons.prems(4) s1 unfolding stream_items.simps if_not_P [OF filt] by simp
      have "client_view (items @ [val p]) v0 = map_of (gm_put p (val p) sent)"
        using Cons.prems(3) val(2) by (simp add: client_view_append client_view_def update_conv')
      from Cons.IH [OF s1(2) _ this next_step] Cons.prems(2) True show ?thesis by (auto simp: fun_eq_iff update_conv)
    qed
  qed
qed simp



text \<open>A pair that cannot be loaded is no longer pending: the stream learns of it with the next update only.\<close>

lemma failed_load_dropped:
  assumes "ms_pending (sub_at s a) = [p]" "wanted (map ascii_upper q) p" "map_of (tickerCache s) p = None" "repo p = Inl e"
  shows "fst (ticker_stream repo q a sent s) = [] \<and> ms_pending (sub_at (snd (snd (ticker_stream repo q a sent s))) a) = []"
  using assms by (auto simp: ticker_stream_def DrainPendingPairs_def svc_Ticker_def wanted_def)

section \<open>Parameters\<close>

text \<open>
  \<^verbatim>\<open>docs/api.md\<close> asks for candles with \<^verbatim>\<open>start_time=2025-01-01T00:00:00Z\<close>. The handler reads seconds, takes this for zero and returns the
  candles from 1970 on.
\<close>

lemma documented_start_ignored:
  assumes "rq_query r ''start_time'' = ''2025-01-01T00:00:00Z''" "rq_query r' ''start_time'' = ''0''" "r_path r' = r_path r"
    and "\<And>name. name \<noteq> ''start_time'' \<Longrightarrow> rq_query r' name = rq_query r name"
  shows "h_historical env r w = h_historical env r' w"
proof -
  have "parseUnix ''2025-01-01T00:00:00Z'' = parseUnix ''0''" by code_simp
  with assms show ?thesis by (simp add: h_historical_def Let_def)
qed

text \<open>The offset of a far page wraps around to a negative number, which the database rejects.\<close>

lemma far_page_negative_offset: "page_offset 3 (2 ^ 62) < 0"
  by (simp add: page_offset_def int64_def)

text \<open>Within bounds it is the number of rows before the page.\<close>

lemma page_offset_exact: "0 < page \<Longrightarrow> 0 < limit \<Longrightarrow> (page - 1) * limit < 2 ^ 63 \<Longrightarrow> page_offset page limit = (page - 1) * limit"
  by (simp add: page_offset_def int64_def)

section \<open>Cross-origin requests\<close>

text \<open>The wildcard allows every origin by name, and with credentials.\<close>

lemma wildcard_allows_all: "''*'' \<in> set origins \<Longrightarrow> fst (withCORS origins r) = Some (rq_origin r)"
  by (auto simp: withCORS_def Let_def list_ex_iff)

text \<open>
  A browser sends a method other than the simple ones to another origin only if the answer to its preflight lists it. Holdings and
  transactions are updated with \<^verbatim>\<open>PUT\<close>, which is not listed.
\<close>

lemma put_not_allowed: "''PUT'' \<notin> set ([''GET'', ''HEAD'', ''POST''] @ allow_methods)"
  by (simp add: allow_methods_def)

end
