(* ===== verification/Portfolio_Connectors.thy ===== *)
theory Portfolio_Connectors
  imports Portfolio_Service Exchange_Clients
begin

text \<open>
  The connectors behind the portfolio: \<^verbatim>\<open>portfolio/exchange\<close> (Kraken, Binance, Coinbase), \<^verbatim>\<open>portfolio/wallet\<close> (Bitcoin, Ethereum,
  Solana) and the parser of \<^verbatim>\<open>portfolio/ledger\<close>. A request carries a signature made from the key, the secret and the clock, so its
  answer is an argument that depends on the key, the secret and the number of the call. \<^verbatim>\<open>strconv.ParseFloat\<close>, \<^verbatim>\<open>math.Pow\<close> with base
  10, \<^verbatim>\<open>fmt.Sscanf\<close>, the decoding of base 64 and PEM and the signing of tokens are arguments, and so is the order in which a map is visited.
\<close>

section \<open>Calls and retries\<close>

text \<open>A request that cannot be built, or what it ends in.\<close>

datatype 'a sent = NotSent string | Sent "'a http_answer"

record conn_env =
  co_float :: "string \<Rightarrow> (string, float64) result"
  co_pow10 :: "int \<Rightarrow> float64"
  co_done :: "nat \<Rightarrow> string option"
  co_range :: "string list \<Rightarrow> string list"

text \<open>The errors that all of the connectors share; the flag says whether another attempt is worthwhile.\<close>

definition checked :: "string \<Rightarrow> 'a sent \<Rightarrow> ('a \<Rightarrow> (string \<times> bool, 'b) result) \<Rightarrow> (string \<times> bool, 'b) result" where
  "checked name ans f =
     (case ans of
        NotSent e \<Rightarrow> Inl (e, False)
      | Sent (NoResponse e) \<Rightarrow> Inl (name @ '': request failed: '' @ e, True)
      | Sent (Response status body) \<Rightarrow>
          if 500 \<le> status then Inl (name @ '': server error '' @ show_nat status, True)
          else if 400 \<le> status then Inl (name @ '': client error '' @ show_nat status, False)
          else case body of Inl e \<Rightarrow> Inl (name @ '': decode error: '' @ e, False) | Inr p \<Rightarrow> f p)"

text \<open>Up to three attempts. \<open>fin k\<close> is the error of the context when it ends while attempt \<open>k\<close> waits.\<close>

fun retry_from :: "(nat \<Rightarrow> string option) \<Rightarrow> (nat \<Rightarrow> (string \<times> bool, 'a) result) \<Rightarrow> string \<Rightarrow> nat \<Rightarrow> nat \<Rightarrow> string \<Rightarrow> (string, 'a) result" where
  "retry_from fin once what 0 k lastErr = Inl (what @ '': '' @ lastErr)"
| "retry_from fin once what (Suc n) k lastErr =
     (if k \<noteq> 0 \<and> fin k \<noteq> None then Inl (the (fin k))
      else case once k of
        Inr x \<Rightarrow> Inr x
      | Inl (e, retryable) \<Rightarrow> if retryable then retry_from fin once what n (Suc k) e else Inl e)"

definition attempts3 :: "'e conn_env_scheme \<Rightarrow> string \<Rightarrow> (nat \<Rightarrow> (string \<times> bool, 'a) result) \<Rightarrow> (string, 'a) result" where
  "attempts3 env what once = retry_from (co_done env) once what 3 0 []"

text \<open>A balance from text; what cannot be parsed or is not positive is left out.\<close>

definition text_balance :: "'e conn_env_scheme \<Rightarrow> string \<Rightarrow> string \<Rightarrow> Balance option" where
  "text_balance env asset s =
     (case co_float env s of Inl e \<Rightarrow> None | Inr q \<Rightarrow> if fle q f0 then None else Some \<lparr>b_Asset = asset, b_Quantity = q\<rparr>)"

section \<open>Kraken\<close>

record kraken_trade =
  kd_Pair :: string
  kd_Type :: string
  kd_Price :: float64
  kd_Cost :: float64
  kd_Fee :: float64
  kd_Vol :: float64
  kd_Time :: float64

record kraken_conn = conn_env +
  kk_base64 :: "string \<Rightarrow> (string, string) result"
  kk_balance :: "nat \<Rightarrow> string \<Rightarrow> string \<Rightarrow> (string list \<times> (string, string) gomap) sent"
  kk_trades :: "nat \<Rightarrow> string \<Rightarrow> string \<Rightarrow> int \<Rightarrow> (string list \<times> (string, kraken_trade) gomap \<times> int) sent"

definition normalizeKrakenAsset :: "string \<Rightarrow> string" where
  "normalizeKrakenAsset a =
     (let asset = map ascii_upper a in
      case map_of [(''XXBT'', ''BTC''), (''XBT'', ''BTC''), (''XETH'', ''ETH''), (''XXRP'', ''XRP''), (''XXLM'', ''XLM''), (''XXDG'', ''DOGE''),
        (''XDG'', ''DOGE''), (''XLTC'', ''LTC''), (''ZUSD'', ''USD''), (''ZEUR'', ''EUR''), (''ZGBP'', ''GBP''), (''ZJPY'', ''JPY'')] asset of
        Some s \<Rightarrow> s
      | None \<Rightarrow> if length asset = 4 \<and> (hd asset = CHR ''X'' \<or> hd asset = CHR ''Z'') then tl asset else asset)"

definition kk_fetchBalancesOnce :: "kraken_conn \<Rightarrow> string \<Rightarrow> string \<Rightarrow> nat \<Rightarrow> (string \<times> bool, Balance list) result" where
  "kk_fetchBalancesOnce env key secret k =
     (case kk_base64 env secret of
        Inl e \<Rightarrow> Inl (''kraken: invalid api secret encoding: '' @ e, False)
      | Inr _ \<Rightarrow>
          checked ''kraken'' (kk_balance env k key secret)
            (\<lambda>(errs, res).
               if errs \<noteq> [] then Inl (''kraken: api error: '' @ join_with errs '', '', False)
               else Inr (List.map_filter (\<lambda>a. text_balance env (normalizeKrakenAsset a) (gm_get res [] a)) (co_range env (gm_keys res)))))"

definition kk_FetchBalances :: "kraken_conn \<Rightarrow> string \<Rightarrow> string \<Rightarrow> (string, Balance list) result" where
  "kk_FetchBalances env key secret = attempts3 env ''kraken: max retries exceeded'' (kk_fetchBalancesOnce env key secret)"

definition extractBaseAsset :: "string \<Rightarrow> string" where
  "extractBaseAsset p =
     (let pair = map ascii_upper p in
      case find (\<lambda>s. suffix s pair) [''ZUSD'', ''ZEUR'', ''ZGBP'', ''ZJPY'', ''USD'', ''EUR'', ''GBP'', ''JPY'', ''USDT'', ''USDC''] of
        Some s \<Rightarrow> normalizeKrakenAsset (take (length pair - length s) pair)
      | None \<Rightarrow> if 6 \<le> length pair then normalizeKrakenAsset (take (length pair div 2) pair) else pair)"

definition extractQuoteAsset :: "string \<Rightarrow> string" where
  "extractQuoteAsset p =
     (let pair = map ascii_upper p in
      case find (\<lambda>s. suffix s pair) [''ZUSD'', ''ZEUR'', ''ZGBP'', ''ZJPY'', ''USDT'', ''USDC'', ''USD'', ''EUR'', ''GBP'', ''JPY''] of
        Some s \<Rightarrow> (case map_of [(''ZUSD'', ''USD''), (''ZEUR'', ''EUR''), (''ZGBP'', ''GBP''), (''ZJPY'', ''JPY'')] s of Some q \<Rightarrow> q | None \<Rightarrow> s)
      | None \<Rightarrow> [])"

definition kraken_Trade :: "string \<Rightarrow> kraken_trade \<Rightarrow> Trade" where
  "kraken_Trade i t =
     \<lparr>tr_Asset = extractBaseAsset (kd_Pair t), tr_Quantity = kd_Vol t, tr_Type = kd_Type t, tr_Price = kd_Price t, tr_Cost = kd_Cost t,
      tr_Fee = kd_Fee t, tr_FeeCurrency = extractQuoteAsset (kd_Pair t), tr_Timestamp = from_unix (float_to_int (kd_Time t)), tr_TradeID = i\<rparr>"

text \<open>A trade that is not in the map, which cannot happen, would be the zero value.\<close>

definition zero_trade :: kraken_trade where
  "zero_trade = \<lparr>kd_Pair = [], kd_Type = [], kd_Price = f0, kd_Cost = f0, kd_Fee = f0, kd_Vol = f0, kd_Time = f0\<rparr>"

definition fetchTradesPage :: "kraken_conn \<Rightarrow> string \<Rightarrow> string \<Rightarrow> nat \<Rightarrow> int \<Rightarrow> (string, Trade list \<times> int) result" where
  "fetchTradesPage env key secret k offset =
     (case kk_base64 env secret of
        Inl e \<Rightarrow> Inl (''kraken: invalid api secret encoding: '' @ e)
      | Inr _ \<Rightarrow>
          (case kk_trades env k key secret offset of
             NotSent e \<Rightarrow> Inl e
           | Sent (NoResponse e) \<Rightarrow> Inl (''kraken: trades request failed: '' @ e)
           | Sent (Response status body) \<Rightarrow>
               if 400 \<le> status then Inl (''kraken: trades error '' @ show_nat status)
               else case body of
                 Inl e \<Rightarrow> Inl (''kraken: trades decode error: '' @ e)
               | Inr (errs, trades, n) \<Rightarrow>
                   if errs \<noteq> [] then Inl (''kraken: trades api error: '' @ join_with errs '', '')
                   else Inr (map (\<lambda>i. kraken_Trade i (gm_get trades zero_trade i)) (co_range env (gm_keys trades)), n)))"

text \<open>The pages, with the trades so far; an error comes with what was fetched before it.\<close>

partial_function (option) trade_pages :: "kraken_conn \<Rightarrow> string \<Rightarrow> string \<Rightarrow> nat \<Rightarrow> int \<Rightarrow> Trade list \<Rightarrow> (Trade list \<times> string option) option" where
  "trade_pages env key secret k offset acc =
     (case fetchTradesPage env key secret k offset of
        Inl e \<Rightarrow> Some (acc, Some e)
      | Inr (trades, n) \<Rightarrow>
          if n \<le> offset + int (length trades) \<or> trades = [] then Some (acc @ trades, None)
          else trade_pages env key secret (Suc k) (offset + int (length trades)) (acc @ trades))"

definition FetchTrades :: "kraken_conn \<Rightarrow> string \<Rightarrow> string \<Rightarrow> (Trade list \<times> string option) option" where
  "FetchTrades env key secret = trade_pages env key secret 0 0 []"

section \<open>Binance\<close>

record binance_conn = conn_env +
  bb_account :: "nat \<Rightarrow> string \<Rightarrow> string \<Rightarrow> (string \<times> string \<times> string) list sent"
  bb_earn :: "string \<Rightarrow> string \<Rightarrow> string \<Rightarrow> nat \<Rightarrow> (string \<times> string) list sent"

definition bb_fetchBalancesOnce :: "binance_conn \<Rightarrow> string \<Rightarrow> string \<Rightarrow> nat \<Rightarrow> (string \<times> bool, Balance list) result" where
  "bb_fetchBalancesOnce env key secret k =
     checked ''binance'' (bb_account env k key secret)
       (\<lambda>rows. Inr (List.map_filter (\<lambda>(asset, free, locked).
          case co_float env free of
            Inl e \<Rightarrow> None
          | Inr a \<Rightarrow>
              (case co_float env locked of
                 Inl e \<Rightarrow> None
               | Inr b \<Rightarrow> if fle (fadd a b) f0 then None else Some \<lparr>b_Asset = map ascii_upper asset, b_Quantity = fadd a b\<rparr>)) rows))"

text \<open>The positions on the pages of an endpoint; any failure ends the list.\<close>

partial_function (option) fetchEarnEndpoint :: "binance_conn \<Rightarrow> string \<Rightarrow> string \<Rightarrow> string \<Rightarrow> nat \<Rightarrow> Balance list \<Rightarrow> Balance list option" where
  "fetchEarnEndpoint env key secret path current acc =
     (case bb_earn env key secret path current of
        NotSent e \<Rightarrow> Some acc
      | Sent (NoResponse e) \<Rightarrow> Some acc
      | Sent (Response status body) \<Rightarrow>
          if status \<noteq> 200 then Some acc
          else case body of
            Inl e \<Rightarrow> Some acc
          | Inr rows \<Rightarrow>
              let acc' = acc @ List.map_filter (\<lambda>(asset, amount). text_balance env (map ascii_upper asset) amount) rows
              in if length rows < 100 then Some acc' else fetchEarnEndpoint env key secret path (Suc current) acc')"

definition fetchEarnPositions :: "binance_conn \<Rightarrow> string \<Rightarrow> string \<Rightarrow> Balance list option" where
  "fetchEarnPositions env key secret =
     Option.bind (fetchEarnEndpoint env key secret ''/sapi/v1/simple-earn/flexible/position'' 1 [])
       (\<lambda>fs. map_option (\<lambda>ls. fs @ ls) (fetchEarnEndpoint env key secret ''/sapi/v1/simple-earn/locked/position'' 1 []))"

definition by_asset :: "Balance list \<Rightarrow> (string, float64) gomap" where
  "by_asset bs = foldl (\<lambda>m b. gm_put (b_Asset b) (fadd (gm_get m f0 (b_Asset b)) (b_Quantity b)) m) [] bs"

definition mergeBalances :: "(string list \<Rightarrow> string list) \<Rightarrow> Balance list \<Rightarrow> Balance list \<Rightarrow> Balance list" where
  "mergeBalances rng spot earn =
     (if earn = [] then spot
      else let m = by_asset (spot @ earn) in map (\<lambda>a. \<lparr>b_Asset = a, b_Quantity = gm_get m f0 a\<rparr>) (rng (gm_keys m)))"

text \<open>\<open>None\<close> when the pages of an endpoint never end.\<close>

definition bb_FetchBalances :: "binance_conn \<Rightarrow> string \<Rightarrow> string \<Rightarrow> (string, Balance list) result option" where
  "bb_FetchBalances env key secret =
     (case attempts3 env ''binance: max retries exceeded'' (bb_fetchBalancesOnce env key secret) of
        Inl e \<Rightarrow> Some (Inl e)
      | Inr spot \<Rightarrow> map_option (\<lambda>earn. Inr (mergeBalances (co_range env) spot earn)) (fetchEarnPositions env key secret))"

section \<open>Coinbase\<close>

datatype ec_key = ECKey string | OtherKey

record coinbase_conn = conn_env +
  cb_pem :: "string \<Rightarrow> (string \<times> string) option"
  cb_ec :: "string \<Rightarrow> (string, string) result"
  cb_pkcs8 :: "string \<Rightarrow> (string, ec_key) result"
  cb_sign :: "string \<Rightarrow> string \<Rightarrow> string \<Rightarrow> (string, string) result"
  cb_accounts :: "nat \<Rightarrow> string \<Rightarrow> string \<Rightarrow> ((string \<times> string) list \<times> string) sent"

definition parseECPrivateKey :: "coinbase_conn \<Rightarrow> string \<Rightarrow> (string, string) result" where
  "parseECPrivateKey env pem =
     (case cb_pem env (replace_all [CHR 0x5C, CHR ''n''] [CHR 0x0A] pem) of
        None \<Rightarrow> Inl ''no PEM block found in private key''
      | Some (ty, bytes) \<Rightarrow>
          if ty = ''EC PRIVATE KEY'' then cb_ec env bytes
          else if ty = ''PRIVATE KEY'' then
            (case cb_pkcs8 env bytes of
               Inl e \<Rightarrow> Inl e
             | Inr OtherKey \<Rightarrow> Inl ''PKCS#8 key is not an EC key''
             | Inr (ECKey key) \<Rightarrow> Inr key)
          else Inl (''unsupported PEM block type: '' @ ty))"

definition buildJWT :: "coinbase_conn \<Rightarrow> string \<Rightarrow> string \<Rightarrow> string \<Rightarrow> string \<Rightarrow> (string, string) result" where
  "buildJWT env apiKey secret meth path =
     (case parseECPrivateKey env secret of
        Inl e \<Rightarrow> Inl (''parsing EC private key: '' @ e)
      | Inr key \<Rightarrow> cb_sign env key apiKey (meth @ '' api.coinbase.com'' @ path))"

definition cb_fetchPage :: "coinbase_conn \<Rightarrow> string \<Rightarrow> string \<Rightarrow> nat \<Rightarrow> string \<Rightarrow> (string \<times> bool, Balance list \<times> string) result" where
  "cb_fetchPage env key secret k cursor =
     (let path = ''/api/v3/brokerage/accounts'' @ (if cursor = [] then [] else ''?cursor='' @ cursor)
      in case buildJWT env key secret ''GET'' path of
           Inl e \<Rightarrow> Inl (''coinbase: jwt build failed: '' @ e, False)
         | Inr token \<Rightarrow>
             checked ''coinbase'' (cb_accounts env k token path)
               (\<lambda>(rows, nextc). Inr (List.map_filter (\<lambda>(cur, v). text_balance env (map ascii_upper cur) v) rows, nextc)))"

partial_function (option) fetchAllBalances ::
    "coinbase_conn \<Rightarrow> string \<Rightarrow> string \<Rightarrow> nat \<Rightarrow> string \<Rightarrow> Balance list \<Rightarrow> (string \<times> bool, Balance list) result option" where
  "fetchAllBalances env key secret k cursor acc =
     (case cb_fetchPage env key secret k cursor of
        Inl e \<Rightarrow> Some (Inl e)
      | Inr (page, nextc) \<Rightarrow> if nextc = [] then Some (Inr (acc @ page)) else fetchAllBalances env key secret (Suc k) nextc (acc @ page))"

text \<open>\<open>envs k\<close> is what attempt \<open>k\<close> meets; an attempt that does not end is \<open>None\<close>.\<close>

fun cb_attempts :: "(nat \<Rightarrow> coinbase_conn) \<Rightarrow> string \<Rightarrow> string \<Rightarrow> nat \<Rightarrow> nat \<Rightarrow> string \<Rightarrow> (string, Balance list) result option" where
  "cb_attempts envs key secret 0 k lastErr = Some (Inl (''coinbase: max retries exceeded: '' @ lastErr))"
| "cb_attempts envs key secret (Suc n) k lastErr =
     (if k \<noteq> 0 \<and> co_done (envs k) k \<noteq> None then Some (Inl (the (co_done (envs k) k)))
      else case fetchAllBalances (envs k) key secret 0 [] [] of
        None \<Rightarrow> None
      | Some (Inr bs) \<Rightarrow> Some (Inr bs)
      | Some (Inl (e, retryable)) \<Rightarrow> if retryable then cb_attempts envs key secret n (Suc k) e else Some (Inl e))"

definition cb_FetchBalances :: "(nat \<Rightarrow> coinbase_conn) \<Rightarrow> string \<Rightarrow> string \<Rightarrow> (string, Balance list) result option" where
  "cb_FetchBalances envs key secret = cb_attempts envs key secret 3 0 []"

section \<open>Bitcoin\<close>

record chain_stats =
  cs_funded :: "64 word"
  cs_spent :: "64 word"

record bitcoin_conn = conn_env +
  bc_address :: "nat \<Rightarrow> string \<Rightarrow> (chain_stats \<times> chain_stats) sent"

definition total_sats :: "chain_stats \<Rightarrow> chain_stats \<Rightarrow> 64 word" where
  "total_sats chain mempool = (cs_funded chain - cs_spent chain) + (cs_funded mempool - cs_spent mempool)"

definition bc_fetchBalancesOnce :: "bitcoin_conn \<Rightarrow> string \<Rightarrow> nat \<Rightarrow> (string \<times> bool, Balance list) result" where
  "bc_fetchBalancesOnce env address k =
     checked ''bitcoin'' (bc_address env k address)
       (\<lambda>(chain, mempool).
          let btc = fdiv (float_of_int (uint (total_sats chain mempool))) (Fin 100000000)
          in Inr (if fle btc f0 then [] else [\<lparr>b_Asset = ''BTC'', b_Quantity = btc\<rparr>]))"

definition bc_FetchBalances :: "bitcoin_conn \<Rightarrow> string \<Rightarrow> (string, Balance list) result" where
  "bc_FetchBalances env address = attempts3 env ''bitcoin: max retries exceeded'' (bc_fetchBalancesOnce env address)"

section \<open>Ethereum\<close>

record erc20_transfer =
  ef_TokenSymbol :: string
  ef_TokenDecimal :: string
  ef_To :: string
  ef_From :: string
  ef_Value :: string

record ethereum_conn = conn_env +
  et_balance :: "nat \<Rightarrow> string \<Rightarrow> (string \<times> string \<times> string) sent"
  et_transfers :: "nat \<Rightarrow> string \<Rightarrow> (string \<times> string \<times> erc20_transfer list) sent"

definition fetchETHBalanceOnce :: "ethereum_conn \<Rightarrow> string \<Rightarrow> nat \<Rightarrow> (string \<times> bool, float64) result" where
  "fetchETHBalanceOnce env address k =
     checked ''ethereum'' (et_balance env k address)
       (\<lambda>(status, msg, res).
          if status \<noteq> ''1'' then Inl (''ethereum: api error: '' @ msg, False)
          else case co_float env res of
            Inl e \<Rightarrow> Inl (''ethereum: parse wei: '' @ e, False)
          | Inr wei \<Rightarrow> Inr (fdiv wei (Fin (10 ^ 18))))"

definition fetchETHBalance :: "ethereum_conn \<Rightarrow> string \<Rightarrow> (string, float64) result" where
  "fetchETHBalance env address = attempts3 env ''ethereum: max retries exceeded for ETH balance'' (fetchETHBalanceOnce env address)"

text \<open>The net amount per symbol.\<close>

definition net_transfer :: "ethereum_conn \<Rightarrow> string \<Rightarrow> (string, float64) gomap \<Rightarrow> erc20_transfer \<Rightarrow> (string, float64) gomap" where
  "net_transfer env address m tx =
     (let symbol = map ascii_upper (ef_TokenSymbol tx); addr = map ascii_lower address in
      if symbol = [] then m
      else let decimals = (case atoi (ef_TokenDecimal tx) of None \<Rightarrow> 18 | Some d \<Rightarrow> d) in
        case co_float env (ef_Value tx) of
          Inl e \<Rightarrow> m
        | Inr v \<Rightarrow>
            let amount = fdiv v (co_pow10 env decimals); n0 = gm_get m f0 symbol;
                n1 = (if map ascii_lower (ef_To tx) = addr then fadd n0 amount else n0);
                n2 = (if map ascii_lower (ef_From tx) = addr then fsub n1 amount else n1)
            in gm_put symbol n2 m)"

definition fetchERC20BalancesOnce :: "ethereum_conn \<Rightarrow> string \<Rightarrow> nat \<Rightarrow> (string \<times> bool, Balance list) result" where
  "fetchERC20BalancesOnce env address k =
     checked ''ethereum'' (et_transfers env k address)
       (\<lambda>(status, msg, txs).
          if status \<noteq> ''1'' \<and> msg \<noteq> ''No transactions found'' then Inl (''ethereum: api error: '' @ msg, False)
          else let tokens = foldl (net_transfer env address) [] txs
               in Inr (map (\<lambda>s. \<lparr>b_Asset = s, b_Quantity = gm_get tokens f0 s\<rparr>)
                     (filter (\<lambda>s. \<not> fle (gm_get tokens f0 s) f0) (co_range env (gm_keys tokens)))))"

definition fetchERC20Balances :: "ethereum_conn \<Rightarrow> string \<Rightarrow> (string, Balance list) result" where
  "fetchERC20Balances env address = attempts3 env ''ethereum: max retries exceeded for ERC-20 balances'' (fetchERC20BalancesOnce env address)"

text \<open>A native balance and the tokens, if these can be had.\<close>

definition with_tokens :: "string \<Rightarrow> float64 \<Rightarrow> (string, Balance list) result \<Rightarrow> Balance list" where
  "with_tokens asset q tokens =
     (if flt f0 q then [\<lparr>b_Asset = asset, b_Quantity = q\<rparr>] else []) @ (case tokens of Inl e \<Rightarrow> [] | Inr bs \<Rightarrow> bs)"

definition et_FetchBalances :: "ethereum_conn \<Rightarrow> string \<Rightarrow> (string, Balance list) result" where
  "et_FetchBalances env address =
     (case fetchETHBalance env address of
        Inl e \<Rightarrow> Inl (''ethereum: eth balance: '' @ e)
      | Inr q \<Rightarrow> Inr (with_tokens ''ETH'' q (fetchERC20Balances env address)))"

section \<open>Solana\<close>

record solana_conn = conn_env +
  so_balance :: "nat \<Rightarrow> string \<Rightarrow> (string option \<times> 64 word) sent"
  so_accounts :: "nat \<Rightarrow> string \<Rightarrow> (string option \<times> (string \<times> float64 option) list) sent"

definition fetchSOLBalanceOnce :: "solana_conn \<Rightarrow> string \<Rightarrow> nat \<Rightarrow> (string \<times> bool, float64) result" where
  "fetchSOLBalanceOnce env address k =
     checked ''solana'' (so_balance env k address)
       (\<lambda>(err, lamports). case err of
          Some e \<Rightarrow> Inl (''solana: rpc error: '' @ e, False)
        | None \<Rightarrow> Inr (fdiv (float_of_int (uint lamports)) (Fin 1000000000)))"

definition fetchSOLBalance :: "solana_conn \<Rightarrow> string \<Rightarrow> (string, float64) result" where
  "fetchSOLBalance env address = attempts3 env ''solana: max retries exceeded for SOL balance'' (fetchSOLBalanceOnce env address)"

definition fetchSPLTokenBalancesOnce :: "solana_conn \<Rightarrow> string \<Rightarrow> nat \<Rightarrow> (string \<times> bool, Balance list) result" where
  "fetchSPLTokenBalancesOnce env address k =
     checked ''solana'' (so_accounts env k address)
       (\<lambda>(err, accounts). case err of
          Some e \<Rightarrow> Inl (''solana: rpc error: '' @ e, False)
        | None \<Rightarrow>
            Inr (List.map_filter (\<lambda>(mint, amount). case amount of
               None \<Rightarrow> None
             | Some q \<Rightarrow> if fle q f0 \<or> mint = [] then None else Some \<lparr>b_Asset = mint, b_Quantity = q\<rparr>) accounts))"

definition fetchSPLTokenBalances :: "solana_conn \<Rightarrow> string \<Rightarrow> (string, Balance list) result" where
  "fetchSPLTokenBalances env address = attempts3 env ''solana: max retries exceeded for SPL token balances'' (fetchSPLTokenBalancesOnce env address)"

definition so_FetchBalances :: "solana_conn \<Rightarrow> string \<Rightarrow> (string, Balance list) result" where
  "so_FetchBalances env address =
     (case fetchSOLBalance env address of
        Inl e \<Rightarrow> Inl (''solana: sol balance: '' @ e)
      | Inr q \<Rightarrow> Inr (with_tokens ''SOL'' q (fetchSPLTokenBalances env address)))"

section \<open>Ledger exports\<close>

record ledgerAccount =
  la_Balance :: string
  la_Code :: string
  la_Magnitude :: int

record ledger_conn = conn_env +
  lc_decode :: "string \<Rightarrow> (string, ledgerAccount list) result"
  lc_scan :: "string \<Rightarrow> (string, float64) result"

definition account_balance :: "ledger_conn \<Rightarrow> ledgerAccount \<Rightarrow> Balance option" where
  "account_balance env a =
     (let code = TrimSpace (la_Code a) in
      if code = [] then None
      else case lc_scan env (la_Balance a) of
        Inl e \<Rightarrow> None
      | Inr raw \<Rightarrow>
          let qty = (if 0 < la_Magnitude a then fdiv raw (co_pow10 env (la_Magnitude a)) else raw)
          in if fle qty f0 then None else Some \<lparr>b_Asset = map ascii_upper code, b_Quantity = qty\<rparr>)"

definition ParseExport :: "ledger_conn \<Rightarrow> string \<Rightarrow> (string, Balance list) result" where
  "ParseExport env data =
     (case lc_decode env data of
        Inl e \<Rightarrow> Inl (''invalid ledger export JSON: '' @ e)
      | Inr accounts \<Rightarrow> Inr (List.map_filter (account_balance env) accounts))"

end
