(* ===== verification/Connector_Props.thy ===== *)
theory Connector_Props
  imports Portfolio_Connectors Portfolio_Props
begin

text \<open>
  Results about the connectors: how attempts end, that the unsigned arithmetic of the Bitcoin balance is exact, that all pages of a trade
  history are collected, and what the synchronisation of a wallet makes of two balances of one asset.
\<close>

section \<open>Attempts\<close>

lemma attempts3_first: "once 0 = Inr x \<Longrightarrow> attempts3 env what once = Inr x"
  by (simp add: attempts3_def numeral_3_eq_3)

lemma attempts3_final: "once 0 = Inl (e, False) \<Longrightarrow> attempts3 env what once = Inl e"
  by (simp add: attempts3_def numeral_3_eq_3)

text \<open>Three failures that are worth another attempt end in the last of them.\<close>

lemma attempts3_exhausted:
  assumes "\<And>k. co_done env k = None" "once 0 = Inl (e0, True)" "once 1 = Inl (e1, True)" "once 2 = Inl (e2, True)"
  shows "attempts3 env what once = Inl (what @ '': '' @ e2)"
  using assms by (simp add: attempts3_def numeral_3_eq_3 numeral_2_eq_2)

lemma checked_ok: "checked name (Sent (Response 200 (Inr p))) f = f p"
  by (simp add: checked_def)

text \<open>
  What a connector promises that tries again: its answer is that of one of three attempts, an outage before the third is
  hidden, and a refusal is not repeated.
\<close>

lemma retry_from_answer:
  "retry_from fin once what n k e = Inr x \<Longrightarrow> \<exists>j\<ge>k. j < k + n \<and> once j = Inr x"
proof (induction n arbitrary: k e)
  case (Suc n)
  from Suc.prems consider "once k = Inr x" | e' where "retry_from fin once what n (Suc k) e' = Inr x"
    by (auto split: if_splits sum.splits)
  then show ?case
  proof cases
    case 2
    from Suc.IH [OF this] obtain j where "Suc k \<le> j" "j < Suc k + n" "once j = Inr x" by blast
    then show ?thesis by (intro exI [of _ j]) simp
  qed auto
qed simp

lemma retry_from_outages:
  assumes "\<And>j. fin j = None" "\<And>j. k \<le> j \<Longrightarrow> j < m \<Longrightarrow> \<exists>e. once j = Inl (e, True)" "once m = r" "k \<le> m" "m < k + n"
    and "\<And>e. r \<noteq> Inl (e, True)"
  shows "retry_from fin once what n k e = (case r of Inl (e, b) \<Rightarrow> Inl e | Inr x \<Rightarrow> Inr x)"
  using assms(2,4,5)
proof (induction n arbitrary: k e)
  case (Suc n)
  show ?case
  proof (cases "k = m")
    case True
    then show ?thesis using assms(1,3,6) by (auto split: sum.splits)
  next
    case False
    then obtain e' where "once k = Inl (e', True)" using Suc.prems(1) [of k] Suc.prems(2) by auto
    then show ?thesis using Suc.IH [of "Suc k" e'] Suc.prems False assms(1) by simp
  qed
qed simp

locale retrying =
  fixes once :: "'e conn_env_scheme \<Rightarrow> 'arg \<Rightarrow> nat \<Rightarrow> (string \<times> bool, 'a) result"
    and fetch :: "'e conn_env_scheme \<Rightarrow> 'arg \<Rightarrow> (string, 'a) result"
    and what :: string
  assumes attempts: "fetch env arg = attempts3 env what (once env arg)"
begin

lemma answer_of_attempt: "fetch env arg = Inr x \<Longrightarrow> \<exists>k<3. once env arg k = Inr x"
  using retry_from_answer [of "co_done env" "once env arg" what 3 0] by (auto simp: attempts attempts3_def)

lemma outage_hidden:
  assumes "\<And>j. co_done env j = None" "\<And>j. j < k \<Longrightarrow> \<exists>e. once env arg j = Inl (e, True)" "k < 3" "once env arg k = Inr x"
  shows "fetch env arg = Inr x"
  using retry_from_outages [of "co_done env" 0 k "once env arg" "Inr x" 3 what] assms by (simp add: attempts attempts3_def)

lemma refusal_final:
  assumes "\<And>j. co_done env j = None" "\<And>j. j < k \<Longrightarrow> \<exists>e. once env arg j = Inl (e, True)" "k < 3" "once env arg k = Inl (e, False)"
  shows "fetch env arg = Inl e"
  using retry_from_outages [of "co_done env" 0 k "once env arg" "Inl (e, False)" 3 what] assms by (simp add: attempts attempts3_def)

end

interpretation kraken_retry: retrying "\<lambda>env (key, secret). kk_fetchBalancesOnce env key secret" "\<lambda>env (key, secret). kk_FetchBalances env key secret"
    "''kraken: max retries exceeded''"
  by unfold_locales (simp add: kk_FetchBalances_def split: prod.split)

interpretation bitcoin_retry: retrying bc_fetchBalancesOnce bc_FetchBalances "''bitcoin: max retries exceeded''"
  by unfold_locales (simp add: bc_FetchBalances_def)

interpretation ether_retry: retrying fetchETHBalanceOnce fetchETHBalance "''ethereum: max retries exceeded for ETH balance''"
  by unfold_locales (simp add: fetchETHBalance_def)

interpretation erc20_retry: retrying fetchERC20BalancesOnce fetchERC20Balances "''ethereum: max retries exceeded for ERC-20 balances''"
  by unfold_locales (simp add: fetchERC20Balances_def)

interpretation sol_retry: retrying fetchSOLBalanceOnce fetchSOLBalance "''solana: max retries exceeded for SOL balance''"
  by unfold_locales (simp add: fetchSOLBalance_def)

interpretation spl_retry: retrying fetchSPLTokenBalancesOnce fetchSPLTokenBalances "''solana: max retries exceeded for SPL token balances''"
  by unfold_locales (simp add: fetchSPLTokenBalances_def)

section \<open>Bitcoin\<close>

lemma total_sats_exact:
  assumes "unat (cs_spent c) + unat (cs_spent m) \<le> unat (cs_funded c) + unat (cs_funded m)"
    and "unat (cs_funded c) + unat (cs_funded m) - (unat (cs_spent c) + unat (cs_spent m)) < 2 ^ 64"
  shows "unat (total_sats c m) = unat (cs_funded c) + unat (cs_funded m) - (unat (cs_spent c) + unat (cs_spent m))"
proof -
  let ?a = "unat (cs_funded c) + unat (cs_funded m)" and ?b = "unat (cs_spent c) + unat (cs_spent m)"
  have "total_sats c m = (cs_funded c + cs_funded m) - (cs_spent c + cs_spent m)" by (simp add: total_sats_def algebra_simps)
  also have "\<dots> = of_nat ?a - of_nat ?b" by simp
  also have "\<dots> = of_nat (?a - ?b)" using assms(1) by (simp add: of_nat_diff)
  finally show ?thesis using assms(2) by (simp add: unat_of_nat)
qed

text \<open>
  \<^bold>\<open>C37\<close>. The Bitcoin balance is computed in unsigned 64-bit arithmetic, and the difference for the memory pool wraps around whenever
  more is on its way out than in. The sum is exact all the same: it is everything received less everything spent, confirmed or not, as
  long as that is not negative. One or two requests without an answer beforehand do not matter.
\<close>

theorem bitcoin_balance_exact:
  assumes "\<And>j. co_done env j = None" "k < 3" "\<And>j. j < k \<Longrightarrow> bc_address env j address = Sent (NoResponse (fault j))"
    and "bc_address env k address = Sent (Response 200 (Inr (c, m)))"
    and "unat (cs_spent c) + unat (cs_spent m) \<le> unat (cs_funded c) + unat (cs_funded m)"
    and "sats = unat (cs_funded c) + unat (cs_funded m) - (unat (cs_spent c) + unat (cs_spent m))" "sats < 2 ^ 64"
  shows "bc_FetchBalances env address =
    Inr (let btc = fdiv (float_of_int (int sats)) (Fin 100000000) in if fle btc f0 then [] else [\<lparr>b_Asset = ''BTC'', b_Quantity = btc\<rparr>])"
proof -
  have "uint (total_sats c m) = int sats" using total_sats_exact [OF assms(5)] assms(6,7) by (simp add: uint_nat)
  then show ?thesis
    using assms(3,4) by (intro bitcoin_retry.outage_hidden [OF assms(1) _ assms(2)]) (simp_all add: bc_fetchBalancesOnce_def checked_def Let_def)
qed

definition demo_chain :: "nat \<Rightarrow> nat \<Rightarrow> chain_stats" where
  "demo_chain a b = \<lparr>cs_funded = of_nat a, cs_spent = of_nat b\<rparr>"

definition demo_bitcoin :: bitcoin_conn where
  "demo_bitcoin = \<lparr>co_float = (\<lambda>s. Inl s), co_pow10 = (\<lambda>n. Fin (10 ^ nat n)), co_done = (\<lambda>k. None), co_range = (\<lambda>ks. ks),
     bc_address = (\<lambda>k a. Sent (if k = 0 then NoResponse ''down'' else Response 200 (Inr (demo_chain 9 2, demo_chain 1 5))))\<rparr>"

text \<open>The first request has no answer; then seven satoshis are confirmed, and four more leave than come in.\<close>

theorem bitcoin_balance_exact_witness:
  "bc_FetchBalances demo_bitcoin ''bc1'' =
     Inr (let btc = fdiv (float_of_int 3) (Fin 100000000) in if fle btc f0 then [] else [\<lparr>b_Asset = ''BTC'', b_Quantity = btc\<rparr>])"
proof -
  have "co_done demo_bitcoin j = None" for j by (simp add: demo_bitcoin_def)
  moreover have "bc_address demo_bitcoin j ''bc1'' = Sent (NoResponse ''down'')" if "j < 1" for j using that by (simp add: demo_bitcoin_def)
  moreover have "bc_address demo_bitcoin 1 ''bc1'' = Sent (Response 200 (Inr (demo_chain 9 2, demo_chain 1 5)))" by (simp add: demo_bitcoin_def)
  ultimately show ?thesis
    using bitcoin_balance_exact [where env = demo_bitcoin and k = 1 and fault = "\<lambda>j. ''down''" and sats = 3] by (simp add: demo_chain_def)
qed

section \<open>Trade history\<close>

text \<open>When the exchange serves the pages of one list, none of them empty before its end, the history is that list.\<close>

lemma trade_pages_all:
  assumes "\<And>k off. 0 \<le> off \<Longrightarrow> off < int (length ts) \<Longrightarrow>
      fetchTradesPage env key secret k off = Inr (take (step k) (drop (nat off) ts), int (length ts)) \<and> 0 < step k"
    and "0 \<le> off" "off < int (length ts)" "acc = take (nat off) ts"
  shows "trade_pages env key secret k off acc = Some (ts, None)"
  using assms(2-)
proof (induction "length ts - nat off" arbitrary: k off acc rule: less_induct)
  case less
  let ?page = "take (step k) (drop (nat off) ts)"
  have page: "fetchTradesPage env key secret k off = Inr (?page, int (length ts))" "0 < step k" using assms(1) less.prems by blast+
  have acc: "acc @ ?page = take (nat off + step k) ts" using less.prems(3) by (simp add: take_add)
  show ?case
  proof (cases "length ts \<le> nat off + step k")
    case True
    then have "int (length ts) \<le> off + int (length ?page)" using less.prems(1,2) by simp
    then show ?thesis using page acc True by (subst trade_pages.simps) simp
  next
    case False
    then have len: "length ?page = step k" by simp
    have next_off: "nat (off + int (step k)) = nat off + step k" using less.prems(1) by simp
    have "trade_pages env key secret (Suc k) (off + int (step k)) (acc @ ?page) = Some (ts, None)"
      by (rule less.hyps) (use False len next_off acc page(2) less.prems(1) in auto)
    moreover have "\<not> (int (length ts) \<le> off + int (step k) \<or> ?page = [])" using False less.prems(1) len page(2) by auto
    ultimately show ?thesis using page len by (subst trade_pages.simps) simp
  qed
qed

lemma FetchTrades_all:
  assumes "ts \<noteq> []"
    and "\<And>k off. 0 \<le> off \<Longrightarrow> off < int (length ts) \<Longrightarrow>
      fetchTradesPage env key secret k off = Inr (take (step k) (drop (nat off) ts), int (length ts)) \<and> 0 < step k"
  shows "FetchTrades env key secret = Some (ts, None)"
  unfolding FetchTrades_def by (rule trade_pages_all [OF assms(2)]) (use assms(1) in auto)

text \<open>
  The other loops over pages return as well, as long as the exchange comes to an end: with a page that is not full, or with cursors that
  do not go round in a circle.
\<close>

definition full_page :: "(string \<times> string) list sent \<Rightarrow> bool" where
  "full_page ans \<longleftrightarrow> (\<exists>rows. ans = Sent (Response 200 (Inr rows)) \<and> 100 \<le> length rows)"

lemma fetchEarnEndpoint_returns:
  assumes "\<not> full_page (bb_earn env key secret path n)" "current \<le> n"
  shows "\<exists>bs. fetchEarnEndpoint env key secret path current acc = Some bs"
  using assms(2)
proof (induction "n - current" arbitrary: current acc)
  case 0
  then show ?case using assms(1)
    by (subst fetchEarnEndpoint.simps) (auto simp: full_page_def Let_def split: sent.split http_answer.split sum.split)
next
  case (Suc k)
  then have "k = n - Suc current" "Suc current \<le> n" by simp_all
  note next_page = Suc.hyps(1) [OF this]
  show ?case
    by (subst fetchEarnEndpoint.simps) (use next_page in \<open>auto simp: Let_def split: sent.split http_answer.split sum.split\<close>)
qed

lemma fetchAllBalances_returns:
  assumes "\<And>k cursor page nextc. cb_fetchPage env key secret k cursor = Inr (page, nextc) \<Longrightarrow> nextc \<noteq> [] \<Longrightarrow> rank nextc < (rank cursor :: nat)"
  shows "\<exists>r. fetchAllBalances env key secret k cursor acc = Some r"
proof (induction "rank cursor" arbitrary: k cursor acc rule: less_induct)
  case less
  show ?case
  proof (cases "cb_fetchPage env key secret k cursor")
    case (Inr p)
    obtain page nextc where p: "p = (page, nextc)" by fastforce
    then show ?thesis using less.hyps [of nextc] assms [of k cursor page nextc] Inr
      by (subst fetchAllBalances.simps) auto
  qed (subst fetchAllBalances.simps, simp)
qed

text \<open>
  The pair of Tezos and the euro is \<^verbatim>\<open>XTZEUR\<close>. Its last four letters are taken for the old code of the euro, so its trades are filed
  under an asset \<^verbatim>\<open>XT\<close>; and of an asset with four letters that starts with X or Z the first letter is cut.
\<close>

lemma tezos_misfiled: "extractBaseAsset ''XTZEUR'' = ''XT''" "extractBaseAsset ''XTZUSD'' = ''XT''"
  by code_simp+

lemma four_letters_cut: "normalizeKrakenAsset ''ZETA'' = ''ETA''"
  by code_simp

section \<open>Two balances of one asset\<close>

lemma put_holding_quantity:
  assumes "put_holding now row rs = Inr rs'"
  shows "list_all (\<lambda>r. holding_key row r \<longrightarrow> h_Quantity r = h_Quantity row) rs'"
    "h_SourceRef row \<noteq> None \<Longrightarrow> list_ex (holding_key row) rs'"
proof -
  consider "list_ex (holding_key row) rs" "rs' = sql_update (holding_key row)
        (\<lambda>r. r\<lparr>h_Quantity := h_Quantity row, h_AvgBuyPrice := h_AvgBuyPrice row, h_Notes := h_Notes row, h_UpdatedAt := now\<rparr>) rs"
    | "\<not> list_ex (holding_key row) rs" "rs' = rs @ [row\<lparr>h_CreatedAt := now, h_UpdatedAt := now\<rparr>]"
    using assms by (auto simp: put_holding_def split: if_splits)
  note cs = this
  have key: "holding_key row (r\<lparr>h_Quantity := q, h_AvgBuyPrice := p, h_Notes := n, h_UpdatedAt := t\<rparr>) = holding_key row r" for r q p n t
    by (simp add: holding_key_def)
  show "list_all (\<lambda>r. holding_key row r \<longrightarrow> h_Quantity r = h_Quantity row) rs'"
    using cs by cases (auto simp: list_all_iff list_ex_iff set_sql_update key split: if_splits)
  show "list_ex (holding_key row) rs'" if ref: "h_SourceRef row \<noteq> None"
    using cs
  proof cases
    case 1
    then obtain r where "r \<in> set rs" "holding_key row r" by (auto simp: list_ex_iff)
    then have "r\<lparr>h_Quantity := h_Quantity row, h_AvgBuyPrice := h_AvgBuyPrice row, h_Notes := h_Notes row, h_UpdatedAt := now\<rparr> \<in> set rs'"
      using 1(2) by (auto simp: set_sql_update)
    then show ?thesis using \<open>holding_key row r\<close> key unfolding list_ex_iff by blast
  next
    case 2
    obtain ref where "h_SourceRef row = Some ref" using ref by blast
    then show ?thesis using 2 by (simp add: holding_key_def)
  qed
qed

lemma upsert_last_wins:
  assumes "upsert_holdings db k new_id now u source ref (hs @ [h]) rs = Inr rs'"
  shows "list_all (\<lambda>r. h_UserID r = u \<and> h_AssetSymbol r = h_AssetSymbol h \<and> h_Source r = source \<and> h_SourceRef r = Some ref \<longrightarrow>
      h_Quantity r = h_Quantity h) rs' \<and>
    (\<exists>r\<in>set rs'. h_UserID r = u \<and> h_AssetSymbol r = h_AssetSymbol h \<and> h_Source r = source \<and> h_SourceRef r = Some ref)"
  using assms
proof (induction hs arbitrary: k rs)
  case Nil
  let ?row = "h\<lparr>h_ID := (if h_ID h = nil_uuid then new_id k else h_ID h), h_UserID := u, h_Source := source, h_SourceRef := Some ref\<rparr>"
  have "put_holding now ?row rs = Inr rs'" using Nil by (auto split: option.splits sum.splits)
  from put_holding_quantity [OF this] show ?case
    by (auto simp: list_all_iff list_ex_iff holding_key_def sql_eq_def split: option.splits)
next
  case (Cons a hs)
  then show ?case by (auto split: option.splits sum.splits)
qed

lemma wallet_last_wins:
  assumes "SyncWallet env s u wid w = (Inr (), w')" "wallet_FindByID (p_db env 0 0) wid u (wallets w) = Inr (Some a)" "walletMap s (wa_Chain a) = Some fetch"
    and "DecryptForUser (p_crypto env) (encryption s) u (wa_AddressCipher a) (wa_AddressNonce a) = Inr address" "fetch address = Inr (bs @ [b])"
    and "map ascii_upper (b_Asset b) \<in> set (catalog s)" "p_parse env wid = Inr ref"
  shows "list_all (\<lambda>r. h_UserID r = u \<and> h_AssetSymbol r = map ascii_upper (b_Asset b) \<and> h_Source r = wa_Chain a \<and> h_SourceRef r = Some ref \<longrightarrow>
      h_Quantity r = b_Quantity b) (holdings w') \<and>
    (\<exists>r\<in>set (holdings w'). h_UserID r = u \<and> h_AssetSymbol r = map ascii_upper (b_Asset b) \<and> h_Source r = wa_Chain a \<and> h_SourceRef r = Some ref)"
proof -
  let ?h = "balance_holding u (wa_Chain a) (Some wid) b"
  let ?hs = "known_holdings (catalog s) u (wa_Chain a) (Some wid) bs"
  have hs: "known_holdings (catalog s) u (wa_Chain a) (Some wid) (bs @ [b]) = ?hs @ [?h]" using assms(6) by (simp add: known_holdings_def)
  obtain hs' where up: "upsert_holdings (p_db env 1) 2 (p_new env) (p_now env 0) u (wa_Chain a) ref (?hs @ [?h]) (holdings w) = Inr hs'" "holdings w' = hs'"
    using assms(1-5,7) unfolding SyncWallet_def
    by (auto simp: hs UpsertBySource_def simp del: upsert_holdings.simps split: if_splits option.splits sum.splits prod.splits)
  show ?thesis using upsert_last_wins [OF up(1)] up(2) by (simp add: balance_holding_def)
qed

text \<open>Anyone can send a token that calls itself ETH. It is listed after the native balance, under the same symbol.\<close>

lemma spoofed_balances:
  assumes "fetchETHBalance env address = Inr q" "flt f0 q" "et_transfers env 0 address = Sent (Response 200 (Inr (''1'', msg, [tx])))"
    and "ef_TokenSymbol tx = ''ETH''" "atoi (ef_TokenDecimal tx) = Some d" "co_float env (ef_Value tx) = Inr v"
    and "map ascii_lower (ef_To tx) = map ascii_lower address" "map ascii_lower (ef_From tx) \<noteq> map ascii_lower address"
    and "fake = fadd f0 (fdiv v (co_pow10 env d))" "\<not> fle fake f0" "co_range env [''ETH''] = [''ETH'']"
  shows "et_FetchBalances env address = Inr ([\<lparr>b_Asset = ''ETH'', b_Quantity = q\<rparr>] @ [\<lparr>b_Asset = ''ETH'', b_Quantity = fake\<rparr>])"
proof -
  have up: "map ascii_upper ''ETH'' = ''ETH''" by code_simp
  have "net_transfer env address [] tx = [(''ETH'', fake)]"
    using assms(4-9) up by (simp add: net_transfer_def Let_def gm_get_def)
  then have "fetchERC20BalancesOnce env address 0 = Inr [\<lparr>b_Asset = ''ETH'', b_Quantity = fake\<rparr>]"
    using assms(3,10,11) by (simp add: fetchERC20BalancesOnce_def checked_ok Let_def gm_keys_def gm_get_def)
  then have "fetchERC20Balances env address = Inr [\<lparr>b_Asset = ''ETH'', b_Quantity = fake\<rparr>]"
    unfolding fetchERC20Balances_def by (rule attempts3_first)
  then show ?thesis using assms(1,2) by (simp add: et_FetchBalances_def with_tokens_def)
qed


text \<open>The address holds two ether; one unit of a token that calls itself ETH has come in.\<close>

definition demo_token :: erc20_transfer where
  "demo_token = \<lparr>ef_TokenSymbol = ''ETH'', ef_TokenDecimal = ''0'', ef_To = ''0xA'', ef_From = ''0xb'', ef_Value = ''1''\<rparr>"

definition demo_ethereum :: ethereum_conn where
  "demo_ethereum = \<lparr>co_float = (\<lambda>s. Inr (if s = ''wei'' then Fin (2 * 10 ^ 18) else Fin 1)), co_pow10 = (\<lambda>n. Fin (10 ^ nat n)), co_done = (\<lambda>k. None),
     co_range = (\<lambda>ks. ks), et_balance = (\<lambda>k a. Sent (Response 200 (Inr (''1'', ''OK'', ''wei'')))),
     et_transfers = (\<lambda>k a. Sent (Response 200 (Inr (''1'', ''OK'', [demo_token]))))\<rparr>"

definition demo_wallet :: WalletAddress where
  "demo_wallet = \<lparr>wa_ID = ''w'', wa_UserID = ''bob'', wa_Chain = ''ethereum'', wa_AddressPrefix = ''0xa'', wa_AddressCipher = ''mbobn0xa'', wa_AddressNonce = ''n'',
     wa_Label = [], wa_LabelCipher = [], wa_LabelNonce = [], wa_LastSyncAt = None, wa_CreatedAt = 1, wa_UpdatedAt = 1\<rparr>"

definition ether_service :: PortfolioService where
  "ether_service = demo_service\<lparr>walletMap := [''ethereum'' \<mapsto> et_FetchBalances demo_ethereum]\<rparr>"

definition ether_port :: port_world where
  "ether_port = demo_port\<lparr>wallets := [demo_wallet]\<rparr>"

lemma ether_answers:
  "fetchETHBalance demo_ethereum ''0xa'' = Inr (Fin 2)" "flt f0 (Fin 2)"
  "et_transfers demo_ethereum 0 ''0xa'' = Sent (Response 200 (Inr (''1'', ''OK'', [demo_token])))"
  unfolding fetchETHBalance_def
  by (rule attempts3_first) (simp_all add: fetchETHBalanceOnce_def checked_ok demo_ethereum_def)

lemma ether_token:
  "ef_TokenSymbol demo_token = ''ETH''" "atoi (ef_TokenDecimal demo_token) = Some 0" "co_float demo_ethereum (ef_Value demo_token) = Inr (Fin 1)"
  "map ascii_lower (ef_To demo_token) = map ascii_lower ''0xa''" "map ascii_lower (ef_From demo_token) \<noteq> map ascii_lower ''0xa''"
  by code_simp+

lemma ether_amount:
  "Fin 1 = fadd f0 (fdiv (Fin 1) (co_pow10 demo_ethereum 0))" "\<not> fle (Fin 1) f0" "co_range demo_ethereum [''ETH''] = [''ETH'']"
  by (simp_all add: demo_ethereum_def)

lemma ether_wallet:
  "wallet_FindByID (p_db demo_env 0 0) ''w'' ''bob'' (wallets ether_port) = Inr (Some demo_wallet)"
  "DecryptForUser (p_crypto demo_env) (encryption ether_service) ''bob'' (wa_AddressCipher demo_wallet) (wa_AddressNonce demo_wallet) = Inr ''0xa''"
  "''ETH'' \<in> set (catalog ether_service)" "p_parse demo_env ''w'' = Inr ''w''" "wa_Chain demo_wallet = ''ethereum''"
  by code_simp+

lemma ether_map: "walletMap ether_service ''ethereum'' = Some (et_FetchBalances demo_ethereum)"
  by (simp add: ether_service_def)

text \<open>The synchronisation itself succeeds.\<close>

lemma ether_sync:
  "fst (SyncWallet demo_env (demo_service\<lparr>walletMap := [''ethereum'' \<mapsto> (\<lambda>a. Inr [\<lparr>b_Asset = ''ETH'', b_Quantity = Fin 2\<rparr>, \<lparr>b_Asset = ''ETH'', b_Quantity = Fin 1\<rparr>])]\<rparr>)
     ''bob'' ''w'' ether_port) = Inr ()"
  by code_simp

lemma ether_sync_ok: "fst (SyncWallet demo_env ether_service ''bob'' ''w'' ether_port) = Inr ()"
proof -
  note fetched = spoofed_balances [OF ether_answers ether_token ether_amount]
  have "SyncWallet demo_env ether_service ''bob'' ''w'' ether_port =
    SyncWallet demo_env (demo_service\<lparr>walletMap := [''ethereum'' \<mapsto> (\<lambda>a. Inr [\<lparr>b_Asset = ''ETH'', b_Quantity = Fin 2\<rparr>, \<lparr>b_Asset = ''ETH'', b_Quantity = Fin 1\<rparr>])]\<rparr>)
     ''bob'' ''w'' ether_port"
    using ether_wallet(2) unfolding SyncWallet_def ether_wallet(1)
    by (simp add: ether_wallet(5) ether_service_def fetched)
  then show ?thesis by (simp add: ether_sync)
qed


end
