(* ===== verification/Messaging.thy ===== *)
theory Messaging
  imports Worker Executor_Props
begin

text \<open>
  The message paths of \<^verbatim>\<open>messaging/kafka\<close>: the two publishers, the consumer of market events with its batches, and the consumer of
  tasks. The encoding to JSON and the client library of the broker are arguments: what a write, a fetch and a commit end in. A consumer is
  run over the list of what its fetches return; when the list is used up, it waits.
\<close>

section \<open>Messages and publishers\<close>

record kafka_message =
  km_Key :: string
  km_Value :: string
  km_Time :: gotime

fun encode_all :: "('a \<Rightarrow> (string, string) result) \<Rightarrow> ('a \<Rightarrow> string \<Rightarrow> kafka_message) \<Rightarrow> 'a list \<Rightarrow> (string, kafka_message list) result" where
  "encode_all enc mk [] = Inr []"
| "encode_all enc mk (x # xs) =
     (case enc x of
        Inl e \<Rightarrow> Inl e
      | Inr body \<Rightarrow> (case encode_all enc mk xs of Inl e \<Rightarrow> Inl e | Inr ms \<Rightarrow> Inr (mk x body # ms)))"

text \<open>What is written; a publisher without brokers or topic is nil and writes nothing.\<close>

definition publish_all ::
    "bool \<Rightarrow> ('a \<Rightarrow> (string, string) result) \<Rightarrow> ('a \<Rightarrow> string \<Rightarrow> kafka_message) \<Rightarrow> (kafka_message list \<Rightarrow> string option) \<Rightarrow> 'a list \<Rightarrow>
       (string, kafka_message list) result" where
  "publish_all has_writer enc mk wr xs =
     (if \<not> has_writer \<or> xs = [] then Inr []
      else case encode_all enc mk xs of
        Inl e \<Rightarrow> Inl e
      | Inr ms \<Rightarrow> (case wr ms of Some e \<Rightarrow> Inl e | None \<Rightarrow> Inr ms))"

definition NewPublisher :: "string list \<Rightarrow> string \<Rightarrow> bool" where
  "NewPublisher brokers topic \<longleftrightarrow> brokers \<noteq> [] \<and> topic \<noteq> []"

definition candle_message :: "Candle \<Rightarrow> string \<Rightarrow> kafka_message" where
  "candle_message c body = \<lparr>km_Key = k_Pair c, km_Value = body, km_Time = from_unix (k_Timestamp c)\<rparr>"

definition PublishCandles ::
    "bool \<Rightarrow> (Candle \<Rightarrow> (string, string) result) \<Rightarrow> (kafka_message list \<Rightarrow> string option) \<Rightarrow> Candle list \<Rightarrow> (string, kafka_message list) result" where
  "PublishCandles has_writer enc wr cs = publish_all has_writer enc candle_message wr cs"

definition task_message :: "Task \<Rightarrow> string \<Rightarrow> kafka_message" where
  "task_message t body = \<lparr>km_Key = t_Pair t, km_Value = body, km_Time = 0\<rparr>"

definition Publish :: "bool \<Rightarrow> (Task \<Rightarrow> (string, string) result) \<Rightarrow> (kafka_message list \<Rightarrow> string option) \<Rightarrow> Task list \<Rightarrow> (string, kafka_message list) result" where
  "Publish has_writer enc wr ts = publish_all has_writer enc task_message wr ts"

section \<open>Market events\<close>

definition marketEventMaxBatch :: nat where "marketEventMaxBatch = 256"

definition marketEventGroupKey :: "Candle \<Rightarrow> string" where
  "marketEventGroupKey c = k_Pair c @ '':'' @ k_Interval c @ '':'' @ show_int (hour_of_unix (k_Timestamp c))"

definition NewMarketEventConsumer :: "string list \<Rightarrow> string \<Rightarrow> string \<Rightarrow> bool" where
  "NewMarketEventConsumer brokers topic groupID \<longleftrightarrow> brokers \<noteq> [] \<and> topic \<noteq> [] \<and> groupID \<noteq> []"

text \<open>Grouping: the map with the candles of each key, and the keys in the order of their first candle.\<close>

definition group_event ::
    "(string \<Rightarrow> (string, Candle) result) \<Rightarrow> (string, Candle list) gomap \<times> string list \<Rightarrow> kafka_message \<Rightarrow> (string, Candle list) gomap \<times> string list" where
  "group_event decode st message =
     (case st of (grouped, order) \<Rightarrow>
        case decode (km_Value message) of
          Inl e \<Rightarrow> (grouped, order)
        | Inr item \<Rightarrow>
            let key = marketEventGroupKey item
            in (gm_put key (gm_get grouped [] key @ [item]) grouped, if key \<in> set (gm_keys grouped) then order else order @ [key]))"

fun ingest_groups ::
    "(Candle list \<Rightarrow> 's \<Rightarrow> (string, unit) result \<times> 's) \<Rightarrow> (string, Candle list) gomap \<Rightarrow> string list \<Rightarrow> 's \<Rightarrow> (string, unit) result \<times> 's" where
  "ingest_groups sink grouped [] s = (Inr (), s)"
| "ingest_groups sink grouped (key # keys) s =
     (let items = gm_get grouped [] key in
      if items = [] then ingest_groups sink grouped keys s
      else case sink items s of
        (Inl e, s') \<Rightarrow> (Inl e, s')
      | (Inr _, s') \<Rightarrow> ingest_groups sink grouped keys s')"

definition handleBatch ::
    "(string \<Rightarrow> (string, Candle) result) \<Rightarrow> (Candle list \<Rightarrow> 's \<Rightarrow> (string, unit) result \<times> 's) \<Rightarrow> kafka_message list \<Rightarrow> 's \<Rightarrow> (string, unit) result \<times> 's" where
  "handleBatch decode sink messages s =
     (if messages = [] then (Inr (), s)
      else case foldl (group_event decode) ([], []) messages of (grouped, order) \<Rightarrow> ingest_groups sink grouped order s)"

text \<open>
  What the reader reports: a message or an error, together with the error of the outer context at that moment, or, while a batch is
  collected, that its window is over.
\<close>

datatype fetch_error = Canceled | DeadlineExceeded | FetchFailed string

datatype reader_event = WindowOver | Fetch "(fetch_error, kafka_message) result" "fetch_error option"

function collectBatch :: "reader_event list \<Rightarrow> kafka_message list \<Rightarrow> ((fetch_error, kafka_message list) result \<times> reader_event list) option" where
  "collectBatch evs messages =
     (if marketEventMaxBatch \<le> length messages then Some (Inr messages, evs)
      else case evs of
        [] \<Rightarrow> None
      | WindowOver # rest \<Rightarrow> Some (Inr messages, rest)
      | Fetch (Inr m) ctx # rest \<Rightarrow> collectBatch rest (messages @ [m])
      | Fetch (Inl e) ctx # rest \<Rightarrow>
          if e = DeadlineExceeded then Some (Inr messages, rest)
          else if e = Canceled \<and> ctx \<noteq> None then Some (Inl (the ctx), rest)
          else Some (Inl e, rest))"
  by pat_completeness auto
termination by (relation "measure (\<lambda>(evs, messages). length evs)") auto

declare collectBatch.simps [simp del]

text \<open>The consumer: its sink, what it has committed, and how many commits it has made.\<close>

record 's consumer =
  mc_sink :: 's
  mc_committed :: "kafka_message list"
  mc_round :: nat

datatype run_outcome = Waiting | Returned "string option"

fun fetch_error_text :: "fetch_error \<Rightarrow> string" where
  "fetch_error_text Canceled = ''context canceled''"
| "fetch_error_text DeadlineExceeded = ''context deadline exceeded''"
| "fetch_error_text (FetchFailed e) = e"

definition stopped_by :: "fetch_error \<Rightarrow> run_outcome" where
  "stopped_by e = Returned (if e = Canceled then None else Some (fetch_error_text e))"

lemma collectBatch_shorter: "collectBatch evs messages = Some (r, rest) \<Longrightarrow> length rest \<le> length evs"
proof (induction evs messages rule: collectBatch.induct)
  case (1 evs messages)
  from 1(2) show ?case
    by (subst (asm) collectBatch.simps)
      (auto split: if_splits list.splits reader_event.splits sum.splits dest: 1(1) [rotated 5])
qed

function market_Run ::
    "(string \<Rightarrow> (string, Candle) result) \<Rightarrow> (Candle list \<Rightarrow> 's \<Rightarrow> (string, unit) result \<times> 's) \<Rightarrow> (nat \<Rightarrow> string option) \<Rightarrow> reader_event list \<Rightarrow> 's consumer \<Rightarrow>
       run_outcome \<times> 's consumer" where
  "market_Run decode sink commit [] st = (Waiting, st)"
| "market_Run decode sink commit (WindowOver # rest) st = market_Run decode sink commit rest st"
| "market_Run decode sink commit (Fetch (Inl e) ctx # rest) st = (stopped_by e, st)"
| "market_Run decode sink commit (Fetch (Inr m) ctx # rest) st =
     (case collectBatch rest [m] of
        None \<Rightarrow> (Waiting, st)
      | Some (Inl e, rest') \<Rightarrow> (stopped_by e, st)
      | Some (Inr messages, rest') \<Rightarrow>
          (case handleBatch decode sink messages (mc_sink st) of
             (Inl e, s) \<Rightarrow> (Returned (Some e), st\<lparr>mc_sink := s\<rparr>)
           | (Inr _, s) \<Rightarrow>
               (case commit (mc_round st) of
                  Some e \<Rightarrow> (Returned (Some e), st\<lparr>mc_sink := s\<rparr>)
                | None \<Rightarrow>
                    market_Run decode sink commit rest'
                      \<lparr>mc_sink = s, mc_committed = mc_committed st @ messages, mc_round = Suc (mc_round st)\<rparr>)))"
  by pat_completeness auto
termination
  by (relation "measure (\<lambda>(decode, sink, commit, evs, st). length evs)") (auto dest: collectBatch_shorter)

section \<open>Tasks\<close>

text \<open>A task that fails is only logged, like a message that cannot be read, so both are committed.\<close>

definition task_handleMessage :: "(string \<Rightarrow> (string, Task) result) \<Rightarrow> (Task \<Rightarrow> 's \<Rightarrow> (string, unit) result \<times> 's) \<Rightarrow> kafka_message \<Rightarrow> 's \<Rightarrow> 's" where
  "task_handleMessage decode handler message s =
     (case decode (km_Value message) of Inl e \<Rightarrow> s | Inr item \<Rightarrow> snd (handler item s))"

fun task_Run ::
    "(string \<Rightarrow> (string, Task) result) \<Rightarrow> (Task \<Rightarrow> 's \<Rightarrow> (string, unit) result \<times> 's) \<Rightarrow> (nat \<Rightarrow> string option) \<Rightarrow> (fetch_error, kafka_message) result list \<Rightarrow> 's consumer \<Rightarrow>
       run_outcome \<times> 's consumer" where
  "task_Run decode handler commit [] st = (Waiting, st)"
| "task_Run decode handler commit (Inl e # rest) st = (stopped_by e, st)"
| "task_Run decode handler commit (Inr m # rest) st =
     (let s = task_handleMessage decode handler m (mc_sink st) in
      case commit (mc_round st) of
        Some e \<Rightarrow> (Returned (Some e), st\<lparr>mc_sink := s\<rparr>)
      | None \<Rightarrow>
          task_Run decode handler commit rest \<lparr>mc_sink = s, mc_committed = mc_committed st @ [m], mc_round = Suc (mc_round st)\<rparr>)"

section \<open>Topics\<close>

text \<open>\<^verbatim>\<open>admin.go\<close>; connecting, asking for the controller and creating topics are arguments. Nothing in the program calls it.\<close>

record TopicConfig =
  tc_Name :: string
  tc_NumPartitions :: int
  tc_ReplicationFactor :: int

record kafka_admin =
  ka_dial :: "string \<Rightarrow> string option"
  ka_controller :: "(string, string \<times> int) result"
  ka_create :: "TopicConfig list \<Rightarrow> string option"

text \<open>The error of the last broker when none can be reached.\<close>

fun first_dial :: "(string \<Rightarrow> string option) \<Rightarrow> string list \<Rightarrow> string option" where
  "first_dial dial [] = None"
| "first_dial dial [b] = dial b"
| "first_dial dial (b # bs) = (case dial b of None \<Rightarrow> None | Some e \<Rightarrow> first_dial dial bs)"

definition topic_configs :: "TopicConfig list \<Rightarrow> TopicConfig list" where
  "topic_configs topics =
     map (\<lambda>t. t\<lparr>tc_NumPartitions := (if tc_NumPartitions t \<le> 0 then 1 else tc_NumPartitions t),
               tc_ReplicationFactor := (if tc_ReplicationFactor t \<le> 0 then 1 else tc_ReplicationFactor t)\<rparr>)
       (filter (\<lambda>t. TrimSpace (tc_Name t) \<noteq> []) topics)"

definition join_host_port :: "string \<Rightarrow> int \<Rightarrow> string" where
  "join_host_port host port = (if CHR '':'' \<in> set host then ''['' @ host @ '']:'' else host @ '':'') @ show_int port"

definition ensureTopicsOnceWithDialer :: "kafka_admin \<Rightarrow> string list \<Rightarrow> TopicConfig list \<Rightarrow> string option" where
  "ensureTopicsOnceWithDialer k brokers topics =
     (case first_dial (ka_dial k) brokers of
        Some e \<Rightarrow> Some e
      | None \<Rightarrow>
          (case ka_controller k of
             Inl e \<Rightarrow> Some e
           | Inr (host, port) \<Rightarrow>
               (case ka_dial k (join_host_port host port) of
                  Some e \<Rightarrow> Some e
                | None \<Rightarrow>
                    if topic_configs topics = [] then None
                    else case ka_create k (topic_configs topics) of
                      None \<Rightarrow> None
                    | Some e \<Rightarrow> if go_contains e ''Topic with this name already exists'' then None else Some e)))"

text \<open>\<open>fin k\<close> is the error of the context when it ends while the program waits after attempt \<open>k\<close>.\<close>

fun ensure_attempts :: "(nat \<Rightarrow> string option) \<Rightarrow> (nat \<Rightarrow> string option) \<Rightarrow> nat \<Rightarrow> nat \<Rightarrow> string option" where
  "ensure_attempts fin once 0 k = None"
| "ensure_attempts fin once (Suc n) k =
     (case once k of
        None \<Rightarrow> None
      | Some e \<Rightarrow>
          if n = 0 then Some (''ensure kafka topics: '' @ e)
          else case fin k of Some e' \<Rightarrow> Some e' | None \<Rightarrow> ensure_attempts fin once n (Suc k))"

definition ensureTopicsWithRetry ::
    "(nat \<Rightarrow> string option) \<Rightarrow> (nat \<Rightarrow> kafka_admin) \<Rightarrow> string list \<Rightarrow> TopicConfig list \<Rightarrow> int \<Rightarrow> string option" where
  "ensureTopicsWithRetry fin ks brokers topics attempts =
     (if brokers = [] \<or> topics = [] then None
      else ensure_attempts fin (\<lambda>k. ensureTopicsOnceWithDialer (ks k) brokers topics) (nat (if attempts \<le> 0 then 1 else attempts)) 0)"

definition EnsureTopics :: "(nat \<Rightarrow> string option) \<Rightarrow> (nat \<Rightarrow> kafka_admin) \<Rightarrow> string list \<Rightarrow> TopicConfig list \<Rightarrow> string option" where
  "EnsureTopics fin ks brokers topics = ensureTopicsWithRetry fin ks brokers topics 10"

end
