(* ===== verification/Messaging_Props.thy ===== *)
theory Messaging_Props
  imports Messaging
begin

text \<open>
  Results about the message paths. The service behind the consumer of market events takes the hour it consolidates from the first candle of a
  batch, so it relies on being given candles of one pair and one hour; \<^verbatim>\<open>candle_sink\<close> states that contract, and the realtime ingestion
  meets it.
\<close>

section \<open>Grouping\<close>

definition decoded :: "(string \<Rightarrow> (string, Candle) result) \<Rightarrow> kafka_message list \<Rightarrow> Candle list" where
  "decoded decode ms = List.map_filter (\<lambda>m. case decode (km_Value m) of Inl e \<Rightarrow> None | Inr c \<Rightarrow> Some c) ms"

lemma decoded_simps [simp]:
  "decoded decode [] = []"
  "decoded decode (ms @ ms') = decoded decode ms @ decoded decode ms'"
  "decoded decode (m # ms) = (case decode (km_Value m) of Inl e \<Rightarrow> decoded decode ms | Inr c \<Rightarrow> c # decoded decode ms)"
  by (simp_all add: decoded_def List.map_filter_def split: sum.split)

lemma set_decoded: "set (decoded decode ms) = {c. \<exists>m\<in>set ms. decode (km_Value m) = Inr c}"
  by (induction ms) (auto split: sum.splits)

text \<open>Every readable candle ends up in the group of its key, in order, and no group is empty.\<close>

lemma group_events_spec:
  "\<exists>g. foldl (group_event decode) ([], []) ms = (g, gm_keys g) \<and> distinct (gm_keys g) \<and>
     set (gm_keys g) = marketEventGroupKey ` set (decoded decode ms) \<and>
     (\<forall>k. gm_get g [] k = filter (\<lambda>c. marketEventGroupKey c = k) (decoded decode ms))"
proof (induction ms rule: rev_induct)
  case (snoc m ms)
  then obtain g where g: "foldl (group_event decode) ([], []) ms = (g, gm_keys g)" "distinct (gm_keys g)"
    "set (gm_keys g) = marketEventGroupKey ` set (decoded decode ms)"
    "\<And>k. gm_get g [] k = filter (\<lambda>c. marketEventGroupKey c = k) (decoded decode ms)" by blast
  show ?case
  proof (cases "decode (km_Value m)")
    case (Inl e)
    then have "group_event decode (g, gm_keys g) m = (g, gm_keys g)" by (simp add: group_event_def)
    then show ?thesis using g Inl by auto
  next
    case (Inr c)
    let ?k = "marketEventGroupKey c"
    let ?g = "gm_put ?k (gm_get g [] ?k @ [c]) g"
    have "group_event decode (g, gm_keys g) m = (?g, gm_keys ?g)" using Inr by (simp add: group_event_def Let_def gm_keys_put)
    then have "foldl (group_event decode) ([], []) (ms @ [m]) = (?g, gm_keys ?g)" using g(1) by simp
    moreover have "distinct (gm_keys ?g)" using g(2) by (rule distinct_gm_keys_put)
    moreover have "set (gm_keys ?g) = marketEventGroupKey ` set (decoded decode (ms @ [m]))" using Inr g(3) by simp
    moreover have "gm_get ?g [] k = filter (\<lambda>c. marketEventGroupKey c = k) (decoded decode (ms @ [m]))" for k
      using Inr g(4) by (simp add: gm_get_put)
    ultimately show ?thesis by blast
  qed
qed (simp add: gm_keys_def)

text \<open>A key determines the hour, and the pair as long as the names of pairs have no colon.\<close>

lemma group_key_inj:
  assumes "marketEventGroupKey c = marketEventGroupKey d" "CHR '':'' \<notin> set (k_Pair c)" "CHR '':'' \<notin> set (k_Pair d)"
  shows "k_Pair c = k_Pair d \<and> hour_of_unix (k_Timestamp c) = hour_of_unix (k_Timestamp d)"
proof -
  have "k_Pair c @ '':'' @ k_Interval c = k_Pair d @ '':'' @ k_Interval d \<and>
      show_int (hour_of_unix (k_Timestamp c)) = show_int (hour_of_unix (k_Timestamp d))"
    by (rule append_sep_inj [OF show_int_no_colon show_int_no_colon]) (use assms(1) in \<open>simp add: marketEventGroupKey_def\<close>)
  then show ?thesis using sep_append_inj [OF assms(2,3), of "k_Interval c" "k_Interval d"] by simp
qed

definition one_hour :: "Candle list \<Rightarrow> bool" where
  "one_hour items \<longleftrightarrow> (\<forall>c\<in>set items. k_Pair c = k_Pair (hd items) \<and> hour_of_unix (k_Timestamp c) = hour_of_unix (k_Timestamp (hd items)))"

definition plain_pairs :: "(string \<Rightarrow> (string, Candle) result) \<Rightarrow> bool" where
  "plain_pairs decode \<longleftrightarrow> (\<forall>v c. decode v = Inr c \<longrightarrow> CHR '':'' \<notin> set (k_Pair c))"

lemma one_hour_group:
  assumes "\<And>c. c \<in> set cs \<Longrightarrow> CHR '':'' \<notin> set (k_Pair c)"
  shows "one_hour (filter (\<lambda>c. marketEventGroupKey c = k) cs)"
proof (cases "filter (\<lambda>c. marketEventGroupKey c = k) cs")
  case (Cons d ds)
  then have d: "d \<in> set (filter (\<lambda>c. marketEventGroupKey c = k) cs)" by simp
  have "k_Pair c = k_Pair d \<and> hour_of_unix (k_Timestamp c) = hour_of_unix (k_Timestamp d)"
    if "c \<in> set (filter (\<lambda>c. marketEventGroupKey c = k) cs)" for c
  proof (rule group_key_inj)
    show "marketEventGroupKey c = marketEventGroupKey d" using that d by simp
    show "CHR '':'' \<notin> set (k_Pair c)" "CHR '':'' \<notin> set (k_Pair d)" by (rule assms; use that d in simp)+
  qed
  then show ?thesis unfolding one_hour_def Cons list.sel by blast
qed (simp add: one_hour_def)

section \<open>The contract of the sink\<close>

locale candle_sink =
  fixes sink :: "Candle list \<Rightarrow> 's \<Rightarrow> (string, unit) result \<times> 's"
    and ok :: "'s \<Rightarrow> bool"
    and settled :: "'s \<Rightarrow> Candle \<Rightarrow> bool"
  assumes sink_ok: "ok s \<Longrightarrow> ok (snd (sink items s))"
    and sink_settles: "ok s \<Longrightarrow> one_hour items \<Longrightarrow> sink items s = (Inr (), s') \<Longrightarrow> c \<in> set items \<Longrightarrow> settled s' c"
    and sink_keeps: "settled s c \<Longrightarrow> settled (snd (sink items s)) c"
begin

lemma ingest_groups_ok: "ok s \<Longrightarrow> ok (snd (ingest_groups sink g keys s))"
proof (induction keys arbitrary: s)
  case (Cons key keys)
  then show ?case using sink_ok [OF Cons.prems, of "gm_get g [] key"]
    by (cases "sink (gm_get g [] key) s") (auto simp: Let_def split: sum.split)
qed simp

lemma ingest_groups_keeps: "settled s c \<Longrightarrow> settled (snd (ingest_groups sink g keys s)) c"
proof (induction keys arbitrary: s)
  case (Cons key keys)
  then show ?case using sink_keeps [OF Cons.prems, of "gm_get g [] key"]
    by (cases "sink (gm_get g [] key) s") (auto simp: Let_def split: sum.split)
qed simp

lemma ingest_groups_settles:
  assumes "ok s" "ingest_groups sink g keys s = (Inr (), s')" "\<And>k. one_hour (gm_get g [] k)" "k \<in> set keys" "c \<in> set (gm_get g [] k)"
  shows "settled s' c"
  using assms(1,2,4)
proof (induction keys arbitrary: s)
  case (Cons key keys)
  show ?case
  proof (cases "gm_get g [] key = []")
    case True
    then show ?thesis using Cons assms(5) by (auto simp: Let_def)
  next
    case False
    then obtain s1 where s1: "sink (gm_get g [] key) s = (Inr (), s1)" "ingest_groups sink g keys s1 = (Inr (), s')"
      using Cons.prems(2) by (auto simp: Let_def split: prod.splits sum.splits)
    have ok1: "ok s1" using sink_ok [OF Cons.prems(1)] s1(1) by (metis snd_conv)
    show ?thesis
    proof (cases "k = key")
      case True
      then have "settled s1 c" using sink_settles [OF Cons.prems(1) assms(3) s1(1)] assms(5) by simp
      then show ?thesis using ingest_groups_keeps [of s1 c g keys] s1(2) by simp
    next
      case False
      then show ?thesis using Cons.IH [OF ok1 s1(2)] Cons.prems(3) by simp
    qed
  qed
qed simp

lemma handleBatch_ok: "ok s \<Longrightarrow> ok (snd (handleBatch decode sink ms s))"
  by (simp add: handleBatch_def ingest_groups_ok prod.case_eq_if)

lemma handleBatch_keeps: "settled s c \<Longrightarrow> settled (snd (handleBatch decode sink ms s)) c"
  by (simp add: handleBatch_def ingest_groups_keeps prod.case_eq_if)

lemma handleBatch_settles:
  assumes "ok s" "plain_pairs decode" "handleBatch decode sink ms s = (Inr (), s')" "c \<in> set (decoded decode ms)"
  shows "settled s' c"
proof -
  obtain g where g: "foldl (group_event decode) ([], []) ms = (g, gm_keys g)" "set (gm_keys g) = marketEventGroupKey ` set (decoded decode ms)"
    "\<And>k. gm_get g [] k = filter (\<lambda>c. marketEventGroupKey c = k) (decoded decode ms)" using group_events_spec [of decode ms] by blast
  have "\<And>k. one_hour (gm_get g [] k)"
    unfolding g(3) by (rule one_hour_group) (use assms(2) in \<open>auto simp: set_decoded plain_pairs_def\<close>)
  moreover have "ingest_groups sink g (gm_keys g) s = (Inr (), s')" using assms(3,4) g(1) by (auto simp: handleBatch_def split: if_splits)
  ultimately show ?thesis using ingest_groups_settles [OF assms(1), of g "gm_keys g" s' "marketEventGroupKey c" c] g(2,3) assms(4) by auto
qed

text \<open>Whatever happens, what has been committed is settled.\<close>

lemma committed_settled:
  assumes "market_Run decode sink commit evs st = (out, st')" "ok (mc_sink st)" "plain_pairs decode"
    and "\<And>c. c \<in> set (decoded decode (mc_committed st)) \<Longrightarrow> settled (mc_sink st) c"
  shows "ok (mc_sink st') \<and> (\<forall>c\<in>set (decoded decode (mc_committed st')). settled (mc_sink st') c)"
  using assms(1,2,4)
proof (induction "length evs" arbitrary: evs st rule: less_induct)
  case less
  consider "evs = []" | rest where "evs = WindowOver # rest" | e ctx rest where "evs = Fetch (Inl e) ctx # rest"
    | m ctx rest where "evs = Fetch (Inr m) ctx # rest"
    by (metis list.exhaust reader_event.exhaust sum.exhaust)
  then show ?case
  proof cases
    case 2
    then show ?thesis using less.hyps [of rest st] less.prems by simp
  next
    case 4
    note run = less.prems(1) [unfolded 4 market_Run.simps]
    consider "st' = st" | ms rest' where "collectBatch rest [m] = Some (Inr ms, rest')"
      using run by (auto split: option.splits sum.splits)
    then show ?thesis
    proof cases
      case 1
      then show ?thesis using less.prems by simp
    next
      case batch: (2 ms rest')
      obtain r s where h: "handleBatch decode sink ms (mc_sink st) = (r, s)" by fastforce
      have s: "ok s" "\<And>c. c \<in> set (decoded decode (mc_committed st)) \<Longrightarrow> settled s c"
        using handleBatch_ok [OF less.prems(2), of decode ms] handleBatch_keeps [OF less.prems(3), of _ decode ms] h by auto
      show ?thesis
      proof (cases "r = Inr () \<and> commit (mc_round st) = None")
        case True
        have "settled s c" if "c \<in> set (decoded decode (mc_committed st @ ms))" for c
          using that s(2) handleBatch_settles [OF less.prems(2) assms(3), of ms s c] h True by auto
        moreover have "length rest' < length evs" using collectBatch_shorter [OF batch] 4 by simp
        ultimately show ?thesis using less.hyps [of rest' "\<lparr>mc_sink = s, mc_committed = mc_committed st @ ms, mc_round = Suc (mc_round st)\<rparr>"]
            run batch h True s(1) by simp
      next
        case False
        then have "st' = st\<lparr>mc_sink := s\<rparr>" using run batch h by (auto split: sum.splits option.splits)
        then show ?thesis using s by simp
      qed
    qed
  qed (use less.prems in auto)
qed

end

section \<open>Realtime ingestion as the sink\<close>

text \<open>The ingestion with what its successive calls meet. The orderings of the database and of \<^verbatim>\<open>sort.Slice\<close> only permute.\<close>

record ingest_state =
  is_env :: "nat \<Rightarrow> exec_env"
  is_calls :: nat
  is_world :: exec_world

definition realtime_sink :: "bool \<Rightarrow> Candle list \<Rightarrow> ingest_state \<Rightarrow> (string, unit) result \<times> ingest_state" where
  "realtime_sink notif items s =
     (case IngestRealtimeCandles (is_env s (is_calls s)) notif items (is_world s) of
        (r, w) \<Rightarrow> (r, s\<lparr>is_calls := Suc (is_calls s), is_world := w\<rparr>))"

definition orders_permute :: "ingest_state \<Rightarrow> bool" where
  "orders_permute s \<longleftrightarrow> (\<forall>k xs. set (x_by_source (is_env s k) xs) = set xs \<and> set (x_arrange (is_env s k) xs) = set xs)"

text \<open>A candle is settled when its raw sample is stored and its hour has a consolidated candle.\<close>

definition settled_in :: "market_db \<Rightarrow> Candle \<Rightarrow> bool" where
  "settled_in db c \<longleftrightarrow> raw_key (c\<lparr>k_Interval := ''1h''\<rparr>) \<in> raw_key ` set (raw_candles db) \<and>
     (k_Pair c, hour_of_unix (k_Timestamp c)) \<in> candle_key ` set (candles_1h db)"

definition settled_row :: "ingest_state \<Rightarrow> Candle \<Rightarrow> bool" where
  "settled_row s c \<longleftrightarrow> settled_in (market (is_world s)) c"

lemma keys_upsert: "key ` set (sql_upsert key new (\<lambda>_. new) rs) = insert (key new) (key ` set rs)"
  by (auto simp: set_replace)

lemma keys_fold_upsert: "key ` set (fold (\<lambda>c. sql_upsert key (g c) (\<lambda>_. g c)) cs rs) = (\<lambda>c. key (g c)) ` set cs \<union> key ` set rs"
  by (induction cs arbitrary: rs) (auto simp: keys_upsert)

lemma UpsertRawCandles_keys:
  "raw_key ` set (raw_candles (snd (UpsertRawCandles err i cs db))) =
     (if err = None then (\<lambda>c. raw_key (c\<lparr>k_Interval := i\<rparr>)) ` set cs else {}) \<union> raw_key ` set (raw_candles db)"
  "candles_1h (snd (UpsertRawCandles err i cs db)) = candles_1h db"
  by (simp_all add: UpsertRawCandles_def keys_fold_upsert split: option.split)

lemma UpsertCandles_keys:
  "candle_key ` set (candles_1h (snd (UpsertCandles err ''1h'' cs db))) =
     (if err = None then candle_key ` set cs else {}) \<union> candle_key ` set (candles_1h db)"
  by (simp add: UpsertCandles_def candleTable_def put_candles_def keys_fold_upsert split: option.split)
    (simp add: candle_key_def stored_candle_def)

lemma settled_in_mono:
  "settled_in db c \<Longrightarrow> settled_in (snd (UpsertRawCandles err i cs db)) c" "settled_in db c \<Longrightarrow> settled_in (snd (UpsertCandles err' ''1h'' ds db)) c"
  by (simp_all add: settled_in_def UpsertRawCandles_keys UpsertCandles_keys)

text \<open>The two steps of the ingestion that write, and what its last one writes.\<close>

lemma ingest_steps:
  assumes "IngestRealtimeCandles env n (first # rest) w = (r, w')"
  defines "db1 \<equiv> snd (UpsertRawCandles (x_db env 0) ''1h'' (first # rest) (market w))"
  shows "market w' = db1 \<or> (\<exists>out. market w' = snd (UpsertCandles (x_db env 2) ''1h'' out db1))"
    "r = Inr () \<Longrightarrow> \<exists>raw out. x_db env 0 = None \<and>
       RawCandles (x_by_source env) (x_db env 1) (k_Pair first) ''1h'' (trunc_time (from_unix (k_Timestamp first)) Hour)
         (trunc_time (from_unix (k_Timestamp first)) Hour + Hour) db1 = Inr raw \<and>
       FromRaw (x_arrange env) ''1h'' raw = Inr out \<and>
       (out = [] \<or> x_db env 2 = None \<and> market w' = snd (UpsertCandles (x_db env 2) ''1h'' out db1))"
  using assms(1) unfolding db1_def IngestRealtimeCandles_def
  by (auto simp: Let_def UpsertRawCandles_def UpsertCandles_def candleTable_def split: option.splits sum.splits if_splits)

text \<open>The hour of a raw sample of one pair is among the candles they are consolidated to.\<close>

lemma FromRaw_has_hour:
  assumes "FromRaw arrange ''1h'' raw = Inr out" "x \<in> set raw" "\<And>y. y \<in> set raw \<Longrightarrow> k_Pair y = p" "\<And>xs. set (arrange xs) = set xs"
  shows "(p, hour_of_unix (k_Timestamp x)) \<in> candle_key ` set out"
proof -
  let ?k = "hour_of_unix (k_Timestamp x)"
  let ?g = "filter (\<lambda>it. raw_group_key ''1h'' it = ?k) raw"
  let ?u = "arrange (map snd (unique_subintervals ?g))"
  have x: "x \<in> set ?g" using assms(2) by (simp add: raw_group_key_def)
  have sub: "set (last_snapshots items) \<subseteq> set items" "items \<noteq> [] \<Longrightarrow> last_snapshots items \<noteq> []" for items
    by (induction items) (auto, metis empty_iff list.set(1))
  have u: "set ?u = set (last_snapshots ?g)" using unique_subintervals_spec [of ?g] assms(4) by simp
  then have "?u \<noteq> []" using sub(2) [of ?g] x by (metis length_greater_0_conv length_pos_if_in_set set_empty)
  then have "hd ?u \<in> set raw" using u sub(1) [of ?g] hd_in_set [of ?u] by auto
  then have key: "candle_key (consolidate_group arrange ''1h'' ?k ?g) = (p, ?k)"
    using assms(3) [of "hd ?u"] unfolding candle_key_def consolidate_group_def Let_def by simp
  have "consolidate_group arrange ''1h'' ?k ?g \<in> set out"
    using assms(2) unfolding FromRaw_Inr [OF assms(1)] by (auto simp: raw_group_key_def)
  then show ?thesis by (rule rev_image_eqI) (rule key [symmetric])
qed

lemma hour_window: "hour_of_unix s = hour_of_unix t \<Longrightarrow>
    trunc_time (from_unix t) Hour \<le> from_unix s \<and> from_unix s < trunc_time (from_unix t) Hour + Hour"
  for s t :: int
proof -
  assume same: "hour_of_unix s = hour_of_unix t"
  have *: "trunc_time (from_unix t) Hour = from_unix (hour_of_unix t)" for t
  proof -
    have "(t + unix_offset) mod 3600 = t mod 3600" by (simp add: unix_offset_def mod_add_right_eq [symmetric] del: mod_add_right_eq)
    moreover have "from_unix t mod Hour = ((t + unix_offset) mod 3600) * Second"
      using mod_mult_mult2 [of "t + unix_offset" Second 3600] by (simp add: from_unix_def)
    ultimately show ?thesis by (simp add: trunc_time_def from_unix_def hour_of_unix_eq algebra_simps)
  qed
  have "hour_of_unix s \<le> s" "s < hour_of_unix s + 3600" by (simp_all add: hour_of_unix_eq)
  then show ?thesis unfolding * same [symmetric] by (simp add: from_unix_def)
qed

lemma ingest_settles:
  assumes "IngestRealtimeCandles env n items w = (Inr (), w')" "one_hour items" "c \<in> set items"
    and "\<And>xs. set (x_by_source env xs) = set xs" "\<And>xs. set (x_arrange env xs) = set xs"
  shows "settled_in (market w') c"
proof -
  obtain first rest where items: "items = first # rest" using assms(3) by (cases items) auto
  let ?db = "snd (UpsertRawCandles (x_db env 0) ''1h'' items (market w))"
  obtain raw out where run: "x_db env 0 = None"
    "RawCandles (x_by_source env) (x_db env 1) (k_Pair first) ''1h'' (trunc_time (from_unix (k_Timestamp first)) Hour)
         (trunc_time (from_unix (k_Timestamp first)) Hour + Hour) ?db = Inr raw"
    "FromRaw (x_arrange env) ''1h'' raw = Inr out" "out = [] \<or> x_db env 2 = None \<and> market w' = snd (UpsertCandles (x_db env 2) ''1h'' out ?db)"
    using ingest_steps(2) [OF assms(1) [unfolded items]] items by blast
  have same: "k_Pair c = k_Pair first" "hour_of_unix (k_Timestamp c) = hour_of_unix (k_Timestamp first)"
    using assms(2,3) items by (auto simp: one_hour_def)
  have raws: "raw_key (c\<lparr>k_Interval := ''1h''\<rparr>) \<in> raw_key ` set (raw_candles ?db)" using assms(3) run(1) by (simp add: UpsertRawCandles_keys)
  then obtain x where x: "x \<in> set (raw_candles ?db)" "k_Pair x = k_Pair c" "k_Interval x = ''1h''" "k_Timestamp x = k_Timestamp c"
    by (auto simp: raw_key_def)
  have "x \<in> set raw" using run(2) x same hour_window [of "k_Timestamp c" "k_Timestamp first"] assms(4)
    by (auto simp: RawCandles_def in_window_def split: option.splits)
  moreover have "k_Pair y = k_Pair first" if "y \<in> set raw" for y using run(2) that assms(4) by (auto simp: RawCandles_def split: option.splits)
  ultimately have "(k_Pair c, hour_of_unix (k_Timestamp c)) \<in> candle_key ` set out"
    using FromRaw_has_hour [OF run(3), of x "k_Pair first"] assms(5) x(4) same by simp
  then show ?thesis using run(4) raws by (auto simp: settled_in_def UpsertCandles_keys)
qed

lemma ingest_keeps: "settled_in (market w) c \<Longrightarrow> settled_in (market (snd (IngestRealtimeCandles env n items w))) c"
proof (cases items)
  case (Cons first rest)
  obtain r w' where run: "IngestRealtimeCandles env n (first # rest) w = (r, w')" by fastforce
  assume "settled_in (market w) c"
  then show ?thesis using ingest_steps(1) [OF run] unfolding Cons run by (auto simp: settled_in_mono)
qed (simp add: IngestRealtimeCandles_def)

interpretation realtime: candle_sink "realtime_sink n" orders_permute settled_row for n
proof unfold_locales
  fix s s' :: ingest_state and items c
  assume "orders_permute s" "one_hour items" "realtime_sink n items s = (Inr (), s')" "c \<in> set items"
  then show "settled_row s' c"
    using ingest_settles [of "is_env s (is_calls s)" n items "is_world s" "is_world s'" c]
    by (auto simp: realtime_sink_def orders_permute_def settled_row_def split: prod.splits)
qed (auto simp: realtime_sink_def orders_permute_def settled_row_def prod.case_eq_if intro: ingest_keeps)

text \<open>
  \<^bold>\<open>C38\<close>. What the consumer of market events has committed is in the database, whatever fails on the way: for every readable candle of a
  committed message the raw sample is stored and its hour has a consolidated candle. Batches are cut by pair and hour, so that
  the ingestion, which only looks at the first candle of a batch, rebuilds the hour of each. The readable candles are assumed to be
  of pairs without a colon in their names.
\<close>

theorem committed_events_stored:
  assumes "market_Run decode (realtime_sink n) commit evs \<lparr>mc_sink = s, mc_committed = [], mc_round = 0\<rparr> = (out, st)"
    and "orders_permute s" "plain_pairs decode" "m \<in> set (mc_committed st)" "decode (km_Value m) = Inr c"
  shows "raw_key (c\<lparr>k_Interval := ''1h''\<rparr>) \<in> raw_key ` set (raw_candles (market (is_world (mc_sink st)))) \<and>
    (k_Pair c, hour_of_unix (k_Timestamp c)) \<in> candle_key ` set (candles_1h (market (is_world (mc_sink st))))"
proof -
  have "c \<in> set (decoded decode (mc_committed st))" using assms(4,5) by (auto simp: set_decoded)
  moreover have "orders_permute (mc_sink st) \<and> (\<forall>c\<in>set (decoded decode (mc_committed st)). settled_row (mc_sink st) c)"
    by (rule realtime.committed_settled [OF assms(1)]) (simp_all add: assms(2,3))
  ultimately show ?thesis by (auto simp: settled_row_def settled_in_def)
qed

text \<open>
  Two candles of one pair come in one batch, in different hours, and a message that cannot be read lies between them.
\<close>

definition demo_event :: "int \<Rightarrow> Candle" where
  "demo_event t = \<lparr>k_Pair = ''BTCEUR'', k_Interval = ''1m'', k_Timestamp = t, k_Open = Fin 1, k_High = Fin 1, k_Low = Fin 1, k_Close = Fin 1,
     k_Volume = Fin 1, k_Volume24H = f0, k_Source = ''kraken'', k_Finalized = True\<rparr>"

definition demo_decode :: "string \<Rightarrow> (string, Candle) result" where
  "demo_decode v = (if v = ''a'' then Inr (demo_event 10) else if v = ''b'' then Inr (demo_event 3700) else Inl ''bad'')"

definition demo_message :: "string \<Rightarrow> kafka_message" where
  "demo_message v = \<lparr>km_Key = ''BTCEUR'', km_Value = v, km_Time = 0\<rparr>"

definition demo_exec_env :: exec_env where
  "demo_exec_env = \<lparr>x_now = 0, x_db = (\<lambda>k. None), x_loop = (\<lambda>t k. None), x_by_source = (\<lambda>xs. xs), x_arrange = (\<lambda>xs. xs), x_publish = None\<rparr>"

definition demo_ingest :: ingest_state where
  "demo_ingest = \<lparr>is_env = (\<lambda>k. demo_exec_env), is_calls = 0, is_world = \<lparr>market = \<lparr>candles_1h = [], candles_1d = [], raw_candles = []\<rparr>,
     sync = [], coverage = [], integrity = [], notified_pairs = [], published = []\<rparr>\<rparr>"

definition demo_consume :: "run_outcome \<times> ingest_state consumer" where
  "demo_consume = market_Run demo_decode (realtime_sink True) (\<lambda>k. None)
     [Fetch (Inr (demo_message ''a'')) None, Fetch (Inr (demo_message ''?'')) None, Fetch (Inr (demo_message ''b'')) None, WindowOver]
     \<lparr>mc_sink = demo_ingest, mc_committed = [], mc_round = 0\<rparr>"

lemma IngestRealtimeCandles_succeeds:
  assumes "\<And>k. x_db env k = None"
  shows "fst (IngestRealtimeCandles env n items w) = Inr ()"
  using assms
  by (auto simp: IngestRealtimeCandles_def UpsertRawCandles_def UpsertCandles_def RawCandles_def FromRaw_def candleTable_def Let_def
      split: list.split)

text \<open>Without failures of the database everything fetched is committed.\<close>

lemma realtime_sink_succeeds:
  "(\<And>k j. x_db (is_env s k) j = None) \<Longrightarrow> \<exists>s'. realtime_sink n items s = (Inr (), s') \<and> is_env s' = is_env s"
  using IngestRealtimeCandles_succeeds [of "is_env s (is_calls s)" n items "is_world s"]
  by (auto simp: realtime_sink_def prod.case_eq_if)

lemma ingest_groups_succeeds:
  "(\<And>k j. x_db (is_env s k) j = None) \<Longrightarrow> \<exists>s'. ingest_groups (realtime_sink n) g keys s = (Inr (), s') \<and> is_env s' = is_env s"
proof (induction keys arbitrary: s)
  case (Cons key keys)
  obtain s1 where "realtime_sink n (gm_get g [] key) s = (Inr (), s1)" "is_env s1 = is_env s"
    using realtime_sink_succeeds [OF Cons.prems] by blast
  then show ?case using Cons.IH [of s1] Cons.IH [of s] Cons.prems by (auto simp: Let_def)
qed simp

lemma handleBatch_succeeds:
  assumes "\<And>k j. x_db (is_env s k) j = None"
  obtains s' where "handleBatch decode (realtime_sink n) ms s = (Inr (), s')"
proof (cases "ms = []")
  case False
  obtain g keys where g: "foldl (group_event decode) ([], []) ms = (g, keys)" by fastforce
  obtain s' where "ingest_groups (realtime_sink n) g keys s = (Inr (), s')" using ingest_groups_succeeds [OF assms] by blast
  then show ?thesis using that g False by (simp add: handleBatch_def)
qed (simp add: that handleBatch_def)

lemma collectBatch_window:
  "length acc + length ms < marketEventMaxBatch \<Longrightarrow>
     collectBatch (map (\<lambda>m. Fetch (Inr m) None) ms @ WindowOver # rest) acc = Some (Inr (acc @ ms), rest)"
proof (induction ms arbitrary: acc)
  case (Cons m ms)
  then show ?case using Cons.IH [of "acc @ [m]"] by (subst collectBatch.simps) simp
qed (subst collectBatch.simps, simp)

lemma published_candles_arrive:
  assumes "PublishCandles True enc wr cs = Inr ms" "\<And>c v. enc c = Inr v \<Longrightarrow> decode v = Inr c"
    and "cs \<noteq> []" "length cs < marketEventMaxBatch" "\<And>k j. x_db (is_env s k) j = None" "orders_permute s" "plain_pairs decode"
  shows "\<exists>s'. market_Run decode (realtime_sink n) (\<lambda>k. None) (map (\<lambda>m. Fetch (Inr m) None) ms @ [WindowOver])
       \<lparr>mc_sink = s, mc_committed = [], mc_round = 0\<rparr> = (Waiting, \<lparr>mc_sink = s', mc_committed = ms, mc_round = 1\<rparr>) \<and>
     (\<forall>c\<in>set cs. settled_in (market (is_world s')) c)"
proof -
  have enc: "encode_all enc candle_message cs = Inr ms" using assms(1,3) by (auto simp: PublishCandles_def publish_all_def split: sum.splits option.splits)
  have "decoded decode ms = cs \<and> length ms = length cs"
    using enc assms(2) by (induction cs arbitrary: ms) (auto simp: candle_message_def split: sum.splits)
  note ms = this
  then obtain m ms' where m: "ms = m # ms'" using assms(3) by (cases ms) auto
  obtain s' where s': "handleBatch decode (realtime_sink n) ms s = (Inr (), s')"
    by (rule handleBatch_succeeds [OF assms(5)])
  have "market_Run decode (realtime_sink n) (\<lambda>k. None) (map (\<lambda>m. Fetch (Inr m) None) ms @ [WindowOver])
       \<lparr>mc_sink = s, mc_committed = [], mc_round = 0\<rparr> = (Waiting, \<lparr>mc_sink = s', mc_committed = ms, mc_round = 1\<rparr>)"
    using collectBatch_window [of "[m]" ms' "[]"] ms assms(4) s' m by simp
  moreover have "settled_row s' c" if "c \<in> set cs" for c
    using realtime.handleBatch_settles [OF assms(6,7) s'] ms that by simp
  ultimately show ?thesis by (auto simp: settled_row_def)
qed

lemma demo_ingest_db: "x_db (is_env demo_ingest k) j = None"
  by (simp add: demo_ingest_def demo_exec_env_def)

theorem committed_events_stored_witness:
  "mc_committed (snd demo_consume) = map demo_message [''a'', ''?'', ''b''] \<and>
   (''BTCEUR'', 3600) \<in> candle_key ` set (candles_1h (market (is_world (mc_sink (snd demo_consume)))))"
proof -
  obtain s' where s': "handleBatch demo_decode (realtime_sink True) (map demo_message [''a'', ''?'', ''b'']) demo_ingest = (Inr (), s')"
    by (rule handleBatch_succeeds [of demo_ingest, OF demo_ingest_db])
  have run: "demo_consume = (Waiting, \<lparr>mc_sink = s', mc_committed = map demo_message [''a'', ''?'', ''b''], mc_round = 1\<rparr>)"
    using collectBatch_window [of "[demo_message ''a'']" "[demo_message ''?'', demo_message ''b'']" "[]"] s'
    by (simp add: demo_consume_def marketEventMaxBatch_def)
  have "orders_permute demo_ingest" "plain_pairs demo_decode" "demo_decode (km_Value (demo_message ''b'')) = Inr (demo_event 3700)"
    by (auto simp: orders_permute_def demo_ingest_def demo_exec_env_def plain_pairs_def demo_decode_def demo_event_def demo_message_def split: if_splits)
  then have "(k_Pair (demo_event 3700), hour_of_unix (k_Timestamp (demo_event 3700))) \<in> candle_key ` set (candles_1h (market (is_world s')))"
    using committed_events_stored [OF run [unfolded demo_consume_def], of "demo_message ''b''" "demo_event 3700"] by simp
  then show ?thesis by (simp add: run demo_event_def hour_of_unix_eq)
qed

section \<open>Tasks\<close>

text \<open>A message about a task that is done, running or unknown, as after a redelivery, changes nothing.\<close>

lemma redelivered_task_ignored:
  assumes "decode (km_Value m) = Inr item" "\<And>r. r \<in> set (rows (ww_tasks w)) \<Longrightarrow> \<not> claimable (t_ID item) r"
  shows "task_handleMessage decode (Process repo exec env) m w = w"
proof -
  have upd: "sql_update (claimable (t_ID item)) f (rows (ww_tasks w)) = rows (ww_tasks w)" for f
    using assms(2) by (simp add: sql_update_def map_idI)
  have "rows_affected (claimable (t_ID item)) (rows (ww_tasks w)) = 0" using assms(2) by (auto simp: rows_affected_def filter_empty_conv)
  then show ?thesis using assms(1) by (simp add: task_handleMessage_def Process_def Claim_def Let_def upd split: option.split)
qed

end
