(* ===== verification/Ticker_Stats.thy ===== *)
theory Ticker_Stats
  imports Market_Service Catalog
begin

text \<open>
  The statistics of \<^verbatim>\<open>storage/postgres/market_repository.go\<close> behind the tickers: \<^verbatim>\<open>tickerSnapshotQuery\<close> with its common table
  expressions, the variations computed from its rows, and the points of the sparklines. \<^verbatim>\<open>NOW()\<close>, the time a raw row was last written
  and the orders that SQL leaves open are arguments. Sums and products of \<^verbatim>\<open>NUMERIC\<close> columns are exact until they are read as doubles.
\<close>

section \<open>The snapshot\<close>

record ticker_env =
  te_now :: gotime
  te_updated :: "Candle \<Rightarrow> gotime"
  te_ties :: "Candle list \<Rightarrow> Candle list"
  te_collate :: "string list \<Rightarrow> string list"

text \<open>\<^verbatim>\<open>EXTRACT(EPOCH FROM t)::BIGINT\<close> rounds to the nearest second.\<close>

definition epoch_bigint :: "gotime \<Rightarrow> int" where
  "epoch_bigint t = (t + Second div 2) div Second - unix_offset"

definition since :: "gotime \<Rightarrow> duration \<Rightarrow> Candle \<Rightarrow> bool" where
  "since now d c \<longleftrightarrow> now - d \<le> from_unix (k_Timestamp c)"

text \<open>\<^verbatim>\<open>DISTINCT ON (pair_symbol) ... ORDER BY bucket_start DESC, updated_at DESC\<close> for one pair.\<close>

definition newest :: "ticker_env \<Rightarrow> Candle list \<Rightarrow> Candle option" where
  "newest env rs =
     (case sort_key (\<lambda>c. - k_Timestamp c) (sort_key (\<lambda>c. - te_updated env c) (te_ties env rs)) of [] \<Rightarrow> None | c # _ \<Rightarrow> Some c)"

definition latest_hourly :: "ticker_env \<Rightarrow> string \<Rightarrow> market_db \<Rightarrow> Candle option" where
  "latest_hourly env p db =
     (case sort_key (\<lambda>c. - k_Timestamp c) (filter (\<lambda>c. k_Pair c = p \<and> since (te_now env) (30 * Day) c) (candles_1h db)) of
        [] \<Rightarrow> None | c # _ \<Rightarrow> Some c)"

definition latest_raw :: "ticker_env \<Rightarrow> string \<Rightarrow> market_db \<Rightarrow> Candle option" where
  "latest_raw env p db =
     newest env (filter (\<lambda>c. k_Pair c = p \<and> k_Interval c = ''1h'' \<and> since (te_now env) (30 * Day) c) (raw_candles db))"

text \<open>The candle the price is from, and the time of the last update.\<close>

definition latest :: "ticker_env \<Rightarrow> string \<Rightarrow> market_db \<Rightarrow> (Candle \<times> int) option" where
  "latest env p db =
     (case (latest_hourly env p db, latest_raw env p db) of
        (None, None) \<Rightarrow> None
      | (Some h, None) \<Rightarrow> Some (h, k_Timestamp h)
      | (None, Some r) \<Rightarrow> Some (r, epoch_bigint (te_updated env r))
      | (Some h, Some r) \<Rightarrow> if k_Timestamp h < k_Timestamp r then Some (r, epoch_bigint (te_updated env r)) else Some (h, k_Timestamp h))"

definition past :: "ticker_env \<Rightarrow> duration \<Rightarrow> duration \<Rightarrow> string \<Rightarrow> int \<Rightarrow> market_db \<Rightarrow> float64 option" where
  "past env window lag p last_unix db =
     (case sort_key (\<lambda>c. - k_Timestamp c)
         (filter (\<lambda>c. k_Pair c = p \<and> since (te_now env) window c \<and> from_unix (k_Timestamp c) \<le> from_unix last_unix - lag) (candles_1h db)) of
        [] \<Rightarrow> None | c # _ \<Rightarrow> Some (k_Close c))"

text \<open>Exact arithmetic; the special values behave as they do for doubles, but \<^verbatim>\<open>NaN\<close> counts as the greatest value.\<close>

fun num_add :: "float64 \<Rightarrow> float64 \<Rightarrow> float64" where
  "num_add (Fin a) (Fin b) = Fin (a + b)"
| "num_add x y = fadd x y"

fun num_mul :: "float64 \<Rightarrow> float64 \<Rightarrow> float64" where
  "num_mul (Fin a) (Fin b) = Fin (a * b)"
| "num_mul x y = fmul x y"

fun num_double :: "float64 \<Rightarrow> float64" where
  "num_double (Fin a) = round64 a"
| "num_double x = x"

definition num_less :: "float64 \<Rightarrow> float64 \<Rightarrow> bool" where
  "num_less x y \<longleftrightarrow> (x \<noteq> NaN \<and> y = NaN) \<or> flt x y"

definition window_24h :: "ticker_env \<Rightarrow> string \<Rightarrow> int \<Rightarrow> market_db \<Rightarrow> (float64 \<times> float64 \<times> float64) option" where
  "window_24h env p last_unix db =
     (case filter (\<lambda>c. k_Pair c = p \<and> since (te_now env) (25 * Hour) c \<and> from_unix last_unix - 24 * Hour < from_unix (k_Timestamp c)) (candles_1h db) of
        [] \<Rightarrow> None
      | c # cs \<Rightarrow>
          Some (foldl (\<lambda>m d. if num_less m (k_High d) then k_High d else m) (k_High c) cs,
                foldl (\<lambda>m d. if num_less (k_Low d) m then k_Low d else m) (k_Low c) cs,
                num_double (foldl (\<lambda>s d. num_add s (num_mul (k_Volume d) (k_Close d))) f0 (c # cs))))"

text \<open>The 24-hour volumes the sources report themselves: the newest row of each source.\<close>

definition native_v24h :: "ticker_env \<Rightarrow> string \<Rightarrow> market_db \<Rightarrow> float64 option" where
  "native_v24h env p db =
     (let rs = te_ties env (filter (\<lambda>c. k_Pair c = p \<and> k_Interval c = ''1h'' \<and> since (te_now env) (7 * Day) c) (raw_candles db));
          vs = List.map_filter (\<lambda>src. map_option k_Volume24H (newest env (filter (\<lambda>c. k_Source c = src) rs))) (remdups (map k_Source rs))
      in if vs = [] then None else Some (foldl fadd f0 vs))"

definition asset_supply :: "string \<Rightarrow> catalog_db \<Rightarrow> float64" where
  "asset_supply p cat =
     (case find (\<lambda>r. p_Symbol r = p) (cat_pairs cat) of
        None \<Rightarrow> f0
      | Some r \<Rightarrow> (case find (\<lambda>a. a_Symbol a = p_Base r) (cat_assets cat) of None \<Rightarrow> f0 | Some a \<Rightarrow> a_CirculatingSupply a))"

record ticker_row =
  sr_pair :: string
  sr_price :: float64
  sr_last :: int
  sr_source :: string
  sr_old24 :: float64
  sr_old1 :: float64
  sr_old7 :: float64
  sr_max :: "float64 option"
  sr_min :: "float64 option"
  sr_volume :: float64
  sr_supply :: float64

definition or_value :: "'a option \<Rightarrow> 'a \<Rightarrow> 'a" where
  "or_value x d = (case x of None \<Rightarrow> d | Some y \<Rightarrow> y)"

definition tickerSnapshotQuery :: "ticker_env \<Rightarrow> string \<Rightarrow> catalog_db \<Rightarrow> ticker_row option" where
  "tickerSnapshotQuery env p cat =
     (let db = cat_market cat in
      map_option (\<lambda>(c, last_unix).
        let w = window_24h env p last_unix db;
            nv = (case native_v24h env p db of None \<Rightarrow> None | Some v \<Rightarrow> if feq v f0 then None else Some v)
        in \<lparr>sr_pair = p, sr_price = k_Close c, sr_last = last_unix, sr_source = k_Source c,
            sr_old24 = or_value (past env (25 * Hour) (24 * Hour) p last_unix db) (k_Close c),
            sr_old1 = or_value (past env (2 * Hour) Hour p last_unix db) (k_Close c),
            sr_old7 = or_value (past env (8 * Day) (7 * Day) p last_unix db) (k_Close c),
            sr_max = map_option fst w, sr_min = map_option (fst \<circ> snd) w,
            sr_volume = or_value nv (or_value (map_option (snd \<circ> snd) w) f0), sr_supply = asset_supply p cat\<rparr>) (latest env p db))"

section \<open>Tickers\<close>

definition variation :: "float64 \<Rightarrow> float64 \<Rightarrow> float64" where
  "variation price old = (if feq old f0 then f0 else fmul (fdiv (fsub price old) old) (Fin 100))"

definition ticker_of :: "ticker_row \<Rightarrow> Ticker" where
  "ticker_of r =
     \<lparr>tk_Pair = sr_pair r, tk_Price = sr_price r, tk_MarketCap = fmul (sr_price r) (sr_supply r),
      tk_Variation1H = variation (sr_price r) (sr_old1 r), tk_Variation24H = variation (sr_price r) (sr_old24 r),
      tk_Variation7D = variation (sr_price r) (sr_old7 r), tk_Volume24H = sr_volume r, tk_High24H = or_value (sr_max r) f0,
      tk_Low24H = or_value (sr_min r) f0, tk_LastUpdateUnix = sr_last r, tk_Source = sr_source r\<rparr>"

definition repo_Ticker :: "ticker_env \<Rightarrow> string option \<Rightarrow> string \<Rightarrow> catalog_db \<Rightarrow> (string, Ticker) result" where
  "repo_Ticker env err p cat =
     (case err of
        Some e \<Rightarrow> Inl e
      | None \<Rightarrow> (case tickerSnapshotQuery env p cat of None \<Rightarrow> Inl ''sql: no rows in result set'' | Some r \<Rightarrow> Inr (ticker_of r)))"

text \<open>The pairs of the full outer join, in the order of their names.\<close>

definition traded_pairs :: "ticker_env \<Rightarrow> market_db \<Rightarrow> string list" where
  "traded_pairs env db =
     te_collate env (remdups (map k_Pair (filter (since (te_now env) (30 * Day)) (candles_1h db) @
       filter (\<lambda>c. k_Interval c = ''1h'' \<and> since (te_now env) (30 * Day) c) (raw_candles db))))"

definition repo_Tickers :: "ticker_env \<Rightarrow> string option \<Rightarrow> catalog_db \<Rightarrow> (string, Ticker list) result" where
  "repo_Tickers env err cat =
     (case err of
        Some e \<Rightarrow> Inl e
      | None \<Rightarrow> Inr (List.map_filter (\<lambda>p. map_option ticker_of (tickerSnapshotQuery env p cat)) (traded_pairs env (cat_market cat))))"

section \<open>Sparklines\<close>

definition spark_point :: "Candle \<Rightarrow> SparklinePoint" where
  "spark_point c = \<lparr>sp_Timestamp = k_Timestamp c, sp_Open = k_Open c, sp_High = k_High c, sp_Low = k_Low c, sp_Close = k_Close c, sp_Volume = k_Volume c\<rparr>"

text \<open>Hours without a consolidated candle are filled by the raw row written last.\<close>

definition merged_points :: "ticker_env \<Rightarrow> string \<Rightarrow> market_db \<Rightarrow> SparklinePoint list" where
  "merged_points env p db =
     (let consolidated = filter (\<lambda>c. k_Pair c = p \<and> since (te_now env) (25 * Hour) c) (candles_1h db);
          raw_hourly = first_per_hour (sort_key (\<lambda>c. - te_updated env c)
            (te_ties env (filter (\<lambda>c. k_Pair c = p \<and> k_Interval c = ''1h'' \<and> since (te_now env) (25 * Hour) c) (raw_candles db))))
      in map spark_point (sort_key k_Timestamp (consolidated @ filter (\<lambda>r. k_Timestamp r \<notin> k_Timestamp ` set consolidated) raw_hourly)))"

definition sparklines24h :: "ticker_env \<Rightarrow> string option \<Rightarrow> market_db \<Rightarrow> (string, string \<Rightarrow> SparklinePoint list) result" where
  "sparklines24h env err db =
     (case err of
        Some e \<Rightarrow> Inl e
      | None \<Rightarrow> Inr (\<lambda>p. let pts = merged_points env p db in if 24 < length pts then drop (length pts - 24) pts else pts))"

text \<open>The first query fails or succeeds as for the tickers, the second one at another time.\<close>

definition repo_TickersWithSparklines :: "ticker_env \<Rightarrow> ticker_env \<Rightarrow> string option \<Rightarrow> string option \<Rightarrow> catalog_db \<Rightarrow> catalog_db \<Rightarrow>
    (string, TickerWithSparkline list) result" where
  "repo_TickersWithSparklines env env' err err' cat cat' =
     (case repo_Tickers env err cat of
        Inl e \<Rightarrow> Inl e
      | Inr ts \<Rightarrow>
          (case sparklines24h env' err' (cat_market cat') of
             Inl e \<Rightarrow> Inl e
           | Inr sl \<Rightarrow> Inr (map (\<lambda>t. Ticker.extend t (TickerWithSparkline.fields (sl (tk_Pair t)))) ts)))"

text \<open>The price for the profits and losses: the symbol of the pair is put together from its parts.\<close>

definition GetPrice :: "ticker_env \<Rightarrow> string option \<Rightarrow> string \<Rightarrow> string \<Rightarrow> catalog_db \<Rightarrow> (string, float64) result" where
  "GetPrice env err asset quoteCurrency cat =
     (case repo_Ticker env err (asset @ quoteCurrency) cat of
        Inl e \<Rightarrow> Inl (''ticker price for '' @ asset @ ''/'' @ quoteCurrency @ '': '' @ e)
      | Inr t \<Rightarrow> Inr (tk_Price t))"

section \<open>The price is the newest\<close>

lemma hd_sort_desc: "sort_key (\<lambda>c. - f c) xs = c # cs \<Longrightarrow> c \<in> set xs \<and> (\<forall>d\<in>set xs. (f d :: int) \<le> f c)"
proof -
  assume eq: "sort_key (\<lambda>c. - f c) xs = c # cs"
  have "set xs = set (c # cs)" using set_sort [of "\<lambda>c. - f c" xs] eq by simp
  moreover have "sorted (map (\<lambda>c. - f c) (c # cs))" using sorted_sort_key [of "\<lambda>c. - f c" xs] unfolding eq .
  ultimately show ?thesis by auto
qed

lemma sort_key_Nil [simp]: "sort_key f xs = [] \<longleftrightarrow> xs = []"
  by (metis length_0_conv length_sort)

lemma full_hour_below:
  assumes "a mod 3600 = 0" "a \<le> (u :: int)"
  shows "a \<le> hour_of_unix u"
proof -
  have "a = 3600 * (a div 3600)" using assms(1) by auto
  also have "\<dots> \<le> 3600 * (u div 3600)" using zdiv_mono1 [OF assms(2), of 3600] by simp
  finally show ?thesis by (simp add: hour_of_unix_eq minus_mod_eq_mult_div)
qed

lemma distinct_supplement:
  "distinct (map f xs) \<Longrightarrow> distinct (map f ys) \<Longrightarrow> distinct (map f (xs @ filter (\<lambda>y. f y \<notin> f ` set xs) ys))"
  by (auto simp: distinct_map_filter) (metis imageI)

definition recent :: "ticker_env \<Rightarrow> string \<Rightarrow> market_db \<Rightarrow> Candle set" where
  "recent env p db = {c \<in> set (candles_1h db). k_Pair c = p \<and> since (te_now env) (30 * Day) c} \<union>
     {c \<in> set (raw_candles db). k_Pair c = p \<and> k_Interval c = ''1h'' \<and> since (te_now env) (30 * Day) c}"

lemma newest_Some:
  assumes "newest env rs = Some c" "\<And>xs. set (te_ties env xs) = set xs"
  shows "c \<in> set rs \<and> (\<forall>d\<in>set rs. k_Timestamp d \<le> k_Timestamp c)"
  using assms by (auto simp: newest_def split: list.splits dest!: hd_sort_desc)

lemma newest_None: "newest env rs = None \<Longrightarrow> (\<And>xs. set (te_ties env xs) = set xs) \<Longrightarrow> rs = []"
proof -
  assume "newest env rs = None" and ties: "\<And>xs. set (te_ties env xs) = set xs"
  then have "te_ties env rs = []" by (auto simp: newest_def split: list.splits)
  then show ?thesis using ties [of rs] by simp
qed

lemma latest_newest:
  assumes "latest env p db = Some (c, u)" "\<And>xs. set (te_ties env xs) = set xs"
  shows "c \<in> recent env p db \<and> (\<forall>d\<in>recent env p db. k_Timestamp d \<le> k_Timestamp c)"
proof -
  let ?h = "filter (\<lambda>c. k_Pair c = p \<and> since (te_now env) (30 * Day) c) (candles_1h db)"
  let ?r = "filter (\<lambda>c. k_Pair c = p \<and> k_Interval c = ''1h'' \<and> since (te_now env) (30 * Day) c) (raw_candles db)"
  have recent: "recent env p db = set ?h \<union> set ?r" by (auto simp: recent_def)
  have h: "latest_hourly env p db = Some h \<Longrightarrow> h \<in> set ?h \<and> (\<forall>d\<in>set ?h. k_Timestamp d \<le> k_Timestamp h)" for h
    unfolding latest_hourly_def by (auto split: list.splits dest!: hd_sort_desc)
  have h0: "latest_hourly env p db = None \<Longrightarrow> ?h = []"
    unfolding latest_hourly_def by (auto split: list.splits)
  note r = newest_Some [of env ?r, OF _ assms(2)] and r0 = newest_None [of env ?r, OF _ assms(2)]
  show ?thesis
  proof (cases "latest_hourly env p db")
    case None
    then have "newest env ?r = Some c" using assms(1) by (auto simp: latest_def latest_raw_def split: option.splits)
    then show ?thesis using r [of c] h0 [OF None] unfolding recent by simp
  next
    case (Some x)
    note x = h [OF Some]
    show ?thesis
    proof (cases "newest env ?r")
      case None
      then show ?thesis using assms(1) Some x r0 [OF None] unfolding recent latest_def latest_raw_def by simp
    next
      case (Some y)
      note y = r [OF Some]
      have "c = y \<and> k_Timestamp x < k_Timestamp y \<or> c = x \<and> k_Timestamp y \<le> k_Timestamp x"
        using assms(1) \<open>latest_hourly env p db = Some x\<close> Some unfolding latest_def latest_raw_def by (auto split: if_splits)
      then show ?thesis
      proof
        assume c: "c = y \<and> k_Timestamp x < k_Timestamp y"
        then have "k_Timestamp d \<le> k_Timestamp c" if "d \<in> set ?h \<union> set ?r" for d using that x y by (meson UnE less_imp_le order_trans)
        then show ?thesis using c y unfolding recent by blast
      next
        assume c: "c = x \<and> k_Timestamp y \<le> k_Timestamp x"
        then have "k_Timestamp d \<le> k_Timestamp c" if "d \<in> set ?h \<union> set ?r" for d using that x y by (meson UnE order_trans)
        then show ?thesis using c x unfolding recent by blast
      qed
    qed
  qed
qed

section \<open>When the clock strikes\<close>

lemma variation_self: "variation (Fin q) (Fin q) = f0"
  by (simp add: variation_def fsub_def)

text \<open>
  The candle to compare with has to lie in a window between 25 hours before now and 24 hours before the last update. Candles start on
  the hour, so when the last update was in an earlier hour than now, there is none.
\<close>

lemma past_none:
  assumes "\<forall>c\<in>set (candles_1h db). k_Timestamp c mod 3600 = 0" "from_unix (hour_of_unix last_unix) + Hour < te_now env" "lag = n * Hour"
  shows "past env (lag + Hour) lag p last_unix db = None"
proof -
  have "\<not> (since (te_now env) (lag + Hour) c \<and> from_unix (k_Timestamp c) \<le> from_unix last_unix - lag)" if "c \<in> set (candles_1h db)" for c
  proof
    assume in_window: "since (te_now env) (lag + Hour) c \<and> from_unix (k_Timestamp c) \<le> from_unix last_unix - lag"
    then have "k_Timestamp c + n * 3600 \<le> last_unix" using assms(3) by (simp add: from_unix_def)
    moreover have "(k_Timestamp c + n * 3600) mod 3600 = 0" using assms(1) that by simp
    ultimately have "k_Timestamp c + n * 3600 \<le> hour_of_unix last_unix" by (intro full_hour_below)
    then show False using in_window assms(2,3) by (simp add: since_def from_unix_def)
  qed
  then have "filter (\<lambda>c. k_Pair c = p \<and> since (te_now env) (lag + Hour) c \<and> from_unix (k_Timestamp c) \<le> from_unix last_unix - lag) (candles_1h db) = []"
    by (auto simp: filter_empty_conv)
  then show ?thesis by (simp add: past_def)
qed

text \<open>
  \<^bold>\<open>C40\<close>. As soon as an hour is over, every pair without an update in the new hour is reported as unchanged over the last hour and over the last
  day, whatever its price did: both variations are 0 until the first update of the new hour, and they stay 0 while a pair is not updated.
\<close>

theorem new_hour_flat:
  assumes "repo_Ticker env None p cat = Inr t" "tk_Price t = Fin q"
    and "\<forall>c\<in>set (candles_1h (cat_market cat)). k_Timestamp c mod 3600 = 0"
    and "from_unix (hour_of_unix (tk_LastUpdateUnix t)) + Hour < te_now env"
  shows "tk_Variation1H t = f0 \<and> tk_Variation24H t = f0"
proof -
  obtain c u where l: "latest env p (cat_market cat) = Some (c, u)" "k_Close c = Fin q" "tk_LastUpdateUnix t = u"
    "t = ticker_of (the (tickerSnapshotQuery env p cat))"
    using assms(1,2) by (auto simp: repo_Ticker_def tickerSnapshotQuery_def ticker_of_def Let_def split: option.splits)
  have "past env (24 * Hour + Hour) (24 * Hour) p u (cat_market cat) = None" "past env (Hour + Hour) Hour p u (cat_market cat) = None"
    using past_none [OF assms(3), of u env "24 * Hour" 24 p] past_none [OF assms(3), of u env Hour 1 p] assms(4) l(3) by auto
  moreover have "24 * Hour + Hour = 25 * Hour" "Hour + Hour = 2 * Hour" by simp_all
  ultimately show ?thesis using l by (simp add: tickerSnapshotQuery_def ticker_of_def Let_def or_value_def variation_self del: time_units)
qed

text \<open>The price doubled within a day; one second into a new hour it is reported as unchanged.\<close>

definition demo_hour :: "int \<Rightarrow> rat \<Rightarrow> Candle" where
  "demo_hour t q = \<lparr>k_Pair = ''BTCEUR'', k_Interval = ''1h'', k_Timestamp = t, k_Open = Fin q, k_High = Fin q, k_Low = Fin q, k_Close = Fin q,
     k_Volume = Fin 1, k_Volume24H = f0, k_Source = ''consolidated'', k_Finalized = True\<rparr>"

definition demo_stats :: ticker_env where
  "demo_stats = \<lparr>te_now = from_unix 90001, te_updated = (\<lambda>c. 0), te_ties = (\<lambda>cs. cs), te_collate = (\<lambda>ps. ps)\<rparr>"

definition demo_prices :: catalog_db where
  "demo_prices = \<lparr>cat_assets = [], cat_pairs = [], cat_tasks = [], cat_sync = [],
     cat_market = \<lparr>candles_1h = [demo_hour 0 1, demo_hour 86400 2], candles_1d = [], raw_candles = []\<rparr>, cat_coverage = [], cat_integrity = []\<rparr>"

lemma demo_latest: "latest demo_stats ''BTCEUR'' (cat_market demo_prices) = Some (demo_hour 86400 2, 86400)"
  by (simp add: latest_def latest_hourly_def latest_raw_def newest_def demo_prices_def demo_stats_def demo_hour_def since_def from_unix_def)

theorem new_hour_flat_witness:
  "\<exists>t. repo_Ticker demo_stats None ''BTCEUR'' demo_prices = Inr t \<and> tk_Price t = Fin 2 \<and> tk_Variation1H t = f0 \<and> tk_Variation24H t = f0"
proof -
  obtain t where t: "repo_Ticker demo_stats None ''BTCEUR'' demo_prices = Inr t" "tk_Price t = Fin 2" "tk_LastUpdateUnix t = 86400"
    using demo_latest by (simp add: repo_Ticker_def tickerSnapshotQuery_def ticker_of_def Let_def demo_hour_def)
  moreover have "\<forall>c\<in>set (candles_1h (cat_market demo_prices)). k_Timestamp c mod 3600 = 0" by (simp add: demo_prices_def demo_hour_def)
  moreover have "from_unix (hour_of_unix 86400) + Hour < te_now demo_stats" by (simp add: demo_stats_def hour_of_unix_eq from_unix_def)
  ultimately show ?thesis using new_hour_flat [of demo_stats "''BTCEUR''" demo_prices t 2] by simp
qed

section \<open>Sparklines\<close>

lemma first_per_hour_distinct: "distinct (map k_Timestamp (first_per_hour cs)) \<and> (\<forall>c\<in>set (first_per_hour cs). \<exists>d\<in>set cs. k_Timestamp c = hour_of_unix (k_Timestamp d))"
proof (induction cs rule: first_per_hour.induct)
  case (2 c cs)
  then show ?case by fastforce
qed simp

text \<open>A sparkline has at most 24 points, in the order of time and one per hour.\<close>

lemma sparkline_points:
  assumes "sparklines24h env None db = Inr sl" "distinct (map candle_key (candles_1h db))"
  shows "length (sl p) \<le> 24 \<and> sorted_wrt (<) (map sp_Timestamp (sl p))"
proof -
  let ?con = "filter (\<lambda>c. k_Pair c = p \<and> since (te_now env) (25 * Hour) c) (candles_1h db)"
  let ?raw = "first_per_hour (sort_key (\<lambda>c. - te_updated env c)
            (te_ties env (filter (\<lambda>c. k_Pair c = p \<and> k_Interval c = ''1h'' \<and> since (te_now env) (25 * Hour) c) (raw_candles db))))"
  let ?all = "?con @ filter (\<lambda>r. k_Timestamp r \<notin> k_Timestamp ` set ?con) ?raw"
  have "distinct (map k_Timestamp ?con)"
    using assms(2) by (auto simp: distinct_map candle_key_def inj_on_def)
  then have "distinct (map k_Timestamp ?all)" by (rule distinct_supplement) (use first_per_hour_distinct in blast)
  then have "distinct (map k_Timestamp (sort_key k_Timestamp ?all))"
    using mset_eq_imp_distinct_iff [of "map k_Timestamp (sort_key k_Timestamp ?all)" "map k_Timestamp ?all"] by (simp only: mset_map mset_sort)
  moreover have "map sp_Timestamp (merged_points env p db) = map k_Timestamp (sort_key k_Timestamp ?all)"
    by (simp add: merged_points_def Let_def spark_point_def comp_def)
  ultimately have "sorted_wrt (<) (map sp_Timestamp (merged_points env p db))"
    by (simp add: strict_sorted_iff del: map_append)
  then show ?thesis using assms(1) by (auto simp: sparklines24h_def Let_def drop_map [symmetric] sorted_wrt_drop)
qed

end
