(* ===== verification/Configuration.thy ===== *)
theory Configuration
  imports Auth_Service Scheduler Exchange_Clients
begin

text \<open>
  \<^verbatim>\<open>config/config.go\<close> and the part of \<^verbatim>\<open>app.New\<close> that decides on it: reading the environment, validating it and starting
  the parts of the program. The environment is a map; \<^verbatim>\<open>strconv.ParseFloat\<close> is an argument, \<^verbatim>\<open>time.ParseDuration\<close> and
  \<^verbatim>\<open>strconv.ParseBool\<close> are written out.
\<close>

section \<open>Durations\<close>

definition duration_unit :: "string \<Rightarrow> int option" where
  "duration_unit u =
     map_of [(''ns'', 1), (''us'', 1000), ([CHR 0xC2, CHR 0xB5, CHR ''s''], 1000), ([CHR 0xCE, CHR 0xBC, CHR ''s''], 1000), (''ms'', 1000000), (''s'', Second), (''m'', Minute), (''h'', Hour)] u"

text \<open>Digits after the point; those that would overflow are dropped.\<close>

definition fraction_step :: "int \<times> nat \<times> bool \<Rightarrow> char \<Rightarrow> int \<times> nat \<times> bool" where
  "fraction_step st c =
     (case st of (x, n, overflow) \<Rightarrow>
        if overflow then (x, n, True)
        else if (2 ^ 63 - 1) div 10 < x then (x, n, True)
        else let y = x * 10 + int (of_char c - 48) in if 2 ^ 63 < y then (x, n, True) else (y, Suc n, False))"

definition leadingFraction :: "string \<Rightarrow> int \<times> nat" where
  "leadingFraction ds = (case foldl fraction_step (0, 0, False) ds of (x, n, _) \<Rightarrow> (x, n))"

text \<open>One number with its unit, and the rest of the text.\<close>

definition duration_part :: "string \<Rightarrow> (int \<times> string) option" where
  "duration_part s =
     (let ds = takeWhile is_digit_char s; s1 = dropWhile is_digit_char s;
          point = (s1 \<noteq> [] \<and> hd s1 = CHR ''.'');
          fs = (if point then takeWhile is_digit_char (tl s1) else []);
          s2 = (if point then dropWhile is_digit_char (tl s1) else s1);
          v = int (read_nat ds); (f, n) = leadingFraction fs;
          in_unit = (\<lambda>c. c \<noteq> CHR ''.'' \<and> \<not> is_digit_char c);
          u = takeWhile in_unit s2; rest = dropWhile in_unit s2
      in if 2 ^ 63 < v \<or> (ds = [] \<and> fs = []) \<or> u = [] then None
         else case duration_unit u of
           None \<Rightarrow> None
         | Some unit \<Rightarrow>
             if 2 ^ 63 div unit < v then None
             else let w = v * unit + (if 0 < f then float_to_int (fmul (float_of_int f) (fdiv (float_of_int unit) (Fin (10 ^ n)))) else 0)
                  in if 2 ^ 63 < w then None else Some (w, rest))"

lemma dropWhile_shorter: "takeWhile P s \<noteq> [] \<Longrightarrow> length (dropWhile P s) < length s"
  by (cases s) (auto simp: le_imp_less_Suc length_dropWhile_le split: if_splits)

lemma duration_part_shorter: "duration_part s = Some (w, rest) \<Longrightarrow> length rest < length s"
proof -
  assume part: "duration_part s = Some (w, rest)"
  let ?s1 = "dropWhile is_digit_char s"
  let ?s2 = "if ?s1 \<noteq> [] \<and> hd ?s1 = CHR ''.'' then dropWhile is_digit_char (tl ?s1) else ?s1"
  let ?in = "\<lambda>c. c \<noteq> CHR ''.'' \<and> \<not> is_digit_char c"
  have le: "length ?s2 \<le> length s"
    using length_dropWhile_le [of is_digit_char s] length_dropWhile_le [of is_digit_char "tl ?s1"] by (auto simp: le_diff_conv)
  have rest: "rest = dropWhile ?in ?s2" "takeWhile ?in ?s2 \<noteq> []"
    using part unfolding duration_part_def Let_def by (auto split: prod.splits option.splits if_splits)
  show ?thesis unfolding rest(1) using dropWhile_shorter [OF rest(2)] le by (rule less_le_trans)
qed

function duration_parts :: "string \<Rightarrow> int \<Rightarrow> int option" where
  "duration_parts s d =
     (if s = [] then Some d
      else case duration_part s of
        None \<Rightarrow> None
      | Some (w, rest) \<Rightarrow> if 2 ^ 63 < d + w then None else duration_parts rest (d + w))"
  by auto
termination
  by (relation "measure (\<lambda>(s, d). length s)") (auto dest: duration_part_shorter)

declare duration_parts.simps [simp del]

definition ParseDuration :: "string \<Rightarrow> duration option" where
  "ParseDuration s0 =
     (let neg = (s0 \<noteq> [] \<and> hd s0 = CHR ''-''); s = (if s0 \<noteq> [] \<and> (hd s0 = CHR ''-'' \<or> hd s0 = CHR ''+'') then tl s0 else s0)
      in if s = ''0'' then Some 0
         else if s = [] then None
         else case duration_parts s 0 of
           None \<Rightarrow> None
         | Some d \<Rightarrow> if neg then Some (- d) else if 2 ^ 63 - 1 < d then None else Some d)"

section \<open>Reading the environment\<close>

record config =
  cf_Env :: string
  cf_HTTPAddr :: string
  cf_Role :: string
  cf_LogLevel :: string
  cf_CORSAllowedOrigins :: "string list"
  cf_DatabaseURL :: string
  cf_KafkaBrokers :: "string list"
  cf_KafkaTasksTopic :: string
  cf_KafkaMarketTopic :: string
  cf_KafkaConsumerGroup :: string
  cf_EnableBinance :: bool
  cf_EnableKraken :: bool
  cf_EnableBinanceVision :: bool
  cf_EnableCryptoDataDownload :: bool
  cf_EnableCoinGecko :: bool
  cf_CDDAvailabilityBaseURL :: string
  cf_PlannerLeaseName :: string
  cf_PlannerLeaseTTL :: duration
  cf_PlannerTick :: duration
  cf_RealtimePollInterval :: duration
  cf_WorkerPollInterval :: duration
  cf_WorkerBatchSize :: int
  cf_PlannerBackfillBatchPct :: int
  cf_WorkerBackfillBatchPct :: int
  cf_WorkerConcurrency :: int
  cf_CoinGeckoAPIKey :: string
  cf_IntegrityMinSources :: int
  cf_IntegrityMaxDivergencePct :: float64
  cf_DefaultQuoteAssets :: "string list"
  cf_TaskRetentionPeriod :: duration
  cf_TaskRetentionCount :: int
  cf_TickerCacheSize :: int
  cf_TickersCacheTTL :: duration
  cf_NewsFetchInterval :: duration
  cf_IntegrityCheckInterval :: duration
  cf_GapValidationInterval :: duration
  cf_AuthMode :: string
  cf_GoogleClientID :: string
  cf_GoogleClientSecret :: string
  cf_GoogleRedirectURI :: string
  cf_JWTSecret :: string
  cf_JWTExpiry :: duration
  cf_RefreshTokenExpiry :: duration
  cf_AdminEmail :: string
  cf_BcryptCost :: int
  cf_RateLimitUser :: int
  cf_RateLimitPremium :: int
  cf_RateLimitAdmin :: int
  cf_RateLimitIP :: int
  cf_RateLimitWindow :: duration
  cf_TrustedProxies :: "string list"
  cf_APIBaseURL :: string
  cf_PortfolioEnabled :: bool
  cf_PortfolioEncryptionKey :: string
  cf_EtherscanAPIKey :: string
  cf_SolanaRPCURL :: string
  cf_BitcoinAPIURL :: string
  cf_RecomputeDebounceWindow :: duration
  cf_PnLRefreshInterval :: duration

definition getenv :: "(string \<Rightarrow> string option) \<Rightarrow> string \<Rightarrow> string \<Rightarrow> string" where
  "getenv os key fallback = (case os key of None \<Rightarrow> fallback | Some v \<Rightarrow> if v = [] then fallback else v)"

definition splitCSV :: "string \<Rightarrow> string list" where
  "splitCSV v = filter (\<lambda>s. s \<noteq> []) (map TrimSpace (split_on (CHR '','') v))"

definition corsOrigins :: "(string \<Rightarrow> string option) \<Rightarrow> string \<Rightarrow> string list" where
  "corsOrigins os env =
     (case os ''BACKEND_CORS_ALLOWED_ORIGINS'' of
        Some v \<Rightarrow> splitCSV v
      | None \<Rightarrow> if equal_fold (TrimSpace env) ''development'' then [''http://localhost:5173'', ''http://127.0.0.1:5173''] else [])"

definition parseDuration :: "string \<Rightarrow> duration" where
  "parseDuration v = (case ParseDuration v of None \<Rightarrow> 15 * Second | Some d \<Rightarrow> d)"

definition parseInt :: "string \<Rightarrow> int \<Rightarrow> int" where
  "parseInt v fallback = (case atoi v of None \<Rightarrow> fallback | Some i \<Rightarrow> i)"

definition parseFloat :: "(string \<Rightarrow> (string, float64) result) \<Rightarrow> string \<Rightarrow> float64 \<Rightarrow> float64" where
  "parseFloat pf v fallback = (case pf v of Inl e \<Rightarrow> fallback | Inr x \<Rightarrow> x)"

definition parseBool :: "string \<Rightarrow> bool \<Rightarrow> bool" where
  "parseBool v fallback =
     (if v \<in> set [''1'', ''t'', ''T'', ''true'', ''TRUE'', ''True''] then True
      else if v \<in> set [''0'', ''f'', ''F'', ''false'', ''FALSE'', ''False''] then False
      else fallback)"

definition parsePercent :: "string \<Rightarrow> int \<Rightarrow> int" where
  "parsePercent v fallback = (let p = parseInt v fallback in if p < 0 then 0 else if 100 < p then 100 else p)"

definition normalizeAuthMode :: "string \<Rightarrow> string" where
  "normalizeAuthMode raw = map ascii_lower (TrimSpace raw)"

definition Load :: "(string \<Rightarrow> string option) \<Rightarrow> (string \<Rightarrow> (string, float64) result) \<Rightarrow> config" where
  "Load os pf =
     \<lparr>cf_Env = getenv os ''BACKEND_ENV'' ''development'',
      cf_HTTPAddr = getenv os ''BACKEND_HTTP_ADDR'' '':8080'',
      cf_Role = getenv os ''BACKEND_ROLE'' ''all'',
      cf_LogLevel = getenv os ''BACKEND_LOG_LEVEL'' ''info'',
      cf_CORSAllowedOrigins = corsOrigins os (getenv os ''BACKEND_ENV'' ''development''),
      cf_DatabaseURL = getenv os ''BACKEND_DATABASE_URL'' [],
      cf_KafkaBrokers = splitCSV (getenv os ''BACKEND_KAFKA_BROKERS'' []),
      cf_KafkaTasksTopic = getenv os ''BACKEND_KAFKA_TOPIC_TASKS'' ''exchangely.tasks'',
      cf_KafkaMarketTopic = getenv os ''BACKEND_KAFKA_TOPIC_MARKET_TICKS'' ''exchangely.market.ticks'',
      cf_KafkaConsumerGroup = getenv os ''BACKEND_KAFKA_CONSUMER_GROUP'' ''exchangely-workers'',
      cf_EnableBinance = parseBool (getenv os ''BACKEND_ENABLE_BINANCE'' ''true'') True,
      cf_EnableKraken = parseBool (getenv os ''BACKEND_ENABLE_KRAKEN'' ''true'') True,
      cf_EnableBinanceVision = parseBool (getenv os ''BACKEND_ENABLE_BINANCE_VISION'' ''true'') True,
      cf_EnableCryptoDataDownload = parseBool (getenv os ''BACKEND_ENABLE_CRYPTODATADOWNLOAD'' ''true'') True,
      cf_EnableCoinGecko = parseBool (getenv os ''BACKEND_ENABLE_COINGECKO'' ''true'') True,
      cf_CDDAvailabilityBaseURL = getenv os ''BACKEND_CDD_AVAILABILITY_BASE_URL'' [],
      cf_PlannerLeaseName = getenv os ''BACKEND_PLANNER_LEASE_NAME'' ''planner_leader'',
      cf_PlannerLeaseTTL = parseDuration (getenv os ''BACKEND_PLANNER_LEASE_TTL'' ''15s''),
      cf_PlannerTick = parseDuration (getenv os ''BACKEND_PLANNER_TICK'' ''10s''),
      cf_RealtimePollInterval = parseDuration (getenv os ''BACKEND_REALTIME_POLL_INTERVAL'' ''5s''),
      cf_WorkerPollInterval = parseDuration (getenv os ''BACKEND_WORKER_POLL_INTERVAL'' ''5s''),
      cf_WorkerBatchSize = parseInt (getenv os ''BACKEND_WORKER_BATCH_SIZE'' ''100'') 100,
      cf_PlannerBackfillBatchPct = parsePercent (getenv os ''BACKEND_PLANNER_BACKFILL_BATCH_PERCENT'' ''50'') 50,
      cf_WorkerBackfillBatchPct = parsePercent (getenv os ''BACKEND_WORKER_BACKFILL_BATCH_PERCENT'' ''50'') 50,
      cf_WorkerConcurrency = parseInt (getenv os ''BACKEND_WORKER_CONCURRENCY'' ''4'') 4,
      cf_CoinGeckoAPIKey = getenv os ''BACKEND_COINGECKO_API_KEY'' [],
      cf_IntegrityMinSources = parseInt (getenv os ''BACKEND_INTEGRITY_MIN_SOURCES'' ''2'') 2,
      cf_IntegrityMaxDivergencePct = parseFloat pf (getenv os ''BACKEND_INTEGRITY_MAX_DIVERGENCE_PCT'' ''2.0'') (Fin 2),
      cf_DefaultQuoteAssets = splitCSV (getenv os ''BACKEND_DEFAULT_QUOTE_ASSETS'' ''EUR,USD''),
      cf_TaskRetentionPeriod = parseDuration (getenv os ''BACKEND_TASK_RETENTION_PERIOD'' ''24h''),
      cf_TaskRetentionCount = parseInt (getenv os ''BACKEND_TASK_MAX_LOG_COUNT'' ''1000'') 1000,
      cf_TickerCacheSize = parseInt (getenv os ''BACKEND_TICKER_CACHE_SIZE'' ''100'') 100,
      cf_TickersCacheTTL = parseDuration (getenv os ''BACKEND_TICKERS_CACHE_TTL'' ''30s''),
      cf_NewsFetchInterval = parseDuration (getenv os ''BACKEND_NEWS_FETCH_INTERVAL'' ''15m''),
      cf_IntegrityCheckInterval = parseDuration (getenv os ''BACKEND_INTEGRITY_CHECK_INTERVAL'' ''24h''),
      cf_GapValidationInterval = parseDuration (getenv os ''BACKEND_GAP_VALIDATION_INTERVAL'' ''24h''),
      cf_AuthMode = normalizeAuthMode (getenv os ''BACKEND_AUTH_MODE'' []),
      cf_GoogleClientID = getenv os ''BACKEND_GOOGLE_CLIENT_ID'' [],
      cf_GoogleClientSecret = getenv os ''BACKEND_GOOGLE_CLIENT_SECRET'' [],
      cf_GoogleRedirectURI = getenv os ''BACKEND_GOOGLE_REDIRECT_URI'' ''http://localhost:8080/api/v1/auth/google/callback'',
      cf_JWTSecret = getenv os ''BACKEND_JWT_SECRET'' [],
      cf_JWTExpiry = parseDuration (getenv os ''BACKEND_JWT_EXPIRY'' ''15m''),
      cf_RefreshTokenExpiry = parseDuration (getenv os ''BACKEND_REFRESH_TOKEN_EXPIRY'' ''168h''),
      cf_AdminEmail = getenv os ''BACKEND_ADMIN_EMAIL'' [],
      cf_BcryptCost = parseInt (getenv os ''BACKEND_BCRYPT_COST'' ''12'') 12,
      cf_RateLimitUser = parseInt (getenv os ''BACKEND_RATELIMIT_USER'' ''100'') 100,
      cf_RateLimitPremium = parseInt (getenv os ''BACKEND_RATELIMIT_PREMIUM'' ''500'') 500,
      cf_RateLimitAdmin = parseInt (getenv os ''BACKEND_RATELIMIT_ADMIN'' ''1000'') 1000,
      cf_RateLimitIP = parseInt (getenv os ''BACKEND_RATELIMIT_IP'' ''200'') 200,
      cf_RateLimitWindow = parseDuration (getenv os ''BACKEND_RATELIMIT_WINDOW'' ''1m''),
      cf_TrustedProxies = splitCSV (getenv os ''BACKEND_TRUSTED_PROXIES'' []),
      cf_APIBaseURL = getenv os ''API_BASE_URL'' ''http://localhost:8080/api/v1'',
      cf_PortfolioEnabled = parseBool (getenv os ''BACKEND_PORTFOLIO_ENABLED'' ''false'') False,
      cf_PortfolioEncryptionKey = getenv os ''BACKEND_PORTFOLIO_ENCRYPTION_KEY'' [],
      cf_EtherscanAPIKey = getenv os ''BACKEND_ETHERSCAN_API_KEY'' [],
      cf_SolanaRPCURL = getenv os ''BACKEND_SOLANA_RPC_URL'' ''https://api.mainnet-beta.solana.com'',
      cf_BitcoinAPIURL = getenv os ''BACKEND_BITCOIN_API_URL'' ''https://blockstream.info/api'',
      cf_RecomputeDebounceWindow = parseDuration (getenv os ''BACKEND_RECOMPUTE_DEBOUNCE_WINDOW'' ''30s''),
      cf_PnLRefreshInterval = parseDuration (getenv os ''BACKEND_PNL_REFRESH_INTERVAL'' ''1h'')\<rparr>"

section \<open>Validation\<close>

definition AuthModeHasLocal :: "config \<Rightarrow> bool" where
  "AuthModeHasLocal c \<longleftrightarrow> go_contains (cf_AuthMode c) ''local''"

definition AuthModeHasSSO :: "config \<Rightarrow> bool" where
  "AuthModeHasSSO c \<longleftrightarrow> go_contains (cf_AuthMode c) ''sso''"

definition AuthEnabled :: "config \<Rightarrow> bool" where
  "AuthEnabled c \<longleftrightarrow> cf_AuthMode c \<noteq> []"

definition ValidateAuthConfig :: "config \<Rightarrow> string list" where
  "ValidateAuthConfig c =
     (if \<not> AuthEnabled c then []
      else if cf_AuthMode c \<notin> set [''local'', ''sso'', ''local,sso'', ''sso,local'']
      then [''BACKEND_AUTH_MODE '' @ go_quote (cf_AuthMode c) @ '' is not valid; use '' @ go_quote ''local'' @ '', '' @ go_quote ''sso'' @ '', or '' @ go_quote ''local,sso'']
      else (if cf_JWTSecret c = [] then [''BACKEND_JWT_SECRET is required when BACKEND_AUTH_MODE is set''] else []) @
        (if AuthModeHasLocal c \<and> cf_AdminEmail c = [] then [''BACKEND_ADMIN_EMAIL is required when BACKEND_AUTH_MODE includes '' @ go_quote ''local''] else []) @
        (if AuthModeHasSSO c \<and> cf_GoogleClientID c = [] then [''BACKEND_GOOGLE_CLIENT_ID is required when BACKEND_AUTH_MODE includes '' @ go_quote ''sso''] else []) @
        (if AuthModeHasSSO c \<and> cf_GoogleClientSecret c = [] then [''BACKEND_GOOGLE_CLIENT_SECRET is required when BACKEND_AUTH_MODE includes '' @ go_quote ''sso''] else []))"

definition ValidatePortfolioConfig :: "config \<Rightarrow> string list" where
  "ValidatePortfolioConfig c =
     (if cf_PortfolioEnabled c \<and> cf_PortfolioEncryptionKey c = []
      then [''BACKEND_PORTFOLIO_ENCRYPTION_KEY is required when BACKEND_PORTFOLIO_ENABLED is true''] else [])"

section \<open>Starting\<close>

definition hasRole :: "string \<Rightarrow> string \<Rightarrow> bool" where
  "hasRole configured desired \<longleftrightarrow>
     configured = [] \<or> configured = ''all'' \<or> desired \<in> set (map TrimSpace (split_on (CHR '','') configured))"

definition effectiveRole :: "string \<Rightarrow> string" where
  "effectiveRole role = (if TrimSpace role = [] then ''all'' else role)"

definition consumerGroup :: "string \<Rightarrow> string \<Rightarrow> string" where
  "consumerGroup base part = (if TrimSpace base = [] then ''exchangely-workers'' else base) @ ''-'' @ part"

definition auth_config :: "config \<Rightarrow> Config" where
  "auth_config c =
     \<lparr>AuthMode = cf_AuthMode c, GoogleClientID = cf_GoogleClientID c, GoogleClientSecret = cf_GoogleClientSecret c,
      GoogleRedirectURI = cf_GoogleRedirectURI c, JWTSecret = cf_JWTSecret c, JWTExpiry = cf_JWTExpiry c,
      RefreshTokenExpiry = cf_RefreshTokenExpiry c, BcryptCost = cf_BcryptCost c, AdminEmail = cf_AdminEmail c\<rparr>"

text \<open>What the steps of the start end in.\<close>

record start_env =
  st_open :: "string option"
  st_migrate :: "string option"
  st_seed :: "string option"
  st_cipher :: "string \<Rightarrow> string option"
  st_assets :: "string option"

text \<open>The parts that run, and what they are configured with.\<close>

record app =
  ap_auth :: "Service option"
  ap_portfolio :: bool
  ap_planner :: bool
  ap_worker :: bool
  ap_kafka :: bool
  ap_planner_cap :: int
  ap_worker_cap :: int
  ap_task_group :: string
  ap_market_group :: string

definition app_New :: "start_env \<Rightarrow> config \<Rightarrow> (string, app) result" where
  "app_New env c =
     (if ValidateAuthConfig c \<noteq> [] then Inl (''invalid auth configuration: '' @ join_with (ValidateAuthConfig c) ''; '')
      else if ValidatePortfolioConfig c \<noteq> [] then Inl (''invalid portfolio configuration: '' @ join_with (ValidatePortfolioConfig c) ''; '')
      else case st_open env of Some e \<Rightarrow> Inl (''open database: '' @ e) | None \<Rightarrow>
      (case st_migrate env of Some e \<Rightarrow> Inl (''migrate database: '' @ e) | None \<Rightarrow>
      (case st_seed env of Some e \<Rightarrow> Inl (''seed catalog: '' @ e) | None \<Rightarrow>
      (case (if cf_PortfolioEnabled c then st_cipher env (cf_PortfolioEncryptionKey c) else None) of
         Some e \<Rightarrow> Inl (''portfolio encryption service: '' @ e) | None \<Rightarrow>
      (case (if cf_PortfolioEnabled c then st_assets env else None) of
         Some e \<Rightarrow> Inl (''loading asset catalog for portfolio: '' @ e) | None \<Rightarrow>
      Inr \<lparr>ap_auth = (if AuthEnabled c then Some (NewService (auth_config c)) else None), ap_portfolio = cf_PortfolioEnabled c,
           ap_planner = hasRole (cf_Role c) ''planner'', ap_worker = hasRole (cf_Role c) ''worker'',
           ap_kafka = (cf_KafkaBrokers c \<noteq> []),
           ap_planner_cap = ComputeBackfillTaskCap (cf_WorkerBatchSize c) (cf_PlannerBackfillBatchPct c),
           ap_worker_cap = ComputeBackfillTaskCap (cf_WorkerBatchSize c) (cf_WorkerBackfillBatchPct c),
           ap_task_group = consumerGroup (cf_KafkaConsumerGroup c) ''tasks'', ap_market_group = consumerGroup (cf_KafkaConsumerGroup c) ''market''\<rparr>)))))"

section \<open>What a started program is configured with\<close>

text \<open>
  \<^bold>\<open>C39\<close>. A program that starts has authentication exactly when a mode is configured; then tokens are never signed with an empty secret, each method
  that the mode names is on, single sign-on included, and no other, and one of them is on.
\<close>

theorem startup_auth_sound:
  assumes "app_New env c = Inr a"
  shows "case ap_auth a of
      None \<Rightarrow> cf_AuthMode c = []
    | Some s \<Rightarrow> cf_AuthMode c \<noteq> [] \<and> JWTSecret (cfg s) \<noteq> [] \<and> (localEnabled s \<longleftrightarrow> AuthModeHasLocal c) \<and> (ssoEnabled s \<longleftrightarrow> AuthModeHasSSO c) \<and>
        (localEnabled s \<or> ssoEnabled s)"
proof -
  have valid: "ValidateAuthConfig c = []" and a: "ap_auth a = (if AuthEnabled c then Some (NewService (auth_config c)) else None)"
    using assms by (auto simp: app_New_def split: if_splits option.splits)
  show ?thesis
  proof (cases "AuthEnabled c")
    case True
    then have mode: "cf_AuthMode c \<in> {''local'', ''sso'', ''local,sso'', ''sso,local''}" and jwt: "cf_JWTSecret c \<noteq> []"
      and sso: "AuthModeHasSSO c \<longrightarrow> cf_GoogleClientID c \<noteq> [] \<and> cf_GoogleClientSecret c \<noteq> []"
      using valid by (auto simp: ValidateAuthConfig_def split: if_splits)
    have "go_contains m ''local'' \<or> go_contains m ''sso''" if "m \<in> {''local'', ''sso'', ''local,sso'', ''sso,local''}" for m
      using that by (auto simp: go_contains_def sublist_def Cons_eq_append_conv)
    then have "AuthModeHasLocal c \<or> AuthModeHasSSO c" using mode unfolding AuthModeHasLocal_def AuthModeHasSSO_def by blast
    then show ?thesis using True jwt sso
      by (auto simp: a AuthEnabled_def NewService_def auth_config_def localEnabled_def ssoEnabled_def AuthModeHasLocal_def AuthModeHasSSO_def)
  qed (simp add: a AuthEnabled_def)
qed

definition demo_config :: config where
  "demo_config = Load [''BACKEND_AUTH_MODE'' \<mapsto> '' Local,SSO'', ''BACKEND_JWT_SECRET'' \<mapsto> ''s'', ''BACKEND_ADMIN_EMAIL'' \<mapsto> ''a@b.c'',
     ''BACKEND_GOOGLE_CLIENT_ID'' \<mapsto> ''i'', ''BACKEND_GOOGLE_CLIENT_SECRET'' \<mapsto> ''k''] Inl"

definition demo_start :: start_env where
  "demo_start = \<lparr>st_open = None, st_migrate = None, st_seed = None, st_cipher = (\<lambda>k. None), st_assets = None\<rparr>"

lemma demo_mode: "normalizeAuthMode '' Local,SSO'' = ''local,sso''" "go_contains ''local,sso'' ''local''" "go_contains ''local,sso'' ''sso''"
  by code_simp+

lemma demo_config_simps:
  "cf_AuthMode demo_config = ''local,sso''" "cf_JWTSecret demo_config = ''s''" "cf_AdminEmail demo_config = ''a@b.c''"
  "cf_GoogleClientID demo_config = ''i''" "cf_GoogleClientSecret demo_config = ''k''" "\<not> cf_PortfolioEnabled demo_config"
  by (simp_all add: demo_config_def Load_def getenv_def demo_mode parseBool_def)

theorem startup_auth_sound_witness:
  "\<exists>a s. app_New demo_start demo_config = Inr a \<and> ap_auth a = Some s \<and> localEnabled s \<and> ssoEnabled s \<and> JWTSecret (cfg s) \<noteq> []"
proof -
  have mode: "AuthModeHasLocal demo_config" "AuthModeHasSSO demo_config"
    by (simp_all add: AuthModeHasLocal_def AuthModeHasSSO_def demo_config_simps demo_mode)
  have "ValidateAuthConfig demo_config = []" "ValidatePortfolioConfig demo_config = []"
    by (simp_all add: ValidateAuthConfig_def ValidatePortfolioConfig_def demo_config_simps)
  then obtain a where a: "app_New demo_start demo_config = Inr a" by (simp add: app_New_def demo_start_def demo_config_simps)
  from startup_auth_sound [OF a] mode show ?thesis using a by (auto simp: demo_config_simps split: option.splits)
qed

text \<open>The shares of a batch are percentages, so the limits derived from them never exceed the batch.\<close>

lemma parsePercent_bounds: "0 \<le> parsePercent v d \<and> parsePercent v d \<le> 100"
  by (simp add: parsePercent_def Let_def)

lemma started_caps:
  assumes "app_New env c = Inr a" "0 \<le> cf_WorkerBatchSize c"
  shows "0 \<le> ap_planner_cap a \<and> ap_planner_cap a \<le> cf_WorkerBatchSize c \<and> 0 \<le> ap_worker_cap a \<and> ap_worker_cap a \<le> cf_WorkerBatchSize c"
proof -
  have "0 \<le> ComputeBackfillTaskCap b p \<and> ComputeBackfillTaskCap b p \<le> b" if "0 \<le> b" for b p
    using that by (auto simp: ComputeBackfillTaskCap_def Let_def)
  then show ?thesis using assms by (auto simp: app_New_def split: if_splits option.splits)
qed

section \<open>Durations that are not what they seem\<close>

text \<open>The defaults are read as written.\<close>

lemma default_durations:
  "parseDuration ''168h'' = 7 * Day" "parseDuration ''15m'' = 15 * Minute" "parseDuration ''1m'' = Minute" "parseDuration ''24h'' = Day"
  by code_simp+

text \<open>Days are no unit: a lifetime of seven days written as \<^verbatim>\<open>7d\<close> becomes the fallback of 15 seconds for every setting.\<close>

lemma days_not_understood: "parseDuration ''7d'' = 15 * Second" "parseDuration ''60'' = 15 * Second"
  by code_simp+

text \<open>Nothing keeps the interval of a loop from being zero or negative, for which \<^verbatim>\<open>time.NewTicker\<close> panics.\<close>

lemma zero_tick: "cf_PlannerTick (Load [''BACKEND_PLANNER_TICK'' \<mapsto> ''0''] pf) = 0"
  by (simp add: Load_def getenv_def parseDuration_def ParseDuration_def)

text \<open>A role of blanks is reported as all roles, and runs neither the planner nor the worker.\<close>

lemma blank_role: "effectiveRole '' '' = ''all''" "\<not> hasRole '' '' ''planner''" "\<not> hasRole '' '' ''worker''"
  by code_simp+

end
