(* ===== verification/Ledger_Repo.thy ===== *)
theory Ledger_Repo
  imports Portfolio_Repo
begin

text \<open>
  \<^verbatim>\<open>storage/postgres/portfolio_ledger_repository.go\<close>: the table of Ledger credentials, one per user. No other part of the program
  uses it. Proved: the constraints of the table hold after any sequence of operations, and what a user stores is what the user finds.
\<close>

record LedgerCredential =
  lg_ID :: uuid_text
  lg_UserID :: uuid_text
  lg_TokenCipher :: string
  lg_TokenNonce :: string
  lg_LastSyncAt :: "gotime option"
  lg_CreatedAt :: gotime
  lg_UpdatedAt :: gotime

definition ledger_Create ::
    "string option \<Rightarrow> gotime \<Rightarrow> LedgerCredential \<Rightarrow> LedgerCredential list \<Rightarrow> LedgerCredential port_result \<times> LedgerCredential list" where
  "ledger_Create err now c rs =
     (case err of
        Some e \<Rightarrow> (Inl (SqlError e), rs)
      | None \<Rightarrow>
          if list_ex (\<lambda>r. lg_ID r = lg_ID c) rs then (Inl (UniqueViolation ''ledger_credentials_pkey''), rs)
          else if list_ex (\<lambda>r. lg_UserID r = lg_UserID c) rs then (Inl (UniqueViolation ''ledger_credentials_user_id_key''), rs)
          else let row = c\<lparr>lg_CreatedAt := now, lg_UpdatedAt := now\<rparr> in (Inr row, rs @ [row\<lparr>lg_LastSyncAt := None\<rparr>]))"

definition ledger_FindByUserID :: "string option \<Rightarrow> uuid_text \<Rightarrow> LedgerCredential list \<Rightarrow> LedgerCredential option port_result" where
  "ledger_FindByUserID err userID rs = query_row err (\<lambda>r. lg_UserID r = userID) rs"

definition ledger_Delete :: "string option \<Rightarrow> uuid_text \<Rightarrow> LedgerCredential list \<Rightarrow> unit port_result \<times> LedgerCredential list" where
  "ledger_Delete err userID rs = exec_delete err (\<lambda>r. lg_UserID r = userID) rs"

definition ledger_UpdateSyncTime ::
    "string option \<Rightarrow> gotime \<Rightarrow> uuid_text \<Rightarrow> gotime \<Rightarrow> LedgerCredential list \<Rightarrow> unit port_result \<times> LedgerCredential list" where
  "ledger_UpdateSyncTime err now i syncTime rs =
     exec_update err (\<lambda>r. lg_ID r = i) (\<lambda>r. r\<lparr>lg_LastSyncAt := Some syncTime, lg_UpdatedAt := now\<rparr>) rs"

inductive ledger_table :: "LedgerCredential list \<Rightarrow> bool" where
  empty: "ledger_table []"
| create: "ledger_table rs \<Longrightarrow> ledger_table (snd (ledger_Create err now c rs))"
| delete: "ledger_table rs \<Longrightarrow> ledger_table (snd (ledger_Delete err u rs))"
| synced: "ledger_table rs \<Longrightarrow> ledger_table (snd (ledger_UpdateSyncTime err now i t rs))"

lemma find_SomeD: "find P xs = Some x \<Longrightarrow> x \<in> set xs \<and> P x"
  by (auto simp: find_Some_iff)

lemma one_ledger_per_user: "ledger_table rs \<Longrightarrow> distinct (map lg_ID rs) \<and> distinct (map lg_UserID rs)"
proof (induction rule: ledger_table.induct)
  case (create rs err now c)
  then show ?case by (auto simp: ledger_Create_def Let_def list_ex_iff split: option.splits)
next
  case (delete rs err u)
  then show ?case by (auto simp: ledger_Delete_def exec_delete_def sql_delete_def distinct_map_filter split: option.splits)
next
  case (synced rs err now i t)
  have "map lg_ID (snd (ledger_UpdateSyncTime err now i t rs)) = map lg_ID rs" "map lg_UserID (snd (ledger_UpdateSyncTime err now i t rs)) = map lg_UserID rs"
    by (auto simp: ledger_UpdateSyncTime_def exec_update_def sql_update_def split: option.splits)
  then show ?case using synced by simp
qed simp

lemma ledger_create_find:
  assumes "ledger_Create None now c rs = (Inr row, rs')"
  shows "ledger_FindByUserID None (lg_UserID c) rs' = Inr (Some (row\<lparr>lg_LastSyncAt := None\<rparr>))"
  using assms by (auto simp: ledger_Create_def ledger_FindByUserID_def query_row_def Let_def find_append list_ex_iff split: if_splits option.splits dest!: find_SomeD)

end
