(* ===== verification/Spec2Isabelle.thy ===== *)
theory Spec2Isabelle
  imports PnL_Engine Planner_Runtime Worker Executor_Props Api_Limiter Auth_Safety Middleware Portfolio_Props Recompute_Props Valuation Catalog System_Service
    Portfolio_Handlers Auth_Handlers Exchange_Safety Api_Safety Connector_Props Messaging_Props Ticker_Stats Configuration Ledger_Repo
begin

text \<open>
  \<^bold>\<open>Verification of the Exchangely backend\<close> (\<^verbatim>\<open>src/backend/internal\<close>, Go).

  Exchangely collects market data. A \<^emph>\<open>planner\<close>, of which one instance at a time holds a lease, turns the state of the
  tracked pairs into tasks and stores them in the table \<^verbatim>\<open>tasks\<close>. \<^emph>\<open>Workers\<close> claim the tasks, run the executor of
  their type under a lock per pair, and record the outcome. The executors fetch candles from exchanges, store them raw and
  consolidated, track how far the data has been synchronised and checked, and prune the task table. A \<^emph>\<open>portfolio\<close>
  part keeps the holdings of the users, synchronises them with exchanges and wallets, values them, and computes profit and loss of the
  transactions. Services read the tables for an HTTP API, push changes to the browsers, and sit behind middleware for authentication and
  request limits.

  \<^bold>\<open>Theories.\<close> In the order in which they build on each other:

  \<^item> \<^verbatim>\<open>Prelude\<close>, \<^verbatim>\<open>Go_Time\<close>, \<^verbatim>\<open>Go_Float\<close>, \<^verbatim>\<open>Go_Strings\<close>, \<^verbatim>\<open>Sql\<close>: what the
    program uses of Go and of PostgreSQL. Results and errors as sums, decimal printing and parsing, maps with their iteration order as an
    argument, \<^verbatim>\<open>time.Time\<close> as nanoseconds with the civil calendar and its text form, IEEE doubles as rationals with
    rounding, infinities and NaN, \<^verbatim>\<open>strings\<close> and encodings on byte strings, and tables as lists of rows
    with \<^verbatim>\<open>UPDATE\<close>, \<^verbatim>\<open>INSERT ... ON CONFLICT\<close>, \<^verbatim>\<open>DELETE\<close> and \<^verbatim>\<open>ORDER BY\<close>.
  \<^item> \<^verbatim>\<open>Task_Domain\<close> (\<^verbatim>\<open>domain/task\<close>, \<^verbatim>\<open>domain/pair\<close>, \<^verbatim>\<open>domain/lease\<close>): tasks, their types,
    descriptions and cadences.
  \<^item> \<^verbatim>\<open>Scheduler\<close> (\<^verbatim>\<open>planner/scheduler.go\<close>): one function per \<^verbatim>\<open>Build...Tasks\<close>. The backfill
    loop is a \<^verbatim>\<open>partial_function\<close>, because it may run forever. Proved: it terminates for a positive budget, fills it, and
    deals it to the due pairs in turn; every task is for a due pair with a window of the right width; gap sweeps are planned exactly for
    pairs with a gap; with a budget that is not positive it does not return.
  \<^item> \<^verbatim>\<open>Task_Repo\<close> (\<^verbatim>\<open>storage/postgres/task_repository.go\<close>): the task table with every statement on it. Proved: an
    invariant of all reachable tables, claims are exclusive under every interleaving, the phases of a batch, idempotent
    enqueue, the retry policy, pruning.
  \<^item> \<^verbatim>\<open>Sync_Repo\<close> (\<^verbatim>\<open>sync_repository.go\<close>, \<^verbatim>\<open>coverage_repository.go\<close>, \<^verbatim>\<open>integrity_repository.go\<close>):
    progress of synchronisation, covered and verified days.
  \<^item> \<^verbatim>\<open>Lease_Repo\<close> (\<^verbatim>\<open>lease_repository.go\<close>, \<^verbatim>\<open>coordinator/lease_manager.go\<close>): the contract of a lease is
    the locale \<^verbatim>\<open>lease_service\<close>, in which it is proved that two holders never overlap; the repository interprets it.
  \<^item> \<^verbatim>\<open>Planner_Runtime\<close> (\<^verbatim>\<open>planner/runtime.go\<close>): one tick over lease, sync state, scheduler and task table. Proved:
    an instance without the lease changes nothing, a tick returns, and it schedules every pair.
  \<^item> \<^verbatim>\<open>Consolidate\<close> (\<^verbatim>\<open>consolidate/consolidate.go\<close>), \<^verbatim>\<open>Market_Repo\<close> (\<^verbatim>\<open>market_repository.go\<close>),
    \<^verbatim>\<open>Executors\<close> and \<^verbatim>\<open>Executor_Props\<close> (\<^verbatim>\<open>ingest/provider\<close>, \<^verbatim>\<open>ingest/realtime\<close>,
    \<^verbatim>\<open>worker/*_executor.go\<close>): candles, sources and the executors of market data. Proved: what a consolidated candle is, that the
    registry takes the first usable source, and two defects of the sweeps over days.
  \<^item> \<^verbatim>\<open>Worker\<close> (\<^verbatim>\<open>worker/processor.go\<close>, \<^verbatim>\<open>cleanup_executor.go\<close>, \<^verbatim>\<open>pair_lock.go\<close>, the routing table of
    \<^verbatim>\<open>app/app.go\<close>): the contract of an executor is the locale \<^verbatim>\<open>task_executor\<close>, a router over executors is a sublocale,
    and both are interpreted on the executors of the application. Proved: a batch is settled, executions of a pair exclude each other
    under every interleaving of workers and planners (an inductive step relation), a call of \<^verbatim>\<open>Process\<close> is a run of
    that relation, and a failed lock strands a task.
  \<^item> \<^verbatim>\<open>Portfolio_Types\<close> and \<^verbatim>\<open>PnL_Engine\<close> (\<^verbatim>\<open>domain/portfolio\<close>, \<^verbatim>\<open>portfolio/pnl_engine.go\<close>): FIFO
    profit and loss on doubles. Proved: the sell loop refines exact FIFO matching on integers, conserves quantities, keeps lots positive;
    the snapshot adds up.
  \<^item> \<^verbatim>\<open>Login_Limiter\<close> and \<^verbatim>\<open>Api_Limiter\<close> (\<^verbatim>\<open>auth/ratelimit.go\<close>, \<^verbatim>\<open>auth/apiratelimit.go\<close>,
    \<^verbatim>\<open>ratelimit_repository.go\<close>): the pruning limiter answers as one that keeps every failure; exactly how many API requests
    get through.
  \<^item> \<^verbatim>\<open>Auth_Repo\<close>, \<^verbatim>\<open>Auth_Service\<close>, \<^verbatim>\<open>Auth_Safety\<close> (\<^verbatim>\<open>auth/*.go\<close>, the repositories of accounts, sessions and
    API tokens): every operation of the service, and what holds of every sequence of them: an invariant of the tables, sessions only for enabled
    accounts, rotation of refresh tokens, password changes end sessions, the acting administrator remains.
  \<^item> \<^verbatim>\<open>Middleware\<close> (\<^verbatim>\<open>httpapi/middleware\<close>, the chain of \<^verbatim>\<open>router.New\<close>): protected routes are only reached
    with a valid token, administration routes only by administrators.

  \<^item> \<^verbatim>\<open>Portfolio_Repo\<close>, \<^verbatim>\<open>Portfolio_Service\<close>, \<^verbatim>\<open>Portfolio_Props\<close> (\<^verbatim>\<open>portfolio/service.go\<close>,
    \<^verbatim>\<open>validation.go\<close>, \<^verbatim>\<open>encryption.go\<close>, the repositories of holdings, credentials and wallets): every operation, with the
    ciphers and the connectors as arguments. Proved: no call of one user touches the rows of another, stored credentials decrypt to what
    was entered; notes are stored in clear and assets that were sold stay.
  \<^item> \<^verbatim>\<open>Transactions\<close>, \<^verbatim>\<open>Transaction_Props\<close>, \<^verbatim>\<open>Recompute_Props\<close> (\<^verbatim>\<open>portfolio/transaction_service.go\<close>,
    \<^verbatim>\<open>price_resolver.go\<close>, \<^verbatim>\<open>transaction_repository.go\<close>, \<^verbatim>\<open>pnl_repository.go\<close>, the recompute and refresh
    executors): how prices are resolved, that paging through all transactions revalues each exactly once, that edits by hand survive,
    that recomputes are debounced, and that a published recompute never runs.
  \<^item> \<^verbatim>\<open>Valuation\<close> (\<^verbatim>\<open>portfolio/valuation.go\<close>, \<^verbatim>\<open>notifier.go\<close>, \<^verbatim>\<open>sse.go\<close>,
    \<^verbatim>\<open>service/market_data_adapter.go\<close>): the value of a portfolio now and over time. Proved: valuations are well-formed, and the
    loop that carries prices forward computes the sum over the latest candles.
  \<^item> \<^verbatim>\<open>Catalog\<close> (\<^verbatim>\<open>service/catalog.go\<close>, \<^verbatim>\<open>catalog_repository.go\<close>): seeding at start-up. Proved: it always succeeds and
    brings the tables in line with the configuration; together with the scheduler, a pair that comes back is never backfilled again for the
    days that were complete.
  \<^item> \<^verbatim>\<open>Fan_Out\<close>: the contract of the program's publishers as the locale \<^verbatim>\<open>fan_out\<close>, interpreted by the portfolio broadcaster, the
    market service, the task streams and the news streams.
  \<^item> \<^verbatim>\<open>Market_Service\<close> (\<^verbatim>\<open>service/market.go\<close>): caches and event streams, as whole operations and cut at their locks. Proved: no
    update is lost, the cache is coherent and bounded for whole operations, and an overlapping read leaves it stale.
  \<^item> \<^verbatim>\<open>System_Service\<close> (\<^verbatim>\<open>service/system.go\<close>, \<^verbatim>\<open>warning_dismissal_repository.go\<close>): the tasks to come with their
    forecasts, health, warnings. Proved: what the first page shows, and that a dismissed warning stays away until its fingerprint changes.
  \<^item> \<^verbatim>\<open>Http_Requests\<close>, \<^verbatim>\<open>Portfolio_Handlers\<close>, \<^verbatim>\<open>Auth_Handlers\<close> (\<^verbatim>\<open>httpapi/handlers\<close>, the routes of
    \<^verbatim>\<open>router.New\<close> that lead to them): every handler with its status codes, bodies and cookies. Proved: portfolio requests without a
    session are refused, no request touches the data of another user; the lockout by address is evaded by new connections, and how weak
    passwords are answered.
  \<^item> \<^verbatim>\<open>News\<close> (\<^verbatim>\<open>service/news.go\<close>, \<^verbatim>\<open>news_repository.go\<close>, \<^verbatim>\<open>news_executor.go\<close>): feeds, their table and the
    streams. Proved: what a news task stores and whom it wakes; an item without a readable date stays on top.
  \<^item> \<^verbatim>\<open>Exchange_Clients\<close>, \<^verbatim>\<open>Exchange_Props\<close>, \<^verbatim>\<open>Exchange_Safety\<close> (\<^verbatim>\<open>ingest/binance\<close>, \<^verbatim>\<open>kraken\<close>,
    \<^verbatim>\<open>coingecko\<close>, \<^verbatim>\<open>binancevision\<close>, \<^verbatim>\<open>cryptodatadownload\<close>, \<^verbatim>\<open>buildSources\<close> of \<^verbatim>\<open>app/app.go\<close>): the clients
    behind the registry. What a source promises is the locale \<^verbatim>\<open>market_source\<close>, extended by \<^verbatim>\<open>archive_source\<close> for those that keep to
    the window, interpreted by the five clients; \<^verbatim>\<open>back_off\<close> is the contract of holding back after a rate limit. Proved: what an
    executor gets through the registry of the application, that a rate limit silences a client, and that the minutes of Binance make
    the integrity check of a day fail.
  \<^item> \<^verbatim>\<open>Api_Router\<close>, \<^verbatim>\<open>Api_Safety\<close> (the rest of \<^verbatim>\<open>httpapi/router/router.go\<close>): the handlers of the market, news and
    system pages, the steps of the event streams, cross-origin requests, and the whole chain in front of the portfolio. Proved: only a valid
    access token lets a request change portfolio data, and only that of its user; the ticker stream keeps a browser up to date.

  \<^item> \<^verbatim>\<open>Portfolio_Connectors\<close>, \<^verbatim>\<open>Connector_Props\<close> (\<^verbatim>\<open>portfolio/exchange\<close>, \<^verbatim>\<open>portfolio/wallet\<close>,
    \<^verbatim>\<open>portfolio/ledger\<close>): from the answers of exchanges and chains to balances and trades. The locale \<^verbatim>\<open>retrying\<close> is what a
    connector promises that tries again. Proved: the Bitcoin balance is exact in spite of wrap-around, all pages of a trade history are collected,
    the last of several balances of one asset wins, so a token that calls itself ETH replaces the ether of a wallet.
  \<^item> \<^verbatim>\<open>Ticker_Stats\<close> (the ticker queries of \<^verbatim>\<open>market_repository.go\<close>): each common table expression, the variations and the sparklines.
    Proved: the price is that of the newest candle, sparklines are short and ordered, and variations vanish at the start of every hour.
  \<^item> \<^verbatim>\<open>Messaging\<close>, \<^verbatim>\<open>Messaging_Props\<close> (\<^verbatim>\<open>messaging/kafka\<close>): publishers, the consumers of tasks and market events, topics. The
    locale \<^verbatim>\<open>candle_sink\<close> is what the consumer relies on, interpreted by the realtime ingestion. Proved: what is committed is stored and its hour
    consolidated, published candles arrive, redelivered tasks change nothing.
  \<^item> \<^verbatim>\<open>Configuration\<close> (\<^verbatim>\<open>config/config.go\<close>, the decisions of \<^verbatim>\<open>app.New\<close>): the environment, its validation and what starts. Proved: a
    program that starts has a sound authentication; which durations and roles are not what they seem.
  \<^item> \<^verbatim>\<open>Ledger_Repo\<close> (\<^verbatim>\<open>portfolio_ledger_repository.go\<close>): the table of Ledger credentials, with its invariant.

  \<^bold>\<open>Conventions.\<close> State is passed explicitly, as records of tables. The outcome of a call to the database, the broker, an exchange or the
  clock is an argument: \<^verbatim>\<open>db k\<close> is the error of the \<^verbatim>\<open>k\<close>-th database call of a method, \<^verbatim>\<open>None\<close> when it succeeds. So
  a theorem speaks about every combination of failures unless it says otherwise. What Go leaves open (the order of ranging over a map, of equal
  elements in \<^verbatim>\<open>sort.Slice\<close>, of rows with equal keys) is an argument as well, constrained only to permute. Errors are the text of
  \<^verbatim>\<open>err.Error()\<close> or a datatype, panics are values. There is no fuel: every loop is structural, has a measure, or is
  a \<^verbatim>\<open>partial_function\<close> in the option monad for which returning is proved.

  \<^bold>\<open>Not modelled.\<close> The network, the broker and the HTTP server are I/O behind the interfaces above; what a request ends in is an argument.
  The libraries for JWT, bcrypt, SHA-256, UUID, IP addresses, JSON, XML, CSV and ZIP are arguments of the definitions that call them, or their
  decoded values are. Connections, migrations, health pings, shutdown and the embedded OpenAPI text have no logic of their own. Logging is left
  out, except where computing a log argument can panic. Ticker loops (\<^verbatim>\<open>Run\<close>) only repeat the modelled step.
\<close>

end
